(* ===== verification/Prelude.thy ===== *)
theory Prelude
  imports
    Main
    "HOL-Library.List_Lexorder"
    "HOL-Library.Char_ord"
    "HOL-Library.AList"
    "HOL-Library.Multiset"
begin

text \<open>
  Shared vocabulary of the development.

  \<^item> \<open>time\<close> and \<open>duration\<close> are Go's \<open>time.Time\<close> and \<open>time.Duration\<close>, in nanoseconds; the zero
    time (\<open>IsZero\<close>) is \<open>0\<close>.  A call of \<open>time.Now()\<close> is an argument of the operation that makes it.
  \<^item> \<open>bytes\<close> is a byte slice; \<open>bytes option\<close> is used where the code distinguishes a \<open>nil\<close> slice.
  \<^item> \<open>go_error\<close> has one constructor per kind of error the code tells apart: the warnings of
    pkg/types/types.go, the HTTP and authorisation errors of pkg/insights/insightsclient and
    pkg/authorizer, the status errors of the API server that the code asks about with
    \<open>IsNotFound\<close>, \<open>IsForbidden\<close> and \<open>IsAlreadyExists\<close>, the joined error of pkg/utils/errors.go, and
    \<open>Errorf\<close> for every other error, which is known by its text only.
  \<^item> A Go map that the code iterates over is an association list with distinct keys: the order of the
    list is the (unspecified) iteration order, so a theorem about every list covers every order.
\<close>

type_synonym time = int
type_synonym duration = int
type_synonym bytes = string
type_synonym ('k, 'v) gomap = "('k \<times> 'v) list"

abbreviation (input) Nanosecond :: duration where "Nanosecond \<equiv> 1"
abbreviation (input) Millisecond :: duration where "Millisecond \<equiv> 1000000"
abbreviation (input) Second :: duration where "Second \<equiv> 1000000000"
abbreviation (input) Minute :: duration where "Minute \<equiv> 60000000000"
abbreviation (input) Hour :: duration where "Hour \<equiv> 3600000000000"

named_theorems status_simps \<open>rewriting of the condition and status operations\<close>
named_theorems config_simps \<open>unfolding of the configuration records\<close>
named_theorems anon_simps \<open>rewriting of the address arithmetic\<close>

datatype go_error =
    Errorf string
  | WarningErr go_error
  | HttpError string int
  | AuthError string
  | ErrWaitingForVersion
  | NotFoundErr string
  | ForbiddenErr string
  | AlreadyExistsErr string
  | JoinError "go_error list"

type_synonym 'a result = "go_error + 'a"

definition isNotFound :: "go_error \<Rightarrow> bool" where
  "isNotFound e = (case e of NotFoundErr _ \<Rightarrow> True | _ \<Rightarrow> False)"

definition isForbidden :: "go_error \<Rightarrow> bool" where
  "isForbidden e = (case e of ForbiddenErr _ \<Rightarrow> True | _ \<Rightarrow> False)"

definition isAlreadyExists :: "go_error \<Rightarrow> bool" where
  "isAlreadyExists e = (case e of AlreadyExistsErr _ \<Rightarrow> True | _ \<Rightarrow> False)"

definition isWarning :: "go_error \<Rightarrow> bool" where
  "isWarning e = (case e of WarningErr _ \<Rightarrow> True | _ \<Rightarrow> False)"

section \<open>Association lists as Go maps\<close>

abbreviation map_get :: "('k, 'v) gomap \<Rightarrow> 'k \<Rightarrow> 'v option" where
  "map_get m k \<equiv> map_of m k"

abbreviation map_put :: "'k \<Rightarrow> 'v \<Rightarrow> ('k, 'v) gomap \<Rightarrow> ('k, 'v) gomap" where
  "map_put k v m \<equiv> AList.update k v m"

definition map_has :: "('k, 'v) gomap \<Rightarrow> 'k \<Rightarrow> bool" where
  "map_has m k = (map_of m k \<noteq> None)"

lemma map_get_put [simp]: "map_get (map_put k v m) k' = (if k' = k then Some v else map_get m k')"
  by (simp add: AList.update_conv')

lemma map_has_put [simp]: "map_has (map_put k v m) k' = (k' = k \<or> map_has m k')"
  by (simp add: map_has_def)

lemma distinct_map_put [intro]:
  "distinct (map fst m) \<Longrightarrow> distinct (map fst (map_put k v m))"
  by (rule AList.distinct_update)

lemma set_map_put_subset: "set (map_put k v m) \<subseteq> insert (k, v) (set m)"
  by (induction m) auto

lemma map_put_fresh: "map_get m k = None \<Longrightarrow> map_put k v m = m @ [(k, v)]"
  by (induction m) (auto split: if_splits)

lemma sum_list_map_put:
  fixes f :: "'v \<Rightarrow> int"
  assumes "distinct (map fst m)"
  shows "sum_list (map (\<lambda>(k, v). f v) (map_put k v m)) =
    sum_list (map (\<lambda>(k, v). f v) m) + f v - (case map_get m k of None \<Rightarrow> 0 | Some w \<Rightarrow> f w)"
  using assms
proof (induction m)
  case Nil
  then show ?case by simp
next
  case (Cons p m)
  obtain k' v' where p: "p = (k', v')" by (cases p)
  from Cons.prems p have d: "distinct (map fst m)" and n: "k' \<notin> fst ` set m" by auto
  show ?case
  proof (cases "k = k'")
    case True
    then show ?thesis by (simp add: p)
  next
    case False
    with Cons.IH [OF d] show ?thesis by (simp add: p)
  qed
qed

section \<open>Last match in a list\<close>

text \<open>
  Several loops of the code walk a whole slice and remember the last element that matches (they have
  no \<open>break\<close>); \<open>last_idx\<close> and \<open>find_last\<close> are what such a loop computes.
\<close>

fun last_idx :: "('a \<Rightarrow> bool) \<Rightarrow> 'a list \<Rightarrow> nat option" where
  "last_idx P [] = None"
| "last_idx P (x # xs) =
     (case last_idx P xs of Some i \<Rightarrow> Some (Suc i) | None \<Rightarrow> if P x then Some 0 else None)"

definition find_last :: "('a \<Rightarrow> bool) \<Rightarrow> 'a list \<Rightarrow> 'a option" where
  "find_last P xs = fold (\<lambda>x acc. if P x then Some x else acc) xs None"

lemma last_idx_None: "last_idx P xs = None \<longleftrightarrow> (\<forall>x \<in> set xs. \<not> P x)"
  by (induction xs) (auto split: option.splits)

lemma last_idx_Some: "last_idx P xs = Some i \<Longrightarrow> i < length xs \<and> P (xs ! i)"
  by (induction xs arbitrary: i) (auto split: option.splits if_splits)

lemma last_idx_later: "last_idx P xs = Some i \<Longrightarrow> i < j \<Longrightarrow> j < length xs \<Longrightarrow> \<not> P (xs ! j)"
proof (induction xs arbitrary: i j)
  case Nil
  then show ?case by simp
next
  case (Cons x xs)
  show ?case
  proof (cases "last_idx P xs")
    case None
    with Cons.prems have "i = 0" by (auto split: if_splits)
    with Cons.prems None show ?thesis
      by (cases j) (auto simp: last_idx_None)
  next
    case (Some k)
    with Cons.prems have "i = Suc k" by simp
    with Cons.prems Some Cons.IH [of k "j - 1"] show ?thesis
      by (cases j) auto
  qed
qed

lemma fold_last_acc:
  "fold (\<lambda>x acc. if P x then Some x else acc) xs a =
    (case last_idx P xs of None \<Rightarrow> a | Some i \<Rightarrow> Some (xs ! i))"
  by (induction xs arbitrary: a) (auto split: option.splits)

lemma find_last_eq: "find_last P xs = map_option (\<lambda>i. xs ! i) (last_idx P xs)"
  by (simp add: find_last_def fold_last_acc split: option.splits)

lemma find_last_None: "find_last P xs = None \<longleftrightarrow> (\<forall>x \<in> set xs. \<not> P x)"
  by (simp add: find_last_eq last_idx_None)

lemma find_last_Some: "find_last P xs = Some x \<Longrightarrow> x \<in> set xs \<and> P x"
  by (auto simp: find_last_eq dest: last_idx_Some)

lemma last_idx_append:
  "last_idx P (xs @ ys) =
    (case last_idx P ys of Some j \<Rightarrow> Some (length xs + j) | None \<Rightarrow> last_idx P xs)"
  by (induction xs) (auto split: option.splits)

lemma last_idx_update:
  assumes "last_idx P xs = Some i" and "P y"
  shows "last_idx P (xs[i := y]) = Some i"
  using assms
proof (induction xs arbitrary: i)
  case Nil
  then show ?case by simp
next
  case (Cons x xs)
  show ?case
  proof (cases "last_idx P xs")
    case None
    with Cons.prems have "i = 0" by (auto split: if_splits)
    with None Cons.prems(2) show ?thesis by simp
  next
    case (Some k)
    with Cons.prems(1) have "i = Suc k" by simp
    with Cons.IH [OF Some Cons.prems(2)] show ?thesis by simp
  qed
qed

lemma last_idx_cong:
  assumes "length xs = length ys" and "\<And>i. i < length xs \<Longrightarrow> P (xs ! i) = P (ys ! i)"
  shows "last_idx P xs = last_idx P ys"
  using assms
proof (induction xs ys rule: list_induct2)
  case Nil
  then show ?case by simp
next
  case (Cons x xs y ys)
  have "P x = P y" using Cons.prems [of 0] by simp
  moreover have "last_idx P xs = last_idx P ys"
    using Cons.IH Cons.prems [of "Suc _"] by auto
  ultimately show ?case by simp
qed

section \<open>Keyed lists\<close>

text \<open>
  A list of conditions keyed by a type, as the API resources keep it: a lookup returns the last
  element with the key, and a write replaces that element or appends a new one.  The list of
  \<open>metav1.Condition\<close> of a DataGather resource and the list of \<open>ClusterOperatorStatusCondition\<close> of
  the cluster operator are both written this way, so the laws are proved once here.
\<close>

locale keyed_list =
  fixes key :: "'c \<Rightarrow> 'k"
    and get :: "'c list \<Rightarrow> 'k \<Rightarrow> 'c option"
    and put :: "'c \<Rightarrow> 'c list \<Rightarrow> 'c list"
  assumes get_last: "get cs k = find_last (\<lambda>c. key c = k) cs"
    and put_last: "put c cs =
      (case last_idx (\<lambda>d. key d = key c) cs of Some i \<Rightarrow> cs[i := c] | None \<Rightarrow> cs @ [c])"
begin

lemma get_put_same: "get (put c cs) (key c) = Some c"
proof (cases "last_idx (\<lambda>d. key d = key c) cs")
  case None
  then show ?thesis
    by (simp add: get_last put_last find_last_eq last_idx_append)
next
  case (Some i)
  then have "i < length cs" by (auto dest: last_idx_Some)
  with Some show ?thesis
    by (simp add: get_last put_last find_last_eq last_idx_update [OF Some])
qed

lemma get_put_other:
  assumes "k \<noteq> key c"
  shows "get (put c cs) k = get cs k"
proof (cases "last_idx (\<lambda>d. key d = key c) cs")
  case None
  with assms show ?thesis
    by (cases "last_idx (\<lambda>d. key d = k) cs")
      (auto simp: get_last put_last find_last_eq last_idx_append nth_append dest: last_idx_Some)
next
  case (Some i)
  then have i: "i < length cs" and ki: "key (cs ! i) = key c"
    by (auto dest: last_idx_Some)
  have idx: "last_idx (\<lambda>d. key d = k) (cs[i := c]) = last_idx (\<lambda>d. key d = k) cs"
    by (rule last_idx_cong) (use assms ki i in \<open>auto simp: nth_list_update\<close>)
  show ?thesis
  proof (cases "last_idx (\<lambda>d. key d = k) cs")
    case None
    with Some idx show ?thesis by (simp add: get_last put_last find_last_eq)
  next
    case (Some j)
    then have "j < length cs" and "key (cs ! j) = k" by (auto dest: last_idx_Some)
    with assms ki have "j \<noteq> i" by auto
    with Some idx \<open>last_idx (\<lambda>d. key d = key c) cs = Some i\<close> show ?thesis
      by (simp add: get_last put_last find_last_eq)
  qed
qed

lemma keys_put:
  "map key (put c cs) = (if key c \<in> key ` set cs then map key cs else map key cs @ [key c])"
proof (cases "last_idx (\<lambda>d. key d = key c) cs")
  case None
  then have "key c \<notin> key ` set cs" by (auto simp: last_idx_None)
  with None show ?thesis by (simp add: put_last)
next
  case (Some i)
  then have i: "i < length cs" and ki: "key (cs ! i) = key c"
    by (auto dest: last_idx_Some)
  then have "map key (cs[i := c]) = map key cs"
    by (simp add: map_update list_update_same_conv)
  with Some i ki show ?thesis
    by (auto simp: put_last) (metis image_eqI nth_mem)
qed

lemma distinct_put: "distinct (map key cs) \<Longrightarrow> distinct (map key (put c cs))"
  by (auto simp: keys_put)

lemma put_put_same: "put c (put c cs) = put c cs"
proof (cases "last_idx (\<lambda>d. key d = key c) cs")
  case None
  then show ?thesis
    by (simp add: put_last last_idx_append)
next
  case (Some i)
  then show ?thesis
    by (simp add: put_last last_idx_update)
qed

lemma length_put_le: "length (put c cs) \<le> Suc (length cs)"
  by (auto simp: put_last split: option.splits)

end

end
