(* ===== verification/Gostd.thy ===== *)
theory Gostd
  imports Prelude "HOL-Library.Sublist" "HOL-Library.Word"
begin

text \<open>
  The part of Go's standard library that the modelled code calls: \<open>strings\<close> (Split, Join, Fields,
  Contains, ReplaceAll, TrimSpace, TrimSuffix, EqualFold), \<open>strconv\<close> (Itoa, Atoi), \<open>path/filepath\<close>
  (Base, Ext, Clean, Dir, Join on a Unix system) and \<open>net\<close> (ParseIP for dotted IPv4 addresses, IP.To4
  and IP.String).  Strings are byte strings, as Go's are; the white space of \<open>TrimSpace\<close> and \<open>Fields\<close>
  is the ASCII white space.
\<close>

section \<open>Characters\<close>

definition is_digit :: "char \<Rightarrow> bool" where
  "is_digit c = (48 \<le> (of_char c :: nat) \<and> (of_char c :: nat) \<le> 57)"

definition digit_val :: "char \<Rightarrow> nat" where
  "digit_val c = (of_char c :: nat) - 48"

definition digit_char :: "nat \<Rightarrow> char" where
  "digit_char n = char_of (48 + n mod 10)"

definition is_space :: "char \<Rightarrow> bool" where
  "is_space c = (let n = (of_char c :: nat) in 9 \<le> n \<and> n \<le> 13 \<or> n = 32)"

definition to_lower :: "char \<Rightarrow> char" where
  "to_lower c = (let n = (of_char c :: nat) in if 65 \<le> n \<and> n \<le> 90 then char_of (n + 32) else c)"

lemma digit_char_digit [simp]: "is_digit (digit_char n)" "digit_val (digit_char n) = n mod 10"
  by (simp_all add: is_digit_def digit_val_def digit_char_def less_Suc_eq_le [symmetric])

section \<open>Splitting and joining\<close>

fun split_by :: "(char \<Rightarrow> bool) \<Rightarrow> string \<Rightarrow> string list" where
  "split_by P [] = [[]]"
| "split_by P (x # xs) =
     (if P x then [] # split_by P xs
      else (case split_by P xs of [] \<Rightarrow> [[x]] | y # ys \<Rightarrow> (x # y) # ys))"

abbreviation split_on :: "char \<Rightarrow> string \<Rightarrow> string list" where
  "split_on c \<equiv> split_by (\<lambda>x. x = c)"

fun join_with :: "string \<Rightarrow> string list \<Rightarrow> string" where
  "join_with sep [] = []"
| "join_with sep [x] = x"
| "join_with sep (x # y # ys) = x @ sep @ join_with sep (y # ys)"

definition fields :: "string \<Rightarrow> string list" where
  "fields s = filter (\<lambda>w. w \<noteq> []) (split_by is_space s)"

lemma split_by_nonempty [simp]: "split_by P s \<noteq> []"
  by (cases s) (auto split: list.splits)

lemma join_split: "join_with [c] (split_on c s) = s"
proof (induction s)
  case Nil
  then show ?case by simp
next
  case (Cons x xs)
  obtain y ys where y: "split_on c xs = y # ys"
    by (metis split_by_nonempty neq_Nil_conv)
  with Cons.IH show ?case
    by (cases ys) auto
qed

lemma split_by_no_sep: "\<forall>x \<in> set s. \<not> P x \<Longrightarrow> split_by P s = [s]"
  by (induction s) auto

lemma split_on_no_sep [simp]: "c \<notin> set s \<Longrightarrow> split_on c s = [s]"
  by (rule split_by_no_sep) auto

lemma split_by_append_sep:
  assumes "P c"
  shows "split_by P (s @ c # t) = split_by P s @ split_by P t"
proof (induction s)
  case Nil
  with assms show ?case by simp
next
  case (Cons x xs)
  obtain y ys where y: "split_by P xs = y # ys"
    by (metis split_by_nonempty neq_Nil_conv)
  from Cons.IH y show ?case by simp
qed

lemma split_join:
  assumes "xs \<noteq> []" and "\<forall>x \<in> set xs. c \<notin> set x"
  shows "split_on c (join_with [c] xs) = xs"
  using assms
proof (induction xs rule: induct_list012)
  case 1
  then show ?case by simp
next
  case (2 x)
  then show ?case by (auto intro!: split_by_no_sep)
next
  case (3 x y zs)
  then have "split_on c x = [x]" by (auto intro!: split_by_no_sep)
  with 3 show ?case by (simp add: split_by_append_sep)
qed

lemma split_by_pieces: "x \<in> set (split_by P s) \<Longrightarrow> c \<in> set x \<Longrightarrow> \<not> P c"
proof (induction s arbitrary: x)
  case Nil
  then show ?case by simp
next
  case (Cons a s)
  obtain y ys where y: "split_by P s = y # ys"
    by (metis split_by_nonempty neq_Nil_conv)
  show ?case
    using Cons.prems Cons.IH [of y] Cons.IH [of x] y by (auto split: if_splits)
qed

section \<open>Searching and replacing\<close>

fun contains_str :: "string \<Rightarrow> string \<Rightarrow> bool" where
  "contains_str sub [] = (sub = [])"
| "contains_str sub (x # xs) = (prefix sub (x # xs) \<or> contains_str sub xs)"

text \<open>
  \<open>strings.ReplaceAll\<close> and \<open>bytes.ReplaceAll\<close>: non-overlapping occurrences from the left.  An empty
  pattern matches before every character and at the end.
\<close>

function replace_all :: "string \<Rightarrow> string \<Rightarrow> string \<Rightarrow> string" where
  "replace_all old new s =
     (if old = [] then new @ concat (map (\<lambda>c. c # new) s)
      else case s of
        [] \<Rightarrow> []
      | x # xs \<Rightarrow>
          if prefix old s then new @ replace_all old new (drop (length old) s)
          else x # replace_all old new xs)"
  by pat_completeness auto
termination
  by (relation "measure (\<lambda>(old, new, s). length s)") auto

declare replace_all.simps [simp del]

lemma replace_all_hit:
  "old \<noteq> [] \<Longrightarrow> replace_all old new (old @ r) = new @ replace_all old new r"
  by (cases old) (simp, subst replace_all.simps, simp)

lemma replace_all_miss:
  "old \<noteq> [] \<Longrightarrow> \<not> prefix old (x # xs) \<Longrightarrow> replace_all old new (x # xs) = x # replace_all old new xs"
  by (simp add: replace_all.simps [of old new "x # xs"])

lemma replace_all_id: "\<not> contains_str old s \<Longrightarrow> replace_all old new s = s"
proof (induction s)
  case Nil
  then show ?case by (auto simp: replace_all.simps)
next
  case (Cons x xs)
  then show ?case by (subst replace_all.simps) (auto simp: Nil_prefix)
qed

definition trim_space :: "string \<Rightarrow> string" where
  "trim_space s = rev (dropWhile is_space (rev (dropWhile is_space s)))"

definition trim_suffix :: "string \<Rightarrow> string \<Rightarrow> string" where
  "trim_suffix s suf = (if suffix suf s then take (length s - length suf) s else s)"

definition equal_fold_true :: "string \<Rightarrow> bool" where
  "equal_fold_true s = (map to_lower s = ''true'')"

section \<open>Numbers\<close>

fun nat_digits :: "nat \<Rightarrow> string" where
  "nat_digits n = (if n < 10 then [digit_char n] else nat_digits (n div 10) @ [digit_char n])"

declare nat_digits.simps [simp del]

definition itoa :: "int \<Rightarrow> string" where
  "itoa i = (if i < 0 then CHR ''-'' # nat_digits (nat (- i)) else nat_digits (nat i))"

definition digits_val :: "string \<Rightarrow> nat" where
  "digits_val s = foldl (\<lambda>n c. 10 * n + digit_val c) 0 s"

definition atoi :: "string \<Rightarrow> int result" where
  "atoi s =
     (let sgn = (case s of [] \<Rightarrow> 1 | c # _ \<Rightarrow> if c = CHR ''-'' then -1 else 1);
          ds = (case s of [] \<Rightarrow> [] | c # cs \<Rightarrow> if c = CHR ''-'' \<or> c = CHR ''+'' then cs else s)
      in if ds = [] \<or> \<not> list_all is_digit ds then Inl (Errorf ''invalid syntax'')
         else let v = sgn * int (digits_val ds)
              in if v < - (2 ^ 63) \<or> 2 ^ 63 \<le> v then Inl (Errorf ''value out of range'') else Inr v)"

text \<open>Integer division of Go, which truncates towards zero.\<close>

definition go_quot :: "int \<Rightarrow> int \<Rightarrow> int" where
  "go_quot x y = sgn x * sgn y * (\<bar>x\<bar> div \<bar>y\<bar>)"

lemma go_quot_nonneg: "0 \<le> x \<Longrightarrow> 0 < y \<Longrightarrow> go_quot x y = x div y"
  by (cases "x = 0") (auto simp: go_quot_def sgn_if)

lemma nat_digits_all: "list_all is_digit (nat_digits n)" "nat_digits n \<noteq> []"
proof (induction n rule: nat_digits.induct)
  case (1 n)
  {
    case 1
    then show ?case using "1.IH" by (subst nat_digits.simps) auto
  next
    case 2
    then show ?case by (subst nat_digits.simps) auto
  }
qed

lemma digits_val_snoc: "digits_val (s @ [c]) = 10 * digits_val s + digit_val c"
  by (simp add: digits_val_def)

lemma digits_val_nat_digits: "digits_val (nat_digits n) = n"
proof (induction n rule: nat_digits.induct)
  case (1 n)
  show ?case
  proof (cases "n < 10")
    case True
    then show ?thesis by (subst nat_digits.simps) (simp add: digits_val_def)
  next
    case False
    with "1.IH" have "digits_val (nat_digits (n div 10)) = n div 10" by simp
    with False show ?thesis
      by (subst nat_digits.simps) (simp add: digits_val_snoc)
  qed
qed

lemma is_digit_not: "is_digit c \<Longrightarrow> c \<noteq> CHR ''-'' \<and> c \<noteq> CHR ''+'' \<and> c \<noteq> CHR ''.'' \<and> \<not> is_space c"
  by (auto simp: is_digit_def is_space_def)

lemma atoi_itoa:
  assumes "- (2 ^ 63) \<le> i" and "i < 2 ^ 63"
  shows "atoi (itoa i) = Inr i"
proof (cases "i < 0")
  case True
  with assms show ?thesis
    using nat_digits_all [of "nat (- i)"]
    by (simp add: atoi_def itoa_def digits_val_nat_digits Let_def)
next
  case False
  obtain c cs where c: "nat_digits (nat i) = c # cs"
    using nat_digits_all(2) by (metis neq_Nil_conv)
  with nat_digits_all(1) [of "nat i"] have "is_digit c" by simp
  with False assms c show ?thesis
    using nat_digits_all [of "nat i"] digits_val_nat_digits [of "nat i"]
    by (simp add: atoi_def itoa_def Let_def is_digit_not)
qed

section \<open>Paths\<close>

definition strip_slashes :: "string \<Rightarrow> string" where
  "strip_slashes p = rev (dropWhile (\<lambda>c. c = CHR ''/'') (rev p))"

definition path_base :: "string \<Rightarrow> string" where
  "path_base p =
     (if p = [] then ''.''
      else let q = last (split_on (CHR ''/'') (strip_slashes p))
           in if q = [] then ''/'' else q)"

definition path_ext :: "string \<Rightarrow> string" where
  "path_ext p =
     (let b = last (split_on (CHR ''/'') p); segs = split_on (CHR ''.'') b
      in if length segs = 1 then [] else CHR ''.'' # last segs)"

fun clean_step :: "bool \<Rightarrow> string list \<Rightarrow> string \<Rightarrow> string list" where
  "clean_step rooted out c =
     (if c = [] \<or> c = ''.'' then out
      else if c = ''..'' then
        (if out \<noteq> [] \<and> last out \<noteq> ''..'' then butlast out
         else if rooted then out else out @ [c])
      else out @ [c])"

definition path_clean :: "string \<Rightarrow> string" where
  "path_clean p =
     (let rooted = (p \<noteq> [] \<and> hd p = CHR ''/'');
          out = foldl (clean_step rooted) [] (split_on (CHR ''/'') p);
          s = (if rooted then ''/'' else []) @ join_with ''/'' out
      in if s = [] then ''.'' else s)"

definition path_dir :: "string \<Rightarrow> string" where
  "path_dir p = path_clean (join_with ''/'' (butlast (split_on (CHR ''/'') p) @ [[]]))"

definition path_join :: "string \<Rightarrow> string \<Rightarrow> string" where
  "path_join a b =
     (if a = [] \<and> b = [] then [] else if a = [] then path_clean b
      else if b = [] then path_clean a else path_clean (a @ ''/'' @ b))"

definition plain_name :: "string \<Rightarrow> bool" where
  "plain_name b = (CHR ''/'' \<notin> set b \<and> b \<noteq> [] \<and> b \<noteq> ''.'' \<and> b \<noteq> ''..'')"

lemma strip_slashes_noslash: "CHR ''/'' \<notin> set b \<Longrightarrow> b \<noteq> [] \<Longrightarrow> strip_slashes (p @ b) = p @ b"
proof -
  assume "CHR ''/'' \<notin> set b" and "b \<noteq> []"
  then obtain c cs where "rev b = c # cs" and "c \<noteq> CHR ''/''"
    by (metis list.exhaust list.set_intros(1) rev_is_Nil_conv set_rev)
  then show ?thesis by (simp add: strip_slashes_def)
qed

lemma split_by_last_noslash:
  "CHR ''/'' \<notin> set b \<Longrightarrow> last (split_on (CHR ''/'') (p @ ''/'' @ b)) = b"
  by (simp add: split_by_append_sep)

lemma join_with_snoc: "xs \<noteq> [] \<Longrightarrow> join_with sep (xs @ [y]) = join_with sep xs @ sep @ y"
  by (induction xs rule: induct_list012) auto

lemma path_clean_join_plain:
  assumes b: "plain_name b" and a: "a \<noteq> []"
  shows "\<exists>q. path_clean (a @ ''/'' @ b) = q @ b \<and> (q = [] \<or> last q = CHR ''/'')"
proof -
  let ?r = "hd a = CHR ''/''"
  let ?out = "foldl (clean_step ?r) [] (split_on (CHR ''/'') a)"
  have split: "split_on (CHR ''/'') (a @ CHR ''/'' # b) = split_on (CHR ''/'') a @ [b]"
    using b by (simp add: split_by_append_sep plain_name_def)
  have out: "foldl (clean_step ?r) [] (split_on (CHR ''/'') (a @ CHR ''/'' # b)) = ?out @ [b]"
    using b unfolding split by (simp add: plain_name_def)
  have join: "join_with ''/'' (?out @ [b]) =
      (if ?out = [] then b else join_with ''/'' ?out @ ''/'' @ b)"
    by (simp add: join_with_snoc)
  have "path_clean (a @ ''/'' @ b) =
      ((if ?r then ''/'' else []) @ (if ?out = [] then [] else join_with ''/'' ?out @ ''/'')) @ b"
    using a b out join unfolding path_clean_def Let_def
    by (cases ?r) (simp_all add: plain_name_def)
  then show ?thesis
    by (intro exI conjI) (assumption, auto)
qed

lemma path_base_plain:
  assumes "plain_name b" and "q = [] \<or> last q = CHR ''/''"
  shows "path_base (q @ b) = b"
proof (cases "q = []")
  case True
  with assms strip_slashes_noslash [of b "[]"] show ?thesis
    by (simp add: path_base_def plain_name_def)
next
  case False
  with assms(2) obtain q' where q: "q = q' @ ''/''"
    by (metis append_butlast_last_id)
  have s: "strip_slashes (q @ b) = q @ b"
    using assms(1) by (auto simp: plain_name_def intro!: strip_slashes_noslash)
  have l: "last (split_on (CHR ''/'') (q @ b)) = b"
    using split_by_last_noslash [of b q'] assms(1) q by (simp add: plain_name_def)
  show ?thesis
    using assms(1) False by (simp add: path_base_def s l plain_name_def)
qed

lemma path_base_join:
  assumes "plain_name b"
  shows "path_base (path_join a b) = b"
proof (cases "a = []")
  case True
  have sp: "split_on (CHR ''/'') b = [b]" and ne: "b \<noteq> []" "b \<noteq> ''.''" "b \<noteq> ''..''"
    and hd: "hd b \<noteq> CHR ''/''"
    using assms by (auto simp: plain_name_def dest: hd_in_set)
  then have "path_clean b = b" by (simp add: path_clean_def Let_def)
  with True ne path_base_plain [OF assms, of "[]"] show ?thesis
    by (simp add: path_join_def)
next
  case False
  from path_clean_join_plain [OF assms False] obtain q
    where "path_clean (a @ ''/'' @ b) = q @ b" and "q = [] \<or> last q = CHR ''/''" by blast
  with False assms path_base_plain [OF assms, of q] show ?thesis
    by (simp add: path_join_def plain_name_def)
qed

section \<open>IPv4 addresses\<close>

text \<open>
  A \<open>net.IP\<close> is a list of bytes.  \<open>parse_ipv4\<close> is what \<open>net.ParseIP\<close> accepts of a text with no
  colon: four decimal fields without leading zeros, each at most 255.
\<close>

type_synonym ip = "8 word list"

definition parse_octet :: "string \<Rightarrow> 8 word option" where
  "parse_octet s =
     (if s = [] \<or> \<not> list_all is_digit s \<or> 255 < digits_val s \<or> (1 < length s \<and> hd s = CHR ''0'')
      then None else Some (word_of_nat (digits_val s)))"

definition parse_ipv4 :: "string \<Rightarrow> ip option" where
  "parse_ipv4 s =
     (case map parse_octet (split_on (CHR ''.'') s) of
        [Some a, Some b, Some c, Some d] \<Rightarrow> Some [a, b, c, d]
      | _ \<Rightarrow> None)"

definition hex_char :: "nat \<Rightarrow> char" where
  "hex_char n = (if n < 10 then char_of (48 + n) else char_of (87 + n))"

definition hex_string :: "ip \<Rightarrow> string" where
  "hex_string bs = concat (map (\<lambda>w. [hex_char (unat w div 16), hex_char (unat w mod 16)]) bs)"

definition to4 :: "ip \<Rightarrow> ip option" where
  "to4 bs =
     (if length bs = 4 then Some bs
      else if length bs = 16 \<and> take 12 bs = replicate 10 0 @ [255, 255] then Some (drop 12 bs)
      else None)"

fun hex_digits :: "nat \<Rightarrow> string" where
  "hex_digits n = (if n < 16 then [hex_char n] else hex_digits (n div 16) @ [hex_char (n mod 16)])"

declare hex_digits.simps [simp del]

fun v6_groups :: "ip \<Rightarrow> nat list" where
  "v6_groups (a # b # bs) = (256 * unat a + unat b) # v6_groups bs"
| "v6_groups _ = []"

definition zero_run :: "nat list \<Rightarrow> nat \<Rightarrow> nat" where
  "zero_run gs i = length (takeWhile (\<lambda>g. g = 0) (drop i gs))"

text \<open>The first longest run of at least two zero groups, as start and end; \<open>(8, 8)\<close> when there is none.\<close>

definition best_run :: "nat list \<Rightarrow> nat \<times> nat" where
  "best_run gs =
     foldl (\<lambda>(s, e) i. let l = zero_run gs i in if 2 \<le> l \<and> e - s < l then (i, i + l) else (s, e))
       (8, 8) [0..<8]"

definition v6_string :: "ip \<Rightarrow> string" where
  "v6_string bs =
     (let gs = v6_groups bs; (s, e) = best_run gs
      in if s = 8 then join_with '':'' (map hex_digits gs)
         else join_with '':'' (map hex_digits (take s gs)) @ ''::'' @
              join_with '':'' (map hex_digits (drop e gs)))"

text \<open>\<open>IP.String\<close>\<close>

definition ip_string :: "ip \<Rightarrow> string" where
  "ip_string bs =
     (if bs = [] then ''<nil>''
      else if length bs \<noteq> 4 \<and> length bs \<noteq> 16 then CHR ''?'' # hex_string bs
      else case to4 bs of
             Some p4 \<Rightarrow> join_with ''.'' (map (\<lambda>w. itoa (uint w)) p4)
           | None \<Rightarrow> v6_string bs)"

lemma to4_4 [simp]: "length bs = 4 \<Longrightarrow> to4 bs = Some bs"
  by (simp add: to4_def)

lemma ip_string_4: "length bs = 4 \<Longrightarrow> ip_string bs = join_with ''.'' (map (\<lambda>w. itoa (uint w)) bs)"
  by (auto simp: ip_string_def)

lemma digit_char_zero: "digit_char n = CHR ''0'' \<longleftrightarrow> n mod 10 = 0"
proof
  assume "digit_char n = CHR ''0''"
  then have "digit_val (digit_char n) = digit_val (CHR ''0'')" by simp
  then show "n mod 10 = 0" by (simp add: digit_val_def [of "CHR ''0''"])
next
  assume "n mod 10 = 0"
  moreover have "char_of (of_char (CHR ''0'') :: nat) = CHR ''0''" by (rule char_of_char)
  ultimately show "digit_char n = CHR ''0''" by (simp add: digit_char_def)
qed

lemma nat_digits_hd: "0 < n \<Longrightarrow> hd (nat_digits n) \<noteq> CHR ''0''"
proof (induction n rule: nat_digits.induct)
  case (1 n)
  show ?case
  proof (cases "n < 10")
    case True
    with "1.prems" show ?thesis by (simp add: nat_digits.simps [of n] digit_char_zero)
  next
    case False
    then have "hd (nat_digits n) = hd (nat_digits (n div 10))"
      using nat_digits_all(2) by (simp add: nat_digits.simps [of n])
    with "1.IH" False show ?thesis by simp
  qed
qed

lemma nat_digits_no_zero: "1 < length (nat_digits n) \<Longrightarrow> hd (nat_digits n) \<noteq> CHR ''0''"
  by (cases "n = 0") (auto simp: nat_digits.simps [of 0] nat_digits_hd)

lemma parse_octet_itoa: "parse_octet (itoa (uint w)) = Some w" for w :: "8 word"
proof -
  have "unat w < 2 ^ LENGTH(8)" by (rule unsigned_less)
  then have b: "unat w < 256" by simp
  have "itoa (uint w) = nat_digits (unat w)"
    by (simp add: itoa_def)
  with b show ?thesis
    using nat_digits_all [of "unat w"] nat_digits_no_zero [of "unat w"]
    by (auto simp: parse_octet_def digits_val_nat_digits)
qed

lemma itoa_no_dot: "CHR ''.'' \<notin> set (itoa (uint w))" for w :: "8 word"
  using nat_digits_all(1) [of "nat (uint w)"]
  by (auto simp: itoa_def list_all_iff dest: is_digit_not)

lemma parse_ip_string:
  assumes "length bs = 4"
  shows "parse_ipv4 (ip_string bs) = Some bs"
proof -
  from assms obtain a b c d where bs: "bs = [a, b, c, d]"
    by (auto simp: length_Suc_conv numeral_eq_Suc)
  have "split_on (CHR ''.'') (ip_string bs) = map (\<lambda>w. itoa (uint w)) bs"
    using split_join [of "map (\<lambda>w. itoa (uint w)) bs" "CHR ''.''"] assms itoa_no_dot
    by (auto simp: ip_string_4 bs)
  then show ?thesis
    by (simp add: parse_ipv4_def bs parse_octet_itoa)
qed

lemma ip_string_inject:
  "length bs = 4 \<Longrightarrow> length cs = 4 \<Longrightarrow> ip_string bs = ip_string cs \<longleftrightarrow> bs = cs"
  using parse_ip_string by (metis option.inject)

lemma parse_ipv4_length: "parse_ipv4 s = Some bs \<Longrightarrow> length bs = 4"
  by (auto simp: parse_ipv4_def split: list.splits option.splits)

end
