(* ===== verification/Utils.thy ===== *)
theory Utils
  imports Gostd
begin

text \<open>
  pkg/utils and its sub-packages: joined and deduplicated errors (errors.go, pkg/types/types.go),
  UniqueStrings, MinInt/MaxInt, the slice helpers, the line readers, the anonymisation helpers of
  pkg/utils/anonymize and the pod checks of pkg/utils/check.
\<close>

section \<open>Errors\<close>

fun error_text :: "go_error \<Rightarrow> string" where
  "error_text (Errorf s) = s"
| "error_text (WarningErr e) = ''warning: '' @ error_text e"
| "error_text (HttpError s _) = s"
| "error_text (AuthError s) = s"
| "error_text ErrWaitingForVersion = ''waiting for the cluster version to be loaded''"
| "error_text (NotFoundErr s) = s"
| "error_text (ForbiddenErr s) = s"
| "error_text (AlreadyExistsErr s) = s"
| "error_text (JoinError es) = join_with '', '' (map error_text es)"

definition Warning_Error :: "go_error \<Rightarrow> string" where
  "Warning_Error underlying = ''warning: '' @ error_text underlying"

fun unique_errs :: "string list \<Rightarrow> go_error list \<Rightarrow> go_error list" where
  "unique_errs seen [] = []"
| "unique_errs seen (e # es) =
     (if error_text e \<in> set seen then unique_errs seen es
      else e # unique_errs (error_text e # seen) es)"

definition UniqueErrors :: "go_error list \<Rightarrow> go_error option" where
  "UniqueErrors errs = (if errs = [] then None else Some (JoinError (unique_errs [] errs)))"

definition ErrorsToStrings :: "go_error list \<Rightarrow> string list" where
  "ErrorsToStrings errs = map error_text errs"

definition joinError_Error :: "go_error list \<Rightarrow> string option" where
  "joinError_Error errs =
     (case errs of
        [] \<Rightarrow> None
      | [e] \<Rightarrow> Some (error_text e)
      | e # es \<Rightarrow> Some (foldl (\<lambda>s e'. s @ '', '' @ error_text e') (error_text e) es))"

lemma set_unique_errs:
  "error_text ` set (unique_errs seen es) = error_text ` set es - set seen"
  by (induction es arbitrary: seen) auto

lemma distinct_unique_errs:
  "distinct (map error_text (unique_errs seen es)) \<and>
   (\<forall>e \<in> set (unique_errs seen es). error_text e \<notin> set seen)"
proof (induction es arbitrary: seen)
  case Nil
  then show ?case by simp
next
  case (Cons e es)
  show ?case
    using Cons.IH [of seen] Cons.IH [of "error_text e # seen"] by auto
qed

lemma unique_errs_subset: "set (unique_errs seen es) \<subseteq> set es"
  by (induction es arbitrary: seen) auto

lemma foldl_join: "foldl (\<lambda>s e. s @ CHR '','' # CHR '' '' # error_text e) a es =
    a @ concat (map (\<lambda>e. CHR '','' # CHR '' '' # error_text e) es)"
  by (induction es arbitrary: a) auto

lemma join_with_concat:
  "join_with sep (x # xs) = x @ concat (map (\<lambda>y. sep @ y) xs)"
  by (induction xs arbitrary: x) auto

lemma joinError_Error_text: "es \<noteq> [] \<Longrightarrow> joinError_Error es = Some (error_text (JoinError es))"
proof (cases es)
  case (Cons e es')
  then show ?thesis
    using join_with_concat [of "'', ''" "error_text e" "map error_text es'"]
    by (cases es') (auto simp: joinError_Error_def foldl_join comp_def)
qed simp

section \<open>Strings and numbers\<close>

fun unique_strs :: "string list \<Rightarrow> string list \<Rightarrow> string list" where
  "unique_strs keys [] = []"
| "unique_strs keys (s # ss) =
     (if s \<in> set keys then unique_strs keys ss else s # unique_strs (s # keys) ss)"

definition UniqueStrings :: "string list \<Rightarrow> string list" where
  "UniqueStrings xs = (if length xs < 2 then xs else unique_strs [] xs)"

lemma unique_strs_spec:
  "set (unique_strs keys xs) = set xs - set keys \<and> distinct (unique_strs keys xs)"
proof (induction xs arbitrary: keys)
  case Nil
  then show ?case by simp
next
  case (Cons x xs)
  show ?case using Cons.IH [of keys] Cons.IH [of "x # keys"] by auto
qed

lemma UniqueStrings_spec: "set (UniqueStrings xs) = set xs \<and> distinct (UniqueStrings xs)"
proof (cases "length xs < 2")
  case True
  then show ?thesis by (cases xs) (auto simp: UniqueStrings_def)
next
  case False
  then show ?thesis by (simp add: UniqueStrings_def unique_strs_spec)
qed

text \<open>The variadic \<open>MinInt\<close> and \<open>MaxInt\<close> index their first argument: no argument is a panic (\<open>None\<close>).\<close>

definition MinInt :: "int list \<Rightarrow> int option" where
  "MinInt vs = (case vs of [] \<Rightarrow> None | v # _ \<Rightarrow> Some (foldl (\<lambda>m x. if x < m then x else m) v vs))"

definition MaxInt :: "int list \<Rightarrow> int option" where
  "MaxInt vs = (case vs of [] \<Rightarrow> None | v # _ \<Rightarrow> Some (foldl (\<lambda>m x. if m < x then x else m) v vs))"

definition ShouldBeProcessedNow :: "time \<Rightarrow> time \<Rightarrow> duration \<Rightarrow> bool" where
  "ShouldBeProcessedNow now lastProcessingTime period =
     (now = lastProcessingTime + period \<or> lastProcessingTime + period < now)"

fun format_slice_raw :: "string list \<Rightarrow> string" where
  "format_slice_raw [] = []"
| "format_slice_raw (f # fs) = f @ ''.'' @ format_slice_raw fs"

definition formatSlice :: "string list \<Rightarrow> string" where
  "formatSlice fs = rev (dropWhile (\<lambda>c. c = CHR ''.'') (rev (format_slice_raw fs)))"

text \<open>
  The wrappers around the nested lookups of unstructured objects; the lookup itself is the
  \<open>unstructured\<close> package's and is given by its result (value, found, error).
\<close>

definition nestedWrapper :: "('v \<times> bool \<times> go_error option) \<Rightarrow> string list \<Rightarrow> 'v result" where
  "nestedWrapper res fs =
     (case res of (v, ok, err) \<Rightarrow>
        if \<not> ok then Inl (Errorf (''can't find '' @ formatSlice fs))
        else case err of Some e \<Rightarrow> Inl e | None \<Rightarrow> Inr v)"

section \<open>Slices\<close>

fun insert_by :: "('a \<Rightarrow> 'a \<Rightarrow> bool) \<Rightarrow> 'a \<Rightarrow> 'a list \<Rightarrow> 'a list" where
  "insert_by lt x [] = [x]"
| "insert_by lt x (y # ys) = (if lt y x then y # insert_by lt x ys else x # y # ys)"

definition sort_by :: "('a \<Rightarrow> 'a \<Rightarrow> bool) \<Rightarrow> 'a list \<Rightarrow> 'a list" where
  "sort_by lt xs = foldr (insert_by lt) xs []"

text \<open>
  The loop of \<open>SortAndRemoveDuplicates\<close> on the sorted backing array \<open>a\<close>, with the indices \<open>i\<close>
  (last element kept) and \<open>j\<close> (next to look at).  It overwrites the array in place and then shortens
  the slice it was given a pointer to; \<open>dedupe_loop\<close> returns the array and the new length.
\<close>

function dedupe_loop :: "('a \<Rightarrow> 'a \<Rightarrow> bool) \<Rightarrow> 'a list \<Rightarrow> nat \<Rightarrow> nat \<Rightarrow> 'a list \<times> nat" where
  "dedupe_loop lt a i j =
     (if j < length a then
        (if lt (a ! i) (a ! j) then dedupe_loop lt (a[Suc i := a ! j]) (Suc i) (Suc j)
         else dedupe_loop lt a i (Suc j))
      else (a, Suc i))"
  by pat_completeness auto
termination
  by (relation "measure (\<lambda>(lt, a, i, j). length a - j)") auto

declare dedupe_loop.simps [simp del]

definition SortAndRemoveDuplicates :: "('a \<Rightarrow> 'a \<Rightarrow> bool) \<Rightarrow> 'a list \<Rightarrow> 'a list \<times> nat" where
  "SortAndRemoveDuplicates lt xs =
     (if length xs \<le> 1 then (xs, length xs) else dedupe_loop lt (sort_by lt xs) 0 1)"

fun pad_zeros :: "nat \<Rightarrow> 8 word list \<Rightarrow> 8 word list" where
  "pad_zeros 0 xs = xs"
| "pad_zeros (Suc n) xs = pad_zeros n (0 # xs)"

definition TakeLastNItemsFromByteArray :: "8 word list \<Rightarrow> nat \<Rightarrow> 8 word list" where
  "TakeLastNItemsFromByteArray a n =
     (if n < length a then drop (length a - n) a else pad_zeros (n - length a) a)"

lemma pad_zeros_eq: "pad_zeros n xs = replicate n 0 @ xs"
  by (induction n arbitrary: xs) (auto simp: replicate_append_same [symmetric])

lemma TakeLastN_length [simp]: "length (TakeLastNItemsFromByteArray a n) = n"
  by (auto simp: TakeLastNItemsFromByteArray_def pad_zeros_eq)

lemma TakeLastN_id: "length a = n \<Longrightarrow> TakeLastNItemsFromByteArray a n = a"
  by (simp add: TakeLastNItemsFromByteArray_def)

lemma mset_insert_by [simp]: "mset (insert_by lt x xs) = add_mset x (mset xs)"
  by (induction xs) auto

lemma mset_sort_by [simp]: "mset (sort_by lt xs) = mset xs"
  unfolding sort_by_def by (induction xs) auto

lemma set_sort_by [simp]: "set (sort_by lt xs) = set xs"
  by (metis mset_sort_by set_mset_mset)

lemma length_sort_by [simp]: "length (sort_by lt xs) = length xs"
  by (metis mset_sort_by size_mset)

text \<open>
  What the callers of \<open>sort\<close> rely on: the comparison is a strict weak order.  The locale is
  interpreted for the orders of the modelled slices (memory records by time, conditions by type).
\<close>

locale strict_weak_order =
  fixes lt :: "'a \<Rightarrow> 'a \<Rightarrow> bool"
  assumes lt_asym: "lt x y \<Longrightarrow> \<not> lt y x"
    and lt_neg_trans: "\<not> lt x y \<Longrightarrow> \<not> lt y z \<Longrightarrow> \<not> lt x z"
begin

lemma sorted_insert_by:
  "sorted_wrt (\<lambda>x y. \<not> lt y x) ys \<Longrightarrow> sorted_wrt (\<lambda>x y. \<not> lt y x) (insert_by lt x ys)"
proof (induction ys)
  case Nil
  then show ?case by simp
next
  case (Cons y ys)
  have set: "set (insert_by lt x ys) = insert x (set ys)"
    by (metis mset_insert_by set_mset_mset set_mset_add_mset_insert)
  show ?case
  proof (cases "lt y x")
    case True
    then show ?thesis using Cons lt_asym [of y x] by (simp add: set)
  next
    case False
    have "\<not> lt z x" if "z \<in> set ys" for z
      using Cons.prems that lt_neg_trans [OF _ False, of z] by simp
    with False Cons.prems show ?thesis by simp
  qed
qed

lemma sorted_sort_by: "sorted_wrt (\<lambda>x y. \<not> lt y x) (sort_by lt xs)"
  unfolding sort_by_def by (induction xs) (auto simp: sorted_insert_by)

lemma sort_by_hd_least: "x \<in> set xs \<Longrightarrow> \<not> lt x (hd (sort_by lt xs))"
proof -
  assume "x \<in> set xs"
  then have "x \<in> set (sort_by lt xs)" by simp
  then obtain y ys where s: "sort_by lt xs = y # ys" by (cases "sort_by lt xs") auto
  with \<open>x \<in> set (sort_by lt xs)\<close> sorted_sort_by [of xs] lt_asym show ?thesis by auto
qed

end

section \<open>Line readers\<close>

abbreviation newline :: char where "newline \<equiv> CHR 0x0A"
abbreviation EOF :: go_error where "EOF \<equiv> Errorf ''EOF''"

fun index_of :: "char \<Rightarrow> bytes \<Rightarrow> nat option" where
  "index_of c [] = None"
| "index_of c (x # xs) = (if x = c then Some 0 else map_option Suc (index_of c xs))"

lemma index_of_Some: "index_of c s = Some k \<Longrightarrow> k < length s \<and> s ! k = c"
  by (induction s arbitrary: k) (auto split: if_splits)

record LineLimitedReader =
  maxLinesLimit :: int
  totalLinesRead :: nat

text \<open>
  The loop of \<open>Read\<close>: \<open>rest\<close> is \<open>p[lc:rc]\<close>.  The result is the number of bytes to return early with
  \<open>io.EOF\<close>, or \<open>None\<close> when the loop runs out of separators and returns what the inner reader returned.
\<close>

function line_limit_loop :: "int \<Rightarrow> nat \<Rightarrow> bytes \<Rightarrow> nat option \<times> int" where
  "line_limit_loop limit lc rest =
     (case index_of newline rest of
        None \<Rightarrow> (None, limit)
      | Some k \<Rightarrow>
          if limit \<le> 0 then (Some lc, limit)
          else line_limit_loop (limit - 1) (lc + k + 1) (drop (k + 1) rest))"
  by pat_completeness auto
termination
  by (relation "measure (\<lambda>(limit, lc, rest). length rest)") (auto dest: index_of_Some)

declare line_limit_loop.simps [simp del]

definition LineLimitedReader_Read ::
  "LineLimitedReader \<Rightarrow> bytes \<times> go_error option \<Rightarrow>
   (bytes \<times> go_error option) \<times> LineLimitedReader" where
  "LineLimitedReader_Read l inner =
     (if maxLinesLimit l \<le> 0 then (([], Some EOF), l)
      else case inner of (data, err) \<Rightarrow>
        let l = l\<lparr>totalLinesRead := totalLinesRead l + length (filter (\<lambda>c. c = newline) data)\<rparr>
        in case line_limit_loop (maxLinesLimit l) 0 data of
             (None, limit) \<Rightarrow> ((data, err), l\<lparr>maxLinesLimit := limit\<rparr>)
           | (Some lc, limit) \<Rightarrow> ((take lc data, Some EOF), l\<lparr>maxLinesLimit := limit\<rparr>))"

definition CountLines :: "bytes list \<Rightarrow> nat" where
  "CountLines chunks = foldl (\<lambda>n buf. n + length (filter (\<lambda>c. c = newline) buf)) 1 chunks"

fun split_after :: "bytes \<Rightarrow> bytes list" where
  "split_after [] = [[]]"
| "split_after (x # xs) =
     (if x = newline then [x] # split_after xs
      else case split_after xs of [] \<Rightarrow> [[x]] | y # ys \<Rightarrow> (x # y) # ys)"

definition has_nl_suffix :: "bytes \<Rightarrow> bool" where
  "has_nl_suffix s = (s \<noteq> [] \<and> last s = newline)"

definition appendBufferIfLinePrefixed :: "bytes \<Rightarrow> bytes \<Rightarrow> bytes \<Rightarrow> bytes" where
  "appendBufferIfLinePrefixed buff pre line = (if prefix pre line then buff @ line else buff)"

text \<open>
  \<open>ReadAllLinesWithPrefix\<close> on a reader that returns the given chunks one by one, each with its error,
  and after them no bytes and \<open>io.EOF\<close>.  \<open>lf\<close> is \<open>lineFunc\<close>, the identity when it is \<open>nil\<close>.
\<close>

definition process_lines :: "bytes \<Rightarrow> (bytes \<Rightarrow> bytes) \<Rightarrow> bytes \<Rightarrow> bytes list \<Rightarrow> bytes" where
  "process_lines pre lf buff ls =
     foldl (\<lambda>b line. lf (appendBufferIfLinePrefixed b pre line)) buff ls"

fun read_lines ::
  "bytes \<Rightarrow> (bytes \<Rightarrow> bytes) \<Rightarrow> bytes \<Rightarrow> bytes \<Rightarrow> (bytes \<times> go_error option) list \<Rightarrow>
   bytes \<times> go_error option" where
  "read_lines pre lf buff partial [] = (appendBufferIfLinePrefixed buff pre partial, Some EOF)"
| "read_lines pre lf buff partial ((data, err) # rest) =
     (if data = [] \<or> (err \<noteq> None \<and> err \<noteq> Some EOF)
      then (appendBufferIfLinePrefixed buff pre partial, err)
      else
        let ls = split_after data;
            joined = partial @ hd ls;
            stuck = (partial \<noteq> [] \<and> \<not> has_nl_suffix joined \<and> tl ls \<noteq> []);
            buff1 = (if partial \<noteq> [] \<and> has_nl_suffix joined
                     then appendBufferIfLinePrefixed buff pre joined else buff);
            partial1 = (if partial \<noteq> [] then (if has_nl_suffix joined then [] else joined) else []);
            ls1 = (if partial \<noteq> [] then tl ls else ls)
        in if stuck
           then (buff, Some (Errorf ''unexpected line before the end of the previous line''))
           else
             let cut = (ls1 \<noteq> [] \<and> \<not> has_nl_suffix (last ls1));
                 partial2 = (if cut then partial1 @ last ls1 else partial1);
                 ls2 = (if cut then butlast ls1 else ls1);
                 buff2 = process_lines pre lf buff1 ls2
             in if err = Some EOF
                then (appendBufferIfLinePrefixed buff2 pre partial2, err)
                else read_lines pre lf buff2 partial2 rest)"

definition ReadAllLinesWithPrefix ::
  "(bytes \<times> go_error option) list \<Rightarrow> bytes \<Rightarrow> (bytes \<Rightarrow> bytes) \<Rightarrow> bytes \<times> go_error option" where
  "ReadAllLinesWithPrefix reader pre lf = read_lines pre lf [] [] reader"

text \<open>
  The text cut into lines, each with its separator; the last piece is the text after the last
  separator and may be empty.
\<close>

lemma split_after_nonempty [simp]: "split_after s \<noteq> []"
  by (cases s) (auto split: list.splits)

lemma split_after_no_nl: "newline \<notin> set p \<Longrightarrow> split_after p = [p]"
  by (induction p) auto

lemma split_after_prepend:
  "newline \<notin> set p \<Longrightarrow> split_after (p @ t) = (p @ hd (split_after t)) # tl (split_after t)"
  by (induction p) (auto split: list.splits)

lemma split_after_last: "newline \<notin> set (last (split_after s))"
proof (induction s)
  case Nil
  then show ?case by simp
next
  case (Cons x s)
  obtain y ys where y: "split_after s = y # ys"
    by (metis split_after_nonempty neq_Nil_conv)
  with Cons show ?case by (cases ys) auto
qed

lemma split_after_butlast: "l \<in> set (butlast (split_after s)) \<Longrightarrow> has_nl_suffix l"
proof (induction s arbitrary: l)
  case Nil
  then show ?case by simp
next
  case (Cons x s)
  obtain y ys where y: "split_after s = y # ys"
    by (metis split_after_nonempty neq_Nil_conv)
  show ?case
    using Cons.prems Cons.IH [of l] Cons.IH [of y] y
    by (auto simp: has_nl_suffix_def split: if_splits)
qed

lemma split_after_append:
  "split_after (s @ t) = butlast (split_after s) @ split_after (last (split_after s) @ t)"
proof (induction s)
  case Nil
  then show ?case by simp
next
  case (Cons x s)
  obtain y ys where y: "split_after s = y # ys"
    by (metis split_after_nonempty neq_Nil_conv)
  show ?case
  proof (cases "ys = []")
    case False
    with Cons y show ?thesis by simp
  next
    case True
    with y split_after_last [of s] have "newline \<notin> set y" by simp
    with Cons True y show ?thesis
      by (cases "x = newline") (simp_all add: split_after_prepend)
  qed
qed

lemma not_nl_suffix: "newline \<notin> set l \<Longrightarrow> \<not> has_nl_suffix l"
  by (metis has_nl_suffix_def last_in_set)

lemma process_lines_id:
  "process_lines pre (\<lambda>b. b) buff ls = buff @ concat (filter (prefix pre) ls)"
  by (induction ls arbitrary: buff)
    (auto simp: process_lines_def appendBufferIfLinePrefixed_def)

text \<open>The reference: the lines of the whole text that have the prefix.\<close>

definition lines_with_prefix :: "bytes \<Rightarrow> bytes \<Rightarrow> bytes" where
  "lines_with_prefix pre s = concat (filter (prefix pre) (split_after s))"

lemma read_lines_step:
  assumes partial: "newline \<notin> set partial" and data: "data \<noteq> []"
  shows "read_lines pre (\<lambda>b. b) buff partial ((data, None) # rest) =
    read_lines pre (\<lambda>b. b)
      (buff @ concat (filter (prefix pre) (butlast (split_after (partial @ data)))))
      (last (split_after (partial @ data))) rest"
proof -
  obtain h ls where sd: "split_after data = h # ls"
    by (metis split_after_nonempty neq_Nil_conv)
  have spd: "split_after (partial @ data) = (partial @ h) # ls"
    using split_after_prepend [OF partial] sd by simp
  have nl_last: "\<not> has_nl_suffix (last (h # ls))"
    using split_after_last [of data] sd by (simp add: not_nl_suffix)
  show ?thesis
  proof (cases "ls = []")
    case True
    then have "newline \<notin> set h" using split_after_last [of data] sd by simp
    with partial have "\<not> has_nl_suffix (partial @ h)" by (simp add: not_nl_suffix)
    with True data sd spd nl_last show ?thesis
      by (simp add: process_lines_id Let_def)
  next
    case False
    then have h: "has_nl_suffix h"
      using split_after_butlast [of h data] sd by simp
    then have "has_nl_suffix (partial @ h)" by (simp add: has_nl_suffix_def)
    with False data sd spd nl_last show ?thesis
      by (cases "partial = []")
        (simp_all add: process_lines_id Let_def appendBufferIfLinePrefixed_def)
  qed
qed

lemma read_lines_chunks:
  assumes "newline \<notin> set partial" and "[] \<notin> set chunks"
  shows "read_lines pre (\<lambda>b. b) buff partial (map (\<lambda>d. (d, None)) chunks) =
    (buff @ concat (filter (prefix pre) (split_after (partial @ concat chunks))), Some EOF)"
  using assms
proof (induction chunks arbitrary: buff partial)
  case Nil
  then show ?case
    by (simp add: split_after_no_nl appendBufferIfLinePrefixed_def)
next
  case (Cons d chunks)
  let ?pd = "split_after (partial @ d)"
  have "read_lines pre (\<lambda>b. b) buff partial (map (\<lambda>d. (d, None)) (d # chunks)) =
      read_lines pre (\<lambda>b. b) (buff @ concat (filter (prefix pre) (butlast ?pd))) (last ?pd)
        (map (\<lambda>d. (d, None)) chunks)"
  proof -
    from Cons.prems have "newline \<notin> set partial" and "d \<noteq> []" by auto
    from read_lines_step [OF this] show ?thesis by (simp del: read_lines.simps)
  qed
  also have "\<dots> = (buff @ concat (filter (prefix pre) (butlast ?pd)) @
      concat (filter (prefix pre) (split_after (last ?pd @ concat chunks))), Some EOF)"
    using Cons.IH [OF split_after_last] Cons.prems by simp
  also have "\<dots> = (buff @ concat (filter (prefix pre) (split_after (partial @ concat (d # chunks)))), Some EOF)"
    using split_after_append [of "partial @ d" "concat chunks"] by simp
  finally show ?case .
qed

text \<open>
  C25: Reading in pieces is reading at once.  However a reader cuts a text into pieces, \<open>ReadAllLinesWithPrefix\<close>
  without a filter returns what the reference does on the whole text: the lines with the prefix, in their order
  and with their separators.
\<close>

theorem read_lines_equivalent:
  assumes "[] \<notin> set chunks"
  shows "ReadAllLinesWithPrefix (map (\<lambda>d. (d, None)) chunks) pre (\<lambda>b. b) =
    (lines_with_prefix pre (concat chunks), Some EOF)"
  using read_lines_chunks [of "[]" chunks pre "[]"] assms
  by (simp add: ReadAllLinesWithPrefix_def lines_with_prefix_def)

theorem read_lines_equivalent_witness:
  "ReadAllLinesWithPrefix [(''ab\<newline>a'', None), (''c\<newline>x'', None)] ''a'' (\<lambda>b. b) = (''ab\<newline>ac\<newline>'', Some EOF)"
proof -
  have "lines_with_prefix ''a'' ''ab\<newline>ac\<newline>x'' = ''ab\<newline>ac\<newline>''" by code_simp
  with read_lines_equivalent [of "[''ab\<newline>a'', ''c\<newline>x'']" "''a''"] show ?thesis by simp
qed

lemma CountLines_eq: "CountLines chunks = Suc (length (filter (\<lambda>c. c = newline) (concat chunks)))"
proof -
  have "foldl (\<lambda>n buf. n + length (filter (\<lambda>c. c = newline) buf)) k chunks =
      k + length (filter (\<lambda>c. c = newline) (concat chunks))" for k
    by (induction chunks arbitrary: k) auto
  then show ?thesis by (simp add: CountLines_def)
qed

abbreviation nl_count :: "bytes \<Rightarrow> int" where
  "nl_count s \<equiv> int (length (filter (\<lambda>c. c = newline) s))"

lemma index_of_split:
  "index_of newline s = Some k \<Longrightarrow> nl_count (take k s) = 0 \<and> nl_count (take (Suc k) s) = 1"
proof (induction s arbitrary: k)
  case Nil
  then show ?case by simp
next
  case (Cons x s)
  then show ?case by (cases k) (auto split: if_splits)
qed

lemma index_of_None: "index_of c s = None \<Longrightarrow> c \<notin> set s"
  by (induction s) (auto split: if_splits)

lemma line_limit_loop_count:
  assumes "rest = drop lc data" and "lc \<le> length data" and "0 \<le> limit"
    and "line_limit_loop limit lc rest = (r, limit')"
  shows "0 \<le> limit' \<and>
    nl_count (take (case r of None \<Rightarrow> length data | Some n \<Rightarrow> n) data) =
      nl_count (take lc data) + (limit - limit')"
  using assms
proof (induction limit lc rest rule: line_limit_loop.induct)
  case (1 limit lc rest)
  show ?case
  proof (cases "index_of newline rest")
    case None
    then have "newline \<notin> set (drop lc data)" using "1.prems"(1) by (auto dest: index_of_None)
    then have "filter (\<lambda>c. c = newline) (drop lc data) = []" by (auto simp: filter_empty_conv)
    moreover have "filter (\<lambda>c. c = newline) data =
        filter (\<lambda>c. c = newline) (take lc data) @ filter (\<lambda>c. c = newline) (drop lc data)"
      by (metis append_take_drop_id filter_append)
    moreover have "r = None \<and> limit' = limit"
      using "1.prems"(4) None by (simp add: line_limit_loop.simps [of limit lc rest])
    ultimately show ?thesis using "1.prems"(3) by simp
  next
    case (Some k)
    show ?thesis
    proof (cases "limit \<le> 0")
      case True
      have "r = Some lc \<and> limit' = limit"
        using "1.prems"(4) Some True by (simp add: line_limit_loop.simps [of limit lc rest])
      then show ?thesis using "1.prems"(3) by simp
    next
      case False
      have k: "k < length rest" using Some by (auto dest: index_of_Some)
      have loop: "line_limit_loop (limit - 1) (lc + k + 1) (drop (k + 1) rest) = (r, limit')"
        using "1.prems"(4) Some False by (simp add: line_limit_loop.simps [of limit lc rest])
      have split: "take (lc + k + 1) data = take lc data @ take (Suc k) rest"
        using "1.prems"(1) take_add [of lc "Suc k" data] by simp
      have ih: "0 \<le> limit' \<and>
          nl_count (take (case r of None \<Rightarrow> length data | Some n \<Rightarrow> n) data) =
            nl_count (take (lc + k + 1) data) + (limit - 1 - limit')"
        by (rule "1.IH" [OF Some False]) (use "1.prems" k False loop in \<open>auto simp: add.commute\<close>)
      then show ?thesis
        using index_of_split [OF Some] split by simp
    qed
  qed
qed

section \<open>Anonymisation helpers\<close>

definition anonymize_String :: "string \<Rightarrow> string" where
  "anonymize_String s = replicate (length s) (CHR ''x'')"

definition anonymize_URL :: "string \<Rightarrow> string" where
  "anonymize_URL s = map (\<lambda>c. if c \<in> set ''.-/:'' then c else CHR ''x'') s"

definition anonymize_URLSlice :: "string list \<Rightarrow> string list" where
  "anonymize_URLSlice xs = map anonymize_URL xs"

definition anonymize_URLCSV :: "string \<Rightarrow> string" where
  "anonymize_URLCSV s = join_with '','' (anonymize_URLSlice (split_on (CHR '','') s))"

type_synonym env_var = "string \<times> string"

definition sensitiveEnvVar :: "env_var \<Rightarrow> env_var" where
  "sensitiveEnvVar v =
     (if contains_str ''HTTP_PROXY'' (fst v) \<or> contains_str ''HTTPS_PROXY'' (fst v)
      then (fst v, anonymize_String (snd v)) else v)"

definition SensitiveEnvVars :: "env_var list list \<Rightarrow> env_var list list" where
  "SensitiveEnvVars containers = map (map sensitiveEnvVar) containers"

lemma join_with_map_csv:
  "join_with [CHR '',''] (map anonymize_URL (split_on (CHR '','') s)) =
    map (\<lambda>c. if c \<in> set ''.-/:,'' then c else CHR ''x'') s"
proof (induction s)
  case Nil
  then show ?case by (simp add: anonymize_URL_def)
next
  case (Cons x xs)
  obtain y ys where y: "split_on (CHR '','') xs = y # ys"
    by (metis split_by_nonempty neq_Nil_conv)
  with Cons show ?case
    by (cases ys) (auto simp: anonymize_URL_def)
qed

section \<open>Pod checks\<close>

record container_status =
  cs_restartCount :: int
  cs_lastTerminatedExit :: "int option"
  cs_lastWaiting :: bool
  cs_terminatedExit :: "int option"

record pod =
  pod_pending :: bool
  pod_created :: time
  pod_initStatuses :: "container_status list"
  pod_statuses :: "container_status list"

definition nonzero_exit :: "int option \<Rightarrow> bool" where
  "nonzero_exit e = (case e of None \<Rightarrow> False | Some c \<Rightarrow> c \<noteq> 0)"

definition IsContainerInCrashloop :: "container_status \<Rightarrow> bool" where
  "IsContainerInCrashloop s =
     (0 < cs_restartCount s \<and> (nonzero_exit (cs_lastTerminatedExit s) \<or> cs_lastWaiting s))"

definition HasContainerInCrashloop :: "pod \<Rightarrow> bool" where
  "HasContainerInCrashloop p =
     (list_ex IsContainerInCrashloop (pod_initStatuses p) \<or>
      list_ex IsContainerInCrashloop (pod_statuses p))"

definition unhealthy_container :: "container_status \<Rightarrow> bool" where
  "unhealthy_container s =
     (nonzero_exit (cs_lastTerminatedExit s) \<or> nonzero_exit (cs_terminatedExit s) \<or>
      0 < cs_restartCount s)"

definition IsHealthyPod :: "pod \<Rightarrow> time \<Rightarrow> bool" where
  "IsHealthyPod p now =
     (if pod_pending p \<and> 2 * Minute < now - pod_created p then False
      else if list_ex unhealthy_container (pod_initStatuses p) then False
      else if list_ex unhealthy_container (pod_statuses p) then False
      else True)"

end
