(* ===== verification/Config.thy ===== *)
theory Config
  imports Utils
begin

text \<open>
  pkg/config/types.go and pkg/config/config.go: the serialised configuration of the insights-config
  config map, its conversion to the configuration the operator uses, and the decoding of the
  obfuscation setting.  \<open>parse_duration\<close> stands for \<open>time.ParseDuration\<close> (its fractions are float64
  arithmetic); the outcomes of \<open>json.Unmarshal\<close> are arguments.
\<close>

section \<open>Types\<close>

type_synonym ObfuscationValue = string
type_synonym Obfuscation = "ObfuscationValue list"

definition Networking :: ObfuscationValue where "Networking = ''networking''"
definition WorkloadNames :: ObfuscationValue where "WorkloadNames = ''workload_names''"

definition defaultGatherFrequency :: duration where "defaultGatherFrequency = 2 * Hour"
definition minimumGatherFrequency :: duration where "minimumGatherFrequency = 10 * Minute"
definition defaultSCAFfrequency :: duration where "defaultSCAFfrequency = 8 * Hour"
definition defaultClusterTransferFrequency :: duration where
  "defaultClusterTransferFrequency = 12 * Hour"

lemmas frequency_defs [config_simps] =
  defaultGatherFrequency_def minimumGatherFrequency_def defaultSCAFfrequency_def
  defaultClusterTransferFrequency_def

record DataReportingSerialized =
  drs_Interval :: string
  drs_UploadEndpoint :: string
  drs_DownloadEndpoint :: string
  drs_DownloadEndpointTechPreview :: string
  drs_StoragePath :: string
  drs_ConditionalGathererEndpoint :: string
  drs_ProcessingStatusEndpoint :: string
  drs_Obfuscation :: Obfuscation
  drs_DisableRuntimeExtractor :: string

record SCASerialized =
  scas_Disabled :: string
  scas_Interval :: string
  scas_Endpoint :: string

record ClusterTransferSerialized =
  cts_Interval :: string
  cts_Endpoint :: string

record Proxy =
  px_HTTPProxy :: string
  px_HTTPSProxy :: string
  px_NoProxy :: string

record InsightsConfigurationSerialized =
  ics_DataReporting :: DataReportingSerialized
  ics_AlertingDisabled :: string
  ics_SCA :: SCASerialized
  ics_ClusterTransfer :: ClusterTransferSerialized
  ics_Proxy :: Proxy

record DataReporting =
  dr_Enabled :: bool
  dr_Interval :: duration
  dr_UploadEndpoint :: string
  dr_DownloadEndpoint :: string
  dr_DownloadEndpointTechPreview :: string
  dr_StoragePath :: string
  dr_ConditionalGathererEndpoint :: string
  dr_ReportPullingDelay :: duration
  dr_ProcessingStatusEndpoint :: string
  dr_Obfuscation :: Obfuscation
  dr_DisableRuntimeExtractor :: bool

record SCA =
  sca_Disabled :: bool
  sca_Interval :: duration
  sca_Endpoint :: string

record ClusterTransfer =
  ct_Interval :: duration
  ct_Endpoint :: string

record InsightsConfiguration =
  ic_DataReporting :: DataReporting
  ic_AlertingDisabled :: bool
  ic_SCA :: SCA
  ic_ClusterTransfer :: ClusterTransfer
  ic_Proxy :: Proxy

section \<open>Conversion\<close>

definition parseInterval ::
  "(string \<Rightarrow> duration result) \<Rightarrow> string \<Rightarrow> duration \<Rightarrow> duration \<Rightarrow> duration" where
  "parseInterval parse_duration interval defaultValue minIntervalValue =
     (case parse_duration interval of
        Inl _ \<Rightarrow> defaultValue
      | Inr durationInt \<Rightarrow>
          if durationInt \<le> 0 then defaultValue
          else if 0 < minIntervalValue \<and> durationInt < minIntervalValue then minIntervalValue
          else durationInt)"

text \<open>A field that the literal of \<open>ToConfig\<close> leaves out has its zero value.\<close>

definition ToConfig ::
  "(string \<Rightarrow> duration result) \<Rightarrow> InsightsConfigurationSerialized \<Rightarrow> InsightsConfiguration" where
  "ToConfig parse_duration i =
     (let d = ics_DataReporting i; s = ics_SCA i; t = ics_ClusterTransfer i in
      \<lparr>ic_DataReporting =
         \<lparr>dr_Enabled = False,
          dr_Interval =
            (if drs_Interval d \<noteq> []
             then parseInterval parse_duration (drs_Interval d) defaultGatherFrequency minimumGatherFrequency
             else 0),
          dr_UploadEndpoint = drs_UploadEndpoint d,
          dr_DownloadEndpoint = drs_DownloadEndpoint d,
          dr_DownloadEndpointTechPreview = drs_DownloadEndpointTechPreview d,
          dr_StoragePath = drs_StoragePath d,
          dr_ConditionalGathererEndpoint = drs_ConditionalGathererEndpoint d,
          dr_ReportPullingDelay = 0,
          dr_ProcessingStatusEndpoint = drs_ProcessingStatusEndpoint d,
          dr_Obfuscation = drs_Obfuscation d,
          dr_DisableRuntimeExtractor =
            (if drs_DisableRuntimeExtractor d \<noteq> []
             then equal_fold_true (drs_DisableRuntimeExtractor d) else False)\<rparr>,
       ic_AlertingDisabled =
         (if ics_AlertingDisabled i \<noteq> [] then equal_fold_true (ics_AlertingDisabled i) else False),
       ic_SCA =
         \<lparr>sca_Disabled = (if scas_Disabled s \<noteq> [] then equal_fold_true (scas_Disabled s) else False),
          sca_Interval =
            (if scas_Interval s \<noteq> []
             then parseInterval parse_duration (scas_Interval s) defaultSCAFfrequency 0 else 0),
          sca_Endpoint = scas_Endpoint s\<rparr>,
       ic_ClusterTransfer =
         \<lparr>ct_Interval =
            (if cts_Interval t \<noteq> []
             then parseInterval parse_duration (cts_Interval t) defaultClusterTransferFrequency 0 else 0),
          ct_Endpoint = cts_Endpoint t\<rparr>,
       ic_Proxy =
         \<lparr>px_HTTPProxy = px_HTTPProxy (ics_Proxy i),
          px_HTTPSProxy = px_HTTPSProxy (ics_Proxy i),
          px_NoProxy = px_NoProxy (ics_Proxy i)\<rparr>\<rparr>)"

fun filterValidObfuscation :: "ObfuscationValue list \<Rightarrow> ObfuscationValue list" where
  "filterValidObfuscation [] = []"
| "filterValidObfuscation (v # vs) =
     (if v = Networking \<or> v = WorkloadNames then v # filterValidObfuscation vs
      else filterValidObfuscation vs)"

text \<open>\<open>as_string\<close> and \<open>as_array\<close> are the outcomes of decoding the data as a string and as an array.\<close>

definition Obfuscation_UnmarshalJSON ::
  "string result \<Rightarrow> ObfuscationValue list result \<Rightarrow> Obfuscation result" where
  "Obfuscation_UnmarshalJSON as_string as_array =
     (case as_string of
        Inr s \<Rightarrow> if s = [] then Inr [] else Inr (filterValidObfuscation [s])
      | Inl _ \<Rightarrow> (case as_array of Inl e \<Rightarrow> Inl e | Inr arr \<Rightarrow> Inr (filterValidObfuscation arr)))"

section \<open>Lemmas\<close>

lemma filterValidObfuscation_eq:
  "filterValidObfuscation vs = filter (\<lambda>v. v = Networking \<or> v = WorkloadNames) vs"
  by (induction vs) auto

lemma Obfuscation_UnmarshalJSON_valid:
  "Obfuscation_UnmarshalJSON s a = Inr ob \<Longrightarrow> set ob \<subseteq> {Networking, WorkloadNames}"
  unfolding Obfuscation_UnmarshalJSON_def
  by (auto simp: filterValidObfuscation_eq split: sum.splits if_splits)

lemma parseInterval_bounds:
  assumes "0 < defaultValue" and "0 < m \<longrightarrow> m \<le> defaultValue"
  shows "0 < parseInterval pd s defaultValue m \<and> m \<le> parseInterval pd s defaultValue m \<or> m < 0"
  using assms by (auto simp: parseInterval_def split: sum.splits)

definition interval_ok :: "duration \<Rightarrow> bool" where
  "interval_ok d = (minimumGatherFrequency \<le> d)"

lemma ToConfig_interval:
  "dr_Interval (ic_DataReporting (ToConfig pd i)) = 0 \<or>
   interval_ok (dr_Interval (ic_DataReporting (ToConfig pd i)))"
  using parseInterval_bounds [of defaultGatherFrequency minimumGatherFrequency pd]
  by (auto simp: ToConfig_def Let_def interval_ok_def config_simps)

end
