(* ===== verification/LegacyConfig.thy ===== *)
theory LegacyConfig
  imports Config
begin

text \<open>
  The legacy configuration: pkg/config/legacy_config.go (the file the operator starts with) and
  pkg/config/configobserver/config.go (the support secret).

  A Go method with a pointer receiver is a function from the old record to the new one.
  \<open>ToController\<close> writes the record it is given before it finds an error, and \<open>LoadConfig\<close> returns that
  record, so the conversions return the written record together with the error.
\<close>

section \<open>Controller configuration (pkg/config/legacy\_config.go)\<close>

record HTTPConfig =
  http_HTTPProxy :: string
  http_HTTPSProxy :: string
  http_NoProxy :: string

record OCMConfig =
  ocm_SCAInterval :: duration
  ocm_SCAEndpoint :: string
  ocm_SCADisabled :: bool
  ocm_ClusterTransferEndpoint :: string
  ocm_ClusterTransferInterval :: duration

record Controller =
  Report :: bool
  StoragePath :: string
  Interval :: duration
  Endpoint :: string
  ConditionalGathererEndpoint :: string
  ReportEndpoint :: string
  ReportEndpointTechPreview :: string
  ReportPullingDelay :: duration
  ReportMinRetryTime :: duration
  ReportPullingTimeout :: duration
  Impersonate :: string
  DisableRuntimeExtractor :: bool
  EnableGlobalObfuscation :: bool
  Token :: string
  HTTPConf :: HTTPConfig
  OCMConf :: OCMConfig
  DisableInsightsAlerts :: bool
  ProcessingStatusEndpoint :: string

definition zero_HTTPConfig :: HTTPConfig where
  "zero_HTTPConfig = \<lparr>http_HTTPProxy = [], http_HTTPSProxy = [], http_NoProxy = []\<rparr>"

definition zero_OCMConfig :: OCMConfig where
  "zero_OCMConfig =
     \<lparr>ocm_SCAInterval = 0, ocm_SCAEndpoint = [], ocm_SCADisabled = False,
      ocm_ClusterTransferEndpoint = [], ocm_ClusterTransferInterval = 0\<rparr>"

definition zero_Controller :: Controller where
  "zero_Controller =
     \<lparr>Report = False, StoragePath = [], Interval = 0, Endpoint = [],
      ConditionalGathererEndpoint = [], ReportEndpoint = [], ReportEndpointTechPreview = [],
      ReportPullingDelay = 0, ReportMinRetryTime = 0, ReportPullingTimeout = 0, Impersonate = [],
      DisableRuntimeExtractor = False, EnableGlobalObfuscation = False, Token = [],
      HTTPConf = zero_HTTPConfig, OCMConf = zero_OCMConfig, DisableInsightsAlerts = False,
      ProcessingStatusEndpoint = []\<rparr>"

lemmas zero_defs [config_simps] = zero_HTTPConfig_def zero_OCMConfig_def zero_Controller_def

record Serialized =
  s_Report :: bool
  s_StoragePath :: string
  s_Interval :: string
  s_Endpoint :: string
  s_ConditionalGathererEndpoint :: string
  s_PullEndpoint :: string
  s_PullDelay :: string
  s_PullTimeout :: string
  s_PullMinRetryTime :: string
  s_Impersonate :: string
  s_EnableGlobalObfuscation :: bool
  s_SCAEndpoint :: string
  s_SCAInterval :: string
  s_SCADisabled :: bool
  s_ClusterTransferEndpoint :: string
  s_ClusterTransferInterval :: string
  s_DisableInsightsAlerts :: bool
  s_ProcessingStatusEndpoint :: string
  s_ReportEndpointTechPreview :: string
  s_DisableRuntimeExtractor :: bool

definition mergeEndpoint :: "Controller \<Rightarrow> Controller \<Rightarrow> Controller" where
  "mergeEndpoint cfg c =
     (if 0 < length (Endpoint cfg) then c\<lparr>Endpoint := Endpoint cfg\<rparr> else c)"

definition mergeProcessingStatusEndpoint :: "Controller \<Rightarrow> Controller \<Rightarrow> Controller" where
  "mergeProcessingStatusEndpoint cfg c =
     (if 0 < length (ProcessingStatusEndpoint cfg)
      then c\<lparr>ProcessingStatusEndpoint := ProcessingStatusEndpoint cfg\<rparr> else c)"

definition mergeReportEndpointTechPreview :: "Controller \<Rightarrow> Controller \<Rightarrow> Controller" where
  "mergeReportEndpointTechPreview cfg c =
     (if 0 < length (ReportEndpointTechPreview cfg)
      then c\<lparr>ReportEndpointTechPreview := ReportEndpointTechPreview cfg\<rparr> else c)"

definition mergeConditionalGathererEndpoint :: "Controller \<Rightarrow> Controller \<Rightarrow> Controller" where
  "mergeConditionalGathererEndpoint cfg c =
     (if 0 < length (ConditionalGathererEndpoint cfg)
      then c\<lparr>ConditionalGathererEndpoint := ConditionalGathererEndpoint cfg\<rparr> else c)"

definition mergeReport :: "Controller \<Rightarrow> Controller \<Rightarrow> Controller" where
  "mergeReport cfg c =
     (let c = (if 0 < length (ReportEndpoint cfg) then c\<lparr>ReportEndpoint := ReportEndpoint cfg\<rparr> else c);
          c = (if 0 \<le> ReportPullingDelay cfg
               then c\<lparr>ReportPullingDelay := ReportPullingDelay cfg\<rparr> else c);
          c = (if 0 < ReportPullingTimeout cfg
               then c\<lparr>ReportPullingTimeout := ReportPullingTimeout cfg\<rparr> else c);
          c = (if 0 < ReportMinRetryTime cfg
               then c\<lparr>ReportMinRetryTime := ReportMinRetryTime cfg\<rparr> else c);
          c = c\<lparr>EnableGlobalObfuscation := EnableGlobalObfuscation c \<or> EnableGlobalObfuscation cfg\<rparr>
      in c\<lparr>DisableInsightsAlerts := DisableInsightsAlerts c \<or> DisableInsightsAlerts cfg\<rparr>)"

definition mergeOCM :: "Controller \<Rightarrow> Controller \<Rightarrow> Controller" where
  "mergeOCM cfg c =
     (let n = OCMConf cfg; m = OCMConf c;
          m = (if 0 < length (ocm_SCAEndpoint n) then m\<lparr>ocm_SCAEndpoint := ocm_SCAEndpoint n\<rparr> else m);
          m = (if 0 < ocm_SCAInterval n then m\<lparr>ocm_SCAInterval := ocm_SCAInterval n\<rparr> else m);
          m = m\<lparr>ocm_SCADisabled := ocm_SCADisabled n\<rparr>;
          m = (if 0 < length (ocm_ClusterTransferEndpoint n)
               then m\<lparr>ocm_ClusterTransferEndpoint := ocm_ClusterTransferEndpoint n\<rparr> else m);
          m = (if 0 < ocm_ClusterTransferInterval n
               then m\<lparr>ocm_ClusterTransferInterval := ocm_ClusterTransferInterval n\<rparr> else m)
      in c\<lparr>OCMConf := m\<rparr>)"

definition mergeHTTP :: "Controller \<Rightarrow> Controller \<Rightarrow> Controller" where
  "mergeHTTP cfg c = c\<lparr>HTTPConf := HTTPConf cfg\<rparr>"

definition mergeInterval :: "Controller \<Rightarrow> Controller \<Rightarrow> Controller" where
  "mergeInterval cfg c = (if 0 < Interval cfg then c\<lparr>Interval := Interval cfg\<rparr> else c)"

definition MergeWith :: "Controller \<Rightarrow> Controller \<Rightarrow> Controller" where
  "MergeWith cfg c =
     mergeReportEndpointTechPreview cfg
       (mergeProcessingStatusEndpoint cfg
         (mergeHTTP cfg
           (mergeOCM cfg
             (mergeReport cfg
               (mergeConditionalGathererEndpoint cfg
                 (mergeEndpoint cfg (mergeInterval cfg c)))))))"

lemmas merge_defs [config_simps] =
  mergeEndpoint_def mergeProcessingStatusEndpoint_def mergeReportEndpointTechPreview_def
  mergeConditionalGathererEndpoint_def mergeReport_def mergeOCM_def mergeHTTP_def mergeInterval_def
  MergeWith_def

text \<open>
  One optional duration of the serialised file: an empty text keeps the field, a text that does not
  parse is an error.
\<close>

definition load_duration ::
  "(string \<Rightarrow> duration result) \<Rightarrow> string \<Rightarrow> string \<Rightarrow> duration \<Rightarrow> duration result" where
  "load_duration parse_duration what text old =
     (if 0 < length text then
        (case parse_duration text of
           Inl e \<Rightarrow> Inl (Errorf (what @ '' must be a valid duration: '' @ error_text e))
         | Inr d \<Rightarrow> Inr d)
      else Inr old)"

definition nonneg_error :: "string \<Rightarrow> go_error" where
  "nonneg_error what = Errorf (what @ '' must be a non-negative duration'')"

definition storagePath_error :: go_error where
  "storagePath_error = Errorf ''storagePath must point to a directory where snapshots can be stored''"

definition ToController_ocm ::
  "(string \<Rightarrow> duration result) \<Rightarrow> Serialized \<Rightarrow> Controller \<Rightarrow> Controller \<times> go_error option" where
  "ToController_ocm pd s cfg =
     (let o1 = OCMConf cfg;
          o1 = (if 0 < length (s_SCAEndpoint s) then o1\<lparr>ocm_SCAEndpoint := s_SCAEndpoint s\<rparr> else o1);
          o1 = o1\<lparr>ocm_SCADisabled := s_SCADisabled s\<rparr>
      in case load_duration pd ''OCM SCA interval'' (s_SCAInterval s) (ocm_SCAInterval o1) of
           Inl e \<Rightarrow> (cfg\<lparr>OCMConf := o1\<rparr>, Some e)
         | Inr d \<Rightarrow>
             let o2 = o1\<lparr>ocm_SCAInterval := d\<rparr>;
                 o2 = (if 0 < length (s_ClusterTransferEndpoint s)
                       then o2\<lparr>ocm_ClusterTransferEndpoint := s_ClusterTransferEndpoint s\<rparr> else o2)
             in case load_duration pd ''OCM Cluster transfer interval'' (s_ClusterTransferInterval s)
                       (ocm_ClusterTransferInterval o2) of
                  Inl e \<Rightarrow> (cfg\<lparr>OCMConf := o2\<rparr>, Some e)
                | Inr d2 \<Rightarrow> (cfg\<lparr>OCMConf := o2\<lparr>ocm_ClusterTransferInterval := d2\<rparr>\<rparr>, None))"

definition ToController_pull ::
  "(string \<Rightarrow> duration result) \<Rightarrow> Serialized \<Rightarrow> Controller \<Rightarrow> Controller \<times> go_error option" where
  "ToController_pull pd s cfg =
     (let cfg = (if 0 < length (s_PullEndpoint s) then cfg\<lparr>ReportEndpoint := s_PullEndpoint s\<rparr> else cfg)
      in case load_duration pd ''delay'' (s_PullDelay s) (ReportPullingDelay cfg) of
           Inl e \<Rightarrow> (cfg, Some e)
         | Inr d \<Rightarrow>
      let cfg = cfg\<lparr>ReportPullingDelay := d\<rparr>
      in if d \<le> 0 then (cfg, Some (nonneg_error ''delay''))
         else case load_duration pd ''min_retry'' (s_PullMinRetryTime s) (ReportMinRetryTime cfg) of
           Inl e \<Rightarrow> (cfg, Some e)
         | Inr m \<Rightarrow>
      let cfg = cfg\<lparr>ReportMinRetryTime := m\<rparr>
      in if m \<le> 0 then (cfg, Some (nonneg_error ''min_retry''))
         else case load_duration pd ''timeout'' (s_PullTimeout s) (ReportPullingTimeout cfg) of
           Inl e \<Rightarrow> (cfg, Some e)
         | Inr t \<Rightarrow>
      let cfg = cfg\<lparr>ReportPullingTimeout := t\<rparr>
      in if t \<le> 0 then (cfg, Some (nonneg_error ''timeout''))
         else if length (StoragePath cfg) = 0 then (cfg, Some storagePath_error)
         else ToController_ocm pd s cfg)"

definition ToController ::
  "(string \<Rightarrow> duration result) \<Rightarrow> Serialized \<Rightarrow> Controller \<Rightarrow> Controller \<times> go_error option" where
  "ToController pd s cfg =
     (let cfg = cfg\<lparr>Report := s_Report s, StoragePath := s_StoragePath s, Endpoint := s_Endpoint s,
                   ConditionalGathererEndpoint := s_ConditionalGathererEndpoint s,
                   Impersonate := s_Impersonate s,
                   EnableGlobalObfuscation := s_EnableGlobalObfuscation s,
                   DisableInsightsAlerts := s_DisableInsightsAlerts s,
                   ProcessingStatusEndpoint := s_ProcessingStatusEndpoint s,
                   ReportEndpointTechPreview := s_ReportEndpointTechPreview s,
                   DisableRuntimeExtractor := s_DisableRuntimeExtractor s\<rparr>
      in case load_duration pd ''interval'' (s_Interval s) (Interval cfg) of
           Inl e \<Rightarrow> (cfg, Some e)
         | Inr d \<Rightarrow>
             let cfg = cfg\<lparr>Interval := d\<rparr>
             in if d \<le> 0 then (cfg, Some (nonneg_error ''interval''))
                else ToController_pull pd s cfg)"

definition ToDisconnectedController ::
  "(string \<Rightarrow> duration result) \<Rightarrow> Serialized \<Rightarrow> Controller \<Rightarrow> Controller \<times> go_error option" where
  "ToDisconnectedController pd s cfg =
     (let cfg = cfg\<lparr>Report := s_Report s, StoragePath := s_StoragePath s,
                   Impersonate := s_Impersonate s,
                   EnableGlobalObfuscation := s_EnableGlobalObfuscation s,
                   ConditionalGathererEndpoint := s_ConditionalGathererEndpoint s,
                   DisableInsightsAlerts := s_DisableInsightsAlerts s,
                   DisableRuntimeExtractor := s_DisableRuntimeExtractor s\<rparr>
      in case load_duration pd ''interval'' (s_Interval s) (Interval cfg) of
           Inl e \<Rightarrow> (cfg, Some e)
         | Inr d \<Rightarrow>
             let cfg = cfg\<lparr>Interval := d\<rparr>
             in if d \<le> 0 then (cfg, Some (nonneg_error ''interval''))
                else if length (StoragePath cfg) = 0 then (cfg, Some storagePath_error)
                else (cfg, None))"

text \<open>The outcome of the unstructured converter is an argument.\<close>

definition LoadConfig ::
  "Serialized result \<Rightarrow> (Serialized \<Rightarrow> Controller \<Rightarrow> Controller \<times> go_error option) \<Rightarrow>
   Controller \<Rightarrow> Controller \<times> go_error option" where
  "LoadConfig decoded converter controller =
     (case decoded of
        Inl e \<Rightarrow> (controller, Some (Errorf (''unable to load config: '' @ error_text e)))
      | Inr cfg \<Rightarrow> converter cfg controller)"

section \<open>The support secret (pkg/config/configobserver/config.go)\<close>

type_synonym secret_data = "(string, bytes) gomap"

definition minDuration :: duration where "minDuration = 10 * Minute"

definition load_field ::
  "secret_data \<Rightarrow> string \<Rightarrow> (string \<Rightarrow> Controller \<Rightarrow> Controller) \<Rightarrow> Controller \<Rightarrow> Controller" where
  "load_field data key set_field c =
     (case map_get data key of Some v \<Rightarrow> set_field v c | None \<Rightarrow> c)"

definition loadEndpoint :: "secret_data \<Rightarrow> Controller \<Rightarrow> Controller" where
  "loadEndpoint data = load_field data ''endpoint'' (\<lambda>v c. c\<lparr>Endpoint := v\<rparr>)"

definition loadConditionalGathererEndpoint :: "secret_data \<Rightarrow> Controller \<Rightarrow> Controller" where
  "loadConditionalGathererEndpoint data =
     load_field data ''conditionalGathererEndpoint'' (\<lambda>v c. c\<lparr>ConditionalGathererEndpoint := v\<rparr>)"

definition loadHTTP :: "secret_data \<Rightarrow> Controller \<Rightarrow> Controller" where
  "loadHTTP data c =
     load_field data ''noProxy'' (\<lambda>v c. c\<lparr>HTTPConf := (HTTPConf c)\<lparr>http_NoProxy := v\<rparr>\<rparr>)
       (load_field data ''httpsProxy'' (\<lambda>v c. c\<lparr>HTTPConf := (HTTPConf c)\<lparr>http_HTTPSProxy := v\<rparr>\<rparr>)
         (load_field data ''httpProxy'' (\<lambda>v c. c\<lparr>HTTPConf := (HTTPConf c)\<lparr>http_HTTPProxy := v\<rparr>\<rparr>) c))"

definition loadEnableGlobalObfuscation :: "secret_data \<Rightarrow> Controller \<Rightarrow> Controller" where
  "loadEnableGlobalObfuscation data =
     load_field data ''enableGlobalObfuscation''
       (\<lambda>v c. c\<lparr>EnableGlobalObfuscation := equal_fold_true v\<rparr>)"

definition loadReportEndpoint :: "secret_data \<Rightarrow> Controller \<Rightarrow> Controller" where
  "loadReportEndpoint data = load_field data ''reportEndpoint'' (\<lambda>v c. c\<lparr>ReportEndpoint := v\<rparr>)"

text \<open>\<open>loadReportDurationSetting\<close> returns what it writes to its target; \<open>old\<close> is the target's value.\<close>

definition loadReportDurationSetting ::
  "(string \<Rightarrow> duration result) \<Rightarrow> secret_data \<Rightarrow> string \<Rightarrow> duration \<Rightarrow> duration" where
  "loadReportDurationSetting pd data key old =
     (case map_get data key of
        Some value \<Rightarrow> (case pd value of Inr v \<Rightarrow> v | Inl _ \<Rightarrow> old)
      | None \<Rightarrow> if key = ''reportPullingDelay'' then -1 else old)"

definition loadReportPullingDelay ::
  "(string \<Rightarrow> duration result) \<Rightarrow> secret_data \<Rightarrow> Controller \<Rightarrow> Controller" where
  "loadReportPullingDelay pd data c =
     c\<lparr>ReportPullingDelay := loadReportDurationSetting pd data ''reportPullingDelay'' (ReportPullingDelay c)\<rparr>"

definition loadReportPullingTimeout ::
  "(string \<Rightarrow> duration result) \<Rightarrow> secret_data \<Rightarrow> Controller \<Rightarrow> Controller" where
  "loadReportPullingTimeout pd data c =
     c\<lparr>ReportPullingTimeout :=
        loadReportDurationSetting pd data ''reportPullingTimeout'' (ReportPullingTimeout c)\<rparr>"

definition loadReportMinRetryTime ::
  "(string \<Rightarrow> duration result) \<Rightarrow> secret_data \<Rightarrow> Controller \<Rightarrow> Controller" where
  "loadReportMinRetryTime pd data c =
     c\<lparr>ReportMinRetryTime := loadReportDurationSetting pd data ''reportMinRetryTime'' (ReportMinRetryTime c)\<rparr>"

definition loadReportSettings :: "secret_data \<Rightarrow> Controller \<Rightarrow> Controller" where
  "loadReportSettings data c =
     load_field data ''disableInsightsAlerts'' (\<lambda>v c. c\<lparr>DisableInsightsAlerts := equal_fold_true v\<rparr>)
       (c\<lparr>Report := 0 < length (Endpoint c)\<rparr>)"

definition loadReport ::
  "(string \<Rightarrow> duration result) \<Rightarrow> secret_data \<Rightarrow> Controller \<Rightarrow> Controller" where
  "loadReport pd data c =
     loadReportSettings data
       (loadReportMinRetryTime pd data
         (loadReportPullingTimeout pd data
           (loadReportPullingDelay pd data
             (loadReportEndpoint data (loadEnableGlobalObfuscation data c)))))"

definition loadOCM :: "(string \<Rightarrow> duration result) \<Rightarrow> secret_data \<Rightarrow> Controller \<Rightarrow> Controller" where
  "loadOCM pd data c =
     (let upd = (\<lambda>f c. c\<lparr>OCMConf := f (OCMConf c)\<rparr>);
          c = load_field data ''scaEndpoint'' (\<lambda>v. upd (\<lambda>m. m\<lparr>ocm_SCAEndpoint := v\<rparr>)) c;
          c = load_field data ''scaInterval''
                (\<lambda>v. upd (\<lambda>m. case pd v of Inr d \<Rightarrow> m\<lparr>ocm_SCAInterval := d\<rparr> | Inl _ \<Rightarrow> m)) c;
          c = load_field data ''scaPullDisabled''
                (\<lambda>v. upd (\<lambda>m. m\<lparr>ocm_SCADisabled := equal_fold_true v\<rparr>)) c;
          c = load_field data ''clusterTransferEndpoint''
                (\<lambda>v. upd (\<lambda>m. m\<lparr>ocm_ClusterTransferEndpoint := v\<rparr>)) c
      in load_field data ''clusterTransferInterval''
           (\<lambda>v. upd (\<lambda>m. case pd v of Inr d \<Rightarrow> m\<lparr>ocm_ClusterTransferInterval := d\<rparr> | Inl _ \<Rightarrow> m)) c)"

definition loadProcessingStatusEndpoint :: "secret_data \<Rightarrow> Controller \<Rightarrow> Controller" where
  "loadProcessingStatusEndpoint data =
     load_field data ''processingStatusEndpoint'' (\<lambda>v c. c\<lparr>ProcessingStatusEndpoint := v\<rparr>)"

definition loadReportEndpointTechPreview :: "secret_data \<Rightarrow> Controller \<Rightarrow> Controller" where
  "loadReportEndpointTechPreview data =
     load_field data ''reportEndpointTechPreview'' (\<lambda>v c. c\<lparr>ReportEndpointTechPreview := v\<rparr>)"

definition LoadConfigFromSecret ::
  "(string \<Rightarrow> duration result) \<Rightarrow> secret_data \<Rightarrow> Controller \<times> go_error option" where
  "LoadConfigFromSecret pd data =
     (let cfg =
        loadReportEndpointTechPreview data
          (loadProcessingStatusEndpoint data
            (loadOCM pd data
              (loadReport pd data
                (loadHTTP data
                  (loadConditionalGathererEndpoint data
                    (loadEndpoint data zero_Controller))))))
      in case map_get data ''interval'' of
           None \<Rightarrow> (cfg, None)
         | Some intervalString \<Rightarrow>
             (case pd intervalString of
                Inl e \<Rightarrow>
                  (cfg\<lparr>Report := False\<rparr>,
                   Some (Errorf (''insights secret interval must be a duration (1h, 10m) '' @
                     ''greater than or equal to ten minutes: '' @ error_text e)))
              | Inr d \<Rightarrow>
                  if d < minDuration
                  then (cfg, Some (Errorf ''interval value too short, minimal value is 10 minutes''))
                  else (cfg\<lparr>Interval := d\<rparr>, None)))"

lemmas load_defs [config_simps] =
  load_field_def loadEndpoint_def loadConditionalGathererEndpoint_def loadHTTP_def
  loadEnableGlobalObfuscation_def loadReportEndpoint_def loadReportPullingDelay_def
  loadReportPullingTimeout_def loadReportMinRetryTime_def loadReportSettings_def loadReport_def
  loadOCM_def loadProcessingStatusEndpoint_def loadReportEndpointTechPreview_def

section \<open>The Configurator interface\<close>

text \<open>
  What the aggregator relies on when it asks a configurator for its configuration (the interface
  \<open>Configurator\<close> of secretconfigobserver.go): there is one, reporting is on exactly when there is an
  endpoint and a token, and the interval is positive.
\<close>

locale configurator =
  fixes conf :: "'s \<Rightarrow> Controller option"
    and ok :: "'s \<Rightarrow> bool"
  assumes conf_set: "ok s \<Longrightarrow> \<exists>c. conf s = Some c"
    and conf_report: "ok s \<Longrightarrow> conf s = Some c \<Longrightarrow> Report c \<longleftrightarrow> Endpoint c \<noteq> [] \<and> Token c \<noteq> []"
    and conf_interval: "ok s \<Longrightarrow> conf s = Some c \<Longrightarrow> 0 < Interval c"

section \<open>Lemmas\<close>

lemma MergeWith_frame [simp]:
  "Token (MergeWith cfg c) = Token c"
  "StoragePath (MergeWith cfg c) = StoragePath c"
  "Impersonate (MergeWith cfg c) = Impersonate c"
  "DisableRuntimeExtractor (MergeWith cfg c) = DisableRuntimeExtractor c"
  by (simp_all add: config_simps Let_def)

lemma MergeWith_Endpoint [simp]:
  "Endpoint (MergeWith cfg c) = (if Endpoint cfg \<noteq> [] then Endpoint cfg else Endpoint c)"
  by (simp add: config_simps Let_def)

lemma MergeWith_Interval [simp]:
  "Interval (MergeWith cfg c) = (if 0 < Interval cfg then Interval cfg else Interval c)"
  by (simp add: config_simps Let_def)

lemma MergeWith_Obfuscation [simp]:
  "EnableGlobalObfuscation (MergeWith cfg c) =
    (EnableGlobalObfuscation c \<or> EnableGlobalObfuscation cfg)"
  by (simp add: config_simps Let_def)

lemma MergeWith_delays:
  "0 < ReportPullingTimeout c \<Longrightarrow> 0 < ReportPullingTimeout (MergeWith cfg c)"
  "0 < ReportMinRetryTime c \<Longrightarrow> 0 < ReportMinRetryTime (MergeWith cfg c)"
  "0 \<le> ReportPullingDelay c \<Longrightarrow> 0 \<le> ReportPullingDelay (MergeWith cfg c)"
  by (simp_all add: config_simps Let_def)

text \<open>The loaders of the secret write only their own fields.\<close>

lemma load_Interval [simp]:
  "Interval (loadEndpoint d c) = Interval c"
  "Interval (loadConditionalGathererEndpoint d c) = Interval c"
  "Interval (loadHTTP d c) = Interval c"
  "Interval (loadReport pd d c) = Interval c"
  "Interval (loadOCM pd d c) = Interval c"
  "Interval (loadProcessingStatusEndpoint d c) = Interval c"
  "Interval (loadReportEndpointTechPreview d c) = Interval c"
  by (simp_all add: load_defs Let_def split: option.splits)

lemma LoadConfigFromSecret_interval:
  assumes "LoadConfigFromSecret pd data = (c, None)"
  shows "Interval c = 0 \<or> minDuration \<le> Interval c"
  using assms
  by (auto simp: LoadConfigFromSecret_def Let_def zero_Controller_def
      split: option.splits sum.splits if_splits)

lemma load_duration_Inr:
  "load_duration pd what text old = Inr d \<Longrightarrow> (text = [] \<and> d = old) \<or> pd text = Inr d"
  by (auto simp: load_duration_def split: if_splits sum.splits)

lemma ToController_pull_frame:
  "ToController_pull pd s cfg = (c, None) \<Longrightarrow>
    Interval c = Interval cfg \<and> StoragePath c = StoragePath cfg \<and> StoragePath c \<noteq> [] \<and>
    0 < ReportPullingDelay c \<and> 0 < ReportMinRetryTime c \<and> 0 < ReportPullingTimeout c \<and>
    Token c = Token cfg"
  by (auto simp: ToController_pull_def ToController_ocm_def Let_def split: sum.splits if_splits)

lemma ToController_valid:
  assumes "ToController pd s cfg = (c, None)"
  shows "0 < Interval c \<and> StoragePath c \<noteq> [] \<and> 0 < ReportPullingDelay c \<and>
    0 < ReportMinRetryTime c \<and> 0 < ReportPullingTimeout c \<and> Token c = Token cfg"
  using assms
  by (auto simp: ToController_def Let_def split: sum.splits if_splits
      dest!: ToController_pull_frame)

end
