(* ===== verification/InsightsClient.thy ===== *)
theory InsightsClient
  imports LegacyConfig
begin

text \<open>
  pkg/insights/insightsclient (insightsclient.go, requests.go, reader.go, apiserver_config.go),
  pkg/authorizer and pkg/authorizer/clusterauthorizer: the client that uploads archives and downloads
  reports, with its authorisation and TLS configuration.

  What the client talks to is the record \<open>client_env\<close>: the cluster version of the API server, the token of
  the authoriser, the outcome of building a request, the transport, and \<open>ce_Do\<close>, the answer of the HTTP
  client to a request.  A call returns its result together with the increments of its counter; \<open>None\<close> is
  a panic.
\<close>

section \<open>Formatting with an endpoint as the format\<close>

text \<open>
  \<open>fmt.Sprintf\<close> for formats whose verbs are \<open>%s\<close> and \<open>%v\<close>; an argument carries the name of its type, which
  Go prints when there are more arguments than verbs.
\<close>

fun fmt_args :: "string \<Rightarrow> (string \<times> string) list \<Rightarrow> string \<times> (string \<times> string) list" where
  "fmt_args [] args = ([], args)"
| "fmt_args [c] args = (if c = CHR ''%'' then ''%!(NOVERB)'' else [c], args)"
| "fmt_args (c # v # cs) args =
     (if c \<noteq> CHR ''%'' then (let (s, rest) = fmt_args (v # cs) args in (c # s, rest))
      else if v = CHR ''%'' then (let (s, rest) = fmt_args cs args in (CHR ''%'' # s, rest))
      else case args of
             [] \<Rightarrow> (let (s, rest) = fmt_args cs [] in (''%!'' @ [v] @ ''(MISSING)'' @ s, rest))
           | (ty, a) # args \<Rightarrow>
               (let (s, rest) = fmt_args cs args
                in ((if v = CHR ''s'' \<or> v = CHR ''v'' then a else ''%!'' @ [v] @ ''('' @ ty @ ''='' @ a @ '')'') @ s,
                    rest)))"

definition Sprintf :: "string \<Rightarrow> (string \<times> string) list \<Rightarrow> string" where
  "Sprintf f args =
     (let (s, rest) = fmt_args f args
      in if rest = [] then s
         else s @ ''%!(EXTRA '' @ join_with '', '' (map (\<lambda>(ty, a). ty @ ''='' @ a) rest) @ '')'')"

section \<open>Authorisation\<close>

definition IsAuthorizationError :: "go_error \<Rightarrow> bool" where
  "IsAuthorizationError err = (case err of AuthError _ \<Rightarrow> True | _ \<Rightarrow> False)"

definition IsHttpError :: "go_error \<Rightarrow> bool" where
  "IsHttpError err = (case err of HttpError _ _ \<Rightarrow> True | _ \<Rightarrow> False)"

definition authorizer_Token :: "Controller \<Rightarrow> string result" where
  "authorizer_Token cfg =
     (if 0 < length (Token cfg) then
        let token = trim_space (Token cfg)
        in if contains_str ''\<newline>'' token \<or> contains_str [CHR 0x0D] token
           then Inl (Errorf ''cluster authorization token is not valid: contains newlines'')
           else if length token = 0 then Inl (Errorf ''cluster authorization token is empty'')
           else Inr token
      else Inl (Errorf ''cluster authorization token is not configured''))"

datatype proxy = ConfiguredProxy Proxy | SystemProxy

definition NewSystemOrConfiguredProxy :: "InsightsConfiguration option \<Rightarrow> proxy" where
  "NewSystemOrConfiguredProxy conf =
     (case conf of
        None \<Rightarrow> SystemProxy
      | Some c \<Rightarrow>
          if 0 < length (px_HTTPProxy (ic_Proxy c)) \<or> 0 < length (px_HTTPSProxy (ic_Proxy c)) \<or>
             0 < length (px_NoProxy (ic_Proxy c))
          then ConfiguredProxy (ic_Proxy c) else SystemProxy)"

section \<open>Requests and responses\<close>

datatype http_body = NoBody | Payload bytes | Upload bytes bytes "go_error option"

record http_request =
  rq_Method :: string
  rq_URL :: string
  rq_Header :: "(string, string) gomap"
  rq_Body :: http_body

record http_response =
  rs_StatusCode :: int
  rs_Status :: string
  rs_RequestID :: string
  rs_URL :: string
  rs_Body :: bytes

definition Authorize :: "string result \<Rightarrow> http_request \<Rightarrow> http_request result" where
  "Authorize token req =
     (case token of
        Inl err \<Rightarrow> Inl err
      | Inr t \<Rightarrow> Inr (req\<lparr>rq_Header := map_put ''Authorization'' (''Bearer '' @ t) (rq_Header req)\<rparr>))"

definition responseBodyLogLen :: nat where "responseBodyLogLen = 1024"

definition responseBody :: "http_response option \<Rightarrow> string" where
  "responseBody r = (case r of None \<Rightarrow> [] | Some r \<Rightarrow> take responseBodyLogLen (rs_Body r))"

definition newHTTPErrorFromResponse :: "http_response \<Rightarrow> go_error" where
  "newHTTPErrorFromResponse r =
     HttpError (''URL \"'' @ rs_URL r @ ''\" returned HTTP code '' @ itoa (rs_StatusCode r) @ '': '' @
       responseBody (Some r)) (rs_StatusCode r)"

definition ocmErrorMessage :: "http_response \<Rightarrow> go_error" where
  "ocmErrorMessage r =
     HttpError (''OCM API '' @ rs_URL r @ '' returned HTTP '' @ itoa (rs_StatusCode r) @ '': '' @
       responseBody (Some r)) (rs_StatusCode r)"

section \<open>TLS configuration\<close>

record TLSProfileSpec =
  tp_Ciphers :: "string list"
  tp_MinTLSVersion :: string

record TLSSecurityProfile =
  sp_Type :: string
  sp_Custom :: "TLSProfileSpec option"

record tls_config =
  tls_MinVersion :: int
  tls_MaxVersion :: int
  tls_CipherSuites :: "int list"
  tls_RootCAs :: "bytes option"

text \<open>
  \<open>profiles\<close> is the table of predefined profiles of the API, \<open>to_iana\<close> and \<open>suite\<close> the functions of the
  crypto package of library-go.
\<close>

definition parseTLSVersion :: "string \<Rightarrow> int result" where
  "parseTLSVersion version =
     (if version = ''VersionTLS10'' \<or> version = ''TLSv1.0'' then Inr 769
      else if version = ''VersionTLS11'' \<or> version = ''TLSv1.1'' then Inr 770
      else if version = ''VersionTLS12'' \<or> version = ''TLSv1.2'' then Inr 771
      else if version = ''VersionTLS13'' \<or> version = ''TLSv1.3'' then Inr 772
      else Inl (Errorf (''unknown TLS version: '' @ version)))"

definition getTLSProfileSpec ::
  "(string \<Rightarrow> TLSProfileSpec) \<Rightarrow> TLSSecurityProfile \<Rightarrow> TLSProfileSpec result" where
  "getTLSProfileSpec profiles profile =
     (if sp_Type profile \<in> {''Old'', ''Intermediate'', ''Modern''} then Inr (profiles (sp_Type profile))
      else if sp_Type profile = ''Custom''
      then (case sp_Custom profile of
              None \<Rightarrow> Inl (Errorf ''custom TLS profile specified but Custom field is nil'')
            | Some spec \<Rightarrow> Inr spec)
      else Inr (profiles ''Intermediate''))"

definition valid_suites :: "(string \<Rightarrow> int result) \<Rightarrow> string list \<Rightarrow> int list" where
  "valid_suites suite names = List.map_filter (\<lambda>n. case suite n of Inl _ \<Rightarrow> None | Inr s \<Rightarrow> Some s) names"

definition buildTLSConfigFromProfile ::
  "(string \<Rightarrow> TLSProfileSpec) \<Rightarrow> (string list \<Rightarrow> string list) \<Rightarrow> (string \<Rightarrow> int result) \<Rightarrow>
   TLSSecurityProfile \<Rightarrow> tls_config result" where
  "buildTLSConfigFromProfile profiles to_iana suite profile =
     (case getTLSProfileSpec profiles profile of
        Inl err \<Rightarrow> Inl (Errorf (''failed to getTLSProfileSpec: '' @ (case err of Errorf s \<Rightarrow> s | _ \<Rightarrow> [])))
      | Inr profileSpec \<Rightarrow>
          (case parseTLSVersion (tp_MinTLSVersion profileSpec) of
             Inl err \<Rightarrow> Inl (Errorf (''invalid MinTLSVersion: '' @ (case err of Errorf s \<Rightarrow> s | _ \<Rightarrow> [])))
           | Inr minVersion \<Rightarrow>
               let config = \<lparr>tls_MinVersion = minVersion, tls_MaxVersion = 0, tls_CipherSuites = [],
                             tls_RootCAs = None\<rparr>
               in if minVersion = 772 then Inr (config\<lparr>tls_MaxVersion := 772\<rparr>)
                  else let suites = valid_suites suite (to_iana (tp_Ciphers profileSpec))
                       in if length suites = 0 then Inl (Errorf ''no valid cipher suites found'')
                          else Inr (config\<lparr>tls_CipherSuites := suites\<rparr>)))"

definition GetTLSConfigFromAPIServer ::
  "(string \<Rightarrow> TLSProfileSpec) \<Rightarrow> (string list \<Rightarrow> string list) \<Rightarrow> (string \<Rightarrow> int result) \<Rightarrow>
   TLSSecurityProfile option result \<Rightarrow> tls_config result" where
  "GetTLSConfigFromAPIServer profiles to_iana suite apiserver =
     (case apiserver of
        Inl err \<Rightarrow> Inl (Errorf (''failed to get APIServer config: '' @ error_text err))
      | Inr profile \<Rightarrow>
          buildTLSConfigFromProfile profiles to_iana suite
            (case profile of None \<Rightarrow> \<lparr>sp_Type = ''Intermediate'', sp_Custom = None\<rparr> | Some p \<Rightarrow> p))"

text \<open>
  The outcome of reading the CA bundle: an error of reading (\<open>NotFoundErr\<close> when there is no file) or the
  bytes; \<open>parse_pem\<close> says whether they hold a certificate.
\<close>

definition getTrustedCABundle :: "(bytes \<Rightarrow> bool) \<Rightarrow> bytes result \<Rightarrow> bytes option result" where
  "getTrustedCABundle parse_pem file =
     (case file of
        Inl err \<Rightarrow> if isNotFound err then Inr None else Inl err
      | Inr caBytes \<Rightarrow>
          if length caBytes = 0 then Inr None
          else if \<not> parse_pem caBytes then Inl (Errorf ''error loading cert pool from ca data'')
          else Inr (Some caBytes))"

text \<open>
  The transport: the proxy and the TLS configuration, nil when it could not be read.  With a CA bundle,
  a field of the nil configuration is written: the call panics.
\<close>

definition clientTransport ::
  "proxy \<Rightarrow> tls_config result \<Rightarrow> bytes option result \<Rightarrow> (proxy \<times> tls_config option) option" where
  "clientTransport px tls bundle =
     (let tlsConfig = (case tls of Inl _ \<Rightarrow> None | Inr c \<Rightarrow> Some c);
          rootCAs = (case bundle of Inl _ \<Rightarrow> None | Inr b \<Rightarrow> b)
      in case rootCAs of
           None \<Rightarrow> Some (px, tlsConfig)
         | Some b \<Rightarrow>
             (case tlsConfig of
                None \<Rightarrow> None
              | Some c \<Rightarrow> Some (px, Some (c\<lparr>tls_RootCAs := Some b\<rparr>))))"

section \<open>The limited reader\<close>

text \<open>
  The underlying reader is the list of the pieces it returns, each in one or more reads; the empty list is
  the end of the file.
\<close>

definition ErrTooLong :: go_error where "ErrTooLong = Errorf ''the incoming sample data is too long''"

definition LimitedReader_Read :: "int \<Rightarrow> nat \<Rightarrow> bytes list \<Rightarrow> int \<times> bytes list \<times> bytes \<times> go_error option" where
  "LimitedReader_Read N plen chunks =
     (if N \<le> 0 then (N, chunks, [], Some ErrTooLong)
      else let plen = (if N < int plen then nat N else plen)
           in case chunks of
                [] \<Rightarrow> (N, [], [], Some (Errorf ''EOF''))
              | c # cs \<Rightarrow>
                  if length c \<le> plen then (N - int (length c), cs, c, None)
                  else (N - int plen, drop plen c # cs, take plen c, None))"

text \<open>\<open>io.Copy\<close> from the limited reader, with a buffer of \<open>Suc b\<close> bytes; the end of the file is no error.\<close>

function limited_copy :: "nat \<Rightarrow> int \<Rightarrow> bytes list \<Rightarrow> bytes \<times> go_error option" where
  "limited_copy b N chunks =
     (if N \<le> 0 then ([], Some ErrTooLong)
      else case chunks of
             [] \<Rightarrow> ([], None)
           | c # cs \<Rightarrow>
               (case LimitedReader_Read N (Suc b) (c # cs) of
                  (N', chunks', got, err) \<Rightarrow>
                    (let (rest, err') = limited_copy b N' chunks' in (got @ rest, err'))))"
  by pat_completeness auto

termination
  by (relation "measure (\<lambda>(b, N, chunks). length chunks + sum_list (map length chunks))")
    (auto simp: LimitedReader_Read_def Let_def split: if_splits)

declare limited_copy.simps [simp del]

section \<open>The client\<close>

record Source =
  src_ID :: string
  src_Type :: string
  src_CreationTime :: string
  src_Contents :: "bytes list"

record client_env =
  ce_maxBytes :: int
  ce_version :: "string result"
  ce_newRequest :: "string \<Rightarrow> go_error option"
  ce_token :: "string result"
  ce_releaseVersion :: string
  ce_gitVersion :: string
  ce_gitCommit :: string
  ce_transport :: "(proxy \<times> tls_config option) option"
  ce_Do :: "(proxy \<times> tls_config option) \<Rightarrow> http_request \<Rightarrow> http_response result"

definition userAgent :: "string \<Rightarrow> string \<Rightarrow> string \<Rightarrow> string \<Rightarrow> string" where
  "userAgent releaseVersionEnv gitVersion gitCommit clusterID =
     (let gitVersion = (if releaseVersionEnv \<noteq> [] then releaseVersionEnv else gitVersion);
          gitVersion = gitVersion @ ''-'' @ gitCommit
      in ''insights-operator/'' @ gitVersion @ '' cluster/'' @ clusterID)"

definition prepareRequest ::
  "client_env \<Rightarrow> string \<Rightarrow> string \<Rightarrow> string \<Rightarrow> http_request result" where
  "prepareRequest env method endpoint clusterID =
     (case ce_newRequest env endpoint of
        Some err \<Rightarrow> Inl err
      | None \<Rightarrow>
          let ua = userAgent (ce_releaseVersion env) (ce_gitVersion env) (ce_gitCommit env) clusterID
          in Authorize (ce_token env)
               \<lparr>rq_Method = method, rq_URL = endpoint, rq_Header = [(''User-Agent'', ua)], rq_Body = NoBody\<rparr>)"

text \<open>
  The body of an upload: the archive through the limited reader, the metadata with the gathering time,
  and the error the pipe is closed with when the archive is too long.
\<close>

definition createAndWriteMIMEHeader :: "int \<Rightarrow> Source \<Rightarrow> http_body" where
  "createAndWriteMIMEHeader maxBytes source =
     (let (written, err) = limited_copy 32767 maxBytes (src_Contents source)
      in Upload written
           (''{\"custom_metadata\":{\"gathering_time\":\"'' @ src_CreationTime source @ ''\"}}'') err)"

definition get_version :: "client_env \<Rightarrow> string result" where
  "get_version env =
     (case ce_version env of
        Inl err \<Rightarrow> Inl (if isNotFound err then ErrWaitingForVersion else err)
      | Inr i \<Rightarrow> Inr i)"

definition send_response :: "http_response \<Rightarrow> string \<times> int \<times> go_error option" where
  "send_response resp =
     (let code = rs_StatusCode resp; requestID = rs_RequestID resp; body = responseBody (Some resp)
      in if code = 401 then
           ([], code, Some (AuthError (''your Red Hat account is not enabled for remote support or your token has expired: '' @ body)))
         else if code = 403 then
           ([], code, Some (AuthError ''your Red Hat account is not enabled for remote support''))
         else if code = 400 then
           ([], code, Some (Errorf (''gateway server bad request: '' @ rs_URL resp @ '' (request='' @ requestID @ ''): '' @ body)))
         else if code \<ge> 300 \<or> code < 200 then
           ([], code, Some (Errorf (''gateway server reported unexpected error code: '' @ itoa code @
              '' (request='' @ requestID @ ''): '' @ body)))
         else (requestID, code, None))"

definition SendAndGetID ::
  "client_env \<Rightarrow> string \<Rightarrow> Source \<Rightarrow> ((string \<times> int \<times> go_error option) \<times> int list) option" where
  "SendAndGetID env endpoint source =
     (case get_version env of
        Inl err \<Rightarrow> Some (([], 0, Some err), [])
      | Inr clusterID \<Rightarrow>
          (case prepareRequest env ''POST'' endpoint clusterID of
             Inl err \<Rightarrow> Some (([], 0, Some err), [])
           | Inr req \<Rightarrow>
               let req = req\<lparr>rq_Header := map_put ''Content-Type'' ''multipart/form-data'' (rq_Header req),
                             rq_Body := createAndWriteMIMEHeader (ce_maxBytes env) source\<rparr>
               in case ce_transport env of
                    None \<Rightarrow> None
                  | Some tr \<Rightarrow>
                      (case ce_Do env tr req of
                         Inl err \<Rightarrow>
                           Some (([], 0, Some (Errorf (''unable to build request to connect to Insights server: '' @
                             error_text err))), [0])
                       | Inr resp \<Rightarrow> Some (send_response resp, [rs_StatusCode resp]))))"

definition Send :: "client_env \<Rightarrow> string \<Rightarrow> Source \<Rightarrow> (go_error option \<times> int list) option" where
  "Send env endpoint source =
     map_option (\<lambda>((_, _, err), incs). (err, incs)) (SendAndGetID env endpoint source)"

definition recv_response :: "http_response \<Rightarrow> http_response result \<times> int list" where
  "recv_response resp =
     (let code = rs_StatusCode resp; requestID = rs_RequestID resp; body = take 1024 (rs_Body resp)
      in if code = 401 then
           (Inl (AuthError ''your Red Hat account is not enabled for remote support or your token has expired''), [code])
         else if code = 403 then
           (Inl (AuthError ''your Red Hat account is not enabled for remote support''), [code])
         else if code = 400 then
           (Inl (Errorf (''gateway server bad request: '' @ rs_URL resp @ '' (request='' @ requestID @ ''): '' @ body)), [code])
         else if code = 404 then
           (Inl (HttpError (''not found: '' @ rs_URL resp @ '' (request='' @ requestID @ ''): '' @ body) code), [code])
         else if code \<ge> 300 \<or> code < 200 then
           (Inl (Errorf (''gateway server reported unexpected error code: '' @ itoa code @ '' (request='' @
              requestID @ ''): '' @ body)), [code])
         else if code = 200 then (Inr resp, [])
         else (Inl (Errorf (''report response status code: '' @ itoa code)), []))"

definition RecvReport :: "client_env \<Rightarrow> string \<Rightarrow> (http_response result \<times> int list) option" where
  "RecvReport env endpoint =
     (case get_version env of
        Inl err \<Rightarrow> Some (Inl err, [])
      | Inr clusterID \<Rightarrow>
          let endpoint = Sprintf endpoint [(''v1.ClusterID'', clusterID)]
          in case prepareRequest env ''GET'' endpoint clusterID of
               Inl err \<Rightarrow> Some (Inl err, [])
             | Inr req \<Rightarrow>
                 (case ce_transport env of
                    None \<Rightarrow> None
                  | Some tr \<Rightarrow>
                      (case ce_Do env tr req of
                         Inl err \<Rightarrow> Some (Inl err, [0])
                       | Inr resp \<Rightarrow> Some (recv_response resp))))"

text \<open>The set of architectures is in the order in which the map is iterated.\<close>

definition buildPayloadString :: "string list \<Rightarrow> string" where
  "buildPayloadString architectures =
     ''{\"arch\": [\"'' @ join_with ''\",\"'' architectures @ ''\"]}''"

definition ocm_request ::
  "client_env \<Rightarrow> string \<Rightarrow> (string \<Rightarrow> http_request) \<Rightarrow> string \<Rightarrow> bytes result option" where
  "ocm_request env endpoint build what =
     (case get_version env of
        Inl err \<Rightarrow> Some (Inl err)
      | Inr clusterID \<Rightarrow>
          (case ce_token env of
             Inl err \<Rightarrow> Some (Inl err)
           | Inr token \<Rightarrow>
               (case ce_newRequest env endpoint of
                  Some err \<Rightarrow> Some (Inl err)
                | None \<Rightarrow>
                    (case ce_transport env of
                       None \<Rightarrow> None
                     | Some tr \<Rightarrow>
                         let req = build clusterID;
                             req = req\<lparr>rq_Header := [(''Content-Type'', ''application/json''),
                                     (''Authorization'', ''AccessToken '' @ clusterID @ '':'' @ token)]\<rparr>
                         in case ce_Do env tr req of
                              Inl err \<Rightarrow>
                                Some (Inl (Errorf (''unable to retrieve '' @ what @ '' data from '' @ endpoint @ '': '' @
                                  error_text err)))
                            | Inr resp \<Rightarrow>
                                if rs_StatusCode resp > 399 \<or> rs_StatusCode resp < 200
                                then Some (Inl (ocmErrorMessage resp)) else Some (Inr (rs_Body resp))))))"

definition RecvSCACerts :: "client_env \<Rightarrow> string \<Rightarrow> string list \<Rightarrow> bytes result option" where
  "RecvSCACerts env endpoint architectures =
     ocm_request env endpoint
       (\<lambda>_. \<lparr>rq_Method = ''POST'', rq_URL = endpoint, rq_Header = [],
             rq_Body = Payload (buildPayloadString architectures)\<rparr>) ''SCA certs''"

text \<open>\<open>add_query\<close> adds the encoded search to the query of the endpoint (\<open>net/url\<close>).\<close>

definition RecvClusterTransfer :: "(string \<Rightarrow> string \<Rightarrow> string) \<Rightarrow> client_env \<Rightarrow> string \<Rightarrow> bytes result option" where
  "RecvClusterTransfer add_query env endpoint =
     ocm_request env endpoint
       (\<lambda>clusterID. \<lparr>rq_Method = ''GET'',
          rq_URL = add_query endpoint (''cluster_uuid is '' @ [CHR 0x27] @ clusterID @ [CHR 0x27] @
            '' and status is '' @ [CHR 0x27] @ ''accepted'' @ [CHR 0x27]),
          rq_Header = [], rq_Body = NoBody\<rparr>) ''cluster transfer''"

definition GetWithPathParam ::
  "client_env \<Rightarrow> string \<Rightarrow> string \<Rightarrow> bool \<Rightarrow> http_response result option" where
  "GetWithPathParam env endpoint param includeClusterID =
     (case get_version env of
        Inl err \<Rightarrow> Some (Inl err)
      | Inr clusterID \<Rightarrow>
          let endpoint = (if includeClusterID
                then Sprintf endpoint [(''v1.ClusterID'', clusterID), (''string'', param)]
                else Sprintf endpoint [(''string'', param)])
          in case prepareRequest env ''GET'' endpoint clusterID of
               Inl err \<Rightarrow> Some (Inl err)
             | Inr req \<Rightarrow> map_option (\<lambda>tr. ce_Do env tr req) (ce_transport env))"

section \<open>The limited reader passes everything or fails\<close>

lemma LimitedReader_Read_prefix:
  assumes "0 < N" and "LimitedReader_Read N (Suc b) (c # cs) = (N', chunks', got, err)"
  shows "concat (c # cs) = got @ concat chunks' \<and> N' = N - int (length got) \<and> 0 \<le> N' \<and> err = None"
  using assms by (auto simp: LimitedReader_Read_def Let_def split: if_splits)

lemma limited_copy_spec:
  "limited_copy b N chunks =
    (take (nat N) (concat chunks), if int (length (concat chunks)) < N then None else Some ErrTooLong)"
proof (induction b N chunks rule: limited_copy.induct)
  case (1 b N chunks)
  show ?case
  proof (cases "N \<le> 0 \<or> chunks = []")
    case True
    then show ?thesis by (subst limited_copy.simps) auto
  next
    case False
    then obtain c cs where c: "chunks = c # cs" and N: "0 < N" by (cases chunks) auto
    obtain N' chunks' got err where r: "LimitedReader_Read N (Suc b) (c # cs) = (N', chunks', got, err)"
      by (metis prod_cases4)
    note p = LimitedReader_Read_prefix [OF N r]
    have IH: "limited_copy b N' chunks' =
      (take (nat N') (concat chunks'), if int (length (concat chunks')) < N' then None else Some ErrTooLong)"
      using 1 c N r by auto
    have "limited_copy b N chunks = (got @ fst (limited_copy b N' chunks'), snd (limited_copy b N' chunks'))"
      using N by (subst limited_copy.simps) (simp add: c r case_prod_beta)
    moreover have "take (nat N) (concat chunks) = got @ take (nat N') (concat chunks')"
      using p N unfolding c by (simp del: concat.simps add: nat_diff_distrib' le_nat_iff)
    moreover have "int (length (concat chunks)) < N \<longleftrightarrow> int (length (concat chunks')) < N'"
    proof -
      have "length (concat chunks) = length got + length (concat chunks')" using p unfolding c by simp
      with p show ?thesis by linarith
    qed
    ultimately show ?thesis using IH by simp
  qed
qed

section \<open>Sending\<close>

lemma send_response_ok:
  "send_response resp = (rid, code, err) \<Longrightarrow>
   code = rs_StatusCode resp \<and> (err = None \<longleftrightarrow> 200 \<le> code \<and> code < 300) \<and>
   (\<forall>e. err = Some e \<longrightarrow> rid = [] \<and> (IsAuthorizationError e \<longleftrightarrow> code = 401 \<or> code = 403)) \<and>
   (err = None \<longrightarrow> rid = rs_RequestID resp)"
  by (auto simp: send_response_def Let_def IsAuthorizationError_def split: if_splits)

lemma prepareRequest_ok:
  assumes "prepareRequest env method endpoint cid = Inr req"
  obtains t where "ce_token env = Inr t" "map_get (rq_Header req) ''Authorization'' = Some (''Bearer '' @ t)"
    "rq_URL req = endpoint" "rq_Method req = method"
  using assms
  by (auto simp: prepareRequest_def Authorize_def Let_def split: option.splits sum.splits)

text \<open>An environment in which everything goes well: the server answers 202 to every request.\<close>

definition example_client :: client_env where
  "example_client =
     \<lparr>ce_maxBytes = 10, ce_version = Inr ''id'', ce_newRequest = (\<lambda>_. None), ce_token = Inr ''t'',
      ce_releaseVersion = ''4.20'', ce_gitVersion = ''v0'', ce_gitCommit = ''c'',
      ce_transport = Some (SystemProxy, None),
      ce_Do = (\<lambda>_ req. case rq_Body req of
         Upload _ _ (Some e) \<Rightarrow> Inl e
       | _ \<Rightarrow> Inr \<lparr>rs_StatusCode = 202, rs_Status = ''202 Accepted'', rs_RequestID = ''r'', rs_URL = ''u'',
                  rs_Body = []\<rparr>)\<rparr>"

definition example_source :: Source where
  "example_source =
     \<lparr>src_ID = ''i'', src_Type = ''application/gzip'', src_CreationTime = ''2024'', src_Contents = [''abc'', ''de'']\<rparr>"

lemma example_sent: "SendAndGetID example_client ''https://e'' example_source = Some ((''r'', 202, None), [202])"
  by (simp add: SendAndGetID_def example_client_def example_source_def get_version_def prepareRequest_def
      Authorize_def createAndWriteMIMEHeader_def limited_copy_spec send_response_def Let_def)

text \<open>
  C14: A reported upload is a complete upload.  When the HTTP client fails on a request whose body ends in an
  error, as it is documented to do, an upload without error sent the whole archive, which is shorter than
  the limit, in one authorised POST request to the endpoint, got an answer between 200 and 299, and counted that
  answer once.
\<close>

theorem send_complete:
  assumes "\<And>tr req w m e. rq_Body req = Upload w m (Some e) \<Longrightarrow> \<exists>e'. ce_Do env tr req = Inl e'"
    and "SendAndGetID env endpoint source = Some ((rid, code, None), incs)"
  shows "int (length (concat (src_Contents source))) < ce_maxBytes env \<and> 200 \<le> code \<and> code < 300 \<and> incs = [code] \<and>
    (\<exists>tr req m t resp. ce_Do env tr req = Inr resp \<and> rs_StatusCode resp = code \<and> rs_RequestID resp = rid \<and>
      rq_Method req = ''POST'' \<and> rq_URL req = endpoint \<and>
      rq_Body req = Upload (concat (src_Contents source)) m None \<and>
      ce_token env = Inr t \<and> map_get (rq_Header req) ''Authorization'' = Some (''Bearer '' @ t))"
proof -
  from assms(2) obtain cid req tr resp where
    req: "prepareRequest env ''POST'' endpoint cid = Inr req"
    and do: "ce_Do env tr (req\<lparr>rq_Header := map_put ''Content-Type'' ''multipart/form-data'' (rq_Header req),
        rq_Body := createAndWriteMIMEHeader (ce_maxBytes env) source\<rparr>) = Inr resp" (is "ce_Do env tr ?req = _")
    and resp: "send_response resp = (rid, code, None)" "incs = [rs_StatusCode resp]"
    by (auto simp: SendAndGetID_def Let_def split: sum.splits option.splits)
  obtain t where t: "ce_token env = Inr t" "map_get (rq_Header req) ''Authorization'' = Some (''Bearer '' @ t)"
    "rq_URL req = endpoint" "rq_Method req = ''POST''"
    by (rule prepareRequest_ok [OF req])
  have small: "int (length (concat (src_Contents source))) < ce_maxBytes env"
  proof (rule ccontr)
    assume "\<not> ?thesis"
    then have "\<exists>w m. rq_Body ?req = Upload w m (Some ErrTooLong)"
      by (simp add: createAndWriteMIMEHeader_def limited_copy_spec Let_def)
    then obtain w m where "rq_Body ?req = Upload w m (Some ErrTooLong)" by blast
    from assms(1) [OF this, of tr] do show False by auto
  qed
  then have "\<exists>m. rq_Body ?req = Upload (concat (src_Contents source)) m None"
    by (simp add: createAndWriteMIMEHeader_def limited_copy_spec)
  moreover have "map_get (rq_Header ?req) ''Authorization'' = Some (''Bearer '' @ t)"
    "rq_URL ?req = endpoint" "rq_Method ?req = ''POST''"
    using t by simp_all
  ultimately show ?thesis
    using small do resp send_response_ok [OF resp(1)] t(1) by blast
qed

theorem send_complete_witness:
  "SendAndGetID example_client ''https://e'' example_source = Some ((''r'', 202, None), [202]) \<and>
   int (length (concat (src_Contents example_source))) < 10"
proof -
  have "\<exists>e'. ce_Do example_client tr req = Inl e'" if "rq_Body req = Upload w m (Some e)" for tr req w m e
    using that by (simp add: example_client_def)
  from send_complete [OF this example_sent] example_sent show ?thesis
    by (simp add: example_client_def)
qed

text \<open>
  Authorisation.  A token that the authoriser hands out is not empty, has no line break and no white
  space around it, so that the header it is put into is one line; and every request prepared by the
  client carries it.
\<close>

lemma token_header:
  assumes "ce_token env = authorizer_Token cfg" and "prepareRequest env method endpoint cid = Inr req"
  shows "\<exists>t. t \<noteq> [] \<and> CHR 0x0A \<notin> set t \<and> CHR 0x0D \<notin> set t \<and> \<not> is_space (hd t) \<and> \<not> is_space (last t) \<and>
    t = trim_space (Token cfg) \<and> map_get (rq_Header req) ''Authorization'' = Some (''Bearer '' @ t)"
proof -
  obtain t where t: "authorizer_Token cfg = Inr t"
    "map_get (rq_Header req) ''Authorization'' = Some (''Bearer '' @ t)"
    using prepareRequest_ok [OF assms(2)] assms(1) by metis
  then have tr: "t = trim_space (Token cfg)" "t \<noteq> []" "\<not> contains_str ''\<newline>'' t" "\<not> contains_str [CHR 0x0D] t"
    by (auto simp: authorizer_Token_def Let_def split: if_splits)
  let ?r = "dropWhile is_space (rev (dropWhile is_space (Token cfg)))"
  have r: "t = rev ?r" "?r \<noteq> []" using tr by (auto simp: trim_space_def)
  then have "\<not> is_space (last t)" by (metis hd_dropWhile last_rev)
  moreover have "\<not> is_space (hd t)"
  proof -
    have "suffix ?r (rev (dropWhile is_space (Token cfg)))" by (rule suffix_dropWhile)
    then obtain q where "rev (dropWhile is_space (Token cfg)) = q @ ?r" by (auto simp: suffix_def)
    then have "dropWhile is_space (Token cfg) = t @ rev q" using r(1) by (metis rev_append rev_rev_ident)
    with tr(2) show ?thesis by (metis append_is_Nil_conv hd_append2 hd_dropWhile)
  qed
  moreover have "c \<notin> set t" if "\<not> contains_str [c] t" for c
    using that by (induction t) auto
  ultimately show ?thesis using t tr by auto
qed

text \<open>
  TLS settings.  A TLS configuration that is built comes from the profile that applies, the
  Intermediate one when none is set; its minimum version is that of the profile and a known one; with TLS 1.3
  it allows nothing older and lists no suites, and otherwise it lists at least one cipher suite, only suites
  of the profile that the crypto package knows.
\<close>

lemma tls_config_safe:
  assumes "GetTLSConfigFromAPIServer profiles to_iana suite apiserver = Inr c"
  shows "\<exists>p spec. apiserver = Inr p \<and>
    getTLSProfileSpec profiles (case p of None \<Rightarrow> \<lparr>sp_Type = ''Intermediate'', sp_Custom = None\<rparr> | Some q \<Rightarrow> q) =
      Inr spec \<and>
    parseTLSVersion (tp_MinTLSVersion spec) = Inr (tls_MinVersion c) \<and>
    tls_MinVersion c \<in> {769, 770, 771, 772} \<and>
    (if tls_MinVersion c = 772 then tls_MaxVersion c = 772 \<and> tls_CipherSuites c = []
     else tls_CipherSuites c \<noteq> [] \<and>
       (\<forall>s \<in> set (tls_CipherSuites c). \<exists>n \<in> set (to_iana (tp_Ciphers spec)). suite n = Inr s))"
proof -
  from assms obtain p where p: "apiserver = Inr p"
    "buildTLSConfigFromProfile profiles to_iana suite
       (case p of None \<Rightarrow> \<lparr>sp_Type = ''Intermediate'', sp_Custom = None\<rparr> | Some q \<Rightarrow> q) = Inr c"
    (is "buildTLSConfigFromProfile _ _ _ ?p = _")
    by (auto simp: GetTLSConfigFromAPIServer_def split: sum.splits)
  from p(2) obtain spec v where spec: "getTLSProfileSpec profiles ?p = Inr spec"
    "parseTLSVersion (tp_MinTLSVersion spec) = Inr v"
    by (auto simp: buildTLSConfigFromProfile_def split: sum.splits)
  let ?suites = "valid_suites suite (to_iana (tp_Ciphers spec))"
  have c: "tls_MinVersion c = v" "if v = 772 then tls_MaxVersion c = 772 \<and> tls_CipherSuites c = []
      else tls_CipherSuites c = ?suites \<and> ?suites \<noteq> []"
    using p(2) spec by (auto simp: buildTLSConfigFromProfile_def Let_def split: if_splits)
  have "v \<in> {769, 770, 771, 772}"
    using spec(2) by (auto simp: parseTLSVersion_def split: if_splits)
  moreover have "\<exists>n \<in> set names. suite n = Inr s" if "s \<in> set (valid_suites suite names)" for s names
    using that by (auto simp: valid_suites_def map_filter_def split: sum.splits)
  ultimately show ?thesis using p(1) spec c by (auto split: if_splits)
qed

text \<open>
  The client panics when the TLS profile cannot be read and there is a CA bundle.  The transport
  writes the bundle into the TLS configuration without looking at the error: exactly in this case building
  the transport, and with it an upload that got that far, panics.
\<close>

lemma transport_panics:
  assumes "ce_version env = Inr cid" and "ce_newRequest env endpoint = None" and "ce_token env = Inr t"
    and "ce_transport env = clientTransport px tls ca"
  shows "SendAndGetID env endpoint source = None \<longleftrightarrow> (\<exists>e b. tls = Inl e \<and> ca = Inr (Some b))"
proof -
  have "SendAndGetID env endpoint source = None \<longleftrightarrow> ce_transport env = None"
    using assms(1,2,3)
    by (simp add: SendAndGetID_def get_version_def prepareRequest_def Authorize_def Let_def
        split: option.split sum.split) (metis prod_cases3)
  with assms(4) show ?thesis by (auto simp: clientTransport_def Let_def split: sum.splits option.splits)
qed

end
