(* ===== verification/SecretObserver.thy ===== *)
theory SecretObserver
  imports LegacyConfig
begin

text \<open>
  pkg/config/configobserver/secretconfigobserver.go: the observer of the pull secret and of the
  support secret.  The outcome of every \<open>Get\<close> of a secret is an argument, and \<open>decode_auths\<close> is what
  \<open>json.Unmarshal\<close> leaves in the map of authentications.  A listener is a channel with a buffer of
  one: \<open>Some pending\<close>, or \<open>None\<close> once its slot is cleared.
\<close>

section \<open>State and operations\<close>

definition openshiftConfigNamespace :: string where "openshiftConfigNamespace = ''openshift-config''"
definition pullSecretName :: string where "pullSecretName = ''pull-secret''"
definition supportSecretName :: string where "supportSecretName = ''support''"
definition kubeSystemNamespace :: string where "kubeSystemNamespace = ''kube-system''"
definition globalPullSecretName :: string where "globalPullSecretName = ''global-pull-secret''"

record secret_observer =
  so_default :: Controller
  so_token :: "Controller option"
  so_secret :: "Controller option"
  so_supportSecret :: "secret_data option"
  so_config :: "Controller option"
  so_listeners :: "bool option list"

definition fetchSecret ::
  "string \<Rightarrow> string \<Rightarrow> secret_data result \<Rightarrow> secret_data option result" where
  "fetchSecret namespace name outcome =
     (case outcome of
        Inr s \<Rightarrow> Inr (Some s)
      | Inl e \<Rightarrow>
          if isNotFound e then Inr None
          else if isForbidden e then Inr None
          else Inl (Errorf (''could not check '' @ namespace @ ''/'' @ name @ '': '' @ error_text e)))"

definition tokenFromSecret ::
  "(bytes \<Rightarrow> (string, string) gomap) \<Rightarrow> secret_data \<Rightarrow> string result" where
  "tokenFromSecret decode_auths secret =
     (case map_get secret ''.dockerconfigjson'' of
        None \<Rightarrow> Inr []
      | Some data \<Rightarrow>
          if data = [] then Inr []
          else case map_get (decode_auths data) ''cloud.openshift.com'' of
                 None \<Rightarrow> Inr []
               | Some auth \<Rightarrow>
                   let token = trim_space auth
                   in if CHR 0x0A \<in> set token \<or> CHR 0x0D \<in> set token
                      then Inl (Errorf ''cluster authorization token is not valid: contains newlines'')
                      else if 0 < length token then Inr token else Inr [])"

definition setConfig :: "Controller \<Rightarrow> secret_observer \<Rightarrow> secret_observer" where
  "setConfig operatorConfig c =
     (let ls = (case so_config c of
                  None \<Rightarrow> so_listeners c
                | Some old \<Rightarrow>
                    if old \<noteq> operatorConfig
                    then map (map_option (\<lambda>_. True)) (so_listeners c) else so_listeners c)
      in c\<lparr>so_listeners := ls, so_config := Some operatorConfig\<rparr>)"

definition merged_config :: "secret_observer \<Rightarrow> Controller" where
  "merged_config c =
     (let cfg = so_default c;
          cfg = (case so_secret c of None \<Rightarrow> cfg | Some s \<Rightarrow> MergeWith s cfg);
          cfg = (case so_token c of None \<Rightarrow> cfg | Some t \<Rightarrow> cfg\<lparr>Token := Token t\<rparr>)
      in cfg\<lparr>Report := 0 < length (Endpoint cfg) \<and> 0 < length (Token cfg)\<rparr>)"

definition mergeConfig :: "secret_observer \<Rightarrow> secret_observer" where
  "mergeConfig c = setConfig (merged_config c) c"

definition setTokenConfig :: "Controller option \<Rightarrow> secret_observer \<Rightarrow> secret_observer" where
  "setTokenConfig operatorConfig c = mergeConfig (c\<lparr>so_token := operatorConfig\<rparr>)"

definition setSecretConfig :: "Controller option \<Rightarrow> secret_observer \<Rightarrow> secret_observer" where
  "setSecretConfig operatorConfig c = mergeConfig (c\<lparr>so_secret := operatorConfig\<rparr>)"

definition token_config :: "string \<Rightarrow> Controller" where
  "token_config token =
     (if 0 < length token then zero_Controller\<lparr>Token := token, Report := True\<rparr> else zero_Controller)"

definition secret_token ::
  "(bytes \<Rightarrow> (string, string) gomap) \<Rightarrow> secret_data option result \<Rightarrow> string result" where
  "secret_token decode_auths fetched =
     (case fetched of
        Inl e \<Rightarrow> Inl e
      | Inr None \<Rightarrow> Inr []
      | Inr (Some s) \<Rightarrow> tokenFromSecret decode_auths s)"

definition updateToken ::
  "(bytes \<Rightarrow> (string, string) gomap) \<Rightarrow> secret_data result \<Rightarrow> secret_data result \<Rightarrow>
   secret_observer \<Rightarrow> secret_observer \<times> go_error option" where
  "updateToken decode_auths pull_secret global_pull_secret c =
     (case secret_token decode_auths (fetchSecret openshiftConfigNamespace pullSecretName pull_secret) of
        Inl e \<Rightarrow> (c, Some e)
      | Inr token \<Rightarrow>
          if 0 < length token then (setTokenConfig (Some (token_config token)) c, None)
          else case secret_token decode_auths (fetchSecret kubeSystemNamespace globalPullSecretName global_pull_secret) of
                 Inl e \<Rightarrow> (c, Some e)
               | Inr token \<Rightarrow> (setTokenConfig (Some (token_config token)) c, None))"

definition updateConfig ::
  "(string \<Rightarrow> duration result) \<Rightarrow> secret_data result \<Rightarrow> secret_observer \<Rightarrow>
   secret_observer \<times> go_error option" where
  "updateConfig pd support_secret c =
     (case fetchSecret openshiftConfigNamespace supportSecretName support_secret of
        Inl e \<Rightarrow> (c, Some e)
      | Inr secret \<Rightarrow>
          let c = c\<lparr>so_supportSecret := secret\<rparr>
          in case secret of
               None \<Rightarrow> (setSecretConfig None c, None)
             | Some data \<Rightarrow>
                 (case LoadConfigFromSecret pd data of
                    (_, Some e) \<Rightarrow> (c, Some e)
                  | (nextConfig, None) \<Rightarrow> (setSecretConfig (Some nextConfig) c, None)))"

text \<open>
  The loop of \<open>ConfigChanged\<close> that looks for a free slot asks whether the whole slice of listeners is
  nil, which is false inside the loop, so a new slot is always appended.
\<close>

definition ConfigChanged :: "secret_observer \<Rightarrow> secret_observer \<times> nat" where
  "ConfigChanged c =
     (c\<lparr>so_listeners := so_listeners c @ [Some False]\<rparr>, length (so_listeners c))"

definition closeListener :: "nat \<Rightarrow> secret_observer \<Rightarrow> secret_observer" where
  "closeListener position c = c\<lparr>so_listeners := (so_listeners c)[position := None]\<rparr>"

definition new_observer ::
  "(bytes \<Rightarrow> (string, string) gomap) \<Rightarrow> (string \<Rightarrow> duration result) \<Rightarrow> Controller \<Rightarrow>
   secret_data result \<Rightarrow> secret_data result \<Rightarrow> secret_data result \<Rightarrow> secret_observer" where
  "new_observer decode_auths pd defaultConfig pull global support =
     (let c = mergeConfig \<lparr>so_default = defaultConfig, so_token = None, so_secret = None,
                so_supportSecret = None, so_config = None, so_listeners = []\<rparr>;
          c = fst (updateToken decode_auths pull global c)
      in fst (updateConfig pd support c))"

definition periodic_update ::
  "(bytes \<Rightarrow> (string, string) gomap) \<Rightarrow> (string \<Rightarrow> duration result) \<Rightarrow>
   secret_data result \<Rightarrow> secret_data result \<Rightarrow> secret_data result \<Rightarrow>
   secret_observer \<Rightarrow> secret_observer" where
  "periodic_update decode_auths pd pull global support c =
     fst (updateConfig pd support (fst (updateToken decode_auths pull global c)))"

text \<open>
  The states an observer goes through: it is created, its periodic update runs with whatever the API
  server answers, and listeners come and go.
\<close>

inductive observer_reach ::
  "(bytes \<Rightarrow> (string, string) gomap) \<Rightarrow> (string \<Rightarrow> duration result) \<Rightarrow> Controller \<Rightarrow>
   secret_observer \<Rightarrow> bool"
  for da pd def
where
  created: "observer_reach da pd def (new_observer da pd def pull global support)"
| updated: "observer_reach da pd def c \<Longrightarrow>
    observer_reach da pd def (periodic_update da pd pull global support c)"
| subscribed: "observer_reach da pd def c \<Longrightarrow> observer_reach da pd def (fst (ConfigChanged c))"
| closed: "observer_reach da pd def c \<Longrightarrow> observer_reach da pd def (closeListener i c)"

section \<open>Invariant\<close>

definition token_clean :: "string \<Rightarrow> bool" where
  "token_clean t = (CHR 0x0A \<notin> set t \<and> CHR 0x0D \<notin> set t)"

definition observer_inv :: "Controller \<Rightarrow> secret_observer \<Rightarrow> bool" where
  "observer_inv def c =
     (so_default c = def \<and>
      so_config c = Some (merged_config c) \<and>
      (case so_secret c of None \<Rightarrow> True | Some s \<Rightarrow> Interval s = 0 \<or> minDuration \<le> Interval s) \<and>
      (case so_token c of None \<Rightarrow> True | Some t \<Rightarrow> token_clean (Token t)))"

lemma merged_config_simps [simp]:
  "merged_config (c\<lparr>so_listeners := l\<rparr>) = merged_config c"
  "merged_config (c\<lparr>so_config := x\<rparr>) = merged_config c"
  "merged_config (c\<lparr>so_supportSecret := y\<rparr>) = merged_config c"
  by (simp_all add: merged_config_def)

lemma mergeConfig_inv:
  "so_default c = def \<Longrightarrow>
   (case so_secret c of None \<Rightarrow> True | Some s \<Rightarrow> Interval s = 0 \<or> minDuration \<le> Interval s) \<Longrightarrow>
   (case so_token c of None \<Rightarrow> True | Some t \<Rightarrow> token_clean (Token t)) \<Longrightarrow>
   observer_inv def (mergeConfig c)"
  by (simp add: mergeConfig_def setConfig_def observer_inv_def Let_def)

lemma token_clean_Nil [simp]: "token_clean []"
  by (simp add: token_clean_def)

lemma tokenFromSecret_clean: "tokenFromSecret da s = Inr t \<Longrightarrow> token_clean t"
  by (auto simp: tokenFromSecret_def token_clean_def Let_def split: option.splits if_splits)

lemma secret_token_clean: "secret_token da f = Inr t \<Longrightarrow> token_clean t"
  by (auto simp: secret_token_def dest: tokenFromSecret_clean split: sum.splits option.splits)

lemma token_config_clean [simp]: "token_clean t \<Longrightarrow> token_clean (Token (token_config t))"
  by (auto simp: token_config_def zero_Controller_def)

lemma setTokenConfig_inv:
  "observer_inv def c \<Longrightarrow> token_clean (Token t) \<Longrightarrow> observer_inv def (setTokenConfig (Some t) c)"
  unfolding setTokenConfig_def by (rule mergeConfig_inv) (auto simp: observer_inv_def)

lemma setSecretConfig_inv:
  "observer_inv def c \<Longrightarrow>
   (case s of None \<Rightarrow> True | Some s \<Rightarrow> Interval s = 0 \<or> minDuration \<le> Interval s) \<Longrightarrow>
   observer_inv def (setSecretConfig s c)"
  unfolding setSecretConfig_def by (rule mergeConfig_inv) (auto simp: observer_inv_def)

lemma updateToken_inv: "observer_inv def c \<Longrightarrow> observer_inv def (fst (updateToken da p g c))"
  unfolding updateToken_def
  by (auto split: sum.splits dest!: secret_token_clean intro!: setTokenConfig_inv token_config_clean)

lemma supportSecret_inv: "observer_inv def c \<Longrightarrow> observer_inv def (c\<lparr>so_supportSecret := s\<rparr>)"
  by (simp add: observer_inv_def)

lemma updateConfig_inv: "observer_inv def c \<Longrightarrow> observer_inv def (fst (updateConfig pd s c))"
  unfolding updateConfig_def
  by (auto simp: Let_def split: sum.splits option.splits prod.splits
      intro!: setSecretConfig_inv supportSecret_inv dest: LoadConfigFromSecret_interval)

lemma new_observer_inv: "observer_inv def (new_observer da pd def p g s)"
  unfolding new_observer_def Let_def
  by (intro updateConfig_inv updateToken_inv mergeConfig_inv) simp_all

lemma observer_reach_inv: "observer_reach da pd def c \<Longrightarrow> observer_inv def c"
proof (induction rule: observer_reach.induct)
  case (created pull global support)
  show ?case by (rule new_observer_inv)
next
  case (updated c pull global support)
  then show ?case unfolding periodic_update_def by (intro updateConfig_inv updateToken_inv)
next
  case (subscribed c)
  then show ?case by (simp add: ConfigChanged_def observer_inv_def)
next
  case (closed c i)
  then show ?case by (simp add: closeListener_def observer_inv_def)
qed

lemma merged_Report:
  "Report (merged_config c) \<longleftrightarrow> Endpoint (merged_config c) \<noteq> [] \<and> Token (merged_config c) \<noteq> []"
  by (simp add: merged_config_def Let_def)

lemma merged_Interval:
  "Interval (merged_config c) =
    (case so_secret c of
       Some s \<Rightarrow> if 0 < Interval s then Interval s else Interval (so_default c)
     | None \<Rightarrow> Interval (so_default c))"
  by (simp add: merged_config_def Let_def split: option.splits)

lemma merged_Token:
  "Token (merged_config c) = (case so_token c of Some t \<Rightarrow> Token t | None \<Rightarrow> Token (so_default c))"
  by (simp add: merged_config_def Let_def split: option.splits)

definition observer_ok :: "secret_observer \<Rightarrow> bool" where
  "observer_ok c = (observer_inv (so_default c) c \<and> 0 < Interval (so_default c))"

interpretation secret_conf: configurator so_config observer_ok
proof unfold_locales
  fix s c
  assume "observer_ok s"
  then show "\<exists>c. so_config s = Some c"
    by (simp add: observer_ok_def observer_inv_def)
  assume "so_config s = Some c"
  with \<open>observer_ok s\<close> have c: "c = merged_config s"
    by (simp add: observer_ok_def observer_inv_def)
  show "Report c \<longleftrightarrow> Endpoint c \<noteq> [] \<and> Token c \<noteq> []"
    unfolding c by (rule merged_Report)
  show "0 < Interval c"
    using \<open>observer_ok s\<close> unfolding c merged_Interval
    by (simp add: observer_ok_def split: option.splits)
qed

section \<open>Notification\<close>

lemma setConfig_pending:
  assumes "i < length (so_listeners c)" and "so_listeners c ! i = Some p"
  shows "so_listeners (setConfig cfg c) ! i =
    Some (p \<or> (so_config c \<noteq> None \<and> so_config c \<noteq> Some cfg))"
  using assms by (auto simp: setConfig_def Let_def split: option.splits)

lemma setConfig_frame [simp]:
  "so_default (setConfig cfg c) = so_default c" "so_token (setConfig cfg c) = so_token c"
  "so_secret (setConfig cfg c) = so_secret c"
  "so_supportSecret (setConfig cfg c) = so_supportSecret c"
  "so_config (setConfig cfg c) = Some cfg"
  "length (so_listeners (setConfig cfg c)) = length (so_listeners c)"
  by (simp_all add: setConfig_def Let_def split: option.splits)

section \<open>Properties\<close>

lemma observer_config:
  assumes "observer_reach da pd def c"
  shows "so_config c = Some (merged_config c)" "so_default c = def"
  using observer_reach_inv [OF assms] by (simp_all add: observer_inv_def)

lemma observer_reach_ok: "observer_reach da pd def c \<Longrightarrow> 0 < Interval def \<Longrightarrow> observer_ok c"
  using observer_reach_inv by (fastforce simp: observer_ok_def observer_inv_def)

definition example_default :: Controller where
  "example_default =
     zero_Controller\<lparr>Endpoint := ''https://upload'', Interval := 2 * Hour, StoragePath := ''/tmp''\<rparr>"

definition example_pull_secret :: secret_data where
  "example_pull_secret = [(''.dockerconfigjson'', ''auths'')]"

definition example_support :: secret_data where
  "example_support = [(''interval'', ''1h''), (''enableGlobalObfuscation'', ''True'')]"

definition example_observer :: secret_observer where
  "example_observer =
     new_observer (\<lambda>_. [(''cloud.openshift.com'', '' token '')]) (\<lambda>_. Inr Hour) example_default
       (Inr example_pull_secret) (Inl (NotFoundErr ''x'')) (Inr example_support)"

lemma example_observer_reach:
  "observer_reach (\<lambda>_. [(''cloud.openshift.com'', '' token '')]) (\<lambda>_. Inr Hour) example_default example_observer"
  unfolding example_observer_def by (rule observer_reach.created)

lemma example_observer_listeners: "so_listeners example_observer = []"
  by code_simp

text \<open>
  C8: The merged legacy configuration.  In every state the observer reaches, whatever the API server
  answered and whatever the secrets held, there is a configuration; reporting is on exactly when it has
  an endpoint and a token; its interval is the default one or at least ten minutes; and a token taken
  from a pull secret has no line break that could end the HTTP header it is put in.
\<close>

theorem observer_config_valid:
  assumes "observer_reach da pd def c" and "0 < Interval def"
  shows "\<exists>cfg. so_config c = Some cfg \<and> (Report cfg \<longleftrightarrow> Endpoint cfg \<noteq> [] \<and> Token cfg \<noteq> []) \<and>
    (Interval cfg = Interval def \<or> minDuration \<le> Interval cfg) \<and>
    (so_token c = None \<or> token_clean (Token cfg))"
proof -
  from observer_reach_inv [OF assms(1)] have "so_default c = def"
    and s: "case so_secret c of None \<Rightarrow> True | Some s \<Rightarrow> Interval s = 0 \<or> minDuration \<le> Interval s"
    and t: "case so_token c of None \<Rightarrow> True | Some t \<Rightarrow> token_clean (Token t)"
    by (auto simp: observer_inv_def)
  then have "Interval (merged_config c) = Interval def \<or> minDuration \<le> Interval (merged_config c)"
    by (auto simp: merged_Interval split: option.splits)
  moreover have "so_token c = None \<or> token_clean (Token (merged_config c))"
    using t by (auto simp: merged_Token split: option.splits)
  ultimately show ?thesis
    using observer_config(1) [OF assms(1)] merged_Report by blast
qed

theorem observer_config_valid_witness:
  "\<exists>cfg. so_config example_observer = Some cfg \<and> (Report cfg \<longleftrightarrow> Endpoint cfg \<noteq> [] \<and> Token cfg \<noteq> [])"
proof -
  have "0 < Interval example_default" by (simp add: example_default_def)
  from observer_config_valid [OF example_observer_reach this] show ?thesis by blast
qed

text \<open>
  A failed refresh changes nothing.  When reading or decoding a secret fails, the token, the secret
  configuration, the merged configuration and the listeners stay as they were.
\<close>

lemma refresh_error_keeps_config:
  "(snd (updateToken da pull global c) \<noteq> None \<longrightarrow> fst (updateToken da pull global c) = c) \<and>
   (snd (updateConfig pd support c) \<noteq> None \<longrightarrow>
    so_config (fst (updateConfig pd support c)) = so_config c \<and>
    so_secret (fst (updateConfig pd support c)) = so_secret c \<and>
    so_token (fst (updateConfig pd support c)) = so_token c \<and>
    so_listeners (fst (updateConfig pd support c)) = so_listeners c)"
proof
  show "snd (updateToken da pull global c) \<noteq> None \<longrightarrow> fst (updateToken da pull global c) = c"
    by (auto simp: updateToken_def split: sum.splits if_splits)
qed (auto simp: updateConfig_def Let_def split: sum.splits option.splits prod.splits)

text \<open>
  Listeners are told about changes and only about changes.  Merging the configuration again leaves
  a waiting notification in a listener's channel exactly when one was waiting before or the new
  configuration differs from the old one.
\<close>

lemma notified_iff_changed:
  assumes "so_config c = Some old" and "i < length (so_listeners c)" and "so_listeners c ! i = Some pending"
  shows "so_listeners (mergeConfig c) ! i = Some (pending \<or> old \<noteq> merged_config c)"
  using setConfig_pending [OF assms(2,3), of "merged_config c"] assms(1)
  by (auto simp: mergeConfig_def)

end
