(* ===== verification/ConfigAggregator.thy ===== *)
theory ConfigAggregator
  imports SecretObserver
begin

text \<open>
  pkg/config/configobserver/config\_aggregator.go, configmapobserver.go and
  insightsdatagather\_observer.go: the observer of the insights-config config map, the aggregator that
  merges it over the legacy configuration, and the observer of the gathering API.

  \<open>decode\<close> stands for the YAML decoding of the key config.yaml; a missing key is the empty text, and a
  failed \<open>Get\<close> of the typed client returns an empty object beside the error.  An unset and an empty
  list of obfuscation values are not distinguished.
\<close>

section \<open>Merging\<close>

definition legacyConfigToInsightsConfiguration :: "Controller \<Rightarrow> InsightsConfiguration" where
  "legacyConfigToInsightsConfiguration legacyConfig =
     \<lparr>ic_DataReporting =
        \<lparr>dr_Enabled = Report legacyConfig,
         dr_Interval = Interval legacyConfig,
         dr_UploadEndpoint = Endpoint legacyConfig,
         dr_DownloadEndpoint = ReportEndpoint legacyConfig,
         dr_DownloadEndpointTechPreview = ReportEndpointTechPreview legacyConfig,
         dr_StoragePath = StoragePath legacyConfig,
         dr_ConditionalGathererEndpoint = ConditionalGathererEndpoint legacyConfig,
         dr_ReportPullingDelay = ReportPullingDelay legacyConfig,
         dr_ProcessingStatusEndpoint = ProcessingStatusEndpoint legacyConfig,
         dr_Obfuscation = (if EnableGlobalObfuscation legacyConfig then [Networking] else []),
         dr_DisableRuntimeExtractor = False\<rparr>,
      ic_AlertingDisabled = DisableInsightsAlerts legacyConfig,
      ic_SCA =
        \<lparr>sca_Disabled = ocm_SCADisabled (OCMConf legacyConfig),
         sca_Interval = ocm_SCAInterval (OCMConf legacyConfig),
         sca_Endpoint = ocm_SCAEndpoint (OCMConf legacyConfig)\<rparr>,
      ic_ClusterTransfer =
        \<lparr>ct_Interval = ocm_ClusterTransferInterval (OCMConf legacyConfig),
         ct_Endpoint = ocm_ClusterTransferEndpoint (OCMConf legacyConfig)\<rparr>,
      ic_Proxy =
        \<lparr>px_HTTPProxy = http_HTTPProxy (HTTPConf legacyConfig),
         px_HTTPSProxy = http_HTTPSProxy (HTTPConf legacyConfig),
         px_NoProxy = http_NoProxy (HTTPConf legacyConfig)\<rparr>\<rparr>"

text \<open>The value of the new configuration when it is not empty.\<close>

definition or_default :: "string \<Rightarrow> string \<Rightarrow> string" where
  "or_default new old = (if new \<noteq> [] then new else old)"

definition mergeDataReporting ::
  "InsightsConfiguration \<Rightarrow> InsightsConfiguration \<Rightarrow> InsightsConfiguration" where
  "mergeDataReporting newCfg defaultCfg =
     (let n = ic_DataReporting newCfg; d = ic_DataReporting defaultCfg;
          d = (if dr_Interval n \<noteq> 0 then d\<lparr>dr_Interval := dr_Interval n\<rparr> else d);
          d = d\<lparr>dr_UploadEndpoint := or_default (dr_UploadEndpoint n) (dr_UploadEndpoint d),
                dr_DownloadEndpoint := or_default (dr_DownloadEndpoint n) (dr_DownloadEndpoint d),
                dr_DownloadEndpointTechPreview :=
                  or_default (dr_DownloadEndpointTechPreview n) (dr_DownloadEndpointTechPreview d),
                dr_ProcessingStatusEndpoint :=
                  or_default (dr_ProcessingStatusEndpoint n) (dr_ProcessingStatusEndpoint d),
                dr_ConditionalGathererEndpoint :=
                  or_default (dr_ConditionalGathererEndpoint n) (dr_ConditionalGathererEndpoint d),
                dr_StoragePath := or_default (dr_StoragePath n) (dr_StoragePath d)\<rparr>;
          d = (if 0 < length (dr_Obfuscation n)
               then d\<lparr>dr_Obfuscation := dr_Obfuscation d @ dr_Obfuscation n\<rparr> else d);
          d = (if dr_DisableRuntimeExtractor n \<noteq> dr_DisableRuntimeExtractor d
               then d\<lparr>dr_DisableRuntimeExtractor := dr_DisableRuntimeExtractor n\<rparr> else d)
      in defaultCfg\<lparr>ic_DataReporting := d\<rparr>)"

definition mergeAlerting ::
  "InsightsConfiguration \<Rightarrow> InsightsConfiguration \<Rightarrow> InsightsConfiguration" where
  "mergeAlerting newCfg defaultCfg =
     (if ic_AlertingDisabled newCfg \<noteq> ic_AlertingDisabled defaultCfg
      then defaultCfg\<lparr>ic_AlertingDisabled := ic_AlertingDisabled newCfg\<rparr> else defaultCfg)"

definition mergeSCAConfig ::
  "InsightsConfiguration \<Rightarrow> InsightsConfiguration \<Rightarrow> InsightsConfiguration" where
  "mergeSCAConfig newCfg defaultCfg =
     (let n = ic_SCA newCfg; d = ic_SCA defaultCfg;
          d = (if sca_Interval n \<noteq> 0 then d\<lparr>sca_Interval := sca_Interval n\<rparr> else d);
          d = d\<lparr>sca_Endpoint := or_default (sca_Endpoint n) (sca_Endpoint d)\<rparr>;
          d = (if sca_Disabled n \<noteq> sca_Disabled d then d\<lparr>sca_Disabled := sca_Disabled n\<rparr> else d)
      in defaultCfg\<lparr>ic_SCA := d\<rparr>)"

definition mergeProxyConfig ::
  "InsightsConfiguration \<Rightarrow> InsightsConfiguration \<Rightarrow> InsightsConfiguration" where
  "mergeProxyConfig newCfg defaultCfg =
     (let n = ic_Proxy newCfg; d = ic_Proxy defaultCfg
      in defaultCfg\<lparr>ic_Proxy :=
           d\<lparr>px_HTTPProxy := or_default (px_HTTPProxy n) (px_HTTPProxy d),
             px_HTTPSProxy := or_default (px_HTTPSProxy n) (px_HTTPSProxy d),
             px_NoProxy := or_default (px_NoProxy n) (px_NoProxy d)\<rparr>\<rparr>)"

definition mergeClusterTransfer ::
  "InsightsConfiguration \<Rightarrow> InsightsConfiguration \<Rightarrow> InsightsConfiguration" where
  "mergeClusterTransfer newCfg defaultCfg =
     (let n = ic_ClusterTransfer newCfg; d = ic_ClusterTransfer defaultCfg;
          d = (if ct_Interval n \<noteq> 0 then d\<lparr>ct_Interval := ct_Interval n\<rparr> else d);
          d = d\<lparr>ct_Endpoint := or_default (ct_Endpoint n) (ct_Endpoint d)\<rparr>
      in defaultCfg\<lparr>ic_ClusterTransfer := d\<rparr>)"

definition merge_config ::
  "InsightsConfiguration \<Rightarrow> InsightsConfiguration \<Rightarrow> InsightsConfiguration" where
  "merge_config newCfg defaultCfg =
     mergeProxyConfig newCfg
       (mergeClusterTransfer newCfg
         (mergeAlerting newCfg
           (mergeSCAConfig newCfg (mergeDataReporting newCfg defaultCfg))))"

lemmas aggregator_defs [config_simps] =
  legacyConfigToInsightsConfiguration_def mergeDataReporting_def mergeAlerting_def
  mergeSCAConfig_def mergeProxyConfig_def mergeClusterTransfer_def merge_config_def or_default_def

section \<open>The aggregator\<close>

text \<open>
  A listener of the aggregator is a channel with a buffer of one, known by its number; the flag says
  that a notification waits in the buffer.
\<close>

record ConfigAggregator =
  ca_usingInformer :: bool
  ca_config :: "InsightsConfiguration option"
  ca_listeners :: "(nat, bool) gomap"
  ca_next :: nat

definition mergeUsingInformer ::
  "Controller \<Rightarrow> InsightsConfiguration option \<Rightarrow> ConfigAggregator \<Rightarrow> ConfigAggregator" where
  "mergeUsingInformer legacy newConf c =
     (let conf = legacyConfigToInsightsConfiguration legacy
      in case newConf of
           None \<Rightarrow> c\<lparr>ca_config := Some conf\<rparr>
         | Some n \<Rightarrow> c\<lparr>ca_config := Some (merge_config n conf)\<rparr>)"

definition readConfigAndDecode ::
  "(string \<Rightarrow> InsightsConfigurationSerialized result) \<Rightarrow> (string \<Rightarrow> duration result) \<Rightarrow>
   string \<Rightarrow> InsightsConfiguration result" where
  "readConfigAndDecode decode pd cfg =
     (case decode cfg of Inl e \<Rightarrow> Inl e | Inr s \<Rightarrow> Inr (ToConfig pd s))"

definition mergeStatically ::
  "(string \<Rightarrow> InsightsConfigurationSerialized result) \<Rightarrow> (string \<Rightarrow> duration result) \<Rightarrow>
   Controller \<Rightarrow> string result \<Rightarrow> ConfigAggregator \<Rightarrow> ConfigAggregator" where
  "mergeStatically decode pd legacy cm_get c =
     (let conf = legacyConfigToInsightsConfiguration legacy;
          c = c\<lparr>ca_config := Some conf\<rparr>;
          merge_cm = (\<lambda>cm. case readConfigAndDecode decode pd cm of
                              Inl _ \<Rightarrow> c
                            | Inr cmConf \<Rightarrow> c\<lparr>ca_config := Some (merge_config cmConf conf)\<rparr>)
      in case cm_get of
           Inl e \<Rightarrow> if isNotFound e then c else merge_cm []
         | Inr cm \<Rightarrow> merge_cm cm)"

definition aggregator_Config ::
  "(string \<Rightarrow> InsightsConfigurationSerialized result) \<Rightarrow> (string \<Rightarrow> duration result) \<Rightarrow>
   Controller \<Rightarrow> InsightsConfiguration option \<Rightarrow> string result \<Rightarrow> ConfigAggregator \<Rightarrow>
   ConfigAggregator \<times> InsightsConfiguration option" where
  "aggregator_Config decode pd legacy informer_conf cm_get c =
     (let c = (if ca_usingInformer c then mergeUsingInformer legacy informer_conf c
               else mergeStatically decode pd legacy cm_get c)
      in (c, ca_config c))"

definition NewConfigAggregator ::
  "Controller \<Rightarrow> InsightsConfiguration option \<Rightarrow> ConfigAggregator" where
  "NewConfigAggregator legacy informer_conf =
     mergeUsingInformer legacy informer_conf
       \<lparr>ca_usingInformer = True, ca_config = None, ca_listeners = [], ca_next = 0\<rparr>"

definition NewStaticConfigAggregator ::
  "(string \<Rightarrow> InsightsConfigurationSerialized result) \<Rightarrow> (string \<Rightarrow> duration result) \<Rightarrow>
   Controller \<Rightarrow> string result \<Rightarrow> ConfigAggregator" where
  "NewStaticConfigAggregator decode pd legacy cm_get =
     mergeStatically decode pd legacy cm_get
       \<lparr>ca_usingInformer = False, ca_config = None, ca_listeners = [], ca_next = 0\<rparr>"

text \<open>A send on a full buffer blocks: \<open>None\<close>.\<close>

fun aggregator_notify :: "(nat, bool) gomap \<Rightarrow> (nat, bool) gomap option" where
  "aggregator_notify [] = Some []"
| "aggregator_notify ((ch, pending) # rest) =
     (if pending then None else map_option (Cons (ch, True)) (aggregator_notify rest))"

definition aggregator_ConfigChanged :: "ConfigAggregator \<Rightarrow> ConfigAggregator \<times> nat" where
  "aggregator_ConfigChanged c =
     (c\<lparr>ca_listeners := map_put (ca_next c) False (ca_listeners c), ca_next := Suc (ca_next c)\<rparr>, ca_next c)"

definition aggregator_close :: "nat \<Rightarrow> ConfigAggregator \<Rightarrow> ConfigAggregator" where
  "aggregator_close ch c = c\<lparr>ca_listeners := AList.delete ch (ca_listeners c)\<rparr>"

section \<open>The observer of the config map\<close>

record ConfigMapObserver =
  cmo_insightsConfig :: "InsightsConfiguration option"
  cmo_listeners :: "nat list"
  cmo_next :: nat

text \<open>\<open>cmo_sync\<close> returns the channels it sends a notification to and the error.\<close>

definition cmo_sync ::
  "(string \<Rightarrow> InsightsConfigurationSerialized result) \<Rightarrow> (string \<Rightarrow> duration result) \<Rightarrow>
   string result \<Rightarrow> ConfigMapObserver \<Rightarrow> ConfigMapObserver \<times> nat list \<times> go_error option" where
  "cmo_sync decode pd cm_get c =
     (case cm_get of
        Inl e \<Rightarrow>
          if \<not> isNotFound e then (c, [], Some e)
          else if cmo_insightsConfig c \<noteq> None
          then (c\<lparr>cmo_insightsConfig := None\<rparr>, cmo_listeners c, None)
          else (c, [], None)
      | Inr cm \<Rightarrow>
          (case readConfigAndDecode decode pd cm of
             Inl e \<Rightarrow> (c, [], Some e)
           | Inr insightsConfig \<Rightarrow>
               if cmo_insightsConfig c = Some insightsConfig then (c, [], None)
               else (c\<lparr>cmo_insightsConfig := Some insightsConfig\<rparr>, cmo_listeners c, None)))"

definition NewConfigMapObserver ::
  "(string \<Rightarrow> InsightsConfigurationSerialized result) \<Rightarrow> (string \<Rightarrow> duration result) \<Rightarrow>
   string result \<Rightarrow> ConfigMapObserver" where
  "NewConfigMapObserver decode pd cm_get =
     \<lparr>cmo_insightsConfig =
        (case cm_get of
           Inl _ \<Rightarrow> None
         | Inr cm \<Rightarrow> (case readConfigAndDecode decode pd cm of Inl _ \<Rightarrow> None | Inr c \<Rightarrow> Some c)),
      cmo_listeners = [], cmo_next = 0\<rparr>"

definition cmo_ConfigChanged :: "ConfigMapObserver \<Rightarrow> ConfigMapObserver \<times> nat" where
  "cmo_ConfigChanged c =
     (c\<lparr>cmo_listeners := cmo_listeners c @ [cmo_next c], cmo_next := Suc (cmo_next c)\<rparr>, cmo_next c)"

definition cmo_close :: "nat \<Rightarrow> ConfigMapObserver \<Rightarrow> ConfigMapObserver" where
  "cmo_close ch c = c\<lparr>cmo_listeners := removeAll ch (cmo_listeners c)\<rparr>"

section \<open>The observer of the gathering API\<close>

record GatherConfig =
  gc_dataPolicy :: "string list"
  gc_mode :: string

definition GatheringModeNone :: string where "GatheringModeNone = ''None''"

definition idg_sync ::
  "GatherConfig result \<Rightarrow> GatherConfig option \<Rightarrow> GatherConfig option \<times> go_error option" where
  "idg_sync got gatherConfig =
     (case got of Inl e \<Rightarrow> (gatherConfig, Some e) | Inr g \<Rightarrow> (Some g, None))"

definition GatherDisabled :: "GatherConfig option \<Rightarrow> bool" where
  "GatherDisabled gatherConfig =
     (case gatherConfig of None \<Rightarrow> False | Some g \<Rightarrow> gc_mode g = GatheringModeNone)"

section \<open>Lemmas\<close>

lemma merge_config_Enabled [simp]:
  "dr_Enabled (ic_DataReporting (merge_config n d)) = dr_Enabled (ic_DataReporting d)"
  by (simp add: config_simps Let_def)

lemma merge_config_Delay [simp]:
  "dr_ReportPullingDelay (ic_DataReporting (merge_config n d)) =
    dr_ReportPullingDelay (ic_DataReporting d)"
  by (simp add: config_simps Let_def)

lemma merge_config_Interval [simp]:
  "dr_Interval (ic_DataReporting (merge_config n d)) =
    (if dr_Interval (ic_DataReporting n) \<noteq> 0 then dr_Interval (ic_DataReporting n)
     else dr_Interval (ic_DataReporting d))"
  by (simp add: config_simps Let_def)

lemma merge_config_Obfuscation [simp]:
  "dr_Obfuscation (ic_DataReporting (merge_config n d)) =
    dr_Obfuscation (ic_DataReporting d) @ dr_Obfuscation (ic_DataReporting n)"
  by (simp add: config_simps Let_def)

lemma legacy_fields [simp]:
  "dr_Enabled (ic_DataReporting (legacyConfigToInsightsConfiguration l)) = Report l"
  "dr_Interval (ic_DataReporting (legacyConfigToInsightsConfiguration l)) = Interval l"
  "dr_Obfuscation (ic_DataReporting (legacyConfigToInsightsConfiguration l)) =
    (if EnableGlobalObfuscation l then [Networking] else [])"
  by (simp_all add: legacyConfigToInsightsConfiguration_def)

text \<open>A configuration that a config map can give: its interval is unset or at least the minimum.\<close>

definition cm_conf_ok :: "InsightsConfiguration option \<Rightarrow> bool" where
  "cm_conf_ok n =
     (case n of
        None \<Rightarrow> True
      | Some n \<Rightarrow> dr_Interval (ic_DataReporting n) = 0 \<or> interval_ok (dr_Interval (ic_DataReporting n)))"

lemma readConfigAndDecode_ok:
  "readConfigAndDecode decode pd cm = Inr c \<Longrightarrow> cm_conf_ok (Some c)"
  using ToConfig_interval by (auto simp: readConfigAndDecode_def cm_conf_ok_def split: sum.splits)

lemma cmo_sync_ok:
  "cm_conf_ok (cmo_insightsConfig c) \<Longrightarrow> cm_conf_ok (cmo_insightsConfig (fst (cmo_sync decode pd g c)))"
  by (auto simp: cmo_sync_def cm_conf_ok_def [of None] split: sum.splits dest: readConfigAndDecode_ok)

lemma NewConfigMapObserver_ok: "cm_conf_ok (cmo_insightsConfig (NewConfigMapObserver decode pd g))"
  by (auto simp: NewConfigMapObserver_def cm_conf_ok_def [of None] split: sum.splits
      dest: readConfigAndDecode_ok)

lemma aggregator_notify_spec:
  "aggregator_notify ls =
    (if list_ex snd ls then None else Some (map (\<lambda>(ch, p). (ch, True)) ls))"
  by (induction ls rule: aggregator_notify.induct) auto

text \<open>The aggregated configuration over any configurator that keeps its contract.\<close>

context configurator
begin

lemma aggregated_Enabled:
  assumes "ok s" and "conf s = Some l"
    and "ca_config (mergeUsingInformer l n c) = Some ic"
  shows "dr_Enabled (ic_DataReporting ic) \<longleftrightarrow> Endpoint l \<noteq> [] \<and> Token l \<noteq> []"
  using assms conf_report [OF assms(1,2)]
  by (auto simp: mergeUsingInformer_def Let_def split: option.splits)

lemma aggregated_Interval:
  assumes "ok s" and "conf s = Some l" and "cm_conf_ok n"
    and "ca_config (mergeUsingInformer l n c) = Some ic"
  shows "0 < dr_Interval (ic_DataReporting ic)"
  using assms conf_interval [OF assms(1,2)]
  by (auto simp: mergeUsingInformer_def Let_def cm_conf_ok_def interval_ok_def config_simps
      split: option.splits simp del: aggregator_defs)

lemma aggregated_Obfuscation:
  assumes "ok s" and "conf s = Some l" and "EnableGlobalObfuscation l"
    and "ca_config (mergeUsingInformer l n c) = Some ic"
  shows "Networking \<in> set (dr_Obfuscation (ic_DataReporting ic))"
  using assms by (auto simp: mergeUsingInformer_def Let_def split: option.splits)

end

section \<open>Properties\<close>

definition example_cm :: InsightsConfiguration where
  "example_cm =
     ToConfig (\<lambda>_. Inr 1)
       \<lparr>ics_DataReporting =
          \<lparr>drs_Interval = ''1ns'', drs_UploadEndpoint = ''https://other'', drs_DownloadEndpoint = [],
           drs_DownloadEndpointTechPreview = [], drs_StoragePath = [],
           drs_ConditionalGathererEndpoint = [], drs_ProcessingStatusEndpoint = [],
           drs_Obfuscation = [], drs_DisableRuntimeExtractor = []\<rparr>,
        ics_AlertingDisabled = [],
        ics_SCA = \<lparr>scas_Disabled = [], scas_Interval = [], scas_Endpoint = []\<rparr>,
        ics_ClusterTransfer = \<lparr>cts_Interval = [], cts_Endpoint = []\<rparr>,
        ics_Proxy = \<lparr>px_HTTPProxy = [], px_HTTPSProxy = [], px_NoProxy = []\<rparr>\<rparr>"

lemma example_cm_ok: "cm_conf_ok (Some example_cm)"
  unfolding example_cm_def cm_conf_ok_def option.case by (rule ToConfig_interval)



text \<open>
  The effective interval.  The interval a config map gives is unset or at least ten minutes,
  whatever text it holds; in the aggregated configuration it takes precedence over the legacy interval
  when it is set.
\<close>

lemma cm_interval:
  assumes "readConfigAndDecode decode pd cm = Inr n"
  shows "dr_Interval (ic_DataReporting (merge_config n (legacyConfigToInsightsConfiguration l))) =
      (if dr_Interval (ic_DataReporting n) = 0 then Interval l else dr_Interval (ic_DataReporting n)) \<and>
    (dr_Interval (ic_DataReporting n) = 0 \<or> 10 * Minute \<le> dr_Interval (ic_DataReporting n))"
  using readConfigAndDecode_ok [OF assms]
  by (simp add: cm_conf_ok_def interval_ok_def minimumGatherFrequency_def)

text \<open>
  The config map observer notifies exactly on a change: \<open>sync\<close> sends to every listener when the
  decoded configuration differs from the one it holds (or the config map is gone), to none otherwise,
  and an error changes nothing.
\<close>

lemma cmo_sync_notifies:
  "case cmo_sync decode pd got c of (c', notified, err) \<Rightarrow>
     notified = (if cmo_insightsConfig c' = cmo_insightsConfig c then [] else cmo_listeners c) \<and>
     cmo_listeners c' = cmo_listeners c \<and> (err = None \<or> c' = c)"
  by (auto simp: cmo_sync_def split: sum.splits)

end
