(* ===== verification/Records.thy ===== *)
theory Records
  imports Utils
begin

text \<open>
  pkg/record: the record handed to the recorder (record.go) and its in-memory form (memory.go).  A
  \<open>Marshalable\<close> item is what the code sees of it: the outcome of \<open>Marshal\<close> and the extension.  The
  hexadecimal SHA-256 digest of the content is the argument \<open>sha256\<close>.
\<close>

record Marshalable =
  item_Marshal :: "bytes option result"
  item_GetExtension :: string

record Record =
  rec_Name :: string
  rec_Captured :: time
  rec_Item :: "Marshalable option"
  rec_AlwaysStored :: bool

record MemoryRecord =
  mr_Name :: string
  mr_At :: time
  mr_Data :: "bytes option"
  mr_Fingerprint :: string

abbreviation JSONExtension :: string where "JSONExtension \<equiv> ''json''"

definition data_bytes :: "bytes option \<Rightarrow> bytes" where
  "data_bytes d = (case d of None \<Rightarrow> [] | Some b \<Rightarrow> b)"

definition data_len :: "bytes option \<Rightarrow> int" where
  "data_len d = int (length (data_bytes d))"

definition Record_Marshal ::
  "(bytes \<Rightarrow> string) \<Rightarrow> Marshalable \<Rightarrow> (bytes option \<times> string) result" where
  "Record_Marshal sha256 item =
     (case item_Marshal item of
        Inl e \<Rightarrow> Inl e
      | Inr content \<Rightarrow> Inr (content, sha256 (data_bytes content)))"

definition GetFilename :: "string \<Rightarrow> Marshalable \<Rightarrow> string" where
  "GetFilename name item =
     (if 0 < length (item_GetExtension item) then name @ ''.'' @ item_GetExtension item else name)"

definition MemoryRecords_Less :: "MemoryRecord \<Rightarrow> MemoryRecord \<Rightarrow> bool" where
  "MemoryRecords_Less x y = (mr_At x > mr_At y)"

lemma data_len_nonneg [simp]: "0 \<le> data_len d"
  by (simp add: data_len_def)

interpretation newest_first: strict_weak_order MemoryRecords_Less
  by unfold_locales (auto simp: MemoryRecords_Less_def)

end
