(* ===== verification/Subnet.thy ===== *)
theory Subnet
  imports Utils
begin

text \<open>
  The address arithmetic of pkg/anonymization/network\_anonymizer.go: \<open>getNextIP\<close> and what it uses of
  \<open>net\<close> (Mask, Equal, Contains) and of \<open>math/big\<close> (SetBytes, Bytes).  Addresses and masks are byte
  lists, as \<open>net.IP\<close> and \<open>net.IPMask\<close> are; \<open>nil\<close> is the empty list.
\<close>

unbundle bit_operations_syntax

section \<open>Operations\<close>

abbreviation v4InV6Prefix :: ip where "v4InV6Prefix \<equiv> replicate 10 0 @ [255, 255]"

definition ip_mask :: "ip \<Rightarrow> ip \<Rightarrow> ip" where
  "ip_mask msk ip =
     (let msk = (if length msk = 16 \<and> length ip = 4 \<and> take 12 msk = replicate 12 255
                  then drop 12 msk else msk);
          ip = (if length msk = 4 \<and> length ip = 16 \<and> take 12 ip = v4InV6Prefix
                then drop 12 ip else ip)
      in if length ip \<noteq> length msk then [] else map2 (AND) ip msk)"

definition ip_equal :: "ip \<Rightarrow> ip \<Rightarrow> bool" where
  "ip_equal a b =
     (if length a = length b then a = b
      else if length a = 4 \<and> length b = 16 then take 12 b = v4InV6Prefix \<and> a = drop 12 b
      else if length a = 16 \<and> length b = 4 then take 12 a = v4InV6Prefix \<and> drop 12 a = b
      else False)"

definition networkNumberAndMask :: "ip \<Rightarrow> ip \<Rightarrow> ip \<times> ip" where
  "networkNumberAndMask nip msk =
     (let ip = (case to4 nip of Some x \<Rightarrow> x | None \<Rightarrow> nip)
      in if to4 nip = None \<and> length ip \<noteq> 16 then ([], [])
         else if length msk = 4 then (if length ip \<noteq> 4 then ([], []) else (ip, msk))
         else if length msk = 16 then (ip, if length ip = 4 then drop 12 msk else msk)
         else ([], []))"

definition net_contains :: "ip \<Rightarrow> ip \<Rightarrow> ip \<Rightarrow> bool" where
  "net_contains nip msk x =
     (let (nn, m) = networkNumberAndMask nip msk;
          x = (case to4 x of Some y \<Rightarrow> y | None \<Rightarrow> x)
      in length x = length nn \<and> map2 (AND) nn m = map2 (AND) x m)"

definition bytes_int :: "ip \<Rightarrow> int" where
  "bytes_int bs = horner_sum uint 256 (rev bs)"

function int_bytes :: "int \<Rightarrow> ip" where
  "int_bytes n = (if n \<le> 0 then [] else int_bytes (n div 256) @ [word_of_int n])"
  by pat_completeness auto
termination by (relation "measure nat") auto

declare int_bytes.simps [simp del]

fun ip_or :: "int \<Rightarrow> ip \<Rightarrow> int" where
  "ip_or v [] = v"
| "ip_or v (b # bs) = ip_or (v OR push_bit (length bs * 8) (uint b)) bs"

definition fixArraySize :: "bool \<Rightarrow> ip \<Rightarrow> ip" where
  "fixArraySize isIpv4 x = TakeLastNItemsFromByteArray x (if isIpv4 then 4 else 16)"

definition getNextIP :: "ip \<Rightarrow> ip \<Rightarrow> ip \<times> bool" where
  "getNextIP originalIP msk =
     (let isIpv4 = (to4 originalIP \<noteq> None);
          originalIP = fixArraySize isIpv4 originalIP;
          intValue = ip_or 0 originalIP + 1;
          resultIP = fixArraySize isIpv4 (int_bytes intValue);
          originalIPNetwork = ip_mask msk originalIP;
          resultIPNetwork = ip_mask msk resultIP
      in if \<not> ip_equal originalIPNetwork resultIPNetwork then
           let invertedMask = map (\<lambda>m. m XOR 255) msk;
               resultHostIP = ip_mask invertedMask resultIP;
               intValue = bytes_int originalIPNetwork OR bytes_int resultHostIP
           in (int_bytes intValue, True)
         else (resultIP, False))"

section \<open>Bytes and integers\<close>

lemma bit_bytes_int:
  "bit (bytes_int bs) n \<longleftrightarrow> n div 8 < length bs \<and> bit (rev bs ! (n div 8)) (n mod 8)"
  using bit_horner_sum_uint_exp_iff [of "rev bs" n] by (simp add: bytes_int_def)

lemma bytes_int_Nil [simp]: "bytes_int [] = 0"
  by (simp add: bytes_int_def)

lemma bytes_int_snoc: "bytes_int (bs @ [b]) = uint b + 256 * bytes_int bs"
  by (simp add: bytes_int_def)

lemma bytes_int_nonneg [simp]: "0 \<le> bytes_int bs"
  by (induction bs rule: rev_induct) (auto simp: bytes_int_snoc)

lemma bytes_int_take_bit: "take_bit (8 * length bs) (bytes_int bs) = bytes_int bs"
  by (rule bit_eqI) (auto simp: bit_take_bit_iff bit_bytes_int)

lemma bytes_int_less: "bytes_int bs < 2 ^ (8 * length bs)"
  using bytes_int_take_bit [of bs] by (metis take_bit_int_less_exp)

lemma bytes_int_inject:
  assumes "length as = length bs" and "bytes_int as = bytes_int bs"
  shows "as = bs"
proof -
  have "rev as ! i = rev bs ! i" if i: "i < length as" for i
  proof (rule bit_word_eqI)
    fix n
    assume n: "n < LENGTH(8)"
    then have d: "(8 * i + n) div 8 = i" "(8 * i + n) mod 8 = n" by simp_all
    have "bit (bytes_int as) (8 * i + n) = bit (bytes_int bs) (8 * i + n)"
      by (simp add: assms(2))
    then show "bit (rev as ! i) n = bit (rev bs ! i) n"
      unfolding bit_bytes_int d using i assms(1) by simp
  qed
  then have "rev as = rev bs" using assms(1) by (intro nth_equalityI) simp_all
  then show ?thesis by simp
qed

lemma bytes_int_int_bytes: "0 \<le> n \<Longrightarrow> bytes_int (int_bytes n) = n"
proof (induction n rule: int_bytes.induct)
  case (1 n)
  show ?case
  proof (cases "n = 0")
    case True
    then show ?thesis by (simp add: int_bytes.simps)
  next
    case False
    have "bytes_int (int_bytes n) = n mod 256 + 256 * (n div 256)"
      using 1 False by (subst int_bytes.simps) (simp add: bytes_int_snoc uint_word_of_int)
    then show ?thesis by simp
  qed
qed

lemma length_int_bytes: "2 ^ (8 * k) \<le> n \<Longrightarrow> k < length (int_bytes n)"
proof (rule ccontr)
  assume n: "2 ^ (8 * k) \<le> n" and "\<not> k < length (int_bytes n)"
  then have "bytes_int (int_bytes n) < 2 ^ (8 * k)"
    using bytes_int_less [of "int_bytes n"]
    by (meson less_le_trans linorder_not_less mult_le_mono2 one_le_numeral power_increasing)
  moreover have "0 \<le> n" using n by (rule order_trans [rotated]) simp
  ultimately show False using n by (simp add: bytes_int_int_bytes)
qed

lemma length_int_bytes_le: "n < 2 ^ (8 * k) \<Longrightarrow> length (int_bytes n) \<le> k"
proof (induction k arbitrary: n)
  case 0
  then show ?case by (simp add: int_bytes.simps)
next
  case (Suc k)
  then have "n div 256 < 2 ^ (8 * k)" by (simp add: power_add)
  with Suc.IH show ?case by (subst int_bytes.simps) simp
qed

lemma bytes_int_TakeLast: "bytes_int (TakeLastNItemsFromByteArray bs k) = take_bit (8 * k) (bytes_int bs)"
proof (rule bit_eqI)
  fix n
  show "bit (bytes_int (TakeLastNItemsFromByteArray bs k)) n = bit (take_bit (8 * k) (bytes_int bs)) n"
  proof (cases "k < length bs")
    case True
    then show ?thesis
      by (auto simp: bit_bytes_int bit_take_bit_iff TakeLastNItemsFromByteArray_def rev_drop)
  next
    case False
    then show ?thesis
      by (auto simp: bit_bytes_int bit_take_bit_iff TakeLastNItemsFromByteArray_def pad_zeros_eq
          nth_append)
  qed
qed

lemma bytes_int_and:
  "length as = length bs \<Longrightarrow> bytes_int (map2 (AND) as bs) = bytes_int as AND bytes_int bs"
  by (rule bit_eqI) (auto simp: bit_bytes_int bit_and_iff rev_map zip_rev [symmetric])

lemma bytes_int_invert:
  "bytes_int (map (\<lambda>m. m XOR 255) bs) = Bit_Operations.mask (8 * length bs) AND NOT (bytes_int bs)"
proof (rule bit_eqI)
  fix n
  have "bit (255 :: 8 word) (n mod 8)"
  proof -
    have "(255 :: 8 word) = - 1" by simp
    then show ?thesis by (simp only: bit_minus_1_iff) simp
  qed
  then show "bit (bytes_int (map (\<lambda>m. m XOR 255) bs)) n =
      bit (Bit_Operations.mask (8 * length bs) AND NOT (bytes_int bs)) n"
    by (auto simp: bit_bytes_int bit_simps rev_map)
qed

text \<open>The loop that joins the bytes with shifts and \<open>Or\<close> is the big-endian value.\<close>

lemma ip_or_eq:
  assumes "take_bit (8 * length bs) v = 0"
  shows "ip_or v bs = v + bytes_int bs"
  using assms
proof (induction bs arbitrary: v)
  case Nil
  then show ?case by simp
next
  case (Cons b bs)
  let ?p = "push_bit (length bs * 8) (uint b)"
  have low: "\<not> bit v n" if "n < 8 * length (b # bs)" for n
    using Cons.prems that by (metis bit_0_eq bit_take_bit_iff bot_apply bot_bool_def)
  have byte: "bit (uint b) n \<Longrightarrow> n < 8" for n
    using bit_uint_iff [of b n] by simp
  have "v OR ?p = v + ?p"
  proof (rule disjunctive_add [symmetric])
    fix n
    show "\<not> bit v n \<or> \<not> bit ?p n"
      using low [of n] byte [of "n - length bs * 8"]
      by (cases "n < 8 * length (b # bs)") (auto simp: bit_push_bit_iff)
  qed
  moreover have "take_bit (8 * length bs) (v OR ?p) = 0"
  proof (rule bit_eqI)
    fix n
    show "bit (take_bit (8 * length bs) (v OR ?p)) n = bit 0 n"
      using low [of n] by (auto simp: bit_simps)
  qed
  moreover have "bytes_int (b # bs) = ?p + bytes_int bs"
    by (simp add: bytes_int_def horner_sum_append push_bit_eq_mult power_mult
        mult.commute [of "length bs" 8] mult.commute [of "uint b"])
  ultimately show ?case using Cons.IH [of "v OR ?p"] by simp
qed

section \<open>The next address\<close>

text \<open>
  A subnet of IPv4 with \<open>h\<close> host bits: four bytes of address, the host bits of which are zero, and the
  contiguous mask that leaves \<open>h\<close> bits to the host.
\<close>

definition subnet_ok :: "nat \<Rightarrow> ip \<Rightarrow> ip \<Rightarrow> bool" where
  "subnet_ok h nip msk =
     (length nip = 4 \<and> length msk = 4 \<and> h \<le> 32 \<and> bytes_int msk = 2 ^ 32 - 2 ^ h \<and>
      bytes_int nip mod 2 ^ h = 0)"

lemma mask_value: "h \<le> 32 \<Longrightarrow> (2 ^ 32 - 2 ^ h :: int) = push_bit h (Bit_Operations.mask (32 - h))"
  by (simp add: push_bit_eq_mult mask_eq_exp_minus_1 algebra_simps flip: power_add)

lemma and_mask_value:
  fixes x :: int
  assumes "h \<le> 32" and "0 \<le> x" and "x < 2 ^ 32"
  shows "x AND (2 ^ 32 - 2 ^ h) = x - x mod 2 ^ h"
proof -
  have tx: "take_bit 32 x = x" using assms by (simp add: take_bit_int_eq_self_iff)
  have "x AND (2 ^ 32 - 2 ^ h) = push_bit h (drop_bit h (take_bit 32 x))"
    unfolding mask_value [OF assms(1)] by (rule bit_eqI) (use assms(1) in \<open>auto simp: bit_simps\<close>)
  also have "\<dots> = x - x mod 2 ^ h"
    unfolding tx by (simp add: push_bit_eq_mult drop_bit_eq_div minus_mod_eq_div_mult)
  finally show ?thesis .
qed

lemma and_inverted_value:
  fixes x :: int
  assumes "h \<le> 32" and "0 \<le> x" and "x < 2 ^ 32"
  shows "x AND (Bit_Operations.mask 32 AND NOT (2 ^ 32 - 2 ^ h)) = x mod 2 ^ h"
proof -
  have tx: "take_bit 32 x = x" using assms by (simp add: take_bit_int_eq_self_iff)
  have "x AND (Bit_Operations.mask 32 AND NOT (2 ^ 32 - 2 ^ h)) = take_bit h (take_bit 32 x)"
    unfolding mask_value [OF assms(1)] by (rule bit_eqI) (use assms(1) in \<open>auto simp: bit_simps\<close>)
  then show ?thesis unfolding tx by (simp add: take_bit_eq_mod)
qed

lemma ip_mask_4: "length x = 4 \<Longrightarrow> length msk = 4 \<Longrightarrow> ip_mask msk x = map2 (AND) x msk"
  by (simp add: ip_mask_def)

lemma ip_mask_value:
  assumes "length x = 4" and "length msk = 4" and "h \<le> 32" and "bytes_int msk = 2 ^ 32 - 2 ^ h"
  shows "bytes_int (ip_mask msk x) = bytes_int x - bytes_int x mod 2 ^ h"
  using assms bytes_int_less [of x] and_mask_value [of h "bytes_int x"]
  by (simp add: ip_mask_4 bytes_int_and)

lemma ip_mask_inverted_value:
  assumes "length x = 4" and "length msk = 4" and "h \<le> 32" and "bytes_int msk = 2 ^ 32 - 2 ^ h"
  shows "bytes_int (ip_mask (map (\<lambda>m. m XOR 255) msk) x) = bytes_int x mod 2 ^ h"
  using assms bytes_int_less [of x] and_inverted_value [of h "bytes_int x"]
  by (simp add: ip_mask_4 bytes_int_and bytes_int_invert)

lemma getNextIP_unfold:
  assumes "length lst = 4" and "length msk = 4"
  defines "r \<equiv> TakeLastNItemsFromByteArray (int_bytes (bytes_int lst + 1)) 4"
  shows "getNextIP lst msk =
      (if ip_mask msk lst = ip_mask msk r then (r, False)
       else (int_bytes (bytes_int (ip_mask msk lst) OR
              bytes_int (ip_mask (map (\<lambda>m. m XOR 255) msk) r)), True))"
  using assms
  by (simp add: getNextIP_def Let_def fixArraySize_def TakeLastN_id ip_or_eq ip_equal_def ip_mask_4)

lemma subnet_bound:
  assumes "subnet_ok h nip msk"
  shows "bytes_int nip + 2 ^ h \<le> 2 ^ 32"
proof -
  from assms have l: "length nip = 4" "h \<le> 32" and base: "bytes_int nip mod 2 ^ h = 0"
    by (auto simp: subnet_ok_def)
  obtain q where q: "bytes_int nip = q * 2 ^ h"
    using base by (metis mod_0_imp_dvd dvd_div_mult_self)
  have p: "(2 ^ 32 :: int) = 2 ^ (32 - h) * 2 ^ h"
    using l(2) by (simp flip: power_add)
  have "bytes_int nip < 2 ^ 32" using bytes_int_less [of nip] l(1) by simp
  then have "q < 2 ^ (32 - h)"
    unfolding q p by (simp add: mult_less_cancel_right)
  then have "(q + 1) * 2 ^ h \<le> 2 ^ (32 - h) * (2 ^ h :: int)" by (intro mult_right_mono) auto
  with p show ?thesis unfolding q by (simp add: algebra_simps)
qed

text \<open>
  The \<open>k\<close>-th address of the subnet is followed by the next one; after the last one the counting
  starts again at the address of the network, and the overflow is reported.  The first octet of the
  network must not be zero: \<open>Bytes\<close> drops leading zero bytes, and the branch for the overflow does
  not restore them.
\<close>

lemma getNextIP_within:
  assumes ok: "subnet_ok h nip msk"
    and lst: "length lst = 4" "bytes_int lst = bytes_int nip + k" "0 \<le> k" "k + 1 < 2 ^ h"
  shows "\<exists>r. getNextIP lst msk = (r, False) \<and> length r = 4 \<and> bytes_int r = bytes_int nip + k + 1"
proof -
  from ok have l: "length msk = 4" "h \<le> 32" "bytes_int msk = 2 ^ 32 - 2 ^ h"
    and base: "bytes_int nip mod 2 ^ h = 0"
    by (auto simp: subnet_ok_def)
  let ?r = "TakeLastNItemsFromByteArray (int_bytes (bytes_int lst + 1)) 4"
  have rv: "bytes_int ?r = bytes_int nip + k + 1"
    using lst subnet_bound [OF ok] by (simp add: bytes_int_TakeLast bytes_int_int_bytes take_bit_eq_mod)
  have m: "(bytes_int nip + j) mod 2 ^ h = j" if "0 \<le> j" "j < 2 ^ h" for j
    using base that by (metis add.left_neutral mod_add_left_eq mod_pos_pos_trivial)
  have "bytes_int (ip_mask msk lst) = bytes_int nip"
    using ip_mask_value [OF lst(1) l] lst m [of k] by simp
  moreover have "bytes_int (ip_mask msk ?r) = bytes_int nip"
    using ip_mask_value [of ?r, OF _ l] rv lst m [of "k + 1"] by (simp add: add.assoc)
  ultimately have "ip_mask msk lst = ip_mask msk ?r"
    using lst(1) l(1) by (intro bytes_int_inject) (simp_all add: ip_mask_4)
  with getNextIP_unfold [OF lst(1) l(1)] rv show ?thesis by simp
qed

lemma getNextIP_wrap:
  assumes ok: "subnet_ok h nip msk" and nz: "2 ^ 24 \<le> bytes_int nip"
    and lst: "length lst = 4" "bytes_int lst = bytes_int nip + (2 ^ h - 1)"
  shows "\<exists>r. getNextIP lst msk = (r, True) \<and> length r = 4 \<and> bytes_int r = bytes_int nip"
proof -
  from ok have l: "length msk = 4" "h \<le> 32" "bytes_int msk = 2 ^ 32 - 2 ^ h"
    and base: "bytes_int nip mod 2 ^ h = 0" and nip: "length nip = 4"
    by (auto simp: subnet_ok_def)
  let ?b = "bytes_int nip"
  let ?r = "TakeLastNItemsFromByteArray (int_bytes (bytes_int lst + 1)) 4"
  have b32: "?b < 2 ^ 32" using bytes_int_less [of nip] nip by simp
  have pos: "(0 :: int) < 2 ^ h" by simp
  have rv: "bytes_int ?r = (?b + 2 ^ h) mod 2 ^ 32"
    using lst(2) by (simp add: bytes_int_TakeLast bytes_int_int_bytes take_bit_eq_mod)
  have "(2 ^ h :: int) dvd 2 ^ 32" using l(2) by (rule le_imp_power_dvd)
  then have rm: "bytes_int ?r mod 2 ^ h = 0"
    unfolding rv using base by (simp only: mod_mod_cancel) simp
  have on: "bytes_int (ip_mask msk lst) = ?b"
  proof -
    have "(?b + (2 ^ h - 1)) mod 2 ^ h = 2 ^ h - 1"
      using base pos by (metis add.left_neutral diff_ge_0_iff_ge int_one_le_iff_zero_less
          mod_add_left_eq mod_pos_pos_trivial zless_iff_Suc_zadd zle_diff1_eq order_refl)
    with ip_mask_value [OF lst(1) l] lst(2) show ?thesis by simp
  qed
  have rn: "bytes_int (ip_mask msk ?r) = bytes_int ?r"
    using ip_mask_value [of ?r, OF _ l] rm by simp
  have "bytes_int ?r \<noteq> ?b"
    unfolding rv using subnet_bound [OF ok] nz pos
    by (cases "?b + 2 ^ h = 2 ^ 32") (simp_all add: mod_pos_pos_trivial)
  with on rn have "ip_mask msk lst \<noteq> ip_mask msk ?r" by metis
  moreover have "bytes_int (ip_mask (map (\<lambda>m. m XOR 255) msk) ?r) = 0"
    using ip_mask_inverted_value [of ?r, OF _ l] rm by simp
  ultimately have "getNextIP lst msk = (int_bytes ?b, True)"
    using getNextIP_unfold [OF lst(1) l(1)] on by simp
  moreover have "length (int_bytes ?b) = 4"
  proof -
    have "2 ^ (8 * 3) \<le> ?b" and "?b < 2 ^ (8 * 4)" using nz b32 by simp_all
    from length_int_bytes [OF this(1)] length_int_bytes_le [OF this(2)] show ?thesis by simp
  qed
  ultimately show ?thesis by (simp add: bytes_int_int_bytes)
qed

end
