(* ===== verification/Anonymizer.thy ===== *)
theory Anonymizer
  imports Records Config Subnet
begin

text \<open>
  pkg/anonymization: the network anonymiser (network\_anonymizer.go), its builder
  (network\_builder.go) and the list of anonymisers the recorder applies (anonymizer.go).

  The expression Ipv4AddressOrNetworkRegex is a matcher that lists the possible rests of the input in
  the order Go's leftmost-first matching prefers them.  \<open>parse_cidrs\<close> stands for
  \<open>k8snet.ParseCIDRs\<close> and \<open>url_host\<close> for the host name of \<open>net/url\<close>'s \<open>Parse\<close>; the outcomes of the API
  calls are arguments.  \<open>ObfuscateIP\<close> is called with matches of the expression only, which have no
  colon, so \<open>net.ParseIP\<close> is its IPv4 part and returns the four bytes of the address.
\<close>

section \<open>The expression for addresses and networks\<close>

definition in_range :: "char \<Rightarrow> char \<Rightarrow> char \<Rightarrow> bool" where
  "in_range a b c = ((of_char a :: nat) \<le> of_char c \<and> (of_char c :: nat) \<le> of_char b)"

fun digit_opt_digit :: "string \<Rightarrow> string list" where
  "digit_opt_digit [] = []"
| "digit_opt_digit (d # r) =
     (if is_digit d
      then (case r of [] \<Rightarrow> [] | e # v \<Rightarrow> if is_digit e then [v] else []) @ [r]
      else [])"

definition alt_25 :: "string \<Rightarrow> string list" where
  "alt_25 s =
     (case s of
        a # b # c # r \<Rightarrow>
          if a = CHR ''2'' \<and> b = CHR ''5'' \<and> in_range (CHR ''0'') (CHR ''5'') c then [r] else []
      | _ \<Rightarrow> [])"

definition alt_2 :: "string \<Rightarrow> string list" where
  "alt_2 s =
     (case s of
        a # b # c # r \<Rightarrow>
          if a = CHR ''2'' \<and> in_range (CHR ''0'') (CHR ''4'') b \<and> is_digit c then [r] else []
      | _ \<Rightarrow> [])"

definition alt_01 :: "string \<Rightarrow> string list" where
  "alt_01 s =
     (case s of
        [] \<Rightarrow> []
      | a # r \<Rightarrow> if a = CHR ''0'' \<or> a = CHR ''1'' then digit_opt_digit r else []) @
     digit_opt_digit s"

definition octet_rests :: "string \<Rightarrow> string list" where
  "octet_rests s = alt_25 s @ alt_2 s @ alt_01 s"

definition dot_rests :: "string \<Rightarrow> string list" where
  "dot_rests s = (case s of [] \<Rightarrow> [] | c # r \<Rightarrow> if c = CHR ''.'' then [r] else [])"

definition octet_dot_rests :: "string \<Rightarrow> string list" where
  "octet_dot_rests s = concat (map dot_rests (octet_rests s))"

definition Ipv4Regex :: "string \<Rightarrow> string list" where
  "Ipv4Regex s =
     concat (map octet_rests
       (concat (map octet_dot_rests (concat (map octet_dot_rests (octet_dot_rests s))))))"

definition prefix_len_rests :: "string \<Rightarrow> string list" where
  "prefix_len_rests s = (case s of [] \<Rightarrow> [] | c # r \<Rightarrow> if c = CHR ''/'' then digit_opt_digit r else [])"

definition Ipv4NetworkRegex :: "string \<Rightarrow> string list" where
  "Ipv4NetworkRegex s = concat (map prefix_len_rests (Ipv4Regex s))"

definition Ipv4AddressOrNetworkRegex :: "string \<Rightarrow> string list" where
  "Ipv4AddressOrNetworkRegex s = concat (map (\<lambda>r. prefix_len_rests r @ [r]) (Ipv4Regex s))"

definition regex_match :: "(string \<Rightarrow> string list) \<Rightarrow> string \<Rightarrow> (string \<times> string) option" where
  "regex_match re s =
     (case re s of
        [] \<Rightarrow> None
      | r # _ \<Rightarrow> if length r < length s then Some (take (length s - length r) s, r) else None)"

lemma regex_match_shorter: "regex_match re s = Some (m, r) \<Longrightarrow> length r < length s"
  by (auto simp: regex_match_def split: list.splits if_splits)

text \<open>\<open>FindAllString\<close> and the loop of \<open>ReplaceAllFunc\<close> with a replacement that threads a state.\<close>

function find_all_string :: "(string \<Rightarrow> string list) \<Rightarrow> string \<Rightarrow> string list" where
  "find_all_string re s =
     (case s of
        [] \<Rightarrow> []
      | _ # xs \<Rightarrow> (case regex_match re s of
           Some (m, r) \<Rightarrow> m # find_all_string re r
         | None \<Rightarrow> find_all_string re xs))"
  by pat_completeness auto
termination
  by (relation "measure (\<lambda>(re, s). length s)") (auto dest: regex_match_shorter)

declare find_all_string.simps [simp del]

function replace_all_func ::
  "(string \<Rightarrow> string list) \<Rightarrow> (string \<Rightarrow> 's \<Rightarrow> string \<times> 's) \<Rightarrow> string \<Rightarrow> 's \<Rightarrow> string \<times> 's" where
  "replace_all_func re repl s st =
     (case s of
        [] \<Rightarrow> ([], st)
      | x # xs \<Rightarrow> (case regex_match re s of
           Some (m, r) \<Rightarrow>
             let (t, st) = repl m st; (rest, st) = replace_all_func re repl r st in (t @ rest, st)
         | None \<Rightarrow> let (rest, st) = replace_all_func re repl xs st in (x # rest, st)))"
  by pat_completeness auto
termination
  by (relation "measure (\<lambda>(re, repl, s, st). length s)") (auto dest: regex_match_shorter)

declare replace_all_func.simps [simp del]

section \<open>The network anonymiser\<close>

record subnetInformation =
  sn_ip :: ip
  sn_mask :: ip
  sn_lastIP :: ip

record NetworkAnonymizer =
  na_sensitiveValues :: "(string, string) gomap"
  na_networks :: "subnetInformation list"
  na_translationTable :: "(string, string) gomap"
  na_dataPolicy :: string
  na_runningInCluster :: bool

definition ClusterBaseDomainPlaceholder :: string where
  "ClusterBaseDomainPlaceholder = ''<CLUSTER_BASE_DOMAIN>''"

definition ClusterHostPlaceholder :: string where
  "ClusterHostPlaceholder = ''<CLUSTER_DOMAIN_HOST>''"

text \<open>
  The loop of \<open>ObfuscateIP\<close> over the networks: the text to return, the entry for the translation
  table if there is a new one, and the networks with the counter advanced.
\<close>

fun obfuscate_in_networks ::
  "ip \<Rightarrow> subnetInformation list \<Rightarrow> (string \<times> string option \<times> subnetInformation list) option" where
  "obfuscate_in_networks originalIP [] = None"
| "obfuscate_in_networks originalIP (n # ns) =
     (if ip_equal (sn_ip n) originalIP then Some (ip_string originalIP, None, n # ns)
      else if net_contains (sn_ip n) (sn_mask n) originalIP then
        (let (nextIP, overflow) = getNextIP (sn_lastIP n) (sn_mask n)
         in Some (ip_string nextIP, Some (ip_string nextIP), n\<lparr>sn_lastIP := nextIP\<rparr> # ns))
      else map_option (\<lambda>(t, entry, ns). (t, entry, n # ns)) (obfuscate_in_networks originalIP ns))"

definition ObfuscateIP :: "string \<Rightarrow> NetworkAnonymizer \<Rightarrow> string \<times> NetworkAnonymizer" where
  "ObfuscateIP ipStr na =
     (if CHR ''/'' \<in> set ipStr then (ipStr, na)
      else case map_get (na_translationTable na) ipStr of
        Some obfuscatedIP \<Rightarrow> (obfuscatedIP, na)
      | None \<Rightarrow>
          (case parse_ipv4 ipStr of
             None \<Rightarrow> (ipStr, na)
           | Some originalIP \<Rightarrow>
               (case obfuscate_in_networks originalIP (na_networks na) of
                  None \<Rightarrow> (''0.0.0.0'', na)
                | Some (t, None, ns) \<Rightarrow> (t, na)
                | Some (t, Some entry, ns) \<Rightarrow>
                    (t, na\<lparr>na_networks := ns,
                          na_translationTable := map_put ipStr entry (na_translationTable na)\<rparr>))))"

text \<open>\<open>bytes.ReplaceAll\<close> and \<open>ReplaceAllFunc\<close> return a nil slice for an empty result.\<close>

definition nil_if_empty :: "bytes \<Rightarrow> bytes option" where
  "nil_if_empty b = (if b = [] then None else Some b)"

definition replace_sensitive :: "(string, string) gomap \<Rightarrow> string \<Rightarrow> string" where
  "replace_sensitive vals s = foldl (\<lambda>t (value, placeholder). replace_all value placeholder t) s vals"

definition anonymize_record ::
  "NetworkAnonymizer \<Rightarrow> MemoryRecord \<Rightarrow> NetworkAnonymizer \<times> MemoryRecord" where
  "anonymize_record na r =
     (let data = replace_sensitive (na_sensitiveValues na) (data_bytes (mr_Data r));
          name = replace_sensitive (na_sensitiveValues na) (mr_Name r);
          (data, na) = replace_all_func Ipv4AddressOrNetworkRegex ObfuscateIP data na
      in (na, r\<lparr>mr_Data := nil_if_empty data, mr_Name := name\<rparr>))"

section \<open>Networks of the cluster\<close>

record clusterNetworks =
  cn_ClusterNetwork :: "string list"
  cn_ServiceNetwork :: "string list"
  cn_ExternalIP :: "(string list \<times> (string list \<times> string list) option) option"

text \<open>The policy of an external IP configuration is a pointer that is followed unchecked: \<open>None\<close>.\<close>

definition getNetworksFromClusterNetworksConfig :: "clusterNetworks \<Rightarrow> string list option" where
  "getNetworksFromClusterNetworksConfig c =
     (let networks = cn_ClusterNetwork c @ cn_ServiceNetwork c
      in case cn_ExternalIP c of
           None \<Rightarrow> Some networks
         | Some (auto, None) \<Rightarrow> None
         | Some (auto, Some (allowed, rejected)) \<Rightarrow> Some (networks @ auto @ allowed @ rejected))"

definition network_less :: "string \<Rightarrow> string \<Rightarrow> bool" where
  "network_less a b =
     (if CHR ''/'' \<notin> set a \<or> CHR ''/'' \<notin> set b then a > b
      else let n1 = split_on (CHR ''/'') a; n2 = split_on (CHR ''/'') b
           in if n1 ! 1 \<noteq> n2 ! 1 then n1 ! 1 > n2 ! 1 else n1 ! 0 > n2 ! 0)"

text \<open>
  \<open>sortNetworks\<close> gets the slice by value: the caller sees the array, and keeps its own length.
\<close>

definition sortNetworks :: "string list \<Rightarrow> string list" where
  "sortNetworks networks = fst (SortAndRemoveDuplicates network_less networks)"

definition getNetworksForAnonymizer ::
  "clusterNetworks \<Rightarrow> string option \<Rightarrow> string list list \<Rightarrow> string list option" where
  "getNetworksForAnonymizer clusterNetworks installConfig hostSubnets =
     (case getNetworksFromClusterNetworksConfig clusterNetworks of
        None \<Rightarrow> None
      | Some ns \<Rightarrow>
          let networks = ''127.0.0.0/8'' # ns;
              networks = networks @ (case installConfig of
                           None \<Rightarrow> [] | Some c \<Rightarrow> find_all_string Ipv4NetworkRegex c);
              networks = networks @ concat hostSubnets;
              networks = networks @ (if hostSubnets = [] then [''192.168.126.0/18''] else [])
          in Some (sortNetworks networks))"

definition new_subnets :: "(ip \<times> ip) list \<Rightarrow> subnetInformation list" where
  "new_subnets cidrs = map (\<lambda>(i, m). \<lparr>sn_ip = i, sn_mask = m, sn_lastIP = i\<rparr>) cidrs"

text \<open>
  \<open>readNetworkConfigs\<close>: the outer option is the panic above, the result carries the error that is
  logged.  \<open>installConfig\<close> is the key install-config of the config map.
\<close>

definition readNetworkConfigs ::
  "(string list \<Rightarrow> (ip \<times> ip) list result) \<Rightarrow> clusterNetworks result \<Rightarrow> string option result \<Rightarrow>
   string list list result \<Rightarrow> NetworkAnonymizer \<Rightarrow> (NetworkAnonymizer \<times> go_error option) option" where
  "readNetworkConfigs parse_cidrs networksConfig clusterConfigV1 hostSubnets na =
     (if \<not> na_runningInCluster na then Some (na, None)
      else case networksConfig of
        Inl e \<Rightarrow> Some (na, Some e)
      | Inr nc \<Rightarrow> (case clusterConfigV1 of
        Inl e \<Rightarrow> Some (na, Some e)
      | Inr ic \<Rightarrow>
          (case getNetworksForAnonymizer nc ic (case hostSubnets of Inl _ \<Rightarrow> [] | Inr hs \<Rightarrow> hs) of
             None \<Rightarrow> None
           | Some networks \<Rightarrow>
               (case parse_cidrs networks of
                  Inl e \<Rightarrow> Some (na, Some e)
                | Inr cidrs \<Rightarrow> Some (na\<lparr>na_networks := na_networks na @ new_subnets cidrs\<rparr>, None)))))"

text \<open>
  \<open>AnonymizeData\<close>: \<open>once\<close> is the package variable of that name; \<open>load\<close> is \<open>readNetworkConfigs\<close> at the
  time of the first call.  An error of \<open>load\<close> is only logged.
\<close>

definition AnonymizeData ::
  "(NetworkAnonymizer \<Rightarrow> (NetworkAnonymizer \<times> go_error option) option) \<Rightarrow>
   bool \<Rightarrow> NetworkAnonymizer \<Rightarrow> MemoryRecord \<Rightarrow> (bool \<times> NetworkAnonymizer \<times> MemoryRecord) option" where
  "AnonymizeData load once na r =
     (case (if once then Some (na, None) else load na) of
        None \<Rightarrow> None
      | Some (na, _) \<Rightarrow> (case anonymize_record na r of (na, r) \<Rightarrow> Some (True, na, r)))"

definition ResetTranslationTable :: "NetworkAnonymizer \<Rightarrow> NetworkAnonymizer" where
  "ResetTranslationTable na = na\<lparr>na_translationTable := []\<rparr>"

text \<open>
  \<open>StoreTranslationTable\<close> returns the secret it created; \<open>create\<close> is the outcome of the call that
  creates it (the outcome of the deletion before it is only logged).
\<close>

definition StoreTranslationTable ::
  "((string, string) gomap \<Rightarrow> go_error option) \<Rightarrow> NetworkAnonymizer \<Rightarrow>
   NetworkAnonymizer \<times> (string, string) gomap option" where
  "StoreTranslationTable create na =
     (if length (na_translationTable na) = 0 then (na, None)
      else (ResetTranslationTable na,
            case create (na_translationTable na) of
              Some _ \<Rightarrow> None
            | None \<Rightarrow> Some (na_translationTable na)))"

definition obfuscateNetworking :: "Obfuscation \<Rightarrow> bool" where
  "obfuscateNetworking ob = list_ex (\<lambda>ov. ov = Networking) ob"

definition DataPolicyOptionObfuscateNetworking :: string where
  "DataPolicyOptionObfuscateNetworking = ''ObfuscateNetworking''"

definition IsEnabled :: "InsightsConfiguration \<Rightarrow> NetworkAnonymizer \<Rightarrow> bool" where
  "IsEnabled conf na =
     (if obfuscateNetworking (dr_Obfuscation (ic_DataReporting conf)) then True
      else if na_dataPolicy na \<noteq> [] then na_dataPolicy na = DataPolicyOptionObfuscateNetworking
      else False)"

section \<open>Building an anonymiser\<close>

definition WithSensitiveValue ::
  "string \<Rightarrow> string \<Rightarrow> NetworkAnonymizer \<Rightarrow> NetworkAnonymizer" where
  "WithSensitiveValue value placeholder na =
     (let v = trim_space value
      in if v = [] then na
         else na\<lparr>na_sensitiveValues := map_put v placeholder (na_sensitiveValues na)\<rparr>)"

definition WithDataPolicies :: "string list \<Rightarrow> NetworkAnonymizer \<Rightarrow> NetworkAnonymizer" where
  "WithDataPolicies dataPolicy na =
     (if DataPolicyOptionObfuscateNetworking \<in> set dataPolicy
      then na\<lparr>na_dataPolicy := DataPolicyOptionObfuscateNetworking\<rparr>
      else na\<lparr>na_dataPolicy := []\<rparr>)"

definition WithRunningInCluster :: "bool \<Rightarrow> NetworkAnonymizer \<Rightarrow> NetworkAnonymizer" where
  "WithRunningInCluster running na = na\<lparr>na_runningInCluster := running\<rparr>"

definition Build ::
  "(string list \<Rightarrow> (ip \<times> ip) list result) \<Rightarrow> string list \<Rightarrow> NetworkAnonymizer \<Rightarrow>
   NetworkAnonymizer result" where
  "Build parse_cidrs networks na =
     (case parse_cidrs networks of
        Inl e \<Rightarrow> Inl e
      | Inr cidrs \<Rightarrow> Inr (na\<lparr>na_networks := new_subnets cidrs, na_translationTable := []\<rparr>))"

definition addParsedDomainToMap ::
  "(string \<Rightarrow> string result) \<Rightarrow> string \<Rightarrow> string \<Rightarrow> (string, string) gomap \<Rightarrow>
   (string, string) gomap result" where
  "addParsedDomainToMap url_host address placeholder domainMap =
     (case url_host address of
        Inl e \<Rightarrow> Inl e
      | Inr host \<Rightarrow>
          if host = [] then Inr (map_put address placeholder domainMap)
          else Inr (map_put host placeholder domainMap))"

fun add_client_hosts ::
  "(string \<Rightarrow> string result) \<Rightarrow> string list \<Rightarrow> (string, string) gomap \<Rightarrow>
   (string, string) gomap result" where
  "add_client_hosts url_host [] m = Inr m"
| "add_client_hosts url_host (h # hs) m =
     (case addParsedDomainToMap url_host h ClusterHostPlaceholder m of
        Inl e \<Rightarrow> Inl e
      | Inr m \<Rightarrow> add_client_hosts url_host hs m)"

definition addAPIDomainsForAnonymization ::
  "(string \<Rightarrow> string result) \<Rightarrow> string list \<Rightarrow> string option \<Rightarrow> (string, string) gomap \<Rightarrow>
   (string, string) gomap result" where
  "addAPIDomainsForAnonymization url_host clientHosts apiServerURL domainMap =
     (case apiServerURL of
        Some u \<Rightarrow>
          if u \<noteq> [] then addParsedDomainToMap url_host u ClusterHostPlaceholder domainMap
          else add_client_hosts url_host clientHosts domainMap
      | None \<Rightarrow> add_client_hosts url_host clientHosts domainMap)"

definition NewNetworkAnonymizerFromConfigClient ::
  "(string list \<Rightarrow> (ip \<times> ip) list result) \<Rightarrow> string list \<Rightarrow> (string, string) gomap \<Rightarrow>
   string result \<Rightarrow> NetworkAnonymizer result" where
  "NewNetworkAnonymizerFromConfigClient parse_cidrs dataPolicies sensitiveVals baseDomain =
     (let na = \<lparr>na_sensitiveValues = [], na_networks = [], na_translationTable = [],
                na_dataPolicy = [], na_runningInCluster = False\<rparr>;
          na = WithRunningInCluster True (WithDataPolicies dataPolicies na);
          na = foldl (\<lambda>na (value, placeholder). WithSensitiveValue value placeholder na) na sensitiveVals
      in case baseDomain of
           Inl e \<Rightarrow> Inl e
         | Inr d \<Rightarrow> Build parse_cidrs [] (WithSensitiveValue d ClusterBaseDomainPlaceholder na))"

section \<open>The list of anonymisers\<close>

text \<open>
  \<open>Anonymizer.AnonymizeData\<close>: every enabled anonymiser is applied in turn to the same record, which it
  changes in place.
\<close>

fun Anonymizer_AnonymizeData ::
  "(NetworkAnonymizer \<Rightarrow> (NetworkAnonymizer \<times> go_error option) option) \<Rightarrow> InsightsConfiguration \<Rightarrow>
   bool \<Rightarrow> NetworkAnonymizer list \<Rightarrow> MemoryRecord \<Rightarrow>
   (bool \<times> NetworkAnonymizer list \<times> MemoryRecord) option" where
  "Anonymizer_AnonymizeData load conf once [] r = Some (once, [], r)"
| "Anonymizer_AnonymizeData load conf once (na # nas) r =
     (if IsEnabled conf na then
        (case AnonymizeData load once na r of
           None \<Rightarrow> None
         | Some (once, na, r) \<Rightarrow>
             map_option (\<lambda>(once, nas, r). (once, na # nas, r))
               (Anonymizer_AnonymizeData load conf once nas r))
      else map_option (\<lambda>(once, nas, r). (once, na # nas, r))
             (Anonymizer_AnonymizeData load conf once nas r))"

definition NetworkAnonymizerType :: string where "NetworkAnonymizerType = ''networking''"

definition IsAnonymizerTypeEnabled ::
  "InsightsConfiguration \<Rightarrow> string \<Rightarrow> NetworkAnonymizer list \<Rightarrow> bool" where
  "IsAnonymizerTypeEnabled conf anonymizerType nas =
     list_ex (\<lambda>an. NetworkAnonymizerType = anonymizerType \<and> IsEnabled conf an) nas"

section \<open>Obfuscation keeps an address in its network\<close>

definition net_of :: "subnetInformation \<Rightarrow> ip \<times> ip" where
  "net_of n = (sn_ip n, sn_mask n)"

definition in_net :: "ip \<times> ip \<Rightarrow> ip \<Rightarrow> bool" where
  "in_net n x = net_contains (fst n) (snd n) x"

definition subnet_state_ok :: "nat \<Rightarrow> subnetInformation \<Rightarrow> bool" where
  "subnet_state_ok h n =
     (subnet_ok h (sn_ip n) (sn_mask n) \<and> 2 ^ 24 \<le> bytes_int (sn_ip n) \<and>
      length (sn_lastIP n) = 4 \<and> bytes_int (sn_ip n) \<le> bytes_int (sn_lastIP n) \<and>
      bytes_int (sn_lastIP n) < bytes_int (sn_ip n) + 2 ^ h)"

definition networks_ok :: "subnetInformation list \<Rightarrow> bool" where
  "networks_ok ns = list_all (\<lambda>n. list_ex (\<lambda>h. subnet_state_ok h n) [0..<33]) ns"

text \<open>
  Where the address \<open>y\<close> is allowed to be for an original address \<open>x\<close>: in the first network that holds
  \<open>x\<close>, or 0.0.0.0 when there is none.
\<close>

definition same_net :: "(ip \<times> ip) list \<Rightarrow> ip \<Rightarrow> ip \<Rightarrow> bool" where
  "same_net nets x y =
     (case find (\<lambda>n. in_net n x) nets of None \<Rightarrow> y = [0, 0, 0, 0] | Some n \<Rightarrow> in_net n y)"

definition table_entry_ok :: "(ip \<times> ip) list \<Rightarrow> string \<times> string \<Rightarrow> bool" where
  "table_entry_ok nets e =
     (case (parse_ipv4 (fst e), parse_ipv4 (snd e)) of
        (Some x, Some y) \<Rightarrow>
          (case find (\<lambda>n. in_net n x) nets of None \<Rightarrow> False | Some n \<Rightarrow> fst n \<noteq> x \<and> in_net n y)
      | _ \<Rightarrow> False)"

definition anonymizer_ok :: "NetworkAnonymizer \<Rightarrow> bool" where
  "anonymizer_ok na =
     (networks_ok (na_networks na) \<and>
      list_all (table_entry_ok (map net_of (na_networks na))) (na_translationTable na))"

lemma networks_okD: "networks_ok ns \<Longrightarrow> n \<in> set ns \<Longrightarrow> \<exists>h. subnet_state_ok h n"
  by (auto simp: networks_ok_def list_all_iff list_ex_iff)

lemma subnet_state_ok_le: "subnet_state_ok h n \<Longrightarrow> h < 33"
  by (auto simp: subnet_state_ok_def subnet_ok_def)

lemma networks_okI: "(\<And>n. n \<in> set ns \<Longrightarrow> \<exists>h. subnet_state_ok h n) \<Longrightarrow> networks_ok ns"
  using subnet_state_ok_le by (fastforce simp: networks_ok_def list_all_iff list_ex_iff)

lemma net_contains_value:
  assumes "subnet_ok h nip msk" and "length x = 4"
  shows "net_contains nip msk x \<longleftrightarrow> bytes_int nip \<le> bytes_int x \<and> bytes_int x < bytes_int nip + 2 ^ h"
proof -
  from assms(1) have l: "length nip = 4" "length msk = 4" "h \<le> 32" "bytes_int msk = 2 ^ 32 - 2 ^ h"
    and base: "bytes_int nip mod 2 ^ h = 0"
    by (auto simp: subnet_ok_def)
  have "net_contains nip msk x \<longleftrightarrow> ip_mask msk nip = ip_mask msk x"
    using l assms(2) by (simp add: net_contains_def networkNumberAndMask_def ip_mask_4)
  also have "\<dots> \<longleftrightarrow> bytes_int (ip_mask msk nip) = bytes_int (ip_mask msk x)"
    using bytes_int_inject [of "ip_mask msk nip" "ip_mask msk x"] l assms(2)
    by (auto simp: ip_mask_4)
  also have "\<dots> \<longleftrightarrow> bytes_int nip = bytes_int x - bytes_int x mod 2 ^ h"
    using ip_mask_value [OF l(1) l(2,3,4)] ip_mask_value [OF assms(2) l(2,3,4)] base by simp
  also have "\<dots> \<longleftrightarrow> bytes_int nip \<le> bytes_int x \<and> bytes_int x < bytes_int nip + 2 ^ h"
  proof
    assume e: "bytes_int nip = bytes_int x - bytes_int x mod 2 ^ h"
    then show "bytes_int nip \<le> bytes_int x \<and> bytes_int x < bytes_int nip + 2 ^ h"
      using pos_mod_bound [of "2 ^ h" "bytes_int x"] by simp
  next
    assume "bytes_int nip \<le> bytes_int x \<and> bytes_int x < bytes_int nip + 2 ^ h"
    then have j: "0 \<le> bytes_int x - bytes_int nip" "bytes_int x - bytes_int nip < 2 ^ h" by auto
    have "bytes_int x mod 2 ^ h = (bytes_int nip + (bytes_int x - bytes_int nip)) mod 2 ^ h" by simp
    also have "\<dots> = bytes_int x - bytes_int nip"
      using base j by (metis add.left_neutral mod_add_left_eq mod_pos_pos_trivial)
    finally show "bytes_int nip = bytes_int x - bytes_int x mod 2 ^ h" by simp
  qed
  finally show ?thesis .
qed

text \<open>One step of the counter of a network.\<close>

lemma next_in_subnet:
  assumes ok: "subnet_state_ok h n" and next_ip: "getNextIP (sn_lastIP n) (sn_mask n) = (r, ov)"
  shows "length r = 4 \<and> in_net (net_of n) r \<and> subnet_state_ok h (n\<lparr>sn_lastIP := r\<rparr>)"
proof -
  from ok have sub: "subnet_ok h (sn_ip n) (sn_mask n)" and nz: "2 ^ 24 \<le> bytes_int (sn_ip n)"
    and l: "length (sn_lastIP n) = 4"
    by (auto simp: subnet_state_ok_def)
  define k where "k = bytes_int (sn_lastIP n) - bytes_int (sn_ip n)"
  with ok have k: "0 \<le> k" "k < 2 ^ h" "bytes_int (sn_lastIP n) = bytes_int (sn_ip n) + k"
    by (auto simp: subnet_state_ok_def)
  have r: "length r = 4 \<and> bytes_int (sn_ip n) \<le> bytes_int r \<and> bytes_int r < bytes_int (sn_ip n) + 2 ^ h"
  proof (cases "k + 1 < 2 ^ h")
    case True
    with getNextIP_within [OF sub l k(3,1)] next_ip k show ?thesis by auto
  next
    case False
    with k have "k = 2 ^ h - 1" by simp
    with getNextIP_wrap [OF sub nz l] next_ip k show ?thesis by auto
  qed
  with net_contains_value [OF sub] have "in_net (net_of n) r"
    by (simp add: in_net_def net_of_def)
  with r sub nz show ?thesis by (simp add: subnet_state_ok_def)
qed

lemma ip_equal_contains:
  assumes "subnet_state_ok h n" and "length x = 4"
  shows "ip_equal (sn_ip n) x \<longleftrightarrow> sn_ip n = x" and "sn_ip n = x \<Longrightarrow> in_net (net_of n) x"
proof -
  have sub: "subnet_ok h (sn_ip n) (sn_mask n)" using assms(1) by (simp add: subnet_state_ok_def)
  then have "length (sn_ip n) = 4" by (simp add: subnet_ok_def)
  with assms(2) show "ip_equal (sn_ip n) x \<longleftrightarrow> sn_ip n = x" by (simp add: ip_equal_def)
  assume "sn_ip n = x"
  with net_contains_value [OF sub assms(2)] show "in_net (net_of n) x"
    by (auto simp: in_net_def net_of_def)
qed

lemma obfuscate_in_networks_None:
  assumes "networks_ok ns" and "length x = 4" and "\<forall>n \<in> set ns. \<not> in_net (net_of n) x"
  shows "obfuscate_in_networks x ns = None"
  using assms
proof (induction ns)
  case Nil
  then show ?case by simp
next
  case (Cons n ns)
  from Cons.prems obtain h where "subnet_state_ok h n" by (auto dest: networks_okD)
  from ip_equal_contains [OF this Cons.prems(2)] Cons show ?case
    by (auto simp: in_net_def net_of_def networks_ok_def)
qed

lemma obfuscate_in_networks_Some:
  assumes "networks_ok (as @ n # bs)" and "length x = 4"
    and "\<forall>m \<in> set as. \<not> in_net (net_of m) x" and "in_net (net_of n) x"
    and "getNextIP (sn_lastIP n) (sn_mask n) = (r, ov)"
  shows "obfuscate_in_networks x (as @ n # bs) =
    (if sn_ip n = x then Some (ip_string x, None, as @ n # bs)
     else Some (ip_string r, Some (ip_string r), as @ n\<lparr>sn_lastIP := r\<rparr> # bs))"
  using assms
proof (induction as)
  case Nil
  then obtain h where "subnet_state_ok h n" by (auto dest: networks_okD)
  from ip_equal_contains(1) [OF this Nil.prems(2)] Nil show ?case
    by (simp add: in_net_def net_of_def)
next
  case (Cons m as)
  from Cons.prems obtain h where m: "subnet_state_ok h m" by (auto dest: networks_okD)
  have "\<not> ip_equal (sn_ip m) x" and "\<not> net_contains (sn_ip m) (sn_mask m) x"
    using ip_equal_contains [OF m Cons.prems(2)] Cons.prems(3) by (auto simp: in_net_def net_of_def)
  moreover have "networks_ok (as @ n # bs)" using Cons.prems(1) by (simp add: networks_ok_def)
  ultimately show ?case using Cons by simp
qed

lemma first_net_split:
  "find (\<lambda>n. in_net n x) (map net_of ns) = Some p \<Longrightarrow>
   \<exists>as n bs. ns = as @ n # bs \<and> net_of n = p \<and> (\<forall>m \<in> set as. \<not> in_net (net_of m) x) \<and> in_net p x"
proof (induction ns)
  case Nil
  then show ?case by simp
next
  case (Cons m ns)
  show ?case
  proof (cases "in_net (net_of m) x")
    case True
    with Cons.prems show ?thesis by (intro exI [of _ "[]"]) auto
  next
    case False
    with Cons.prems Cons.IH obtain as n bs where
      "ns = as @ n # bs" "net_of n = p" "\<forall>m \<in> set as. \<not> in_net (net_of m) x" "in_net p x" by auto
    with False show ?thesis by (intro exI [of _ "m # as"]) auto
  qed
qed

lemma networks_ok_append [simp]:
  "networks_ok (as @ n # bs) \<longleftrightarrow> networks_ok as \<and> networks_ok [n] \<and> networks_ok bs"
  by (auto simp: networks_ok_def)

lemma networks_ok_single: "networks_ok [n] \<longleftrightarrow> (\<exists>h. subnet_state_ok h n)"
  using networks_okD [of "[n]" n] networks_okI [of "[n]"] by auto

text \<open>The three outcomes for an address that is not in the table yet.\<close>

lemma ObfuscateIP_fresh:
  assumes ok: "anonymizer_ok na" and s: "CHR ''/'' \<notin> set s" "parse_ipv4 s = Some x"
    and fresh: "map_get (na_translationTable na) s = None"
  shows "case find (\<lambda>n. in_net n x) (map net_of (na_networks na)) of
      None \<Rightarrow> ObfuscateIP s na = (''0.0.0.0'', na)
    | Some p \<Rightarrow> \<exists>as n bs r ov.
        na_networks na = as @ n # bs \<and> net_of n = p \<and> (\<forall>m \<in> set as. \<not> in_net (net_of m) x) \<and>
        in_net p x \<and> getNextIP (sn_lastIP n) (sn_mask n) = (r, ov) \<and>
        ObfuscateIP s na =
          (if sn_ip n = x then (ip_string x, na)
           else (ip_string r,
             na\<lparr>na_networks := as @ n\<lparr>sn_lastIP := r\<rparr> # bs,
                na_translationTable := map_put s (ip_string r) (na_translationTable na)\<rparr>))"
proof -
  have x4: "length x = 4" using s(2) by (rule parse_ipv4_length)
  have ns: "networks_ok (na_networks na)" using ok by (simp add: anonymizer_ok_def)
  show ?thesis
  proof (cases "find (\<lambda>n. in_net n x) (map net_of (na_networks na))")
    case None
    then have "\<forall>n \<in> set (na_networks na). \<not> in_net (net_of n) x" by (auto simp: find_None_iff)
    from obfuscate_in_networks_None [OF ns x4 this] None s fresh show ?thesis
      by (simp add: ObfuscateIP_def)
  next
    case (Some p)
    from first_net_split [OF this] obtain as n bs where
      split: "na_networks na = as @ n # bs" "net_of n = p" "\<forall>m \<in> set as. \<not> in_net (net_of m) x"
        "in_net p x" by blast
    obtain r ov where r: "getNextIP (sn_lastIP n) (sn_mask n) = (r, ov)" by fastforce
    have "obfuscate_in_networks x (as @ n # bs) =
        (if sn_ip n = x then Some (ip_string x, None, as @ n # bs)
         else Some (ip_string r, Some (ip_string r), as @ n\<lparr>sn_lastIP := r\<rparr> # bs))"
      by (rule obfuscate_in_networks_Some [OF _ x4 split(3) _ r]) (use ns split in auto)
    then have "ObfuscateIP s na =
          (if sn_ip n = x then (ip_string x, na)
           else (ip_string r,
             na\<lparr>na_networks := as @ n\<lparr>sn_lastIP := r\<rparr> # bs,
                na_translationTable := map_put s (ip_string r) (na_translationTable na)\<rparr>))"
      using s fresh by (simp add: ObfuscateIP_def split(1))
    with split r show ?thesis unfolding Some option.case by blast
  qed
qed

lemma map_net_of_update:
  "ns = as @ n # bs \<Longrightarrow> map net_of (as @ n\<lparr>sn_lastIP := r\<rparr> # bs) = map net_of ns"
  by (simp add: net_of_def)

lemma ip_string_zero: "parse_ipv4 ''0.0.0.0'' = Some [0, 0, 0, 0]"
  by (simp add: parse_ipv4_def parse_octet_def is_digit_def digits_val_def digit_val_def)

lemma ObfuscateIP_spec:
  assumes ok: "anonymizer_ok na" and s: "CHR ''/'' \<notin> set s" "parse_ipv4 s = Some x"
    and res: "ObfuscateIP s na = (t, na')"
  shows "anonymizer_ok na' \<and> map net_of (na_networks na') = map net_of (na_networks na) \<and>
    (\<exists>y. parse_ipv4 t = Some y \<and> same_net (map net_of (na_networks na)) x y)"
proof (cases "map_get (na_translationTable na) s")
  case (Some t')
  with ok have "table_entry_ok (map net_of (na_networks na)) (s, t')"
    by (auto simp: anonymizer_ok_def list_all_iff dest: map_of_SomeD)
  with Some s res ok show ?thesis
    by (auto simp: ObfuscateIP_def table_entry_ok_def same_net_def split: option.splits)
next
  case fresh: None
  note F = ObfuscateIP_fresh [OF ok s fresh]
  show ?thesis
  proof (cases "find (\<lambda>n. in_net n x) (map net_of (na_networks na))")
    case None
    with F res ok ip_string_zero show ?thesis by (simp add: same_net_def)
  next
    case (Some p)
    with F obtain as n bs r ov where
      split: "na_networks na = as @ n # bs" "net_of n = p" "in_net p x"
      and r: "getNextIP (sn_lastIP n) (sn_mask n) = (r, ov)"
      and eq: "ObfuscateIP s na = (if sn_ip n = x then (ip_string x, na)
         else (ip_string r, na\<lparr>na_networks := as @ n\<lparr>sn_lastIP := r\<rparr> # bs,
                na_translationTable := map_put s (ip_string r) (na_translationTable na)\<rparr>))"
      by auto
    show ?thesis
    proof (cases "sn_ip n = x")
      case True
      with eq res ok Some split parse_ip_string [OF parse_ipv4_length [OF s(2)]] show ?thesis
        by (simp add: same_net_def)
    next
      case False
      from ok split(1) obtain h where "subnet_state_ok h n"
        by (auto simp: anonymizer_ok_def networks_ok_single)
      from next_in_subnet [OF this r] have r4: "length r = 4" and rin: "in_net p r"
        and okn: "subnet_state_ok h (n\<lparr>sn_lastIP := r\<rparr>)" by (auto simp: split(2))
      have entry: "table_entry_ok (map net_of (na_networks na)) (s, ip_string r)"
        using Some s(2) rin False split(2)
        by (auto simp: table_entry_ok_def net_of_def parse_ip_string [OF r4])
      have na': "na' = na\<lparr>na_networks := as @ n\<lparr>sn_lastIP := r\<rparr> # bs,
          na_translationTable := map_put s (ip_string r) (na_translationTable na)\<rparr>" and "t = ip_string r"
        using eq res False by simp_all
      have nets: "map net_of (na_networks na') = map net_of (na_networks na)"
        using map_net_of_update [OF split(1)] na' by simp
      have "anonymizer_ok na'"
        using ok okn entry set_map_put_subset [of s "ip_string r" "na_translationTable na"] nets
        unfolding anonymizer_ok_def na' by (auto simp: split(1) networks_ok_single list_all_iff)
      with nets Some rin parse_ip_string [OF r4] \<open>t = ip_string r\<close> show ?thesis
        by (simp add: same_net_def)
    qed
  qed
qed

lemma ObfuscateIP_ok:
  assumes "anonymizer_ok na"
  shows "anonymizer_ok (snd (ObfuscateIP s na)) \<and>
    map net_of (na_networks (snd (ObfuscateIP s na))) = map net_of (na_networks na)"
proof (cases "CHR ''/'' \<notin> set s \<and> parse_ipv4 s \<noteq> None")
  case True
  then obtain x where "CHR ''/'' \<notin> set s" and "parse_ipv4 s = Some x" by auto
  from ObfuscateIP_spec [OF assms this, of "fst (ObfuscateIP s na)" "snd (ObfuscateIP s na)"]
  show ?thesis by simp
next
  case False
  with assms show ?thesis by (auto simp: ObfuscateIP_def split: option.splits)
qed

lemma replace_all_func_inv:
  assumes "\<And>m st. P st \<Longrightarrow> P (snd (repl m st))" and "P st"
  shows "P (snd (replace_all_func re repl s st))"
  using assms(2)
proof (induction "length s" arbitrary: s st rule: less_induct)
  case less
  show ?case
  proof (cases s)
    case Nil
    with less.prems show ?thesis by (simp add: replace_all_func.simps)
  next
    case (Cons x xs)
    show ?thesis
    proof (cases "regex_match re s")
      case None
      with Cons less show ?thesis
        by (subst replace_all_func.simps) (simp add: case_prod_beta)
    next
      case (Some p)
      obtain m r where p: "p = (m, r)" by (cases p)
      with Some have "length r < length s" by (auto dest: regex_match_shorter)
      from less.hyps [OF this assms(1) [OF less.prems]] Cons Some p show ?thesis
        by (subst replace_all_func.simps) (simp add: case_prod_beta)
    qed
  qed
qed

section \<open>Different addresses of a network stay different\<close>

text \<open>The calls of \<open>ObfuscateIP\<close> for a sequence of matches.\<close>

fun obfuscate_all :: "string list \<Rightarrow> NetworkAnonymizer \<Rightarrow> string list \<times> NetworkAnonymizer" where
  "obfuscate_all [] na = ([], na)"
| "obfuscate_all (s # ss) na =
     (let (t, na) = ObfuscateIP s na; (ts, na) = obfuscate_all ss na in (t # ts, na))"

text \<open>\<open>s\<close> is an address, but not the network address, of the first network of its kind after \<open>as\<close>.\<close>

definition addr_of_net :: "subnetInformation list \<Rightarrow> subnetInformation \<Rightarrow> string \<Rightarrow> bool" where
  "addr_of_net as n s =
     (CHR ''/'' \<notin> set s \<and>
      (case parse_ipv4 s of
         None \<Rightarrow> False
       | Some x \<Rightarrow> in_net (net_of n) x \<and> x \<noteq> sn_ip n \<and> list_all (\<lambda>m. \<not> in_net (net_of m) x) as))"

lemma ObfuscateIP_next:
  assumes ok: "networks_ok (na_networks na)" and split: "na_networks na = as @ n # bs"
    and sub: "subnet_state_ok h n" and addr: "addr_of_net as n s"
    and fresh: "map_get (na_translationTable na) s = None"
    and room: "bytes_int (sn_lastIP n) + 1 < bytes_int (sn_ip n) + 2 ^ h"
  shows "\<exists>r. length r = 4 \<and> bytes_int r = bytes_int (sn_lastIP n) + 1 \<and>
    ObfuscateIP s na = (ip_string r, na\<lparr>na_networks := as @ n\<lparr>sn_lastIP := r\<rparr> # bs,
       na_translationTable := map_put s (ip_string r) (na_translationTable na)\<rparr>)"
proof -
  from addr obtain x where s: "CHR ''/'' \<notin> set s" "parse_ipv4 s = Some x"
    and x: "in_net (net_of n) x" "x \<noteq> sn_ip n" "\<forall>m \<in> set as. \<not> in_net (net_of m) x"
    by (auto simp: addr_of_net_def list_all_iff split: option.splits)
  define k where "k = bytes_int (sn_lastIP n) - bytes_int (sn_ip n)"
  have "subnet_ok h (sn_ip n) (sn_mask n)" "length (sn_lastIP n) = 4"
    "bytes_int (sn_lastIP n) = bytes_int (sn_ip n) + k" "0 \<le> k" "k + 1 < 2 ^ h"
    using sub room by (auto simp: subnet_state_ok_def k_def)
  from getNextIP_within [OF this] obtain r where r: "getNextIP (sn_lastIP n) (sn_mask n) = (r, False)"
    "length r = 4" "bytes_int r = bytes_int (sn_lastIP n) + 1" by (auto simp: k_def)
  have "obfuscate_in_networks x (as @ n # bs) =
      Some (ip_string r, Some (ip_string r), as @ n\<lparr>sn_lastIP := r\<rparr> # bs)"
    using obfuscate_in_networks_Some [OF _ parse_ipv4_length [OF s(2)] x(3,1) r(1)] ok x(2)
    by (auto simp: split)
  then have "ObfuscateIP s na = (ip_string r, na\<lparr>na_networks := as @ n\<lparr>sn_lastIP := r\<rparr> # bs,
       na_translationTable := map_put s (ip_string r) (na_translationTable na)\<rparr>)"
    using s fresh by (simp add: ObfuscateIP_def split)
  with r show ?thesis by blast
qed

lemma obfuscate_all_values:
  assumes "networks_ok (na_networks na)" and "na_networks na = as @ n # bs"
    and "subnet_state_ok h n" and "list_all (addr_of_net as n) ss" and "distinct ss"
    and "\<forall>s \<in> set ss. map_get (na_translationTable na) s = None"
    and "bytes_int (sn_lastIP n) + int (length ss) < bytes_int (sn_ip n) + 2 ^ h"
  shows "map (\<lambda>t. map_option bytes_int (parse_ipv4 t)) (fst (obfuscate_all ss na)) =
    map (\<lambda>k. Some (bytes_int (sn_lastIP n) + int k)) [1..<Suc (length ss)]"
  using assms
proof (induction ss arbitrary: na n)
  case Nil
  then show ?case by simp
next
  case (Cons s ss)
  from Cons.prems ObfuscateIP_next [OF Cons.prems(1,2,3), of s] obtain r where
    r: "length r = 4" "bytes_int r = bytes_int (sn_lastIP n) + 1" and
    o: "ObfuscateIP s na = (ip_string r, na\<lparr>na_networks := as @ n\<lparr>sn_lastIP := r\<rparr> # bs,
       na_translationTable := map_put s (ip_string r) (na_translationTable na)\<rparr>)"
    by auto
  let ?n = "n\<lparr>sn_lastIP := r\<rparr>"
  let ?na = "na\<lparr>na_networks := as @ ?n # bs,
       na_translationTable := map_put s (ip_string r) (na_translationTable na)\<rparr>"
  have sub: "subnet_state_ok h ?n"
    using Cons.prems(3,7) r by (auto simp: subnet_state_ok_def)
  have addr: "addr_of_net as ?n = addr_of_net as n"
  proof -
    have "net_of ?n = net_of n" by (simp add: net_of_def)
    then show ?thesis by (auto simp: addr_of_net_def fun_eq_iff split: option.splits)
  qed
  have "map (\<lambda>t. map_option bytes_int (parse_ipv4 t)) (fst (obfuscate_all ss ?na)) =
      map (\<lambda>k. Some (bytes_int (sn_lastIP ?n) + int k)) [1..<Suc (length ss)]"
    by (rule Cons.IH [OF _ _ sub])
      (use Cons.prems sub r in \<open>auto simp: addr networks_ok_single\<close>)
  moreover have "[1..<Suc (length (s # ss))] = 1 # map Suc [1..<Suc (length ss)]"
    by (simp add: map_Suc_upt upt_conv_Cons del: upt_Suc)
  ultimately show ?case
    using r by (simp add: o case_prod_beta parse_ip_string [OF r(1)] comp_def del: upt_Suc)
qed

section \<open>The same address is always translated alike\<close>

lemma ObfuscateIP_table_mono:
  "map_get (na_translationTable na) s = Some t \<Longrightarrow>
   map_get (na_translationTable (snd (ObfuscateIP s' na))) s = Some t"
  by (auto simp: ObfuscateIP_def split: option.splits prod.splits)

lemma obfuscate_all_inv:
  assumes "\<And>na s. P na \<Longrightarrow> P (snd (ObfuscateIP s na))" and "P na"
  shows "P (snd (obfuscate_all ss na))"
  using assms(2) by (induction ss arbitrary: na) (auto simp: case_prod_beta assms(1))

text \<open>An address outside every network, or a network address, never enters the table.\<close>

lemma ObfuscateIP_untabled:
  assumes ok: "anonymizer_ok na" and s: "CHR ''/'' \<notin> set s" "parse_ipv4 s = Some x"
    and out: "case find (\<lambda>n. in_net n x) (map net_of (na_networks na)) of None \<Rightarrow> True | Some p \<Rightarrow> fst p = x"
  shows "ObfuscateIP s na =
    (case find (\<lambda>n. in_net n x) (map net_of (na_networks na)) of
       None \<Rightarrow> (''0.0.0.0'', na) | Some p \<Rightarrow> (ip_string x, na))"
proof -
  have fresh: "map_get (na_translationTable na) s = None"
  proof (rule ccontr)
    assume "map_get (na_translationTable na) s \<noteq> None"
    then obtain t where "(s, t) \<in> set (na_translationTable na)" by (auto dest: map_of_SomeD)
    with ok have "table_entry_ok (map net_of (na_networks na)) (s, t)"
      by (auto simp: anonymizer_ok_def list_all_iff)
    with s out show False by (auto simp: table_entry_ok_def split: option.splits)
  qed
  show ?thesis
    using ObfuscateIP_fresh [OF ok s fresh] out by (auto simp: net_of_def split: option.splits)
qed

lemma ObfuscateIP_tabled:
  assumes ok: "anonymizer_ok na" and s: "CHR ''/'' \<notin> set s" "parse_ipv4 s = Some x"
    and net: "find (\<lambda>n. in_net n x) (map net_of (na_networks na)) = Some p" "fst p \<noteq> x"
  shows "map_get (na_translationTable (snd (ObfuscateIP s na))) s = Some (fst (ObfuscateIP s na))"
proof (cases "map_get (na_translationTable na) s")
  case (Some t)
  with s show ?thesis by (simp add: ObfuscateIP_def)
next
  case None
  from ObfuscateIP_fresh [OF ok s None] net show ?thesis by (auto simp: net_of_def)
qed

lemma ObfuscateIP_consistent:
  assumes ok: "anonymizer_ok na" and s: "CHR ''/'' \<notin> set s" "parse_ipv4 s = Some x"
    and na'_def: "na' = snd (obfuscate_all ss (snd (ObfuscateIP s na)))"
  shows "fst (ObfuscateIP s na') = fst (ObfuscateIP s na)"
proof -
  let ?find = "\<lambda>na. find (\<lambda>n. in_net n x) (map net_of (na_networks na))"
  have ok': "anonymizer_ok na' \<and> map net_of (na_networks na') = map net_of (na_networks na)"
    unfolding na'_def
    by (rule obfuscate_all_inv [where P = "\<lambda>a. anonymizer_ok a \<and> map net_of (na_networks a) = map net_of (na_networks na)"])
      (use ObfuscateIP_ok ok in auto)
  show ?thesis
  proof (cases "case ?find na of None \<Rightarrow> True | Some p \<Rightarrow> fst p = x")
    case True
    with ok' ObfuscateIP_untabled [OF ok s] ObfuscateIP_untabled [OF conjunct1 [OF ok'] s]
    show ?thesis by (auto split: option.splits)
  next
    case False
    then obtain p where "?find na = Some p" "fst p \<noteq> x" by (auto split: option.splits)
    from ObfuscateIP_tabled [OF ok s this]
    have "map_get (na_translationTable na') s = Some (fst (ObfuscateIP s na))"
      unfolding na'_def
      by (rule obfuscate_all_inv [where P = "\<lambda>a. map_get (na_translationTable a) s = Some (fst (ObfuscateIP s na))", rotated])
        (rule ObfuscateIP_table_mono)
    with s show ?thesis by (simp add: ObfuscateIP_def [of s na'])
  qed
qed

section \<open>Sensitive values\<close>

text \<open>
  A value is hidden by a placeholder when it cannot be completed from the placeholder's text: the
  value has no angle bracket, the placeholder starts and ends with one, and the value does not occur
  in the placeholder.
\<close>

definition hides :: "string \<Rightarrow> string \<Rightarrow> bool" where
  "hides value placeholder =
     (value \<noteq> [] \<and> CHR ''<'' \<notin> set value \<and> CHR ''>'' \<notin> set value \<and>
      placeholder \<noteq> [] \<and> hd placeholder = CHR ''<'' \<and> last placeholder = CHR ''>'' \<and>
      \<not> contains_str value placeholder)"

lemma prefix_sep: "c \<notin> set v \<Longrightarrow> prefix v (s @ c # t) \<longleftrightarrow> prefix v s"
proof (induction v arbitrary: s)
  case Nil
  then show ?case by simp
next
  case (Cons x v)
  then show ?case by (cases s) auto
qed

text \<open>An occurrence of \<open>v\<close> cannot cross a character that \<open>v\<close> does not have.\<close>

lemma contains_str_sep:
  assumes "c \<notin> set v" and "v \<noteq> []"
  shows "contains_str v (s @ c # t) \<longleftrightarrow> contains_str v s \<or> contains_str v t"
proof (induction s)
  case Nil
  with assms show ?case by (cases v) auto
next
  case (Cons x s)
  with prefix_sep [OF assms(1), of "x # s" t] show ?case by simp
qed

lemma hides_shape: "hides v p \<Longrightarrow> \<exists>q. p = CHR ''<'' # q @ ''>''"
proof -
  assume h: "hides v p"
  then obtain l where l: "p = CHR ''<'' # l" by (cases p) (auto simp: hides_def)
  with h have "l \<noteq> []" and "last l = CHR ''>''" by (auto simp: hides_def split: if_splits)
  then have "l = butlast l @ ''>''" by (metis append_butlast_last_id)
  with l show ?thesis by blast
qed

lemma contains_append:
  "contains_str v b \<Longrightarrow> contains_str v (a @ b)"
  "contains_str v a \<Longrightarrow> contains_str v (a @ b)"
proof -
  show "contains_str v b \<Longrightarrow> contains_str v (a @ b)" by (induction a) auto
  show "contains_str v a \<Longrightarrow> contains_str v (a @ b)"
  proof (induction a)
    case Nil
    then show ?case by (cases b) auto
  next
    case (Cons x a)
    then show ?case using prefix_prefix [of v "x # a" b] by auto
  qed
qed

lemma contains_str_drop: "contains_str v s \<longleftrightarrow> (\<exists>i \<le> length s. prefix v (drop i s))"
proof (induction s)
  case Nil
  then show ?case by simp
next
  case (Cons x s)
  show ?case (is "?l = ?r")
  proof
    assume ?l
    then consider "prefix v (x # s)" | "contains_str v s" by auto
    then show ?r
    proof cases
      case 1
      then show ?thesis by (intro exI [of _ 0]) simp
    next
      case 2
      with Cons obtain i where "i \<le> length s" "prefix v (drop i s)" by auto
      then show ?thesis by (intro exI [of _ "Suc i"]) simp
    qed
  next
    assume ?r
    then obtain i where i: "i \<le> length (x # s)" "prefix v (drop i (x # s))" by auto
    with Cons show ?l by (cases i) auto
  qed
qed

lemma contains_placeholder:
  assumes p: "p = CHR ''<'' # q @ ''>''" and "CHR ''<'' \<notin> set v" "CHR ''>'' \<notin> set v" "v \<noteq> []"
    and "\<not> contains_str v p"
  shows "contains_str v (s @ p @ t) \<longleftrightarrow> contains_str v s \<or> contains_str v t"
proof -
  have "contains_str v (s @ p @ t) \<longleftrightarrow> contains_str v s \<or> contains_str v (q @ CHR ''>'' # t)"
    using contains_str_sep [OF assms(2,4)] by (simp add: p)
  moreover have "contains_str v (q @ CHR ''>'' # t) \<longleftrightarrow> contains_str v q \<or> contains_str v t"
    by (rule contains_str_sep [OF assms(3,4)])
  moreover have "\<not> contains_str v q"
    using assms(5) contains_str_sep [OF assms(3,4), of q "[]"] assms(4) by (simp add: p)
  ultimately show ?thesis by blast
qed

text \<open>
  Replacing \<open>w\<close> by a placeholder gives no new occurrence of \<open>v\<close>; the text \<open>u\<close> is what has been copied
  before.
\<close>

lemma replace_all_no_new:
  assumes p: "p = CHR ''<'' # q @ ''>''" and v: "CHR ''<'' \<notin> set v" "CHR ''>'' \<notin> set v" "v \<noteq> []"
    and np: "\<not> contains_str v p" and w: "w \<noteq> []"
  shows "\<not> contains_str v (u @ s) \<Longrightarrow> \<not> contains_str v (u @ replace_all w p s)"
proof (induction "length s" arbitrary: s u rule: less_induct)
  case less
  show ?case
  proof (cases s)
    case Nil
    with w less.prems show ?thesis by (simp add: replace_all.simps)
  next
    case (Cons x xs)
    show ?thesis
    proof (cases "prefix w s")
      case False
      have "\<not> contains_str v ((u @ [x]) @ replace_all w p xs)"
        by (rule less.hyps) (use Cons less.prems in auto)
      moreover have "replace_all w p s = x # replace_all w p xs"
        using replace_all_miss [of w x xs] False Cons w by simp
      ultimately show ?thesis by simp
    next
      case True
      then obtain r where r: "s = w @ r" by (auto simp: prefix_def)
      have sub: "\<not> contains_str v u" "\<not> contains_str v r"
        using less.prems contains_append(2) [of v u s] contains_append(1) [of v r "u @ w"]
        by (auto simp: r)
      have "\<not> contains_str v ([] @ replace_all w p r)"
        by (rule less.hyps) (use r w sub in auto)
      moreover have "replace_all w p s = p @ replace_all w p r"
        using replace_all_hit [of w p r] w r by simp
      ultimately show ?thesis
        using contains_placeholder [OF p v np] sub by simp
    qed
  qed
qed

lemma replace_all_removes:
  assumes p: "p = CHR ''<'' # q @ ''>''" and v: "CHR ''<'' \<notin> set v" "CHR ''>'' \<notin> set v" "v \<noteq> []"
    and np: "\<not> contains_str v p"
  shows "(\<And>i. i < length u \<Longrightarrow> \<not> prefix v (drop i (u @ s))) \<Longrightarrow>
    \<not> contains_str v (u @ replace_all v p s)"
proof (induction "length s" arbitrary: s u rule: less_induct)
  case less
  show ?case
  proof (cases s)
    case Nil
    have "\<not> prefix v (drop i u)" if "i \<le> length u" for i
      using less.prems [of i] v(3) Nil that by (cases "i < length u") auto
    with v(3) Nil show ?thesis by (auto simp: replace_all.simps contains_str_drop)
  next
    case (Cons x xs)
    show ?thesis
    proof (cases "prefix v s")
      case False
      have "\<not> contains_str v ((u @ [x]) @ replace_all v p xs)"
      proof (rule less.hyps)
        show "length xs < length s" using Cons by simp
        fix i
        assume "i < length (u @ [x])"
        then show "\<not> prefix v (drop i ((u @ [x]) @ xs))"
          using less.prems [of i] False Cons by (cases "i < length u") (auto simp: less_Suc_eq)
      qed
      moreover have "replace_all v p s = x # replace_all v p xs"
        using replace_all_miss [of v x xs] False Cons v(3) by simp
      ultimately show ?thesis by simp
    next
      case True
      then obtain r where r: "s = v @ r" by (auto simp: prefix_def)
      have "\<not> contains_str v ([] @ replace_all v p r)"
        by (rule less.hyps) (use r v(3) in auto)
      moreover have "\<not> contains_str v u"
      proof
        assume "contains_str v u"
        then obtain i where i: "i \<le> length u" "prefix v (drop i u)" by (auto simp: contains_str_drop)
        with v(3) have "i < length u" by (cases "i = length u") auto
        with i less.prems [of i] show False by (auto simp: prefix_def)
      qed
      moreover have "replace_all v p s = p @ replace_all v p r"
        using replace_all_hit [of v p r] v(3) r by simp
      ultimately show ?thesis using contains_placeholder [OF p v np] by simp
    qed
  qed
qed

text \<open>
  After the loop over the sensitive values none of them is left, in whatever order the map is
  iterated, when every value is hidden by every placeholder in use.
\<close>

lemma replace_sensitive_removes:
  assumes "\<forall>v \<in> fst ` set vals. \<forall>q \<in> snd ` set vals. hides v q"
    and "v \<in> fst ` set vals \<or> (\<not> contains_str v s \<and> (\<forall>q \<in> snd ` set vals. hides v q))"
  shows "\<not> contains_str v (replace_sensitive vals s)"
  using assms
proof (induction vals arbitrary: s)
  case Nil
  then show ?case by (simp add: replace_sensitive_def)
next
  case (Cons e vals)
  obtain w p where e: "e = (w, p)" by (cases e)
  have "\<forall>q \<in> snd ` set (e # vals). hides v q" using Cons.prems by blast
  then have hv: "hides v p" and all: "\<forall>q \<in> snd ` set vals. hides v q" unfolding e by auto
  have hw: "hides w p" using Cons.prems(1) unfolding e by simp
  from hides_shape [OF hv] obtain q where p: "p = CHR ''<'' # q @ ''>''" by blast
  have step: "replace_sensitive (e # vals) s = replace_sensitive vals (replace_all w p s)"
    by (simp add: replace_sensitive_def e)
  have "v \<in> fst ` set vals \<or> \<not> contains_str v (replace_all w p s)"
  proof (cases "v \<in> fst ` set vals \<or> v = w")
    case True
    then show ?thesis
      using replace_all_removes [OF p, of v "[]" s] hv by (auto simp: hides_def)
  next
    case False
    with Cons.prems(2) e have "\<not> contains_str v ([] @ s)" by auto
    from replace_all_no_new [OF p _ _ _ _ _ this, of w] hv hw show ?thesis
      by (simp add: hides_def)
  qed
  moreover have "\<forall>v \<in> fst ` set vals. \<forall>q \<in> snd ` set vals. hides v q"
    using Cons.prems(1) by simp
  ultimately show ?case using all Cons.IH [of "replace_all w p s"] unfolding step by blast
qed

section \<open>Properties\<close>

definition example_networks :: "subnetInformation list" where
  "example_networks =
     [\<lparr>sn_ip = [10, 128, 0, 0], sn_mask = [255, 252, 0, 0], sn_lastIP = [10, 128, 0, 0]\<rparr>,
      \<lparr>sn_ip = [172, 30, 0, 0], sn_mask = [255, 255, 0, 0], sn_lastIP = [172, 30, 0, 9]\<rparr>]"

definition example_anonymizer :: NetworkAnonymizer where
  "example_anonymizer =
     \<lparr>na_sensitiveValues = [(''example.com'', ''<CLUSTER_BASE_DOMAIN>'')],
      na_networks = example_networks, na_translationTable = [], na_dataPolicy = [],
      na_runningInCluster = True\<rparr>"

lemma example_anonymizer_ok: "anonymizer_ok example_anonymizer"
  by code_simp

text \<open>
  C2: Obfuscation preserves the subnet.  For an address in dotted notation, \<open>ObfuscateIP\<close> returns an
  address of the first cluster network that holds it, and 0.0.0.0 when no network holds it; the
  networks and the translation table stay well formed, and the networks themselves do not change.
\<close>

theorem obfuscate_keeps_subnet:
  assumes "anonymizer_ok na" and "CHR ''/'' \<notin> set s" and "parse_ipv4 s = Some x"
    and "ObfuscateIP s na = (t, na')"
  shows "anonymizer_ok na' \<and> map net_of (na_networks na') = map net_of (na_networks na) \<and>
    (\<exists>y. parse_ipv4 t = Some y \<and> same_net (map net_of (na_networks na)) x y)"
  using assms by (rule ObfuscateIP_spec)

theorem obfuscate_keeps_subnet_witness:
  "\<exists>y. parse_ipv4 (fst (ObfuscateIP ''10.129.0.7'' example_anonymizer)) = Some y \<and>
    same_net (map net_of example_networks) [10, 129, 0, 7] y"
proof -
  have "parse_ipv4 ''10.129.0.7'' = Some [10, 129, 0, 7]" by code_simp
  from obfuscate_keeps_subnet [OF example_anonymizer_ok _ this prod.collapse [symmetric]]
  show ?thesis by (simp add: example_anonymizer_def)
qed

text \<open>
  C6: The translation is consistent within a gathering.  Whatever addresses are obfuscated in
  between, an address is translated to the same text as the first time.
\<close>

theorem obfuscate_consistent:
  assumes "anonymizer_ok na" and "CHR ''/'' \<notin> set s" and "parse_ipv4 s = Some x"
  shows "fst (ObfuscateIP s (snd (obfuscate_all ss (snd (ObfuscateIP s na))))) = fst (ObfuscateIP s na)"
  using ObfuscateIP_consistent [OF assms refl] .

theorem obfuscate_consistent_witness:
  "fst (ObfuscateIP ''10.129.0.7''
     (snd (obfuscate_all [''10.129.0.8'', ''172.30.4.4''] (snd (ObfuscateIP ''10.129.0.7'' example_anonymizer))))) =
   fst (ObfuscateIP ''10.129.0.7'' example_anonymizer)"
proof -
  have "parse_ipv4 ''10.129.0.7'' = Some [10, 129, 0, 7]" by code_simp
  show ?thesis
    by (rule obfuscate_consistent [OF example_anonymizer_ok _ \<open>parse_ipv4 _ = _\<close>]) simp
qed

text \<open>
  Different addresses stay different.  Addresses of one network that are not in the translation
  table yet, and are not the address of the network, are translated to the successive addresses after
  the last one handed out, as long as the network has addresses left.
\<close>

lemma obfuscate_successive:
  assumes "networks_ok (na_networks na)" and "na_networks na = as @ n # bs"
    and "subnet_state_ok h n" and "list_all (addr_of_net as n) ss" and "distinct ss"
    and "\<forall>s \<in> set ss. map_get (na_translationTable na) s = None"
    and "bytes_int (sn_lastIP n) + int (length ss) < bytes_int (sn_ip n) + 2 ^ h"
  shows "map (\<lambda>t. map_option bytes_int (parse_ipv4 t)) (fst (obfuscate_all ss na)) =
    map (\<lambda>k. Some (bytes_int (sn_lastIP n) + int k)) [1..<Suc (length ss)]"
  using assms by (rule obfuscate_all_values)

text \<open>
  No sensitive value is left in a record name.  When every value is hidden by every placeholder
  (it has no angle bracket and does not occur in the placeholder), the name that \<open>AnonymizeData\<close>
  returns contains none of the sensitive values, whatever the order in which the map is iterated.
\<close>

lemma anonymized_name_clean:
  assumes "\<forall>v \<in> fst ` set (na_sensitiveValues na). \<forall>q \<in> snd ` set (na_sensitiveValues na). hides v q"
    and "v \<in> fst ` set (na_sensitiveValues na)"
  shows "\<not> contains_str v (mr_Name (snd (anonymize_record na m)))"
  using replace_sensitive_removes [of "na_sensitiveValues na" v "mr_Name m"] assms
  by (simp add: anonymize_record_def case_prod_beta Let_def)

text \<open>
  Obfuscation is on exactly when the configuration lists networking or the data policy asks for
  it: an anonymiser built with \<open>WithDataPolicies\<close> is enabled iff one of the two does.
\<close>

lemma IsEnabled_iff:
  "IsEnabled conf (WithDataPolicies policies na) \<longleftrightarrow>
    Networking \<in> set (dr_Obfuscation (ic_DataReporting conf)) \<or>
    DataPolicyOptionObfuscateNetworking \<in> set policies"
  by (auto simp: IsEnabled_def WithDataPolicies_def obfuscateNetworking_def list_ex_iff
      DataPolicyOptionObfuscateNetworking_def)

end
