(* ===== verification/Recorder.thy ===== *)
theory Recorder
  imports Anonymizer
begin

text \<open>
  pkg/recorder/recorder.go and interface.go: the in-memory recorder that collects the records of one
  gathering, enforces the archive size limit and hands the records to a driver.

  The anonymiser is an argument \<open>anon\<close>: a function from its state and a record to its new state and
  the outcome, or \<open>None\<close> when it panics; the driver is an argument \<open>save\<close>.  Both are interfaces of
  the code and locales here.  Every operation holds the lock of the recorder, so it is one step.
\<close>

section \<open>State and operations\<close>

record 'an Recorder =
  r_interval :: duration
  r_maxAge :: duration
  r_size :: int
  r_maxArchiveSize :: int
  r_records :: "(string, MemoryRecord) gomap"
  r_recordedFingerprints :: "(string, string) gomap"
  r_anonymizer :: "'an option"

definition MaxArchiveSize :: int where "MaxArchiveSize = 24 * 1024 * 1024"

definition maxFilenameLength :: nat where "maxFilenameLength = 255"

definition New :: "duration \<Rightarrow> 'an option \<Rightarrow> 'an Recorder" where
  "New interval anonymizer =
     \<lparr>r_interval = interval, r_maxAge = interval * 6 * 24, r_size = 0,
      r_maxArchiveSize = MaxArchiveSize, r_records = [], r_recordedFingerprints = [],
      r_anonymizer = anonymizer\<rparr>"

text \<open>The slice expression panics when the extension alone is longer than the limit: \<open>None\<close>.\<close>

definition ensureSafeFilenameLength :: "string \<Rightarrow> string option" where
  "ensureSafeFilenameLength fullPath =
     (let filename = path_base fullPath
      in if length filename \<le> maxFilenameLength then Some fullPath
         else let extension = path_ext filename;
                  nameWithoutExt = trim_suffix filename extension
              in if maxFilenameLength < length extension then None
                 else let trimmedFilename = take (maxFilenameLength - length extension) nameWithoutExt
                      in Some (path_join (path_dir fullPath) (trimmedFilename @ extension)))"

type_synonym 'an anonymizer = "'an \<Rightarrow> MemoryRecord \<Rightarrow> ('an \<times> MemoryRecord result) option"

definition exceeds_error :: "string \<Rightarrow> int \<Rightarrow> int \<Rightarrow> go_error" where
  "exceeds_error name sz limit =
     Errorf (''record '' @ name @ ''(size='' @ itoa sz @ '') exceeds the archive size limit '' @
       itoa limit @ '' and will not be included in the archive'')"

definition overwrite_error :: "string \<Rightarrow> string \<Rightarrow> string \<Rightarrow> go_error" where
  "overwrite_error name old_fp new_fp =
     Errorf (''the record with the same name \"'' @ name @
       ''\" was already recorded and had the fingerprint \"'' @ old_fp @
       ''\", overwriting with the record having fingerprint \"'' @ new_fp @ ''\"'')"

definition fingerprint_warning :: "string \<Rightarrow> string \<Rightarrow> string \<Rightarrow> go_error" where
  "fingerprint_warning fp old_name new_name =
     WarningErr (Errorf (''the record with the same fingerprint \"'' @ fp @
       ''\" was already recorded at path \"'' @ old_name @
       ''\", recording another one with a different path \"'' @ new_name @ ''\"''))"

text \<open>The part of \<open>Record\<close> after the anonymisation.\<close>

definition store_record ::
  "bool \<Rightarrow> string \<Rightarrow> int \<Rightarrow> string \<Rightarrow> MemoryRecord \<Rightarrow> 'an Recorder \<Rightarrow> 'an Recorder \<times> go_error list" where
  "store_record alwaysStored recordName recordSize fingerprint memoryRecord r =
     (if r_size r + recordSize > r_maxArchiveSize r \<and> \<not> alwaysStored
      then (r, [exceeds_error recordName recordSize (r_maxArchiveSize r)])
      else
        let name = mr_Name memoryRecord;
            (errs, total) =
              (case map_get (r_records r) name of
                 Some existing \<Rightarrow>
                   ([overwrite_error name (mr_Fingerprint existing) (mr_Fingerprint memoryRecord)],
                    r_size r - data_len (mr_Data existing))
               | None \<Rightarrow> ([], r_size r));
            records = map_put name memoryRecord (r_records r);
            warnings =
              (case map_get (r_recordedFingerprints r) fingerprint of
                 Some existingPath \<Rightarrow>
                   [fingerprint_warning fingerprint
                      (case map_get records existingPath of
                         Some existing \<Rightarrow> mr_Name existing | None \<Rightarrow> ''unable to find the record'')
                      name]
               | None \<Rightarrow> [])
        in (r\<lparr>r_size := total + recordSize, r_records := records,
              r_recordedFingerprints := map_put fingerprint recordName (r_recordedFingerprints r)\<rparr>,
            errs @ warnings))"

definition Recorder_Record ::
  "'an anonymizer \<Rightarrow> (bytes \<Rightarrow> string) \<Rightarrow> time \<Rightarrow> Record \<Rightarrow> 'an Recorder \<Rightarrow>
   ('an Recorder \<times> go_error list) option" where
  "Recorder_Record anon sha256 now rec r =
     (case rec_Item rec of
        None \<Rightarrow>
          Some (r, [Errorf (''empty \"'' @ rec_Name rec @ ''\" record data. Nothing will be recorded'')])
      | Some item \<Rightarrow>
          (case Record_Marshal sha256 item of
             Inl e \<Rightarrow> Some (r, [e])
           | Inr (data, fingerprint) \<Rightarrow>
               (case ensureSafeFilenameLength (GetFilename (rec_Name rec) item) of
                  None \<Rightarrow> None
                | Some recordName \<Rightarrow>
                    let at = (if rec_Captured rec = 0 then now else rec_Captured rec);
                        recordSize = data_len data;
                        memoryRecord = \<lparr>mr_Name = recordName, mr_At = at, mr_Data = data,
                                        mr_Fingerprint = fingerprint\<rparr>;
                        store = store_record (rec_AlwaysStored rec) recordName recordSize fingerprint
                    in case r_anonymizer r of
                         None \<Rightarrow> Some (store memoryRecord r)
                       | Some an \<Rightarrow>
                           (case anon an memoryRecord of
                              None \<Rightarrow> None
                            | Some (an, Inl e) \<Rightarrow> Some (r\<lparr>r_anonymizer := Some an\<rparr>, [e])
                            | Some (an, Inr m) \<Rightarrow> Some (store m (r\<lparr>r_anonymizer := Some an\<rparr>))))))"

definition copy_records :: "'an Recorder \<Rightarrow> MemoryRecord list" where
  "copy_records r = filter (\<lambda>m. mr_Data m \<noteq> None) (map snd (r_records r))"

definition clear_recorder :: "'an Recorder \<Rightarrow> 'an Recorder" where
  "clear_recorder r = r\<lparr>r_records := [], r_recordedFingerprints := [], r_size := 0\<rparr>"

definition storeTranslationTables :: "('an \<Rightarrow> 'an) \<Rightarrow> 'an Recorder \<Rightarrow> 'an Recorder" where
  "storeTranslationTables store r = r\<lparr>r_anonymizer := map_option store (r_anonymizer r)\<rparr>"

type_synonym 'd save_op = "'d \<Rightarrow> MemoryRecord list \<Rightarrow> 'd \<times> MemoryRecord list \<times> go_error option"

definition Flush ::
  "'d save_op \<Rightarrow> ('an \<Rightarrow> 'an) \<Rightarrow> 'd \<Rightarrow> 'an Recorder \<Rightarrow> 'd \<times> 'an Recorder \<times> go_error option" where
  "Flush save store d r =
     (let records = copy_records r
      in if length records = 0 then (d, storeTranslationTables store r, None)
         else case save d (sort_by MemoryRecords_Less records) of
                (d, saved, err) \<Rightarrow> (d, storeTranslationTables store (clear_recorder r), err))"

text \<open>
  One round of \<open>PeriodicallyPrune\<close>: the driver prunes what is older than the last reported time, but
  at least what is older than the maximal age; the round is tried until it succeeds, at most as often
  as there are attempts (four steps of backoff), each with its own last reported time and clock.
\<close>

definition prune_limit :: "duration \<Rightarrow> time \<Rightarrow> time \<Rightarrow> time" where
  "prune_limit maxAge lastReported now =
     (let oldestAllowed = now - maxAge
      in if lastReported < oldestAllowed then oldestAllowed else lastReported)"

fun prune_backoff ::
  "('d \<Rightarrow> time \<Rightarrow> 'd \<times> go_error option) \<Rightarrow> duration \<Rightarrow> (time \<times> time) list \<Rightarrow> 'd \<Rightarrow> 'd" where
  "prune_backoff prune maxAge [] d = d"
| "prune_backoff prune maxAge ((lastReported, now) # attempts) d =
     (case prune d (prune_limit maxAge lastReported now) of
        (d, None) \<Rightarrow> d
      | (d, Some _) \<Rightarrow> prune_backoff prune maxAge attempts d)"

section \<open>Size accounting\<close>

definition records_size :: "(string, MemoryRecord) gomap \<Rightarrow> int" where
  "records_size rs = (\<Sum>(k, m) \<leftarrow> rs. data_len (mr_Data m))"

text \<open>
  The invariant of the recorder: one record per name, and the size counter is the total size of the
  data kept up to the growth \<open>g\<close>: the counter adds the length of a record before its anonymisation and
  takes off the length of an overwritten record after it.
\<close>

definition recorder_ok :: "int \<Rightarrow> 'an Recorder \<Rightarrow> bool" where
  "recorder_ok g r =
     (distinct (map fst (r_records r)) \<and> list_all (\<lambda>(k, m). mr_Name m = k) (r_records r) \<and>
      records_size (r_records r) = r_size r + g)"

lemma records_size_put:
  "distinct (map fst rs) \<Longrightarrow>
   records_size (map_put k m rs) = records_size rs + data_len (mr_Data m) -
     (case map_get rs k of None \<Rightarrow> 0 | Some old \<Rightarrow> data_len (mr_Data old))"
  unfolding records_size_def
  using sum_list_map_put [of rs "\<lambda>m. data_len (mr_Data m)" k m] by (simp add: case_prod_beta)

lemma records_size_nonneg: "0 \<le> records_size rs"
  unfolding records_size_def by (induction rs) auto

lemma store_record_ok:
  assumes "recorder_ok g r" and "r_size r + sz \<le> r_maxArchiveSize r \<or> always"
  shows "recorder_ok (g + data_len (mr_Data m) - sz) (fst (store_record always name sz fp m r))"
proof -
  have "list_all (\<lambda>(k, m). mr_Name m = k) (map_put (mr_Name m) m (r_records r))"
    using assms(1) set_map_put_subset [of "mr_Name m" m "r_records r"]
    by (auto simp: recorder_ok_def list_all_iff)
  with assms show ?thesis
    by (auto simp: store_record_def recorder_ok_def records_size_put Let_def
        split: option.splits)
qed

lemma store_record_bound:
  assumes "r_size r \<le> r_maxArchiveSize r + p" and "0 \<le> p" and "0 \<le> sz"
  shows "r_size (fst (store_record always name sz fp m r)) \<le>
    r_maxArchiveSize r + p + (if always then sz else 0)"
proof (cases "map_get (r_records r) (mr_Name m)")
  case None
  with assms show ?thesis by (simp add: store_record_def Let_def)
next
  case (Some old)
  with assms data_len_nonneg [of "mr_Data old"] show ?thesis
    by (auto simp: store_record_def Let_def simp del: data_len_nonneg)
qed

lemma store_record_frame [simp]:
  "r_maxArchiveSize (fst (store_record always name sz fp m r)) = r_maxArchiveSize r"
  "r_anonymizer (fst (store_record always name sz fp m r)) = r_anonymizer r"
  by (auto simp: store_record_def Let_def split: option.splits)

lemma New_ok: "recorder_ok 0 (New i a)"
  by (simp add: New_def recorder_ok_def records_size_def)

lemma clear_ok [simp]: "recorder_ok 0 (clear_recorder r)"
  by (simp add: clear_recorder_def recorder_ok_def records_size_def)

lemma storeTranslationTables_ok [simp]:
  "recorder_ok g (storeTranslationTables s r) = recorder_ok g r"
  by (simp add: storeTranslationTables_def recorder_ok_def)

lemma anonymizer_ok [simp]: "recorder_ok g (r\<lparr>r_anonymizer := a\<rparr>) = recorder_ok g r"
  by (simp add: recorder_ok_def)

lemma Flush_ok:
  "recorder_ok g r \<Longrightarrow>
   recorder_ok (if copy_records r = [] then g else 0) (fst (snd (Flush save store d r)))"
  by (auto simp: Flush_def Let_def split: prod.splits)

text \<open>The record that \<open>Record\<close> builds for an item, before the anonymisation.\<close>

definition built_record ::
  "(bytes \<Rightarrow> string) \<Rightarrow> time \<Rightarrow> Record \<Rightarrow> MemoryRecord option" where
  "built_record sha256 now rec =
     (case rec_Item rec of
        None \<Rightarrow> None
      | Some item \<Rightarrow>
          (case (Record_Marshal sha256 item, ensureSafeFilenameLength (GetFilename (rec_Name rec) item)) of
             (Inr (data, fp), Some name) \<Rightarrow>
               Some \<lparr>mr_Name = name, mr_At = (if rec_Captured rec = 0 then now else rec_Captured rec),
                     mr_Data = data, mr_Fingerprint = fp\<rparr>
           | _ \<Rightarrow> None))"

text \<open>What the anonymiser of the recorder, when it has one, makes of that record.\<close>

definition anonymized ::
  "'an anonymizer \<Rightarrow> 'an option \<Rightarrow> MemoryRecord \<Rightarrow> ('an option \<times> MemoryRecord result) option" where
  "anonymized anon a m =
     (case a of
        None \<Rightarrow> Some (None, Inr m)
      | Some an \<Rightarrow> map_option (\<lambda>(an, res). (Some an, res)) (anon an m))"

definition admitted :: "Record \<Rightarrow> MemoryRecord \<Rightarrow> 'an Recorder \<Rightarrow> bool" where
  "admitted rec m r =
     (r_size r + data_len (mr_Data m) \<le> r_maxArchiveSize r \<or> rec_AlwaysStored rec)"

lemma Record_outcome:
  assumes "built_record sha256 now rec = Some m"
  shows "Recorder_Record anon sha256 now rec r =
    (case anonymized anon (r_anonymizer r) m of
       None \<Rightarrow> None
     | Some (a, Inl e) \<Rightarrow> Some (r\<lparr>r_anonymizer := a\<rparr>, [e])
     | Some (a, Inr m') \<Rightarrow>
         Some (store_record (rec_AlwaysStored rec) (mr_Name m) (data_len (mr_Data m)) (mr_Fingerprint m)
           m' (r\<lparr>r_anonymizer := a\<rparr>)))"
proof (cases "r_anonymizer r")
  case None
  then have same: "r\<lparr>r_anonymizer := None\<rparr> = r" by simp
  from None assms show ?thesis
    by (auto simp: same Recorder_Record_def built_record_def anonymized_def Let_def
        split: option.splits sum.splits prod.splits)
next
  case (Some an)
  with assms show ?thesis
    by (cases "rec_Captured rec = 0"; cases "anon an m")
      (auto simp: Recorder_Record_def built_record_def anonymized_def Let_def
        split: option.splits sum.splits prod.splits)
qed

lemma Record_built:
  assumes "built_record sha256 now rec = Some m" and "r_anonymizer r = None"
  shows "Recorder_Record anon sha256 now rec r =
    Some (store_record (rec_AlwaysStored rec) (mr_Name m) (data_len (mr_Data m)) (mr_Fingerprint m) m r)"
proof -
  have same: "r\<lparr>r_anonymizer := None\<rparr> = r" using assms(2) by simp
  from assms show ?thesis by (simp add: same Record_outcome anonymized_def)
qed

lemma Record_not_built:
  assumes "built_record sha256 now rec = None" and "Recorder_Record anon sha256 now rec r = Some (r', errs)"
  shows "r' = r \<and> errs \<noteq> []"
  using assms
  by (auto simp: Recorder_Record_def built_record_def Let_def
      split: option.splits sum.splits prod.splits)

text \<open>
  The growth of one record: how much longer its data is after the anonymisation than before, when it
  is stored; and the raw size of a priority record, which is stored whatever the size is.
\<close>

definition record_growth ::
  "'an anonymizer \<Rightarrow> (bytes \<Rightarrow> string) \<Rightarrow> time \<Rightarrow> Record \<Rightarrow> 'an Recorder \<Rightarrow> int" where
  "record_growth anon sha256 now rec r =
     (case built_record sha256 now rec of
        None \<Rightarrow> 0
      | Some m \<Rightarrow>
          (case anonymized anon (r_anonymizer r) m of
             Some (a, Inr m') \<Rightarrow>
               if admitted rec m r then data_len (mr_Data m') - data_len (mr_Data m) else 0
           | _ \<Rightarrow> 0))"

definition priority_size :: "(bytes \<Rightarrow> string) \<Rightarrow> time \<Rightarrow> Record \<Rightarrow> int" where
  "priority_size sha256 now rec =
     (case built_record sha256 now rec of
        Some m \<Rightarrow> if rec_AlwaysStored rec then data_len (mr_Data m) else 0
      | None \<Rightarrow> 0)"

lemma priority_size_nonneg [simp]: "0 \<le> priority_size sha256 now rec"
  by (simp add: priority_size_def split: option.split)

lemma Record_ok:
  assumes "recorder_ok g r" and rec: "Recorder_Record anon sha256 now rec r = Some (r', errs)"
  shows "recorder_ok (g + record_growth anon sha256 now rec r) r'"
proof (cases "built_record sha256 now rec")
  case None
  with Record_not_built [OF None rec] assms show ?thesis by (simp add: record_growth_def)
next
  case (Some m)
  from rec obtain a res where an: "anonymized anon (r_anonymizer r) m = Some (a, res)"
    by (auto simp: Record_outcome [OF Some] split: option.splits)
  show ?thesis
  proof (cases res)
    case (Inl e)
    with an rec Some assms(1) show ?thesis
      by (auto simp: Record_outcome [OF Some] record_growth_def)
  next
    case (Inr m')
    let ?r = "r\<lparr>r_anonymizer := a\<rparr>"
    let ?s = "store_record (rec_AlwaysStored rec) (mr_Name m) (data_len (mr_Data m)) (mr_Fingerprint m) m' ?r"
    have r': "r' = fst ?s" using rec an Inr by (simp add: Record_outcome [OF Some])
    show ?thesis
    proof (cases "admitted rec m r")
      case True
      with store_record_ok [of g ?r] assms(1) show ?thesis
        by (simp add: r' record_growth_def Some an Inr admitted_def algebra_simps)
    next
      case False
      then have "r' = ?r" by (auto simp: r' store_record_def admitted_def)
      with False assms(1) show ?thesis by (simp add: record_growth_def Some an Inr)
    qed
  qed
qed

lemma Record_frame:
  assumes "Recorder_Record anon sha256 now rec r = Some (r', errs)"
  shows "r_maxArchiveSize r' = r_maxArchiveSize r \<and> (r_anonymizer r = None \<longrightarrow> r_anonymizer r' = None)"
proof (cases "built_record sha256 now rec")
  case None
  with Record_not_built [OF None assms] show ?thesis by simp
next
  case (Some m)
  from assms obtain a res where an: "anonymized anon (r_anonymizer r) m = Some (a, res)"
    by (auto simp: Record_outcome [OF Some] split: option.splits)
  then have "r_anonymizer r = None \<longrightarrow> a = None" by (auto simp: anonymized_def)
  moreover have "r_maxArchiveSize r' = r_maxArchiveSize r \<and> r_anonymizer r' = a"
  proof (cases res)
    case (Inl e)
    with an assms show ?thesis by (auto simp: Record_outcome [OF Some])
  next
    case (Inr m')
    with an assms have "r' = fst (store_record (rec_AlwaysStored rec) (mr_Name m) (data_len (mr_Data m))
        (mr_Fingerprint m) m' (r\<lparr>r_anonymizer := a\<rparr>))"
      by (simp add: Record_outcome [OF Some])
    then show ?thesis by simp
  qed
  ultimately show ?thesis by simp
qed

lemma Record_bound:
  assumes "r_size r \<le> r_maxArchiveSize r + p" and "0 \<le> p"
    and rec: "Recorder_Record anon sha256 now rec r = Some (r', errs)"
  shows "r_size r' \<le> r_maxArchiveSize r + p + priority_size sha256 now rec"
proof (cases "built_record sha256 now rec")
  case None
  with Record_not_built [OF None rec] assms show ?thesis by (simp add: priority_size_def)
next
  case (Some m)
  from rec obtain a res where an: "anonymized anon (r_anonymizer r) m = Some (a, res)"
    by (auto simp: Record_outcome [OF Some] split: option.splits)
  show ?thesis
  proof (cases res)
    case (Inl e)
    with rec an have "r_size r' = r_size r" by (auto simp: Record_outcome [OF Some])
    with assms(1) priority_size_nonneg [of sha256 now rec] show ?thesis by linarith
  next
    case (Inr m')
    let ?r = "r\<lparr>r_anonymizer := a\<rparr>"
    have "r' = fst (store_record (rec_AlwaysStored rec) (mr_Name m) (data_len (mr_Data m)) (mr_Fingerprint m) m' ?r)"
      using rec an Inr by (simp add: Record_outcome [OF Some])
    with store_record_bound [of ?r p "data_len (mr_Data m)"] assms(1,2) Some show ?thesis
      by (simp add: priority_size_def)
  qed
qed

text \<open>A history of the recorder between two flushes: a sequence of records.\<close>

fun record_all ::
  "'an anonymizer \<Rightarrow> (bytes \<Rightarrow> string) \<Rightarrow> (time \<times> Record) list \<Rightarrow> 'an Recorder \<Rightarrow>
   ('an Recorder \<times> go_error list) option" where
  "record_all anon sha256 [] r = Some (r, [])"
| "record_all anon sha256 ((now, rec) # recs) r =
     (case Recorder_Record anon sha256 now rec r of
        None \<Rightarrow> None
      | Some (r, errs) \<Rightarrow>
          (case record_all anon sha256 recs r of
             None \<Rightarrow> None
           | Some (r, errs') \<Rightarrow> Some (r, errs @ errs')))"

fun total_growth ::
  "'an anonymizer \<Rightarrow> (bytes \<Rightarrow> string) \<Rightarrow> (time \<times> Record) list \<Rightarrow> 'an Recorder \<Rightarrow> int" where
  "total_growth anon sha256 [] r = 0"
| "total_growth anon sha256 ((now, rec) # recs) r =
     record_growth anon sha256 now rec r +
     (case Recorder_Record anon sha256 now rec r of
        None \<Rightarrow> 0
      | Some (r, errs) \<Rightarrow> total_growth anon sha256 recs r)"

lemma record_all_ok:
  assumes "record_all anon sha256 recs r = Some (r', errs)" and "recorder_ok g r"
  shows "recorder_ok (g + total_growth anon sha256 recs r) r' \<and> r_maxArchiveSize r' = r_maxArchiveSize r"
  using assms
proof (induction recs arbitrary: g r errs)
  case Nil
  then show ?case by simp
next
  case (Cons p recs)
  obtain now rec where p: "p = (now, rec)" by (cases p)
  from Cons.prems(1) obtain r1 e1 e2 where
    r1: "Recorder_Record anon sha256 now rec r = Some (r1, e1)"
    and r2: "record_all anon sha256 recs r1 = Some (r', e2)"
    by (auto simp: p split: option.splits)
  from Cons.IH [OF r2 Record_ok [OF Cons.prems(2) r1]] Record_frame [OF r1] show ?case
    by (simp add: p r1 algebra_simps)
qed

lemma record_all_bound:
  assumes "record_all anon sha256 recs r = Some (r', errs)"
    and "r_size r \<le> r_maxArchiveSize r + p" and "0 \<le> p"
  shows "r_size r' \<le> r_maxArchiveSize r + p + (\<Sum>(now, rec) \<leftarrow> recs. priority_size sha256 now rec)"
  using assms
proof (induction recs arbitrary: p r errs)
  case Nil
  then show ?case by simp
next
  case (Cons q recs)
  obtain now rec where q: "q = (now, rec)" by (cases q)
  from Cons.prems(1) obtain r1 e1 e2 where
    r1: "Recorder_Record anon sha256 now rec r = Some (r1, e1)"
    and r2: "record_all anon sha256 recs r1 = Some (r', e2)"
    by (auto simp: q split: option.splits)
  have "r_size r1 \<le> r_maxArchiveSize r1 + (p + priority_size sha256 now rec)"
    using Record_bound [OF Cons.prems(2,3) r1] Record_frame [OF r1] by (simp add: algebra_simps)
  from Cons.IH [OF r2 this] Cons.prems(3) Record_frame [OF r1] show ?case
    by (simp add: q algebra_simps)
qed

lemma total_growth_plain:
  "r_anonymizer r = None \<Longrightarrow> total_growth anon sha256 recs r = 0"
proof (induction recs arbitrary: r)
  case Nil
  then show ?case by simp
next
  case (Cons p recs)
  obtain now rec where p: "p = (now, rec)" by (cases p)
  from Cons.prems have "record_growth anon sha256 now rec r = 0"
    by (simp add: record_growth_def anonymized_def split: option.split)
  with Cons show ?case by (auto simp: p split: option.split dest: Record_frame)
qed

section \<open>Lookup\<close>

lemma store_record_lookup:
  assumes "r_size r + sz \<le> r_maxArchiveSize r \<or> always"
  shows "map_get (r_records (fst (store_record always name sz fp m r))) k =
    (if k = mr_Name m then Some m else map_get (r_records r) k)"
  using assms by (auto simp: store_record_def Let_def split: option.splits)

lemma store_record_reject:
  assumes "\<not> (r_size r + sz \<le> r_maxArchiveSize r \<or> always)"
  shows "store_record always name sz fp m r = (r, [exceeds_error name sz (r_maxArchiveSize r)])"
  using assms by (auto simp: store_record_def)

section \<open>Interfaces\<close>

text \<open>
  What the recorder relies on of an anonymiser (the interface \<open>DataAnonymizer\<close>): it changes the name
  and the data of a record only.
\<close>

locale data_anonymizer =
  fixes anon :: "'an anonymizer"
  assumes anon_frame: "anon a m = Some (a', Inr m') \<Longrightarrow>
    mr_At m' = mr_At m \<and> mr_Fingerprint m' = mr_Fingerprint m"
begin

lemma Record_captured:
  assumes "built_record sha256 now rec = Some m" and "r_anonymizer r = Some a"
    and "anon a m = Some (a', Inr m')"
    and "r_size r + data_len (mr_Data m) \<le> r_maxArchiveSize r \<or> rec_AlwaysStored rec"
  shows "\<exists>r' errs. Recorder_Record anon sha256 now rec r = Some (r', errs) \<and>
    map_get (r_records r') (mr_Name m') = Some m' \<and>
    mr_At m' = mr_At m \<and> mr_Fingerprint m' = mr_Fingerprint m"
proof -
  let ?s = "store_record (rec_AlwaysStored rec) (mr_Name m) (data_len (mr_Data m)) (mr_Fingerprint m)
      m' (r\<lparr>r_anonymizer := Some a'\<rparr>)"
  have "Recorder_Record anon sha256 now rec r = Some ?s"
    using assms(1,2,3)
    by (cases "rec_Captured rec = 0")
      (auto simp: Recorder_Record_def built_record_def Let_def
        split: option.splits sum.splits prod.splits)
  moreover have "map_get (r_records (fst ?s)) (mr_Name m') = Some m'"
    using assms(4) by (subst store_record_lookup) simp_all
  ultimately show ?thesis using anon_frame [OF assms(3)] by (cases ?s) auto
qed

end

text \<open>The list of anonymisers with the package variable \<open>once\<close> as an anonymiser of the recorder.\<close>

definition anonymizer_list ::
  "(NetworkAnonymizer \<Rightarrow> (NetworkAnonymizer \<times> go_error option) option) \<Rightarrow> InsightsConfiguration \<Rightarrow>
   (bool \<times> NetworkAnonymizer list) anonymizer" where
  "anonymizer_list load conf a m =
     map_option (\<lambda>(once, nas, m). ((once, nas), Inr m))
       (Anonymizer_AnonymizeData load conf (fst a) (snd a) m)"

lemma anonymize_record_frame:
  "mr_At (snd (anonymize_record na m)) = mr_At m \<and>
   mr_Fingerprint (snd (anonymize_record na m)) = mr_Fingerprint m"
  by (simp add: anonymize_record_def case_prod_beta Let_def)

lemma AnonymizeData_frame:
  "AnonymizeData load once na m = Some (o', na', m') \<Longrightarrow>
   mr_At m' = mr_At m \<and> mr_Fingerprint m' = mr_Fingerprint m"
  using anonymize_record_frame
  by (auto simp: AnonymizeData_def split: option.splits prod.splits if_splits) (metis snd_conv)+

lemma Anonymizer_AnonymizeData_frame:
  "Anonymizer_AnonymizeData load conf once nas m = Some (o', nas', m') \<Longrightarrow>
   mr_At m' = mr_At m \<and> mr_Fingerprint m' = mr_Fingerprint m"
proof (induction nas arbitrary: once m nas')
  case Nil
  then show ?case by simp
next
  case (Cons na nas)
  then show ?case
    by (fastforce split: if_splits option.splits dest: AnonymizeData_frame)
qed

interpretation anon_list: data_anonymizer "anonymizer_list load conf" for load conf
  by unfold_locales (auto simp: anonymizer_list_def dest: Anonymizer_AnonymizeData_frame)

text \<open>A recorder whose anonymisers are all switched off, or that has none, stores the records as they are.\<close>

definition inert :: "InsightsConfiguration \<Rightarrow> (bool \<times> NetworkAnonymizer list) option \<Rightarrow> bool" where
  "inert conf a = (case a of None \<Rightarrow> True | Some (once, nas) \<Rightarrow> list_all (\<lambda>na. \<not> IsEnabled conf na) nas)"

lemma Anonymizer_AnonymizeData_off:
  "list_all (\<lambda>na. \<not> IsEnabled conf na) nas \<Longrightarrow> Anonymizer_AnonymizeData load conf once nas m = Some (once, nas, m)"
  by (induction nas) auto

lemma anonymized_inert:
  "inert conf a \<Longrightarrow> anonymized (anonymizer_list load conf) a m = Some (a, Inr m)"
  by (auto simp: inert_def anonymized_def anonymizer_list_def Anonymizer_AnonymizeData_off split: option.splits)

lemma anonymized_no_error:
  "anonymized (anonymizer_list load conf) a m = Some (a', res) \<Longrightarrow> \<exists>m'. res = Inr m'"
  by (auto simp: anonymized_def anonymizer_list_def split: option.splits)

lemma Record_inert:
  assumes "inert conf (r_anonymizer r)"
    and "Recorder_Record (anonymizer_list load conf) sha256 now rec r = Some (r', errs)"
  shows "inert conf (r_anonymizer r')"
proof (cases "built_record sha256 now rec")
  case None
  with Record_not_built [OF None assms(2)] assms(1) show ?thesis by simp
next
  case (Some m)
  with assms have "r_anonymizer r' = r_anonymizer r"
    using store_record_frame(2) [of "rec_AlwaysStored rec" "mr_Name m" "data_len (mr_Data m)"
        "mr_Fingerprint m" m "r\<lparr>r_anonymizer := r_anonymizer r\<rparr>"]
    by (simp add: Record_outcome anonymized_inert del: store_record_frame)
  with assms(1) show ?thesis by simp
qed

text \<open>
  What the recorder relies on of a driver (the interface \<open>Driver\<close>): a save that reports no error has
  stored the records it got, in their order, and no save loses an archive.
\<close>

locale recorder_driver =
  fixes save :: "'d save_op"
    and archives :: "'d \<Rightarrow> MemoryRecord list list"
  assumes save_stores: "recs \<noteq> [] \<Longrightarrow> save d recs = (d', saved, None) \<Longrightarrow>
      recs \<in> set (archives d') \<and> saved = recs"
    and save_keeps: "save d recs = (d', saved, err) \<Longrightarrow> set (archives d) \<subseteq> set (archives d')"
begin

lemma Flush_stores:
  assumes "copy_records r \<noteq> []" and "Flush save store d r = (d', r', None)"
  shows "\<exists>recs. recs \<in> set (archives d') \<and> mset recs = mset (copy_records r) \<and>
    sorted_wrt (\<lambda>x y. mr_At x \<ge> mr_At y) recs"
proof -
  let ?s = "sort_by MemoryRecords_Less (copy_records r)"
  obtain saved where "save d ?s = (d', saved, None)"
    using assms by (auto simp: Flush_def Let_def split: prod.splits)
  moreover have "?s \<noteq> []" using assms(1) by (metis length_0_conv length_sort_by)
  ultimately have "?s \<in> set (archives d')" using save_stores by blast
  moreover have "sorted_wrt (\<lambda>x y. mr_At x \<ge> mr_At y) ?s"
    using newest_first.sorted_sort_by [of "copy_records r"]
    by (rule sorted_wrt_mono_rel [rotated]) (auto simp: MemoryRecords_Less_def)
  ultimately show ?thesis by (intro exI [of _ ?s]) simp
qed

lemma Flush_keeps: "Flush save store d r = (d', r', err) \<Longrightarrow> set (archives d) \<subseteq> set (archives d')"
  by (auto simp: Flush_def Let_def split: if_splits prod.splits dest: save_keeps)

end

lemma Flush_clears:
  assumes "copy_records r \<noteq> []"
  shows "r_records (fst (snd (Flush save store d r))) = [] \<and> r_size (fst (snd (Flush save store d r))) = 0"
  using assms
  by (auto simp: Flush_def Let_def storeTranslationTables_def clear_recorder_def split: prod.splits)

section \<open>File names\<close>

lemma path_ext_dot:
  assumes "CHR ''/'' \<notin> set n" and "CHR ''/'' \<notin> set l" and "CHR ''.'' \<notin> set l"
  shows "path_ext (n @ CHR ''.'' # l) = CHR ''.'' # l"
  using assms by (simp add: path_ext_def Let_def split_by_append_sep)

lemma path_ext_none: "CHR ''/'' \<notin> set b \<Longrightarrow> CHR ''.'' \<notin> set b \<Longrightarrow> path_ext b = []"
  by (simp add: path_ext_def)

lemma path_ext_cases:
  assumes "CHR ''/'' \<notin> set b"
  obtains (none) "CHR ''.'' \<notin> set b" "path_ext b = []"
  | (dot) n l where "b = n @ CHR ''.'' # l" "CHR ''.'' \<notin> set l" "path_ext b = CHR ''.'' # l"
proof (cases "CHR ''.'' \<in> set b")
  case False
  with path_ext_none [OF assms] none show ?thesis by simp
next
  case True
  then obtain n l where "b = n @ CHR ''.'' # l" "CHR ''.'' \<notin> set l" by (metis split_list_last)
  with path_ext_dot [of n l] assms dot show ?thesis by simp
qed

lemma path_base_no_slash: "1 < length (path_base p) \<Longrightarrow> CHR ''/'' \<notin> set (path_base p)"
proof -
  let ?q = "last (split_on (CHR ''/'') (strip_slashes p))"
  assume "1 < length (path_base p)"
  then have "path_base p = ?q" by (simp add: path_base_def Let_def split: if_splits)
  moreover have "?q \<in> set (split_on (CHR ''/'') (strip_slashes p))" by simp
  ultimately show ?thesis
    using split_by_pieces [of ?q "\<lambda>x. x = CHR ''/''" "strip_slashes p" "CHR ''/''"] by auto
qed

lemma plain_name_long: "2 < length g \<Longrightarrow> CHR ''/'' \<notin> set g \<Longrightarrow> plain_name g"
  by (auto simp: plain_name_def)

lemma trimmed_name:
  assumes f: "CHR ''/'' \<notin> set f" and len: "255 < length f" "length (path_ext f) \<le> 255"
  defines "g \<equiv> take (255 - length (path_ext f)) (trim_suffix f (path_ext f)) @ path_ext f"
  shows "length g = 255 \<and> path_ext g = path_ext f \<and> CHR ''/'' \<notin> set g"
  using f
proof (cases rule: path_ext_cases)
  case none
  then have g: "g = take 255 f" by (simp add: g_def trim_suffix_def)
  with none f len have "CHR ''/'' \<notin> set g" "CHR ''.'' \<notin> set g"
    by (auto dest: in_set_takeD)
  with path_ext_none [of g] none g len show ?thesis by simp
next
  case (dot n l)
  then have g: "g = take (254 - length l) n @ CHR ''.'' # l"
    by (simp add: g_def trim_suffix_def suffix_def)
  have "CHR ''/'' \<notin> set n" "CHR ''/'' \<notin> set l" using f dot by auto
  then have "CHR ''/'' \<notin> set (take (254 - length l) n)" by (auto dest: in_set_takeD)
  with path_ext_dot [of "take (254 - length l) n" l] \<open>CHR ''/'' \<notin> set l\<close> dot g len show ?thesis
    by simp
qed

lemma ensureSafeFilenameLength_spec:
  assumes "ensureSafeFilenameLength p = Some q"
  shows "length (path_base q) \<le> 255 \<and> path_ext (path_base q) = path_ext (path_base p)"
proof (cases "length (path_base p) \<le> 255")
  case True
  with assms show ?thesis by (simp add: ensureSafeFilenameLength_def maxFilenameLength_def)
next
  case False
  let ?f = "path_base p"
  let ?g = "take (255 - length (path_ext ?f)) (trim_suffix ?f (path_ext ?f)) @ path_ext ?f"
  from assms False have ext: "length (path_ext ?f) \<le> 255"
    and q: "q = path_join (path_dir p) ?g"
    by (auto simp: ensureSafeFilenameLength_def maxFilenameLength_def Let_def split: if_splits)
  have "CHR ''/'' \<notin> set ?f" by (rule path_base_no_slash) (use False in simp)
  from trimmed_name [OF this _ ext] False
  have g: "length ?g = 255" "path_ext ?g = path_ext ?f" "CHR ''/'' \<notin> set ?g" by auto
  then have "plain_name ?g" by (intro plain_name_long) simp_all
  then have "path_base q = ?g" unfolding q by (rule path_base_join)
  with g show ?thesis by simp
qed

section \<open>Properties\<close>

definition example_item :: Marshalable where
  "example_item = \<lparr>item_Marshal = Inr (Some ''data''), item_GetExtension = ''json''\<rparr>"

definition example_record :: Record where
  "example_record =
     \<lparr>rec_Name = ''config/version'', rec_Captured = 7, rec_Item = Some example_item,
      rec_AlwaysStored = False\<rparr>"

text \<open>An anonymiser that counts the records and masks their data.\<close>

definition example_anon :: "nat anonymizer" where
  "example_anon n m = Some (Suc n, Inr (m\<lparr>mr_Data := Some ''xxxxxxx''\<rparr>))"

definition example_recorder :: "nat Recorder" where
  "example_recorder = New Hour (Some 0)"

lemma example_built:
  "built_record (\<lambda>_. ''fp'') 9 example_record =
    Some \<lparr>mr_Name = ''config/version.json'', mr_At = 7, mr_Data = Some ''data'', mr_Fingerprint = ''fp''\<rparr>"
  by code_simp

lemma example_record_all:
  "\<not> Option.is_none (record_all example_anon (\<lambda>_. ''fp'') [(9, example_record), (9, example_record)] example_recorder)"
  by code_simp

text \<open>
  C4: The archive size limit.  However many records are recorded into a new recorder, with or
  without an anonymiser, the recorder keeps one record per name, under the name of the record, and its
  size counter is the total size of the data it keeps less what the anonymisation of the stored
  records added to them; without an anonymiser it is that total size.  The counter never exceeds
  MaxArchiveSize by more than the size of the priority records, so not at all when there are none.
\<close>

theorem recorder_size_limit:
  assumes "record_all anon sha256 recs (New interval a) = Some (r, errs)"
  shows "distinct (map fst (r_records r)) \<and> list_all (\<lambda>(k, m). mr_Name m = k) (r_records r) \<and>
    records_size (r_records r) = r_size r + total_growth anon sha256 recs (New interval a) \<and>
    (a = None \<longrightarrow> records_size (r_records r) = r_size r) \<and>
    r_size r \<le> MaxArchiveSize + (\<Sum>(now, rec) \<leftarrow> recs. priority_size sha256 now rec)"
proof -
  let ?r = "New interval a"
  have ok: "recorder_ok (total_growth anon sha256 recs ?r) r"
    using record_all_ok [OF assms New_ok] by simp
  have "r_size r \<le> MaxArchiveSize + (\<Sum>(now, rec) \<leftarrow> recs. priority_size sha256 now rec)"
    using record_all_bound [OF assms, of 0] by (simp add: New_def MaxArchiveSize_def)
  moreover have "total_growth anon sha256 recs ?r = 0" if "a = None"
    using that by (intro total_growth_plain) (simp add: New_def)
  ultimately show ?thesis using ok by (simp add: recorder_ok_def)
qed

theorem recorder_size_limit_witness:
  "\<exists>(r :: nat Recorder) errs. record_all example_anon (\<lambda>_. ''fp'')
     [(9, example_record), (9, example_record)] (New Hour (Some 0)) = Some (r, errs) \<and>
     records_size (r_records r) = r_size r +
       total_growth example_anon (\<lambda>_. ''fp'') [(9, example_record), (9, example_record)] (New Hour (Some 0)) \<and>
     r_size r \<le> MaxArchiveSize"
proof -
  obtain r errs where r: "record_all example_anon (\<lambda>_. ''fp'')
      [(9, example_record), (9, example_record)] (New Hour (Some 0)) = Some (r, errs)"
    using example_record_all unfolding example_recorder_def
    by (auto simp: Option.is_none_def simp del: record_all.simps)
  have "priority_size (\<lambda>_. ''fp'') 9 example_record = 0"
    by (simp add: priority_size_def example_record_def split: option.split)
  with recorder_size_limit [OF r] r show ?thesis by auto
qed

text \<open>
  C5: Record and lookup.  When the item of a record can be marshalled and the anonymiser, if there
  is one, returns, a record that fits (with the size it has before the anonymisation) or has priority
  is found under its anonymised name with its anonymised data, and every other record stays.  A record
  that does not fit, or that the anonymiser refuses, is reported, and nothing but the state of the
  anonymiser changes.
\<close>

theorem record_lookup:
  assumes "built_record sha256 now rec = Some m" and "anonymized anon (r_anonymizer r) m = Some (a, res)"
  shows "\<exists>r' errs. Recorder_Record anon sha256 now rec r = Some (r', errs) \<and> r_anonymizer r' = a \<and>
    (case res of
       Inl e \<Rightarrow> r' = r\<lparr>r_anonymizer := a\<rparr> \<and> errs = [e]
     | Inr m' \<Rightarrow>
         if r_size r + data_len (mr_Data m) \<le> r_maxArchiveSize r \<or> rec_AlwaysStored rec
         then map_get (r_records r') = (map_get (r_records r))(mr_Name m' \<mapsto> m')
         else r' = r\<lparr>r_anonymizer := a\<rparr> \<and> errs \<noteq> [])"
proof (cases res)
  case (Inl e)
  with Record_outcome [OF assms(1), of anon r] assms(2) show ?thesis by simp
next
  case (Inr m')
  let ?r = "r\<lparr>r_anonymizer := a\<rparr>"
  let ?s = "store_record (rec_AlwaysStored rec) (mr_Name m) (data_len (mr_Data m)) (mr_Fingerprint m) m' ?r"
  have s: "Recorder_Record anon sha256 now rec r = Some ?s"
    using Record_outcome [OF assms(1), of anon r] assms(2) Inr by simp
  have "r_anonymizer (fst ?s) = a" by simp
  moreover have "map_get (r_records (fst ?s)) = (map_get (r_records r))(mr_Name m' \<mapsto> m')"
    if "r_size r + data_len (mr_Data m) \<le> r_maxArchiveSize r \<or> rec_AlwaysStored rec"
    using that by (intro ext) (simp add: store_record_lookup)
  moreover have "fst ?s = ?r \<and> snd ?s \<noteq> []"
    if "\<not> (r_size r + data_len (mr_Data m) \<le> r_maxArchiveSize r \<or> rec_AlwaysStored rec)"
    using that by (simp add: store_record_reject)
  ultimately show ?thesis using s Inr by (cases ?s) auto
qed

theorem record_lookup_witness:
  "\<exists>r' errs. Recorder_Record example_anon (\<lambda>_. ''fp'') 9 example_record example_recorder = Some (r', errs) \<and>
    r_anonymizer r' = Some 1 \<and> map_get (r_records r') ''config/version.json'' =
      Some \<lparr>mr_Name = ''config/version.json'', mr_At = 7, mr_Data = Some ''xxxxxxx'', mr_Fingerprint = ''fp''\<rparr>"
proof -
  let ?m = "\<lparr>mr_Name = ''config/version.json'', mr_At = 7, mr_Data = Some ''data'', mr_Fingerprint = ''fp''\<rparr>"
  have "anonymized example_anon (r_anonymizer example_recorder) ?m =
      Some (Some 1, Inr (?m\<lparr>mr_Data := Some ''xxxxxxx''\<rparr>))"
    by (simp add: anonymized_def example_anon_def example_recorder_def New_def)
  from record_lookup [OF example_built this] show ?thesis
    by (auto simp: example_recorder_def New_def data_len_def data_bytes_def MaxArchiveSize_def)
qed

text \<open>
  Anonymised records.  With the list of network anonymisers configured, a record that fits is
  stored under its anonymised name with its anonymised data, and keeps its time and fingerprint.
\<close>

lemma record_anonymized:
  assumes "built_record sha256 now rec = Some m" and "r_anonymizer r = Some a"
    and "anonymizer_list load conf a m = Some (a', Inr m')"
    and "r_size r + data_len (mr_Data m) \<le> r_maxArchiveSize r \<or> rec_AlwaysStored rec"
  shows "\<exists>r' errs. Recorder_Record (anonymizer_list load conf) sha256 now rec r = Some (r', errs) \<and>
    map_get (r_records r') (mr_Name m') = Some m' \<and>
    mr_At m' = mr_At m \<and> mr_Fingerprint m' = mr_Fingerprint m"
  using assms by (rule anon_list.Record_captured)

text \<open>
  File names.  The name under which a record is stored has a last component of at most 255
  characters, with the extension of the original name.
\<close>

lemma safe_filename:
  assumes "ensureSafeFilenameLength p = Some q"
  shows "length (path_base q) \<le> 255 \<and> path_ext (path_base q) = path_ext (path_base p)"
  using assms by (rule ensureSafeFilenameLength_spec)

end
