(* ===== verification/Gather.thy ===== *)
theory Gather
  imports Recorder
begin

text \<open>
  pkg/gather: running the functions of a gatherer concurrently (tasks_processing.go) and recording what
  they return (gather.go).

  A gathering closure is what a run of it gives: the records and errors it returns, or the value it
  panics with, and the time it takes.  The recorder is an interface of the code, here the argument
  \<open>rcd\<close> with one record per call, \<open>None\<close> when the call panics.  The goroutines and channels of
  HandleTasksConcurrently are the step relation \<open>pool_step\<close>; the code that ranges over the results takes
  them in the order in which some run delivers them, the argument \<open>sched\<close>.
\<close>

section \<open>Data\<close>

datatype closure_run = Returned "Record list" "go_error list" | Panicked string

type_synonym GatheringClosure = "closure_run \<times> duration"

record Task =
  tk_Name :: string
  tk_F :: GatheringClosure

record GatheringFunctionResult =
  fr_FunctionName :: string
  fr_Records :: "Record list"
  fr_Errs :: "go_error list"
  fr_Panic :: "string option"
  fr_TimeElapsed :: duration

record GathererFunctionReport =
  gr_FuncName :: string
  gr_Duration :: int
  gr_RecordsCount :: int
  gr_Errors :: "string list"
  gr_Warnings :: "string list"
  gr_Panic :: "string option"

record ArchiveMetadata =
  am_StatusReports :: "GathererFunctionReport list"
  am_MemoryBytesUsage :: int
  am_Uptime :: int
  am_IsGlobalObfuscationEnabled :: bool

record gatherer =
  g_GetName :: string
  g_GetGatheringFunctions :: "(string, GatheringClosure) gomap result"

record GathererConfig =
  gc_Name :: string
  gc_State :: string

abbreviation GathererStateDisabled :: string where "GathererStateDisabled \<equiv> ''Disabled''"
abbreviation GathererStateEnabled :: string where "GathererStateEnabled \<equiv> ''Enabled''"

definition Milliseconds :: "duration \<Rightarrow> int" where
  "Milliseconds d = go_quot d Millisecond"

section \<open>Concurrent tasks\<close>

definition handleTask :: "Task \<Rightarrow> GatheringFunctionResult" where
  "handleTask task =
     (case tk_F task of
        (Returned records errs, elapsed) \<Rightarrow>
          \<lparr>fr_FunctionName = tk_Name task, fr_Records = records, fr_Errs = errs, fr_Panic = None,
           fr_TimeElapsed = elapsed\<rparr>
      | (Panicked v, elapsed) \<Rightarrow>
          \<lparr>fr_FunctionName = tk_Name task, fr_Records = [], fr_Errs = [], fr_Panic = Some v,
           fr_TimeElapsed = elapsed\<rparr>)"

text \<open>
  A worker waits for a task, runs one, offers its result on the unbuffered channel, or has stopped.  The
  pool holds the tasks not handed out yet, whether the channel of tasks is closed, the workers, the
  results received so far, and whether the channel of results is closed.
\<close>

datatype worker = Listening | Running Task | Sending GatheringFunctionResult | Stopped

record pool =
  pl_tasks :: "Task list"
  pl_closed :: bool
  pl_workers :: "worker list"
  pl_results :: "GatheringFunctionResult list"
  pl_done :: bool

definition workerNum :: "nat \<Rightarrow> Task list \<Rightarrow> nat" where
  "workerNum cpus tasks = (if length tasks < 4 * cpus then length tasks else 4 * cpus)"

definition HandleTasksConcurrently :: "nat \<Rightarrow> Task list \<Rightarrow> pool" where
  "HandleTasksConcurrently cpus tasks =
     \<lparr>pl_tasks = tasks, pl_closed = False, pl_workers = replicate (workerNum cpus tasks) Listening,
      pl_results = [], pl_done = False\<rparr>"

inductive pool_step :: "pool \<Rightarrow> pool \<Rightarrow> bool" where
  hand_out:
  "pl_tasks s = t # ts \<Longrightarrow> i < length (pl_workers s) \<Longrightarrow> pl_workers s ! i = Listening \<Longrightarrow>
   pool_step s (s\<lparr>pl_tasks := ts, pl_workers := (pl_workers s)[i := Running t]\<rparr>)"
| close_tasks:
  "pl_tasks s = [] \<Longrightarrow> \<not> pl_closed s \<Longrightarrow> pool_step s (s\<lparr>pl_closed := True\<rparr>)"
| run:
  "i < length (pl_workers s) \<Longrightarrow> pl_workers s ! i = Running t \<Longrightarrow>
   pool_step s (s\<lparr>pl_workers := (pl_workers s)[i := Sending (handleTask t)]\<rparr>)"
| deliver:
  "i < length (pl_workers s) \<Longrightarrow> pl_workers s ! i = Sending res \<Longrightarrow>
   pool_step s (s\<lparr>pl_workers := (pl_workers s)[i := Listening], pl_results := pl_results s @ [res]\<rparr>)"
| stop:
  "pl_closed s \<Longrightarrow> i < length (pl_workers s) \<Longrightarrow> pl_workers s ! i = Listening \<Longrightarrow>
   pool_step s (s\<lparr>pl_workers := (pl_workers s)[i := Stopped]\<rparr>)"
| close_results:
  "pl_closed s \<Longrightarrow> list_all (\<lambda>w. w = Stopped) (pl_workers s) \<Longrightarrow> \<not> pl_done s \<Longrightarrow>
   pool_step s (s\<lparr>pl_done := True\<rparr>)"

inductive_cases pool_stepE: "pool_step s s'"

definition pool_reach :: "nat \<Rightarrow> Task list \<Rightarrow> pool \<Rightarrow> bool" where
  "pool_reach cpus tasks = pool_step\<^sup>*\<^sup>* (HandleTasksConcurrently cpus tasks)"

text \<open>The results that a complete run of the pool delivers, in their order.\<close>

definition delivered :: "nat \<Rightarrow> Task list \<Rightarrow> GatheringFunctionResult list \<Rightarrow> bool" where
  "delivered cpus tasks results = (\<exists>s. pool_reach cpus tasks s \<and> pl_done s \<and> pl_results s = results)"

section \<open>Recording the results\<close>

type_synonym 'r record_op = "Record \<Rightarrow> 'r \<Rightarrow> ('r \<times> go_error list) option"

definition failed_error :: "string \<Rightarrow> go_error" where
  "failed_error fname = Errorf (''function \"'' @ fname @ ''\" failed with an error'')"

definition panicked_error :: "string \<Rightarrow> go_error" where
  "panicked_error fname = Errorf (''function \"'' @ fname @ ''\" panicked'')"

definition unable_error :: "string \<Rightarrow> string \<Rightarrow> go_error" where
  "unable_error fname file =
     Errorf (''unable to record function \"'' @ fname @ ''\" record \"'' @ file @ ''\"'')"

definition proper :: "go_error list \<Rightarrow> go_error list" where
  "proper errs = filter (\<lambda>e. \<not> isWarning e) errs"

definition warnings :: "go_error list \<Rightarrow> go_error list" where
  "warnings errs = filter isWarning errs"

text \<open>
  The loop over the records.  The message of every error names the file of the record, and the file name
  of a record without an item cannot be asked for: the call panics.
\<close>

fun record_loop ::
  "'r record_op \<Rightarrow> string \<Rightarrow> Record list \<Rightarrow> 'r \<Rightarrow>
   ('r \<times> go_error list \<times> go_error list \<times> go_error list \<times> int) option" where
  "record_loop rcd fname [] r = Some (r, [], [], [], 0)"
| "record_loop rcd fname (rec # recs) r =
     (case rcd rec r of
        None \<Rightarrow> None
      | Some (r, errs) \<Rightarrow>
          if errs \<noteq> [] \<and> rec_Item rec = None then None
          else
            (case record_loop rcd fname recs r of
               None \<Rightarrow> None
             | Some (r, ws, es, alls, n) \<Rightarrow>
                 let file = (case rec_Item rec of None \<Rightarrow> [] | Some item \<Rightarrow> GetFilename (rec_Name rec) item)
                 in Some (r, warnings errs @ ws, proper errs @ es,
                      map (\<lambda>_. unable_error fname file) (proper errs) @ alls,
                      (if proper errs = [] then 1 else 0) + n)))"

definition recordGatheringFunctionResult ::
  "'r record_op \<Rightarrow> GatheringFunctionResult \<Rightarrow> string \<Rightarrow> 'r \<Rightarrow>
   ('r \<times> GathererFunctionReport \<times> go_error list) option" where
  "recordGatheringFunctionResult rcd result gathererName r =
     (let fname = fr_FunctionName result;
          panic_errs = (case fr_Panic result of None \<Rightarrow> [] | Some v \<Rightarrow> [Errorf (''panic: '' @ v)]);
          panic_alls = (case fr_Panic result of None \<Rightarrow> [] | Some v \<Rightarrow> [panicked_error fname]);
          errs = fr_Errs result
      in case record_loop rcd fname (fr_Records result) r of
           None \<Rightarrow> None
         | Some (r, ws, es, alls, recordedRecs) \<Rightarrow>
             Some (r,
               \<lparr>gr_FuncName = gathererName @ ''/'' @ fname,
                gr_Duration = Milliseconds (fr_TimeElapsed result),
                gr_RecordsCount = recordedRecs,
                gr_Errors = ErrorsToStrings (panic_errs @ proper errs @ es),
                gr_Warnings = ErrorsToStrings (warnings errs @ ws),
                gr_Panic = fr_Panic result\<rparr>,
               panic_alls @ map (\<lambda>_. failed_error fname) (proper errs) @ alls))"

definition hasGathererState :: "GathererConfig list \<Rightarrow> string \<Rightarrow> string \<Rightarrow> bool" where
  "hasGathererState gathererConfigs gathererName state =
     list_ex (\<lambda>gf. gc_Name gf = gathererName \<and> gc_State gf = state) gathererConfigs"

definition getEnabledGatheringFunctions ::
  "string \<Rightarrow> (string, GatheringClosure) gomap \<Rightarrow> GathererConfig list \<Rightarrow> (string, GatheringClosure) gomap" where
  "getEnabledGatheringFunctions gathererName fs gathererConfigs =
     (if hasGathererState gathererConfigs gathererName GathererStateDisabled
      then filter (\<lambda>(fName, c).
             hasGathererState gathererConfigs (gathererName @ ''/'' @ fName) GathererStateEnabled) fs
      else filter (\<lambda>(fName, c).
             \<not> hasGathererState gathererConfigs (gathererName @ ''/'' @ fName) GathererStateDisabled) fs)"

definition startGatheringConcurrently :: "gatherer \<Rightarrow> GathererConfig list \<Rightarrow> Task list result" where
  "startGatheringConcurrently g gatherConfigs =
     (case g_GetGatheringFunctions g of
        Inl err \<Rightarrow> Inl err
      | Inr fs \<Rightarrow>
          let fs = (if 0 < length gatherConfigs
                    then getEnabledGatheringFunctions (g_GetName g) fs gatherConfigs else fs)
          in if length fs = 0 then Inl (Errorf ''no gather functions are specified to run'')
             else Inr (map (\<lambda>(functionName, c). \<lparr>tk_Name = functionName, tk_F = c\<rparr>) fs))"

fun results_loop ::
  "'r record_op \<Rightarrow> string \<Rightarrow> GatheringFunctionResult list \<Rightarrow> 'r \<Rightarrow>
   ('r \<times> GathererFunctionReport list \<times> int \<times> go_error list) option" where
  "results_loop rcd gname [] r = Some (r, [], 0, [])"
| "results_loop rcd gname (result # results) r =
     (case recordGatheringFunctionResult rcd result gname r of
        None \<Rightarrow> None
      | Some (r, report, errs) \<Rightarrow>
          (case results_loop rcd gname results r of
             None \<Rightarrow> None
           | Some (r, reports, n, allErrors) \<Rightarrow>
               Some (r, report # reports, gr_RecordsCount report + n, errs @ allErrors)))"

definition collectAndRecordGatherer ::
  "'r record_op \<Rightarrow> (Task list \<Rightarrow> GatheringFunctionResult list) \<Rightarrow> gatherer \<Rightarrow> GathererConfig list \<Rightarrow> 'r \<Rightarrow>
   ('r \<times> GathererFunctionReport list \<times> int \<times> go_error list) option" where
  "collectAndRecordGatherer rcd sched g gatherConfigs r =
     (case startGatheringConcurrently g gatherConfigs of
        Inl err \<Rightarrow> Some (r, [], 0, [err])
      | Inr tasks \<Rightarrow> results_loop rcd (g_GetName g) (sched tasks) r)"

definition CollectAndRecordGatherer ::
  "'r record_op \<Rightarrow> (Task list \<Rightarrow> GatheringFunctionResult list) \<Rightarrow> duration \<Rightarrow> gatherer \<Rightarrow>
   GathererConfig list \<Rightarrow> 'r \<Rightarrow> ('r \<times> GathererFunctionReport list \<times> go_error option) option" where
  "CollectAndRecordGatherer rcd sched elapsed g gatherConfigs r =
     (case collectAndRecordGatherer rcd sched g gatherConfigs r of
        None \<Rightarrow> None
      | Some (r, reports, totalNumberOfRecords, errs) \<Rightarrow>
          Some (r,
            reports @
              [\<lparr>gr_FuncName = g_GetName g, gr_Duration = Milliseconds elapsed,
                gr_RecordsCount = totalNumberOfRecords, gr_Errors = ErrorsToStrings errs,
                gr_Warnings = [], gr_Panic = None\<rparr>],
            UniqueErrors errs))"

definition MetadataRecordName :: string where "MetadataRecordName = ''insights-operator/gathers''"

text \<open>The uptime is kept in milliseconds; \<open>to_json\<close> is the outcome of encoding the metadata.\<close>

definition RecordArchiveMetadata ::
  "'r record_op \<Rightarrow> (ArchiveMetadata \<Rightarrow> bytes option result) \<Rightarrow> GathererFunctionReport list \<Rightarrow> duration \<Rightarrow> bool \<Rightarrow>
   'r \<Rightarrow> ('r \<times> go_error option) option" where
  "RecordArchiveMetadata rcd to_json functionReports since_start networkAnonymizerEnabled r =
     (let metadata = \<lparr>am_StatusReports = functionReports, am_MemoryBytesUsage = 0,
            am_Uptime = Milliseconds since_start,
            am_IsGlobalObfuscationEnabled = networkAnonymizerEnabled\<rparr>;
          archiveMetadata = \<lparr>rec_Name = MetadataRecordName, rec_Captured = 0,
            rec_Item = Some \<lparr>item_Marshal = to_json metadata, item_GetExtension = JSONExtension\<rparr>,
            rec_AlwaysStored = True\<rparr>
      in case rcd archiveMetadata r of
           None \<Rightarrow> None
         | Some (r, errs) \<Rightarrow>
             Some (r, if 0 < length errs
               then Some (Errorf (''unable to record archive metadata because of the errors: ['' @
                      join_with '' '' (map error_text errs) @ '']''))
               else None))"

definition FunctionReportsMapToArray :: "(string, GathererFunctionReport) gomap \<Rightarrow> GathererFunctionReport list" where
  "FunctionReportsMapToArray m = map snd m"

section \<open>The pool ends and delivers every result once\<close>

fun worker_work :: "worker \<Rightarrow> nat" where
  "worker_work Listening = 1"
| "worker_work (Running t) = 3"
| "worker_work (Sending res) = 2"
| "worker_work Stopped = 0"

fun worker_owes :: "worker \<Rightarrow> GatheringFunctionResult multiset" where
  "worker_owes (Running t) = {#handleTask t#}"
| "worker_owes (Sending res) = {#res#}"
| "worker_owes _ = {#}"

definition pool_work :: "pool \<Rightarrow> nat" where
  "pool_work s = 3 * length (pl_tasks s) + (\<Sum>w \<leftarrow> pl_workers s. worker_work w) +
     (if pl_closed s then 0 else 1) + (if pl_done s then 0 else 1)"

definition pool_results :: "pool \<Rightarrow> GatheringFunctionResult multiset" where
  "pool_results s = mset (map handleTask (pl_tasks s)) + (\<Sum>w \<leftarrow> pl_workers s. worker_owes w) +
     mset (pl_results s)"

definition pool_ok :: "nat \<Rightarrow> Task list \<Rightarrow> pool \<Rightarrow> bool" where
  "pool_ok cpus tasks s =
     (pool_results s = mset (map handleTask tasks) \<and> length (pl_workers s) = workerNum cpus tasks \<and>
      length (pl_tasks s) \<le> length tasks \<and> (pl_closed s \<longrightarrow> pl_tasks s = []) \<and>
      (Stopped \<in> set (pl_workers s) \<longrightarrow> pl_closed s) \<and>
      (pl_done s \<longrightarrow> pl_closed s \<and> list_all (\<lambda>w. w = Stopped) (pl_workers s)))"

lemma sum_list_replace:
  fixes f :: "'a \<Rightarrow> 'b :: comm_monoid_add"
  assumes "i < length ws"
  shows "(\<Sum>w \<leftarrow> ws[i := v]. f w) + f (ws ! i) = (\<Sum>w \<leftarrow> ws. f w) + f v"
  using assms
proof (induction ws arbitrary: i)
  case Nil
  then show ?case by simp
next
  case (Cons w ws)
  show ?case
  proof (cases i)
    case 0
    then show ?thesis by (simp add: ac_simps)
  next
    case (Suc j)
    with Cons.prems Cons.IH [of j] show ?thesis by (simp add: add.assoc)
  qed
qed

lemma pool_step_work:
  assumes "pool_step s s'"
  shows "pool_work s' < pool_work s"
  using assms
proof (cases rule: pool_step.cases)
  case (hand_out t ts i)
  with sum_list_replace [of i "pl_workers s" worker_work "Running t"] show ?thesis
    by (simp add: pool_work_def)
next
  case (run i t)
  with sum_list_replace [of i "pl_workers s" worker_work "Sending (handleTask t)"] show ?thesis
    by (simp add: pool_work_def)
next
  case (deliver i res)
  with sum_list_replace [of i "pl_workers s" worker_work Listening] show ?thesis
    by (simp add: pool_work_def)
next
  case (stop i)
  with sum_list_replace [of i "pl_workers s" worker_work Stopped] show ?thesis
    by (simp add: pool_work_def)
qed (simp_all add: pool_work_def)

lemma pool_step_results:
  assumes "pool_step s s'"
  shows "pool_results s' = pool_results s"
  using assms
proof (cases rule: pool_step.cases)
  case (hand_out t ts i)
  with sum_list_replace [of i "pl_workers s" worker_owes "Running t"] show ?thesis
    by (simp add: pool_results_def)
next
  case (run i t)
  with sum_list_replace [of i "pl_workers s" worker_owes "Sending (handleTask t)"] show ?thesis
    by (simp add: pool_results_def)
next
  case (deliver i res)
  with sum_list_replace [of i "pl_workers s" worker_owes Listening] show ?thesis
    by (simp add: pool_results_def)
next
  case (stop i)
  with sum_list_replace [of i "pl_workers s" worker_owes Stopped] show ?thesis
    by (simp add: pool_results_def)
qed (simp_all add: pool_results_def)

lemma pool_step_flags:
  assumes "pool_step s s'" and "pool_ok cpus tasks s"
  shows "length (pl_workers s') = workerNum cpus tasks \<and> length (pl_tasks s') \<le> length tasks \<and>
    (pl_closed s' \<longrightarrow> pl_tasks s' = []) \<and> (Stopped \<in> set (pl_workers s') \<longrightarrow> pl_closed s') \<and>
    (pl_done s' \<longrightarrow> pl_closed s' \<and> list_all (\<lambda>w. w = Stopped) (pl_workers s'))"
  using assms
  by (cases rule: pool_step.cases)
    (auto simp: pool_ok_def list_all_length nth_list_update dest: set_update_subset_insert [THEN subsetD])

lemma pool_reach_ok: "pool_reach cpus tasks s \<Longrightarrow> pool_ok cpus tasks s"
  unfolding pool_reach_def
proof (induction rule: rtranclp_induct)
  case base
  have "(\<Sum>w \<leftarrow> replicate n Listening. worker_owes w) = {#}" for n
    by (induction n) (auto simp:)
  then show ?case
    by (auto simp: pool_ok_def HandleTasksConcurrently_def pool_results_def)
next
  case (step s s')
  then show ?case
    using pool_step_flags [OF step(2,3)] pool_step_results [OF step(2)] by (auto simp: pool_ok_def)
qed

lemma pool_progress:
  assumes ok: "pool_ok cpus tasks s" and "0 < cpus" and "\<not> pl_done s"
  shows "\<exists>s'. pool_step s s'"
proof -
  let ?ws = "pl_workers s"
  consider (running) t where "Running t \<in> set ?ws" | (sending) res where "Sending res \<in> set ?ws"
    | (idle) "\<forall>w \<in> set ?ws. w = Listening \<or> w = Stopped"
    by (metis worker.exhaust)
  then show ?thesis
  proof cases
    case running
    then show ?thesis by (metis in_set_conv_nth pool_step.run)
  next
    case sending
    then show ?thesis by (metis in_set_conv_nth pool_step.deliver)
  next
    case idle
    show ?thesis
    proof (cases "pl_tasks s")
      case Nil
      consider "\<not> pl_closed s" | "pl_closed s" "Listening \<in> set ?ws" | "pl_closed s" "list_all (\<lambda>w. w = Stopped) ?ws"
        using idle unfolding list_all_iff by metis
      then show ?thesis
        using Nil assms(3) by cases (metis pool_step.close_tasks, metis in_set_conv_nth pool_step.stop,
            metis pool_step.close_results)
    next
      case (Cons t ts)
      with ok have "Stopped \<notin> set ?ws" and "tasks \<noteq> []" by (auto simp: pool_ok_def)
      with ok assms(2) have "0 < length ?ws" by (auto simp: pool_ok_def workerNum_def)
      moreover from this idle \<open>Stopped \<notin> set ?ws\<close> have "?ws ! 0 = Listening" by (metis nth_mem)
      moreover note Cons
      ultimately show ?thesis by (metis pool_step.hand_out)
    qed
  qed
qed

lemma pool_finishes:
  assumes "pool_reach cpus tasks s" and "0 < cpus"
  shows "\<exists>s'. pool_step\<^sup>*\<^sup>* s s' \<and> pl_done s'"
  using assms(1)
proof (induction "pool_work s" arbitrary: s rule: less_induct)
  case less
  show ?case
  proof (cases "pl_done s")
    case True
    then show ?thesis by blast
  next
    case False
    with pool_progress [OF pool_reach_ok [OF less.prems] assms(2)] obtain s1 where s1: "pool_step s s1" by blast
    with less.prems have "pool_reach cpus tasks s1"
      by (auto simp: pool_reach_def)
    from less.hyps [OF pool_step_work [OF s1] this] s1 show ?thesis
      by (meson converse_rtranclp_into_rtranclp)
  qed
qed

lemma delivered_mset:
  assumes "delivered cpus tasks results"
  shows "mset results = mset (map handleTask tasks)"
proof -
  from assms obtain s where s: "pool_ok cpus tasks s" "pl_done s" "pl_results s = results"
    by (auto simp: delivered_def dest: pool_reach_ok)
  moreover have "list_all (\<lambda>w. w = Stopped) ws \<Longrightarrow> (\<Sum>w \<leftarrow> ws. worker_owes w) = {#}" for ws
    by (induction ws) auto
  ultimately have "(\<Sum>w \<leftarrow> pl_workers s. worker_owes w) = {#}" by (simp add: pool_ok_def)
  with s show ?thesis by (auto simp: pool_ok_def pool_results_def)
qed

section \<open>What is reported about the recorded results\<close>

lemma record_loop_errors:
  assumes "record_loop rcd fname recs r = Some (r', ws, es, alls, n)"
  shows "length alls = length es \<and> 0 \<le> n \<and> n \<le> int (length recs)"
  using assms
  by (induction recs arbitrary: r ws es alls n) (fastforce simp: Let_def split: option.splits if_splits)+

lemma record_loop_nil_item:
  assumes "rec \<in> set recs" and "rec_Item rec = None"
    and "\<And>r. case rcd rec r of None \<Rightarrow> True | Some (r', errs) \<Rightarrow> errs \<noteq> []"
  shows "record_loop rcd fname recs r = None"
  using assms(1)
proof (induction recs arbitrary: r)
  case Nil
  then show ?case by simp
next
  case (Cons x recs)
  show ?case
  proof (cases "x = rec")
    case True
    with assms(2) assms(3) [of r] show ?thesis by (auto split: option.splits)
  next
    case False
    with Cons.prems Cons.IH show ?thesis by (auto split: option.splits)
  qed
qed

lemma function_result_report:
  assumes "recordGatheringFunctionResult rcd result gname r = Some (r', report, errs)"
  shows "gr_FuncName report = gname @ ''/'' @ fr_FunctionName result \<and> gr_Panic report = fr_Panic result \<and>
    (gr_Errors report = [] \<longleftrightarrow> errs = []) \<and> 0 \<le> gr_RecordsCount report \<and>
    (fr_Panic result \<noteq> None \<longrightarrow> gr_Errors report \<noteq> [])"
  using assms record_loop_errors [of rcd "fr_FunctionName result" "fr_Records result" r]
  by (fastforce simp: recordGatheringFunctionResult_def ErrorsToStrings_def Let_def split: option.splits)

lemma results_loop_reports:
  assumes "results_loop rcd gname results r = Some (r', reports, n, errs)"
  shows "map gr_FuncName reports = map (\<lambda>result. gname @ ''/'' @ fr_FunctionName result) results \<and>
    map gr_Panic reports = map fr_Panic results \<and> n = (\<Sum>report \<leftarrow> reports. gr_RecordsCount report) \<and>
    (errs = [] \<longleftrightarrow> list_all (\<lambda>report. gr_Errors report = []) reports)"
  using assms
proof (induction results arbitrary: r reports n errs)
  case Nil
  then show ?case by auto
next
  case (Cons result results)
  from Cons.prems obtain r1 report e1 reports' n' e2 where
    1: "recordGatheringFunctionResult rcd result gname r = Some (r1, report, e1)"
    and 2: "results_loop rcd gname results r1 = Some (r', reports', n', e2)"
    and "reports = report # reports'" "n = gr_RecordsCount report + n'" "errs = e1 @ e2"
    by (auto split: option.splits)
  with Cons.IH [OF 2] function_result_report [OF 1] show ?case by auto
qed

lemma results_loop_panics:
  assumes "result \<in> set results" and "\<And>r. recordGatheringFunctionResult rcd result gname r = None"
  shows "results_loop rcd gname results r = None"
  using assms(1)
proof (induction results arbitrary: r)
  case Nil
  then show ?case by simp
next
  case (Cons x results)
  with assms(2) [of r] show ?case by (cases "x = result") (auto split: option.splits)
qed

section \<open>The recorder as an interface\<close>

text \<open>
  What the recording of results relies on: a record that encodes without a warning counts as recorded
  exactly when the recorder holds one record more, and a record without an item is an error.
\<close>

locale counting_recorder =
  fixes rcd :: "'r record_op"
    and stored :: "'r \<Rightarrow> int"
    and clean :: "Record \<Rightarrow> bool"
  assumes record_counts:
      "clean rec \<Longrightarrow> rcd rec r = Some (r', errs) \<Longrightarrow> stored r' = stored r + (if proper errs = [] then 1 else 0)"
    and nil_item_error: "rec_Item rec = None \<Longrightarrow> rcd rec r = Some (r', errs) \<Longrightarrow> errs \<noteq> []"
begin

lemma record_loop_counts:
  "list_all clean recs \<Longrightarrow> record_loop rcd fname recs r = Some (r', ws, es, alls, n) \<Longrightarrow>
   stored r' = stored r + n"
proof (induction recs arbitrary: r ws es alls n)
  case Nil
  then show ?case by simp
next
  case (Cons rec recs)
  from Cons.prems(2) obtain r1 errs ws' es' alls' n' where
    1: "rcd rec r = Some (r1, errs)" and 2: "record_loop rcd fname recs r1 = Some (r', ws', es', alls', n')"
    and n: "n = (if proper errs = [] then 1 else 0) + n'"
    by (auto simp: Let_def split: option.splits if_splits)
  from Cons.IH [OF _ 2] record_counts [OF _ 1] n Cons.prems(1) show ?case by simp
qed

lemma function_result_counts:
  "list_all clean (fr_Records result) \<Longrightarrow>
   recordGatheringFunctionResult rcd result gname r = Some (r', report, errs) \<Longrightarrow>
   stored r' = stored r + gr_RecordsCount report"
  by (auto simp: recordGatheringFunctionResult_def Let_def dest: record_loop_counts split: option.splits)

lemma results_loop_counts:
  "list_all (\<lambda>result. list_all clean (fr_Records result)) results \<Longrightarrow>
   results_loop rcd gname results r = Some (r', reports, n, errs) \<Longrightarrow> stored r' = stored r + n"
proof (induction results arbitrary: r reports n errs)
  case Nil
  then show ?case by simp
next
  case (Cons result results)
  from Cons.prems(2) obtain r1 report e1 reports' n' e2 where
    1: "recordGatheringFunctionResult rcd result gname r = Some (r1, report, e1)"
    and 2: "results_loop rcd gname results r1 = Some (r', reports', n', e2)"
    and "n = gr_RecordsCount report + n'"
    by (auto split: option.splits)
  with Cons.IH [OF _ 2] function_result_counts [OF _ 1] Cons.prems(1) show ?case by simp
qed

lemma collect_counts:
  assumes "startGatheringConcurrently g gatherConfigs = Inr tasks"
    and "list_all (\<lambda>result. list_all clean (fr_Records result)) (sched tasks)"
    and "CollectAndRecordGatherer rcd sched elapsed g gatherConfigs r = Some (r', reports, err)"
  shows "gr_RecordsCount (last reports) = stored r' - stored r"
  using assms results_loop_counts [OF assms(2), of "g_GetName g" r r']
  by (fastforce simp: CollectAndRecordGatherer_def collectAndRecordGatherer_def split: option.splits)

lemma nil_item_panics:
  assumes "rec \<in> set (fr_Records result)" and "rec_Item rec = None" and "result \<in> set results"
  shows "results_loop rcd gname results r = None"
proof (rule results_loop_panics [OF assms(3)])
  fix r
  have "record_loop rcd fname (fr_Records result) r = None" for fname
    using nil_item_error [OF assms(2)]
    by (intro record_loop_nil_item [where rec = rec] assms(1,2)) (auto split: option.split)
  then show "recordGatheringFunctionResult rcd result gname r = None"
    by (simp add: recordGatheringFunctionResult_def Let_def)
qed

end

lemma Errorf_not_warning [simp]: "\<not> isWarning (Errorf s)"
  by (simp add: isWarning_def)

lemma length_map_put: "length (map_put k v m) = length m + (if map_get m k = None then 1 else 0)"
  by (induction m) auto

lemma store_record_counts:
  assumes "store_record always name sz fp m r = (r', errs)"
  shows "int (length (r_records r')) = int (length (r_records r)) + (if proper errs = [] then 1 else 0)"
  using assms
  by (auto simp: store_record_def proper_def exceeds_error_def overwrite_error_def fingerprint_warning_def
      isWarning_def length_map_put Let_def split: if_splits option.splits)

text \<open>The recorder of the operator, with its list of anonymisers, gives what the interface asks for.\<close>

definition marshals_clean :: "Record \<Rightarrow> bool" where
  "marshals_clean rec =
     (case rec_Item rec of
        None \<Rightarrow> True
      | Some item \<Rightarrow> (case item_Marshal item of Inl e \<Rightarrow> \<not> isWarning e | Inr _ \<Rightarrow> True))"

definition operator_record ::
  "(NetworkAnonymizer \<Rightarrow> (NetworkAnonymizer \<times> go_error option) option) \<Rightarrow> InsightsConfiguration \<Rightarrow>
   (bytes \<Rightarrow> string) \<Rightarrow> (Record \<Rightarrow> time) \<Rightarrow> (bool \<times> NetworkAnonymizer list) Recorder record_op" where
  "operator_record load conf sha256 clock rec r =
     Recorder_Record (anonymizer_list load conf) sha256 (clock rec) rec r"

lemma operator_record_counts:
  assumes "marshals_clean rec" and "operator_record load conf sha256 clock rec r = Some (r', errs)"
  shows "int (length (r_records r')) = int (length (r_records r)) + (if proper errs = [] then 1 else 0)"
  using assms
  by (fastforce simp: operator_record_def Recorder_Record_def Record_Marshal_def anonymizer_list_def
      marshals_clean_def proper_def Errorf_not_warning Let_def
      split: option.splits sum.splits prod.splits dest: store_record_counts)

interpretation operator_recorder: counting_recorder "operator_record load conf sha256 clock"
  "\<lambda>r. int (length (r_records r))" marshals_clean for load conf sha256 clock
  by unfold_locales
    (simp add: operator_record_counts, auto simp: operator_record_def Recorder_Record_def)

section \<open>Properties\<close>

definition fn_enabled :: "GathererConfig list \<Rightarrow> string \<Rightarrow> string \<Rightarrow> bool" where
  "fn_enabled cs g f =
     (cs = [] \<or>
      (if \<lparr>gc_Name = g, gc_State = GathererStateDisabled\<rparr> \<in> set cs
       then \<lparr>gc_Name = g @ ''/'' @ f, gc_State = GathererStateEnabled\<rparr> \<in> set cs
       else \<lparr>gc_Name = g @ ''/'' @ f, gc_State = GathererStateDisabled\<rparr> \<notin> set cs))"

lemma hasGathererState_iff:
  "hasGathererState cs g st \<longleftrightarrow> \<lparr>gc_Name = g, gc_State = st\<rparr> \<in> set cs"
proof -
  have "x = \<lparr>gc_Name = gc_Name x, gc_State = gc_State x\<rparr>" for x :: GathererConfig by simp
  then show ?thesis unfolding hasGathererState_def list_ex_iff
    by (metis GathererConfig.select_convs(1,2))
qed

lemma started_tasks:
  assumes "startGatheringConcurrently g cs = Inr tasks"
  obtains fs where "g_GetGatheringFunctions g = Inr fs" "tasks \<noteq> []"
    "map tk_Name tasks = filter (fn_enabled cs (g_GetName g)) (map fst fs)"
proof -
  from assms obtain fs where fs: "g_GetGatheringFunctions g = Inr fs"
    by (auto simp: startGatheringConcurrently_def split: sum.splits)
  let ?fs = "filter (\<lambda>(f, c). fn_enabled cs (g_GetName g) f) fs"
  have "(if 0 < length cs then getEnabledGatheringFunctions (g_GetName g) fs cs else fs) = ?fs"
    by (auto simp: getEnabledGatheringFunctions_def fn_enabled_def hasGathererState_iff)
  with assms fs have t: "tasks = map (\<lambda>(n, c). \<lparr>tk_Name = n, tk_F = c\<rparr>) ?fs" "?fs \<noteq> []"
    by (auto simp: startGatheringConcurrently_def Let_def split: if_splits)
  have "map fst (filter (\<lambda>(f, c). P f) fs) = filter P (map fst fs)" for P :: "string \<Rightarrow> bool"
    by (induction fs) auto
  moreover have "map tk_Name (map (\<lambda>(n, c). \<lparr>tk_Name = n, tk_F = c\<rparr>) xs) = map fst xs" for xs
    by auto
  ultimately have "map tk_Name tasks = filter (fn_enabled cs (g_GetName g)) (map fst fs)"
    unfolding t(1) by metis
  with that [OF fs] t show thesis by simp
qed

lemma handleTask_name [simp]: "fr_FunctionName (handleTask t) = tk_Name t"
  by (auto simp: handleTask_def split: prod.split closure_run.split)

lemma delivered_single:
  assumes "0 < cpus"
  shows "delivered cpus [t] [handleTask t]"
proof -
  have "pool_reach cpus [t] (HandleTasksConcurrently cpus [t])" by (simp add: pool_reach_def)
  from pool_finishes [OF this assms] obtain s where s: "pool_reach cpus [t] s" "pl_done s"
    by (auto simp: pool_reach_def)
  then have d: "delivered cpus [t] (pl_results s)" by (auto simp: delivered_def)
  from delivered_mset [OF d] have "pl_results s = [handleTask t]" by simp
  with d show ?thesis by simp
qed

definition example_task :: Task where
  "example_task = \<lparr>tk_Name = ''nodes'', tk_F = (Returned [example_record] [], 7000000)\<rparr>"

definition example_gatherer :: gatherer where
  "example_gatherer =
     \<lparr>g_GetName = ''clusterconfig'', g_GetGatheringFunctions = Inr [(''nodes'', tk_F example_task)]\<rparr>"

lemma example_started: "startGatheringConcurrently example_gatherer [] = Inr [example_task]"
  by (simp add: startGatheringConcurrently_def example_gatherer_def example_task_def)

text \<open>
  C10: The pool of workers neither loses nor duplicates a result and always ends.  In every state that
  is reachable by any interleaving there are at most four workers per processor and never more than
  tasks; as long as the channel of results is open some step is possible; every step uses up work, so
  that every run closes the channel; and when it is closed, every task has delivered exactly one result.
\<close>

theorem pool_delivers:
  assumes "pool_reach cpus tasks s" and "0 < cpus"
  shows "length (pl_workers s) = min (4 * cpus) (length tasks) \<and>
    (\<not> pl_done s \<longrightarrow> (\<exists>s'. pool_step s s')) \<and>
    (\<forall>s'. pool_step s s' \<longrightarrow> pool_work s' < pool_work s) \<and>
    (\<exists>s'. pool_step\<^sup>*\<^sup>* s s' \<and> pl_done s') \<and>
    (pl_done s \<longrightarrow> mset (pl_results s) = mset (map handleTask tasks))"
proof -
  from pool_reach_ok [OF assms(1)] have "length (pl_workers s) = min (4 * cpus) (length tasks)"
    by (simp add: pool_ok_def workerNum_def)
  moreover have "pl_done s \<Longrightarrow> delivered cpus tasks (pl_results s)"
    using assms(1) by (auto simp: delivered_def)
  ultimately show ?thesis
    using pool_progress [OF pool_reach_ok [OF assms(1)] assms(2)] pool_step_work [of s]
      pool_finishes [OF assms] delivered_mset [of cpus tasks "pl_results s"] by blast
qed

theorem pool_delivers_witness:
  "\<exists>s. pool_reach 2 [example_task] s \<and> pl_done s \<and> mset (pl_results s) = {#handleTask example_task#}"
proof -
  have "delivered 2 [example_task] [handleTask example_task]" by (rule delivered_single) simp
  then obtain s where "pool_reach 2 [example_task] s" "pl_done s" by (auto simp: delivered_def)
  with pool_delivers [of 2 "[example_task]" s] show ?thesis by auto
qed

text \<open>
  C12: One report per enabled function, and one for the gatherer.  For every order in which the pool
  delivers, the functions reported are exactly those of the gatherer that the configuration enables,
  each once and with its panic; the last report carries the name of the gatherer and the sum of the
  counts; and the returned error is nil exactly when no function report has an error.
\<close>

theorem collect_reports:
  assumes "startGatheringConcurrently g cs = Inr tasks" and "g_GetGatheringFunctions g = Inr fs"
    and "delivered cpus tasks (sched tasks)"
    and "CollectAndRecordGatherer rcd sched elapsed g cs r = Some (r', reports, err)"
  shows "mset (map gr_FuncName (butlast reports)) =
      mset (map (\<lambda>f. g_GetName g @ ''/'' @ f) (filter (fn_enabled cs (g_GetName g)) (map fst fs))) \<and>
    mset (map gr_Panic (butlast reports)) = mset (map (fr_Panic \<circ> handleTask) tasks) \<and>
    gr_FuncName (last reports) = g_GetName g \<and>
    gr_RecordsCount (last reports) = (\<Sum>report \<leftarrow> butlast reports. gr_RecordsCount report) \<and>
    (err = None \<longleftrightarrow> list_all (\<lambda>report. gr_Errors report = []) (butlast reports))"
proof -
  from assms(1,4) obtain rs n errs where
    rs: "results_loop rcd (g_GetName g) (sched tasks) r = Some (r', rs, n, errs)"
    and b: "butlast reports = rs" and l: "gr_FuncName (last reports) = g_GetName g"
    "gr_RecordsCount (last reports) = n" and e: "err = UniqueErrors errs"
    by (auto simp: CollectAndRecordGatherer_def collectAndRecordGatherer_def split: option.splits)
  note loop = results_loop_reports [OF rs]
  note m = delivered_mset [OF assms(3)]
  have "mset (map gr_FuncName rs) =
      image_mset (\<lambda>result. g_GetName g @ ''/'' @ fr_FunctionName result) (mset (sched tasks))"
    using loop by (metis mset_map)
  also have "\<dots> = mset (map (\<lambda>f. g_GetName g @ ''/'' @ f) (map tk_Name tasks))"
    by (simp add: m multiset.map_comp comp_def)
  finally have names: "mset (map gr_FuncName rs) = \<dots>" .
  have "mset (map gr_Panic rs) = image_mset fr_Panic (mset (sched tasks))"
    using loop by (metis mset_map)
  then have panics: "mset (map gr_Panic rs) = mset (map (fr_Panic \<circ> handleTask) tasks)"
    by (simp add: m multiset.map_comp)
  obtain fs' where "g_GetGatheringFunctions g = Inr fs'"
    "map tk_Name tasks = filter (fn_enabled cs (g_GetName g)) (map fst fs')"
    by (rule started_tasks [OF assms(1)])
  with assms(2) names panics b l e loop show ?thesis by (simp add: UniqueErrors_def)
qed

theorem collect_reports_witness:
  "\<exists>r' reports err. CollectAndRecordGatherer (\<lambda>rec n. Some (n + 1, [])) (map handleTask) 8000000
      example_gatherer [] (0 :: int) = Some (r', reports, err) \<and>
    gr_RecordsCount (last reports) = (\<Sum>report \<leftarrow> butlast reports. gr_RecordsCount report) \<and>
    mset (map gr_FuncName (butlast reports)) = {#''clusterconfig/nodes''#}"
proof -
  let ?c = "CollectAndRecordGatherer (\<lambda>rec n. Some (n + 1, [])) (map handleTask) 8000000
      example_gatherer [] (0 :: int)"
  have "?c \<noteq> None"
    by (simp add: CollectAndRecordGatherer_def collectAndRecordGatherer_def example_started
        example_task_def handleTask_def recordGatheringFunctionResult_def Let_def)
  then obtain r' reports err where c: "?c = Some (r', reports, err)" by auto
  have "delivered 1 [example_task] (map handleTask [example_task])" using delivered_single [of 1] by simp
  from collect_reports [OF example_started _ this c] c show ?thesis
    by (simp add: example_gatherer_def fn_enabled_def)
qed

text \<open>
  C11: The number of records reported for a gatherer is the number of records it added to the archive.
  With the recorder of the operator, whatever anonymisers it has and in whatever order the results
  arrive, the count of the last report is the difference of the numbers of stored records: what is too
  big, empty, or overwrites an earlier record is not counted.
\<close>

theorem reported_count:
  assumes "startGatheringConcurrently g cs = Inr tasks" and "delivered cpus tasks (sched tasks)"
    and "list_all (\<lambda>t. list_all marshals_clean (fr_Records (handleTask t))) tasks"
    and "CollectAndRecordGatherer (operator_record load conf sha256 clock) sched elapsed g cs r =
      Some (r', reports, err)"
  shows "gr_RecordsCount (last reports) = int (length (r_records r')) - int (length (r_records r))"
proof -
  from delivered_mset [OF assms(2)] have "set (sched tasks) = handleTask ` set tasks"
    by (metis list.set_map mset_eq_setD)
  with assms(3) have "list_all (\<lambda>result. list_all marshals_clean (fr_Records result)) (sched tasks)"
    by (simp add: list_all_iff)
  from operator_recorder.collect_counts [OF assms(1) this assms(4)] show ?thesis .
qed

theorem reported_count_witness:
  "\<forall>load conf. \<exists>r' reports err. CollectAndRecordGatherer (operator_record load conf (\<lambda>_. ''fp'') (\<lambda>_. 9))
      (map handleTask) 8000000 example_gatherer [] (New Hour None) = Some (r', reports, err) \<and>
    gr_RecordsCount (last reports) = 1 \<and> length (r_records r') = 1"
proof (intro allI)
  fix load conf
  let ?c = "CollectAndRecordGatherer (operator_record load conf (\<lambda>_. ''fp'') (\<lambda>_. 9))
      (map handleTask) 8000000 example_gatherer [] (New Hour None)"
  have "r_anonymizer (New Hour None) = None" by (simp add: New_def)
  from Record_built [OF example_built this, of "anonymizer_list load conf"]
  obtain r1 where r1: "operator_record load conf (\<lambda>_. ''fp'') (\<lambda>_. 9) example_record (New Hour None) = Some (r1, [])"
    "length (r_records r1) = 1"
    by (simp add: operator_record_def store_record_def New_def example_record_def data_len_def
        data_bytes_def MaxArchiveSize_def Let_def)
  have "\<exists>r' reports err. ?c = Some (r', reports, err) \<and> length (r_records r') = 1"
    by (simp add: CollectAndRecordGatherer_def collectAndRecordGatherer_def example_started
        example_task_def handleTask_def recordGatheringFunctionResult_def r1 Let_def)
  then obtain r' reports err where c: "?c = Some (r', reports, err)" "length (r_records r') = 1" by auto
  have d: "delivered 1 [example_task] (map handleTask [example_task])" using delivered_single [of 1] by simp
  have "list_all (\<lambda>t. list_all marshals_clean (fr_Records (handleTask t))) [example_task]"
    by (simp add: example_task_def handleTask_def marshals_clean_def example_record_def example_item_def)
  from reported_count [OF example_started d this c(1)] c show "\<exists>r' reports err. ?c = Some (r', reports, err) \<and>
    gr_RecordsCount (last reports) = 1 \<and> length (r_records r') = 1"
    by (simp add: New_def)
qed

text \<open>
  A record without an item crashes the gathering.  The recorder answers such a record with an error,
  but the message built for it asks the missing item for its file name: whenever a function returns such
  a record, the collection of the whole gatherer panics, in every order of delivery.
\<close>

lemma nil_item_crashes:
  assumes "startGatheringConcurrently g cs = Inr tasks" and "delivered cpus tasks (sched tasks)"
    and "t \<in> set tasks" and "rec \<in> set (fr_Records (handleTask t))" and "rec_Item rec = None"
  shows "CollectAndRecordGatherer (operator_record load conf sha256 clock) sched elapsed g cs r = None"
proof -
  from delivered_mset [OF assms(2)] assms(3) have "handleTask t \<in> set (sched tasks)"
    by (metis image_eqI list.set_map mset_eq_setD)
  from operator_recorder.nil_item_panics [OF assms(4,5) this] assms(1) show ?thesis
    by (simp add: CollectAndRecordGatherer_def collectAndRecordGatherer_def)
qed

lemma metadata_filename:
  "ensureSafeFilenameLength (MetadataRecordName @ ''.'' @ JSONExtension) = Some ''insights-operator/gathers.json''"
  by code_simp

text \<open>
  The metadata of the archive is always recorded.  However full the recorder is, recording the archive
  metadata whose encoding succeeds stores it, as the anonymisers of the recorder leave it, and keeps
  every other record.
\<close>

lemma metadata_stored:
  assumes "to_json \<lparr>am_StatusReports = reports, am_MemoryBytesUsage = 0, am_Uptime = Milliseconds since,
      am_IsGlobalObfuscationEnabled = obf\<rparr> = Inr data"
    and "RecordArchiveMetadata (operator_record load conf sha256 clock) to_json reports since obf r = Some (r', err)"
  shows "\<exists>m a m'. mr_Name m = ''insights-operator/gathers.json'' \<and> mr_Data m = data \<and>
    anonymized (anonymizer_list load conf) (r_anonymizer r) m = Some (a, Inr m') \<and> r_anonymizer r' = a \<and>
    map_get (r_records r') = (map_get (r_records r))(mr_Name m' \<mapsto> m')"
proof -
  let ?rec = "\<lparr>rec_Name = MetadataRecordName, rec_Captured = 0,
    rec_Item = Some \<lparr>item_Marshal = Inr data, item_GetExtension = JSONExtension\<rparr>, rec_AlwaysStored = True\<rparr>"
  let ?m = "\<lparr>mr_Name = ''insights-operator/gathers.json'', mr_At = clock ?rec, mr_Data = data,
    mr_Fingerprint = sha256 (data_bytes data)\<rparr>"
  have b: "built_record sha256 (clock ?rec) ?rec = Some ?m"
    using metadata_filename by (simp add: built_record_def Record_Marshal_def GetFilename_def)
  from assms obtain errs where
    rec: "Recorder_Record (anonymizer_list load conf) sha256 (clock ?rec) ?rec r = Some (r', errs)"
    by (auto simp: RecordArchiveMetadata_def operator_record_def Let_def split: option.splits)
  then obtain a res where an: "anonymized (anonymizer_list load conf) (r_anonymizer r) ?m = Some (a, res)"
    by (auto simp: Record_outcome [OF b] split: option.splits)
  from anonymized_no_error [OF an] obtain m' where res: "res = Inr m'" by blast
  let ?s = "store_record True (mr_Name ?m) (data_len data) (sha256 (data_bytes data)) m' (r\<lparr>r_anonymizer := a\<rparr>)"
  have r': "r' = fst ?s" using rec an res by (simp add: Record_outcome [OF b])
  have "map_get (r_records r') = (map_get (r_records r))(mr_Name m' \<mapsto> m')"
    unfolding r' by (intro ext) (simp add: store_record_lookup)
  moreover have "r_anonymizer r' = a" unfolding r' by simp
  ultimately show ?thesis using an res by (intro exI [of _ ?m]) auto
qed

end
