(* ===== verification/ControllerStatus.thy ===== *)
theory ControllerStatus
  imports Utils
begin

text \<open>
  pkg/controllerstatus/controllerstatus.go: the status of a part of the operator, which the status
  controller reads.  Every operation takes the lock, so it is one step.
\<close>

section \<open>State and operations\<close>

record Operation =
  op_Name :: string
  op_HTTPStatusCode :: int

record Summary =
  sm_Operation :: Operation
  sm_Healthy :: bool
  sm_Reason :: string
  sm_Message :: string
  sm_LastTransitionTime :: time
  sm_Count :: int

definition DownloadingReport :: string where "DownloadingReport = ''DownloadingReport''"
definition Uploading :: string where "Uploading = ''Uploading''"
definition GatheringReport :: string where "GatheringReport = ''GatheringReport''"
definition PullingSCACerts :: string where "PullingSCACerts = ''PullingSCACerts''"
definition PullingClusterTransfer :: string where "PullingClusterTransfer = ''PullingClusterTransfer''"
definition RemoteConfigurationStatus :: string where
  "RemoteConfigurationStatus = ''RemoteConfigurationStatus''"

lemmas operation_names =
  DownloadingReport_def Uploading_def GatheringReport_def PullingSCACerts_def
  PullingClusterTransfer_def RemoteConfigurationStatus_def

definition zero_Summary :: Summary where
  "zero_Summary =
     \<lparr>sm_Operation = \<lparr>op_Name = [], op_HTTPStatusCode = 0\<rparr>, sm_Healthy = False, sm_Reason = [],
      sm_Message = [], sm_LastTransitionTime = 0, sm_Count = 0\<rparr>"

text \<open>\<open>Simple\<close> keeps a name, which never changes, and the summary.\<close>

definition UpdateStatus :: "time \<Rightarrow> Summary \<Rightarrow> Summary \<Rightarrow> Summary" where
  "UpdateStatus now new s =
     (let s = (if sm_LastTransitionTime new = 0 then s\<lparr>sm_LastTransitionTime := now\<rparr> else s)
      in if 0 < sm_Count new then new
         else if sm_Healthy s \<noteq> sm_Healthy new
         then new\<lparr>sm_Count := 1, sm_LastTransitionTime := sm_LastTransitionTime new\<rparr>
         else let s = s\<lparr>sm_Count := sm_Count s + 1\<rparr>
              in if sm_Message s \<noteq> sm_Message new \<or> sm_Reason s \<noteq> sm_Reason new
                 then s\<lparr>sm_Reason := sm_Reason new, sm_Message := sm_Message new,
                        sm_Operation := sm_Operation new,
                        sm_LastTransitionTime := sm_LastTransitionTime new\<rparr>
                 else s)"

definition CurrentStatus :: "Summary \<Rightarrow> Summary option" where
  "CurrentStatus s = (if sm_Count s = 0 then None else Some s)"

section \<open>The interface\<close>

text \<open>
  What the status controller relies on of a source (the interface \<open>StatusController\<close>): once it was
  updated it is ready, and it shows the health, the reason and the message of the last update.
\<close>

locale status_source =
  fixes update :: "time \<Rightarrow> Summary \<Rightarrow> 's \<Rightarrow> 's"
    and current :: "'s \<Rightarrow> Summary option"
    and ok :: "'s \<Rightarrow> bool"
  assumes update_ok: "ok s \<Longrightarrow> ok (update now new s)"
    and update_current: "ok s \<Longrightarrow> \<exists>sm. current (update now new s) = Some sm \<and>
      sm_Healthy sm = sm_Healthy new \<and> sm_Reason sm = sm_Reason new \<and> sm_Message sm = sm_Message new"
begin

lemma updates_ok: "ok s \<Longrightarrow> ok (fold (\<lambda>(now, new). update now new) us s)"
  by (induction us arbitrary: s) (auto simp: update_ok)

lemma updates_current:
  assumes "ok s" and "us \<noteq> []"
  shows "\<exists>sm. current (fold (\<lambda>(now, new). update now new) us s) = Some sm \<and>
    sm_Healthy sm = sm_Healthy (snd (last us)) \<and> sm_Reason sm = sm_Reason (snd (last us)) \<and>
    sm_Message sm = sm_Message (snd (last us))"
proof -
  obtain vs u where us: "us = vs @ [u]" using assms(2) by (metis rev_exhaust)
  with updates_ok [OF assms(1), of vs] update_current show ?thesis by (auto simp: case_prod_beta)
qed

end

definition simple_ok :: "Summary \<Rightarrow> bool" where
  "simple_ok s = (0 \<le> sm_Count s)"

interpretation simple: status_source UpdateStatus CurrentStatus simple_ok
  by unfold_locales (auto simp: UpdateStatus_def CurrentStatus_def simple_ok_def Let_def)

section \<open>Counting\<close>

text \<open>
  A run of updates with the same health: the counter of a source that already has this health grows
  with every update.
\<close>

lemma UpdateStatus_same_health:
  assumes "sm_Count new = 0" and "sm_Healthy s = sm_Healthy new"
  shows "sm_Count (UpdateStatus now new s) = sm_Count s + 1 \<and>
    sm_Healthy (UpdateStatus now new s) = sm_Healthy s"
  using assms by (simp add: UpdateStatus_def Let_def)

lemma UpdateStatus_new_health:
  assumes "sm_Count new = 0" and "sm_Healthy s \<noteq> sm_Healthy new"
  shows "sm_Count (UpdateStatus now new s) = 1 \<and> sm_Healthy (UpdateStatus now new s) = sm_Healthy new"
  using assms by (simp add: UpdateStatus_def Let_def)

lemma updates_count:
  assumes "list_all (\<lambda>(now, new). sm_Count new = 0 \<and> sm_Healthy new = h) us" and "sm_Healthy s = h"
  shows "sm_Count (fold (\<lambda>(now, new). UpdateStatus now new) us s) = sm_Count s + int (length us) \<and>
    sm_Healthy (fold (\<lambda>(now, new). UpdateStatus now new) us s) = h"
  using assms
proof (induction us arbitrary: s)
  case Nil
  then show ?case by simp
next
  case (Cons u us)
  obtain now new where u: "u = (now, new)" by (cases u)
  from Cons.prems have "sm_Count new = 0" and "sm_Healthy s = sm_Healthy new" by (auto simp: u)
  from UpdateStatus_same_health [OF this, of now] Cons u show ?case by simp
qed

text \<open>All updates of one operation: the source keeps the name of the operation.\<close>

lemma updates_operation:
  assumes "list_all (\<lambda>(now, new). sm_Count new = 0 \<and> sm_Operation new = p \<and> sm_Message new \<noteq> []) us"
    and "sm_Operation s = p \<or> sm_Message s = []" and "us \<noteq> []"
  shows "sm_Operation (fold (\<lambda>(now, new). UpdateStatus now new) us s) = p"
  using assms
proof (induction us arbitrary: s)
  case Nil
  then show ?case by simp
next
  case (Cons u us)
  obtain now new where u: "u = (now, new)" by (cases u)
  have "sm_Operation (UpdateStatus now new s) = p"
    using Cons.prems by (auto simp: u UpdateStatus_def Let_def)
  with Cons u show ?case by (cases us) auto
qed

end
