(* ===== verification/Conditions.thy ===== *)
theory Conditions
  imports ControllerStatus
begin

text \<open>
  pkg/controller/status/conditions.go and status.go: the conditions of the cluster operator, kept in a
  map by type, and the map of controller statuses.  The maps are association lists, in any order.
\<close>

section \<open>Conditions\<close>

abbreviation ConditionTrue :: string where "ConditionTrue \<equiv> ''True''"
abbreviation ConditionFalse :: string where "ConditionFalse \<equiv> ''False''"
abbreviation ConditionUnknown :: string where "ConditionUnknown \<equiv> ''Unknown''"

definition OperatorAvailable :: string where "OperatorAvailable = ''Available''"
definition OperatorProgressing :: string where "OperatorProgressing = ''Progressing''"
definition OperatorDegraded :: string where "OperatorDegraded = ''Degraded''"
definition OperatorDisabled :: string where "OperatorDisabled = ''Disabled''"
definition InsightsUploadDegraded :: string where "InsightsUploadDegraded = ''UploadDegraded''"
definition InsightsDownloadDegraded :: string where
  "InsightsDownloadDegraded = ''InsightsDownloadDegraded''"
definition ClusterTransferAvailable :: string where
  "ClusterTransferAvailable = ''ClusterTransferAvailable''"
definition SCAAvailable :: string where "SCAAvailable = ''SCAAvailable''"
definition RemoteConfigurationAvailable :: string where
  "RemoteConfigurationAvailable = ''RemoteConfigurationAvailable''"
definition RemoteConfigurationValid :: string where
  "RemoteConfigurationValid = ''RemoteConfigurationValid''"
definition GatheringDisabled :: string where "GatheringDisabled = ''GatheringDisabled''"

lemmas condition_types [status_simps] =
  OperatorAvailable_def OperatorProgressing_def OperatorDegraded_def OperatorDisabled_def
  InsightsUploadDegraded_def InsightsDownloadDegraded_def ClusterTransferAvailable_def
  SCAAvailable_def RemoteConfigurationAvailable_def RemoteConfigurationValid_def
  GatheringDisabled_def

record Condition =
  cn_Type :: string
  cn_Status :: string
  cn_LastTransitionTime :: time
  cn_Reason :: string
  cn_Message :: string

type_synonym conditions = "(string, Condition) gomap"

definition initial_condition :: "time \<Rightarrow> string \<Rightarrow> string \<times> Condition" where
  "initial_condition t ty =
     (ty, \<lparr>cn_Type = ty, cn_Status = ConditionUnknown, cn_LastTransitionTime = t, cn_Reason = [],
           cn_Message = []\<rparr>)"

definition newConditions :: "Condition list \<Rightarrow> time \<Rightarrow> conditions" where
  "newConditions cos t =
     foldl (\<lambda>entries c. map_put (cn_Type c) c entries)
       (map (initial_condition t)
         [OperatorAvailable, OperatorProgressing, OperatorDegraded, SCAAvailable,
          ClusterTransferAvailable, RemoteConfigurationAvailable, RemoteConfigurationValid,
          GatheringDisabled])
       cos"

definition setCondition ::
  "time \<Rightarrow> string \<Rightarrow> string \<Rightarrow> string \<Rightarrow> string \<Rightarrow> conditions \<Rightarrow> conditions" where
  "setCondition now conditionType status reason message c =
     (let transitionTime =
        (case map_get c conditionType of
           Some original \<Rightarrow>
             if cn_Status original = status then cn_LastTransitionTime original else now
         | None \<Rightarrow> now)
      in map_put conditionType
           \<lparr>cn_Type = conditionType, cn_Status = status, cn_LastTransitionTime = transitionTime,
            cn_Reason = reason, cn_Message = message\<rparr> c)"

definition removeCondition :: "string \<Rightarrow> conditions \<Rightarrow> conditions" where
  "removeCondition condition c = AList.delete condition c"

definition hasCondition :: "string \<Rightarrow> conditions \<Rightarrow> bool" where
  "hasCondition condition c = map_has c condition"

definition findCondition :: "string \<Rightarrow> conditions \<Rightarrow> Condition option" where
  "findCondition condition c = map_get c condition"

definition condition_less :: "Condition \<Rightarrow> Condition \<Rightarrow> bool" where
  "condition_less a b = (cn_Type a < cn_Type b)"

definition entries :: "conditions \<Rightarrow> Condition list" where
  "entries c = sort_by condition_less (map snd c)"

section \<open>Controller statuses\<close>

definition DisabledStatus :: string where "DisabledStatus = ''disabled''"
definition UploadStatus :: string where "UploadStatus = ''upload''"
definition DownloadStatus :: string where "DownloadStatus = ''download''"
definition ErrorStatus :: string where "ErrorStatus = ''error''"
definition RemoteConfigAvailableStatus :: string where
  "RemoteConfigAvailableStatus = ''remoteConfigAvailable''"

lemmas status_ids [status_simps] =
  DisabledStatus_def UploadStatus_def DownloadStatus_def ErrorStatus_def
  RemoteConfigAvailableStatus_def

record statusMessage =
  st_reason :: string
  st_message :: string

type_synonym controllerStatus = "(string, statusMessage) gomap"

definition setStatus :: "string \<Rightarrow> string \<Rightarrow> string \<Rightarrow> controllerStatus \<Rightarrow> controllerStatus" where
  "setStatus sid reason message c =
     (let changed = (case map_get c sid of
                       None \<Rightarrow> True
                     | Some existing \<Rightarrow> st_reason existing \<noteq> reason \<or> st_message existing \<noteq> message)
      in if changed then map_put sid \<lparr>st_reason = reason, st_message = message\<rparr> c else c)"

definition getStatus :: "string \<Rightarrow> controllerStatus \<Rightarrow> statusMessage option" where
  "getStatus sid c = map_get c sid"

definition hasStatus :: "string \<Rightarrow> controllerStatus \<Rightarrow> bool" where
  "hasStatus sid c = map_has c sid"

definition reset :: "controllerStatus \<Rightarrow> controllerStatus" where
  "reset c = []"

definition isHealthy :: "controllerStatus \<Rightarrow> bool" where
  "isHealthy c = (\<not> hasStatus ErrorStatus c)"

definition isDisabled :: "controllerStatus \<Rightarrow> bool" where
  "isDisabled c = hasStatus DisabledStatus c"

section \<open>Lemmas\<close>

lemma getStatus_setStatus [simp]:
  "getStatus k (setStatus k' r m c) = (if k = k' then Some \<lparr>st_reason = r, st_message = m\<rparr> else getStatus k c)"
  by (auto simp: getStatus_def setStatus_def Let_def split: option.splits)

lemma hasStatus_getStatus: "hasStatus k c \<longleftrightarrow> getStatus k c \<noteq> None"
  by (simp add: hasStatus_def getStatus_def map_has_def)

lemma map_get_setCondition [simp]:
  "map_get (setCondition now ty st r m c) k =
    (if k = ty then Some \<lparr>cn_Type = ty, cn_Status = st,
       cn_LastTransitionTime = (case map_get c ty of
          Some o1 \<Rightarrow> if cn_Status o1 = st then cn_LastTransitionTime o1 else now | None \<Rightarrow> now),
       cn_Reason = r, cn_Message = m\<rparr> else map_get c k)"
  by (simp add: setCondition_def Let_def)

lemma map_get_removeCondition [simp]:
  "map_get (removeCondition ty c) k = (if k = ty then None else map_get c k)"
  by (simp add: removeCondition_def AList.delete_conv')

definition conditions_ok :: "conditions \<Rightarrow> bool" where
  "conditions_ok c = (distinct (map fst c) \<and> list_all (\<lambda>(k, v). cn_Type v = k) c)"

lemma map_put_ok:
  "conditions_ok c \<Longrightarrow> cn_Type v = k \<Longrightarrow> conditions_ok (map_put k v c)"
  using set_map_put_subset [of k v c]
  by (auto simp: conditions_ok_def list_all_iff)

lemma setCondition_ok [simp]: "conditions_ok c \<Longrightarrow> conditions_ok (setCondition now ty st r m c)"
  by (simp add: setCondition_def Let_def map_put_ok)

lemma removeCondition_ok [simp]: "conditions_ok c \<Longrightarrow> conditions_ok (removeCondition ty c)"
  by (auto simp: conditions_ok_def removeCondition_def list_all_iff AList.delete_eq
      distinct_map_filter)

lemma newConditions_ok: "conditions_ok (newConditions cos t)"
proof -
  have "conditions_ok (foldl (\<lambda>entries c. map_put (cn_Type c) c entries) es cos)"
    if "conditions_ok es" for es
    using that by (induction cos arbitrary: es) (auto simp: map_put_ok)
  moreover have "conditions_ok (map (initial_condition t)
      [OperatorAvailable, OperatorProgressing, OperatorDegraded, SCAAvailable,
       ClusterTransferAvailable, RemoteConfigurationAvailable, RemoteConfigurationValid,
       GatheringDisabled])"
    by (simp add: conditions_ok_def initial_condition_def status_simps)
  ultimately show ?thesis by (simp add: newConditions_def)
qed

interpretation by_type: strict_weak_order condition_less
  by unfold_locales (auto simp: condition_less_def)

lemma types_entries:
  assumes "conditions_ok c"
  shows "sorted (map cn_Type (entries c)) \<and> distinct (map cn_Type (entries c)) \<and>
    set (map cn_Type (entries c)) = fst ` set c"
proof -
  have "map cn_Type (map snd c) = map fst c"
    using assms by (auto simp: conditions_ok_def list_all_iff)
  then have "mset (map cn_Type (entries c)) = mset (map fst c)"
    by (metis entries_def mset_map mset_sort_by)
  moreover have "sorted (map cn_Type (entries c))"
    using by_type.sorted_sort_by [of "map snd c"]
    by (simp add: entries_def sorted_map condition_less_def not_less)
  ultimately show ?thesis
    using assms by (metis conditions_ok_def image_set mset_eq_imp_distinct_iff mset_eq_setD)
qed

text \<open>Two sorted lists with the same elements and distinct keys are equal.\<close>

lemma sorted_key_unique:
  fixes f :: "'a \<Rightarrow> 'b :: linorder"
  assumes "sorted (map f xs)" "distinct (map f xs)" "sorted (map f ys)" "distinct (map f ys)"
    and "set xs = set ys"
  shows "xs = ys"
proof (rule map_sorted_distinct_set_unique [OF _ assms(1-4)])
  show "inj_on f (set xs \<union> set ys)" using assms by (simp add: distinct_map)
  show "set xs = set ys" by (rule assms(5))
qed

lemma entries_unique:
  assumes "conditions_ok c" and "conditions_ok d" and "map_get c = map_get d"
  shows "entries c = entries d"
proof (rule sorted_key_unique [where f = cn_Type])
  have "set c = set d"
    using assms by (metis conditions_ok_def map_of_inject_set)
  then show "set (entries c) = set (entries d)" by (simp add: entries_def)
qed (use types_entries [OF assms(1)] types_entries [OF assms(2)] in auto)

end
