(* ===== verification/DataGatherStatus.thy ===== *)
theory DataGatherStatus
  imports Gather Conditions
begin

text \<open>
  pkg/controller/status/datagather_status.go and gatherer_status.go: the conditions and times of a
  DataGather resource and the statuses of the gatherers derived from their reports.

  The client of the API is an argument: \<open>upd\<close> answers an update of the status, \<open>got\<close> is the answer to a
  read.  One reading of the clock serves one call.  32 and 64 bit integers are integers with the
  wrap-around of a conversion written out.
\<close>

section \<open>Resources\<close>

record MetaCondition =
  mc_Type :: string
  mc_LastTransitionTime :: time
  mc_Status :: string
  mc_Reason :: string
  mc_Message :: string

record GathererStatus =
  gs_Name :: string
  gs_LastGatherSeconds :: "int option"
  gs_Conditions :: "MetaCondition list"

record HealthCheck =
  hc_Description :: string
  hc_TotalRisk :: string
  hc_AdvisorURI :: string

record InsightsReport =
  ir_DownloadedTime :: time
  ir_HealthChecks :: "HealthCheck list"
  ir_URI :: string

record DataGather =
  dg_Name :: string
  dg_StartTime :: time
  dg_FinishTime :: time
  dg_Conditions :: "MetaCondition list"
  dg_Gatherers :: "GathererStatus list"
  dg_InsightsReport :: InsightsReport
  dg_InsightsRequestID :: string

record OperatorGathererStatus =
  ogs_Name :: string
  ogs_LastGatherDuration :: duration
  ogs_Conditions :: "MetaCondition list"

record OperatorHealthCheck =
  ohc_Description :: string
  ohc_TotalRisk :: int
  ohc_State :: string
  ohc_AdvisorURI :: string

record InsightsOperatorStatus =
  os_LastGatherTime :: time
  os_LastGatherDuration :: duration
  os_Gatherers :: "OperatorGathererStatus list"
  os_DownloadedAt :: time
  os_HealthChecks :: "OperatorHealthCheck list"

section \<open>Conditions of a DataGather resource\<close>

definition DataUploaded :: string where "DataUploaded = ''DataUploaded''"
definition DataRecorded :: string where "DataRecorded = ''DataRecorded''"
definition DataProcessed :: string where "DataProcessed = ''DataProcessed''"
definition ProgressingType :: string where "ProgressingType = ''Progressing''"
definition DataGatheringPendingReason :: string where "DataGatheringPendingReason = ''DataGatherPending''"
definition GatheringReason :: string where "GatheringReason = ''Gathering''"
definition GatheringSucceededReason :: string where "GatheringSucceededReason = ''GatheringSucceeded''"
definition GatheringFailedReason :: string where "GatheringFailedReason = ''GatheringFailed''"

lemmas gathering_reasons = DataGatheringPendingReason_def GatheringReason_def GatheringSucceededReason_def
  GatheringFailedReason_def

definition ProgressingCondition :: "time \<Rightarrow> string \<Rightarrow> MetaCondition" where
  "ProgressingCondition now gatheringReason =
     (let (progressingStatus, progressingMessage) =
        (if gatheringReason = DataGatheringPendingReason
         then (ConditionFalse, ''The gathering has not started yet'')
         else if gatheringReason = GatheringReason then (ConditionTrue, ''The gathering is running'')
         else if gatheringReason = GatheringSucceededReason
         then (ConditionFalse, ''The gathering successfully finished.'')
         else if gatheringReason = GatheringFailedReason then (ConditionFalse, ''The gathering failed.'')
         else (ConditionFalse, []))
      in \<lparr>mc_Type = ProgressingType, mc_LastTransitionTime = now, mc_Status = progressingStatus,
          mc_Reason = gatheringReason, mc_Message = progressingMessage\<rparr>)"

definition DataUploadedCondition :: "time \<Rightarrow> string \<Rightarrow> string \<Rightarrow> string \<Rightarrow> MetaCondition" where
  "DataUploadedCondition now status reason message =
     \<lparr>mc_Type = DataUploaded, mc_LastTransitionTime = now, mc_Status = status, mc_Reason = reason,
      mc_Message = message\<rparr>"

definition DataRecordedCondition :: "time \<Rightarrow> string \<Rightarrow> string \<Rightarrow> string \<Rightarrow> MetaCondition" where
  "DataRecordedCondition now status reason message =
     \<lparr>mc_Type = DataRecorded, mc_LastTransitionTime = now, mc_Status = status, mc_Reason = reason,
      mc_Message = message\<rparr>"

definition DataProcessedCondition :: "time \<Rightarrow> string \<Rightarrow> string \<Rightarrow> string \<Rightarrow> MetaCondition" where
  "DataProcessedCondition now status reason message =
     \<lparr>mc_Type = DataProcessed, mc_LastTransitionTime = now, mc_Status = status, mc_Reason = reason,
      mc_Message = message\<rparr>"

definition RemoteConfigurationAvailableCondition ::
  "time \<Rightarrow> string \<Rightarrow> string \<Rightarrow> string \<Rightarrow> MetaCondition" where
  "RemoteConfigurationAvailableCondition now status reason message =
     \<lparr>mc_Type = RemoteConfigurationAvailable, mc_LastTransitionTime = now, mc_Status = status,
      mc_Reason = reason, mc_Message = message\<rparr>"

definition RemoteConfigurationValidCondition ::
  "time \<Rightarrow> string \<Rightarrow> string \<Rightarrow> string \<Rightarrow> MetaCondition" where
  "RemoteConfigurationValidCondition now status reason message =
     \<lparr>mc_Type = RemoteConfigurationValid, mc_LastTransitionTime = now, mc_Status = status,
      mc_Reason = reason, mc_Message = message\<rparr>"

text \<open>Neither loop stops at the first match.\<close>

definition GetConditionByType :: "DataGather \<Rightarrow> string \<Rightarrow> MetaCondition option" where
  "GetConditionByType dataGather conType =
     fold (\<lambda>con c. if mc_Type con = conType then Some con else c) (dg_Conditions dataGather) None"

definition getConditionIndexByType :: "string \<Rightarrow> MetaCondition list \<Rightarrow> int" where
  "getConditionIndexByType conType conditions =
     fold (\<lambda>(i, con) idx. if mc_Type con = conType then int i else idx) (enumerate 0 conditions) (- 1)"

definition put_condition :: "MetaCondition \<Rightarrow> MetaCondition list \<Rightarrow> MetaCondition list" where
  "put_condition condition conditions =
     (let idx = getConditionIndexByType (mc_Type condition) conditions
      in if idx \<noteq> - 1 then conditions[nat idx := condition] else conditions @ [condition])"

text \<open>
  The resource is a pointer: the first component is what it holds after the call, whatever the server
  answers.
\<close>

definition UpdateDataGatherConditions ::
  "(DataGather \<Rightarrow> DataGather result) \<Rightarrow> DataGather option \<Rightarrow> MetaCondition list \<Rightarrow>
   DataGather option \<times> DataGather result" where
  "UpdateDataGatherConditions upd dataGather conditions =
     (case dataGather of
        None \<Rightarrow> (None, Inl (Errorf ''cannot update DataGather status: resource is nil''))
      | Some dg \<Rightarrow>
          let dg = dg\<lparr>dg_Conditions := fold put_condition conditions (dg_Conditions dg)\<rparr>
          in (Some dg, upd dg))"

definition progress_time :: "time \<Rightarrow> string \<Rightarrow> DataGather \<Rightarrow> DataGather" where
  "progress_time now gatheringState dg =
     (if gatheringState = GatheringSucceededReason \<or> gatheringState = GatheringFailedReason
      then (if dg_FinishTime dg = 0 then dg\<lparr>dg_FinishTime := now\<rparr> else dg)
      else if gatheringState = GatheringReason
      then (if dg_StartTime dg = 0 then dg\<lparr>dg_StartTime := now\<rparr> else dg)
      else dg)"

definition UpdateProgressingCondition ::
  "DataGather result \<Rightarrow> (DataGather \<Rightarrow> DataGather result) \<Rightarrow> time \<Rightarrow> DataGather option \<Rightarrow> string \<Rightarrow>
   DataGather result" where
  "UpdateProgressingCondition got upd now dataGatherCR gatheringState =
     (case (case dataGatherCR of None \<Rightarrow> got | Some dg \<Rightarrow> Inr dg) of
        Inl err \<Rightarrow> Inl err
      | Inr dg \<Rightarrow>
          snd (UpdateDataGatherConditions upd (Some (progress_time now gatheringState dg))
                 [ProgressingCondition now gatheringState]))"

section \<open>Statuses of the gatherers\<close>

definition int32 :: "int \<Rightarrow> int" where "int32 x = (x + 2 ^ 31) mod 2 ^ 32 - 2 ^ 31"
definition int64 :: "int \<Rightarrow> int" where "int64 x = (x + 2 ^ 63) mod 2 ^ 64 - 2 ^ 63"

definition createGathererConditions :: "time \<Rightarrow> GathererFunctionReport \<Rightarrow> MetaCondition list" where
  "createGathererConditions now gfr =
     (let con = \<lparr>mc_Type = ''DataGathered'', mc_LastTransitionTime = now, mc_Status = ConditionFalse,
                 mc_Reason = ''NoData'', mc_Message = []\<rparr>;
          con = (case gr_Panic gfr of
                   None \<Rightarrow> con | Some v \<Rightarrow> con\<lparr>mc_Reason := ''GatherPanic'', mc_Message := v\<rparr>)
      in if gr_RecordsCount gfr > 0 then
           (let con = con\<lparr>mc_Status := ConditionTrue, mc_Reason := ''GatheredOK'',
                  mc_Message := ''Created '' @ itoa (gr_RecordsCount gfr) @ '' records in the archive.''\<rparr>;
                con = (if 0 < length (gr_Errors gfr)
                       then con\<lparr>mc_Reason := ''GatheredWithError'',
                              mc_Message := mc_Message con @ '' Error: '' @ join_with '','' (gr_Errors gfr)\<rparr>
                       else con)
            in [con])
         else if 0 < length (gr_Errors gfr)
         then [con\<lparr>mc_Reason := ''GatherError'', mc_Message := join_with '','' (gr_Errors gfr)\<rparr>]
         else [con])"

definition CreateOperatorGathererStatus :: "time \<Rightarrow> GathererFunctionReport \<Rightarrow> OperatorGathererStatus" where
  "CreateOperatorGathererStatus now gfr =
     \<lparr>ogs_Name = gr_FuncName gfr, ogs_LastGatherDuration = int64 (gr_Duration gfr * 1000000),
      ogs_Conditions = createGathererConditions now gfr\<rparr>"

definition durationMillisToSeconds :: "int \<Rightarrow> int result" where
  "durationMillisToSeconds ms =
     (let seconds = go_quot ms 1000
      in if seconds > 2147483647 \<or> seconds < - 2147483648
         then Inl (Errorf (''duration '' @ itoa ms @ ''ms overflows int32''))
         else Inr (int32 seconds))"

definition CreateDataGatherGathererStatus :: "time \<Rightarrow> GathererFunctionReport \<Rightarrow> GathererStatus result" where
  "CreateDataGatherGathererStatus now report =
     (case durationMillisToSeconds (gr_Duration report) of
        Inl err \<Rightarrow> Inl err
      | Inr seconds \<Rightarrow>
          Inr \<lparr>gs_Name = gr_FuncName report, gs_LastGatherSeconds = Some seconds,
               gs_Conditions = createGathererConditions now report\<rparr>)"

definition totalRiskToInt32 :: "string \<Rightarrow> int" where
  "totalRiskToInt32 totalRisk =
     (if totalRisk = ''Low'' then 1 else if totalRisk = ''Moderate'' then 2
      else if totalRisk = ''Important'' then 3 else if totalRisk = ''Critical'' then 4 else 0)"

definition Int32ToTotalRisk :: "int \<Rightarrow> string" where
  "Int32ToTotalRisk totalRisk =
     (if totalRisk = 1 then ''Low'' else if totalRisk = 2 then ''Moderate''
      else if totalRisk = 3 then ''Important'' else if totalRisk = 4 then ''Critical'' else ''Low'')"

text \<open>\<open>Sub\<close> saturates at the limits of a duration.\<close>

definition time_Sub :: "time \<Rightarrow> time \<Rightarrow> duration" where
  "time_Sub t u = max (- (2 ^ 63)) (min (2 ^ 63 - 1) (t - u))"

definition operator_gatherer :: "GathererStatus \<Rightarrow> OperatorGathererStatus" where
  "operator_gatherer g =
     (let lastGatherSeconds = (case gs_LastGatherSeconds g of None \<Rightarrow> 0 | Some s \<Rightarrow> s)
      in \<lparr>ogs_Name = gs_Name g, ogs_LastGatherDuration = int64 (lastGatherSeconds * Second),
          ogs_Conditions = gs_Conditions g\<rparr>)"

definition operator_health_check :: "HealthCheck \<Rightarrow> OperatorHealthCheck" where
  "operator_health_check hc =
     \<lparr>ohc_Description = hc_Description hc, ohc_TotalRisk = totalRiskToInt32 (hc_TotalRisk hc),
      ohc_State = ''Enabled'', ohc_AdvisorURI = hc_AdvisorURI hc\<rparr>"

definition DataGatherStatusToOperatorStatus :: "DataGather \<Rightarrow> InsightsOperatorStatus" where
  "DataGatherStatusToOperatorStatus dg =
     \<lparr>os_LastGatherTime = dg_FinishTime dg,
      os_LastGatherDuration = time_Sub (dg_FinishTime dg) (dg_StartTime dg),
      os_Gatherers = map operator_gatherer (dg_Gatherers dg),
      os_DownloadedAt = ir_DownloadedTime (dg_InsightsReport dg),
      os_HealthChecks = map operator_health_check (ir_HealthChecks (dg_InsightsReport dg))\<rparr>"

section \<open>The conditions are a keyed list\<close>

lemma enumerate_last:
  "fold (\<lambda>(i, x) idx. if P x then int i else idx) (enumerate n xs) a =
    (case last_idx P xs of None \<Rightarrow> a | Some i \<Rightarrow> int (n + i))"
  by (induction xs arbitrary: n a) (auto split: option.splits)

lemma getConditionIndexByType_eq:
  "getConditionIndexByType k cs = (case last_idx (\<lambda>c. mc_Type c = k) cs of None \<Rightarrow> - 1 | Some i \<Rightarrow> int i)"
  unfolding getConditionIndexByType_def enumerate_last by (simp split: option.split)

definition condition_by_type :: "MetaCondition list \<Rightarrow> string \<Rightarrow> MetaCondition option" where
  "condition_by_type cs k = find_last (\<lambda>c. mc_Type c = k) cs"

lemma GetConditionByType_eq: "GetConditionByType dg k = condition_by_type (dg_Conditions dg) k"
  by (simp add: GetConditionByType_def condition_by_type_def find_last_def)

interpretation meta: keyed_list mc_Type condition_by_type put_condition
  by unfold_locales
    (auto simp: condition_by_type_def put_condition_def getConditionIndexByType_eq split: option.splits)

lemma get_fold_put:
  "condition_by_type (fold put_condition cs xs) k =
    (case condition_by_type cs k of Some c \<Rightarrow> Some c | None \<Rightarrow> condition_by_type xs k)"
proof (induction cs rule: rev_induct)
  case Nil
  then show ?case by (simp add: condition_by_type_def find_last_def)
next
  case (snoc c cs)
  have last: "condition_by_type (cs @ [c]) k = (if mc_Type c = k then Some c else condition_by_type cs k)"
    by (simp add: condition_by_type_def find_last_def)
  show ?case
  proof (cases "mc_Type c = k")
    case True
    with last meta.get_put_same [of c "fold put_condition cs xs"] show ?thesis by simp
  next
    case False
    with last snoc meta.get_put_other [of k c "fold put_condition cs xs"] show ?thesis by simp
  qed
qed

lemma distinct_fold_put: "distinct (map mc_Type xs) \<Longrightarrow> distinct (map mc_Type (fold put_condition cs xs))"
  by (induction cs arbitrary: xs) (simp_all add: meta.distinct_put)

lemma types_fold_put: "mc_Type ` set (fold put_condition cs xs) = mc_Type ` set cs \<union> mc_Type ` set xs"
proof (induction cs arbitrary: xs)
  case Nil
  then show ?case by simp
next
  case (Cons c cs)
  have "mc_Type ` set (put_condition c xs) = insert (mc_Type c) (mc_Type ` set xs)"
    using arg_cong [OF meta.keys_put [of c xs], of set] by (auto split: if_splits)
  with Cons.IH show ?case by simp
qed

section \<open>Progress of a gathering\<close>

text \<open>A history of progress updates of one resource, as long as the server accepts them.\<close>

fun progress_all :: "(time \<times> string) list \<Rightarrow> DataGather \<Rightarrow> DataGather result" where
  "progress_all [] dg = Inr dg"
| "progress_all ((now, state) # steps) dg =
     (case UpdateProgressingCondition (Inr dg) Inr now (Some dg) state of
        Inl e \<Rightarrow> Inl e
      | Inr dg \<Rightarrow> progress_all steps dg)"

definition first_time :: "(string \<Rightarrow> bool) \<Rightarrow> (time \<times> string) list \<Rightarrow> time" where
  "first_time P steps = (case find (\<lambda>(now, state). P state) steps of None \<Rightarrow> 0 | Some (now, _) \<Rightarrow> now)"

abbreviation finished_state :: "string \<Rightarrow> bool" where
  "finished_state state \<equiv> state = GatheringSucceededReason \<or> state = GatheringFailedReason"

lemma UpdateProgressingCondition_accepted:
  "UpdateProgressingCondition got Inr now (Some dg) state =
    Inr (let dg = progress_time now state dg
         in dg\<lparr>dg_Conditions := put_condition (ProgressingCondition now state) (dg_Conditions dg)\<rparr>)"
  by (simp add: UpdateProgressingCondition_def UpdateDataGatherConditions_def Let_def)

lemma progress_time_sel:
  "dg_Conditions (progress_time now state dg) = dg_Conditions dg"
  "dg_StartTime (progress_time now state dg) =
     (if state = GatheringReason \<and> dg_StartTime dg = 0 then now else dg_StartTime dg)"
  "dg_FinishTime (progress_time now state dg) =
     (if finished_state state \<and> dg_FinishTime dg = 0 then now else dg_FinishTime dg)"
  by (auto simp: progress_time_def gathering_reasons)

lemma ProgressingCondition_type [simp]: "mc_Type (ProgressingCondition now state) = ProgressingType"
  by (simp add: ProgressingCondition_def Let_def case_prod_beta)

lemma progress_all_times:
  assumes "list_all (\<lambda>(now, state). 0 < now) steps"
  shows "\<exists>dg'. progress_all steps dg = Inr dg' \<and>
    dg_StartTime dg' = (if dg_StartTime dg = 0 then first_time (\<lambda>s. s = GatheringReason) steps else dg_StartTime dg) \<and>
    dg_FinishTime dg' = (if dg_FinishTime dg = 0 then first_time finished_state steps else dg_FinishTime dg) \<and>
    dg_Conditions dg' =
      fold put_condition (map (\<lambda>(now, state). ProgressingCondition now state) steps) (dg_Conditions dg)"
  using assms
proof (induction steps arbitrary: dg)
  case Nil
  then show ?case by (simp add: first_time_def)
next
  case (Cons p steps)
  obtain now state where p: "p = (now, state)" by (cases p)
  let ?dg = "progress_time now state dg"
  let ?dg1 = "?dg\<lparr>dg_Conditions := put_condition (ProgressingCondition now state) (dg_Conditions ?dg)\<rparr>"
  from Cons.prems have "list_all (\<lambda>(now, state). 0 < now) steps" and "0 < now" by (simp_all add: p)
  with Cons.IH [of ?dg1] show ?case
    by (auto simp: p UpdateProgressingCondition_accepted Let_def progress_time_sel first_time_def)
qed

section \<open>Integers at their width\<close>

lemma int32_id: "- (2 ^ 31) \<le> x \<Longrightarrow> x < 2 ^ 31 \<Longrightarrow> int32 x = x"
  by (simp add: int32_def)

lemma int64_id: "- (2 ^ 63) \<le> x \<Longrightarrow> x < 2 ^ 63 \<Longrightarrow> int64 x = x"
  by (simp add: int64_def)

lemma durationMillisToSeconds_range:
  "durationMillisToSeconds ms =
    (if - 2147483648 \<le> go_quot ms 1000 \<and> go_quot ms 1000 \<le> 2147483647 then Inr (go_quot ms 1000)
     else Inl (Errorf (''duration '' @ itoa ms @ ''ms overflows int32'')))"
  using int32_id [of "go_quot ms 1000"] by (auto simp: durationMillisToSeconds_def Let_def)

section \<open>Properties\<close>

definition example_dg :: DataGather where
  "example_dg =
     \<lparr>dg_Name = ''dg'', dg_StartTime = 0, dg_FinishTime = 0,
      dg_Conditions = [DataUploadedCondition 1 ConditionUnknown ''NoUploadYet'' []], dg_Gatherers = [],
      dg_InsightsReport = \<lparr>ir_DownloadedTime = 0, ir_HealthChecks = [], ir_URI = []\<rparr>,
      dg_InsightsRequestID = []\<rparr>"

text \<open>
  Updating the conditions of a DataGather resource.  What is sent to the server has, for every type,
  the last of the given conditions of that type, or the condition it had before when none is given; no
  type is lost or added beyond the given ones, a list with one condition per type stays so, and nothing
  else of the resource changes.
\<close>

lemma update_conditions:
  assumes "UpdateDataGatherConditions upd (Some dg) cs = (Some dg', res)"
  shows "res = upd dg' \<and>
    GetConditionByType dg' k =
      (case find_last (\<lambda>c. mc_Type c = k) cs of Some c \<Rightarrow> Some c | None \<Rightarrow> GetConditionByType dg k) \<and>
    mc_Type ` set (dg_Conditions dg') = mc_Type ` set (dg_Conditions dg) \<union> mc_Type ` set cs \<and>
    (distinct (map mc_Type (dg_Conditions dg)) \<longrightarrow> distinct (map mc_Type (dg_Conditions dg'))) \<and>
    dg'\<lparr>dg_Conditions := dg_Conditions dg\<rparr> = dg"
  using assms get_fold_put [of cs "dg_Conditions dg" k] types_fold_put [of cs "dg_Conditions dg"]
    distinct_fold_put [of "dg_Conditions dg" cs]
  by (auto simp: UpdateDataGatherConditions_def Let_def GetConditionByType_eq condition_by_type_def
      split: option.split)

text \<open>
  C13: The times of a gathering are set once.  After any sequence of accepted progress updates, the start
  time is the time of the first update to the running state, the finish time that of the first update to
  the succeeded or failed state, times that were set before stay, and the Progressing condition is that
  of the last update while every other condition is unchanged.
\<close>

theorem progress_times:
  assumes "list_all (\<lambda>(now, state). 0 < now) steps" and "steps \<noteq> []"
  shows "\<exists>dg'. progress_all steps dg = Inr dg' \<and>
    dg_StartTime dg' = (if dg_StartTime dg = 0 then first_time (\<lambda>s. s = GatheringReason) steps else dg_StartTime dg) \<and>
    dg_FinishTime dg' = (if dg_FinishTime dg = 0 then first_time finished_state steps else dg_FinishTime dg) \<and>
    (\<forall>k. GetConditionByType dg' k =
       (if k = ProgressingType then Some (ProgressingCondition (fst (last steps)) (snd (last steps)))
        else GetConditionByType dg k))"
proof -
  let ?cs = "map (\<lambda>(now, state). ProgressingCondition now state) steps"
  have "condition_by_type ?cs k = (if k = ProgressingType then Some (last ?cs) else None)" for k
    using assms(2)
    by (cases steps rule: rev_cases)
      (auto simp: condition_by_type_def find_last_None, simp add: find_last_def)
  moreover have "last ?cs = ProgressingCondition (fst (last steps)) (snd (last steps))"
    using assms(2) by (simp add: last_map case_prod_beta)
  ultimately show ?thesis
    using progress_all_times [OF assms(1), of dg] get_fold_put [of ?cs "dg_Conditions dg"]
    by (auto simp: GetConditionByType_eq)
qed

theorem progress_times_witness:
  "\<exists>dg'. progress_all [(3, GatheringReason), (4, GatheringReason), (9, GatheringFailedReason)] example_dg = Inr dg' \<and>
    dg_StartTime dg' = 3 \<and> dg_FinishTime dg' = 9"
  using progress_times [of "[(3, GatheringReason), (4, GatheringReason), (9, GatheringFailedReason)]" example_dg]
  by (auto simp: example_dg_def first_time_def gathering_reasons)

text \<open>
  The duration of a gatherer at 32 bits.  The status of a gatherer is an error exactly when its
  duration in whole seconds does not fit a 32 bit integer; otherwise the seconds are exact, and
  the status of the operator derived from the resource has the name and conditions that the operator would
  have computed itself, with the same duration rounded down to the second.
\<close>

lemma gatherer_status_seconds:
  assumes "0 \<le> gr_Duration report" and "gr_Duration report * 1000000 < 2 ^ 63"
  shows "(if gr_Duration report < 2147483648 * 1000
     then \<exists>gs. CreateDataGatherGathererStatus now report = Inr gs \<and>
       operator_gatherer gs =
         (let op = CreateOperatorGathererStatus now report
          in op\<lparr>ogs_LastGatherDuration := ogs_LastGatherDuration op - ogs_LastGatherDuration op mod Second\<rparr>)
     else \<exists>e. CreateDataGatherGathererStatus now report = Inl e)"
proof (cases "gr_Duration report < 2147483648 * 1000")
  case True
  let ?d = "gr_Duration report"
  have q: "go_quot ?d 1000 = ?d div 1000" using assms(1) by (simp add: go_quot_nonneg)
  have "int64 (?d div 1000 * Second) = ?d div 1000 * Second"
    using True assms(1) by (intro int64_id) auto
  moreover have "int64 (?d * 1000000) = ?d * 1000000" using assms by (intro int64_id) auto
  moreover have "?d div 1000 * Second = ?d * 1000000 - ?d * 1000000 mod Second"
  proof -
    have "?d * 1000000 mod Second = ?d mod 1000 * 1000000" using mult_mod_left [of ?d 1000 1000000] by simp
    moreover have "?d div 1000 * 1000 + ?d mod 1000 = ?d" by (rule div_mult_mod_eq)
    ultimately show ?thesis by linarith
  qed
  moreover have "- 2147483648 \<le> ?d div 1000 \<and> ?d div 1000 \<le> 2147483647" using True assms(1) by auto
  ultimately show ?thesis
    using True q
    by (simp add: CreateDataGatherGathererStatus_def durationMillisToSeconds_range operator_gatherer_def
        CreateOperatorGathererStatus_def Let_def)
next
  case False
  then have "go_quot (gr_Duration report) 1000 > 2147483647" by (simp add: go_quot_nonneg)
  with False show ?thesis
    by (simp add: CreateDataGatherGathererStatus_def durationMillisToSeconds_range)
qed

text \<open>
  Risks survive the two representations.  The number of a risk is between 0 and 4, is 0 exactly for
  a text that is no risk, and converting a number from 1 to 4 to a risk and back, or a risk to a number
  and back, is the identity.
\<close>

lemma risk_round_trip:
  "(totalRiskToInt32 r = 0 \<longleftrightarrow> r \<notin> {''Low'', ''Moderate'', ''Important'', ''Critical''}) \<and>
   totalRiskToInt32 r \<in> {0..4} \<and>
   Int32ToTotalRisk (totalRiskToInt32 r) = (if totalRiskToInt32 r = 0 then ''Low'' else r) \<and>
   totalRiskToInt32 (Int32ToTotalRisk n) = (if n \<in> {1..4} then n else 1)"
  by (auto simp: totalRiskToInt32_def Int32ToTotalRisk_def)

end
