(* ===== verification/Report.thy ===== *)
theory Report
  imports InsightsClient ConfigAggregator DataGatherStatus
begin

text \<open>
  pkg/insights/insightsreport/insightsreport.go, pkg/insights/metrics.go, pkg/insights/types/types.go and
  pkg/insights/prometheus_rules.go: the controller that downloads the analysis of an uploaded archive and
  publishes it as metrics and in the status of the operator resource, the collector of active recommendations,
  and the controller of the alerting rules.

  A call of the client is the model of \<open>InsightsClient\<close>; decoding JSON is the argument \<open>decode\<close>.  The select
  loop of \<open>RetrieveReport\<close> is a function on the sequence of its events and returns how it set its timers.
\<close>

section \<open>Data\<close>

text \<open>What \<open>encoding/json\<close> stores in an \<open>interface{}\<close>; numbers are never inspected.\<close>

datatype json =
    JNull
  | JBool bool
  | JNumber string
  | JString string
  | JArray "json list"
  | JObject "(string \<times> json) list"

record RuleWithContentResponse =
  ru_RuleID :: string
  ru_CreatedAt :: string
  ru_Description :: string
  ru_Generic :: string
  ru_Reason :: string
  ru_Resolution :: string
  ru_MoreInfo :: string
  ru_TotalRisk :: int
  ru_RiskOfChange :: int
  ru_Disabled :: bool
  ru_DisableFeedback :: string
  ru_DisabledAt :: string
  ru_Internal :: bool
  ru_UserVote :: int
  ru_TemplateData :: json
  ru_Tags :: "string list"

record ReportResponseMeta =
  rm_Count :: int
  rm_LastCheckedAt :: string
  rm_GatheredAt :: string

record SmartProxyReport =
  spr_Meta :: ReportResponseMeta
  spr_Data :: "RuleWithContentResponse list"

record InsightsRecommendation =
  rec_RuleID :: string
  rec_ErrorKey :: string
  rec_Description :: string
  rec_TotalRisk :: int

record Recommendation =
  rcm_ErrorKey :: string
  rcm_Description :: string
  rcm_TotalRisk :: int
  rcm_RuleFQDN :: string

record InsightsAnalysisReport =
  iar_DownloadedAt :: time
  iar_ClusterID :: string
  iar_Recommendations :: "Recommendation list"
  iar_RequestID :: string

record healthStatusCounts =
  hs_critical :: int
  hs_important :: int
  hs_moderate :: int
  hs_low :: int
  hs_total :: int

definition zero_counts :: healthStatusCounts where
  "zero_counts = \<lparr>hs_critical = 0, hs_important = 0, hs_moderate = 0, hs_low = 0, hs_total = 0\<rparr>"

section \<open>The link to the advisor\<close>

text \<open>
  \<open>net/url\<close>: characters that are escaped in a query component and in a path, and the path of a URL after
  \<open>JoinPath\<close> as \<open>String\<close> prints it.
\<close>

definition is_alnum :: "char \<Rightarrow> bool" where
  "is_alnum c =
     (let n = of_char c :: nat
      in (48 \<le> n \<and> n \<le> 57) \<or> (65 \<le> n \<and> n \<le> 90) \<or> (97 \<le> n \<and> n \<le> 122))"

definition is_unreserved :: "char \<Rightarrow> bool" where
  "is_unreserved c = (is_alnum c \<or> c \<in> set ''-_.~'')"

definition upper_hex :: "nat \<Rightarrow> char" where
  "upper_hex n = (if n < 10 then char_of (48 + n) else char_of (55 + n))"

definition percent :: "char \<Rightarrow> string" where
  "percent c = (let n = of_char c :: nat in [CHR ''%'', upper_hex (n div 16), upper_hex (n mod 16)])"

definition query_escape :: "string \<Rightarrow> string" where
  "query_escape s =
     concat (map (\<lambda>c. if is_unreserved c then [c] else if c = CHR '' '' then ''+'' else percent c) s)"

definition path_escape :: "string \<Rightarrow> string" where
  "path_escape s =
     concat (map (\<lambda>c. if is_unreserved c \<or> c \<in> set ''$&+,/:;=@'' then [c] else percent c) s)"

definition hex_val :: "char \<Rightarrow> nat option" where
  "hex_val c =
     (let n = of_char c :: nat
      in if 48 \<le> n \<and> n \<le> 57 then Some (n - 48)
         else if 65 \<le> n \<and> n \<le> 70 then Some (n - 55)
         else if 97 \<le> n \<and> n \<le> 102 then Some (n - 87) else None)"

fun path_unescape :: "string \<Rightarrow> string option" where
  "path_unescape [] = Some []"
| "path_unescape (c # s) =
     (if c \<noteq> CHR ''%'' then map_option ((#) c) (path_unescape s)
      else case s of
             a # b # s \<Rightarrow>
               (case (hex_val a, hex_val b) of
                  (Some x, Some y) \<Rightarrow> map_option ((#) (char_of (16 * x + y))) (path_unescape s)
                | _ \<Rightarrow> None)
           | _ \<Rightarrow> None)"

definition valid_encoded_path :: "string \<Rightarrow> bool" where
  "valid_encoded_path s =
     list_all (\<lambda>c. is_unreserved c \<or> c \<in> set ''$&+,/:;=@'' \<or> c \<in> set ''!()*[]%'' \<or> c = CHR 0x27) s"

definition advisor_base :: string where "advisor_base = ''/openshift/insights/advisor/clusters''"

definition joined_path :: "string \<Rightarrow> string \<Rightarrow> string" where
  "joined_path base elem =
     (let p = path_join base elem;
          p = (if elem \<noteq> [] \<and> last elem = CHR ''/'' \<and> last p \<noteq> CHR ''/'' then p @ ''/'' else p)
      in case path_unescape p of
           None \<Rightarrow> base
         | Some path \<Rightarrow> if valid_encoded_path p then p else path_escape path)"

definition CreateInsightsAdvisorLink :: "string \<Rightarrow> string \<Rightarrow> string \<Rightarrow> string" where
  "CreateInsightsAdvisorLink clusterID ruleID errorKey =
     ''https://console.redhat.com'' @ joined_path advisor_base clusterID @ ''?first='' @
       query_escape (ruleID @ ''|'' @ errorKey)"

section \<open>The collector of recommendations\<close>

record Collector =
  col_activeRecommendations :: "InsightsRecommendation list"
  col_metricName :: string
  col_clusterID :: string

definition SetClusterID :: "string \<Rightarrow> Collector \<Rightarrow> Collector" where
  "SetClusterID clusterID c = c\<lparr>col_clusterID := clusterID\<rparr>"

definition SetActiveRecommendations :: "InsightsRecommendation list \<Rightarrow> Collector \<Rightarrow> Collector" where
  "SetActiveRecommendations rs c = c\<lparr>col_activeRecommendations := rs\<rparr>"

definition totalRiskToStr :: "int \<Rightarrow> string" where
  "totalRiskToStr totalRisk =
     (if totalRisk = 1 then ''Low'' else if totalRisk = 2 then ''Moderate''
      else if totalRisk = 3 then ''Important'' else if totalRisk = 4 then ''Critical'' else ''Invalid'')"

text \<open>A metric is its name, its labels and its value.\<close>

record metric =
  me_name :: string
  me_labels :: "(string, string) gomap"
  me_value :: int

definition rec_metric :: "Collector \<Rightarrow> InsightsRecommendation \<Rightarrow> metric" where
  "rec_metric c r =
     \<lparr>me_name = col_metricName c,
      me_labels =
        [(''description'', rec_Description r), (''total_risk'', totalRiskToStr (rec_TotalRisk r)),
         (''info_link'', CreateInsightsAdvisorLink (col_clusterID c) (trim_suffix (rec_RuleID r) ''.report'')
            (rec_ErrorKey r))],
      me_value = 1\<rparr>"

definition Collect :: "Collector \<Rightarrow> metric list" where
  "Collect c = map (rec_metric c) (col_activeRecommendations c)"

section \<open>Reading a report\<close>

definition extractErrorKeyFromRuleData :: "RuleWithContentResponse \<Rightarrow> string result" where
  "extractErrorKeyFromRuleData r =
     (case ru_TemplateData r of
        JObject extraDataMap \<Rightarrow>
          (case map_get extraDataMap ''error_key'' of
             None \<Rightarrow> Inl (Errorf (''templateData of rule \"'' @ ru_RuleID r @ ''\" does not contain error_key''))
           | Some (JString errorKeyStr) \<Rightarrow> Inr errorKeyStr
           | Some _ \<Rightarrow> Inl (Errorf (''the error_key of TemplateData of rule \"'' @ ru_RuleID r @ ''\" is not a string'')))
      | _ \<Rightarrow> Inl (Errorf (''unable to convert the TemplateData of rule \"'' @ ru_RuleID r @
                 ''\" in an Insights report to a map'')))"

definition count_risk :: "int \<Rightarrow> healthStatusCounts \<Rightarrow> healthStatusCounts" where
  "count_risk risk h =
     (if risk = 1 then h\<lparr>hs_low := hs_low h + 1\<rparr>
      else if risk = 2 then h\<lparr>hs_moderate := hs_moderate h + 1\<rparr>
      else if risk = 3 then h\<lparr>hs_important := hs_important h + 1\<rparr>
      else if risk = 4 then h\<lparr>hs_critical := hs_critical h + 1\<rparr> else h)"

text \<open>The cluster version is read anew for every rule: \<open>version k\<close> is the answer for the k-th rule.\<close>

fun read_rules ::
  "bool \<Rightarrow> (nat \<Rightarrow> string result) \<Rightarrow> nat \<Rightarrow> RuleWithContentResponse list \<Rightarrow>
   Collector \<times> InsightsRecommendation list \<times> healthStatusCounts \<Rightarrow>
   Collector \<times> InsightsRecommendation list \<times> healthStatusCounts" where
  "read_rules alertingDisabled version k [] acc = acc"
| "read_rules alertingDisabled version k (rule # rules) (col, active, h) =
     (if ru_Disabled rule
      then read_rules alertingDisabled version (Suc k) rules (col, active, h\<lparr>hs_total := hs_total h - 1\<rparr>)
      else
        let h = count_risk (ru_TotalRisk rule) h
        in if alertingDisabled then read_rules alertingDisabled version (Suc k) rules (col, active, h)
           else case extractErrorKeyFromRuleData rule of
                  Inl _ \<Rightarrow> read_rules alertingDisabled version (Suc k) rules (col, active, h)
                | Inr errorKeyStr \<Rightarrow>
                    (case version k of
                       Inl _ \<Rightarrow> read_rules alertingDisabled version (Suc k) rules (col, active, h)
                     | Inr clusterID \<Rightarrow>
                         read_rules alertingDisabled version (Suc k) rules
                           (SetClusterID clusterID col,
                            active @ [\<lparr>rec_RuleID = ru_RuleID rule, rec_ErrorKey = errorKeyStr,
                                       rec_Description = ru_Description rule, rec_TotalRisk = ru_TotalRisk rule\<rparr>],
                            h)))"

definition readInsightsReport ::
  "bool \<Rightarrow> (nat \<Rightarrow> string result) \<Rightarrow> SmartProxyReport \<Rightarrow> Collector \<Rightarrow>
   Collector \<times> InsightsRecommendation list \<times> healthStatusCounts" where
  "readInsightsReport alertingDisabled version report col =
     read_rules alertingDisabled version 0 (spr_Data report)
       (col, [], zero_counts\<lparr>hs_total := rm_Count (spr_Meta report)\<rparr>)"

fun read_recommendations ::
  "bool \<Rightarrow> string \<Rightarrow> Recommendation list \<Rightarrow> int \<Rightarrow>
   Collector \<times> InsightsRecommendation list \<times> healthStatusCounts \<Rightarrow>
   Collector \<times> InsightsRecommendation list \<times> healthStatusCounts" where
  "read_recommendations alertingDisabled clusterID [] tot (col, active, h) = (col, active, h\<lparr>hs_total := tot\<rparr>)"
| "read_recommendations alertingDisabled clusterID (r # rs) tot (col, active, h) =
     (let h = count_risk (rcm_TotalRisk r) h
      in if alertingDisabled then read_recommendations alertingDisabled clusterID rs (tot + 1) (col, active, h)
         else read_recommendations alertingDisabled clusterID rs (tot + 1)
                (SetClusterID clusterID col,
                 active @ [\<lparr>rec_RuleID = rcm_RuleFQDN r, rec_ErrorKey = rcm_ErrorKey r,
                            rec_Description = rcm_Description r, rec_TotalRisk = rcm_TotalRisk r\<rparr>], h))"

definition readInsightsReportTechPreview ::
  "bool \<Rightarrow> InsightsAnalysisReport \<Rightarrow> Collector \<Rightarrow> Collector \<times> InsightsRecommendation list \<times> healthStatusCounts" where
  "readInsightsReportTechPreview alertingDisabled report col =
     read_recommendations alertingDisabled (iar_ClusterID report) (iar_Recommendations report) 0 (col, [], zero_counts)"

section \<open>The controller\<close>

text \<open>
  Besides its own fields the controller writes the collector, the gauge with the health status, the counter of
  received reports (here the list of the status codes) and the status of the operator resource.
\<close>

record report_state =
  rp_status :: Summary
  rp_LastReport :: SmartProxyReport
  rp_collector :: Collector
  rp_gauge :: "(string, int) gomap"
  rp_received :: "int list"
  rp_operator :: InsightsOperatorStatus

definition rp_UpdateStatus :: "time \<Rightarrow> Summary \<Rightarrow> report_state \<Rightarrow> report_state" where
  "rp_UpdateStatus now new c = c\<lparr>rp_status := UpdateStatus now new (rp_status c)\<rparr>"

definition set_gauge :: "healthStatusCounts \<Rightarrow> (string, int) gomap \<Rightarrow> (string, int) gomap" where
  "set_gauge h g =
     map_put ''total'' (hs_total h) (map_put ''critical'' (hs_critical h)
       (map_put ''important'' (hs_important h) (map_put ''moderate'' (hs_moderate h) (map_put ''low'' (hs_low h) g))))"

definition updateInsightsMetrics ::
  "InsightsRecommendation list \<Rightarrow> healthStatusCounts \<Rightarrow> report_state \<Rightarrow> report_state" where
  "updateInsightsMetrics active h c =
     c\<lparr>rp_collector := SetActiveRecommendations active (rp_collector c), rp_gauge := set_gauge h (rp_gauge c)\<rparr>"

definition GetInsightsStatusMetric :: "(string, int) gomap" where
  "GetInsightsStatusMetric =
     [(''low'', - 1), (''moderate'', - 1), (''important'', - 1), (''critical'', - 1), (''total'', - 1)]"

definition rule_health_check :: "string \<Rightarrow> RuleWithContentResponse \<Rightarrow> OperatorHealthCheck option" where
  "rule_health_check clusterID rule =
     (case extractErrorKeyFromRuleData rule of
        Inl _ \<Rightarrow> None
      | Inr errorKey \<Rightarrow>
          Some \<lparr>ohc_Description = ru_Description rule, ohc_TotalRisk = ru_TotalRisk rule,
                ohc_State = (if ru_Disabled rule then ''Disabled'' else ''Enabled''),
                ohc_AdvisorURI =
                  CreateInsightsAdvisorLink clusterID (trim_suffix (ru_RuleID rule) ''.report'') errorKey\<rparr>)"

text \<open>\<open>cr_get\<close> and \<open>cr_update\<close> are the errors of reading and of writing the operator resource.\<close>

definition updateOperatorStatusCR ::
  "go_error option \<Rightarrow> go_error option \<Rightarrow> SmartProxyReport \<Rightarrow> time \<Rightarrow> report_state \<Rightarrow>
   report_state \<times> go_error option" where
  "updateOperatorStatusCR cr_get cr_update report reportDownloadTime c =
     (case cr_get of
        Some err \<Rightarrow> (c, Some err)
      | None \<Rightarrow>
          let healthChecks = List.map_filter (rule_health_check (col_clusterID (rp_collector c))) (spr_Data report);
              updated = (rp_operator c)\<lparr>os_DownloadedAt := reportDownloadTime, os_HealthChecks := healthChecks\<rparr>
          in case cr_update of
               Some err \<Rightarrow> (c, Some err)
             | None \<Rightarrow> (c\<lparr>rp_operator := updated\<rparr>, None))"

text \<open>
  One attempt to pull the report: the new state, whether the attempts are over, and the error; \<open>None\<close> is a
  panic of the client.
\<close>

record pull_env =
  pe_config :: InsightsConfiguration
  pe_client :: client_env
  pe_decode :: "bytes \<Rightarrow> SmartProxyReport result"
  pe_version :: "nat \<Rightarrow> string result"
  pe_crGet :: "go_error option"
  pe_crUpdate :: "go_error option"
  pe_now :: time

definition download_failed :: "string \<Rightarrow> string \<Rightarrow> Summary" where
  "download_failed reason message =
     zero_Summary\<lparr>sm_Operation := \<lparr>op_Name = DownloadingReport, op_HTTPStatusCode = 0\<rparr>, sm_Reason := reason,
       sm_Message := message\<rparr>"

definition report_error :: "time \<Rightarrow> go_error \<Rightarrow> report_state \<Rightarrow> report_state \<times> bool \<times> go_error option" where
  "report_error now err c =
     (if IsAuthorizationError err
      then (rp_UpdateStatus now (download_failed ''NotAuthorized''
              (''Auth rejected for downloading latest report: '' @ error_text err)) c, True, Some err)
      else if err = ErrWaitingForVersion then (c, False, Some err)
      else case err of
             HttpError _ code \<Rightarrow> if code = 404 then (c, False, Some err) else (c, True, Some err)
           | _ \<Rightarrow>
               (rp_UpdateStatus now (download_failed ''UnexpectedError''
                  (''Failed to download the latest report: '' @ error_text err)) c, True, Some err))"

definition publish_report :: "pull_env \<Rightarrow> SmartProxyReport \<Rightarrow> int \<Rightarrow> report_state \<Rightarrow> report_state" where
  "publish_report env report code c =
     (let (col, recommendations, healthStatus) =
            readInsightsReport (ic_AlertingDisabled (pe_config env)) (pe_version env) report (rp_collector c);
          c = updateInsightsMetrics recommendations healthStatus (c\<lparr>rp_collector := col\<rparr>);
          (c, _) = updateOperatorStatusCR (pe_crGet env) (pe_crUpdate env) report (pe_now env) c;
          c = c\<lparr>rp_received := rp_received c @ [code], rp_LastReport := report\<rparr>
      in rp_UpdateStatus (pe_now env) (zero_Summary\<lparr>sm_Healthy := True\<rparr>) c)"

definition PullSmartProxy :: "pull_env \<Rightarrow> report_state \<Rightarrow> (report_state \<times> bool \<times> go_error option) option" where
  "PullSmartProxy env c =
     (let reportEndpoint = dr_DownloadEndpoint (ic_DataReporting (pe_config env))
      in if length reportEndpoint = 0 then Some (c, True, None)
         else case RecvReport (pe_client env) reportEndpoint of
                None \<Rightarrow> None
              | Some (resp, incs) \<Rightarrow>
                  let c = c\<lparr>rp_received := rp_received c @ incs\<rparr>
                  in case resp of
                       Inl err \<Rightarrow> Some (report_error (pe_now env) err c)
                     | Inr resp \<Rightarrow>
                         (case pe_decode env (rs_Body resp) of
                            Inl err \<Rightarrow> Some (c, True, Some err)
                          | Inr report \<Rightarrow>
                              if rm_LastCheckedAt (spr_Meta (rp_LastReport c)) = rm_LastCheckedAt (spr_Meta report)
                              then Some (c, True, Some (Errorf ''report not updated''))
                              else Some (publish_report env report (rs_StatusCode resp) c, True, None)))"

definition PullReportTechpreview ::
  "InsightsConfiguration \<Rightarrow> client_env \<Rightarrow> (bytes \<Rightarrow> InsightsAnalysisReport result) \<Rightarrow> time \<Rightarrow> string \<Rightarrow> report_state \<Rightarrow>
   (report_state \<times> InsightsAnalysisReport option result) option" where
  "PullReportTechpreview cfg client decode now insightsRequestID c =
     (let reportEndpointTP = dr_DownloadEndpointTechPreview (ic_DataReporting cfg)
      in if length reportEndpointTP = 0
         then Some (rp_UpdateStatus now (zero_Summary\<lparr>sm_Healthy := True\<rparr>) c, Inr None)
         else case GetWithPathParam client reportEndpointTP insightsRequestID True of
                None \<Rightarrow> None
              | Some (Inl err) \<Rightarrow>
                  Some (rp_UpdateStatus now (download_failed ''UnexpectedError''
                    (''Couldn't download the latest report: '' @ error_text err)) c, Inl err)
              | Some (Inr resp) \<Rightarrow>
                  let c = c\<lparr>rp_received := rp_received c @ [rs_StatusCode resp]\<rparr>
                  in if rs_StatusCode resp \<noteq> 200
                     then let msg = ''failed to download the latest report: HTTP '' @ itoa (rs_StatusCode resp) @ '' '' @
                                rs_Status resp
                          in Some (rp_UpdateStatus now (download_failed ''NotAvailable'' msg) c, Inl (Errorf msg))
                     else case decode (rs_Body resp) of
                            Inl err \<Rightarrow> Some (c, Inl err)
                          | Inr report \<Rightarrow>
                              let report = report\<lparr>iar_DownloadedAt := now\<rparr>;
                                  (col, recommendations, healthStatus) =
                                    readInsightsReportTechPreview (ic_AlertingDisabled cfg) report (rp_collector c);
                                  c = updateInsightsMetrics recommendations healthStatus (c\<lparr>rp_collector := col\<rparr>)
                              in Some (rp_UpdateStatus now (zero_Summary\<lparr>sm_Healthy := True\<rparr>) c, Inr (Some report)))"

section \<open>Retrieving a report\<close>

definition minReportRetryTime :: duration where "minReportRetryTime = 30 * Second"
definition reportDownloadTimeout :: duration where "reportDownloadTimeout = 5 * Minute"
definition retryThreshold :: nat where "retryThreshold = 2"

text \<open>
  The events of the loop: the delay timer with what the pull then sees, the timeout, and a change of the
  configuration, received at the first time in an iteration that started at the second, with the new delay.  The
  loop says how it set the timers, and when it did.
\<close>

datatype retrieve_event =
    DelayTimer pull_env
  | TimeoutTimer
  | ReportConfig time time duration

datatype timer_set = SetDelay time duration | SetTimeout time duration | Pulled

fun retrieve_loop ::
  "(duration \<Rightarrow> nat \<Rightarrow> duration) \<Rightarrow> time \<Rightarrow> bool \<Rightarrow> nat \<Rightarrow> retrieve_event list \<Rightarrow> report_state \<Rightarrow>
   (report_state \<times> timer_set list) option" where
  "retrieve_loop jitter startTime firstPullDone retryCounter [] c = Some (c, [])"
| "retrieve_loop jitter startTime firstPullDone retryCounter (DelayTimer env # evs) c =
     (case PullSmartProxy env c of
        None \<Rightarrow> None
      | Some (c, done, err) \<Rightarrow>
          if done then Some (c, [Pulled])
          else if retryThreshold \<le> retryCounter
          then Some (rp_UpdateStatus (pe_now env) (download_failed ''NotAvailable''
                 (''Couldn't download the latest report: '' @ (case err of None \<Rightarrow> ''<nil>'' | Some e \<Rightarrow> error_text e))) c,
                 [Pulled])
          else map_option (\<lambda>(c, ts). (c, Pulled # SetDelay (pe_now env) (jitter minReportRetryTime 10) # ts))
                 (retrieve_loop jitter startTime True (Suc retryCounter) evs c))"
| "retrieve_loop jitter startTime firstPullDone retryCounter (TimeoutTimer # evs) c = Some (c, [])"
| "retrieve_loop jitter startTime firstPullDone retryCounter (ReportConfig now iterationStart delay # evs) c =
     (let nextTick =
            (if firstPullDone then jitter (iterationStart + minReportRetryTime - now) 30
             else jitter (iterationStart + delay - now) 10)
      in map_option (\<lambda>(c, ts). (c, SetDelay now nextTick #
             SetTimeout now (startTime + reportDownloadTimeout - now) # ts))
           (retrieve_loop jitter startTime firstPullDone retryCounter evs c))"

definition RetrieveReport ::
  "(duration \<Rightarrow> nat \<Rightarrow> duration) \<Rightarrow> InsightsConfiguration \<Rightarrow> time \<Rightarrow> retrieve_event list \<Rightarrow> report_state \<Rightarrow>
   (report_state \<times> timer_set list) option" where
  "RetrieveReport jitter config startTime evs c =
     map_option (\<lambda>(c, ts). (c, SetDelay startTime (jitter (dr_ReportPullingDelay (ic_DataReporting config)) 10) #
         SetTimeout startTime reportDownloadTimeout # ts))
       (retrieve_loop jitter startTime False 0 evs c)"

text \<open>\<open>Run\<close>: every uploaded archive starts a retrieval, with its configuration, start and events.\<close>

fun report_runs ::
  "(duration \<Rightarrow> nat \<Rightarrow> duration) \<Rightarrow> (InsightsConfiguration \<times> time \<times> retrieve_event list) list \<Rightarrow> report_state \<Rightarrow>
   report_state option" where
  "report_runs jitter [] c = Some c"
| "report_runs jitter ((config, startTime, evs) # runs) c =
     (case RetrieveReport jitter config startTime evs c of
        None \<Rightarrow> None
      | Some (c, _) \<Rightarrow> report_runs jitter runs c)"

definition report_Run ::
  "(duration \<Rightarrow> nat \<Rightarrow> duration) \<Rightarrow> time \<Rightarrow> (InsightsConfiguration \<times> time \<times> retrieve_event list) list \<Rightarrow> report_state \<Rightarrow>
   report_state option" where
  "report_Run jitter now runs c =
     report_runs jitter runs (rp_UpdateStatus now (zero_Summary\<lparr>sm_Healthy := True\<rparr>) c)"

section \<open>Alerting rules\<close>

record alert_rule =
  al_Alert :: string
  al_Expr :: string
  al_For :: string
  al_Labels :: "(string, string) gomap"

text \<open>The rules that are created; their annotations, which only explain the alerts, are left out.\<close>

definition insights_rules :: "alert_rule list" where
  "insights_rules =
     [\<lparr>al_Alert = ''InsightsDisabled'',
       al_Expr = ''max without (job, pod, service, instance) (cluster_operator_conditions{name=\"insights\", condition=\"Disabled\"} == 1)'',
       al_For = ''5m'', al_Labels = [(''severity'', ''info''), (''namespace'', ''openshift-insights'')]\<rparr>,
      \<lparr>al_Alert = ''SimpleContentAccessNotAvailable'',
       al_Expr = '' max without (job, pod, service, instance) (max_over_time(cluster_operator_conditions{name=\"insights\", condition=\"SCAAvailable\", reason=\"NotFound\"}[5m]) == 0)'',
       al_For = ''5m'', al_Labels = [(''severity'', ''info''), (''namespace'', ''openshift-insights'')]\<rparr>,
      \<lparr>al_Alert = ''InsightsRecommendationActive'', al_Expr = ''insights_recommendation_active == 1'',
       al_For = ''5m'', al_Labels = [(''severity'', ''info'')]\<rparr>]"

text \<open>
  The state: what the controller remembers and the rules in the cluster.  A call of the API fails with the given
  error, or because the object exists or does not exist.
\<close>

record rules_state =
  rs_promRulesExist :: bool
  rs_rules :: "(string, alert_rule list) gomap"

definition rulesName :: string where "rulesName = ''insights-prometheus-rules''"

definition createInsightsAlerts :: "go_error option \<Rightarrow> rules_state \<Rightarrow> rules_state \<times> go_error option" where
  "createInsightsAlerts fault p =
     (case fault of
        Some err \<Rightarrow> (p, Some err)
      | None \<Rightarrow>
          if map_has (rs_rules p) rulesName then (p, Some (AlreadyExistsErr rulesName))
          else (p\<lparr>rs_rules := map_put rulesName insights_rules (rs_rules p)\<rparr>, None))"

definition removeInsightsAlerts :: "go_error option \<Rightarrow> rules_state \<Rightarrow> rules_state \<times> go_error option" where
  "removeInsightsAlerts fault p =
     (case fault of
        Some err \<Rightarrow> (p, Some err)
      | None \<Rightarrow>
          if map_has (rs_rules p) rulesName
          then (p\<lparr>rs_rules := AList.delete rulesName (rs_rules p)\<rparr>, None)
          else (p, Some (NotFoundErr rulesName)))"

definition checkAlertsDisabled :: "bool \<Rightarrow> go_error option \<Rightarrow> rules_state \<Rightarrow> rules_state" where
  "checkAlertsDisabled disableInsightsAlerts fault p =
     (if disableInsightsAlerts then
        (case removeInsightsAlerts fault p of
           (p, Some _) \<Rightarrow> p
         | (p, None) \<Rightarrow> p\<lparr>rs_promRulesExist := False\<rparr>)
      else if \<not> rs_promRulesExist p then
        (case createInsightsAlerts fault p of
           (p, Some err) \<Rightarrow> if isAlreadyExists err then p\<lparr>rs_promRulesExist := True\<rparr> else p
         | (p, None) \<Rightarrow> p\<lparr>rs_promRulesExist := True\<rparr>)
      else p)"

text \<open>\<open>Start\<close>: a check at the start and one for every change of the configuration.\<close>

definition rules_Start :: "(bool \<times> go_error option) list \<Rightarrow> rules_state \<Rightarrow> rules_state" where
  "rules_Start checks p = fold (\<lambda>(disabled, fault). checkAlertsDisabled disabled fault) checks p"

section \<open>What a report says\<close>

definition rule_recommendation ::
  "(nat \<Rightarrow> string result) \<Rightarrow> nat \<times> RuleWithContentResponse \<Rightarrow> InsightsRecommendation option" where
  "rule_recommendation version kr =
     (let (k, rule) = kr
      in if ru_Disabled rule then None
         else case (extractErrorKeyFromRuleData rule, version k) of
                (Inr key, Inr _) \<Rightarrow>
                  Some \<lparr>rec_RuleID = ru_RuleID rule, rec_ErrorKey = key, rec_Description = ru_Description rule,
                        rec_TotalRisk = ru_TotalRisk rule\<rparr>
              | _ \<Rightarrow> None)"

definition enabled_with_risk :: "int \<Rightarrow> RuleWithContentResponse list \<Rightarrow> int" where
  "enabled_with_risk risk rules = int (length (filter (\<lambda>r. \<not> ru_Disabled r \<and> ru_TotalRisk r = risk) rules))"

lemma enabled_with_risk_simps [simp]:
  "enabled_with_risk risk [] = 0"
  "enabled_with_risk risk (r # rs) =
     (if \<not> ru_Disabled r \<and> ru_TotalRisk r = risk then 1 else 0) + enabled_with_risk risk rs"
  by (simp_all add: enabled_with_risk_def)

lemma read_rules_recommendations:
  "fst (snd (read_rules d version k rules (col, active, h))) =
    active @ (if d then [] else List.map_filter (rule_recommendation version) (enumerate k rules))"
  by (induction rules arbitrary: k col active h)
    (auto simp: rule_recommendation_def map_filter_simps Let_def split: sum.split option.split)

lemma read_rules_counts:
  "let h' = snd (snd (read_rules d version k rules (col, active, h))) in
    hs_low h' = hs_low h + enabled_with_risk 1 rules \<and> hs_moderate h' = hs_moderate h + enabled_with_risk 2 rules \<and>
    hs_important h' = hs_important h + enabled_with_risk 3 rules \<and>
    hs_critical h' = hs_critical h + enabled_with_risk 4 rules \<and>
    hs_total h' = hs_total h - int (length (filter ru_Disabled rules))"
  by (induction rules arbitrary: k col active h) (auto simp: count_risk_def Let_def split: sum.split)

lemma read_rules_alerting_disabled: "fst (read_rules True version k rules (col, active, h)) = col"
  by (induction rules arbitrary: k active h) (auto simp: Let_def)

lemma PullSmartProxy_published:
  assumes "PullSmartProxy env c = Some (c', True, None)"
    and "dr_DownloadEndpoint (ic_DataReporting (pe_config env)) \<noteq> []"
  obtains resp incs report where
    "RecvReport (pe_client env) (dr_DownloadEndpoint (ic_DataReporting (pe_config env))) = Some (Inr resp, incs)"
    "pe_decode env (rs_Body resp) = Inr report"
    "rm_LastCheckedAt (spr_Meta (rp_LastReport c)) \<noteq> rm_LastCheckedAt (spr_Meta report)"
    "c' = publish_report env report (rs_StatusCode resp) (c\<lparr>rp_received := rp_received c @ incs\<rparr>)"
proof -
  have no: "snd (snd (report_error now err k)) \<noteq> None" for now err k
    by (auto simp: report_error_def split: go_error.splits)
  from assms no show ?thesis
    by (auto simp: PullSmartProxy_def Let_def intro: that split: option.splits sum.splits if_splits)
      (metis option.distinct(1) snd_conv | (rule that; assumption))+
qed

lemma publish_report_fields:
  assumes "k = publish_report env report code c"
    and "r = readInsightsReport (ic_AlertingDisabled (pe_config env)) (pe_version env) report (rp_collector c)"
  shows "rp_LastReport k = report" and "rp_gauge k = set_gauge (snd (snd r)) (rp_gauge c)"
    and "col_activeRecommendations (rp_collector k) = fst (snd r)"
    and "col_clusterID (rp_collector k) = col_clusterID (fst r)"
    and "pe_crGet env = None \<Longrightarrow> pe_crUpdate env = None \<Longrightarrow> rp_operator k = (rp_operator c)\<lparr>os_DownloadedAt := pe_now env,
      os_HealthChecks := List.map_filter (rule_health_check (col_clusterID (rp_collector k))) (spr_Data report)\<rparr>"
  using assms
  by (auto simp: publish_report_def rp_UpdateStatus_def updateInsightsMetrics_def updateOperatorStatusCR_def
      SetActiveRecommendations_def Let_def split: prod.split option.split)

lemma retrieve_loop_bounds:
  assumes "retrieve_loop jitter start f n evs c = Some (c', ts)" and "n \<le> retryThreshold"
  shows "length (filter (\<lambda>t. t = Pulled) ts) \<le> retryThreshold + 1 - n \<and>
    (\<forall>t d. SetTimeout t d \<in> set ts \<longrightarrow> t + d = start + reportDownloadTimeout)"
  using assms
proof (induction evs arbitrary: f n c c' ts)
  case (Cons ev evs)
  show ?case
  proof (cases ev)
    case (DelayTimer env)
    show ?thesis
    proof (cases "length ts \<le> 1")
      case True
      with Cons.prems DelayTimer show ?thesis
        by (auto split: option.splits if_splits simp: le_Suc_eq length_Suc_conv)
    next
      case False
      with Cons.prems DelayTimer obtain k ts' where
        k: "retrieve_loop jitter start True (Suc n) evs k = Some (c', ts')" "Suc n \<le> retryThreshold"
        "ts = Pulled # SetDelay (pe_now env) (jitter minReportRetryTime 10) # ts'"
        by (auto split: option.splits if_splits)
      from Cons.IH [OF k(1,2)] k(2,3) show ?thesis by auto
    qed
  next
    case (ReportConfig now it delay)
    with Cons.prems obtain ts' tick where
      k: "retrieve_loop jitter start f n evs c = Some (c', ts')"
      "ts = SetDelay now tick # SetTimeout now (start + reportDownloadTimeout - now) # ts'"
      by (auto simp: Let_def)
    from Cons.IH [OF k(1) Cons.prems(2)] k(2) show ?thesis by auto
  qed (use Cons.prems in auto)
qed auto

section \<open>Properties\<close>

text \<open>
  C20: A downloaded report is published as it is.  After a pull that succeeded, the gauge has the number of
  enabled rules of each risk and, as total, the count of the report less its disabled rules; the active
  recommendations are exactly the enabled rules with an error key for which the cluster version could be read,
  in the order of the report, and none when alerting is disabled; and when the operator resource could be read
  and written it has a health check for every rule with an error key, disabled ones marked as such.
\<close>

theorem report_published:
  assumes "PullSmartProxy env c = Some (c', True, None)"
    and "dr_DownloadEndpoint (ic_DataReporting (pe_config env)) \<noteq> []"
  shows "let report = rp_LastReport c'; rules = spr_Data report in
    rm_LastCheckedAt (spr_Meta report) \<noteq> rm_LastCheckedAt (spr_Meta (rp_LastReport c)) \<and>
    map_get (rp_gauge c') ''low'' = Some (enabled_with_risk 1 rules) \<and>
    map_get (rp_gauge c') ''moderate'' = Some (enabled_with_risk 2 rules) \<and>
    map_get (rp_gauge c') ''important'' = Some (enabled_with_risk 3 rules) \<and>
    map_get (rp_gauge c') ''critical'' = Some (enabled_with_risk 4 rules) \<and>
    map_get (rp_gauge c') ''total'' = Some (rm_Count (spr_Meta report) - int (length (filter ru_Disabled rules))) \<and>
    col_activeRecommendations (rp_collector c') =
      (if ic_AlertingDisabled (pe_config env) then []
       else List.map_filter (rule_recommendation (pe_version env)) (enumerate 0 rules)) \<and>
    (pe_crGet env = None \<and> pe_crUpdate env = None \<longrightarrow>
       os_HealthChecks (rp_operator c') =
         List.map_filter (rule_health_check (col_clusterID (rp_collector c'))) rules)"
proof -
  obtain report code k where
    r: "rm_LastCheckedAt (spr_Meta (rp_LastReport c)) \<noteq> rm_LastCheckedAt (spr_Meta report)"
    "c' = publish_report env report code k"
    by (rule PullSmartProxy_published [OF assms])
  note f = publish_report_fields [OF r(2) refl]
  let ?rr = "readInsightsReport (ic_AlertingDisabled (pe_config env)) (pe_version env) report (rp_collector k)"
  have h: "hs_low (snd (snd ?rr)) = enabled_with_risk 1 (spr_Data report)"
    "hs_moderate (snd (snd ?rr)) = enabled_with_risk 2 (spr_Data report)"
    "hs_important (snd (snd ?rr)) = enabled_with_risk 3 (spr_Data report)"
    "hs_critical (snd (snd ?rr)) = enabled_with_risk 4 (spr_Data report)"
    "hs_total (snd (snd ?rr)) = rm_Count (spr_Meta report) - int (length (filter ru_Disabled (spr_Data report)))"
    using read_rules_counts [of "ic_AlertingDisabled (pe_config env)" "pe_version env" 0 "spr_Data report"
        "rp_collector k" "[]" "zero_counts\<lparr>hs_total := rm_Count (spr_Meta report)\<rparr>"]
    by (simp_all add: Let_def readInsightsReport_def zero_counts_def)
  have recs: "fst (snd ?rr) = (if ic_AlertingDisabled (pe_config env) then []
      else List.map_filter (rule_recommendation (pe_version env)) (enumerate 0 (spr_Data report)))"
    by (simp add: readInsightsReport_def read_rules_recommendations)
  show ?thesis using r(1) f(5) by (simp add: Let_def f(1-3) recs set_gauge_def h)
qed

definition example_rule :: RuleWithContentResponse where
  "example_rule =
     \<lparr>ru_RuleID = ''nodes.report'', ru_CreatedAt = [], ru_Description = ''d'', ru_Generic = [], ru_Reason = [],
      ru_Resolution = [], ru_MoreInfo = [], ru_TotalRisk = 2, ru_RiskOfChange = 0, ru_Disabled = False,
      ru_DisableFeedback = [], ru_DisabledAt = [], ru_Internal = False, ru_UserVote = 0,
      ru_TemplateData = JObject [(''error_key'', JString ''FEW NODES'')], ru_Tags = []\<rparr>"

definition example_report :: SmartProxyReport where
  "example_report =
     \<lparr>spr_Meta = \<lparr>rm_Count = 2, rm_LastCheckedAt = ''t1'', rm_GatheredAt = ''t0''\<rparr>,
      spr_Data = [example_rule, example_rule\<lparr>ru_Disabled := True\<rparr>]\<rparr>"

definition example_pull :: pull_env where
  "example_pull =
     \<lparr>pe_config = example_cm\<lparr>ic_DataReporting :=
        (ic_DataReporting example_cm)\<lparr>dr_DownloadEndpoint := ''https://a/%s''\<rparr>\<rparr>,
      pe_client = example_client\<lparr>ce_Do := (\<lambda>_ r. Inr \<lparr>rs_StatusCode = 200, rs_Status = [], rs_RequestID = [],
        rs_URL = [], rs_Body = ''body''\<rparr>)\<rparr>,
      pe_decode = (\<lambda>_. Inr example_report), pe_version = (\<lambda>_. Inr ''id1''), pe_crGet = None, pe_crUpdate = None,
      pe_now = 7\<rparr>"

definition example_controller :: report_state where
  "example_controller =
     \<lparr>rp_status = zero_Summary,
      rp_LastReport = \<lparr>spr_Meta = \<lparr>rm_Count = 0, rm_LastCheckedAt = [], rm_GatheredAt = []\<rparr>, spr_Data = []\<rparr>,
      rp_collector = \<lparr>col_activeRecommendations = [], col_metricName = ''insights_recommendation_active'',
        col_clusterID = []\<rparr>,
      rp_gauge = GetInsightsStatusMetric, rp_received = [],
      rp_operator = \<lparr>os_LastGatherTime = 0, os_LastGatherDuration = 0, os_Gatherers = [], os_DownloadedAt = 0,
        os_HealthChecks = []\<rparr>\<rparr>"

theorem report_published_witness:
  "\<exists>c'. PullSmartProxy example_pull example_controller = Some (c', True, None) \<and>
    map_get (rp_gauge c') ''moderate'' = Some (enabled_with_risk 2 (spr_Data (rp_LastReport c')))"
proof -
  have "(case PullSmartProxy example_pull example_controller of Some (_, True, None) \<Rightarrow> True | _ \<Rightarrow> False)"
    by code_simp
  then obtain c' where c': "PullSmartProxy example_pull example_controller = Some (c', True, None)"
    by (auto split: option.splits bool.splits)
  with report_published [OF c'] show ?thesis by (simp add: Let_def example_pull_def)
qed

text \<open>
  Links without the cluster.  With alerting disabled, nothing tells the collector the identity of the cluster:
  when it has none yet, every health check of a published report links to the advisor's page without a cluster.
\<close>

lemma links_without_cluster:
  assumes "PullSmartProxy env c = Some (c', True, None)"
    and "dr_DownloadEndpoint (ic_DataReporting (pe_config env)) \<noteq> []"
    and "ic_AlertingDisabled (pe_config env)" and "col_clusterID (rp_collector c) = []"
    and "pe_crGet env = None" and "pe_crUpdate env = None" and "hc \<in> set (os_HealthChecks (rp_operator c'))"
  shows "prefix ''https://console.redhat.com/openshift/insights/advisor/clusters?first='' (ohc_AdvisorURI hc)"
proof -
  have "\<exists>report code incs. c' = publish_report env report code (c\<lparr>rp_received := rp_received c @ incs\<rparr>)"
    by (rule PullSmartProxy_published [OF assms(1,2)]) blast
  then obtain report code incs where
    r: "c' = publish_report env report code (c\<lparr>rp_received := rp_received c @ incs\<rparr>)" by blast
  note f = publish_report_fields [OF r refl]
  have "col_clusterID (rp_collector c') = []"
    using assms(3,4) f(4) by (simp add: readInsightsReport_def read_rules_alerting_disabled)
  with f(5) [OF assms(5,6)] assms(7) obtain rule where "rule_health_check [] rule = Some hc"
    by (auto simp: map_filter_def)
  moreover have "joined_path advisor_base [] = advisor_base" by code_simp
  ultimately show ?thesis
    by (auto simp: rule_health_check_def CreateInsightsAdvisorLink_def advisor_base_def split: sum.splits)
qed

text \<open>
  Retrieving a report ends.  Whatever the answers and the changes of the configuration, a retrieval pulls at
  most three times, and every setting of the timeout is for the same moment: five minutes after the start.
\<close>

lemma report_pulls:
  assumes "RetrieveReport jitter config start evs c = Some (c', ts)"
  shows "length (filter (\<lambda>t. t = Pulled) ts) \<le> 3 \<and>
    (\<forall>t d. SetTimeout t d \<in> set ts \<longrightarrow> t + d = start + 5 * Minute)"
proof -
  from assms obtain ts' where ts: "retrieve_loop jitter start False 0 evs c = Some (c', ts')"
    "ts = SetDelay start (jitter (dr_ReportPullingDelay (ic_DataReporting config)) 10) #
       SetTimeout start reportDownloadTimeout # ts'" by (auto simp: RetrieveReport_def)
  from retrieve_loop_bounds [OF ts(1)] ts(2) show ?thesis
    by (auto simp: retryThreshold_def reportDownloadTimeout_def)
qed

definition rules_inv :: "rules_state \<Rightarrow> bool" where
  "rules_inv p = (rs_promRulesExist p \<longrightarrow> map_has (rs_rules p) rulesName)"

text \<open>
  C21: The alerting rules follow the configuration.  As long as the controller's memory is right about existing
  rules, a check that meets no fault of the API leaves the rules in the cluster exactly when alerting is enabled,
  one that meets a fault leaves them as they are, and the memory stays right.
\<close>

theorem alerts_follow_config:
  assumes "rules_inv p" and "\<And>err. fault = Some err \<Longrightarrow> \<not> isAlreadyExists err"
  shows "rules_inv (checkAlertsDisabled disabled fault p) \<and>
    map_has (rs_rules (checkAlertsDisabled disabled fault p)) rulesName =
      (if fault = None then \<not> disabled else map_has (rs_rules p) rulesName)"
  using assms
  by (auto simp: rules_inv_def checkAlertsDisabled_def createInsightsAlerts_def removeInsightsAlerts_def
      isAlreadyExists_def map_has_def AList.delete_conv split: option.splits)

theorem alerts_follow_config_witness:
  "map_has (rs_rules (checkAlertsDisabled False None \<lparr>rs_promRulesExist = False, rs_rules = []\<rparr>)) rulesName"
  using alerts_follow_config [of "\<lparr>rs_promRulesExist = False, rs_rules = []\<rparr>" None False]
  by (simp add: rules_inv_def)

end
