(* ===== verification/StatusController.thy ===== *)
theory StatusController
  imports Conditions ConfigAggregator
begin

text \<open>
  pkg/controller/status/controller.go: the controller that turns the summaries of the sources and the
  configuration into the status of the cluster operator.

  What the controller reads is the record \<open>status_env\<close>: the current status of every source (in the order
  the map is iterated), whether reporting is enabled, whether there is a gathering API and it disables
  gathering, the namespace and the release version.  \<open>parse_semver\<close> stands for the \<open>semver\<close> package and
  gives major, minor and the rest; \<open>marshal_reported\<close> for the JSON form of the last report time.  One
  reading of the clock serves the whole of a merge.
\<close>

section \<open>State\<close>

record status_env =
  se_sources :: "(string, Summary option) gomap"
  se_enabled :: bool
  se_api :: "bool option"
  se_techPreview :: bool
  se_namespace :: string
  se_releaseVersion :: string

record status_state =
  sc_reported :: time
  sc_start :: time
  sc_ctrlStatus :: controllerStatus
  sc_statusCh :: bool

record object_ref =
  or_group :: string
  or_resource :: string
  or_namespace :: string
  or_name :: string

record ClusterOperatorStatus =
  co_Conditions :: "Condition list"
  co_Versions :: "(string \<times> string) list"
  co_RelatedObjects :: "object_ref list"
  co_Extension :: bytes

definition uploadFailuresCountThreshold :: int where "uploadFailuresCountThreshold = 5"

definition AsExpectedReason :: string where "AsExpectedReason = ''AsExpected''"
definition SucceededReason :: string where "SucceededReason = ''Succeeded''"
definition degradedReason :: string where "degradedReason = ''Degraded''"
definition noTokenReason :: string where "noTokenReason = ''NoToken''"
definition disabledByConfiguration :: string where "disabledByConfiguration = ''DisabledByConfiguration''"
definition insightsAvailableMessage :: string where
  "insightsAvailableMessage = ''Insights works as expected''"
definition reportingDisabledMessage :: string where
  "reportingDisabledMessage = ''Health reporting is disabled''"
definition monitoringMessage :: string where "monitoringMessage = ''Monitoring the cluster''"
definition disabledByConfigurationMessage :: string where
  "disabledByConfigurationMessage = ''Gathering is disabled in insightsdatagather.config.openshift.io''"
definition gatheringEnabledMessage :: string where "gatheringEnabledMessage = ''Gathering is enabled''"
definition disabledWithTokenMessage :: string where
  "disabledWithTokenMessage =
     ''Gathering is disabled by removing the cloud.openshift.com field from the pull secret''"
definition RemoteConfNotValidatedYet :: string where "RemoteConfNotValidatedYet = ''NoValidationYet''"
definition scaControllerName :: string where "scaControllerName = ''scaController''"
definition scaAvailableReason :: string where "scaAvailableReason = ''Updated''"
definition clusterTransferControllerName :: string where
  "clusterTransferControllerName = ''clusterTransferController''"
definition clusterTransferAvailableReason :: string where
  "clusterTransferAvailableReason = ''PullSecretUpdated''"

section \<open>Small operations\<close>

definition triggerStatusUpdate :: "status_state \<Rightarrow> status_state" where
  "triggerStatusUpdate c = c\<lparr>sc_statusCh := True\<rparr>"

definition controllerStartTime :: "time \<Rightarrow> status_state \<Rightarrow> status_state \<times> time" where
  "controllerStartTime now c =
     (let c = (if sc_start c = 0 then c\<lparr>sc_start := now\<rparr> else c) in (c, sc_start c))"

definition LastReportedTime :: "status_state \<Rightarrow> time" where
  "LastReportedTime c = sc_reported c"

definition SetLastReportedTime :: "time \<Rightarrow> status_state \<Rightarrow> status_state" where
  "SetLastReportedTime at c = triggerStatusUpdate (c\<lparr>sc_reported := at\<rparr>)"

definition handleControllerStatusError :: "string list \<Rightarrow> string \<Rightarrow> string \<times> string" where
  "handleControllerStatusError errs errorReason =
     (if 1 < length errs then
        (''MultipleFailures'',
         ''There are multiple errors blocking progress:'' @ [CHR 0x0A] @ ''* '' @
           join_with ([CHR 0x0A] @ ''* '') (sort_by (<) errs))
      else if length errs = 1 then
        ((if length errorReason = 0 then ''UnknownError'' else errorReason), hd errs)
      else ([], []))"

definition relatedObjects :: "string \<Rightarrow> object_ref list" where
  "relatedObjects namespace =
     (let ref = (\<lambda>g r ns n. \<lparr>or_group = g, or_resource = r, or_namespace = ns, or_name = n\<rparr>) in
      [ref [] ''namespaces'' [] namespace,
       ref ''apps'' ''deployments'' namespace ''insights-operator'',
       ref [] ''secrets'' ''openshift-config'' ''pull-secret'',
       ref [] ''secrets'' ''openshift-config'' ''support'',
       ref [] ''serviceaccounts'' namespace ''gather'',
       ref [] ''serviceaccounts'' namespace ''operator'',
       ref [] ''services'' namespace ''metrics'',
       ref [] ''configmaps'' namespace ''service-ca-bundle'',
       ref ''operator.openshift.io'' ''insightsoperators'' [] ''cluster'',
       ref ''rbac.authorization.k8s.io'' ''clusterroles'' [] ''insights-operator'',
       ref ''rbac.authorization.k8s.io'' ''clusterroles'' [] ''insights-operator-gather'',
       ref ''rbac.authorization.k8s.io'' ''clusterroles'' [] ''insights-runtime-extractor-role''])"

section \<open>The current status of the controller\<close>

definition degradingFailure :: "Summary \<Rightarrow> bool" where
  "degradingFailure s =
     (let name = op_Name (sm_Operation s)
      in if name = Uploading then \<not> sm_Count s < uploadFailuresCountThreshold
         else if name = DownloadingReport then False
         else if name = PullingSCACerts \<or> name = PullingClusterTransfer
         then 500 \<le> op_HTTPStatusCode (sm_Operation s)
         else False)"

definition source_status :: "Summary \<Rightarrow> controllerStatus \<Rightarrow> controllerStatus" where
  "source_status s st =
     (let name = op_Name (sm_Operation s)
      in if name = Uploading then setStatus UploadStatus (sm_Reason s) (sm_Message s) st
         else if name = DownloadingReport then setStatus DownloadStatus (sm_Reason s) (sm_Message s) st
         else if name = RemoteConfigurationStatus
         then setStatus RemoteConfigAvailableStatus (sm_Reason s) (sm_Message s) st
         else st)"

fun sources_loop ::
  "(string \<times> Summary option) list \<Rightarrow> bool \<times> string \<times> string list \<times> controllerStatus \<Rightarrow>
   bool \<times> string \<times> string list \<times> controllerStatus" where
  "sources_loop [] acc = acc"
| "sources_loop ((name, source) # rest) (allReady, errorReason, errs, st) =
     (case source of
        None \<Rightarrow> sources_loop rest (False, errorReason, errs, st)
      | Some s \<Rightarrow>
          if sm_Healthy s then sources_loop rest (allReady, errorReason, errs, st)
          else if length (sm_Message s) = 0 then sources_loop rest (allReady, errorReason, errs, st)
          else let st = source_status s st
               in if degradingFailure s
                  then sources_loop rest (allReady, sm_Reason s, errs @ [sm_Message s], st)
                  else sources_loop rest (allReady, errorReason, errs, st))"

definition checkDisabledGathering :: "status_env \<Rightarrow> controllerStatus \<Rightarrow> controllerStatus" where
  "checkDisabledGathering env st =
     (let st = (if \<not> se_enabled env
                then setStatus DisabledStatus noTokenReason reportingDisabledMessage st else st)
      in case se_api env of
           Some True \<Rightarrow> setStatus DisabledStatus disabledByConfiguration reportingDisabledMessage st
         | _ \<Rightarrow> st)"

definition currentControllerStatus ::
  "status_env \<Rightarrow> controllerStatus \<Rightarrow> controllerStatus \<times> bool" where
  "currentControllerStatus env st =
     (case sources_loop (se_sources env) (True, [], [], st) of
        (allReady, errorReason, errs, st) \<Rightarrow>
          let (errorReason, errorMessage) = handleControllerStatusError errs errorReason;
              st = (if errorReason \<noteq> [] \<or> errorMessage \<noteq> []
                    then setStatus ErrorStatus errorReason errorMessage st else st)
          in (checkDisabledGathering env st, allReady))"

section \<open>Updating the conditions\<close>

definition handleAPIDisabledConditions ::
  "status_env \<Rightarrow> time \<Rightarrow> controllerStatus \<Rightarrow> conditions \<Rightarrow> conditions" where
  "handleAPIDisabledConditions env now st cs =
     (if se_api env = Some True
      then setCondition now GatheringDisabled ConditionTrue disabledByConfiguration
             disabledByConfigurationMessage cs
      else case getStatus DisabledStatus st of
             Some ds \<Rightarrow>
               if st_message ds = reportingDisabledMessage
               then setCondition now GatheringDisabled ConditionTrue (st_reason ds)
                      disabledWithTokenMessage cs
               else setCondition now GatheringDisabled ConditionFalse AsExpectedReason
                      gatheringEnabledMessage cs
           | None \<Rightarrow>
               setCondition now GatheringDisabled ConditionFalse AsExpectedReason
                 gatheringEnabledMessage cs)"

definition handleRemoteConfigurationConditions ::
  "time \<Rightarrow> controllerStatus \<Rightarrow> conditions \<Rightarrow> conditions" where
  "handleRemoteConfigurationConditions now st cs =
     (case getStatus DisabledStatus st of
        Some s \<Rightarrow>
          setCondition now RemoteConfigurationValid ConditionUnknown RemoteConfNotValidatedYet []
            (setCondition now RemoteConfigurationAvailable ConditionFalse (st_reason s) (st_message s) cs)
      | None \<Rightarrow>
          (case getStatus RemoteConfigAvailableStatus st of
             Some rs \<Rightarrow>
               if st_reason rs = ''Invalid''
               then setCondition now RemoteConfigurationValid ConditionFalse (st_reason rs) (st_message rs)
                      (setCondition now RemoteConfigurationAvailable ConditionTrue SucceededReason [] cs)
               else setCondition now RemoteConfigurationValid ConditionUnknown RemoteConfNotValidatedYet []
                      (setCondition now RemoteConfigurationAvailable ConditionFalse (st_reason rs)
                        (st_message rs) cs)
           | None \<Rightarrow>
               setCondition now RemoteConfigurationValid ConditionTrue SucceededReason []
                 (setCondition now RemoteConfigurationAvailable ConditionTrue SucceededReason [] cs)))"

definition updateControllerConditionByReason ::
  "status_env \<Rightarrow> time \<Rightarrow> string \<Rightarrow> string \<Rightarrow> string \<Rightarrow> bool \<Rightarrow> conditions \<Rightarrow> conditions" where
  "updateControllerConditionByReason env now condition controllerName reason isInitializing cs =
     (case map_get (se_sources env) controllerName of
        None \<Rightarrow> cs
      | Some source \<Rightarrow>
          if isInitializing then cs
          else case source of
                 None \<Rightarrow> cs
               | Some summary \<Rightarrow>
                   setCondition now condition
                     (if sm_Reason summary = reason then ConditionTrue else ConditionFalse)
                     (sm_Reason summary) (sm_Message summary) cs)"

definition set_or_remove ::
  "time \<Rightarrow> string \<Rightarrow> statusMessage option \<Rightarrow> bool \<Rightarrow> conditions \<Rightarrow> conditions" where
  "set_or_remove now condition status disabled cs =
     (case status of
        Some s \<Rightarrow>
          if \<not> disabled then setCondition now condition ConditionTrue (st_reason s) (st_message s) cs
          else removeCondition condition cs
      | None \<Rightarrow> removeCondition condition cs)"

definition init_conditions :: "time \<Rightarrow> controllerStatus \<Rightarrow> conditions \<Rightarrow> conditions" where
  "init_conditions now st cs =
     (let cs = (case getStatus DisabledStatus st of
                  Some ds \<Rightarrow>
                    setCondition now OperatorDisabled ConditionTrue (st_reason ds) (st_message ds) cs
                | None \<Rightarrow> cs)
      in if \<not> hasCondition OperatorDegraded cs
         then setCondition now OperatorDegraded ConditionFalse AsExpectedReason [] cs else cs)"

definition set_disabled :: "time \<Rightarrow> controllerStatus \<Rightarrow> conditions \<Rightarrow> conditions" where
  "set_disabled now st cs =
     (case getStatus DisabledStatus st of
        Some ds \<Rightarrow> setCondition now OperatorDisabled ConditionTrue (st_reason ds) (st_message ds) cs
      | None \<Rightarrow> setCondition now OperatorDisabled ConditionFalse AsExpectedReason [] cs)"

definition set_degraded :: "time \<Rightarrow> controllerStatus \<Rightarrow> conditions \<Rightarrow> conditions" where
  "set_degraded now st cs =
     (case (getStatus ErrorStatus st, isDisabled st) of
        (Some es, False) \<Rightarrow>
          setCondition now OperatorDegraded ConditionTrue (st_reason es) (st_message es) cs
      | _ \<Rightarrow>
          setCondition now OperatorDegraded ConditionFalse AsExpectedReason insightsAvailableMessage cs)"

definition updateControllerConditions ::
  "status_env \<Rightarrow> time \<Rightarrow> bool \<Rightarrow> controllerStatus \<Rightarrow> conditions \<Rightarrow> conditions" where
  "updateControllerConditions env now isInitializing st cs =
     (let cs = (if isInitializing then init_conditions now st cs else cs);
          cs = handleAPIDisabledConditions env now st cs;
          cs = set_disabled now st cs;
          cs = set_degraded now st cs;
          cs = set_or_remove now InsightsUploadDegraded (getStatus UploadStatus st) (isDisabled st) cs;
          cs = set_or_remove now InsightsDownloadDegraded (getStatus DownloadStatus st) (isDisabled st) cs;
          cs = updateControllerConditionByReason env now SCAAvailable scaControllerName
                 scaAvailableReason isInitializing cs;
          cs = updateControllerConditionByReason env now ClusterTransferAvailable
                 clusterTransferControllerName clusterTransferAvailableReason isInitializing cs
      in if se_techPreview env then cs else handleRemoteConfigurationConditions now st cs)"

definition set_healthy :: "time \<Rightarrow> conditions \<Rightarrow> conditions" where
  "set_healthy now cs =
     setCondition now OperatorAvailable ConditionTrue AsExpectedReason insightsAvailableMessage
       (setCondition now OperatorProgressing ConditionFalse AsExpectedReason monitoringMessage cs)"

definition init_progressing :: "time \<Rightarrow> conditions \<Rightarrow> conditions" where
  "init_progressing now cs =
     (if \<not> hasCondition OperatorProgressing cs
      then setCondition now OperatorProgressing ConditionTrue ''Initializing''
             ''Initializing the operator'' cs
      else cs)"

definition set_unavailable :: "time \<Rightarrow> controllerStatus \<Rightarrow> conditions \<Rightarrow> conditions" where
  "set_unavailable now st cs =
     (case (getStatus ErrorStatus st, isDisabled st) of
        (Some es, False) \<Rightarrow>
          setCondition now OperatorAvailable ConditionFalse (st_reason es) (st_message es)
            (setCondition now OperatorProgressing ConditionFalse degradedReason
              ''An error has occurred'' cs)
      | _ \<Rightarrow> cs)"

definition updateControllerConditionsByStatus ::
  "time \<Rightarrow> bool \<Rightarrow> controllerStatus \<Rightarrow> conditions \<Rightarrow> conditions" where
  "updateControllerConditionsByStatus now isInitializing st cs =
     (let cs = (if isInitializing then init_progressing now cs else cs);
          cs = set_unavailable now st cs;
          cs = (if getStatus DisabledStatus st \<noteq> None \<and> \<not> isHealthy st then set_healthy now cs else cs)
      in if isHealthy st then set_healthy now cs else cs)"

section \<open>Versions\<close>

fun versions_loop ::
  "(string \<Rightarrow> (nat \<times> nat \<times> string) result) \<Rightarrow> nat \<times> nat \<times> string \<Rightarrow> (string \<times> string) list \<Rightarrow>
   bool \<times> bool \<Rightarrow> (bool \<times> bool) result" where
  "versions_loop parse_semver new [] acc = Inr acc"
| "versions_loop parse_semver new ((_, v) # vs) (changed, majorMinor) =
     (case parse_semver v of
        Inl e \<Rightarrow> Inl e
      | Inr cov \<Rightarrow>
          versions_loop parse_semver new vs
            (changed \<or> new \<noteq> cov, majorMinor \<or> fst new \<noteq> fst cov \<or> fst (snd new) \<noteq> fst (snd cov)))"

definition checkVersionChanges ::
  "(string \<Rightarrow> (nat \<times> nat \<times> string) result) \<Rightarrow> string \<Rightarrow> (string \<times> string) list \<Rightarrow>
   (bool \<times> bool) \<times> go_error option" where
  "checkVersionChanges parse_semver newVersion clusterOperatorVersions =
     (case parse_semver newVersion of
        Inl e \<Rightarrow> ((False, False), Some e)
      | Inr new \<Rightarrow>
          if clusterOperatorVersions = [] then ((False, False), None)
          else case versions_loop parse_semver new clusterOperatorVersions (False, False) of
                 Inl e \<Rightarrow> ((False, False), Some e)
               | Inr r \<Rightarrow> (r, None))"

section \<open>Merging and writing\<close>

definition zero_ClusterOperatorStatus :: ClusterOperatorStatus where
  "zero_ClusterOperatorStatus =
     \<lparr>co_Conditions = [], co_Versions = [], co_RelatedObjects = [], co_Extension = []\<rparr>"

definition merged_conditions ::
  "status_env \<Rightarrow> time \<Rightarrow> bool \<Rightarrow> controllerStatus \<Rightarrow> Condition list \<Rightarrow> conditions" where
  "merged_conditions env now isInitializing st cos =
     updateControllerConditionsByStatus now isInitializing st
       (updateControllerConditions env now isInitializing st (newConditions cos now))"

definition merge_versions ::
  "(string \<Rightarrow> (nat \<times> nat \<times> string) result) \<Rightarrow> string \<Rightarrow> time \<Rightarrow> ClusterOperatorStatus \<Rightarrow> conditions \<Rightarrow>
   ClusterOperatorStatus \<times> conditions \<times> bool" where
  "merge_versions parse_semver releaseVersion now co cs =
     (if 0 < length releaseVersion then
        let ((versionChanged, setProgressing), _) =
              checkVersionChanges parse_semver releaseVersion (co_Versions co);
            co = co\<lparr>co_Versions := [(''operator'', releaseVersion)]\<rparr>;
            cs = (if setProgressing
                  then setCondition now OperatorProgressing ConditionTrue ''Openshift Upgrade''
                         ''Cluster version is updated'' cs
                  else cs)
        in (co, cs, versionChanged)
      else (co, cs, False))"

text \<open>\<open>merge\<close> returns the new status and whether the runtime extractor is told about a new version.\<close>

definition status_merge ::
  "(string \<Rightarrow> (nat \<times> nat \<times> string) result) \<Rightarrow> (time \<Rightarrow> bytes) \<Rightarrow> status_env \<Rightarrow> time \<Rightarrow>
   ClusterOperatorStatus option \<Rightarrow> status_state \<Rightarrow> status_state \<times> ClusterOperatorStatus \<times> bool" where
  "status_merge parse_semver marshal_reported env now existing c =
     (let co = (case existing of None \<Rightarrow> zero_ClusterOperatorStatus | Some co \<Rightarrow> co);
          (st, allReady) = currentControllerStatus env (reset (sc_ctrlStatus c));
          co = (if 0 < length (se_namespace env)
                then co\<lparr>co_RelatedObjects := relatedObjects (se_namespace env)\<rparr> else co);
          (c, start) = (if allReady then (c, 0) else controllerStartTime now c);
          isInitializing = (\<not> allReady \<and> now - start < 3 * Minute);
          cs = merged_conditions env now isInitializing st (co_Conditions co);
          (co, cs, changed) = merge_versions parse_semver (se_releaseVersion env) now co cs;
          co = co\<lparr>co_Conditions := entries cs, co_Extension := marshal_reported (LastReportedTime c)\<rparr>
      in (c\<lparr>sc_ctrlStatus := st\<rparr>, co, changed))"

datatype co_call = CreateCO ClusterOperatorStatus | UpdateStatusCO ClusterOperatorStatus

definition updateStatus ::
  "(string \<Rightarrow> (nat \<times> nat \<times> string) result) \<Rightarrow> (time \<Rightarrow> bytes) \<Rightarrow> (bytes \<Rightarrow> time) \<Rightarrow> status_env \<Rightarrow> time \<Rightarrow>
   bool \<Rightarrow> ClusterOperatorStatus result \<Rightarrow> go_error option \<Rightarrow> go_error option \<Rightarrow> status_state \<Rightarrow>
   status_state \<times> co_call list \<times> go_error option" where
  "updateStatus parse_semver marshal_reported unmarshal_reported env now initial got create_err update_err c =
     (let merge_with = (\<lambda>existing c.
            (let (c, co, _) = status_merge parse_semver marshal_reported env now existing c
             in case existing of
                  None \<Rightarrow>
                    (case create_err of
                       Some e \<Rightarrow> (c, [CreateCO co], Some e)
                     | None \<Rightarrow> (c, [CreateCO co, UpdateStatusCO co], update_err))
                | Some old \<Rightarrow>
                    if co = old then (c, [], None) else (c, [UpdateStatusCO co], update_err)))
      in case got of
           Inl e \<Rightarrow> if \<not> isNotFound e then (c, [], Some e) else merge_with None c
         | Inr co \<Rightarrow>
             let c = (if initial
                      then SetLastReportedTime
                             (if 0 < length (co_Extension co) then unmarshal_reported (co_Extension co) else 0) c
                      else c)
             in merge_with (Some co) c)"

section \<open>Lemmas on the sources\<close>

definition degrading :: "Summary \<Rightarrow> bool" where
  "degrading s = (\<not> sm_Healthy s \<and> sm_Message s \<noteq> [] \<and> degradingFailure s)"

definition degrading_messages :: "(string \<times> Summary option) list \<Rightarrow> string list" where
  "degrading_messages srcs = map sm_Message (filter degrading (List.map_filter snd srcs))"

lemma source_status_frame [simp]:
  "getStatus ErrorStatus (source_status s st) = getStatus ErrorStatus st"
  "getStatus DisabledStatus (source_status s st) = getStatus DisabledStatus st"
  by (simp_all add: source_status_def Let_def status_simps)

lemma sources_loop_spec:
  "sources_loop srcs (r, er, errs, st) = (r', er', errs', st') \<Longrightarrow>
   r' = (r \<and> list_all (\<lambda>(n, s). s \<noteq> None) srcs) \<and>
   errs' = errs @ degrading_messages srcs \<and>
   getStatus ErrorStatus st' = getStatus ErrorStatus st \<and>
   getStatus DisabledStatus st' = getStatus DisabledStatus st"
proof (induction srcs arbitrary: r er errs st)
  case Nil
  then show ?case by (simp add: degrading_messages_def)
next
  case (Cons p srcs)
  obtain n source where p: "p = (n, source)" by (cases p)
  show ?case
  proof (cases source)
    case None
    with Cons.prems p have "sources_loop srcs (False, er, errs, st) = (r', er', errs', st')" by simp
    from Cons.IH [OF this] None p show ?thesis by (simp add: degrading_messages_def)
  next
    case (Some s)
    show ?thesis
    proof (cases "sm_Healthy s \<or> sm_Message s = []")
      case True
      with Some Cons.prems p have "sources_loop srcs (r, er, errs, st) = (r', er', errs', st')"
        by (simp split: if_splits)
      from Cons.IH [OF this] True Some p show ?thesis
        by (auto simp: degrading_messages_def degrading_def)
    next
      case False
      with Some Cons.prems p have
        "sources_loop srcs (r, if degradingFailure s then sm_Reason s else er,
           if degradingFailure s then errs @ [sm_Message s] else errs, source_status s st) =
         (r', er', errs', st')" by (simp add: Let_def split: if_splits)
      from Cons.IH [OF this] False Some p show ?thesis
        by (auto simp: degrading_messages_def degrading_def)
    qed
  qed
qed

lemma degrading_messages_nonempty: "m \<in> set (degrading_messages srcs) \<Longrightarrow> m \<noteq> []"
  by (auto simp: degrading_messages_def degrading_def)

lemma handleControllerStatusError_iff:
  assumes "\<And>m. m \<in> set errs \<Longrightarrow> m \<noteq> []" and "handleControllerStatusError errs r = (reason, message)"
  shows "reason \<noteq> [] \<or> message \<noteq> [] \<longleftrightarrow> errs \<noteq> []"
  using assms by (cases errs) (auto simp: handleControllerStatusError_def split: if_splits)

definition env_disabled :: "status_env \<Rightarrow> bool" where
  "env_disabled env = (\<not> se_enabled env \<or> se_api env = Some True)"

definition env_failing :: "status_env \<Rightarrow> bool" where
  "env_failing env = (degrading_messages (se_sources env) \<noteq> [])"

lemma checkDisabledGathering_get:
  "getStatus ErrorStatus (checkDisabledGathering env st) = getStatus ErrorStatus st"
  "getStatus DisabledStatus st = None \<Longrightarrow>
    getStatus DisabledStatus (checkDisabledGathering env st) \<noteq> None \<longleftrightarrow> env_disabled env"
  by (auto simp: checkDisabledGathering_def Let_def status_simps env_disabled_def
      split: option.splits bool.splits)

lemma currentControllerStatus_spec:
  assumes "currentControllerStatus env (reset st0) = (st, allReady)"
  shows "getStatus ErrorStatus st \<noteq> None \<longleftrightarrow> env_failing env"
    and "getStatus DisabledStatus st \<noteq> None \<longleftrightarrow> env_disabled env"
proof -
  obtain r er errs st1 where loop: "sources_loop (se_sources env) (True, [], [], []) = (r, er, errs, st1)"
    by (metis surj_pair)
  from sources_loop_spec [OF loop] have errs: "errs = degrading_messages (se_sources env)"
    and none: "getStatus ErrorStatus st1 = None" "getStatus DisabledStatus st1 = None"
    by (simp_all add: getStatus_def)
  obtain er' em where h: "handleControllerStatusError errs er = (er', em)" by fastforce
  let ?st2 = "if er' \<noteq> [] \<or> em \<noteq> [] then setStatus ErrorStatus er' em st1 else st1"
  have st: "st = checkDisabledGathering env ?st2"
    using assms loop h by (simp add: currentControllerStatus_def reset_def)
  have "er' \<noteq> [] \<or> em \<noteq> [] \<longleftrightarrow> env_failing env"
    using handleControllerStatusError_iff [OF _ h] degrading_messages_nonempty
    unfolding errs env_failing_def by blast
  then show "getStatus ErrorStatus st \<noteq> None \<longleftrightarrow> env_failing env"
    unfolding st checkDisabledGathering_get(1) using none by auto
  have "getStatus DisabledStatus ?st2 = None" using none by (simp add: status_simps)
  from checkDisabledGathering_get(2) [OF this]
  show "getStatus DisabledStatus st \<noteq> None \<longleftrightarrow> env_disabled env" unfolding st .
qed

section \<open>Lemmas on the conditions\<close>

definition status_of :: "conditions \<Rightarrow> string \<Rightarrow> string option" where
  "status_of cs k = map_option cn_Status (map_get cs k)"

lemma status_of_set [simp]:
  "status_of (setCondition now ty st r m cs) k = (if k = ty then Some st else status_of cs k)"
  by (simp add: status_of_def)

lemma status_of_remove [simp]:
  "status_of (removeCondition ty cs) k = (if k = ty then None else status_of cs k)"
  by (simp add: status_of_def)

lemma status_frame:
  "k \<noteq> GatheringDisabled \<Longrightarrow> status_of (handleAPIDisabledConditions env now st cs) k = status_of cs k"
  "k \<noteq> RemoteConfigurationAvailable \<Longrightarrow> k \<noteq> RemoteConfigurationValid \<Longrightarrow>
    status_of (handleRemoteConfigurationConditions now st cs) k = status_of cs k"
  "k \<noteq> ty \<Longrightarrow> status_of (updateControllerConditionByReason env now ty n r i cs) k = status_of cs k"
  "k \<noteq> ty \<Longrightarrow> status_of (set_or_remove now ty s d cs) k = status_of cs k"
  by (simp_all add: handleAPIDisabledConditions_def handleRemoteConfigurationConditions_def
      updateControllerConditionByReason_def set_or_remove_def split: option.splits)

lemma updateControllerConditions_Degraded:
  "status_of (updateControllerConditions env now i st cs) OperatorDegraded =
    Some (if getStatus ErrorStatus st \<noteq> None \<and> \<not> isDisabled st then ConditionTrue else ConditionFalse)"
  unfolding updateControllerConditions_def Let_def
  by (simp add: status_frame condition_types set_degraded_def split: option.split)

lemma status_of_set_healthy:
  "status_of (set_healthy now cs) OperatorAvailable = Some ConditionTrue"
  "status_of (set_healthy now cs) OperatorProgressing = Some ConditionFalse"
  "status_of (set_healthy now cs) OperatorDegraded = status_of cs OperatorDegraded"
  by (simp_all add: set_healthy_def condition_types)

lemma status_of_set_unavailable:
  assumes "getStatus ErrorStatus st \<noteq> None" and "\<not> isDisabled st"
  shows "status_of (set_unavailable now st cs) OperatorAvailable = Some ConditionFalse"
    and "status_of (set_unavailable now st cs) OperatorProgressing = Some ConditionFalse"
  using assms by (auto simp: set_unavailable_def condition_types)

lemma status_of_steps:
  "status_of (set_unavailable now st cs) OperatorDegraded = status_of cs OperatorDegraded"
  "status_of (init_progressing now cs) OperatorDegraded = status_of cs OperatorDegraded"
  by (simp_all add: set_unavailable_def init_progressing_def condition_types
      split: option.split bool.split)

lemma updateControllerConditionsByStatus_Degraded:
  "status_of (updateControllerConditionsByStatus now i st cs) OperatorDegraded =
    status_of cs OperatorDegraded"
  by (simp add: updateControllerConditionsByStatus_def Let_def status_of_set_healthy status_of_steps)

lemma updateControllerConditionsByStatus_Available:
  "status_of (updateControllerConditionsByStatus now i st cs) OperatorAvailable =
    Some (if getStatus ErrorStatus st \<noteq> None \<and> \<not> isDisabled st then ConditionFalse else ConditionTrue)"
proof -
  have "isHealthy st \<longleftrightarrow> getStatus ErrorStatus st = None"
    and "isDisabled st \<longleftrightarrow> getStatus DisabledStatus st \<noteq> None"
    by (simp_all add: isHealthy_def isDisabled_def hasStatus_getStatus)
  then show ?thesis
    using status_of_set_unavailable [of st]
    by (auto simp: updateControllerConditionsByStatus_def Let_def status_of_set_healthy)
qed

lemma updateControllerConditionsByStatus_Progressing:
  "status_of (updateControllerConditionsByStatus now i st cs) OperatorProgressing = Some ConditionFalse"
proof -
  have "isHealthy st \<longleftrightarrow> getStatus ErrorStatus st = None"
    and "isDisabled st \<longleftrightarrow> getStatus DisabledStatus st \<noteq> None"
    by (simp_all add: isHealthy_def isDisabled_def hasStatus_getStatus)
  then show ?thesis
    using status_of_set_unavailable [of st]
    by (auto simp: updateControllerConditionsByStatus_def Let_def status_of_set_healthy)
qed

lemma conditions_ok_ops [simp]:
  "conditions_ok cs \<Longrightarrow> conditions_ok (handleAPIDisabledConditions env now st cs)"
  "conditions_ok cs \<Longrightarrow> conditions_ok (handleRemoteConfigurationConditions now st cs)"
  "conditions_ok cs \<Longrightarrow> conditions_ok (updateControllerConditionByReason env now ty n r i cs)"
  "conditions_ok cs \<Longrightarrow> conditions_ok (set_or_remove now ty s d cs)"
  "conditions_ok cs \<Longrightarrow> conditions_ok (init_conditions now st cs)"
  "conditions_ok cs \<Longrightarrow> conditions_ok (set_disabled now st cs)"
  "conditions_ok cs \<Longrightarrow> conditions_ok (set_degraded now st cs)"
  "conditions_ok cs \<Longrightarrow> conditions_ok (init_progressing now cs)"
  "conditions_ok cs \<Longrightarrow> conditions_ok (set_unavailable now st cs)"
  by (simp_all add: init_conditions_def set_disabled_def set_degraded_def init_progressing_def
      set_unavailable_def Let_def handleAPIDisabledConditions_def
      handleRemoteConfigurationConditions_def updateControllerConditionByReason_def set_or_remove_def
      split: option.split bool.split)

lemma set_healthy_ok [simp]: "conditions_ok cs \<Longrightarrow> conditions_ok (set_healthy now cs)"
  by (simp add: set_healthy_def)

lemma updateControllerConditions_ok:
  "conditions_ok cs \<Longrightarrow> conditions_ok (updateControllerConditions env now i st cs)"
  by (simp add: updateControllerConditions_def Let_def)

lemma updateControllerConditionsByStatus_ok:
  "conditions_ok cs \<Longrightarrow> conditions_ok (updateControllerConditionsByStatus now i st cs)"
  by (simp add: updateControllerConditionsByStatus_def Let_def)

lemma merged_conditions_ok: "conditions_ok (merged_conditions env now i st cos)"
  unfolding merged_conditions_def
  by (intro updateControllerConditionsByStatus_ok updateControllerConditions_ok newConditions_ok)

text \<open>Looking a condition up in the list that is written.\<close>

lemma find_entries:
  assumes "conditions_ok cs"
  shows "find (\<lambda>c. cn_Type c = k) (entries cs) = map_get cs k"
proof -
  have "c \<in> set (entries cs) \<longleftrightarrow> (cn_Type c, c) \<in> set cs" for c
    using assms by (force simp: entries_def conditions_ok_def list_all_iff)
  moreover have "distinct (map cn_Type (entries cs))" using types_entries [OF assms] by simp
  moreover have "find (\<lambda>c. f c = k) xs = Some c \<longleftrightarrow> c \<in> set xs \<and> f c = k"
    if "distinct (map f xs)" for f :: "Condition \<Rightarrow> string" and xs c
    using that by (induction xs) auto
  moreover have "map_get cs k = Some c \<longleftrightarrow> (k, c) \<in> set cs" for c
    using assms by (simp add: conditions_ok_def)
  ultimately have "find (\<lambda>c. cn_Type c = k) (entries cs) = Some c \<longleftrightarrow> map_get cs k = Some c" for c
    using assms by (auto simp: conditions_ok_def list_all_iff)
  then show ?thesis by (metis option.exhaust)
qed

section \<open>Properties\<close>

definition written_status :: "ClusterOperatorStatus \<Rightarrow> string \<Rightarrow> string option" where
  "written_status co k = map_option cn_Status (find (\<lambda>c. cn_Type c = k) (co_Conditions co))"

lemma merge_versions_conditions:
  assumes "merge_versions ps v now co cs = (co', cs', changed)"
  shows "(conditions_ok cs \<longrightarrow> conditions_ok cs') \<and>
    (\<forall>k. k \<noteq> OperatorProgressing \<longrightarrow> map_get cs' k = map_get cs k)"
  using assms by (auto simp: merge_versions_def Let_def split: if_splits prod.splits)

lemma status_merge_conditions:
  assumes "status_merge ps mr env now existing c = (c', co, changed)"
  obtains st i cos cs where "sc_ctrlStatus c' = st" "fst (currentControllerStatus env (reset (sc_ctrlStatus c))) = st"
    "co_Conditions co = entries cs" "conditions_ok cs"
    "\<And>k. k \<noteq> OperatorProgressing \<Longrightarrow> map_get cs k = map_get (merged_conditions env now i st cos) k"
proof -
  obtain st r where st: "currentControllerStatus env (reset (sc_ctrlStatus c)) = (st, r)" by fastforce
  obtain c1 start where c1: "(if r then (c, 0) else controllerStartTime now c) = (c1, start)" by fastforce
  let ?co = "case existing of None \<Rightarrow> zero_ClusterOperatorStatus | Some co \<Rightarrow> co"
  let ?co1 = "if 0 < length (se_namespace env)
    then ?co\<lparr>co_RelatedObjects := relatedObjects (se_namespace env)\<rparr> else ?co"
  let ?i = "\<not> r \<and> now - start < 3 * Minute"
  let ?cs = "merged_conditions env now ?i st (co_Conditions ?co1)"
  obtain co2 cs2 ch where mv: "merge_versions ps (se_releaseVersion env) now ?co1 ?cs = (co2, cs2, ch)"
    by (metis surj_pair)
  have "c' = c1\<lparr>sc_ctrlStatus := st\<rparr>" and "co_Conditions co = entries cs2"
    using assms st c1 mv unfolding status_merge_def Let_def by (auto split: prod.splits)
  moreover have "conditions_ok cs2"
    using merge_versions_conditions [OF mv] merged_conditions_ok by blast
  ultimately show thesis
    using merge_versions_conditions [OF mv] st that [of st cs2 ?i "co_Conditions ?co1"] by auto
qed

lemma status_merge_status:
  assumes "status_merge ps mr env now existing c = (c', co, changed)" and "k \<noteq> OperatorProgressing"
  obtains st i cs0 where "fst (currentControllerStatus env (reset (sc_ctrlStatus c))) = st"
    "written_status co k = status_of (updateControllerConditionsByStatus now i st
       (updateControllerConditions env now i st cs0)) k"
proof -
  from status_merge_conditions [OF assms(1)] obtain st i cos cs where
    "fst (currentControllerStatus env (reset (sc_ctrlStatus c))) = st" "co_Conditions co = entries cs"
    "conditions_ok cs" "map_get cs k = map_get (merged_conditions env now i st cos) k"
    by (metis assms(2))
  with find_entries show thesis
    by (intro that) (auto simp: written_status_def status_of_def merged_conditions_def)
qed

lemma operator_statuses:
  assumes "status_merge ps mr env now existing c = (c', co, changed)"
  shows "written_status co OperatorDegraded =
      Some (if env_failing env \<and> \<not> env_disabled env then ConditionTrue else ConditionFalse)"
    and "written_status co OperatorAvailable =
      Some (if env_failing env \<and> \<not> env_disabled env then ConditionFalse else ConditionTrue)"
proof -
  obtain st r where st: "currentControllerStatus env (reset (sc_ctrlStatus c)) = (st, r)" by fastforce
  have iff: "getStatus ErrorStatus st \<noteq> None \<and> \<not> isDisabled st \<longleftrightarrow> env_failing env \<and> \<not> env_disabled env"
    using currentControllerStatus_spec [OF st] by (auto simp: isDisabled_def hasStatus_getStatus)
  have ne: "OperatorDegraded \<noteq> OperatorProgressing" "OperatorAvailable \<noteq> OperatorProgressing"
    by (simp_all add: condition_types)
  show "written_status co OperatorDegraded =
      Some (if env_failing env \<and> \<not> env_disabled env then ConditionTrue else ConditionFalse)"
  proof (rule status_merge_status [OF assms ne(1)])
    fix st' i cs0
    assume "fst (currentControllerStatus env (reset (sc_ctrlStatus c))) = st'"
    with st have st': "st' = st" by simp
    assume "written_status co OperatorDegraded = status_of (updateControllerConditionsByStatus now i st'
       (updateControllerConditions env now i st' cs0)) OperatorDegraded"
    then show ?thesis
      unfolding st' updateControllerConditionsByStatus_Degraded updateControllerConditions_Degraded iff .
  qed
  show "written_status co OperatorAvailable =
      Some (if env_failing env \<and> \<not> env_disabled env then ConditionFalse else ConditionTrue)"
  proof (rule status_merge_status [OF assms ne(2)])
    fix st' i cs0
    assume "fst (currentControllerStatus env (reset (sc_ctrlStatus c))) = st'"
    with st have st': "st' = st" by simp
    assume "written_status co OperatorAvailable = status_of (updateControllerConditionsByStatus now i st'
       (updateControllerConditions env now i st' cs0)) OperatorAvailable"
    then show ?thesis unfolding st' updateControllerConditionsByStatus_Available iff .
  qed
qed

definition example_env :: "Summary option \<Rightarrow> status_env" where
  "example_env source =
     \<lparr>se_sources = [(''insightsuploader'', source)], se_enabled = True, se_api = Some False,
      se_techPreview = False, se_namespace = ''openshift-insights'', se_releaseVersion = []\<rparr>"

definition upload_failure :: Summary where
  "upload_failure =
     zero_Summary\<lparr>sm_Operation := \<lparr>op_Name = Uploading, op_HTTPStatusCode = 0\<rparr>,
       sm_Reason := ''UploadFailed'', sm_Message := ''no route''\<rparr>"

definition example_state :: status_state where
  "example_state = \<lparr>sc_reported = 0, sc_start = 1, sc_ctrlStatus = [], sc_statusCh = False\<rparr>"

text \<open>
  C1: The health the cluster operator reports.  Whatever the status was before and in whatever order
  the sources are visited, the merged status is Degraded exactly when some source has a degrading
  failure and gathering is not disabled (by the missing token or by the API); it is Available exactly
  when it is not Degraded; and the conditions are sorted with one entry per type.
\<close>

theorem operator_health:
  assumes "status_merge ps mr env now existing c = (c', co, changed)"
  shows "written_status co OperatorDegraded =
      Some (if env_failing env \<and> \<not> env_disabled env then ConditionTrue else ConditionFalse) \<and>
    written_status co OperatorAvailable =
      Some (if env_failing env \<and> \<not> env_disabled env then ConditionFalse else ConditionTrue) \<and>
    sorted (map cn_Type (co_Conditions co)) \<and> distinct (map cn_Type (co_Conditions co))"
proof -
  from status_merge_conditions [OF assms] obtain cs where
    "co_Conditions co = entries cs" "conditions_ok cs" by metis
  with operator_statuses [OF assms] types_entries [of cs] show ?thesis by simp
qed

theorem operator_health_witness:
  "written_status (fst (snd (status_merge (\<lambda>_. Inl EOF) (\<lambda>_. []) (example_env (Some upload_failure)) 9 None
     example_state))) OperatorAvailable = Some ConditionTrue"
proof -
  let ?m = "status_merge (\<lambda>_. Inl EOF) (\<lambda>_. []) (example_env (Some upload_failure)) 9 None example_state"
  have "?m = (fst ?m, fst (snd ?m), snd (snd ?m))" by simp
  from operator_health [OF this] show ?thesis
    by (simp add: env_failing_def degrading_messages_def degrading_def degradingFailure_def example_env_def
        upload_failure_def zero_Summary_def uploadFailuresCountThreshold_def map_filter_def)
qed

text \<open>
  Five failed uploads in a row degrade the operator.  A new uploader source that has reported only
  failures of uploads, one or more, makes the operator Degraded exactly when there were at least five
  of them, as long as reporting is enabled and not disabled by the API.
\<close>

lemma upload_threshold:
  assumes "list_all (\<lambda>(t, new). sm_Count new = 0 \<and> \<not> sm_Healthy new \<and> sm_Message new \<noteq> [] \<and>
      sm_Operation new = \<lparr>op_Name = Uploading, op_HTTPStatusCode = 0\<rparr>) us" and "us \<noteq> []"
    and "se_sources env = [(name, CurrentStatus (fold (\<lambda>(t, new). UpdateStatus t new) us zero_Summary))]"
    and "\<not> env_disabled env"
  shows "written_status (fst (snd (status_merge ps mr env now existing c))) OperatorDegraded =
    Some (if 5 \<le> length us then ConditionTrue else ConditionFalse)"
proof -
  let ?s = "fold (\<lambda>(t, new). UpdateStatus t new) us zero_Summary"
  have "list_all (\<lambda>(t, new). sm_Count new = 0 \<and> sm_Healthy new = False) us"
    using assms(1) by (auto simp: list_all_iff)
  from updates_count [OF this, of zero_Summary]
  have count: "sm_Count ?s = int (length us)" "\<not> sm_Healthy ?s"
    by (simp_all add: zero_Summary_def)
  have op: "op_Name (sm_Operation ?s) = Uploading"
  proof -
    have "list_all (\<lambda>(t, new). sm_Count new = 0 \<and>
        sm_Operation new = \<lparr>op_Name = Uploading, op_HTTPStatusCode = 0\<rparr> \<and> sm_Message new \<noteq> []) us"
      using assms(1) by (auto simp: list_all_iff)
    from updates_operation [OF this _ assms(2), of zero_Summary] show ?thesis
      by (simp add: zero_Summary_def)
  qed
  have "simple_ok zero_Summary" by (simp add: simple_ok_def zero_Summary_def)
  from simple.updates_current [OF this assms(2)] count assms(2)
  have cur: "CurrentStatus ?s = Some ?s" and "sm_Message ?s = sm_Message (snd (last us))"
    by (auto simp: CurrentStatus_def split: if_splits)
  moreover have "sm_Message (snd (last us)) \<noteq> []"
  proof -
    obtain t new where l: "last us = (t, new)" by fastforce
    with last_in_set [OF assms(2)] have "(t, new) \<in> set us" by simp
    with assms(1) l show ?thesis by (auto simp: list_all_iff)
  qed
  ultimately have "env_failing env \<longleftrightarrow> 5 \<le> length us"
    using assms(3) count op
    by (simp add: env_failing_def degrading_messages_def degrading_def degradingFailure_def
        uploadFailuresCountThreshold_def map_filter_def)
  with assms(4) operator_statuses(1) [of ps mr env now existing c] show ?thesis
    by (cases "status_merge ps mr env now existing c") auto
qed

text \<open>
  What is written to the API server.  When the cluster operator cannot be read for a reason other
  than that it does not exist, nothing is written and the error is returned; when it does not exist, it
  is created and its status written; when it exists, its status is written exactly when the merged
  status differs from it.
\<close>

lemma update_status_writes:
  "case updateStatus ps mr ur env now initial got create_err update_err c of (c', calls, err) \<Rightarrow>
     (case got of
        Inl e \<Rightarrow>
          if isNotFound e then
            (\<exists>co. calls = (if create_err = None then [CreateCO co, UpdateStatusCO co] else [CreateCO co])) \<and>
            err = (if create_err = None then update_err else create_err)
          else calls = [] \<and> err = Some e \<and> c' = c
      | Inr old \<Rightarrow>
          (calls = [] \<and> err = None) \<or> (\<exists>co. co \<noteq> old \<and> calls = [UpdateStatusCO co] \<and> err = update_err))"
  by (auto simp: updateStatus_def Let_def split: sum.splits prod.splits option.splits)

end
