(* ===== verification/Jobs.thy ===== *)
theory Jobs
  imports Report StatusController
begin

text \<open>
  pkg/controller/periodic: the gathering jobs (job.go), the informers that report new DataGather resources and
  finished jobs (datagather_informer.go, job_informer.go), and the parts of periodic.go that turn the API
  configuration into a DataGather resource, write the conditions of the cluster operator, and prune old jobs and
  resources.

  Reads of the API are arguments with their outcome; \<open>environ\<close> is the environment of the process.
\<close>

section \<open>Resources\<close>

text \<open>\<open>configv1.Storage\<close> and \<open>insightsv1.Storage\<close> have the same fields, as have the two types of gatherers.\<close>

record Storage =
  sto_Type :: string
  sto_MountPath :: string
  sto_ClaimName :: string

definition zero_Storage :: Storage where
  "zero_Storage = \<lparr>sto_Type = [], sto_MountPath = [], sto_ClaimName = []\<rparr>"

record Gatherers =
  ga_Mode :: string
  ga_Configs :: "GathererConfig list"

record api_GatherConfig = GatherConfig +
  agc_Configs :: "GathererConfig list"
  agc_Storage :: Storage

record ObjectReference =
  obj_Group :: string
  obj_Resource :: string
  obj_Name :: string
  obj_Namespace :: string

text \<open>The status of the resource, which also has its name, is the record \<open>DataGather\<close>.\<close>

record DataGatherResource =
  dgr_status :: DataGather
  dgr_DataPolicy :: "string list"
  dgr_Storage :: Storage
  dgr_Gatherers :: Gatherers
  dgr_RelatedObjects :: "ObjectReference list"

definition defaultStoragePath :: string where "defaultStoragePath = ''/var/lib/insights-operator''"
definition serviceCABundle :: string where "serviceCABundle = ''service-ca-bundle''"
definition serviceCABundlePath :: string where "serviceCABundlePath = ''/var/run/configmaps/service-ca-bundle''"
definition trustedCABundle :: string where "trustedCABundle = ''trusted-ca-bundle''"
definition trustedCABundlePath :: string where "trustedCABundlePath = ''/var/run/configmaps/trusted-ca-bundle''"
definition insightsNamespace :: string where "insightsNamespace = ''openshift-insights''"
definition dataUplodedConditionNotAvailable :: string where
  "dataUplodedConditionNotAvailable = ''DataUploadedConditionNotAvailable''"
definition gatheringDisabledReason :: string where "gatheringDisabledReason = ''GatheringDisabled''"
definition periodicGatheringPrefix :: string where "periodicGatheringPrefix = ''periodic-gathering-''"

abbreviation StorageTypeEphemeral :: string where "StorageTypeEphemeral \<equiv> ''Ephemeral''"
abbreviation StorageTypePersistentVolume :: string where "StorageTypePersistentVolume \<equiv> ''PersistentVolume''"
abbreviation GatheringModeAll :: string where "GatheringModeAll \<equiv> ''All''"
abbreviation GatheringModeCustom :: string where "GatheringModeCustom \<equiv> ''Custom''"

section \<open>The gathering job\<close>

datatype volume_source = EmptyDir | PersistentVolumeClaim string | ConfigMapVolume string bool

record volume_mount =
  vm_Name :: string
  vm_MountPath :: string
  vm_ReadOnly :: bool

record gather_job =
  jb_Name :: string
  jb_Namespace :: string
  jb_Labels :: "(string, string) gomap"
  jb_BackoffLimit :: int
  jb_RestartPolicy :: string
  jb_ServiceAccountName :: string
  jb_RunAsNonRoot :: bool
  jb_Volumes :: "(string \<times> volume_source) list"
  jb_Image :: string
  jb_Args :: "string list"
  jb_Env :: "env_var list"
  jb_AllowPrivilegeEscalation :: bool
  jb_ReadOnlyRootFilesystem :: bool
  jb_VolumeMounts :: "volume_mount list"

text \<open>\<open>pvc\<close> is the error of reading the claim, if any.\<close>

definition createVolumeSource :: "(string \<Rightarrow> go_error option) \<Rightarrow> Storage \<Rightarrow> volume_source" where
  "createVolumeSource pvc storage =
     (if sto_Type storage = [] \<or> sto_Type storage = StorageTypeEphemeral then EmptyDir
      else if sto_Type storage = StorageTypePersistentVolume \<and> (sto_MountPath storage \<noteq> [] \<or> sto_ClaimName storage \<noteq> [])
      then (case pvc (sto_ClaimName storage) of
              Some _ \<Rightarrow> EmptyDir
            | None \<Rightarrow> PersistentVolumeClaim (sto_ClaimName storage))
      else EmptyDir)"

definition createVolumeMounts :: "string \<Rightarrow> Storage \<Rightarrow> volume_mount list" where
  "createVolumeMounts storagePath storage =
     (let volumeMount =
            [\<lparr>vm_Name = ''archives-path'', vm_MountPath = storagePath, vm_ReadOnly = False\<rparr>,
             \<lparr>vm_Name = serviceCABundle, vm_MountPath = serviceCABundlePath, vm_ReadOnly = False\<rparr>,
             \<lparr>vm_Name = trustedCABundle, vm_MountPath = trustedCABundlePath, vm_ReadOnly = True\<rparr>]
      in if sto_Type storage \<noteq> StorageTypePersistentVolume then volumeMount
         else if sto_MountPath storage \<noteq> []
         then volumeMount[0 := (volumeMount ! 0)\<lparr>vm_MountPath := sto_MountPath storage\<rparr>]
         else volumeMount)"

definition envVarNames :: "string list" where
  "envVarNames = [''HTTP_PROXY'', ''HTTPS_PROXY'', ''NO_PROXY'', ''RELEASE_VERSION'']"

definition createEnvVar :: "(string \<Rightarrow> string option) \<Rightarrow> string \<Rightarrow> env_var list" where
  "createEnvVar environ dataGatherName =
     List.map_filter (\<lambda>name. map_option (\<lambda>value. (name, value)) (environ name)) envVarNames @
       [(''DATAGATHER_NAME'', dataGatherName)]"

definition CreateGathererJob ::
  "(string \<Rightarrow> go_error option) \<Rightarrow> (string \<Rightarrow> string option) \<Rightarrow> string \<Rightarrow> DataReporting \<Rightarrow> DataGatherResource \<Rightarrow>
   gather_job" where
  "CreateGathererJob pvc environ img dataReporting dataGather =
     (let storage = dgr_Storage dataGather; name = dg_Name (dgr_status dataGather)
      in \<lparr>jb_Name = name, jb_Namespace = insightsNamespace, jb_Labels = [(''insights-gathering'', [])],
          jb_BackoffLimit = 0, jb_RestartPolicy = ''Never'', jb_ServiceAccountName = ''operator'',
          jb_RunAsNonRoot = True,
          jb_Volumes =
            [(''archives-path'', createVolumeSource pvc storage),
             (serviceCABundle, ConfigMapVolume serviceCABundle True),
             (trustedCABundle, ConfigMapVolume trustedCABundle True)],
          jb_Image = img,
          jb_Args = [''gather-and-upload'', ''-v=4'', ''--config=/etc/insights-operator/server.yaml''],
          jb_Env = createEnvVar environ name, jb_AllowPrivilegeEscalation = False,
          jb_ReadOnlyRootFilesystem = True,
          jb_VolumeMounts = createVolumeMounts (dr_StoragePath dataReporting) storage\<rparr>)"

text \<open>
  What the watch of a job delivers, until the context ends: a deletion, a modification with the number of
  succeeded and failed pods (\<open>None\<close> for an object that is no job), another event, or a closed channel.
\<close>

datatype job_event =
    JobCtxDone
  | WatchClosed
  | JobDeleted
  | JobModified "(int \<times> int) option"
  | JobOther

definition ErrJobFailed :: go_error where "ErrJobFailed = Errorf ''job failed''"

text \<open>\<open>None\<close>: still waiting when the events are used up; otherwise the error, if any.\<close>

fun WaitForJobCompletion :: "string \<Rightarrow> job_event list \<Rightarrow> go_error option option" where
  "WaitForJobCompletion name [] = None"
| "WaitForJobCompletion name (JobCtxDone # evs) = Some (Some (Errorf ''context deadline exceeded''))"
| "WaitForJobCompletion name (WatchClosed # evs) = Some (Some (Errorf ''watcher channel was closed unexpectedly''))"
| "WaitForJobCompletion name (JobDeleted # evs) = Some (Some (Errorf (''job '' @ name @ '' deleted: job failed'')))"
| "WaitForJobCompletion name (JobOther # evs) = WaitForJobCompletion name evs"
| "WaitForJobCompletion name (JobModified st # evs) =
     (case st of
        None \<Rightarrow> Some (Some (Errorf ''failed to cast job event''))
      | Some (succeeded, failed) \<Rightarrow>
          if 0 < succeeded then Some None
          else if 0 < failed then Some (Some (Errorf (''checking status for job '' @ name @ '': job failed'')))
          else WaitForJobCompletion name evs)"

section \<open>Informers\<close>

record job_object =
  jo_Name :: string
  jo_Conditions :: "(string \<times> string) list"

definition isJobComplete :: "job_object \<Rightarrow> bool" where
  "isJobComplete job = list_ex (\<lambda>(ty, st). ty = ''Complete'' \<and> st = ConditionTrue) (jo_Conditions job)"

definition isJobFailed :: "job_object \<Rightarrow> bool" where
  "isJobFailed job = list_ex (\<lambda>(ty, st). ty = ''Failed'' \<and> st = ConditionTrue) (jo_Conditions job)"

definition isJobFinished :: "job_object \<Rightarrow> bool" where
  "isJobFinished job = (isJobComplete job \<or> isJobFailed job)"

text \<open>
  The handler of job events: what it offers on the channel of deleted and on that of finished jobs.  Objects of
  another type are \<open>None\<close>; \<open>receiving\<close> says whether somebody waits on the unbuffered channel.
\<close>

datatype informer_event = InformerDelete "job_object option" | InformerUpdate "job_object option" "job_object option"
datatype job_notice = DeletedJob string | FinishedJob string

fun job_eventHandler :: "bool \<Rightarrow> informer_event \<Rightarrow> job_notice list" where
  "job_eventHandler receiving (InformerDelete obj) =
     (case obj of
        None \<Rightarrow> []
      | Some deletedJob \<Rightarrow> if receiving then [DeletedJob (jo_Name deletedJob)] else [])"
| "job_eventHandler receiving (InformerUpdate oldObj newObj) =
     (case (oldObj, newObj) of
        (Some oldJob, Some newJob) \<Rightarrow>
          if isJobFinished oldJob then []
          else if isJobFailed newJob \<and> receiving then [FinishedJob (jo_Name newJob)] else []
      | _ \<Rightarrow> [])"

text \<open>The handler of new DataGather resources; \<open>None\<close> is an object without metadata.\<close>

definition dg_eventHandler :: "string option \<Rightarrow> string list" where
  "dg_eventHandler obj =
     (case obj of
        None \<Rightarrow> []
      | Some name \<Rightarrow> if prefix periodicGatheringPrefix name then [] else [name])"

section \<open>The specification of a periodic DataGather resource\<close>

definition createStorage :: "Storage \<Rightarrow> Storage" where
  "createStorage storage =
     (if sto_Type storage = [] then zero_Storage
      else if sto_Type storage = StorageTypeEphemeral then zero_Storage\<lparr>sto_Type := StorageTypeEphemeral\<rparr>
      else
        let mountPath = (if sto_Type storage = StorageTypePersistentVolume \<and> sto_MountPath storage \<noteq> []
                         then sto_MountPath storage else defaultStoragePath)
        in \<lparr>sto_Type = StorageTypePersistentVolume, sto_MountPath = mountPath, sto_ClaimName = sto_ClaimName storage\<rparr>)"

definition obfuscation_policy :: "string \<Rightarrow> string option" where
  "obfuscation_policy v =
     (if v = Networking then Some ''ObfuscateNetworking''
      else if v = WorkloadNames then Some ''ObfuscateWorkloadNames'' else None)"

definition api_policy :: "string \<Rightarrow> string option" where
  "api_policy p = (if p = ''ObfuscateNetworking'' \<or> p = ''ObfuscateWorkloadNames'' then Some p else None)"

text \<open>Without a configuration of the API, the nil pointer is read: the call panics.\<close>

definition createDataGatherAttributeValues ::
  "Obfuscation \<Rightarrow> api_GatherConfig option \<Rightarrow> (Gatherers \<times> string list \<times> Storage) option" where
  "createDataGatherAttributeValues obfuscation gatherConfig =
     (let dataPolicy = List.map_filter obfuscation_policy obfuscation;
          dataPolicy =
            (case gatherConfig of
               Some g \<Rightarrow> if dataPolicy = [] \<and> 0 < length (gc_dataPolicy g)
                          then List.map_filter api_policy (gc_dataPolicy g) else dataPolicy
             | None \<Rightarrow> dataPolicy)
      in case gatherConfig of
           None \<Rightarrow> None
         | Some g \<Rightarrow>
             let mode = gc_mode g;
                 gatheringMode = (if mode \<noteq> [] then mode else GatheringModeAll);
                 configs = (if mode = GatheringModeCustom then agc_Configs g else [])
             in Some (\<lparr>ga_Mode = gatheringMode, ga_Configs = configs\<rparr>, dataPolicy, createStorage (agc_Storage g)))"

definition zero_DataGather :: "string \<Rightarrow> DataGather" where
  "zero_DataGather name =
     \<lparr>dg_Name = name, dg_StartTime = 0, dg_FinishTime = 0, dg_Conditions = [], dg_Gatherers = [],
      dg_InsightsReport = \<lparr>ir_DownloadedTime = 0, ir_HealthChecks = [], ir_URI = []\<rparr>, dg_InsightsRequestID = []\<rparr>"

text \<open>\<open>created\<close> is the suffix the server gives the generated name, or the error of the creation.\<close>

definition createNewDataGatherCR ::
  "string result \<Rightarrow> Obfuscation \<Rightarrow> api_GatherConfig option \<Rightarrow> DataGatherResource result option" where
  "createNewDataGatherCR created obfuscation gatherConfig =
     (case createDataGatherAttributeValues obfuscation gatherConfig of
        None \<Rightarrow> None
      | Some (gatherersConfig, dataPolicy, storageSpec) \<Rightarrow>
          (case created of
             Inl err \<Rightarrow> Some (Inl err)
           | Inr suf \<Rightarrow>
               Some (Inr \<lparr>dgr_status = zero_DataGather (periodicGatheringPrefix @ suf), dgr_DataPolicy = dataPolicy,
                          dgr_Storage = storageSpec, dgr_Gatherers = gatherersConfig, dgr_RelatedObjects = []\<rparr>)))"

definition new_dg_conditions :: "time \<Rightarrow> MetaCondition list" where
  "new_dg_conditions now =
     [DataUploadedCondition now ConditionUnknown ''NoUploadYet'' [],
      DataRecordedCondition now ConditionUnknown ''NoDataGatheringYet'' [],
      DataProcessedCondition now ConditionUnknown ''NothingToProcessYet'' [],
      RemoteConfigurationAvailableCondition now ConditionUnknown ''Unknown'' [],
      RemoteConfigurationValidCondition now ConditionUnknown ''Unknown'' [],
      ProgressingCondition now DataGatheringPendingReason]"

text \<open>The resource is a pointer: the first component is what it holds after the call.\<close>

definition updateNewDataGatherCRStatus ::
  "go_error option \<Rightarrow> time \<Rightarrow> gather_job option \<Rightarrow> DataGatherResource \<Rightarrow> DataGatherResource \<times> go_error option" where
  "updateNewDataGatherCRStatus upd now job dg =
     (let dg = dg\<lparr>dgr_status := (dgr_status dg)\<lparr>dg_Conditions := new_dg_conditions now\<rparr>\<rparr>;
          dg = (case job of
                  None \<Rightarrow> dg
                | Some j \<Rightarrow> dg\<lparr>dgr_RelatedObjects := [\<lparr>obj_Group = ''batch'', obj_Resource = ''job'', obj_Name = jb_Name j,
                                obj_Namespace = jb_Namespace j\<rparr>]\<rparr>)
      in (dg, upd))"

section \<open>Conditions of the cluster operator\<close>

definition getClusterOperatorConditionIndexByType :: "string \<Rightarrow> Condition list \<Rightarrow> int \<times> bool" where
  "getClusterOperatorConditionIndexByType conType conditions =
     fold (\<lambda>(i, con) acc. if cn_Type con = conType then (int i, True) else acc) (enumerate 0 conditions) (- 1, False)"

definition put_co_condition :: "Condition \<Rightarrow> Condition list \<Rightarrow> Condition list" where
  "put_co_condition con conditions =
     (case getClusterOperatorConditionIndexByType (cn_Type con) conditions of
        (_, False) \<Rightarrow> conditions @ [con]
      | (idx, True) \<Rightarrow> conditions[nat idx := con])"

definition co_condition :: "Condition list \<Rightarrow> string \<Rightarrow> Condition option" where
  "co_condition conditions conType =
     fold (\<lambda>con c. if cn_Type con = conType then Some con else c) conditions None"

definition from_meta :: "string \<Rightarrow> MetaCondition \<Rightarrow> Condition" where
  "from_meta conditionType con =
     \<lparr>cn_Type = conditionType, cn_Status = mc_Status con, cn_LastTransitionTime = mc_LastTransitionTime con,
      cn_Reason = mc_Reason con, cn_Message = mc_Message con\<rparr>"

text \<open>
  \<open>got\<close> are the conditions read from the cluster operator, \<open>upd\<close> the error of the update.  The result is what is
  sent in the update, \<open>None\<close> without an update, and the error.
\<close>

definition merged_co_condition :: "string \<Rightarrow> MetaCondition \<Rightarrow> Condition \<Rightarrow> Condition" where
  "merged_co_condition conditionType dataGatherCondition con =
     (if cn_Status con = mc_Status dataGatherCondition then
        (if cn_Reason con \<noteq> mc_Reason dataGatherCondition
         then con\<lparr>cn_Reason := mc_Reason dataGatherCondition,
                  cn_LastTransitionTime := mc_LastTransitionTime dataGatherCondition,
                  cn_Message := mc_Message dataGatherCondition\<rparr>
         else con)
      else from_meta conditionType dataGatherCondition)"

definition compareAndUpdateClusterOperatorCondition ::
  "Condition list result \<Rightarrow> go_error option \<Rightarrow> string \<Rightarrow> MetaCondition \<Rightarrow> Condition list option \<times> go_error option" where
  "compareAndUpdateClusterOperatorCondition got upd conditionType dataGatherCondition =
     (case got of
        Inl err \<Rightarrow> (None, Some err)
      | Inr conditions \<Rightarrow>
          (case co_condition conditions conditionType of
             None \<Rightarrow> (Some (conditions @ [from_meta conditionType dataGatherCondition]), upd)
           | Some con \<Rightarrow>
               (Some (put_co_condition (merged_co_condition conditionType dataGatherCondition con) conditions), upd)))"

definition setRemoteConfigConditionsWhenDisabled ::
  "Condition list result \<Rightarrow> go_error option \<Rightarrow> time \<Rightarrow> Condition list option \<times> go_error option" where
  "setRemoteConfigConditionsWhenDisabled got upd now =
     (case got of
        Inl err \<Rightarrow> (None, Some err)
      | Inr conditions \<Rightarrow>
          let available = \<lparr>cn_Type = RemoteConfigurationAvailable, cn_Status = ConditionFalse,
                cn_LastTransitionTime = now, cn_Reason = gatheringDisabledReason,
                cn_Message = ''Data gathering is disabled''\<rparr>;
              valid = \<lparr>cn_Type = RemoteConfigurationValid, cn_Status = ConditionUnknown, cn_LastTransitionTime = now,
                cn_Reason = RemoteConfNotValidatedYet, cn_Message = []\<rparr>
          in (Some (if length conditions = 0 then conditions @ [available, valid]
                    else put_co_condition valid (put_co_condition available conditions)), upd))"

section \<open>Pruning\<close>

text \<open>
  One round: the names of the listed objects with their creation times (an empty list when listing failed), and the
  names whose deletion is asked for.
\<close>

definition prune_old :: "time \<Rightarrow> (string \<times> time) list result \<Rightarrow> string list" where
  "prune_old now listed =
     (case listed of
        Inl _ \<Rightarrow> []
      | Inr items \<Rightarrow> map fst (filter (\<lambda>(_, created). now - created > 24 * Hour) items))"

definition prune_round ::
  "time \<Rightarrow> (string \<times> time) list result \<Rightarrow> (string \<times> time) list result \<Rightarrow> string list \<times> string list" where
  "prune_round now jobs dataGathers = (prune_old now jobs, prune_old now dataGathers)"

text \<open>\<open>PeriodicPrune\<close>: every round with its time and listings until the context ends.\<close>

definition PeriodicPrune ::
  "(time \<times> (string \<times> time) list result \<times> (string \<times> time) list result) list \<Rightarrow> (string list \<times> string list) list" where
  "PeriodicPrune rounds = map (\<lambda>(now, jobs, dgs). prune_round now jobs dgs) rounds"

section \<open>The conditions of the cluster operator are a keyed list\<close>

lemma index_last:
  "fold (\<lambda>(i, con) acc. if P con then (int i, True) else acc) (enumerate n cs) a =
    (case last_idx P cs of None \<Rightarrow> a | Some i \<Rightarrow> (int (n + i), True))"
  by (induction cs arbitrary: n a) (auto split: option.splits)

lemma co_index_eq:
  "getClusterOperatorConditionIndexByType k cs =
    (case last_idx (\<lambda>c. cn_Type c = k) cs of None \<Rightarrow> (- 1, False) | Some i \<Rightarrow> (int i, True))"
  unfolding getClusterOperatorConditionIndexByType_def index_last by (simp split: option.split)

interpretation co: keyed_list cn_Type co_condition put_co_condition
  by unfold_locales
    (auto simp: co_condition_def find_last_def put_co_condition_def co_index_eq split: option.splits)

lemma co_condition_type: "co_condition cs k = Some c \<Longrightarrow> cn_Type c = k"
  using find_last_Some [of "\<lambda>c. cn_Type c = k" cs c] by (simp add: co.get_last)

lemma co_put_new: "co_condition cs (cn_Type c) = None \<Longrightarrow> put_co_condition c cs = cs @ [c]"
  by (simp add: co.get_last co.put_last find_last_eq)

lemma merged_co_condition_type [simp]: "cn_Type c = k \<Longrightarrow> cn_Type (merged_co_condition k d c) = k"
  by (simp add: merged_co_condition_def from_meta_def)

lemma compareAndUpdate_put:
  assumes "compareAndUpdateClusterOperatorCondition (Inr cs) upd k d = (sent, err)"
  obtains c where "sent = Some (put_co_condition c cs)" "err = upd" "cn_Type c = k"
    "cn_Status c = mc_Status d" "cn_Reason c = mc_Reason d"
    "cn_Message c = mc_Message d \<or> co_condition cs k = Some c"
proof (cases "co_condition cs k")
  case None
  with assms that [of "from_meta k d"] co_put_new [of cs "from_meta k d"] show ?thesis
    by (auto simp: compareAndUpdateClusterOperatorCondition_def from_meta_def)
next
  case (Some con)
  with assms that [of "merged_co_condition k d con"] co_condition_type [OF Some] show ?thesis
    by (auto simp: compareAndUpdateClusterOperatorCondition_def merged_co_condition_def from_meta_def)
qed

lemma setRemoteConfig_put:
  "setRemoteConfigConditionsWhenDisabled (Inr cs) upd now =
    (Some (put_co_condition \<lparr>cn_Type = RemoteConfigurationValid, cn_Status = ConditionUnknown,
        cn_LastTransitionTime = now, cn_Reason = RemoteConfNotValidatedYet, cn_Message = []\<rparr>
      (put_co_condition \<lparr>cn_Type = RemoteConfigurationAvailable, cn_Status = ConditionFalse,
        cn_LastTransitionTime = now, cn_Reason = gatheringDisabledReason, cn_Message = ''Data gathering is disabled''\<rparr> cs)), upd)"
  by (auto simp: setRemoteConfigConditionsWhenDisabled_def Let_def co.put_last RemoteConfigurationAvailable_def
      RemoteConfigurationValid_def)

section \<open>Storage and policies\<close>

lemma createStorage_idem: "createStorage (createStorage s) = createStorage s"
  by (simp add: createStorage_def zero_Storage_def Let_def)

lemma attribute_storage:
  "createDataGatherAttributeValues obf (Some g) = Some (ga, pol, sto) \<Longrightarrow> sto = createStorage (agc_Storage g)"
  by (simp add: createDataGatherAttributeValues_def Let_def)

lemma periodic_volume:
  "createVolumeSource pvc (createStorage s) =
    (if sto_Type s = [] \<or> sto_Type s = StorageTypeEphemeral \<or> pvc (sto_ClaimName s) \<noteq> None then EmptyDir
     else PersistentVolumeClaim (sto_ClaimName s))"
proof -
  have "defaultStoragePath \<noteq> []" by (simp add: defaultStoragePath_def)
  then show ?thesis
    by (cases "pvc (sto_ClaimName s)")
      (simp_all add: createVolumeSource_def createStorage_def zero_Storage_def Let_def)
qed

end
