(* ===== verification/DiskRecorder.thy ===== *)
theory DiskRecorder
  imports Recorder
begin

text \<open>
  pkg/recorder/diskrecorder/diskrecorder.go: the driver that writes archives to a directory.

  The directory is the list of its entries in the order \<open>os.ReadDir\<close> gives them (by name).  An archive
  is the list of the records in it, with a flag that says that its writers were closed; the bytes of
  tar and gzip are left out.  What the file system may answer is the record \<open>disk_faults\<close>: the errors of
  the calls for a given name or record, \<open>None\<close> where the call succeeds.  \<open>fmt\<close> is the file name's time
  stamp (\<open>Format\<close> with the layout 2006-01-02-150405), and a file's modification time is the clock.
\<close>

section \<open>State\<close>

record dir_entry =
  de_name :: string
  de_isDir :: bool
  de_modTime :: time
  de_content :: "MemoryRecord list"
  de_complete :: bool

record disk =
  dk_lastRecording :: time
  dk_files :: "dir_entry list"

record disk_faults =
  df_readDir :: "go_error option"
  df_info :: "string \<Rightarrow> go_error option"
  df_create :: "string \<Rightarrow> go_error option"
  df_header :: "MemoryRecord \<Rightarrow> go_error option"
  df_write :: "MemoryRecord \<Rightarrow> go_error option"
  df_closeTar :: "go_error option"
  df_closeGzip :: "go_error option"
  df_closeFile :: "go_error option"
  df_remove :: "string \<Rightarrow> go_error option"
  df_open :: "string \<Rightarrow> go_error option"

definition archiveExtension :: string where "archiveExtension = ''.tar.gz''"

definition isNotArchiveFile :: "dir_entry \<Rightarrow> bool" where
  "isNotArchiveFile f =
     (de_isDir f \<or> \<not> prefix ''insights-'' (de_name f) \<or> \<not> suffix ''.tar.gz'' (de_name f))"

section \<open>Saving\<close>

fun write_records ::
  "disk_faults \<Rightarrow> MemoryRecord list \<Rightarrow> MemoryRecord list \<Rightarrow> MemoryRecord list \<times> go_error option" where
  "write_records flt completed [] = (completed, None)"
| "write_records flt completed (r # rs) =
     (case df_header flt r of
        Some e \<Rightarrow> (completed, Some (Errorf (''unable to write tar header: '' @ error_text e)))
      | None \<Rightarrow>
          (case df_write flt r of
             Some e \<Rightarrow> (completed, Some (Errorf (''unable to write tar entry: '' @ error_text e)))
           | None \<Rightarrow> write_records flt (completed @ [r]) rs))"

definition close_writers :: "disk_faults \<Rightarrow> go_error option" where
  "close_writers flt =
     (case df_closeTar flt of
        Some e \<Rightarrow> Some (Errorf (''unable to close tar writer: '' @ error_text e))
      | None \<Rightarrow>
          (case df_closeGzip flt of
             Some e \<Rightarrow> Some (Errorf (''unable to close gzip writer: '' @ error_text e))
           | None \<Rightarrow>
               (case df_closeFile flt of
                  Some e \<Rightarrow> Some (Errorf (''unable to close file: '' @ error_text e))
                | None \<Rightarrow> None)))"

definition entry_less :: "dir_entry \<Rightarrow> dir_entry \<Rightarrow> bool" where
  "entry_less a b = (de_name a < de_name b)"

definition SaveAtPath ::
  "disk_faults \<Rightarrow> time \<Rightarrow> string \<Rightarrow> MemoryRecord list \<Rightarrow> disk \<Rightarrow>
   disk \<times> MemoryRecord list \<times> go_error option" where
  "SaveAtPath flt now name records d =
     (if \<not> suffix archiveExtension name
      then (d, [], Some (Errorf (''path should have suffix \"'' @ archiveExtension @ ''\"'')))
      else if name \<in> de_name ` set (dk_files d) then (d, [], Some (AlreadyExistsErr name))
      else case df_create flt name of
        Some e \<Rightarrow> (d, [], Some (Errorf (''unable to create archive: '' @ error_text e)))
      | None \<Rightarrow>
          let (completed, err) = write_records flt [] records;
              err = (case err of Some e \<Rightarrow> Some e | None \<Rightarrow> close_writers flt);
              f = \<lparr>de_name = name, de_isDir = False, de_modTime = now, de_content = completed,
                   de_complete = (err = None)\<rparr>;
              d = d\<lparr>dk_files := insert_by entry_less f (dk_files d)\<rparr>
          in case err of
               Some e \<Rightarrow> (d, [], Some e)
             | None \<Rightarrow> (d, completed, None))"

text \<open>\<open>Save\<close> indexes the first record; the recorder calls it with at least one.\<close>

definition disk_Save ::
  "disk_faults \<Rightarrow> (time \<Rightarrow> string) \<Rightarrow> time \<Rightarrow> disk save_op" where
  "disk_Save flt fmt now d records =
     (let last = mr_At (hd records);
          name = ''insights-'' @ fmt last @ archiveExtension
      in SaveAtPath flt now name records (d\<lparr>dk_lastRecording := last\<rparr>))"

section \<open>Pruning\<close>

text \<open>
  \<open>PruneByCount\<close>: the loop state is the count, the oldest time and the oldest archive.  The archive
  stays \<open>nil\<close> when no archive is older than the clock; following it then is a panic (\<open>None\<close>).
\<close>

fun oldest_archive ::
  "disk_faults \<Rightarrow> dir_entry list \<Rightarrow> nat \<Rightarrow> time \<Rightarrow> dir_entry option \<Rightarrow>
   go_error + (nat \<times> dir_entry option)" where
  "oldest_archive flt [] n t oldest = Inr (n, oldest)"
| "oldest_archive flt (f # fs) n t oldest =
     (case df_info flt (de_name f) of
        Some e \<Rightarrow> Inl e
      | None \<Rightarrow>
          if isNotArchiveFile f then oldest_archive flt fs n t oldest
          else if de_modTime f < t then oldest_archive flt fs (Suc n) (de_modTime f) (Some f)
          else oldest_archive flt fs (Suc n) t oldest)"

definition remove_file :: "string \<Rightarrow> disk \<Rightarrow> disk" where
  "remove_file name d = d\<lparr>dk_files := filter (\<lambda>f. de_name f \<noteq> name) (dk_files d)\<rparr>"

definition PruneByCount ::
  "disk_faults \<Rightarrow> time \<Rightarrow> nat \<Rightarrow> disk \<Rightarrow> (disk \<times> go_error option) option" where
  "PruneByCount flt now countTreshold d =
     (case df_readDir flt of
        Some e \<Rightarrow> Some (d, Some e)
      | None \<Rightarrow>
          (case oldest_archive flt (dk_files d) 0 now None of
             Inl e \<Rightarrow> Some (d, Some e)
           | Inr (archiveCount, lastArchive) \<Rightarrow>
               if archiveCount \<le> countTreshold then Some (d, None)
               else case lastArchive of
                      None \<Rightarrow> None
                    | Some f \<Rightarrow>
                        (case df_remove flt (de_name f) of
                           Some e \<Rightarrow>
                             Some (d, Some (Errorf (''failed to delete expired file: '' @ error_text e)))
                         | None \<Rightarrow> Some (remove_file (de_name f) d, None))))"

definition expired :: "disk_faults \<Rightarrow> time \<Rightarrow> dir_entry \<Rightarrow> bool" where
  "expired flt olderThan f =
     (df_info flt (de_name f) = None \<and> \<not> isNotArchiveFile f \<and> \<not> de_modTime f > olderThan)"

fun prune_loop ::
  "disk_faults \<Rightarrow> time \<Rightarrow> dir_entry list \<Rightarrow> disk \<Rightarrow> string list \<Rightarrow> disk \<times> string list" where
  "prune_loop flt olderThan [] d errors = (d, errors)"
| "prune_loop flt olderThan (f # fs) d errors =
     (if expired flt olderThan f then
        (case df_remove flt (de_name f) of
           Some e \<Rightarrow> prune_loop flt olderThan fs d (errors @ [error_text e])
         | None \<Rightarrow> prune_loop flt olderThan fs (remove_file (de_name f) d) errors)
      else prune_loop flt olderThan fs d errors)"

definition Prune :: "disk_faults \<Rightarrow> disk \<Rightarrow> time \<Rightarrow> disk \<times> go_error option" where
  "Prune flt d olderThan =
     (case df_readDir flt of
        Some e \<Rightarrow> (d, Some e)
      | None \<Rightarrow>
          (case prune_loop flt olderThan (dk_files d) d [] of
             (d, []) \<Rightarrow> (d, None)
           | (d, [e]) \<Rightarrow> (d, Some (Errorf (''failed to delete expired file: '' @ e)))
           | (d, e # es) \<Rightarrow>
               (d, Some (Errorf (''failed to delete '' @ itoa (int (length (e # es))) @
                      '' expired files: '' @ e)))))"

section \<open>Reading\<close>

text \<open>
  A source is the opened file and the time of the last recording.  \<open>LastArchive\<close> opens the base
  directory itself when the directory has entries but no archive: the contents are \<open>None\<close> then.
\<close>

record archive_source =
  as_contents :: "dir_entry option"
  as_creationTime :: time

fun recent_files ::
  "disk_faults \<Rightarrow> time \<Rightarrow> dir_entry list \<Rightarrow> dir_entry list result" where
  "recent_files flt since [] = Inr []"
| "recent_files flt since (f # fs) =
     (case df_info flt (de_name f) of
        Some e \<Rightarrow> Inl e
      | None \<Rightarrow>
          if isNotArchiveFile f \<or> de_modTime f < since then recent_files flt since fs
          else (case recent_files flt since fs of Inl e \<Rightarrow> Inl e | Inr rs \<Rightarrow> Inr (f # rs)))"

definition Summary ::
  "disk_faults \<Rightarrow> time \<Rightarrow> disk \<Rightarrow> archive_source option result" where
  "Summary flt since d =
     (case df_readDir flt of
        Some e \<Rightarrow> Inl e
      | None \<Rightarrow>
          (case recent_files flt since (dk_files d) of
             Inl e \<Rightarrow> Inl e
           | Inr [] \<Rightarrow> Inr None
           | Inr rs \<Rightarrow>
               (case df_open flt (de_name (last rs)) of
                  Some _ \<Rightarrow> Inr None
                | None \<Rightarrow>
                    Inr (Some \<lparr>as_contents = Some (last rs), as_creationTime = dk_lastRecording d\<rparr>))))"

fun latest_archive ::
  "disk_faults \<Rightarrow> dir_entry list \<Rightarrow> time \<Rightarrow> dir_entry option \<Rightarrow> dir_entry option result" where
  "latest_archive flt [] t latest = Inr latest"
| "latest_archive flt (f # fs) t latest =
     (case df_info flt (de_name f) of
        Some e \<Rightarrow> Inl e
      | None \<Rightarrow>
          if isNotArchiveFile f then latest_archive flt fs t latest
          else if de_modTime f > t then latest_archive flt fs (de_modTime f) (Some f)
          else latest_archive flt fs t latest)"

definition LastArchive :: "disk_faults \<Rightarrow> disk \<Rightarrow> archive_source option result" where
  "LastArchive flt d =
     (case df_readDir flt of
        Some e \<Rightarrow> Inl e
      | None \<Rightarrow>
          if dk_files d = [] then Inr None
          else (case latest_archive flt (dk_files d) 0 None of
                  Inl e \<Rightarrow> Inl e
                | Inr latest \<Rightarrow>
                    (case df_open flt (case latest of None \<Rightarrow> [] | Some f \<Rightarrow> de_name f) of
                       Some e \<Rightarrow> Inl e
                     | None \<Rightarrow>
                         Inr (Some \<lparr>as_contents = latest, as_creationTime = dk_lastRecording d\<rparr>))))"

section \<open>Lemmas\<close>

lemma set_insert_by [simp]: "set (insert_by lt x xs) = insert x (set xs)"
  by (metis mset_insert_by set_mset_mset set_mset_add_mset_insert)

lemma write_records_complete:
  "write_records flt done rs = (c, None) \<Longrightarrow> c = done @ rs"
proof (induction rs arbitrary: "done")
  case Nil
  then show ?case by simp
next
  case (Cons r rs)
  then show ?case using Cons.IH [of "done @ [r]"] by (auto split: option.splits)
qed

lemma write_records_prefix:
  "write_records flt done rs = (c, err) \<Longrightarrow> \<exists>xs. prefix xs rs \<and> c = done @ xs"
proof (induction rs arbitrary: "done")
  case Nil
  then show ?case by simp
next
  case (Cons r rs)
  show ?case
  proof (cases "df_header flt r = None \<and> df_write flt r = None")
    case True
    with Cons obtain xs where "prefix xs rs \<and> c = (done @ [r]) @ xs" by fastforce
    then show ?thesis by (intro exI [of _ "r # xs"]) simp
  next
    case False
    with Cons.prems show ?thesis
      by (intro exI [of _ "[]"]) (auto split: option.splits)
  qed
qed

lemma SaveAtPath_ok:
  assumes "SaveAtPath flt now name recs d = (d', saved, None)"
  shows "saved = recs \<and>
    dk_files d' = insert_by entry_less
      \<lparr>de_name = name, de_isDir = False, de_modTime = now, de_content = recs, de_complete = True\<rparr>
      (dk_files d) \<and> dk_lastRecording d' = dk_lastRecording d"
  using assms
  by (auto simp: SaveAtPath_def Let_def split: if_splits option.splits prod.splits
      dest: write_records_complete)

lemma SaveAtPath_keeps:
  assumes "SaveAtPath flt now name recs d = (d', saved, err)"
  shows "set (dk_files d) \<subseteq> set (dk_files d')"
  using assms
  by (auto simp: SaveAtPath_def Let_def split: if_splits option.splits prod.splits)

text \<open>The complete archives of the directory.\<close>

definition disk_archives :: "disk \<Rightarrow> MemoryRecord list list" where
  "disk_archives d = map de_content (filter (\<lambda>f. \<not> isNotArchiveFile f \<and> de_complete f) (dk_files d))"

lemma archive_name: "\<not> isNotArchiveFile f" if "de_isDir f = False"
  "de_name f = ''insights-'' @ t @ archiveExtension"
  using that by (simp add: isNotArchiveFile_def archiveExtension_def suffix_def)

interpretation disk_driver: recorder_driver "disk_Save flt fmt now" disk_archives for flt fmt now
proof unfold_locales
  fix recs d d' saved
  assume "disk_Save flt fmt now d recs = (d', saved, None)"
  from SaveAtPath_ok [OF this [unfolded disk_Save_def Let_def]]
  show "recs \<in> set (disk_archives d') \<and> saved = recs"
    by (force simp: disk_archives_def archive_name)
next
  fix d recs d' saved err
  assume "disk_Save flt fmt now d recs = (d', saved, err)"
  from SaveAtPath_keeps [OF this [unfolded disk_Save_def Let_def]]
  show "set (disk_archives d) \<subseteq> set (disk_archives d')"
    by (auto simp: disk_archives_def)
qed

lemma prune_loop_files:
  "prune_loop flt t fs d errs = (d', errs') \<Longrightarrow>
   dk_files d' =
     filter (\<lambda>f. de_name f \<notin> de_name ` {g \<in> set fs. expired flt t g \<and> df_remove flt (de_name g) = None})
       (dk_files d) \<and>
   (errs' = [] \<longleftrightarrow> errs = [] \<and> (\<forall>g \<in> set fs. expired flt t g \<longrightarrow> df_remove flt (de_name g) = None))"
proof (induction fs arbitrary: d errs)
  case Nil
  then show ?case by simp
next
  case (Cons f fs)
  show ?case
  proof (cases "expired flt t f \<and> df_remove flt (de_name f) = None")
    case True
    then have "{g \<in> set (f # fs). expired flt t g \<and> df_remove flt (de_name g) = None} =
        insert f {g \<in> set fs. expired flt t g \<and> df_remove flt (de_name g) = None}" by auto
    moreover have "prune_loop flt t fs (remove_file (de_name f) d) errs = (d', errs')"
      using Cons.prems True by simp
    ultimately show ?thesis
      using Cons.IH [of "remove_file (de_name f) d" errs] True
      by (auto simp: remove_file_def intro!: filter_cong)
  next
    case False
    then have "{g \<in> set (f # fs). expired flt t g \<and> df_remove flt (de_name g) = None} =
        {g \<in> set fs. expired flt t g \<and> df_remove flt (de_name g) = None}" by auto
    with Cons False show ?thesis by (auto split: if_splits option.splits)
  qed
qed

lemma name_filter:
  assumes "distinct (map de_name fs)"
  shows "filter (\<lambda>f. de_name f \<notin> de_name ` {g \<in> set fs. P g}) fs = filter (\<lambda>f. \<not> P f) fs"
  using assms by (intro filter_cong) (auto simp: distinct_map dest: inj_onD)

lemma oldest_archive_count:
  "oldest_archive flt fs n t old = Inr (k, res) \<Longrightarrow>
   k = n + length (filter (\<lambda>f. \<not> isNotArchiveFile f) fs)"
  by (induction flt fs n t old rule: oldest_archive.induct) (auto split: option.splits if_splits)

lemma oldest_archive_oldest:
  assumes "oldest_archive flt fs n t old = Inr (k, res)"
    and "\<And>f. old = Some f \<Longrightarrow> de_modTime f = t"
  shows "(res = old \<and> (\<forall>f \<in> set fs. \<not> isNotArchiveFile f \<longrightarrow> t \<le> de_modTime f)) \<or>
    (\<exists>f \<in> set fs. res = Some f \<and> \<not> isNotArchiveFile f \<and> de_modTime f < t \<and>
      (\<forall>g \<in> set fs. \<not> isNotArchiveFile g \<longrightarrow> de_modTime f \<le> de_modTime g))"
  using assms
proof (induction fs arbitrary: n t old)
  case Nil
  then show ?case by simp
next
  case (Cons f fs)
  from Cons.prems(1) have info: "df_info flt (de_name f) = None" by (simp split: option.splits)
  show ?case
  proof (cases "isNotArchiveFile f")
    case True
    with Cons.prems info have "oldest_archive flt fs n t old = Inr (k, res)" by simp
    from Cons.IH [OF this Cons.prems(2)] True show ?thesis by auto
  next
    case arch: False
    show ?thesis
    proof (cases "de_modTime f < t")
      case True
      with arch Cons.prems info
      have "oldest_archive flt fs (Suc n) (de_modTime f) (Some f) = Inr (k, res)" by simp
      from Cons.IH [OF this] consider
        "res = Some f" "\<forall>g \<in> set fs. \<not> isNotArchiveFile g \<longrightarrow> de_modTime f \<le> de_modTime g" |
        g where "g \<in> set fs" "res = Some g" "\<not> isNotArchiveFile g" "de_modTime g < de_modTime f"
          "\<forall>h \<in> set fs. \<not> isNotArchiveFile h \<longrightarrow> de_modTime g \<le> de_modTime h"
        by auto
      then show ?thesis
      proof cases
        case 1
        with arch True show ?thesis by auto
      next
        case 2
        with arch True show ?thesis by (intro disjI2 bexI [of _ g]) auto
      qed
    next
      case False
      with arch Cons.prems info have "oldest_archive flt fs (Suc n) t old = Inr (k, res)" by simp
      from Cons.IH [OF this Cons.prems(2)] arch False show ?thesis by auto
    qed
  qed
qed

lemma oldest_archive_no_fault:
  "\<forall>f \<in> set fs. df_info flt (de_name f) = None \<Longrightarrow> \<exists>p. oldest_archive flt fs n t old = Inr p"
  by (induction flt fs n t old rule: oldest_archive.induct) auto

lemma recent_files_filter:
  "\<forall>f \<in> set fs. df_info flt (de_name f) = None \<Longrightarrow>
   recent_files flt since fs = Inr (filter (\<lambda>f. \<not> isNotArchiveFile f \<and> since \<le> de_modTime f) fs)"
  by (induction fs) auto

lemma insert_entry_sorted:
  assumes "sorted_wrt entry_less fs" and "de_name f \<notin> de_name ` set fs"
  shows "sorted_wrt entry_less (insert_by entry_less f fs)"
  using assms by (induction fs) (auto simp: entry_less_def)

lemma SaveAtPath_new:
  assumes "SaveAtPath flt now name recs d = (d', saved, None)"
  shows "name \<notin> de_name ` set (dk_files d)"
  using assms by (auto simp: SaveAtPath_def split: if_splits)

lemma sorted_wrt_last:
  assumes "sorted_wrt P xs" and "x \<in> set xs" and "x \<noteq> last xs"
  shows "P x (last xs)"
  using assms by (induction xs) (auto split: if_splits)

section \<open>Properties\<close>

definition no_faults :: disk_faults where
  "no_faults =
     \<lparr>df_readDir = None, df_info = (\<lambda>_. None), df_create = (\<lambda>_. None), df_header = (\<lambda>_. None),
      df_write = (\<lambda>_. None), df_closeTar = None, df_closeGzip = None, df_closeFile = None,
      df_remove = (\<lambda>_. None), df_open = (\<lambda>_. None)\<rparr>"

definition example_entry :: "string \<Rightarrow> time \<Rightarrow> dir_entry" where
  "example_entry name t =
     \<lparr>de_name = name, de_isDir = False, de_modTime = t, de_content = [], de_complete = True\<rparr>"

definition example_disk :: disk where
  "example_disk =
     \<lparr>dk_lastRecording = 0,
      dk_files = [example_entry ''insights-1.tar.gz'' 10, example_entry ''insights-2.tar.gz'' 20,
                  example_entry ''lock'' 5]\<rparr>"

definition example_memory :: "string \<Rightarrow> time \<Rightarrow> MemoryRecord" where
  "example_memory name t = \<lparr>mr_Name = name, mr_At = t, mr_Data = Some ''x'', mr_Fingerprint = name\<rparr>"

definition example_full :: "unit Recorder" where
  "example_full = (New Hour None)\<lparr>r_records :=
     [(''a'', example_memory ''a'' 3), (''b'', example_memory ''b'' 8)], r_size := 2\<rparr>"

text \<open>
  C3: A flush that reports no error has put the recorded data on disk: a complete archive of the
  directory holds exactly the records that were in memory, newest first, no archive that was there is
  lost, and the recorder is empty.
\<close>

theorem flush_to_disk:
  assumes "copy_records r \<noteq> []" and "Flush (disk_Save flt fmt now) store d r = (d', r', None)"
  shows "(\<exists>recs. recs \<in> set (disk_archives d') \<and> mset recs = mset (copy_records r) \<and>
      sorted_wrt (\<lambda>x y. mr_At x \<ge> mr_At y) recs) \<and>
    set (disk_archives d) \<subseteq> set (disk_archives d') \<and> r_records r' = [] \<and> r_size r' = 0"
  using disk_driver.Flush_stores [OF assms] disk_driver.Flush_keeps [OF assms(2)]
    Flush_clears [OF assms(1), of "disk_Save flt fmt now" store d] assms(2)
  by simp

theorem flush_to_disk_witness:
  "\<exists>d' r'. Flush (disk_Save no_faults (\<lambda>_. ''3'') 30) id example_disk example_full = (d', r', None) \<and>
    (\<exists>recs \<in> set (disk_archives d'). mset recs = mset (copy_records example_full)) \<and> r_records r' = []"
proof -
  let ?f = "Flush (disk_Save no_faults (\<lambda>_. ''3'') 30) id example_disk example_full"
  have c: "copy_records example_full \<noteq> []" by code_simp
  have "snd (snd ?f) = None" by code_simp
  then obtain d' r' where f: "?f = (d', r', None)" by (metis prod.collapse)
  from flush_to_disk [OF c f] f show ?thesis by blast
qed

text \<open>
  Even a flush whose save fails empties the recorder and loses no archive that was on disk.
\<close>

lemma flush_always_clears:
  assumes "copy_records r \<noteq> []" and "Flush (disk_Save flt fmt now) store d r = (d', r', err)"
  shows "r_records r' = [] \<and> r_size r' = 0 \<and> set (disk_archives d) \<subseteq> set (disk_archives d')"
  using disk_driver.Flush_keeps [OF assms(2)]
    Flush_clears [OF assms(1), of "disk_Save flt fmt now" store d] assms(2)
  by simp

text \<open>
  Pruning by age.  \<open>Prune\<close> removes exactly the archives that are not newer than the limit, whose
  information could be read and whose removal succeeded; it reports success iff every removal it tried
  succeeded, and never touches a directory or a file that is not an archive.
\<close>

lemma prune_exact:
  assumes "distinct (map de_name (dk_files d))" and "df_readDir flt = None"
  shows "dk_files (fst (Prune flt d olderThan)) =
      filter (\<lambda>f. \<not> (expired flt olderThan f \<and> df_remove flt (de_name f) = None)) (dk_files d) \<and>
    (snd (Prune flt d olderThan) = None \<longleftrightarrow>
      (\<forall>f \<in> set (dk_files d). expired flt olderThan f \<longrightarrow> df_remove flt (de_name f) = None))"
proof -
  obtain d' errs where p: "prune_loop flt olderThan (dk_files d) d [] = (d', errs)" by fastforce
  have "Prune flt d olderThan = (d', snd (Prune flt d olderThan))"
    and "snd (Prune flt d olderThan) = None \<longleftrightarrow> errs = []"
    using assms(2) p by (auto simp: Prune_def split: list.splits)
  with prune_loop_files [OF p]
    name_filter [OF assms(1), of "\<lambda>g. expired flt olderThan g \<and> df_remove flt (de_name g) = None"]
  show ?thesis by (metis (no_types, lifting) fst_conv)
qed

text \<open>
  Pruning by count.  With more archives than the threshold, all of them older than the clock,
  \<open>PruneByCount\<close> removes exactly one archive, and none of the archives is older than it; with at most
  the threshold it removes nothing.
\<close>

lemma prune_by_count:
  assumes "df_readDir flt = None" and "\<forall>f \<in> set (dk_files d). df_info flt (de_name f) = None"
    and "\<forall>f \<in> set (dk_files d). df_remove flt (de_name f) = None"
    and "\<forall>f \<in> set (dk_files d). \<not> isNotArchiveFile f \<longrightarrow> de_modTime f < now"
  shows "if length (filter (\<lambda>f. \<not> isNotArchiveFile f) (dk_files d)) \<le> n
    then PruneByCount flt now n d = Some (d, None)
    else \<exists>f \<in> set (dk_files d). \<not> isNotArchiveFile f \<and>
      (\<forall>g \<in> set (dk_files d). \<not> isNotArchiveFile g \<longrightarrow> de_modTime f \<le> de_modTime g) \<and>
      PruneByCount flt now n d = Some (remove_file (de_name f) d, None)"
proof -
  let ?arch = "filter (\<lambda>f. \<not> isNotArchiveFile f) (dk_files d)"
  obtain k res where o: "oldest_archive flt (dk_files d) 0 now None = Inr (k, res)"
    using oldest_archive_no_fault [OF assms(2)] by (metis surj_pair)
  have k: "k = length ?arch" using oldest_archive_count [OF o] by simp
  show ?thesis
  proof (cases "length ?arch \<le> n")
    case True
    with o k assms(1) show ?thesis by (simp add: PruneByCount_def)
  next
    case False
    then have "?arch \<noteq> []" by auto
    then obtain g where "g \<in> set (dk_files d)" "\<not> isNotArchiveFile g"
      by (metis (mono_tags, lifting) filter_False)
    with oldest_archive_oldest [OF o] assms(4) obtain f where "f \<in> set (dk_files d)" "res = Some f"
      "\<not> isNotArchiveFile f"
      "\<forall>g \<in> set (dk_files d). \<not> isNotArchiveFile g \<longrightarrow> de_modTime f \<le> de_modTime g"
      by fastforce
    with False o k assms(1,3) show ?thesis by (auto simp: PruneByCount_def)
  qed
qed



end
