(* ===== verification/Periodic.thy ===== *)
theory Periodic
  imports Jobs DiskRecorder
begin

text \<open>
  pkg/controller/periodic/periodic.go: the controller that gathers periodically, either itself or, where the
  DataGather API is enabled, by a job for every DataGather resource; it then reads the outcome from the resource
  and publishes it.

  What a call reads is in the records of its environment; what it writes to the API is returned as a list of
  \<open>api_call\<close>s.  \<open>None\<close> is a panic.
\<close>

section \<open>State\<close>

record periodic =
  pc_image :: string
  pc_statuses :: "(string, Summary) gomap"
  pc_report :: report_state
  pc_sent :: "int list"

datatype api_call =
    CreatedDataGather DataGatherResource
  | CreatedJob gather_job
  | UpdatedDataGather DataGather
  | UpdatedOperator InsightsOperatorStatus
  | UpdatedClusterOperator "Condition list"

definition uploaderSource :: string where "uploaderSource = ''insightsuploader''"

text \<open>A source that is not in the map is nil.\<close>

definition update_source :: "time \<Rightarrow> string \<Rightarrow> Summary \<Rightarrow> periodic \<Rightarrow> periodic option" where
  "update_source now name new c =
     (case map_get (pc_statuses c) name of
        None \<Rightarrow> None
      | Some s \<Rightarrow> Some (c\<lparr>pc_statuses := map_put name (UpdateStatus now new s) (pc_statuses c)\<rparr>))"

definition periodic_NewWithTechPreview :: "report_state \<Rightarrow> periodic" where
  "periodic_NewWithTechPreview reportRetriever =
     \<lparr>pc_image = [], pc_statuses = [(uploaderSource, zero_Summary)], pc_report = reportRetriever, pc_sent = []\<rparr>"

definition periodic_New :: "report_state \<Rightarrow> string list \<Rightarrow> periodic" where
  "periodic_New rp names =
     \<lparr>pc_image = [], pc_statuses = fold (\<lambda>name. map_put name zero_Summary) names [], pc_report = rp, pc_sent = []\<rparr>"

text \<open>\<open>Sources\<close>: in the order of the names.\<close>

definition Sources :: "periodic \<Rightarrow> Summary list" where
  "Sources c = List.map_filter (map_get (pc_statuses c)) (sort_by (<) (map fst (pc_statuses c)))"

text \<open>The API is \<open>None\<close> where there is no observer of it.\<close>

definition isGatheringDisabled :: "InsightsConfiguration \<Rightarrow> GatherConfig option option \<Rightarrow> bool" where
  "isGatheringDisabled cfg api =
     (if \<not> dr_Enabled (ic_DataReporting cfg) then True
      else case api of None \<Rightarrow> False | Some g \<Rightarrow> GatherDisabled g)"

definition getInsightsImage :: "string list result \<Rightarrow> string result" where
  "getInsightsImage deployment =
     (case deployment of
        Inl err \<Rightarrow> Inl err
      | Inr [] \<Rightarrow> Inl (Errorf ''no container defined in the deployment'')
      | Inr (img # _) \<Rightarrow> Inr img)"

section \<open>Gathering in the operator\<close>

record RemoteConfigStatus =
  rcs_Err :: "go_error option"
  rcs_AvailableReason :: string
  rcs_ValidReason :: string
  rcs_ConfigData :: "bytes option"
  rcs_ConfigAvailable :: bool
  rcs_ConfigValid :: bool

text \<open>
  A gatherer with what the type assertions find: for a \<open>CustomPeriodGatherer\<close> whether it should be processed now,
  for a \<open>GathererUsingRemoteConfig\<close> the status of its configuration after the run; and the time its run takes.
\<close>

record periodic_gatherer =
  pg_gatherer :: gatherer
  pg_process :: "bool option"
  pg_remote :: "RemoteConfigStatus option"
  pg_elapsed :: duration

definition gatherersToProcess :: "periodic_gatherer list \<Rightarrow> periodic_gatherer list" where
  "gatherersToProcess gs = filter (\<lambda>g. case pg_process g of Some p \<Rightarrow> p | None \<Rightarrow> True) gs"

text \<open>The error of a remote configuration that is not valid or not available is read; nil panics.\<close>

definition remote_summary :: "RemoteConfigStatus \<Rightarrow> Summary option" where
  "remote_summary r =
     (let new = zero_Summary\<lparr>sm_Healthy := True,
            sm_Operation := \<lparr>op_Name = RemoteConfigurationStatus, op_HTTPStatusCode = 0\<rparr>,
            sm_Reason := rcs_AvailableReason r\<rparr>
      in if rcs_ConfigValid r \<and> rcs_ConfigAvailable r then Some new
         else case rcs_Err r of
                None \<Rightarrow> None
              | Some err \<Rightarrow>
                  Some (new\<lparr>sm_Healthy := False, sm_Message := error_text err,
                    sm_Reason := (if \<not> rcs_ConfigAvailable r then rcs_AvailableReason r else rcs_ValidReason r)\<rparr>))"

definition remote_record :: "RemoteConfigStatus \<Rightarrow> Record" where
  "remote_record r =
     \<lparr>rec_Name = ''insights-operator/remote-configuration.json'', rec_Captured = 0,
      rec_Item = Some \<lparr>item_Marshal = Inr (rcs_ConfigData r), item_GetExtension = []\<rparr>, rec_AlwaysStored = True\<rparr>"

type_synonym reports = "(string, GathererFunctionReport) gomap"

definition process_gatherer ::
  "'r record_op \<Rightarrow> (Task list \<Rightarrow> GatheringFunctionResult list) \<Rightarrow> time \<Rightarrow> periodic_gatherer \<Rightarrow>
   'r \<times> reports \<times> periodic \<Rightarrow> ('r \<times> reports \<times> periodic) option" where
  "process_gatherer rcd sched now g st =
     (let (r, reports, c) = st; name = g_GetName (pg_gatherer g)
      in case CollectAndRecordGatherer rcd sched (pg_elapsed g) (pg_gatherer g) [] r of
           None \<Rightarrow> None
         | Some (r, functionReports, err) \<Rightarrow>
             let reports = fold (\<lambda>fr. map_put (gr_FuncName fr) fr) functionReports reports
             in case pg_remote g of
                  Some rc \<Rightarrow>
                    (case remote_summary rc of
                       None \<Rightarrow> None
                     | Some new \<Rightarrow>
                         (case update_source now name new c of
                            None \<Rightarrow> None
                          | Some c \<Rightarrow> map_option (\<lambda>(r, _). (r, reports, c)) (rcd (remote_record rc) r)))
                | None \<Rightarrow>
                    map_option (\<lambda>c. (r, reports, c))
                      (case err of
                         Some e \<Rightarrow>
                           update_source now name
                             (zero_Summary\<lparr>sm_Operation := \<lparr>op_Name = GatheringReport, op_HTTPStatusCode = 0\<rparr>,
                                sm_Reason := ''PeriodicGatherFailed'',
                                sm_Message := ''Source '' @ name @ '' could not be retrieved: '' @ error_text e\<rparr>) c
                       | None \<Rightarrow> update_source now name (zero_Summary\<lparr>sm_Healthy := True\<rparr>) c))"

fun process_gatherers ::
  "'r record_op \<Rightarrow> (Task list \<Rightarrow> GatheringFunctionResult list) \<Rightarrow> time \<Rightarrow> periodic_gatherer list \<Rightarrow>
   'r \<times> reports \<times> periodic \<Rightarrow> ('r \<times> reports \<times> periodic) option" where
  "process_gatherers rcd sched now [] st = Some st"
| "process_gatherers rcd sched now (g # gs) st =
     (case process_gatherer rcd sched now g st of
        None \<Rightarrow> None
      | Some st \<Rightarrow> process_gatherers rcd sched now gs st)"

text \<open>The gather status of the operator resource; a function whose duration is zero did not run.\<close>

definition gather_status :: "time \<Rightarrow> time \<Rightarrow> reports \<Rightarrow> InsightsOperatorStatus \<Rightarrow> InsightsOperatorStatus" where
  "gather_status now gatherTime allFunctionReports os =
     os\<lparr>os_LastGatherTime := gatherTime, os_LastGatherDuration := now - gatherTime,
        os_Gatherers := map (CreateOperatorGathererStatus now)
          (filter (\<lambda>fr. gr_Duration fr \<noteq> 0) (map snd allFunctionReports))\<rparr>"

definition periodic_updateOperatorStatusCR ::
  "InsightsOperatorStatus result \<Rightarrow> go_error option \<Rightarrow> time \<Rightarrow> time \<Rightarrow> reports \<Rightarrow> api_call list \<times> go_error option" where
  "periodic_updateOperatorStatusCR got upd now gatherTime allFunctionReports =
     (case got of
        Inl err \<Rightarrow> ([], Some err)
      | Inr os \<Rightarrow> ([UpdatedOperator (gather_status now gatherTime allFunctionReports os)], upd))"

record 'r gather_env =
  ge_config :: InsightsConfiguration
  ge_api :: "GatherConfig option option"
  ge_record :: "'r record_op"
  ge_flush :: "'r \<Rightarrow> 'r \<times> go_error option"
  ge_sched :: "Task list \<Rightarrow> GatheringFunctionResult list"
  ge_to_json :: "ArchiveMetadata \<Rightarrow> bytes option result"
  ge_obfuscated :: bool
  ge_gatherers :: "periodic_gatherer list"
  ge_operator :: "InsightsOperatorStatus result"
  ge_update :: "go_error option"
  ge_gatherTime :: time
  ge_now :: time
  ge_uptime :: duration

definition periodic_Gather :: "'r gather_env \<Rightarrow> 'r \<times> periodic \<Rightarrow> ('r \<times> periodic \<times> api_call list) option" where
  "periodic_Gather env st =
     (let (r, c) = st
      in if isGatheringDisabled (ge_config env) (ge_api env) then Some (r, c, [])
         else case process_gatherers (ge_record env) (ge_sched env) (ge_now env) (gatherersToProcess (ge_gatherers env))
                     (r, [], c) of
                None \<Rightarrow> None
              | Some (r, reports, c) \<Rightarrow>
                  let (calls, _) = periodic_updateOperatorStatusCR (ge_operator env) (ge_update env) (ge_now env)
                        (ge_gatherTime env) reports
                  in case RecordArchiveMetadata (ge_record env) (ge_to_json env) (FunctionReportsMapToArray reports)
                            (ge_uptime env) (ge_obfuscated env) r of
                       None \<Rightarrow> None
                     | Some (r, _) \<Rightarrow> Some (fst (ge_flush env r), c, calls))"

section \<open>Following a gathering job\<close>

definition isProgressingConditionFinished :: "MetaCondition \<Rightarrow> bool" where
  "isProgressingConditionFinished con =
     (mc_Status con = ConditionFalse \<and> mc_Reason con \<in> {GatheringFailedReason, GatheringSucceededReason})"

text \<open>
  \<open>syncDataGatherCR\<close>: what a notice about a job does to its DataGather resource.  \<open>got\<close> is the resource read, the
  result is the update that is sent.
\<close>

definition sync_notice ::
  "DataGather result \<Rightarrow> (DataGather \<Rightarrow> DataGather result) \<Rightarrow> time \<Rightarrow> job_notice \<Rightarrow> DataGather result option" where
  "sync_notice got upd now notice =
     (case got of
        Inl _ \<Rightarrow> None
      | Inr dg \<Rightarrow>
          let fail = Some (UpdateProgressingCondition (Inr dg) upd now (Some dg) GatheringFailedReason)
          in case (notice, GetConditionByType dg ProgressingType) of
               (DeletedJob _, Some con) \<Rightarrow> if isProgressingConditionFinished con then None else fail
             | (DeletedJob _, None) \<Rightarrow> fail
             | (FinishedJob _, Some con) \<Rightarrow> if isProgressingConditionFinished con then None else fail
             | (FinishedJob _, None) \<Rightarrow> None)"

definition wasDataUploaded :: "time \<Rightarrow> DataGather \<Rightarrow> periodic \<Rightarrow> (periodic \<times> bool) option" where
  "wasDataUploaded now dataGather c =
     (let statusSummary = zero_Summary\<lparr>sm_Operation := \<lparr>op_Name = Uploading, op_HTTPStatusCode = 0\<rparr>, sm_Healthy := True\<rparr>;
          statusSummary =
            (case GetConditionByType dataGather DataUploaded of
               None \<Rightarrow>
                 statusSummary\<lparr>sm_Healthy := False, sm_Count := 5, sm_Reason := dataUplodedConditionNotAvailable,
                   sm_Message := ''did not find any \"'' @ DataUploaded @ ''\" condition in the '' @ dg_Name dataGather @
                     '' dataGather resource''\<rparr>
             | Some con \<Rightarrow>
                 if mc_Status con = ConditionFalse
                 then statusSummary\<lparr>sm_Healthy := False, sm_Count := 5, sm_Reason := mc_Reason con,
                        sm_Message := mc_Message con\<rparr>
                 else statusSummary)
      in map_option (\<lambda>c. (c, sm_Healthy statusSummary)) (update_source now uploaderSource statusSummary c))"

definition wasDataProcessed :: "DataGather \<Rightarrow> bool" where
  "wasDataProcessed dataGather =
     (case GetConditionByType dataGather DataProcessed of
        None \<Rightarrow> False
      | Some con \<Rightarrow> mc_Status con = ConditionTrue)"

definition parseStatusCode :: "string \<Rightarrow> int result" where
  "parseStatusCode message = (let fs = Gostd.fields message in if length fs = 0 then Inr 0 else atoi (last fs))"

definition updateMetrics :: "DataGather \<Rightarrow> periodic \<Rightarrow> periodic" where
  "updateMetrics dataGather c =
     (case GetConditionByType dataGather DataUploaded of
        None \<Rightarrow> c\<lparr>pc_sent := pc_sent c @ [0]\<rparr>
      | Some con \<Rightarrow>
          (case parseStatusCode (mc_Message con) of
             Inl _ \<Rightarrow> c
           | Inr statusCode \<Rightarrow> c\<lparr>pc_sent := pc_sent c @ [statusCode]\<rparr>))"

definition report_health_check :: "string \<Rightarrow> Recommendation \<Rightarrow> HealthCheck" where
  "report_health_check clusterID r =
     \<lparr>hc_Description = rcm_Description r, hc_TotalRisk = Int32ToTotalRisk (rcm_TotalRisk r),
      hc_AdvisorURI = CreateInsightsAdvisorLink clusterID (rcm_RuleFQDN r) (rcm_ErrorKey r)\<rparr>"

text \<open>The report is a pointer: nil panics.  The resource holds the report after the call, whatever the answer.\<close>

definition updateInsightsReportInDataGather ::
  "string \<Rightarrow> InsightsAnalysisReport option \<Rightarrow> DataGather \<Rightarrow> DataGather option" where
  "updateInsightsReportInDataGather endpoint report dg =
     (case report of
        None \<Rightarrow> None
      | Some report \<Rightarrow>
          let ir = dg_InsightsReport dg
          in Some (dg\<lparr>dg_InsightsReport :=
               \<lparr>ir_DownloadedTime = iar_DownloadedAt report,
                ir_HealthChecks = ir_HealthChecks ir @
                  map (report_health_check (iar_ClusterID report)) (iar_Recommendations report),
                ir_URI = Sprintf endpoint [(''string'', iar_ClusterID report), (''string'', iar_RequestID report)]\<rparr>\<rparr>))"

definition copyDataGatherStatusToOperatorStatus ::
  "go_error option \<Rightarrow> go_error option \<Rightarrow> DataGather \<Rightarrow> api_call list \<times> go_error option" where
  "copyDataGatherStatusToOperatorStatus got upd dataGather =
     (case got of
        Some err \<Rightarrow> ([], Some err)
      | None \<Rightarrow> ([UpdatedOperator (DataGatherStatusToOperatorStatus dataGather)], upd))"

definition sent_conditions :: "Condition list option \<times> go_error option \<Rightarrow> api_call list" where
  "sent_conditions r = (case fst r of None \<Rightarrow> [] | Some cs \<Rightarrow> [UpdatedClusterOperator cs])"

definition updateStatusBasedOnDataGatherCondition ::
  "(nat \<Rightarrow> Condition list result) \<Rightarrow> (nat \<Rightarrow> go_error option) \<Rightarrow> DataGather \<Rightarrow> api_call list \<times> go_error option" where
  "updateStatusBasedOnDataGatherCondition got upd dg =
     (case GetConditionByType dg RemoteConfigurationAvailable of
        None \<Rightarrow> ([], Some (Errorf (RemoteConfigurationAvailable @ '' condition not found in status of '' @ dg_Name dg @ '' dataGather'')))
      | Some available \<Rightarrow>
          let first = compareAndUpdateClusterOperatorCondition (got 0) (upd 0) RemoteConfigurationAvailable available
          in case snd first of
               Some err \<Rightarrow> (sent_conditions first, Some err)
             | None \<Rightarrow>
                 (case GetConditionByType dg RemoteConfigurationValid of
                    None \<Rightarrow> (sent_conditions first,
                      Some (Errorf (RemoteConfigurationValid @ '' condition not found in status of '' @ dg_Name dg @ '' dataGather'')))
                  | Some valid \<Rightarrow>
                      let second = compareAndUpdateClusterOperatorCondition (got 1) (upd 1) RemoteConfigurationValid valid
                      in (sent_conditions first @ sent_conditions second, snd second)))"

record run_env =
  re_config :: InsightsConfiguration
  re_client :: client_env
  re_decode :: "bytes \<Rightarrow> InsightsAnalysisReport result"
  re_now :: time
  re_pvc :: "string \<Rightarrow> go_error option"
  re_environ :: "string \<Rightarrow> string option"
  re_createJob :: "go_error option"
  re_updateNew :: "go_error option"
  re_events :: "job_event list"
  re_finished :: "DataGather result"
  re_updateReport :: "go_error option"
  re_getOperator :: "go_error option"
  re_updateOperator :: "go_error option"
  re_getCO :: "nat \<Rightarrow> Condition list result"
  re_updateCO :: "nat \<Rightarrow> go_error option"

definition publish_analysis :: "run_env \<Rightarrow> DataGather \<Rightarrow> periodic \<Rightarrow> (periodic \<times> api_call list) option" where
  "publish_analysis env finished c =
     (case PullReportTechpreview (re_config env) (re_client env) (re_decode env) (re_now env)
             (dg_InsightsRequestID finished) (pc_report c) of
        None \<Rightarrow> None
      | Some (rp, Inl _) \<Rightarrow> Some (c\<lparr>pc_report := rp\<rparr>, [])
      | Some (rp, Inr analysisReport) \<Rightarrow>
          (case updateInsightsReportInDataGather
                  (dr_DownloadEndpointTechPreview (ic_DataReporting (re_config env))) analysisReport finished of
             None \<Rightarrow> None
           | Some dg \<Rightarrow>
               let copied = copyDataGatherStatusToOperatorStatus (re_getOperator env) (re_updateOperator env) dg;
                   calls = UpdatedDataGather dg # fst copied
               in Some (c\<lparr>pc_report := rp\<rparr>,
                    (case snd copied of
                       Some _ \<Rightarrow> calls
                     | None \<Rightarrow>
                         calls @ fst (updateStatusBasedOnDataGatherCondition (re_getCO env) (re_updateCO env) dg)))))"

text \<open>
  The gathering job changes the resource while the controller waits: \<open>re_finished\<close> is the resource read after the
  wait.  When the events do not end the wait, the call has made the calls so far.
\<close>

definition runJobAndCheckResults ::
  "run_env \<Rightarrow> DataGatherResource \<Rightarrow> string \<Rightarrow> periodic \<Rightarrow> (periodic \<times> api_call list) option" where
  "runJobAndCheckResults env dataGather img c =
     (let gj = CreateGathererJob (re_pvc env) (re_environ env) img (ic_DataReporting (re_config env)) dataGather
      in if re_createJob env \<noteq> None then Some (c, [CreatedJob gj])
         else
           let (dataGather, err) = updateNewDataGatherCRStatus (re_updateNew env) (re_now env) (Some gj) dataGather;
               calls = [CreatedJob gj, UpdatedDataGather (dgr_status dataGather)]
           in if err \<noteq> None then Some (c, calls)
              else case WaitForJobCompletion (jb_Name gj) (re_events env) of
                None \<Rightarrow> Some (c, calls)
              | Some _ \<Rightarrow>
                  (case re_finished env of
                     Inl _ \<Rightarrow> Some (c, calls)
                   | Inr finished \<Rightarrow>
                       (case wasDataUploaded (re_now env) finished c of
                          None \<Rightarrow> None
                        | Some (c, uploaded) \<Rightarrow>
                            let c = updateMetrics finished c
                            in if \<not> uploaded then Some (c, calls)
                               else if \<not> wasDataProcessed finished then Some (c, calls)
                               else map_option (\<lambda>(c, more). (c, calls @ more)) (publish_analysis env finished c))))"

text \<open>\<open>deployment\<close> is the list of images of the operator's deployment, \<open>got\<close> the resource asked for.\<close>

definition prepareDataGatherCRWithImage ::
  "string list result \<Rightarrow> DataGatherResource result \<Rightarrow> periodic \<Rightarrow> periodic \<times> DataGatherResource result" where
  "prepareDataGatherCRWithImage deployment got c =
     (case got of
        Inl err \<Rightarrow> (c, Inl err)
      | Inr dataGather \<Rightarrow>
          if dg_Conditions (dgr_status dataGather) \<noteq> [] then (c, Inl (Errorf ''gathering was already run''))
          else if pc_image c = [] then
            (case getInsightsImage deployment of
               Inl err \<Rightarrow> (c, Inl err)
             | Inr img \<Rightarrow> (c\<lparr>pc_image := img\<rparr>, Inr dataGather))
          else (c, Inr dataGather))"

definition on_demand ::
  "run_env \<Rightarrow> string list result \<Rightarrow> DataGatherResource result \<Rightarrow> periodic \<Rightarrow> (periodic \<times> api_call list) option" where
  "on_demand env deployment got c =
     (case prepareDataGatherCRWithImage deployment got c of
        (c, Inl _) \<Rightarrow> Some (c, [])
      | (c, Inr dataGather) \<Rightarrow> runJobAndCheckResults env dataGather (pc_image c) c)"

definition GatherJob ::
  "run_env \<Rightarrow> string list result \<Rightarrow> api_GatherConfig option \<Rightarrow> string result \<Rightarrow> periodic \<Rightarrow>
   (periodic \<times> api_call list) option" where
  "GatherJob env deployment gatherConfig created c =
     (if isGatheringDisabled (re_config env) (Some (map_option GatherConfig.truncate gatherConfig))
      then Some (c, sent_conditions (setRemoteConfigConditionsWhenDisabled (re_getCO env 0) (re_updateCO env 0) (re_now env)))
      else
        case (if pc_image c = [] then getInsightsImage deployment else Inr (pc_image c)) of
          Inl _ \<Rightarrow> Some (c, [])
        | Inr img \<Rightarrow>
            let c = c\<lparr>pc_image := img\<rparr>
            in case createNewDataGatherCR created (dr_Obfuscation (ic_DataReporting (re_config env))) gatherConfig of
                 None \<Rightarrow> None
               | Some (Inl _) \<Rightarrow> Some (c, [])
               | Some (Inr dataGatherCR) \<Rightarrow>
                   map_option (\<lambda>(c, calls). (c, CreatedDataGather dataGatherCR # calls))
                     (runJobAndCheckResults env dataGatherCR img c))"

text \<open>
  The loop of \<open>periodicTrigger\<close>: the interval of the ticker after every event, and at which events it gathers.  The
  configuration is compared as a whole.
\<close>

datatype 'e periodic_event = PeriodicStop | PeriodicConfig InsightsConfiguration | PeriodicTick 'e

fun periodicTrigger :: "InsightsConfiguration \<Rightarrow> 'e periodic_event list \<Rightarrow> ('e + duration) list" where
  "periodicTrigger cfg [] = []"
| "periodicTrigger cfg (PeriodicStop # evs) = []"
| "periodicTrigger cfg (PeriodicConfig newConfig # evs) =
     (if cfg = newConfig then periodicTrigger cfg evs
      else Inr (dr_Interval (ic_DataReporting newConfig)) # periodicTrigger newConfig evs)"
| "periodicTrigger cfg (PeriodicTick e # evs) = Inl e # periodicTrigger cfg evs"

section \<open>Lemmas on a run\<close>

definition not_failed :: "DataGather \<Rightarrow> string \<Rightarrow> bool" where
  "not_failed dg k = (case GetConditionByType dg k of None \<Rightarrow> False | Some con \<Rightarrow> mc_Status con \<noteq> ConditionFalse)"

lemma wasDataUploaded_not_failed:
  assumes "map_get (pc_statuses c) uploaderSource = Some s" and "not_failed dg DataUploaded"
  shows "\<exists>c'. wasDataUploaded now dg c = Some (c', True) \<and> pc_report c' = pc_report c"
  using assms
  by (auto simp: wasDataUploaded_def not_failed_def update_source_def Let_def split: option.splits)

lemma updateMetrics_report [simp]: "pc_report (updateMetrics dg c) = pc_report c"
  by (simp add: updateMetrics_def split: option.split sum.split)

lemma updateMetrics_statuses [simp]: "pc_statuses (updateMetrics dg c) = pc_statuses c"
  by (simp add: updateMetrics_def split: option.split sum.split)

lemma run_published:
  assumes "re_createJob env = None" and "re_updateNew env = None"
    and "WaitForJobCompletion (dg_Name (dgr_status dg)) (re_events env) \<noteq> None"
    and "re_finished env = Inr fin" and "map_get (pc_statuses c) uploaderSource = Some s"
    and "not_failed fin DataUploaded" and "wasDataProcessed fin"
  obtains c1 calls where "pc_report c1 = pc_report c"
    "runJobAndCheckResults env dg img c = map_option (\<lambda>(c, more). (c, calls @ more)) (publish_analysis env fin c1)"
proof -
  from wasDataUploaded_not_failed [OF assms(5,6)] obtain c1 where
    c1: "wasDataUploaded (re_now env) fin c = Some (c1, True)" "pc_report c1 = pc_report c" by blast
  have "jb_Name (CreateGathererJob (re_pvc env) (re_environ env) img (ic_DataReporting (re_config env)) dg) =
      dg_Name (dgr_status dg)" by (simp add: CreateGathererJob_def Let_def)
  with assms c1 that [of "updateMetrics fin c1"
      "[CreatedJob (CreateGathererJob (re_pvc env) (re_environ env) img (ic_DataReporting (re_config env)) dg),
        UpdatedDataGather ((dgr_status dg)\<lparr>dg_Conditions := new_dg_conditions (re_now env)\<rparr>)]"]
  show ?thesis
    by (auto simp: runJobAndCheckResults_def updateNewDataGatherCRStatus_def Let_def)
qed

text \<open>What happens to the status of a resource after its job was created: updates of conditions and the report.\<close>

inductive dg_life :: "DataGather \<Rightarrow> DataGather \<Rightarrow> bool" where
  life_start: "dg_life dg dg"
| life_conditions:
  "dg_life dg st \<Longrightarrow> fst (UpdateDataGatherConditions upd (Some st) cs) = Some st' \<Longrightarrow> dg_life dg st'"
| life_progress:
  "dg_life dg st \<Longrightarrow> UpdateProgressingCondition got Inr now (Some st) reason = Inr st' \<Longrightarrow> dg_life dg st'"
| life_report:
  "dg_life dg st \<Longrightarrow> updateInsightsReportInDataGather endpoint report st = Some st' \<Longrightarrow> dg_life dg st'"

lemma dg_life_types:
  "dg_life dg st \<Longrightarrow> mc_Type ` set (dg_Conditions dg) \<subseteq> mc_Type ` set (dg_Conditions st)"
proof (induction rule: dg_life.induct)
  case (life_conditions dg st upd cs st')
  then show ?case by (auto simp: UpdateDataGatherConditions_def Let_def types_fold_put)
next
  case (life_progress dg st got now reason st')
  have "dg_Conditions (progress_time now reason st) = dg_Conditions st" by (simp add: progress_time_def)
  then have "mc_Type ` set (dg_Conditions st) \<subseteq> mc_Type ` set (dg_Conditions st')"
    using life_progress.hyps(2) types_fold_put [of "[ProgressingCondition now reason]"]
    by (auto simp: UpdateProgressingCondition_def UpdateDataGatherConditions_def Let_def)
  with life_progress.IH show ?case by simp
next
  case (life_report dg st endpoint report st')
  then show ?case by (auto simp: updateInsightsReportInDataGather_def Let_def split: option.splits)
qed simp

lemma isFinished_failed: "isProgressingConditionFinished (ProgressingCondition now GatheringFailedReason)"
  by (simp add: isProgressingConditionFinished_def ProgressingCondition_def gathering_reasons Let_def)

section \<open>Recording keeps what every single record keeps\<close>

text \<open>What a gathering relies on of the recorder it fills: a property of the recorder that no record breaks.\<close>

locale recorder_invariant =
  fixes rcd :: "'r record_op"
    and holds :: "'r \<Rightarrow> bool"
  assumes record_keeps: "holds r \<Longrightarrow> rcd rec r = Some (r', errs) \<Longrightarrow> holds r'"
begin

lemma record_loop_keeps: "holds r \<Longrightarrow> record_loop rcd fname recs r = Some (r', rest) \<Longrightarrow> holds r'"
proof (induction recs arbitrary: r rest)
  case (Cons rec recs)
  from Cons.prems(2) obtain r1 errs rest' where
    "rcd rec r = Some (r1, errs)" "record_loop rcd fname recs r1 = Some (r', rest')"
    by (auto simp: Let_def split: option.splits if_splits)
  with Cons record_keeps show ?case by blast
qed simp

lemma results_loop_keeps: "holds r \<Longrightarrow> results_loop rcd gname results r = Some (r', rest) \<Longrightarrow> holds r'"
proof (induction results arbitrary: r rest)
  case (Cons result results)
  from Cons.prems(2) obtain r1 rest1 rest2 where
    "record_loop rcd (fr_FunctionName result) (fr_Records result) r = Some (r1, rest1)"
    "results_loop rcd gname results r1 = Some (r', rest2)"
    by (auto simp: recordGatheringFunctionResult_def Let_def split: option.splits)
  with Cons record_loop_keeps show ?case by blast
qed simp

lemma collect_keeps:
  "holds r \<Longrightarrow> CollectAndRecordGatherer rcd sched elapsed g cs r = Some (r', rest) \<Longrightarrow> holds r'"
  by (auto simp: CollectAndRecordGatherer_def collectAndRecordGatherer_def split: option.splits sum.splits
      dest: results_loop_keeps)

lemma process_keeps:
  assumes "holds r" and "process_gatherer rcd sched now g (r, reports, c) = Some (r', rest)"
  shows "holds r'"
proof -
  from assms(2) obtain r1 fs err where
    c: "CollectAndRecordGatherer rcd sched (pg_elapsed g) (pg_gatherer g) [] r = Some (r1, fs, err)"
    by (auto simp: process_gatherer_def Let_def split: option.splits)
  from collect_keeps [OF assms(1) c] c assms(2) show ?thesis
    by (auto simp: process_gatherer_def Let_def split: option.splits dest: record_keeps)
qed

lemma process_all_keeps:
  "holds r \<Longrightarrow> process_gatherers rcd sched now gs (r, reports, c) = Some (r', rest) \<Longrightarrow> holds r'"
proof (induction gs arbitrary: r reports c)
  case (Cons g gs)
  from Cons.prems(2) obtain r1 reports1 c1 where
    1: "process_gatherer rcd sched now g (r, reports, c) = Some (r1, reports1, c1)"
    "process_gatherers rcd sched now gs (r1, reports1, c1) = Some (r', rest)"
    by (auto split: option.splits)
  from Cons.IH [OF process_keeps [OF Cons.prems(1) 1(1)] 1(2)] show ?case .
qed simp

end

text \<open>The recorder of the operator together with the disk it flushes to.\<close>

type_synonym archive_store = "disk \<times> (bool \<times> NetworkAnonymizer list) Recorder"

definition disk_record ::
  "(NetworkAnonymizer \<Rightarrow> (NetworkAnonymizer \<times> go_error option) option) \<Rightarrow> InsightsConfiguration \<Rightarrow>
   (bytes \<Rightarrow> string) \<Rightarrow> (Record \<Rightarrow> time) \<Rightarrow> archive_store record_op" where
  "disk_record load conf sha256 clock rec dr =
     map_option (\<lambda>(r, errs). ((fst dr, r), errs)) (operator_record load conf sha256 clock rec (snd dr))"

definition disk_flush ::
  "disk_faults \<Rightarrow> (time \<Rightarrow> string) \<Rightarrow> time \<Rightarrow> archive_store \<Rightarrow> archive_store \<times> go_error option" where
  "disk_flush flt fmt now dr =
     (case Flush (disk_Save flt fmt now) id (fst dr) (snd dr) of (d, r, err) \<Rightarrow> ((d, r), err))"

definition store_on :: "InsightsConfiguration \<Rightarrow> bool \<Rightarrow> disk \<Rightarrow> archive_store \<Rightarrow> bool" where
  "store_on conf off d dr = (fst dr = d \<and> (off \<longrightarrow> inert conf (r_anonymizer (snd dr))))"

interpretation stored: recorder_invariant "disk_record load conf sha256 clock" "store_on conf off d"
  for load conf sha256 clock off d
  by unfold_locales (auto simp: store_on_def disk_record_def operator_record_def dest: Record_inert)

section \<open>Examples\<close>

text \<open>A resource whose job succeeded, or whose upload failed, and a run in which every call of the API succeeds.\<close>

definition example_finished :: "string \<Rightarrow> DataGather" where
  "example_finished uploaded =
     (zero_DataGather ''periodic-gathering-x'')\<lparr>dg_Conditions :=
        [DataUploadedCondition 5 uploaded ''R'' ''HTTP status code 500'',
         DataProcessedCondition 5 ConditionTrue ''Processed'' [],
         RemoteConfigurationAvailableCondition 5 ConditionTrue ''Succeeded'' [],
         RemoteConfigurationValidCondition 5 ConditionTrue ''Succeeded'' []]\<rparr>"

definition example_dgr :: DataGatherResource where
  "example_dgr =
     \<lparr>dgr_status = zero_DataGather ''periodic-gathering-x'', dgr_DataPolicy = [], dgr_Storage = zero_Storage,
      dgr_Gatherers = \<lparr>ga_Mode = GatheringModeAll, ga_Configs = []\<rparr>, dgr_RelatedObjects = []\<rparr>"

definition example_analysis :: InsightsAnalysisReport where
  "example_analysis =
     \<lparr>iar_DownloadedAt = 0, iar_ClusterID = ''id1'',
      iar_Recommendations = [\<lparr>rcm_ErrorKey = ''KEY'', rcm_Description = ''d'', rcm_TotalRisk = 3, rcm_RuleFQDN = ''rule''\<rparr>],
      iar_RequestID = ''rq''\<rparr>"

definition example_run :: "string \<Rightarrow> string \<Rightarrow> run_env" where
  "example_run endpoint uploaded =
     \<lparr>re_config = example_cm\<lparr>ic_DataReporting :=
        (ic_DataReporting example_cm)\<lparr>dr_DownloadEndpointTechPreview := endpoint\<rparr>\<rparr>,
      re_client = pe_client example_pull, re_decode = (\<lambda>_. Inr example_analysis), re_now = 9, re_pvc = (\<lambda>_. None),
      re_environ = (\<lambda>_. None), re_createJob = None, re_updateNew = None, re_events = [JobOther, JobModified (Some (1, 0))],
      re_finished = Inr (example_finished uploaded), re_updateReport = None, re_getOperator = None,
      re_updateOperator = None, re_getCO = (\<lambda>_. Inr []), re_updateCO = (\<lambda>_. None)\<rparr>"

definition example_periodic :: periodic where
  "example_periodic = periodic_NewWithTechPreview example_controller"

lemmas example_run_simps = example_run_def example_dgr_def example_periodic_def periodic_NewWithTechPreview_def
  zero_DataGather_def

lemma example_upload: "not_failed (example_finished ConditionTrue) DataUploaded"
  and example_processed: "wasDataProcessed (example_finished x)"
  by (simp_all add: not_failed_def wasDataProcessed_def example_finished_def GetConditionByType_def DataUploadedCondition_def
      DataProcessedCondition_def RemoteConfigurationAvailableCondition_def RemoteConfigurationValidCondition_def
      DataUploaded_def DataProcessed_def RemoteConfigurationAvailable_def RemoteConfigurationValid_def)

section \<open>Properties\<close>



text \<open>
  Without an endpoint for the analysis, a processed archive crashes the controller.  When no endpoint for the
  report is configured, the retrieval returns no report and no error; the run of a job whose data was uploaded
  and processed then reads the missing report and panics.
\<close>

lemma nil_report_panics:
  assumes "re_createJob env = None" and "re_updateNew env = None"
    and "WaitForJobCompletion (dg_Name (dgr_status dg)) (re_events env) \<noteq> None"
    and "re_finished env = Inr fin" and "map_get (pc_statuses c) uploaderSource = Some s"
    and "not_failed fin DataUploaded" and "wasDataProcessed fin"
    and "dr_DownloadEndpointTechPreview (ic_DataReporting (re_config env)) = []"
  shows "runJobAndCheckResults env dg img c = None"
proof -
  have "publish_analysis env fin c1 = None" for c1
    using assms(8) by (simp add: publish_analysis_def PullReportTechpreview_def updateInsightsReportInDataGather_def)
  with run_published [OF assms(1-7)] show ?thesis by (metis option.map_disc_iff)
qed

text \<open>
  C19: A DataGather resource is gathered once.  After the run of a job has written the first status of a resource,
  whatever updates of conditions, progress and report follow, an event for that resource starts no job and sends
  nothing; and the resources the operator creates itself are never taken for requests.
\<close>

theorem gathered_once:
  assumes "updateNewDataGatherCRStatus upd now job dg = (dg', None)" and "dg_life (dgr_status dg') st"
  shows "on_demand env deployment (Inr (dg'\<lparr>dgr_status := st\<rparr>)) c = Some (c, []) \<and>
    (createNewDataGatherCR created obf gc = Some (Inr own) \<longrightarrow> dg_eventHandler (Some (dg_Name (dgr_status own))) = [])"
proof -
  have "mc_Type ` set (dg_Conditions (dgr_status dg')) \<noteq> {}"
    using assms(1) by (auto simp: updateNewDataGatherCRStatus_def new_dg_conditions_def Let_def split: option.splits)
  with dg_life_types [OF assms(2)] have "dg_Conditions st \<noteq> []" by auto
  then show ?thesis
    by (auto simp: on_demand_def prepareDataGatherCRWithImage_def createNewDataGatherCR_def dg_eventHandler_def
        zero_DataGather_def split: option.splits sum.splits prod.splits)
qed

theorem gathered_once_witness:
  "on_demand (example_run [] ConditionTrue) (Inr [''img''])
     (Inr (example_dgr\<lparr>dgr_status := (zero_DataGather ''periodic-gathering-x'')\<lparr>dg_Conditions := new_dg_conditions 3\<rparr>\<rparr>))
     example_periodic = Some (example_periodic, [])"
proof -
  let ?dg = "example_dgr\<lparr>dgr_status := (zero_DataGather ''periodic-gathering-x'')\<lparr>dg_Conditions := new_dg_conditions 3\<rparr>\<rparr>"
  have "updateNewDataGatherCRStatus None 3 None example_dgr = (?dg, None)"
    by (simp add: updateNewDataGatherCRStatus_def example_dgr_def)
  from gathered_once [OF this life_start] show ?thesis by simp
qed

text \<open>
  A job that is gone leaves a finished resource.  After a notice that a job was deleted was handled, and its
  resource could be read and written, the resource's progress is finished; a resource that had finished, with
  success or not, is left alone.
\<close>

lemma deleted_job_finishes:
  assumes "dg' = (case sync_notice (Inr dg) Inr now (DeletedJob name) of Some (Inr d) \<Rightarrow> d | _ \<Rightarrow> dg)"
  shows "(\<exists>con. GetConditionByType dg' ProgressingType = Some con \<and> isProgressingConditionFinished con) \<and>
    (\<forall>con. GetConditionByType dg ProgressingType = Some con \<and> isProgressingConditionFinished con \<longrightarrow> dg' = dg)"
proof -
  have "mc_Type (ProgressingCondition now GatheringFailedReason) = ProgressingType"
    by (simp add: ProgressingCondition_def case_prod_beta Let_def)
  then have put: "condition_by_type (put_condition (ProgressingCondition now GatheringFailedReason) cs) ProgressingType =
      Some (ProgressingCondition now GatheringFailedReason)" for cs
    using meta.get_put_same [of "ProgressingCondition now GatheringFailedReason" cs] by simp
  have "\<exists>con. GetConditionByType dg' ProgressingType = Some con \<and> isProgressingConditionFinished con"
    using assms isFinished_failed [of now]
    by (auto simp: sync_notice_def UpdateProgressingCondition_def UpdateDataGatherConditions_def GetConditionByType_eq put
        Let_def split: option.splits if_splits)
  moreover have "dg' = dg" if "GetConditionByType dg ProgressingType = Some con" "isProgressingConditionFinished con" for con
    using assms that by (simp add: sync_notice_def Let_def)
  ultimately show ?thesis by blast
qed

text \<open>
  C17: A gathering ends in an archive with its metadata.  When gathering is not disabled, the metadata can be
  encoded and nothing panics, the recorder is flushed with the metadata of the gathering in it, as the anonymisers
  of the recorder leave it, which is as it was when they are switched off.  Unless the anonymisers leave no data of
  it, the recorder is empty afterwards, and unless the flush fails, a complete archive on disk has the metadata
  record.  Every archive that was there is kept.
\<close>

theorem gather_archives:
  assumes "ge_record env = disk_record load conf sha256 clock" and "ge_flush env = disk_flush flt fmt now"
    and "\<not> isGatheringDisabled (ge_config env) (ge_api env)"
    and "\<And>md. \<exists>b. ge_to_json env md = Inr b"
    and "periodic_Gather env ((d, r), c) = Some ((d', r'), c', calls)"
  shows "\<exists>r1 reports c1 m a m' full err.
    process_gatherers (ge_record env) (ge_sched env) (ge_now env) (gatherersToProcess (ge_gatherers env))
      ((d, r), [], c) = Some ((d, r1), reports, c1) \<and>
    mr_Name m = ''insights-operator/gathers.json'' \<and>
    ge_to_json env \<lparr>am_StatusReports = FunctionReportsMapToArray reports, am_MemoryBytesUsage = 0,
      am_Uptime = Milliseconds (ge_uptime env), am_IsGlobalObfuscationEnabled = ge_obfuscated env\<rparr> = Inr (mr_Data m) \<and>
    anonymized (anonymizer_list load conf) (r_anonymizer r1) m = Some (a, Inr m') \<and>
    (inert conf (r_anonymizer r) \<longrightarrow> m' = m) \<and>
    disk_flush flt fmt now (d, full) = ((d', r'), err) \<and> map_get (r_records full) (mr_Name m') = Some m' \<and>
    (mr_Data m' \<noteq> None \<longrightarrow> r_records r' = [] \<and>
      (err = None \<longrightarrow> (\<exists>recs \<in> set (disk_archives d'). m' \<in> set recs))) \<and>
    set (disk_archives d) \<subseteq> set (disk_archives d')"
proof -
  from assms(1,3,5) obtain r1 reports c1 r2 e2 where
    p: "process_gatherers (disk_record load conf sha256 clock) (ge_sched env) (ge_now env)
        (gatherersToProcess (ge_gatherers env)) ((d, r), [], c) = Some (r1, reports, c1)"
    and md: "RecordArchiveMetadata (disk_record load conf sha256 clock) (ge_to_json env)
        (FunctionReportsMapToArray reports) (ge_uptime env) (ge_obfuscated env) r1 = Some (r2, e2)"
    and f: "(d', r') = fst (ge_flush env r2)"
    by (auto simp: periodic_Gather_def Let_def split: option.splits prod.splits)
  have "store_on conf (inert conf (r_anonymizer r)) d (d, r)" by (simp add: store_on_def)
  from stored.process_all_keeps [OF this p] have r1: "r1 = (d, snd r1)"
    and off: "inert conf (r_anonymizer r) \<longrightarrow> inert conf (r_anonymizer (snd r1))"
    by (auto simp: store_on_def)
  let ?md = "\<lparr>am_StatusReports = FunctionReportsMapToArray reports, am_MemoryBytesUsage = 0,
    am_Uptime = Milliseconds (ge_uptime env), am_IsGlobalObfuscationEnabled = ge_obfuscated env\<rparr>"
  obtain b where b: "ge_to_json env ?md = Inr b" using assms(4) by blast
  from md b obtain r3 e3 where r2: "r2 = (d, r3)"
    and s: "RecordArchiveMetadata (operator_record load conf sha256 clock) (ge_to_json env)
        (FunctionReportsMapToArray reports) (ge_uptime env) (ge_obfuscated env) (snd r1) = Some (r3, e3)"
    by (subst (asm) r1) (auto simp: RecordArchiveMetadata_def disk_record_def Let_def split: option.splits)
  from metadata_stored [OF b s] obtain m a m' where
    m: "mr_Name m = ''insights-operator/gathers.json''" "mr_Data m = b"
    "anonymized (anonymizer_list load conf) (r_anonymizer (snd r1)) m = Some (a, Inr m')"
    "map_get (r_records r3) = (map_get (r_records (snd r1)))(mr_Name m' \<mapsto> m')" by blast
  have same: "inert conf (r_anonymizer r) \<longrightarrow> m' = m" using off m(3) by (auto simp: anonymized_inert)
  obtain err where fl: "Flush (disk_Save flt fmt now) id d r3 = (d', r', err)"
    using f r2 assms(2) by (auto simp: disk_flush_def split: prod.splits)
  have found: "map_get (r_records r3) (mr_Name m') = Some m'" using m(4) by simp
  have stored: "r_records r' = [] \<and> (err = None \<longrightarrow> (\<exists>recs \<in> set (disk_archives d'). m' \<in> set recs))"
    if "mr_Data m' \<noteq> None"
  proof -
    have in_copy: "m' \<in> set (copy_records r3)"
      using map_of_SomeD [OF found] that by (force simp: copy_records_def)
    then have ne: "copy_records r3 \<noteq> []" by auto
    have "\<exists>recs \<in> set (disk_archives d'). m' \<in> set recs" if "err = None"
      using disk_driver.Flush_stores [OF ne, of flt fmt now id d d' r'] fl that in_copy
      by (metis mset_eq_setD)
    with Flush_clears [OF ne, of "disk_Save flt fmt now" id d] fl show ?thesis by simp
  qed
  have "disk_flush flt fmt now (d, r3) = ((d', r'), err)" using fl by (simp add: disk_flush_def)
  with p [folded assms(1)] r1 m b same found stored disk_driver.Flush_keeps [OF fl] show ?thesis
    by (intro exI [of _ "snd r1"] exI [of _ reports] exI [of _ c1] exI [of _ m] exI [of _ a] exI [of _ m']
        exI [of _ r3] exI [of _ err]) simp
qed

definition example_gather :: "archive_store gather_env" where
  "example_gather =
     \<lparr>ge_config = example_cm\<lparr>ic_DataReporting := (ic_DataReporting example_cm)\<lparr>dr_Enabled := True\<rparr>\<rparr>, ge_api = None,
      ge_record = disk_record (\<lambda>a. Some (a, None)) example_cm (\<lambda>_. ''fp'') (\<lambda>_. 9),
      ge_flush = disk_flush no_faults (\<lambda>_. ''9'') 9, ge_sched = (\<lambda>_. []), ge_to_json = (\<lambda>_. Inr (Some ''{}'')),
      ge_obfuscated = False, ge_gatherers = [], ge_operator = Inl EOF, ge_update = None, ge_gatherTime = 8, ge_now = 9,
      ge_uptime = 5\<rparr>"

theorem gather_archives_witness:
  "\<exists>d' r' c' calls. periodic_Gather example_gather ((example_disk, New Hour (Some (False, []))), example_periodic) =
      Some ((d', r'), c', calls) \<and> r_records r' = [] \<and> set (disk_archives example_disk) \<subseteq> set (disk_archives d')"
proof -
  let ?g = "periodic_Gather example_gather ((example_disk, New Hour (Some (False, []))), example_periodic)"
  have "\<not> Option.is_none ?g"
    by code_simp
  then obtain d' r' c' calls where g: "?g = Some ((d', r'), c', calls)" by (cases ?g) auto
  let ?load = "\<lambda>a. Some (a, None)"
  have e: "ge_record example_gather = disk_record ?load example_cm (\<lambda>_. ''fp'') (\<lambda>_. 9)"
    "ge_flush example_gather = disk_flush no_faults (\<lambda>_. ''9'') 9"
    "\<not> isGatheringDisabled (ge_config example_gather) (ge_api example_gather)"
    and js: "ge_to_json example_gather md = Inr (Some ''{}'')" for md
    by (simp_all add: example_gather_def isGatheringDisabled_def)
  have off: "inert example_cm (r_anonymizer (New Hour (Some (False, []))))" by (simp add: inert_def New_def)
  from js have "\<exists>b. ge_to_json example_gather md = Inr b" for md by blast
  from gather_archives [OF e this g] off js have "r_records r' = [] \<and> set (disk_archives example_disk) \<subseteq> set (disk_archives d')"
    by (metis option.distinct(1) sum.inject(2))
  with g show ?thesis by blast
qed

text \<open>
  C18: The analysis of a gathering reaches the operator resource.  When the data was uploaded and processed and the
  analysis could be downloaded, the status of the operator resource is updated with the health checks the resource
  had and, after them, one for every recommendation of the analysis, with its description, its link and its risk,
  where a risk outside of one to four is shown as the lowest.
\<close>

theorem analysis_published:
  assumes "re_createJob env = None" and "re_updateNew env = None"
    and "WaitForJobCompletion (dg_Name (dgr_status dg)) (re_events env) \<noteq> None"
    and "re_finished env = Inr fin" and "map_get (pc_statuses c) uploaderSource = Some s"
    and "not_failed fin DataUploaded" and "wasDataProcessed fin"
    and "PullReportTechpreview (re_config env) (re_client env) (re_decode env) (re_now env)
      (dg_InsightsRequestID fin) (pc_report c) = Some (rp, Inr (Some rep))"
    and "re_getOperator env = None" and "runJobAndCheckResults env dg img c = Some (c', calls)"
  shows "\<exists>os. UpdatedOperator os \<in> set calls \<and> os_DownloadedAt os = iar_DownloadedAt rep \<and>
    os_HealthChecks os = map operator_health_check (ir_HealthChecks (dg_InsightsReport fin)) @
      map (\<lambda>r. \<lparr>ohc_Description = rcm_Description r,
        ohc_TotalRisk = (if 1 \<le> rcm_TotalRisk r \<and> rcm_TotalRisk r \<le> 4 then rcm_TotalRisk r else 1),
        ohc_State = ''Enabled'',
        ohc_AdvisorURI = CreateInsightsAdvisorLink (iar_ClusterID rep) (rcm_RuleFQDN r) (rcm_ErrorKey r)\<rparr>)
      (iar_Recommendations rep)"
proof -
  have risk: "totalRiskToInt32 (Int32ToTotalRisk x) = (if 1 \<le> x \<and> x \<le> 4 then x else 1)" for x
    by (simp add: totalRiskToInt32_def Int32ToTotalRisk_def)
  let ?dg = "the (updateInsightsReportInDataGather
    (dr_DownloadEndpointTechPreview (ic_DataReporting (re_config env))) (Some rep) fin)"
  obtain c1 pre where p: "pc_report c1 = pc_report c"
    "runJobAndCheckResults env dg img c = map_option (\<lambda>(c, more). (c, pre @ more)) (publish_analysis env fin c1)"
    by (rule run_published [OF assms(1-7)])
  then have "UpdatedOperator (DataGatherStatusToOperatorStatus ?dg) \<in> set calls"
    using assms(8-10)
    by (auto simp: publish_analysis_def updateInsightsReportInDataGather_def copyDataGatherStatusToOperatorStatus_def Let_def
        split: option.splits)
  then show ?thesis
    by (intro exI [of _ "DataGatherStatusToOperatorStatus ?dg"])
      (simp add: updateInsightsReportInDataGather_def DataGatherStatusToOperatorStatus_def operator_health_check_def
        report_health_check_def risk Let_def)
qed

lemma pull_result:
  assumes "case p of Some (_, Inr (Some rep)) \<Rightarrow> P rep | _ \<Rightarrow> False"
  obtains rp rep where "p = Some (rp, Inr (Some rep))" "P rep"
proof (cases p)
  case None
  with assms show ?thesis by simp
next
  case (Some a)
  then obtain rp b where "p = Some (rp, b)" by (cases a) simp
  with assms that show ?thesis by (cases b) (auto split: option.splits)
qed

theorem analysis_published_witness:
  "\<exists>c' calls os. runJobAndCheckResults (example_run ''https://a/%s/%s'' ConditionTrue) example_dgr ''img'' example_periodic =
      Some (c', calls) \<and> UpdatedOperator os \<in> set calls \<and> map ohc_TotalRisk (os_HealthChecks os) = [3]"
proof -
  let ?env = "example_run ''https://a/%s/%s'' ConditionTrue"
  let ?r = "runJobAndCheckResults ?env example_dgr ''img'' example_periodic"
  let ?p = "PullReportTechpreview (re_config ?env) (re_client ?env) (re_decode ?env) (re_now ?env)
      (dg_InsightsRequestID (example_finished ConditionTrue)) (pc_report example_periodic)"
  have "\<not> Option.is_none ?r" by code_simp
  then obtain c' calls where r: "?r = Some (c', calls)" by (cases ?r) auto
  have "(case ?p of Some (_, Inr (Some rep)) \<Rightarrow> map rcm_TotalRisk (iar_Recommendations rep) = [3] | _ \<Rightarrow> False)" by code_simp
  then obtain rp rep where p: "?p = Some (rp, Inr (Some rep))" "map rcm_TotalRisk (iar_Recommendations rep) = [3]"
    by (rule pull_result)
  from analysis_published [OF _ _ _ _ _ example_upload example_processed p(1) _ r] obtain os where
    os: "UpdatedOperator os \<in> set calls" "os_HealthChecks os =
      map operator_health_check (ir_HealthChecks (dg_InsightsReport (example_finished ConditionTrue))) @
      map (\<lambda>r. \<lparr>ohc_Description = rcm_Description r,
        ohc_TotalRisk = (if 1 \<le> rcm_TotalRisk r \<and> rcm_TotalRisk r \<le> 4 then rcm_TotalRisk r else 1),
        ohc_State = ''Enabled'',
        ohc_AdvisorURI = CreateInsightsAdvisorLink (iar_ClusterID rep) (rcm_RuleFQDN r) (rcm_ErrorKey r)\<rparr>)
      (iar_Recommendations rep)"
    by (auto simp: example_run_simps)
  from p(2) obtain x where "iar_Recommendations rep = [x]" "rcm_TotalRisk x = 3" by auto
  with os(2) have "map ohc_TotalRisk (os_HealthChecks os) = [3]"
    by (simp add: example_finished_def zero_DataGather_def)
  with r os(1) show ?thesis by (intro exI conjI)
qed

text \<open>
  The conditions of the remote configuration are copied to the cluster operator.  When both updates succeed
  and the second starts from what the first wrote, the cluster operator has, for both types, a condition with the
  status and the reason of the resource, and every condition of another type as before.
\<close>

lemma remote_conditions_copied:
  assumes "updateStatusBasedOnDataGatherCondition got upd dg = (calls, None)" and "got 0 = Inr cs"
    and "calls = UpdatedClusterOperator cs1 # rest" and "got 1 = Inr cs1"
  shows "\<exists>cs2. last calls = UpdatedClusterOperator cs2 \<and>
    (\<forall>k. k = RemoteConfigurationAvailable \<or> k = RemoteConfigurationValid \<longrightarrow>
      (\<exists>con d. co_condition cs2 k = Some con \<and> GetConditionByType dg k = Some d \<and>
        cn_Status con = mc_Status d \<and> cn_Reason con = mc_Reason d)) \<and>
    (\<forall>k. k \<noteq> RemoteConfigurationAvailable \<and> k \<noteq> RemoteConfigurationValid \<longrightarrow>
      co_condition cs2 k = co_condition cs k)"
proof -
  have ne: "RemoteConfigurationAvailable \<noteq> RemoteConfigurationValid"
    by (simp add: RemoteConfigurationAvailable_def RemoteConfigurationValid_def)
  from assms(1) obtain a v s1 s2 where
    a: "GetConditionByType dg RemoteConfigurationAvailable = Some a"
    and v: "GetConditionByType dg RemoteConfigurationValid = Some v"
    and u1: "compareAndUpdateClusterOperatorCondition (got 0) (upd 0) RemoteConfigurationAvailable a = (s1, None)"
    and u2: "compareAndUpdateClusterOperatorCondition (got 1) (upd 1) RemoteConfigurationValid v = (s2, None)"
    and calls: "calls = sent_conditions (s1, None) @ sent_conditions (s2, None)"
    by (auto simp: updateStatusBasedOnDataGatherCondition_def Let_def split: option.splits)
      (metis prod.collapse)
  obtain ca where ca: "s1 = Some (put_co_condition ca cs)" "cn_Type ca = RemoteConfigurationAvailable"
    "cn_Status ca = mc_Status a" "cn_Reason ca = mc_Reason a"
    by (rule compareAndUpdate_put [OF u1 [unfolded assms(2)]])
  with calls assms(3) have cs1: "cs1 = put_co_condition ca cs" by (simp add: sent_conditions_def)
  obtain cv where cv: "s2 = Some (put_co_condition cv cs1)" "cn_Type cv = RemoteConfigurationValid"
    "cn_Status cv = mc_Status v" "cn_Reason cv = mc_Reason v"
    by (rule compareAndUpdate_put [OF u2 [unfolded assms(4)]])
  let ?cs2 = "put_co_condition cv cs1"
  have "co_condition ?cs2 RemoteConfigurationAvailable = Some ca"
    using co.get_put_other [of RemoteConfigurationAvailable cv cs1] co.get_put_same [of ca cs] ne
    by (simp add: cs1 ca(2) cv(2))
  moreover have "co_condition ?cs2 RemoteConfigurationValid = Some cv"
    using co.get_put_same [of cv cs1] by (simp add: cv(2))
  moreover have "co_condition ?cs2 k = co_condition cs k"
    if "k \<noteq> RemoteConfigurationAvailable" "k \<noteq> RemoteConfigurationValid" for k
    using that co.get_put_other [of k cv cs1] co.get_put_other [of k ca cs] by (simp add: cs1 ca(2) cv(2))
  ultimately show ?thesis
    using a v ca cv calls by (intro exI [of _ ?cs2]) (auto simp: sent_conditions_def)
qed

end
