(* ===== verification/ContainerLogs.thy ===== *)
theory ContainerLogs
  imports Gather
begin

text \<open>
  pkg/gatherers/common/gather_logs.go and pkg/gatherers/conditional/filter_and_gather_container_logs.go: the
  collection of container logs, by namespace with a limit and by the requests of the remote configuration.

  The pods of a namespace and the log streams of containers are outcomes of the API.  \<open>compile\<close> is the regular
  expression package: the matcher of an expression, or the error of compiling it.  A set of messages is a list
  without repetitions, in the order in which it is iterated.
\<close>

section \<open>Lines of a stream\<close>

text \<open>
  \<open>bufio.Scanner\<close>: the lines of the data without their ends; a line of at least 65536 bytes stops the scanner with
  an error, and so does an error of the stream, after the data it delivered.
\<close>

type_synonym log_stream = "bytes \<times> go_error option"

definition MaxScanTokenSize :: int where "MaxScanTokenSize = 65536"

definition tokenTooLong :: go_error where "tokenTooLong = Errorf ''bufio.Scanner: token too long''"

definition drop_cr :: "bytes \<Rightarrow> bytes" where
  "drop_cr l = (if l \<noteq> [] \<and> last l = CHR 0x0D then butlast l else l)"

fun scan_cut :: "bytes list \<Rightarrow> bytes list \<times> go_error option" where
  "scan_cut [] = ([], None)"
| "scan_cut (l # ls) =
     (if MaxScanTokenSize \<le> int (length l) then ([], Some tokenTooLong)
      else let (rest, err) = scan_cut ls in (drop_cr l # rest, err))"

definition scanner_lines :: "log_stream \<Rightarrow> bytes list \<times> go_error option" where
  "scanner_lines st =
     (let ls = split_on newline (fst st);
          ls = (if last ls = [] then butlast ls else ls);
          (lines, err) = scan_cut ls
      in (lines, case err of Some e \<Rightarrow> Some e | None \<Rightarrow> snd st))"

section \<open>Collecting the logs of a namespace\<close>

record LogContainersFilter =
  lcf_Namespace :: string
  lcf_LabelSelector :: string
  lcf_FieldSelector :: string
  lcf_ContainerNameRegexFilter :: string
  lcf_MaxNamespaceContainers :: int

record LogMessagesFilter =
  lmf_MessagesToSearch :: "string list"
  lmf_IsRegexSearch :: bool
  lmf_SinceSeconds :: int
  lmf_LimitBytes :: int
  lmf_TailLines :: int
  lmf_Previous :: bool

record PodLogOptions =
  plo_Container :: string
  plo_SinceSeconds :: "int option"
  plo_LimitBytes :: "int option"
  plo_TailLines :: "int option"
  plo_Previous :: bool
  plo_Timestamps :: bool

record log_pod =
  lp_Namespace :: string
  lp_Name :: string
  lp_Containers :: "string list"
  lp_InitContainers :: "string list"

definition podLogOptions :: "string \<Rightarrow> LogMessagesFilter \<Rightarrow> PodLogOptions" where
  "podLogOptions containerName mf =
     (let nonzero = (\<lambda>n. if n = 0 then None else Some n)
      in \<lparr>plo_Container = containerName, plo_SinceSeconds = nonzero (lmf_SinceSeconds mf),
          plo_LimitBytes = nonzero (lmf_LimitBytes mf), plo_TailLines = nonzero (lmf_TailLines mf),
          plo_Previous = lmf_Previous mf, plo_Timestamps = True\<rparr>)"

type_synonym compiler = "string \<Rightarrow> (string \<Rightarrow> bool) result"

text \<open>A line is kept once for every message it contains.  \<open>MustCompile\<close> panics: \<open>None\<close>.\<close>

definition lower :: "string \<Rightarrow> string" where "lower s = map to_lower s"

fun keep_line :: "string list \<Rightarrow> (string \<Rightarrow> bool) option \<Rightarrow> string \<Rightarrow> string list" where
  "keep_line [] _ line = [line]"
| "keep_line (m # ms) (Some re) line = (if re line then [line] else [])"
| "keep_line (m # ms) None line =
     map (\<lambda>_. line) (filter (\<lambda>messageToSearch. contains_str (lower messageToSearch) (lower line)) (m # ms))"

definition FilterLogFromScanner ::
  "compiler \<Rightarrow> log_stream \<Rightarrow> string list \<Rightarrow> bool \<Rightarrow> (string list \<Rightarrow> string list) option \<Rightarrow> string result option" where
  "FilterLogFromScanner compile st messagesToSearch regexSearch cb =
     (case (if regexSearch then map_sum id Some (compile (join_with ''|'' messagesToSearch)) else Inr None) of
        Inl _ \<Rightarrow> None
      | Inr messagesRegexp \<Rightarrow>
          Some (case scanner_lines st of
                  (lines, Some err) \<Rightarrow> Inl err
                | (lines, None) \<Rightarrow>
                    let result = concat (map (keep_line messagesToSearch messagesRegexp) lines);
                        result = (case cb of None \<Rightarrow> result | Some f \<Rightarrow> f result)
                    in Inr (join_with [newline] result)))"

type_synonym log_source = "string \<Rightarrow> string \<Rightarrow> PodLogOptions \<Rightarrow> log_stream result"

definition filterLogs ::
  "compiler \<Rightarrow> log_stream result \<Rightarrow> string list \<Rightarrow> bool \<Rightarrow> string result option" where
  "filterLogs compile req messagesToSearch regexSearch =
     (case req of
        Inl err \<Rightarrow> Some (Inl err)
      | Inr st \<Rightarrow> FilterLogFromScanner compile st messagesToSearch regexSearch None)"

definition log_record :: "string \<Rightarrow> string \<Rightarrow> Record" where
  "log_record name logs =
     \<lparr>rec_Name = name, rec_Captured = 0,
      rec_Item = Some \<lparr>item_Marshal = Inr (Some logs), item_GetExtension = []\<rparr>, rec_AlwaysStored = False\<rparr>"

definition container_selected :: "compiler \<Rightarrow> string \<Rightarrow> string \<Rightarrow> bool result" where
  "container_selected compile pattern name =
     (if length pattern > 0 then map_sum id (\<lambda>re. re name) (compile pattern) else Inr True)"

text \<open>
  The loop over the containers of a pod, of which there are \<open>n\<close> names: an error, or the records and the number of
  skipped containers.  Whether the limit is reached is fixed before the loop.
\<close>

fun collect_containers ::
  "compiler \<Rightarrow> log_source \<Rightarrow> LogContainersFilter \<Rightarrow> LogMessagesFilter \<Rightarrow> (string \<Rightarrow> string \<Rightarrow> string \<Rightarrow> string) \<Rightarrow>
   log_pod \<Rightarrow> bool \<Rightarrow> nat \<Rightarrow> string list \<Rightarrow> Record list \<Rightarrow> int \<Rightarrow> (Record list \<times> int) result option" where
  "collect_containers compile src cf mf build pod limited n [] records skipped = Some (Inr (records, skipped))"
| "collect_containers compile src cf mf build pod limited n (c # cs) records skipped =
     (case container_selected compile (lcf_ContainerNameRegexFilter cf) c of
        Inl err \<Rightarrow> Some (Inl err)
      | Inr False \<Rightarrow> collect_containers compile src cf mf build pod limited n cs records skipped
      | Inr True \<Rightarrow>
          if limited then Some (Inr (records, int n - lcf_MaxNamespaceContainers cf))
          else
            (case filterLogs compile (src (lp_Namespace pod) (lp_Name pod) (podLogOptions c mf))
                    (lmf_MessagesToSearch mf) (lmf_IsRegexSearch mf) of
               None \<Rightarrow> None
             | Some (Inl err) \<Rightarrow> Some (Inl err)
             | Some (Inr logs) \<Rightarrow>
                 collect_containers compile src cf mf build pod limited n cs
                   (if length (trim_space logs) \<noteq> 0
                    then records @ [log_record (build (lp_Namespace pod) (lp_Name pod) c) logs] else records) skipped))"

fun collect_pods ::
  "compiler \<Rightarrow> log_source \<Rightarrow> LogContainersFilter \<Rightarrow> LogMessagesFilter \<Rightarrow> (string \<Rightarrow> string \<Rightarrow> string \<Rightarrow> string) \<Rightarrow>
   log_pod list \<Rightarrow> Record list \<Rightarrow> int \<Rightarrow> (Record list \<times> int) result option" where
  "collect_pods compile src cf mf build [] records skipped = Some (Inr (records, skipped))"
| "collect_pods compile src cf mf build (pod # pods) records skipped =
     (let containerNames = lp_Containers pod @ lp_InitContainers pod;
          containersLimited = (lcf_MaxNamespaceContainers cf > 0 \<and> int (length records) \<ge> lcf_MaxNamespaceContainers cf)
      in if containersLimited
         then collect_pods compile src cf mf build pods records (skipped + int (length containerNames))
         else case collect_containers compile src cf mf build pod containersLimited (length containerNames) containerNames
                     records skipped of
                None \<Rightarrow> None
              | Some (Inl err) \<Rightarrow> Some (Inl err)
              | Some (Inr (records, skipped)) \<Rightarrow> collect_pods compile src cf mf build pods records skipped)"

definition ContainersSkippedError :: "LogContainersFilter \<Rightarrow> int \<Rightarrow> go_error" where
  "ContainersSkippedError cf skipped =
     Errorf (''skipping '' @ itoa skipped @ '' containers on namespace '' @ lcf_Namespace cf @ '' (max: '' @
       itoa (lcf_MaxNamespaceContainers cf) @ '')'')"

definition default_log_name :: "string \<Rightarrow> string \<Rightarrow> string \<Rightarrow> string" where
  "default_log_name namespace podName c = ''config/pod/'' @ namespace @ ''/logs/'' @ podName @ ''/errors.log''"

text \<open>\<open>pods\<close> is the answer to listing the pods with the namespace, the label and the field selector.\<close>

definition CollectLogsFromContainers ::
  "compiler \<Rightarrow> (string \<Rightarrow> string \<Rightarrow> string \<Rightarrow> log_pod list result) \<Rightarrow> log_source \<Rightarrow> LogContainersFilter \<Rightarrow>
   LogMessagesFilter \<Rightarrow> (string \<Rightarrow> string \<Rightarrow> string \<Rightarrow> string) option \<Rightarrow> (Record list \<times> go_error option) option" where
  "CollectLogsFromContainers compile pods src cf mf build =
     (case pods (lcf_Namespace cf) (lcf_LabelSelector cf) (lcf_FieldSelector cf) of
        Inl err \<Rightarrow> Some ([], Some err)
      | Inr items \<Rightarrow>
          (case collect_pods compile src cf mf (case build of None \<Rightarrow> default_log_name | Some f \<Rightarrow> f) items [] 0 of
             None \<Rightarrow> None
           | Some (Inl err) \<Rightarrow> Some ([], Some err)
           | Some (Inr (records, skipped)) \<Rightarrow>
               Some (records, if skipped > 0 then Some (ContainersSkippedError cf skipped) else None)))"

section \<open>Logs by request\<close>

record RawLogRequest =
  rlr_Namespace :: string
  rlr_PodNameRegex :: string
  rlr_Messages :: "string list"
  rlr_Previous :: bool

type_synonym PodNameRegexPrevious = "string \<times> bool"

record LogRequest =
  lr_Namespace :: string
  lr_PodNameRegexToMessages :: "(PodNameRegexPrevious, string list) gomap"

record ContainerLogRequest =
  clr_Namespace :: string
  clr_PodName :: string
  clr_ContainerName :: string
  clr_Previous :: bool
  clr_MessageRegex :: "string \<Rightarrow> bool"

record containersAndMessages =
  cm_containerNames :: "string list"
  cm_messages :: "string list"
  cm_previous :: bool

definition sinceSeconds :: int where "sinceSeconds = 6 * 60 * 60"

definition group_request :: "RawLogRequest \<Rightarrow> (string, LogRequest) gomap \<Rightarrow> (string, LogRequest) gomap" where
  "group_request r m =
     (let k = (rlr_PodNameRegex r, rlr_Previous r); messages = remdups (rlr_Messages r)
      in case map_get m (rlr_Namespace r) of
           None \<Rightarrow>
             map_put (rlr_Namespace r) \<lparr>lr_Namespace = rlr_Namespace r, lr_PodNameRegexToMessages = [(k, messages)]\<rparr> m
         | Some existing \<Rightarrow>
             let ms = (case map_get (lr_PodNameRegexToMessages existing) k of
                         Some setOfMessages \<Rightarrow> List.union setOfMessages messages
                       | None \<Rightarrow> messages)
             in map_put (rlr_Namespace r)
                  (existing\<lparr>lr_PodNameRegexToMessages := map_put k ms (lr_PodNameRegexToMessages existing)\<rparr>) m)"

definition groupRawLogRequestsByNamespace :: "RawLogRequest list \<Rightarrow> (string, LogRequest) gomap" where
  "groupRawLogRequestsByNamespace rs = fold group_request rs []"

definition add_pod ::
  "bool \<Rightarrow> string list \<Rightarrow> (string \<Rightarrow> bool) \<Rightarrow> log_pod \<Rightarrow> (string, containersAndMessages) gomap \<Rightarrow>
   (string, containersAndMessages) gomap" where
  "add_pod previous messages re pod m =
     (if re (lp_Name pod) then
        (case map_get m (lp_Name pod) of
           Some cm \<Rightarrow> map_put (lp_Name pod) (cm\<lparr>cm_messages := List.union (cm_messages cm) messages\<rparr>) m
         | None \<Rightarrow>
             map_put (lp_Name pod)
               \<lparr>cm_containerNames = lp_Containers pod, cm_messages = messages, cm_previous = previous\<rparr> m)
      else m)"

fun map_pods ::
  "compiler \<Rightarrow> log_pod list \<Rightarrow> (PodNameRegexPrevious \<times> string list) list \<Rightarrow>
   (string, containersAndMessages) gomap \<times> go_error list \<Rightarrow> (string, containersAndMessages) gomap \<times> go_error list" where
  "map_pods compile pods [] acc = acc"
| "map_pods compile pods (((pattern, previous), messages) # rest) (m, errs) =
     (case compile pattern of
        Inl err \<Rightarrow> map_pods compile pods rest (m, errs @ [err])
      | Inr re \<Rightarrow> map_pods compile pods rest (fold (add_pod previous messages re) pods m, errs))"

definition createPodToContainersAndMessagesMapping ::
  "compiler \<Rightarrow> (string \<Rightarrow> log_pod list result) \<Rightarrow> LogRequest \<Rightarrow> (string, containersAndMessages) gomap \<times> go_error list" where
  "createPodToContainersAndMessagesMapping compile pods logRequest =
     (case pods (lr_Namespace logRequest) of
        Inl err \<Rightarrow> ([], [err])
      | Inr items \<Rightarrow> map_pods compile items (lr_PodNameRegexToMessages logRequest) ([], []))"

definition listOfMessagesToRegex :: "compiler \<Rightarrow> string list \<Rightarrow> (string \<Rightarrow> bool) result" where
  "listOfMessagesToRegex compile messages =
     (if length messages = 0 then Inl (Errorf ''input messages are nil or empty'')
      else compile (join_with ''|'' messages))"

text \<open>The error of the scanner is not looked at.\<close>

definition getAndFilterContainerLogs ::
  "log_source \<Rightarrow> ContainerLogRequest \<Rightarrow> Record option \<times> go_error option" where
  "getAndFilterContainerLogs src req =
     (case src (clr_Namespace req) (clr_PodName req)
             \<lparr>plo_Container = clr_ContainerName req, plo_SinceSeconds = Some sinceSeconds, plo_LimitBytes = None,
              plo_TailLines = None, plo_Previous = clr_Previous req, plo_Timestamps = True\<rparr> of
        Inl err \<Rightarrow> (None, Some err)
      | Inr st \<Rightarrow>
          let buffer = concat (map (\<lambda>l. l @ [newline]) (filter (clr_MessageRegex req) (fst (scanner_lines st))))
          in if length buffer = 0 then
               (None, Some (WarningErr (Errorf (''not found any data for the container '' @ clr_ContainerName req @
                  '' in the Pod '' @ clr_PodName req @ '' in the '' @ clr_Namespace req @ '' namespace''))))
             else
               let recordPath = ''namespaces/'' @ clr_Namespace req @ ''/pods/'' @ clr_PodName req @ ''/'' @
                     clr_ContainerName req
               in (Some (log_record (recordPath @ (if clr_Previous req then ''/previous.log'' else ''/current.log'')) buffer),
                   None))"

text \<open>What the goroutines for a namespace send, in some order: here in the order of the pods and their containers.\<close>

definition pod_results ::
  "compiler \<Rightarrow> log_source \<Rightarrow> LogRequest \<Rightarrow> string \<times> containersAndMessages \<Rightarrow> (Record option \<times> go_error option) list" where
  "pod_results compile src logRequest pc =
     (let (podName, cm) = pc
      in case listOfMessagesToRegex compile (cm_messages cm) of
           Inl err \<Rightarrow>
             [(None, Some (Errorf (''Failed to compile the list of messages for one of the ['' @
                join_with '' '' (map (fst \<circ> fst) (lr_PodNameRegexToMessages logRequest)) @ ''] Pod name regexes for '' @
                lr_Namespace logRequest @ '' namespace: '' @ error_text err)))]
         | Inr re \<Rightarrow>
             map (\<lambda>c. getAndFilterContainerLogs src
                   \<lparr>clr_Namespace = lr_Namespace logRequest, clr_PodName = podName, clr_ContainerName = c,
                    clr_Previous = cm_previous cm, clr_MessageRegex = re\<rparr>) (cm_containerNames cm))"

definition filterContainerLogs ::
  "compiler \<Rightarrow> (string \<Rightarrow> log_pod list result) \<Rightarrow> log_source \<Rightarrow> LogRequest \<Rightarrow> (Record option \<times> go_error option) list" where
  "filterContainerLogs compile pods src logRequest =
     (case createPodToContainersAndMessagesMapping compile pods logRequest of
        (m, []) \<Rightarrow> concat (map (pod_results compile src logRequest) m)
      | (m, errs) \<Rightarrow>
          map (\<lambda>err. (None, Some (Errorf (''failed to get matching pod names for namespace '' @ lr_Namespace logRequest @
            '': '' @ error_text err)))) errs)"

text \<open>The receiver takes the results as they come: \<open>arrival\<close> puts them in the order in which they arrive.\<close>

definition gatherContainerLogs ::
  "((Record option \<times> go_error option) list \<Rightarrow> (Record option \<times> go_error option) list) \<Rightarrow> compiler \<Rightarrow>
   (string \<Rightarrow> log_pod list result) \<Rightarrow> log_source \<Rightarrow> RawLogRequest list \<Rightarrow> Record list \<times> go_error list" where
  "gatherContainerLogs arrival compile pods src rawLogRequests =
     (let results = arrival (concat (map (filterContainerLogs compile pods src \<circ> snd)
            (groupRawLogRequestsByNamespace rawLogRequests)))
      in (List.map_filter fst results, List.map_filter snd results))"

section \<open>The limit of a namespace\<close>

lemma collect_containers_length:
  assumes "collect_containers compile src cf mf build pod limited n cs records skipped = Some (Inr (records', skipped'))"
  shows "length records' \<le> length records + length cs \<and> length records \<le> length records'"
  using assms
proof (induction cs arbitrary: limited records skipped)
  case (Cons c cs)
  from Cons.prems show ?case
    by (auto split: sum.splits bool.splits option.splits if_splits dest!: Cons.IH)
qed simp

lemma collect_pods_length:
  assumes "collect_pods compile src cf mf build pods records skipped = Some (Inr (records', skipped'))"
    and "0 < lcf_MaxNamespaceContainers cf"
    and "\<And>pod. pod \<in> set pods \<Longrightarrow> length (lp_Containers pod @ lp_InitContainers pod) \<le> k"
    and "int (length records) \<le> max 0 (lcf_MaxNamespaceContainers cf - 1 + int k)"
  shows "int (length records') \<le> max 0 (lcf_MaxNamespaceContainers cf - 1 + int k)"
  using assms
proof (induction pods arbitrary: records skipped)
  case (Cons pod pods)
  let ?cs = "lp_Containers pod @ lp_InitContainers pod"
  have k: "length ?cs \<le> k" using Cons.prems(3) [of pod] by simp
  show ?case
  proof (cases "lcf_MaxNamespaceContainers cf \<le> int (length records)")
    case True
    with Cons.prems have "collect_pods compile src cf mf build pods records (skipped + int (length ?cs)) =
        Some (Inr (records', skipped'))" by simp
    from Cons.IH [OF this Cons.prems(2) Cons.prems(3) Cons.prems(4)] show ?thesis by simp
  next
    case False
    with Cons.prems obtain rs sk where
      rs: "collect_containers compile src cf mf build pod False (length ?cs) ?cs records skipped = Some (Inr (rs, sk))"
      "collect_pods compile src cf mf build pods rs sk = Some (Inr (records', skipped'))"
      by (auto simp: Let_def split: option.splits sum.splits)
    from collect_containers_length [OF rs(1)] False k
    have "int (length rs) \<le> max 0 (lcf_MaxNamespaceContainers cf - 1 + int k)" by simp
    from Cons.IH [OF rs(2) Cons.prems(2) Cons.prems(3) this] show ?thesis by simp
  qed
qed simp

section \<open>Requests by namespace\<close>

definition request_key :: "RawLogRequest \<Rightarrow> PodNameRegexPrevious" where
  "request_key r = (rlr_PodNameRegex r, rlr_Previous r)"

definition asked :: "RawLogRequest list \<Rightarrow> string \<Rightarrow> PodNameRegexPrevious \<Rightarrow> RawLogRequest list" where
  "asked rs ns k = filter (\<lambda>r. rlr_Namespace r = ns \<and> request_key r = k) rs"

text \<open>The grouping says of every namespace and expression what the requests ask for.\<close>

definition grouped :: "RawLogRequest list \<Rightarrow> (string, LogRequest) gomap \<Rightarrow> bool" where
  "grouped rs m =
     (\<forall>ns. case map_get m ns of
        None \<Rightarrow> ns \<notin> rlr_Namespace ` set rs
      | Some lr \<Rightarrow> lr_Namespace lr = ns \<and> ns \<in> rlr_Namespace ` set rs \<and> distinct (map fst (lr_PodNameRegexToMessages lr)) \<and>
          (\<forall>k. case map_get (lr_PodNameRegexToMessages lr) k of
             None \<Rightarrow> asked rs ns k = []
           | Some ms \<Rightarrow> asked rs ns k \<noteq> [] \<and> set ms = (\<Union>r \<in> set (asked rs ns k). set (rlr_Messages r)) \<and> distinct ms))"

lemma asked_snoc:
  "asked (rs @ [r]) ns k = asked rs ns k @ (if rlr_Namespace r = ns \<and> request_key r = k then [r] else [])"
  by (simp add: asked_def)

lemma distinct_union_list: "distinct xs \<Longrightarrow> distinct ys \<Longrightarrow> distinct (List.union xs ys)"
  by (simp add: distinct_union)

lemma asked_none: "ns \<notin> rlr_Namespace ` set rs \<Longrightarrow> asked rs ns k = []"
  by (auto simp: asked_def filter_empty_conv)

lemma grouped_step:
  assumes "grouped rs m"
  shows "grouped (rs @ [r]) (group_request r m)"
proof -
  let ?ns = "rlr_Namespace r"
  let ?k = "request_key r"
  have other: "map_get (group_request r m) ns = map_get m ns" if "ns \<noteq> ?ns" for ns
    using that by (simp add: group_request_def Let_def split: option.split)
  show ?thesis unfolding grouped_def
  proof (intro allI, goal_cases)
    case (1 ns)
    show ?case
    proof (cases "ns = ?ns")
      case False
      then have "asked (rs @ [r]) ns k = asked rs ns k" for k by (auto simp: asked_snoc)
      moreover have "ns \<in> rlr_Namespace ` set (rs @ [r]) \<longleftrightarrow> ns \<in> rlr_Namespace ` set rs" using False by auto
      ultimately show ?thesis using assms [unfolded grouped_def, rule_format, of ns] by (simp add: other [OF False] cong: option.case_cong)
    next
      case True
      show ?thesis
      proof (cases "map_get m ?ns")
        case None
        then have no: "?ns \<notin> rlr_Namespace ` set rs"
          using assms [unfolded grouped_def, rule_format, of ?ns] by simp
        have g: "map_get (group_request r m) ?ns =
            Some \<lparr>lr_Namespace = ?ns, lr_PodNameRegexToMessages = [(?k, remdups (rlr_Messages r))]\<rparr>"
          using None by (simp add: group_request_def request_key_def Let_def)
        have "asked (rs @ [r]) ?ns k = (if ?k = k then [r] else [])" for k
          by (simp add: asked_snoc asked_none [OF no])
        with g True show ?thesis by simp
      next
        case (Some lr)
        then have lr: "lr_Namespace lr = ?ns" "distinct (map fst (lr_PodNameRegexToMessages lr))" "\<forall>k. case map_get (lr_PodNameRegexToMessages lr) k of
             None \<Rightarrow> asked rs ?ns k = []
           | Some ms \<Rightarrow> asked rs ?ns k \<noteq> [] \<and> set ms = (\<Union>r \<in> set (asked rs ?ns k). set (rlr_Messages r)) \<and> distinct ms"
          using assms [unfolded grouped_def, rule_format, of ?ns] by simp_all
        let ?ms = "case map_get (lr_PodNameRegexToMessages lr) ?k of
          Some old \<Rightarrow> List.union old (remdups (rlr_Messages r)) | None \<Rightarrow> remdups (rlr_Messages r)"
        have g: "map_get (group_request r m) ?ns =
            Some (lr\<lparr>lr_PodNameRegexToMessages := map_put ?k ?ms (lr_PodNameRegexToMessages lr)\<rparr>)"
          using Some by (simp add: group_request_def request_key_def Let_def)
        have "set ?ms = (\<Union>r \<in> set (asked (rs @ [r]) ?ns ?k). set (rlr_Messages r)) \<and> distinct ?ms"
          using lr(3) [rule_format, of ?k] by (auto simp: asked_snoc split: option.splits)
        moreover have "asked (rs @ [r]) ?ns k = asked rs ?ns k" if "k \<noteq> ?k" for k
          using that by (simp add: asked_snoc)
        ultimately show ?thesis
          using g True lr by (simp add: asked_snoc Un_commute distinct_map_put cong: option.case_cong)
      qed
    qed
  qed
qed

lemma groupRaw_grouped: "grouped rs (groupRawLogRequestsByNamespace rs)"
proof (induction rs rule: rev_induct)
  case Nil
  then show ?case by (simp add: grouped_def groupRawLogRequestsByNamespace_def)
next
  case (snoc r rs)
  from grouped_step [OF this, of r] show ?case by (simp add: groupRawLogRequestsByNamespace_def)
qed

section \<open>Pods and their messages\<close>

text \<open>What an entry of the mapping of pods is due to, for the expressions processed so far.\<close>

definition pod_entry ::
  "compiler \<Rightarrow> log_pod list \<Rightarrow> (PodNameRegexPrevious \<times> string list) list \<Rightarrow> string \<Rightarrow> containersAndMessages \<Rightarrow> bool" where
  "pod_entry compile pods keys name cm =
     (\<exists>pod \<in> set pods. lp_Name pod = name \<and> cm_containerNames cm = lp_Containers pod \<and>
       (\<exists>p ms re. ((p, cm_previous cm), ms) \<in> set keys \<and> compile p = Inr re \<and> re name) \<and>
       (\<forall>m \<in> set (cm_messages cm). \<exists>p prev ms re. ((p, prev), ms) \<in> set keys \<and> compile p = Inr re \<and> re name \<and> m \<in> set ms))"

lemma pod_entry_mono: "pod_entry compile pods keys name cm \<Longrightarrow> set keys \<subseteq> set keys' \<Longrightarrow> pod_entry compile pods keys' name cm"
  unfolding pod_entry_def by blast

lemma add_pod_entry:
  assumes "\<And>n c. map_get m n = Some c \<Longrightarrow> pod_entry compile pods keys n c" and "pod \<in> set pods"
    and "((p, prev), ms) \<in> set keys" and "compile p = Inr re"
    and "map_get (add_pod prev ms re pod m) name = Some cm"
  shows "pod_entry compile pods keys name cm"
proof (cases "re (lp_Name pod) \<and> name = lp_Name pod")
  case False
  with assms(5) have "map_get m name = Some cm" by (auto simp: add_pod_def split: if_splits option.splits)
  with assms(1) show ?thesis .
next
  case True
  show ?thesis
  proof (cases "map_get m name")
    case None
    with True assms(5) have "cm = \<lparr>cm_containerNames = lp_Containers pod, cm_messages = ms, cm_previous = prev\<rparr>"
      by (simp add: add_pod_def)
    with True assms(2-4) show ?thesis unfolding pod_entry_def by fastforce
  next
    case (Some c)
    with True assms(5) have cm: "cm = c\<lparr>cm_messages := List.union (cm_messages c) ms\<rparr>" by (simp add: add_pod_def)
    with assms(1) [OF Some] True assms(3,4) show ?thesis unfolding pod_entry_def by fastforce
  qed
qed

lemma fold_add_pod_entry:
  assumes "\<And>n c. map_get m n = Some c \<Longrightarrow> pod_entry compile all keys n c" and "set pods \<subseteq> set all"
    and "((p, prev), ms) \<in> set keys" and "compile p = Inr re"
    and "map_get (fold (add_pod prev ms re) pods m) name = Some cm"
  shows "pod_entry compile all keys name cm"
  using assms
proof (induction pods arbitrary: m)
  case (Cons pod pods)
  have "map_get (add_pod prev ms re pod m) n = Some c \<Longrightarrow> pod_entry compile all keys n c" for n c
    by (rule add_pod_entry [OF Cons.prems(1) _ Cons.prems(3,4)]) (use Cons.prems(2) in auto)
  from Cons.IH [OF this _ Cons.prems(3,4)] Cons.prems(2,5) show ?case by simp
qed simp

lemma map_pods_entry:
  assumes "\<And>n c. map_get m n = Some c \<Longrightarrow> pod_entry compile pods done n c"
    and "map_pods compile pods keys (m, errs) = (m', errs')" and "map_get m' name = Some cm"
  shows "pod_entry compile pods (done @ keys) name cm"
  using assms
proof (induction keys arbitrary: m errs "done")
  case (Cons key keys)
  obtain p prev ms where key: "key = ((p, prev), ms)" by (metis surj_pair)
  show ?case
  proof (cases "compile p")
    case (Inl err)
    have "pod_entry compile pods (done @ [key]) n c" if "map_get m n = Some c" for n c
      by (rule pod_entry_mono [OF Cons.prems(1) [OF that]]) auto
    from Cons.IH [OF this] Inl Cons.prems(2,3) key show ?thesis by simp
  next
    case (Inr re)
    let ?m = "fold (add_pod prev ms re) pods m"
    have "pod_entry compile pods (done @ [key]) n c" if "map_get ?m n = Some c" for n c
    proof (rule fold_add_pod_entry [where p = p and prev = prev and ms = ms and re = re and pods = pods and m = m])
      show "pod_entry compile pods (done @ [key]) n' c'" if "map_get m n' = Some c'" for n' c'
        by (rule pod_entry_mono [OF Cons.prems(1) [OF that]]) auto
    qed (use key Inr that in simp_all)
    from Cons.IH [OF this] Inr Cons.prems(2,3) key show ?thesis by simp
  qed
qed simp

lemma mapping_entry:
  assumes "createPodToContainersAndMessagesMapping compile pods lr = (m, [])" and "map_get m name = Some cm"
  shows "\<exists>items. pods (lr_Namespace lr) = Inr items \<and> pod_entry compile items (lr_PodNameRegexToMessages lr) name cm"
proof -
  from assms(1) obtain items where items: "pods (lr_Namespace lr) = Inr items"
    "map_pods compile items (lr_PodNameRegexToMessages lr) ([], []) = (m, [])"
    by (auto simp: createPodToContainersAndMessagesMapping_def split: sum.splits)
  from map_pods_entry [of "[]" compile items "[]", OF _ items(2) assms(2)] items(1) show ?thesis by simp
qed

lemma keys_add_pod: "distinct (map fst m) \<Longrightarrow> distinct (map fst (add_pod prev ms re pod m))"
  by (auto simp: add_pod_def split: option.split)

lemma keys_map_pods:
  assumes "distinct (map fst m)"
  shows "distinct (map fst (fst (map_pods compile pods keys (m, errs))))"
proof -
  have step: "distinct (map fst (fold (add_pod prev ms re) ps m))" if "distinct (map fst m)" for prev ms re ps m
    using that by (induction ps arbitrary: m) (simp_all add: keys_add_pod)
  show ?thesis using assms
    by (induction compile pods keys "(m, errs)" arbitrary: m errs rule: map_pods.induct) (auto simp: step split: sum.splits)
qed

lemma keys_group: "distinct (map fst (groupRawLogRequestsByNamespace rs))"
proof (induction rs rule: rev_induct)
  case (snoc r rs)
  have "distinct (map fst (group_request r m))" if "distinct (map fst m)" for m
    using that by (auto simp: group_request_def Let_def split: option.split)
  with snoc show ?case by (simp add: groupRawLogRequestsByNamespace_def)
qed (simp add: groupRawLogRequestsByNamespace_def)

definition log_file :: "string \<Rightarrow> string \<Rightarrow> string \<Rightarrow> bool \<Rightarrow> string" where
  "log_file ns pod c previous =
     ''namespaces/'' @ ns @ ''/pods/'' @ pod @ ''/'' @ c @ (if previous then ''/previous.log'' else ''/current.log'')"

definition matching_lines :: "(string \<Rightarrow> bool) \<Rightarrow> log_stream \<Rightarrow> string" where
  "matching_lines re st = concat (map (\<lambda>l. l @ [newline]) (filter re (fst (scanner_lines st))))"

definition log_options :: "string \<Rightarrow> bool \<Rightarrow> PodLogOptions" where
  "log_options c previous =
     \<lparr>plo_Container = c, plo_SinceSeconds = Some sinceSeconds, plo_LimitBytes = None, plo_TailLines = None,
      plo_Previous = previous, plo_Timestamps = True\<rparr>"

lemma getAndFilter_record:
  assumes "getAndFilterContainerLogs src req = (Some rec, err)"
  shows "\<exists>st. src (clr_Namespace req) (clr_PodName req) (log_options (clr_ContainerName req) (clr_Previous req)) = Inr st \<and>
    rec = log_record (log_file (clr_Namespace req) (clr_PodName req) (clr_ContainerName req) (clr_Previous req))
      (matching_lines (clr_MessageRegex req) st)"
proof (cases "src (clr_Namespace req) (clr_PodName req) (log_options (clr_ContainerName req) (clr_Previous req))")
  case (Inr st)
  show ?thesis
  proof (cases "matching_lines (clr_MessageRegex req) st = []")
    case False
    with assms Inr show ?thesis
      by (simp add: getAndFilterContainerLogs_def log_options_def matching_lines_def log_file_def)
  qed (use assms Inr in \<open>simp add: getAndFilterContainerLogs_def log_options_def matching_lines_def\<close>)
qed (use assms in \<open>simp add: getAndFilterContainerLogs_def log_options_def\<close>)

lemma pod_results_record:
  assumes "(Some rec, err) \<in> set (pod_results compile src lr (name, cm))"
  shows "\<exists>line_re c st. compile (join_with ''|'' (cm_messages cm)) = Inr line_re \<and> c \<in> set (cm_containerNames cm) \<and>
    src (lr_Namespace lr) name (log_options c (cm_previous cm)) = Inr st \<and>
    rec = log_record (log_file (lr_Namespace lr) name c (cm_previous cm)) (matching_lines line_re st)"
proof (cases "listOfMessagesToRegex compile (cm_messages cm)")
  case (Inl e)
  with assms show ?thesis by (simp add: pod_results_def)
next
  case (Inr line_re)
  with assms obtain c where c: "c \<in> set (cm_containerNames cm)"
    "getAndFilterContainerLogs src \<lparr>clr_Namespace = lr_Namespace lr, clr_PodName = name, clr_ContainerName = c,
       clr_Previous = cm_previous cm, clr_MessageRegex = line_re\<rparr> = (Some rec, err)"
    by (fastforce simp: pod_results_def)
  from Inr have "compile (join_with ''|'' (cm_messages cm)) = Inr line_re"
    by (simp add: listOfMessagesToRegex_def split: if_splits)
  with c(1) getAndFilter_record [OF c(2)] show ?thesis by auto
qed

section \<open>Properties\<close>

text \<open>
  The log requests are grouped without loss.  The grouping has exactly the requested namespaces, and for each
  the requested expressions, previous and current apart; the messages of an expression are exactly those of all
  the requests for it, each once.
\<close>

lemma requests_grouped:
  "case map_get (groupRawLogRequestsByNamespace rs) ns of
     None \<Rightarrow> ns \<notin> rlr_Namespace ` set rs
   | Some lr \<Rightarrow> lr_Namespace lr = ns \<and>
       (\<forall>k. case map_get (lr_PodNameRegexToMessages lr) k of
          None \<Rightarrow> asked rs ns k = []
        | Some ms \<Rightarrow> asked rs ns k \<noteq> [] \<and> set ms = (\<Union>r \<in> set (asked rs ns k). set (rlr_Messages r)) \<and> distinct ms)"
  using groupRaw_grouped [of rs, unfolded grouped_def, rule_format, of ns]
  by (cases "map_get (groupRawLogRequestsByNamespace rs) ns") simp_all

lemma requested_logs:
  assumes "\<And>xs. set (arrival xs) = set xs"
    and "rec \<in> set (fst (gatherContainerLogs arrival compile pods src rs))"
  shows "\<exists>r \<in> set rs. \<exists>items re. pods (rlr_Namespace r) = Inr items \<and> compile (rlr_PodNameRegex r) = Inr re \<and>
    (\<exists>pod \<in> set items. re (lp_Name pod) \<and> (\<exists>c \<in> set (lp_Containers pod). \<exists>messages line_re st.
      set messages \<subseteq> (\<Union>r' \<in> {r' \<in> set rs. rlr_Namespace r' = rlr_Namespace r}. set (rlr_Messages r')) \<and>
      compile (join_with ''|'' messages) = Inr line_re \<and>
      src (rlr_Namespace r) (lp_Name pod) (log_options c (rlr_Previous r)) = Inr st \<and>
      rec = log_record (log_file (rlr_Namespace r) (lp_Name pod) c (rlr_Previous r)) (matching_lines line_re st)))"
proof -
  from assms obtain ns lr err where
    g: "(ns, lr) \<in> set (groupRawLogRequestsByNamespace rs)" "(Some rec, err) \<in> set (filterContainerLogs compile pods src lr)"
    by (auto simp: gatherContainerLogs_def Let_def map_filter_def comp_def)
  then have "map_get (groupRawLogRequestsByNamespace rs) ns = Some lr" by (simp add: keys_group)
  with groupRaw_grouped [of rs, unfolded grouped_def, rule_format, of ns]
  have lr: "lr_Namespace lr = ns" "distinct (map fst (lr_PodNameRegexToMessages lr))"
    and keys: "\<And>k. case map_get (lr_PodNameRegexToMessages lr) k of None \<Rightarrow> asked rs ns k = []
      | Some ms \<Rightarrow> asked rs ns k \<noteq> [] \<and> set ms = (\<Union>r \<in> set (asked rs ns k). set (rlr_Messages r)) \<and> distinct ms"
    by (simp_all del: split_paired_All)
  have key: "asked rs ns k \<noteq> [] \<and> set ms = (\<Union>r \<in> set (asked rs ns k). set (rlr_Messages r))"
    if "(k, ms) \<in> set (lr_PodNameRegexToMessages lr)" for k ms
    using keys [of k] that lr(2) by simp
  obtain m errs where m0: "createPodToContainersAndMessagesMapping compile pods lr = (m, errs)" by fastforce
  with g(2) have "errs = []" by (cases errs) (auto simp: filterContainerLogs_def)
  with g(2) m0 obtain name cm where
    m: "createPodToContainersAndMessagesMapping compile pods lr = (m, [])" "(name, cm) \<in> set m"
    "(Some rec, err) \<in> set (pod_results compile src lr (name, cm))"
    by (auto simp: filterContainerLogs_def)
  have "distinct (map fst m)"
  proof (cases "pods (lr_Namespace lr)")
    case (Inr x)
    with m(1) keys_map_pods [of "[]" compile x "lr_PodNameRegexToMessages lr" "[]"] show ?thesis
      by (simp add: createPodToContainersAndMessagesMapping_def)
  qed (use m(1) in \<open>simp add: createPodToContainersAndMessagesMapping_def\<close>)
  with m(2) have "map_get m name = Some cm" by simp
  from mapping_entry [OF m(1) this] obtain items where items: "pods ns = Inr items"
    "pod_entry compile items (lr_PodNameRegexToMessages lr) name cm" using lr(1) by auto
  from items(2) obtain pod p ms re where
    pod: "pod \<in> set items" "lp_Name pod = name" "cm_containerNames cm = lp_Containers pod"
    and p: "((p, cm_previous cm), ms) \<in> set (lr_PodNameRegexToMessages lr)" "compile p = Inr re" "re name"
    and sub: "\<And>x. x \<in> set (cm_messages cm) \<Longrightarrow> \<exists>k ms. (k, ms) \<in> set (lr_PodNameRegexToMessages lr) \<and> x \<in> set ms"
    unfolding pod_entry_def by metis
  from key [OF p(1)] obtain r where r: "r \<in> set rs" "rlr_Namespace r = ns" "rlr_PodNameRegex r = p" "rlr_Previous r = cm_previous cm"
    by (auto simp: asked_def request_key_def filter_empty_conv)
  have msgs: "set (cm_messages cm) \<subseteq> (\<Union>r' \<in> {r' \<in> set rs. rlr_Namespace r' = ns}. set (rlr_Messages r'))"
  proof
    fix x assume "x \<in> set (cm_messages cm)"
    from sub [OF this] obtain k ms where k: "(k, ms) \<in> set (lr_PodNameRegexToMessages lr)" "x \<in> set ms" by blast
    with key [OF k(1)] show "x \<in> (\<Union>r' \<in> {r' \<in> set rs. rlr_Namespace r' = ns}. set (rlr_Messages r'))"
      by (auto simp: asked_def)
  qed
  from pod_results_record [OF m(3)] pod(3) lr(1) obtain line_re c st where
    c: "compile (join_with ''|'' (cm_messages cm)) = Inr line_re" "c \<in> set (lp_Containers pod)"
    "src ns name (log_options c (cm_previous cm)) = Inr st"
    "rec = log_record (log_file ns name c (cm_previous cm)) (matching_lines line_re st)" by auto
  have "\<exists>messages line_re st.
      set messages \<subseteq> (\<Union>r' \<in> {r' \<in> set rs. rlr_Namespace r' = rlr_Namespace r}. set (rlr_Messages r')) \<and>
      compile (join_with ''|'' messages) = Inr line_re \<and>
      src (rlr_Namespace r) (lp_Name pod) (log_options c (rlr_Previous r)) = Inr st \<and>
      rec = log_record (log_file (rlr_Namespace r) (lp_Name pod) c (rlr_Previous r)) (matching_lines line_re st)"
    by (intro exI [of _ "cm_messages cm"] exI [of _ line_re] exI [of _ st] conjI) (use c(1,3,4) msgs r(2,4) pod(2) in simp_all)
  with r(1) items(1) p(2,3) pod(1,2) c(2) r(2,3) show ?thesis by blast
qed

lemma requested_record:
  assumes "\<And>xs. set (arrival xs) = set xs" and "rec \<in> set (fst (gatherContainerLogs arrival compile pods src rs))"
  shows "\<exists>r \<in> set rs. \<exists>pod c content. rec = log_record (log_file (rlr_Namespace r) pod c (rlr_Previous r)) content"
  using requested_logs [OF assms] by blast

text \<open>
  Only requested logs are gathered.  Every record that the requests of the remote configuration produce is the
  log of a container of a pod in a requested namespace, whose name matches an expression requested for it with the
  same choice of the previous or the current log; and it has exactly the lines of that log, of the last six hours,
  that match an expression built from messages requested for that namespace.
\<close>

lemma container_logs_requested:
  assumes "\<And>xs. set (arrival xs) = set xs"
    and "rec \<in> set (fst (gatherContainerLogs arrival compile pods src rs))"
  shows "\<exists>r \<in> set rs. \<exists>items re. pods (rlr_Namespace r) = Inr items \<and> compile (rlr_PodNameRegex r) = Inr re \<and>
    (\<exists>pod \<in> set items. re (lp_Name pod) \<and> (\<exists>c \<in> set (lp_Containers pod). \<exists>messages line_re st.
      set messages \<subseteq> (\<Union>r' \<in> {r' \<in> set rs. rlr_Namespace r' = rlr_Namespace r}. set (rlr_Messages r')) \<and>
      compile (join_with ''|'' messages) = Inr line_re \<and>
      src (rlr_Namespace r) (lp_Name pod) (log_options c (rlr_Previous r)) = Inr st \<and>
      rec = log_record (log_file (rlr_Namespace r) (lp_Name pod) c (rlr_Previous r)) (matching_lines line_re st)))"
  using requested_logs [OF assms] .

definition example_pods :: "string \<Rightarrow> log_pod list result" where
  "example_pods ns = Inr [\<lparr>lp_Namespace = ns, lp_Name = ''p1'', lp_Containers = [''c1''], lp_InitContainers = [''i1'']\<rparr>]"

definition example_logs :: log_source where
  "example_logs ns pod opts = Inr (''good\<newline>bad\<newline>'', None)"

definition example_compile :: compiler where
  "example_compile p = Inr (\<lambda>s. p = s \<or> p = ''.*'')"

definition example_request :: RawLogRequest where
  "example_request =
     \<lparr>rlr_Namespace = ''openshift-a'', rlr_PodNameRegex = ''.*'', rlr_Messages = [''good''], rlr_Previous = False\<rparr>"

text \<open>
  The limit on the containers of a namespace.  With a positive limit, the logs of a namespace are fewer than the
  limit plus the most containers of a pod: the limit is looked at between the pods, not between the containers.
\<close>

lemma namespace_log_limit:
  assumes "CollectLogsFromContainers compile pods src cf mf build = Some (records, err)"
    and "0 < lcf_MaxNamespaceContainers cf"
    and "pods (lcf_Namespace cf) (lcf_LabelSelector cf) (lcf_FieldSelector cf) = Inr items"
    and "\<forall>pod \<in> set items. length (lp_Containers pod) + length (lp_InitContainers pod) \<le> k"
  shows "int (length records) < lcf_MaxNamespaceContainers cf + int k"
proof (cases "records = []")
  case False
  with assms(1,3) obtain skipped where
    "collect_pods compile src cf mf (case build of None \<Rightarrow> default_log_name | Some f \<Rightarrow> f) items [] 0 =
      Some (Inr (records, skipped))"
    by (auto simp: CollectLogsFromContainers_def split: option.splits sum.splits)
  from collect_pods_length [OF this assms(2), of k] assms(2,4) show ?thesis by simp
qed (use assms(2) in simp)

text \<open>
  When the previous and the current log are both requested for the pods of one expression, only the one whose
  request comes first in the iteration is gathered.
\<close>

lemma previous_and_current:
  assumes "compile p = Inr re" and "re (lp_Name pod)" and "pods ns = Inr [pod]"
  shows "\<exists>cm. createPodToContainersAndMessagesMapping compile pods
      \<lparr>lr_Namespace = ns, lr_PodNameRegexToMessages = [((p, b), ms), ((p, \<not> b), ms')]\<rparr> = ([(lp_Name pod, cm)], []) \<and>
    cm_previous cm = b \<and> set (cm_messages cm) = set ms \<union> set ms'"
  using assms by (simp add: createPodToContainersAndMessagesMapping_def add_pod_def)

text \<open>A line that contains two of the messages is kept twice.\<close>

lemma line_repeated:
  assumes "contains_str (lower m) (lower line)" and "contains_str (lower m') (lower line)"
  shows "keep_line [m, m'] None line = [line, line]"
  using assms by simp

end
