(* ===== verification/Ocm.thy ===== *)
theory Ocm
  imports InsightsClient StatusController
begin

text \<open>
  pkg/ocm: the controllers that pull simple content access certificates (sca.go, architectures_gather.go) and
  cluster transfers (clustertransfer/cluster_transfer.go, types.go) from the OCM API.

  The answers of the OCM API are the argument \<open>recv\<close>, indexed by the attempt; decoding of JSON, the JSON merge
  patch and the text of an HTTP status are parameters.  The secrets of the cluster are the record \<open>secret_api\<close>,
  which also says which calls of the API server fail.  Every call reads the clock once.
\<close>

section \<open>Requests with exponential backoff\<close>

definition FailureCountThreshold :: nat where "FailureCountThreshold = 5"

record wait_Backoff =
  wb_Duration :: duration
  wb_Factor :: int
  wb_Steps :: nat
  wb_Cap :: duration

text \<open>\<open>Backoff.Step\<close> without jitter.\<close>

definition wait_Step :: "wait_Backoff \<Rightarrow> wait_Backoff" where
  "wait_Step b =
     (if wb_Steps b < 1 then b\<lparr>wb_Steps := 0\<rparr>
      else let nxt = (if wb_Factor b \<noteq> 0 then wb_Duration b * wb_Factor b else wb_Duration b)
           in if wb_Factor b \<noteq> 0 \<and> 0 < wb_Cap b \<and> wb_Cap b < nxt
              then b\<lparr>wb_Duration := wb_Cap b, wb_Steps := 0\<rparr>
              else b\<lparr>wb_Duration := nxt, wb_Steps := wb_Steps b - 1\<rparr>)"

text \<open>
  The two requests share their loop: \<open>wait.ExponentialBackoff\<close> runs on a copy \<open>lo\<close> of the backoff, the closure
  on the original \<open>bo\<close>; an HTTP error of at least 500 is tried again while the original has steps left.  The
  result is the answer together with the number of requests.
\<close>

definition http_5xx :: "go_error \<Rightarrow> bool" where
  "http_5xx err = (case err of HttpError _ code \<Rightarrow> 500 \<le> code | _ \<Rightarrow> False)"

function ocm_loop ::
  "(nat \<Rightarrow> bytes result) \<Rightarrow> nat \<Rightarrow> wait_Backoff \<Rightarrow> wait_Backoff \<Rightarrow> bytes result \<times> nat" where
  "ocm_loop recv k lo bo =
     (if wb_Steps lo = 0 then (Inl (Errorf ''timed out waiting for the condition''), k)
      else case recv k of
             Inr data \<Rightarrow> (Inr data, Suc k)
           | Inl err \<Rightarrow>
               if http_5xx err \<and> 1 < wb_Steps bo then
                 (if wb_Steps lo = 1 then (Inl (Errorf ''timed out waiting for the condition''), Suc k)
                  else ocm_loop recv (Suc k) (wait_Step lo) (wait_Step bo))
               else (Inl err, Suc k))"
  by pat_completeness auto

termination
  by (relation "measure (\<lambda>(recv, k, lo, bo). wb_Steps lo)") (auto simp: wait_Step_def Let_def)

declare ocm_loop.simps [simp del]

definition sca_backoff :: "duration \<Rightarrow> wait_Backoff" where
  "sca_backoff interval =
     \<lparr>wb_Duration = go_quot interval 32, wb_Factor = 2, wb_Steps = FailureCountThreshold, wb_Cap = interval\<rparr>"

definition ct_backoff :: "duration \<Rightarrow> wait_Backoff" where
  "ct_backoff interval =
     \<lparr>wb_Duration = go_quot interval 24, wb_Factor = 2, wb_Steps = FailureCountThreshold, wb_Cap = interval\<rparr>"

section \<open>Architectures\<close>

definition archMapping :: "(string, string) gomap" where
  "archMapping =
     [(''x86'', ''386''), (''x86_64'', ''amd64''), (''ppc'', ''ppc''), (''ppc64'', ''ppc64''),
      (''ppc64le'', ''ppc64le''), (''s390'', ''s390''), (''s390x'', ''s390x''), (''ia64'', ''ia64''),
      (''aarch64'', ''arm64'')]"

definition kubernetesArchMapping :: "(string, string) gomap" where
  "kubernetesArchMapping =
     [(''386'', ''x86''), (''amd64'', ''x86_64''), (''ppc'', ''ppc''), (''ppc64'', ''ppc64''),
      (''ppc64le'', ''ppc64le''), (''s390'', ''s390''), (''s390x'', ''s390x''), (''ia64'', ''ia64''),
      (''arm64'', ''aarch64'')]"

text \<open>A missing key of a Go map reads as the zero value.\<close>

definition lookup0 :: "(string, string) gomap \<Rightarrow> string \<Rightarrow> string" where
  "lookup0 m k = (case map_get m k of None \<Rightarrow> [] | Some v \<Rightarrow> v)"

definition getArch :: "string \<Rightarrow> string \<Rightarrow> string" where
  "getArch goarch arch =
     (case map_get kubernetesArchMapping arch of
        Some translation \<Rightarrow> translation
      | None \<Rightarrow> lookup0 kubernetesArchMapping goarch)"

record sca_node =
  nd_Architecture :: string
  nd_controlPlane :: bool

record clusterArchitecture =
  ca_NodeArchitectures :: "string list"
  ca_ControlPlaneArch :: string

definition add_node :: "string \<Rightarrow> sca_node \<Rightarrow> clusterArchitecture \<Rightarrow> clusterArchitecture" where
  "add_node goarch node ca =
     (let nodeArch = getArch goarch (nd_Architecture node);
          ca = (if ca_ControlPlaneArch ca = [] \<and> nd_controlPlane node
                then ca\<lparr>ca_ControlPlaneArch := nodeArch\<rparr> else ca)
      in ca\<lparr>ca_NodeArchitectures := List.insert nodeArch (ca_NodeArchitectures ca)\<rparr>)"

definition gatherArchitectures :: "string \<Rightarrow> sca_node list result \<Rightarrow> clusterArchitecture result" where
  "gatherArchitectures goarch nodes =
     (case nodes of
        Inl err \<Rightarrow> Inl err
      | Inr items \<Rightarrow>
          Inr (fold (add_node goarch) items \<lparr>ca_NodeArchitectures = [], ca_ControlPlaneArch = []\<rparr>))"

section \<open>Certificates and secrets\<close>

record CertData =
  cd_Key :: string
  cd_Cert :: string
  cd_Arch :: string

record sca_Response =
  sr_Items :: "CertData list"
  sr_Total :: int

record secret_api =
  sa_secrets :: "(string, (string, bytes) gomap) gomap"
  sa_getErr :: "string \<Rightarrow> go_error option"
  sa_createErr :: "string \<Rightarrow> go_error option"
  sa_updateErr :: "string \<Rightarrow> go_error option"

definition secretName :: string where "secretName = ''etc-pki-entitlement''"

definition secretArchName :: "string \<Rightarrow> string" where
  "secretArchName arch = ''etc-pki-entitlement-'' @ arch"

definition getCertDataByName :: "string \<Rightarrow> sca_Response \<Rightarrow> CertData option" where
  "getCertDataByName archName r = find (\<lambda>archData. cd_Arch archData = archName) (sr_Items r)"

definition cert_content :: "CertData \<Rightarrow> (string, bytes) gomap" where
  "cert_content ocmData = [(''entitlement.pem'', cd_Cert ocmData), (''entitlement-key.pem'', cd_Key ocmData)]"

definition createSecret :: "CertData \<Rightarrow> string \<Rightarrow> secret_api \<Rightarrow> secret_api \<times> go_error option" where
  "createSecret ocmData name a =
     (case sa_createErr a name of
        Some err \<Rightarrow> (a, Some err)
      | None \<Rightarrow> (a\<lparr>sa_secrets := map_put name (cert_content ocmData) (sa_secrets a)\<rparr>, None))"

definition updateSecret :: "string \<Rightarrow> CertData \<Rightarrow> secret_api \<Rightarrow> secret_api \<times> go_error option" where
  "updateSecret name ocmData a =
     (case sa_updateErr a name of
        Some err \<Rightarrow> (a, Some err)
      | None \<Rightarrow> (a\<lparr>sa_secrets := map_put name (cert_content ocmData) (sa_secrets a)\<rparr>, None))"

definition get_secret :: "string \<Rightarrow> secret_api \<Rightarrow> (string, bytes) gomap result" where
  "get_secret name a =
     (case sa_getErr a name of
        Some err \<Rightarrow> Inl err
      | None \<Rightarrow>
          (case map_get (sa_secrets a) name of
             None \<Rightarrow> Inl (NotFoundErr name)
           | Some s \<Rightarrow> Inr s))"

definition checkSecret :: "CertData \<Rightarrow> string \<Rightarrow> secret_api \<Rightarrow> secret_api \<times> go_error option" where
  "checkSecret ocmData name a =
     (case get_secret name a of
        Inl err \<Rightarrow> if isNotFound err then createSecret ocmData name a else (a, Some err)
      | Inr _ \<Rightarrow> updateSecret name ocmData a)"

fun arch_secrets :: "CertData list \<Rightarrow> secret_api \<Rightarrow> secret_api \<times> go_error option" where
  "arch_secrets [] a = (a, None)"
| "arch_secrets (r # rs) a =
     (case checkSecret r (secretArchName (lookup0 archMapping (cd_Arch r))) a of
        (a, Some err) \<Rightarrow> (a, Some err)
      | (a, None) \<Rightarrow> arch_secrets rs a)"

text \<open>With a total of one and no item, the index panics: \<open>None\<close>.\<close>

definition processResponses ::
  "sca_Response \<Rightarrow> string \<Rightarrow> secret_api \<Rightarrow> (secret_api \<times> go_error option) option" where
  "processResponses responses controlPlaneArch a =
     (if sr_Total responses = 1 then
        (case sr_Items responses of [] \<Rightarrow> None | item # _ \<Rightarrow> Some (checkSecret item secretName a))
      else
        (case getCertDataByName controlPlaneArch responses of
           None \<Rightarrow>
             Some (a, Some (Errorf ''certificates for node architecture not found, default secret is not created nor updated''))
         | Some controlPlaneCertData \<Rightarrow>
             (case checkSecret controlPlaneCertData secretName a of
                (a, Some err) \<Rightarrow> Some (a, Some err)
              | (a, None) \<Rightarrow> Some (arch_secrets (sr_Items responses) a))))"

definition requestSCAWithExpBackoff ::
  "(bytes \<Rightarrow> sca_Response result) \<Rightarrow> duration \<Rightarrow> (nat \<Rightarrow> bytes result) \<Rightarrow> sca_Response result" where
  "requestSCAWithExpBackoff decode interval recv =
     (case fst (ocm_loop recv 0 (sca_backoff interval) (sca_backoff interval)) of
        Inl err \<Rightarrow> Inl err
      | Inr data \<Rightarrow> decode data)"

definition sca_summary :: "time \<Rightarrow> bool \<Rightarrow> int \<Rightarrow> string \<Rightarrow> string \<Rightarrow> Summary" where
  "sca_summary now healthy code reason message =
     \<lparr>sm_Operation = \<lparr>op_Name = PullingSCACerts, op_HTTPStatusCode = code\<rparr>, sm_Healthy = healthy,
      sm_Reason = reason, sm_Message = message, sm_LastTransitionTime = now, sm_Count = 0\<rparr>"

text \<open>\<open>status_reason\<close> is the text of an HTTP status without its spaces.\<close>

definition sca_failed :: "(int \<Rightarrow> string) \<Rightarrow> time \<Rightarrow> string \<Rightarrow> go_error \<Rightarrow> Summary" where
  "sca_failed status_reason now endpoint err =
     (let errMsg = ''Failed to pull SCA certs from '' @ endpoint @ '': '' @ error_text err
      in case err of
           HttpError _ code \<Rightarrow> sca_summary now False code (status_reason code) errMsg
         | _ \<Rightarrow> sca_summary now True 0 ''NonHTTPError'' errMsg)"

definition requestDataAndCheckSecret ::
  "(int \<Rightarrow> string) \<Rightarrow> (bytes \<Rightarrow> sca_Response result) \<Rightarrow> string \<Rightarrow> sca_node list result \<Rightarrow>
   (string list \<Rightarrow> nat \<Rightarrow> bytes result) \<Rightarrow> duration \<Rightarrow> time \<Rightarrow> string \<Rightarrow> Summary \<times> secret_api \<Rightarrow>
   (Summary \<times> secret_api) option" where
  "requestDataAndCheckSecret status_reason decode goarch nodes recv interval now endpoint st =
     (let (s, a) = st
      in case gatherArchitectures goarch nodes of
           Inl err \<Rightarrow> Some (s, a)
         | Inr ca \<Rightarrow>
             (case requestSCAWithExpBackoff decode interval (recv (ca_NodeArchitectures ca)) of
                Inl err \<Rightarrow> Some (UpdateStatus now (sca_failed status_reason now endpoint err) s, a)
              | Inr responses \<Rightarrow>
                  (case processResponses responses (ca_ControlPlaneArch ca) a of
                     None \<Rightarrow> None
                   | Some (a, Some err) \<Rightarrow>
                       Some (UpdateStatus now (sca_summary now False 0 ''FailedToProcessSCACerts''
                         (''Failed to process SCA certs: '' @ error_text err)) s, a)
                   | Some (a, None) \<Rightarrow>
                       Some (UpdateStatus now (sca_summary now True 0 scaAvailableReason
                         ''SCA certs successfully updated'') s, a))))"

text \<open>
  The select loop of \<open>Run\<close> on the sequence of its events: the timer, with what a request does then, and a
  change of the configuration.
\<close>

datatype 's sca_event = Timer time "'s \<Rightarrow> 's option" | ScaConfig SCA

fun sca_loop :: "bool \<Rightarrow> (Summary \<times> secret_api) sca_event list \<Rightarrow> Summary \<times> secret_api \<Rightarrow> (Summary \<times> secret_api) option" where
  "sca_loop disabled [] st = Some st"
| "sca_loop disabled (Timer now request # evs) st =
     (if \<not> disabled then (case request st of None \<Rightarrow> None | Some st \<Rightarrow> sca_loop disabled evs st)
      else sca_loop disabled evs
             (UpdateStatus now (sca_summary now True 0 ''Disabled''
                ''Pulling of the SCA certs from the OCM API is disabled'') (fst st), snd st))"
| "sca_loop disabled (ScaConfig cfg # evs) st = sca_loop (sca_Disabled cfg) evs st"

definition sca_Run ::
  "SCA \<Rightarrow> (Summary \<times> secret_api \<Rightarrow> (Summary \<times> secret_api) option) \<Rightarrow>
   (Summary \<times> secret_api) sca_event list \<Rightarrow> Summary \<times> secret_api \<Rightarrow> (Summary \<times> secret_api) option" where
  "sca_Run cfg request evs st =
     (if \<not> sca_Disabled cfg
      then (case request st of None \<Rightarrow> None | Some st \<Rightarrow> sca_loop (sca_Disabled cfg) evs st)
      else sca_loop (sca_Disabled cfg) evs st)"

section \<open>Cluster transfers\<close>

record auth =
  au_Auth :: string
  au_Email :: string

type_synonym pullSecretContent = "(string, auth) gomap"

record clusterTransferList =
  cl_Total :: int
  cl_Secrets :: "string list"

record ct_state =
  cts_status :: Summary
  cts_api :: secret_api
  cts_pullSecret :: "(string, bytes) gomap option"

definition dockerConfigJsonKey :: string where "dockerConfigJsonKey = ''.dockerconfigjson''"

definition isUpdatedPullSecretContentSame :: "pullSecretContent \<Rightarrow> pullSecretContent \<Rightarrow> bool" where
  "isUpdatedPullSecretContentSame originalPS updatedPS =
     list_all (\<lambda>(k, v). map_get originalPS k = Some v) updatedPS"

definition ct_updateStatus :: "time \<Rightarrow> bool \<Rightarrow> string \<Rightarrow> string \<Rightarrow> int option \<Rightarrow> ct_state \<Rightarrow> ct_state" where
  "ct_updateStatus now healthy msg reason httpErr c =
     c\<lparr>cts_status := UpdateStatus now
         \<lparr>sm_Operation = \<lparr>op_Name = PullingClusterTransfer,
            op_HTTPStatusCode = (case httpErr of None \<Rightarrow> 0 | Some code \<Rightarrow> code)\<rparr>,
          sm_Healthy = healthy, sm_Reason = reason, sm_Message = msg, sm_LastTransitionTime = now,
          sm_Count = 0\<rparr> (cts_status c)\<rparr>"

text \<open>
  The decoder of a pull secret is \<open>decode_ps\<close>; a secret without the key decodes the empty data.  Secrets are
  named by their name in the namespace openshift-config.
\<close>

definition secret_data_of :: "(string, bytes) gomap \<Rightarrow> bytes" where
  "secret_data_of s = (case map_get s dockerConfigJsonKey of None \<Rightarrow> [] | Some b \<Rightarrow> b)"

definition isUpdateRequired ::
  "(bytes \<Rightarrow> pullSecretContent result) \<Rightarrow> bytes \<Rightarrow> ct_state \<Rightarrow> ct_state \<times> bool result" where
  "isUpdateRequired decode_ps newData c =
     (case get_secret ''pull-secret'' (cts_api c) of
        Inl err \<Rightarrow> (c, Inl err)
      | Inr pullSecret \<Rightarrow>
          let c = c\<lparr>cts_pullSecret := Some pullSecret\<rparr>
          in case decode_ps newData of
               Inl err \<Rightarrow> (c, Inl err)
             | Inr newPullSecret \<Rightarrow>
                 (case decode_ps (secret_data_of pullSecret) of
                    Inl err \<Rightarrow> (c, Inl err)
                  | Inr originalPullSecret \<Rightarrow>
                      (c, Inr (\<not> isUpdatedPullSecretContentSame originalPullSecret newPullSecret))))"

definition cached_secret :: "ct_state \<Rightarrow> (string, bytes) gomap result" where
  "cached_secret c = (case cts_pullSecret c of Some ps \<Rightarrow> Inr ps | None \<Rightarrow> get_secret ''pull-secret'' (cts_api c))"

definition updatePullSecret ::
  "(bytes \<Rightarrow> bytes \<Rightarrow> bytes result) \<Rightarrow> bytes \<Rightarrow> ct_state \<Rightarrow> ct_state \<times> go_error option" where
  "updatePullSecret merge_patch newData c =
     (case cached_secret c of
        Inl err \<Rightarrow> (c, Some err)
      | Inr ps \<Rightarrow>
          let c = c\<lparr>cts_pullSecret := Some ps\<rparr>
          in case merge_patch (secret_data_of ps) newData of
               Inl err \<Rightarrow> (c, Some err)
             | Inr updatedData \<Rightarrow>
                 let ps = map_put dockerConfigJsonKey updatedData ps;
                     c = c\<lparr>cts_pullSecret := Some ps\<rparr>;
                     a = cts_api c
                 in case sa_updateErr a ''pull-secret'' of
                      Some err \<Rightarrow> (c, Some err)
                    | None \<Rightarrow> (c\<lparr>cts_api := a\<lparr>sa_secrets := map_put ''pull-secret'' ps (sa_secrets a)\<rparr>\<rparr>, None))"

definition checkCTListAndOptionallyUpdatePS ::
  "(bytes \<Rightarrow> pullSecretContent result) \<Rightarrow> (bytes \<Rightarrow> bytes \<Rightarrow> bytes result) \<Rightarrow> time \<Rightarrow> clusterTransferList \<Rightarrow>
   ct_state \<Rightarrow> ct_state" where
  "checkCTListAndOptionallyUpdatePS decode_ps merge_patch now ctList c =
     (if cl_Total ctList > 1 then
        ct_updateStatus now True ''there are more accepted cluster transfers. The pull-secret will not be updated!''
          ''MoreAcceptedClusterTransfers'' None c
      else case cl_Secrets ctList of
        [newPullSecret] \<Rightarrow>
          (case isUpdateRequired decode_ps newPullSecret c of
             (c, Inl err) \<Rightarrow>
               ct_updateStatus now False (''new pull-secret check failed: '' @ error_text err) ''DataCorrupted'' None c
           | (c, Inr True) \<Rightarrow>
               (case updatePullSecret merge_patch newPullSecret c of
                  (c, Some err) \<Rightarrow>
                    ct_updateStatus now False (''failed to update pull-secret: '' @ error_text err) ''UpdateFailed'' None c
                | (c, None) \<Rightarrow>
                    ct_updateStatus now True ''pull-secret successfully updated'' clusterTransferAvailableReason None c)
           | (c, Inr False) \<Rightarrow> ct_updateStatus now True ''no new data received'' ''NoNewData'' None c)
      | _ \<Rightarrow>
          ct_updateStatus now True ''unexpected number of cluster transfers received from the API''
            ''UnexpectedData'' None c)"

definition requestDataAndUpdateSecret ::
  "(int \<Rightarrow> string) \<Rightarrow> (bytes \<Rightarrow> clusterTransferList result) \<Rightarrow> (bytes \<Rightarrow> pullSecretContent result) \<Rightarrow>
   (bytes \<Rightarrow> bytes \<Rightarrow> bytes result) \<Rightarrow> (nat \<Rightarrow> bytes result) \<Rightarrow> duration \<Rightarrow> time \<Rightarrow> ct_state \<Rightarrow> ct_state" where
  "requestDataAndUpdateSecret status_reason decode_list decode_ps merge_patch recv interval now c =
     (case fst (ocm_loop recv 0 (ct_backoff interval) (ct_backoff interval)) of
        Inl err \<Rightarrow>
          let msg = ''failed to pull cluster transfer: '' @ error_text err
          in (case err of
                HttpError _ code \<Rightarrow> ct_updateStatus now False msg (status_reason code) (Some code) c
              | _ \<Rightarrow> ct_updateStatus now True msg ''Disconnected'' None c)
      | Inr data \<Rightarrow>
          if length data = 0
          then ct_updateStatus now True ''no available cluster transfer'' ''NoClusterTransfer'' None c
          else case decode_list data of
                 Inl err \<Rightarrow>
                   ct_updateStatus now False
                     (''unable to deserialize the cluster transfer API response: '' @ error_text err)
                     ''UnexpectedData'' None c
               | Inr ctList \<Rightarrow> checkCTListAndOptionallyUpdatePS decode_ps merge_patch now ctList c)"

text \<open>
  \<open>Run\<close>: a request at the start and one whenever the timer fires, with the endpoint and the interval of the last
  configuration; \<open>request n cfg\<close> is what a request at the n-th event does.
\<close>

datatype ct_event = CtTimer | CtConfig ClusterTransfer

fun ct_loop :: "(nat \<Rightarrow> ClusterTransfer \<Rightarrow> ct_state \<Rightarrow> ct_state) \<Rightarrow> nat \<Rightarrow> ClusterTransfer \<Rightarrow> ct_event list \<Rightarrow> ct_state \<Rightarrow> ct_state" where
  "ct_loop request n cfg [] c = c"
| "ct_loop request n cfg (CtTimer # evs) c = ct_loop request (Suc n) cfg evs (request n cfg c)"
| "ct_loop request n cfg (CtConfig cfg' # evs) c = ct_loop request (Suc n) cfg' evs c"

definition ct_Run :: "(nat \<Rightarrow> ClusterTransfer \<Rightarrow> ct_state \<Rightarrow> ct_state) \<Rightarrow> ClusterTransfer \<Rightarrow> ct_event list \<Rightarrow> ct_state \<Rightarrow> ct_state" where
  "ct_Run request cfg evs c = ct_loop request 1 cfg evs (request 0 cfg c)"

section \<open>The request loop\<close>

definition backoff_room :: "wait_Backoff \<Rightarrow> bool" where
  "backoff_room b =
     (0 < wb_Steps b \<and> wb_Factor b = 2 \<and> 0 \<le> wb_Duration b \<and> wb_Duration b * 2 ^ (wb_Steps b - 1) \<le> wb_Cap b)"

lemma wait_Step_room:
  assumes "backoff_room b" and "1 < wb_Steps b"
  shows "backoff_room (wait_Step b)" and "wb_Steps (wait_Step b) = wb_Steps b - 1"
proof -
  obtain n where n: "wb_Steps b = Suc (Suc n)" using assms(2) that [of "wb_Steps b - 2"] by simp
  have "wb_Duration b * 2 \<le> wb_Duration b * 2 * 2 ^ n"
    using assms(1) by (simp add: backoff_room_def mult_le_cancel_left1)
  moreover have "wb_Duration b * 2 * 2 ^ n \<le> wb_Cap b"
    using assms(1) n by (simp add: backoff_room_def mult.assoc)
  ultimately have step: "wait_Step b = b\<lparr>wb_Duration := wb_Duration b * 2, wb_Steps := Suc n\<rparr>"
    using assms(1) n by (simp add: wait_Step_def backoff_room_def Let_def)
  show "wb_Steps (wait_Step b) = wb_Steps b - 1" using step n by simp
  show "backoff_room (wait_Step b)"
    using assms(1) \<open>wb_Duration b * 2 * 2 ^ n \<le> wb_Cap b\<close> by (simp add: step backoff_room_def)
qed

definition retried :: "bytes result \<Rightarrow> bool" where
  "retried r = (case r of Inl e \<Rightarrow> http_5xx e | Inr _ \<Rightarrow> False)"

lemma ocm_loop_spec:
  assumes "backoff_room b"
  shows "\<exists>j < wb_Steps b. ocm_loop recv k b b = (recv (k + j), k + j + 1) \<and>
    (\<forall>i < j. retried (recv (k + i))) \<and> (j < wb_Steps b - 1 \<longrightarrow> \<not> retried (recv (k + j)))"
  using assms
proof (induction "wb_Steps b" arbitrary: b k)
  case 0
  then show ?case by (simp add: backoff_room_def)
next
  case (Suc n)
  show ?case
  proof (cases "retried (recv k) \<and> 1 < wb_Steps b")
    case False
    have "ocm_loop recv k b b = (recv k, k + 1)"
      using False Suc.hyps(2) by (subst ocm_loop.simps) (auto simp: retried_def split: sum.splits)
    moreover have "0 < wb_Steps b - 1 \<longrightarrow> \<not> retried (recv (k + 0))" using False by auto
    ultimately show ?thesis using Suc.hyps(2) by (intro exI [of _ 0]) simp
  next
    case True
    note room = wait_Step_room [OF Suc.prems True [THEN conjunct2]]
    from True obtain e where e: "recv k = Inl e" "http_5xx e" by (auto simp: retried_def split: sum.splits)
    then have step: "ocm_loop recv k b b = ocm_loop recv (Suc k) (wait_Step b) (wait_Step b)"
      using True by (subst ocm_loop.simps) auto
    have "n = wb_Steps (wait_Step b)" using room(2) Suc.hyps(2) by simp
    from Suc.hyps(1) [OF this room(1), of "Suc k"] obtain j where
      j: "j < wb_Steps (wait_Step b)" "ocm_loop recv (Suc k) (wait_Step b) (wait_Step b) = (recv (Suc k + j), Suc k + j + 1)"
      "\<forall>i < j. retried (recv (Suc k + i))" "j < wb_Steps (wait_Step b) - 1 \<longrightarrow> \<not> retried (recv (Suc k + j))" by blast
    have "retried (recv (k + i))" if "i < Suc j" for i
      using that j(3) True by (cases i) auto
    with step j room(2) show ?thesis by (intro exI [of _ "Suc j"]) auto
  qed
qed

lemma sca_room: "0 \<le> interval \<Longrightarrow> backoff_room (sca_backoff interval)"
  by (simp add: backoff_room_def sca_backoff_def go_quot_nonneg FailureCountThreshold_def) linarith

lemma ct_room: "0 \<le> interval \<Longrightarrow> backoff_room (ct_backoff interval)"
  by (simp add: backoff_room_def ct_backoff_def go_quot_nonneg FailureCountThreshold_def) linarith

section \<open>Secrets\<close>

lemma checkSecret_ok:
  assumes "checkSecret d n a = (a', None)"
  shows "map_get (sa_secrets a') = (map_get (sa_secrets a))(n \<mapsto> cert_content d) \<and>
    sa_getErr a' = sa_getErr a \<and> sa_createErr a' = sa_createErr a \<and> sa_updateErr a' = sa_updateErr a"
  using assms
  by (auto simp: checkSecret_def createSecret_def updateSecret_def fun_eq_iff
      split: sum.splits if_splits option.splits)

lemma arch_secrets_ok:
  assumes "arch_secrets rs a = (a', None)"
  shows "map_get (sa_secrets a') name =
    (case find_last (\<lambda>r. secretArchName (lookup0 archMapping (cd_Arch r)) = name) rs of
       Some r \<Rightarrow> Some (cert_content r) | None \<Rightarrow> map_get (sa_secrets a) name)"
  using assms
proof (induction rs arbitrary: a)
  case Nil
  then show ?case by (simp add: find_last_def)
next
  case (Cons r rs)
  let ?n = "\<lambda>r. secretArchName (lookup0 archMapping (cd_Arch r))"
  from Cons.prems obtain a1 where a1: "checkSecret r (?n r) a = (a1, None)" "arch_secrets rs a1 = (a', None)"
    by (auto split: prod.splits option.splits)
  have "find_last (\<lambda>r. ?n r = name) (r # rs) =
      (case find_last (\<lambda>r. ?n r = name) rs of Some x \<Rightarrow> Some x | None \<Rightarrow> if ?n r = name then Some r else None)"
    by (auto simp: find_last_eq split: option.splits)
  with Cons.IH [OF a1(2)] checkSecret_ok [OF a1(1)] show ?case by (auto split: option.splits)
qed

lemma arch_secrets_error: "arch_secrets rs a = (a', Some e) \<Longrightarrow> rs \<noteq> []"
  by (cases rs) auto

lemma archMapping_inverse:
  "map_get kubernetesArchMapping a = Some s \<Longrightarrow> map_get archMapping s = Some a"
  by (auto simp: kubernetesArchMapping_def archMapping_def split: if_splits)

lemma getArch_known:
  assumes "map_get kubernetesArchMapping a \<noteq> None"
  shows "lookup0 archMapping (getArch goarch a) = a"
  using assms archMapping_inverse [of a] by (auto simp: getArch_def lookup0_def)

lemma secretName_arch [simp]: "secretArchName x \<noteq> secretName"
  by (auto simp: secretArchName_def secretName_def dest: arg_cong [of _ _ length])

section \<open>Cluster transfers\<close>

lemma ct_updateStatus_frame [simp]:
  "cts_api (ct_updateStatus now h m r e c) = cts_api c"
  "cts_pullSecret (ct_updateStatus now h m r e c) = cts_pullSecret c"
  by (simp_all add: ct_updateStatus_def)

lemma isUpdateRequired_frame:
  "isUpdateRequired decode_ps newData c = (c', res) \<Longrightarrow> cts_api c' = cts_api c \<and> cts_status c' = cts_status c"
  by (auto simp: isUpdateRequired_def Let_def split: sum.splits)

lemma isUpdateRequired_iff:
  assumes "isUpdateRequired decode_ps newData c = (c', Inr upd)"
  shows "\<exists>ps old new. get_secret ''pull-secret'' (cts_api c) = Inr ps \<and> cts_pullSecret c' = Some ps \<and>
    decode_ps (secret_data_of ps) = Inr old \<and> decode_ps newData = Inr new \<and>
    (upd \<longleftrightarrow> \<not> list_all (\<lambda>(k, v). map_get old k = Some v) new)"
  using assms
  by (auto simp: isUpdateRequired_def isUpdatedPullSecretContentSame_def Let_def split: sum.splits)

lemma updatePullSecret_ok:
  assumes "updatePullSecret merge_patch newData c = (c', None)" and "cts_pullSecret c = Some ps"
  shows "\<exists>d. merge_patch (secret_data_of ps) newData = Inr d \<and>
    cts_api c' = (cts_api c)\<lparr>sa_secrets :=
      map_put ''pull-secret'' (map_put dockerConfigJsonKey d ps) (sa_secrets (cts_api c))\<rparr>"
  using assms
  by (auto simp: updatePullSecret_def cached_secret_def Let_def split: sum.splits option.splits)

lemma updatePullSecret_error:
  "updatePullSecret merge_patch newData c = (c', Some e) \<Longrightarrow> cts_api c' = cts_api c"
  by (auto simp: updatePullSecret_def Let_def split: sum.splits option.splits)

lemma check_transfers_cases:
  assumes "checkCTListAndOptionallyUpdatePS decode_ps merge_patch now l c = c'"
  shows "cts_api c' = cts_api c \<or>
    (\<exists>secret ps old new d. cl_Total l \<le> 1 \<and> cl_Secrets l = [secret] \<and>
      get_secret ''pull-secret'' (cts_api c) = Inr ps \<and> decode_ps (secret_data_of ps) = Inr old \<and>
      decode_ps secret = Inr new \<and> \<not> list_all (\<lambda>(k, v). map_get old k = Some v) new \<and>
      merge_patch (secret_data_of ps) secret = Inr d \<and>
      cts_api c' = (cts_api c)\<lparr>sa_secrets :=
        map_put ''pull-secret'' (map_put dockerConfigJsonKey d ps) (sa_secrets (cts_api c))\<rparr>)"
proof (cases "cl_Total l \<le> 1 \<and> (\<exists>secret. cl_Secrets l = [secret])")
  case False
  with assms have "cts_api c' = cts_api c"
    by (auto simp: checkCTListAndOptionallyUpdatePS_def split: list.splits)
  then show ?thesis ..
next
  case True
  then obtain secret where sec: "cl_Total l \<le> 1" "cl_Secrets l = [secret]" by blast
  obtain c1 res where r: "isUpdateRequired decode_ps secret c = (c1, res)" by fastforce
  note frame = isUpdateRequired_frame [OF r]
  show ?thesis
  proof (cases "res = Inr True")
    case False
    with assms sec r frame have "cts_api c' = cts_api c"
      by (auto simp: checkCTListAndOptionallyUpdatePS_def split: sum.splits bool.splits)
    then show ?thesis ..
  next
    case True
    obtain c2 err where u: "updatePullSecret merge_patch secret c1 = (c2, err)" by fastforce
    with assms sec r True have api: "cts_api c' = cts_api c2"
      by (auto simp: checkCTListAndOptionallyUpdatePS_def split: option.splits)
    from isUpdateRequired_iff [OF r [unfolded True]] obtain ps old new where
      ps: "get_secret ''pull-secret'' (cts_api c) = Inr ps" "cts_pullSecret c1 = Some ps"
      "decode_ps (secret_data_of ps) = Inr old" "decode_ps secret = Inr new"
      "\<not> list_all (\<lambda>(k, v). map_get old k = Some v) new" by auto
    show ?thesis
    proof (cases err)
      case (Some e)
      with u frame api updatePullSecret_error show ?thesis by metis
    next
      case None
      with updatePullSecret_ok [OF u [unfolded None] ps(2)] api frame sec ps show ?thesis by auto
    qed
  qed
qed

section \<open>Properties\<close>

lemma archMapping_known:
  assumes "lookup0 archMapping x = arch" and "arch \<noteq> []" and "map_get kubernetesArchMapping arch \<noteq> None"
  shows "x = getArch goarch arch"
  using assms
  by (auto simp: lookup0_def archMapping_def kubernetesArchMapping_def getArch_def split: option.splits if_splits)

lemma secretArchName_inj [simp]: "secretArchName x = secretArchName y \<longleftrightarrow> x = y"
  by (simp add: secretArchName_def)

text \<open>
  C22: The requests to OCM end.  For both controllers and every sequence of answers, the loop makes at most
  five requests and gives the answer to the last one, never a timeout of its own: it goes on exactly after
  HTTP errors of at least 500, and gives up after the fifth.
\<close>

theorem ocm_retry:
  assumes "0 \<le> interval" and "b = sca_backoff interval \<or> b = ct_backoff interval"
  shows "\<exists>j < 5. ocm_loop recv 0 b b = (recv j, j + 1) \<and> (\<forall>i < j. retried (recv i)) \<and>
    (j < 4 \<longrightarrow> \<not> retried (recv j))"
proof -
  have "backoff_room b" "wb_Steps b = 5"
    using assms sca_room ct_room by (auto simp: sca_backoff_def ct_backoff_def FailureCountThreshold_def)
  with ocm_loop_spec [of b recv 0] show ?thesis by simp
qed

theorem ocm_retry_witness:
  "\<exists>j < 5. ocm_loop (\<lambda>_. Inl (HttpError ''busy'' 503)) 0 (sca_backoff (8 * Hour)) (sca_backoff (8 * Hour)) =
     (Inl (HttpError ''busy'' 503), j + 1) \<and> \<not> j < 4"
  using ocm_retry [of "8 * Hour" "sca_backoff (8 * Hour)" "\<lambda>_. Inl (HttpError ''busy'' 503)"]
  by (auto simp: retried_def http_5xx_def)

text \<open>
  C23: The secrets with the certificates.  After the response for several architectures was processed without
  an error, the default secret holds the certificate of the control plane; the secret named after the
  architecture of a node, as Kubernetes names it, holds the certificate that the response has for the
  architecture requested for that node, when it has one; and every other secret is as before.
\<close>

theorem sca_secrets:
  assumes "processResponses resp cp a = Some (a', None)" and "sr_Total resp \<noteq> 1"
  shows "(\<exists>d. getCertDataByName cp resp = Some d \<and> map_get (sa_secrets a') secretName = Some (cert_content d)) \<and>
    (\<forall>arch d. map_get kubernetesArchMapping arch \<noteq> None \<and> d \<in> set (sr_Items resp) \<and>
       cd_Arch d = getArch goarch arch \<and> (\<forall>d' \<in> set (sr_Items resp). cd_Arch d' = cd_Arch d \<longrightarrow> d' = d) \<longrightarrow>
       map_get (sa_secrets a') (secretArchName arch) = Some (cert_content d)) \<and>
    (\<forall>name. name \<noteq> secretName \<and> (\<forall>d \<in> set (sr_Items resp). name \<noteq> secretArchName (lookup0 archMapping (cd_Arch d))) \<longrightarrow>
       map_get (sa_secrets a') name = map_get (sa_secrets a) name)"
proof -
  let ?n = "\<lambda>r. secretArchName (lookup0 archMapping (cd_Arch r))"
  from assms obtain d a1 where d: "getCertDataByName cp resp = Some d"
    "checkSecret d secretName a = (a1, None)" "arch_secrets (sr_Items resp) a1 = (a', None)"
    by (auto simp: processResponses_def split: option.splits prod.splits)
  note fin = arch_secrets_ok [OF d(3)]
  have "find_last (\<lambda>r. ?n r = secretName) (sr_Items resp) = None" by (simp add: find_last_None)
  with fin [of secretName] checkSecret_ok [OF d(2)] have def: "map_get (sa_secrets a') secretName = Some (cert_content d)"
    by simp
  have arch: "map_get (sa_secrets a') (secretArchName ar) = Some (cert_content e)"
    if k: "map_get kubernetesArchMapping ar \<noteq> None" and e: "e \<in> set (sr_Items resp)" "cd_Arch e = getArch goarch ar"
      and u: "\<forall>d' \<in> set (sr_Items resp). cd_Arch d' = cd_Arch e \<longrightarrow> d' = e" for ar e
  proof -
    have ne: "ar \<noteq> []" using k by (auto simp: kubernetesArchMapping_def)
    from e getArch_known [OF k] have "?n e = secretArchName ar" by simp
    with e(1) have "find_last (\<lambda>r. ?n r = secretArchName ar) (sr_Items resp) \<noteq> None"
      by (auto simp: find_last_None)
    then obtain x where x: "find_last (\<lambda>r. ?n r = secretArchName ar) (sr_Items resp) = Some x" by auto
    from find_last_Some [OF x] archMapping_known [OF _ ne k] have "x \<in> set (sr_Items resp)" "cd_Arch x = getArch goarch ar"
      by auto
    with u e have "x = e" by simp
    with fin [of "secretArchName ar"] x show ?thesis by simp
  qed
  have other: "map_get (sa_secrets a') name = map_get (sa_secrets a) name"
    if "name \<noteq> secretName" "\<forall>d \<in> set (sr_Items resp). name \<noteq> ?n d" for name
  proof -
    have "find_last (\<lambda>r. ?n r = name) (sr_Items resp) = None" using that(2) by (auto simp: find_last_None)
    with fin [of name] checkSecret_ok [OF d(2)] that(1) show ?thesis by simp
  qed
  show ?thesis using d(1) def arch other by blast
qed

definition example_api :: secret_api where
  "example_api =
     \<lparr>sa_secrets = [], sa_getErr = (\<lambda>_. None), sa_createErr = (\<lambda>_. None), sa_updateErr = (\<lambda>_. None)\<rparr>"

definition example_certs :: sca_Response where
  "example_certs =
     \<lparr>sr_Items = [\<lparr>cd_Key = ''k1'', cd_Cert = ''c1'', cd_Arch = ''x86_64''\<rparr>,
                  \<lparr>cd_Key = ''k2'', cd_Cert = ''c2'', cd_Arch = ''aarch64''\<rparr>], sr_Total = 2\<rparr>"

theorem sca_secrets_witness:
  "\<exists>a'. processResponses example_certs ''x86_64'' example_api = Some (a', None) \<and>
    map_get (sa_secrets a') ''etc-pki-entitlement-arm64'' =
      Some (cert_content \<lparr>cd_Key = ''k2'', cd_Cert = ''c2'', cd_Arch = ''aarch64''\<rparr>)"
proof -
  have "(case processResponses example_certs ''x86_64'' example_api of Some (_, None) \<Rightarrow> True | _ \<Rightarrow> False)"
    by code_simp
  then obtain a' where a': "processResponses example_certs ''x86_64'' example_api = Some (a', None)"
    by (auto split: option.splits)
  let ?d = "\<lparr>cd_Key = ''k2'', cd_Cert = ''c2'', cd_Arch = ''aarch64''\<rparr>"
  have "map_get (sa_secrets a') (secretArchName ''arm64'') = Some (cert_content ?d)"
    by (rule sca_secrets [OF a', where goarch = "''amd64''", THEN conjunct2, THEN conjunct1, rule_format])
      (auto simp: example_certs_def kubernetesArchMapping_def getArch_def)
  with a' show ?thesis by (simp add: secretArchName_def)
qed

text \<open>
  Server errors of OCM degrade the operator.  When a healthy source of the certificates gets an HTTP error
  in the end, its status makes the operator Degraded exactly when the error is a server error of at least 500,
  as long as gathering is not disabled.
\<close>

lemma sca_failure_degrades:
  assumes "sm_Healthy s" and "gatherArchitectures goarch nodes = Inr ca" and "0 \<le> interval"
    and "\<And>k. recv (ca_NodeArchitectures ca) k = Inl (HttpError msg code)"
    and "requestDataAndCheckSecret status_reason decode goarch nodes recv interval now endpoint (s, a) = Some (s', a')"
    and "se_sources env = [(scaControllerName, CurrentStatus s')]" and "\<not> env_disabled env"
  shows "written_status (fst (snd (status_merge ps mr env now' existing c))) OperatorDegraded =
    Some (if 500 \<le> code then ConditionTrue else ConditionFalse)"
proof -
  from ocm_loop_spec [OF sca_room [OF assms(3)], of "recv (ca_NodeArchitectures ca)" 0] assms(4)
  have "fst (ocm_loop (recv (ca_NodeArchitectures ca)) 0 (sca_backoff interval) (sca_backoff interval)) =
      Inl (HttpError msg code)" by auto
  with assms(2,5) have s': "s' = UpdateStatus now (sca_failed status_reason now endpoint (HttpError msg code)) s"
    by (simp add: requestDataAndCheckSecret_def requestSCAWithExpBackoff_def)
  have f: "sm_Healthy s' = False" "sm_Operation s' = \<lparr>op_Name = PullingSCACerts, op_HTTPStatusCode = code\<rparr>"
    "sm_Count s' = 1" "sm_Message s' \<noteq> []"
    using assms(1) by (simp_all add: s' sca_failed_def sca_summary_def UpdateStatus_def Let_def)
  then have "env_failing env \<longleftrightarrow> 500 \<le> code"
    using assms(6)
    by (simp add: env_failing_def degrading_messages_def degrading_def degradingFailure_def CurrentStatus_def
        map_filter_def PullingSCACerts_def Uploading_def DownloadingReport_def)
  with assms(7) operator_statuses(1) [of ps mr env now' existing c] show ?thesis
    by (cases "status_merge ps mr env now' existing c") auto
qed

text \<open>
  C24: When the pull secret changes.  A check for cluster transfers changes nothing in the cluster unless OCM
  answered within five requests with data that decodes to a list of exactly one transfer, at most one
  accepted, whose secret decodes and has an authentication that the pull secret lacks or has differently; and
  then it replaces the pull secret's data by the merge patch of both and nothing else.
\<close>

theorem pull_secret_changes:
  assumes "0 \<le> interval"
    and "requestDataAndUpdateSecret status_reason decode_list decode_ps merge_patch recv interval now c = c'"
  shows "cts_api c' = cts_api c \<or>
    (\<exists>j data l secret ps old new d. j < 5 \<and> recv j = Inr data \<and> data \<noteq> [] \<and> decode_list data = Inr l \<and>
      cl_Total l \<le> 1 \<and> cl_Secrets l = [secret] \<and> get_secret ''pull-secret'' (cts_api c) = Inr ps \<and>
      decode_ps (secret_data_of ps) = Inr old \<and> decode_ps secret = Inr new \<and>
      \<not> list_all (\<lambda>(k, v). map_get old k = Some v) new \<and> merge_patch (secret_data_of ps) secret = Inr d \<and>
      cts_api c' = (cts_api c)\<lparr>sa_secrets :=
        map_put ''pull-secret'' (map_put dockerConfigJsonKey d ps) (sa_secrets (cts_api c))\<rparr>)"
proof -
  have steps: "wb_Steps (ct_backoff interval) = 5" by (simp add: ct_backoff_def FailureCountThreshold_def)
  from ocm_loop_spec [OF ct_room [OF assms(1)], of recv 0] steps obtain j where
    j: "j < 5" "fst (ocm_loop recv 0 (ct_backoff interval) (ct_backoff interval)) = recv j" by auto
  show ?thesis
  proof (cases "\<exists>data l. recv j = Inr data \<and> data \<noteq> [] \<and> decode_list data = Inr l")
    case False
    with j assms(2) have "cts_api c' = cts_api c"
      by (auto simp: requestDataAndUpdateSecret_def Let_def split: sum.splits go_error.splits)
    then show ?thesis ..
  next
    case True
    then obtain data l where d: "recv j = Inr data" "data \<noteq> []" "decode_list data = Inr l" by blast
    with j assms(2) have "checkCTListAndOptionallyUpdatePS decode_ps merge_patch now l c = c'"
      by (simp add: requestDataAndUpdateSecret_def)
    from check_transfers_cases [OF this] d j(1) show ?thesis by blast
  qed
qed

definition example_decode :: "bytes \<Rightarrow> pullSecretContent result" where
  "example_decode d =
     (if d = ''new'' then Inr [(''registry'', \<lparr>au_Auth = ''b'', au_Email = []\<rparr>)]
      else if d = ''merged'' then Inr [(''registry'', \<lparr>au_Auth = ''b'', au_Email = ''m@x''\<rparr>)]
      else Inr [(''registry'', \<lparr>au_Auth = ''a'', au_Email = ''m@x''\<rparr>)])"

definition example_ct :: ct_state where
  "example_ct =
     \<lparr>cts_status = zero_Summary, cts_api = example_api\<lparr>sa_secrets := [(''pull-secret'', [(dockerConfigJsonKey, ''old'')])]\<rparr>,
      cts_pullSecret = None\<rparr>"

theorem pull_secret_changes_witness:
  "cts_api (requestDataAndUpdateSecret (\<lambda>_. []) (\<lambda>_. Inl ErrTooLong) example_decode (\<lambda>_ _. Inr ''merged'') (\<lambda>_. Inr [])
     (12 * Hour) 9 example_ct) = cts_api example_ct"
proof -
  have "requestDataAndUpdateSecret (\<lambda>_. []) (\<lambda>_. Inl ErrTooLong) example_decode (\<lambda>_ _. Inr ''merged'') (\<lambda>_. Inr [])
     (12 * Hour) 9 example_ct = requestDataAndUpdateSecret (\<lambda>_. []) (\<lambda>_. Inl ErrTooLong) example_decode
     (\<lambda>_ _. Inr ''merged'') (\<lambda>_. Inr []) (12 * Hour) 9 example_ct" ..
  from pull_secret_changes [OF _ this] show ?thesis by auto
qed

lemma ct_reason:
  "0 \<le> sm_Count (cts_status c) \<Longrightarrow> sm_Reason (cts_status (ct_updateStatus now h m r e c)) = r"
  by (auto simp: ct_updateStatus_def UpdateStatus_def Let_def)

lemma check_required:
  assumes "cl_Total l = 1" and "cl_Secrets l = [secret]" and "get_secret ''pull-secret'' (cts_api c) = Inr ps"
    and "decode_ps secret = Inr new" and "decode_ps (secret_data_of ps) = Inr old"
    and "merge_patch (secret_data_of ps) secret = Inr d" and "sa_updateErr (cts_api c) ''pull-secret'' = None"
    and "0 \<le> sm_Count (cts_status c)"
  shows "let c' = checkCTListAndOptionallyUpdatePS decode_ps merge_patch now l c in
    if isUpdatedPullSecretContentSame old new
    then cts_api c' = cts_api c \<and> sm_Reason (cts_status c') = ''NoNewData''
    else cts_api c' = (cts_api c)\<lparr>sa_secrets :=
          map_put ''pull-secret'' (map_put dockerConfigJsonKey d ps) (sa_secrets (cts_api c))\<rparr> \<and>
      sm_Reason (cts_status c') = clusterTransferAvailableReason"
  using assms
  by (auto simp: checkCTListAndOptionallyUpdatePS_def isUpdateRequired_def updatePullSecret_def cached_secret_def
      ct_reason Let_def)

lemma ct_count: "0 \<le> sm_Count (cts_status c) \<Longrightarrow> 0 \<le> sm_Count (cts_status (ct_updateStatus now h m r e c))"
  by (auto simp: ct_updateStatus_def UpdateStatus_def Let_def)

text \<open>
  When the updates of the pull secret settle.  After an update, the same answer of OCM leaves the pull
  secret alone exactly when the merged data, decoded again, has every authentication of the transfer as the
  transfer has it.  The merge keeps a field that the transfer leaves out, such as an email address, so that then
  the pull secret is written again at every check.
\<close>

lemma transfer_settles:
  assumes "cl_Total l = 1" and "cl_Secrets l = [secret]" and "get_secret ''pull-secret'' (cts_api c) = Inr ps"
    and "decode_ps secret = Inr new" and "decode_ps (secret_data_of ps) = Inr old"
    and "\<not> isUpdatedPullSecretContentSame old new"
    and "merge_patch (secret_data_of ps) secret = Inr d" and "merge_patch d secret = Inr d" and "decode_ps d = Inr m"
    and "sa_updateErr (cts_api c) ''pull-secret'' = None" and "sa_getErr (cts_api c) ''pull-secret'' = None"
    and "0 \<le> sm_Count (cts_status c)"
    and "checkCTListAndOptionallyUpdatePS decode_ps merge_patch now l c = c'"
  shows "sm_Reason (cts_status c') = clusterTransferAvailableReason \<and>
    sm_Reason (cts_status (checkCTListAndOptionallyUpdatePS decode_ps merge_patch now' l c')) =
      (if isUpdatedPullSecretContentSame m new then ''NoNewData'' else clusterTransferAvailableReason)"
proof -
  let ?ps = "map_put dockerConfigJsonKey d ps"
  have "let k = checkCTListAndOptionallyUpdatePS decode_ps merge_patch now l c in
    if isUpdatedPullSecretContentSame old new
    then cts_api k = cts_api c \<and> sm_Reason (cts_status k) = ''NoNewData''
    else cts_api k = (cts_api c)\<lparr>sa_secrets := map_put ''pull-secret'' ?ps (sa_secrets (cts_api c))\<rparr> \<and>
      sm_Reason (cts_status k) = clusterTransferAvailableReason"
    by (rule check_required) (use assms in simp_all)
  with assms(6,13)
  have c': "cts_api c' = (cts_api c)\<lparr>sa_secrets := map_put ''pull-secret'' ?ps (sa_secrets (cts_api c))\<rparr>"
    "sm_Reason (cts_status c') = clusterTransferAvailableReason" by (simp_all add: Let_def)
  have ps: "get_secret ''pull-secret'' (cts_api c') = Inr ?ps" "secret_data_of ?ps = d"
    "sa_updateErr (cts_api c') ''pull-secret'' = None"
    using assms(10,11) by (simp_all add: get_secret_def c'(1) secret_data_of_def)
  have n: "0 \<le> sm_Count (cts_status c')"
    using assms(1-7,10,12,13)
    by (auto simp: checkCTListAndOptionallyUpdatePS_def isUpdateRequired_def updatePullSecret_def cached_secret_def
        Let_def intro!: ct_count)
  have "let k = checkCTListAndOptionallyUpdatePS decode_ps merge_patch now' l c' in
    if isUpdatedPullSecretContentSame m new
    then cts_api k = cts_api c' \<and> sm_Reason (cts_status k) = ''NoNewData''
    else cts_api k = (cts_api c')\<lparr>sa_secrets := map_put ''pull-secret'' (map_put dockerConfigJsonKey d ?ps) (sa_secrets (cts_api c'))\<rparr> \<and>
      sm_Reason (cts_status k) = clusterTransferAvailableReason"
    by (rule check_required) (use assms n ps in simp_all)
  with c'(2) show ?thesis
    by (auto simp: Let_def split: if_splits)
qed

end
