(* ===== verification/Conditional.thy ===== *)
theory Conditional
  imports Periodic ContainerLogs Ocm
begin

text \<open>
  The conditional gatherer: pkg/gatherers/conditional/conditional_gatherer.go, conditions.go, parsing.go,
  validation.go, gathering_functions.go, common.go, types.go and the gather_*.go files of the functions a rule can name.

  The remote configuration is downloaded, decoded, validated and otherwise replaced by the built-in one; its rules
  are evaluated against the caches of firing alerts and of the cluster version, and a satisfied rule contributes its
  gathering functions.  A gathering closure of the code is a value of \<open>cond_closure\<close>, which \<open>run_closure\<close> runs on
  the answers of the cluster (\<open>cond_world\<close>).  Arguments stand for the code that is not of the repository: the
  decoder of the downloaded document, the validator of the JSON schemas, the semantic versions, the encoder of the
  records and the API of the cluster.  The embedded file of the built-in configuration is an argument as well.
\<close>

section \<open>Data\<close>

type_synonym AlertLabels = "(string, string) gomap"
type_synonym GatheringFunctionName = string

abbreviation AlertIsFiring :: string where "AlertIsFiring \<equiv> ''alert_is_firing''"
abbreviation ClusterVersionMatches :: string where "ClusterVersionMatches \<equiv> ''cluster_version_matches''"

abbreviation InvalidReason :: string where "InvalidReason \<equiv> ''Invalid''"
abbreviation SucceededReason :: string where "SucceededReason \<equiv> ''Succeeded''"
abbreviation NotAvailableReason :: string where "NotAvailableReason \<equiv> ''NotAvailable''"

abbreviation GatherLogsOfNamespace :: string where "GatherLogsOfNamespace \<equiv> ''logs_of_namespace''"
abbreviation GatherImageStreamsOfNamespace :: string where "GatherImageStreamsOfNamespace \<equiv> ''image_streams_of_namespace''"
abbreviation GatherAPIRequestCounts :: string where
  "GatherAPIRequestCounts \<equiv> ''api_request_counts_of_resource_from_alert''"
abbreviation GatherContainersLogs :: string where "GatherContainersLogs \<equiv> ''containers_logs''"
abbreviation GatherPodDefinition :: string where "GatherPodDefinition \<equiv> ''pod_definition''"

record ConditionWithParams =
  cp_Type :: string
  cp_Alert :: "string option"
  cp_ClusterVersionMatches :: "string option"

record GatherLogsOfNamespaceParams =
  lnp_Namespace :: string
  lnp_TailLines :: int

record GatherContainersLogsParams =
  clp_AlertName :: string
  clp_Namespace :: string
  clp_Container :: string
  clp_TailLines :: int
  clp_Previous :: bool

datatype FunctionParams =
    LogsOfNamespaceParams GatherLogsOfNamespaceParams
  | ImageStreamsOfNamespaceParams string
  | APIRequestCountsParams string
  | ContainersLogsParams GatherContainersLogsParams
  | PodDefinitionParams string

text \<open>A rule as decoded, with the parameters of a function still any JSON value, and after \<open>parseGatheringFunctions\<close>.\<close>

record 'p GatheringRule =
  rule_Conditions :: "ConditionWithParams list"
  rule_GatheringFunctions :: "(GatheringFunctionName, 'p) gomap"

record 'p RemoteConfiguration =
  rc_Version :: string
  rc_ConditionalGatheringRules :: "'p GatheringRule list"
  rc_ContainerLogRequests :: "RawLogRequest list"

record GatheringRuleMetadata =
  rmd_Rule :: "FunctionParams GatheringRule"
  rmd_Errors :: "string list"
  rmd_WasTriggered :: bool

record GatheringRulesMetadata =
  gmd_Version :: string
  gmd_Rules :: "GatheringRuleMetadata list"
  gmd_Endpoint :: string

record cond_gatherer =
  cg_firingAlerts :: "(string, AlertLabels list) gomap option"
  cg_clusterVersion :: string
  cg_remoteConfigStatus :: RemoteConfigStatus

definition conditional_GetName :: string where "conditional_GetName = ''conditional''"

definition conditional_New :: cond_gatherer where
  "conditional_New =
     \<lparr>cg_firingAlerts = None, cg_clusterVersion = [],
      cg_remoteConfigStatus = \<lparr>rcs_Err = None, rcs_AvailableReason = [], rcs_ValidReason = [], rcs_ConfigData = None,
        rcs_ConfigAvailable = False, rcs_ConfigValid = False\<rparr>\<rparr>"

section \<open>Parameters of the functions\<close>

text \<open>
  \<open>encoding/json\<close> on a struct: a key matches a field up to case, the last match in the order of the keys counts, a
  \<open>null\<close> and an absent key leave the zero value, another type is an error; other keys are ignored.
\<close>

definition unmarshalTypeError :: go_error where "unmarshalTypeError = Errorf ''json: cannot unmarshal value into Go value''"

definition json_field :: "string \<Rightarrow> (string \<times> json) list \<Rightarrow> json" where
  "json_field name kvs =
     (case find_last (\<lambda>kv. lower (fst kv) = name \<and> snd kv \<noteq> JNull) (sort_by (\<lambda>x y. fst x < fst y) kvs) of
        Some kv \<Rightarrow> snd kv | None \<Rightarrow> JNull)"

definition json_string :: "json \<Rightarrow> string result" where
  "json_string j = (case j of JNull \<Rightarrow> Inr [] | JString s \<Rightarrow> Inr s | _ \<Rightarrow> Inl unmarshalTypeError)"

definition json_int64 :: "json \<Rightarrow> int result" where
  "json_int64 j =
     (case j of JNull \<Rightarrow> Inr 0
      | JNumber s \<Rightarrow> (case atoi s of Inl _ \<Rightarrow> Inl unmarshalTypeError | Inr n \<Rightarrow> Inr n)
      | _ \<Rightarrow> Inl unmarshalTypeError)"

definition json_bool :: "json \<Rightarrow> bool result" where
  "json_bool j = (case j of JNull \<Rightarrow> Inr False | JBool b \<Rightarrow> Inr b | _ \<Rightarrow> Inl unmarshalTypeError)"

definition json_struct :: "json \<Rightarrow> (string \<times> json) list result" where
  "json_struct j = (case j of JNull \<Rightarrow> Inr [] | JObject kvs \<Rightarrow> Inr kvs | _ \<Rightarrow> Inl unmarshalTypeError)"

definition bind_result :: "'a result \<Rightarrow> ('a \<Rightarrow> 'b result) \<Rightarrow> 'b result" where
  "bind_result r f = (case r of Inl e \<Rightarrow> Inl e | Inr x \<Rightarrow> f x)"

definition NewParams :: "GatheringFunctionName \<Rightarrow> json \<Rightarrow> FunctionParams result" where
  "NewParams name jsonParams =
     (if name = GatherLogsOfNamespace then
        bind_result (json_struct jsonParams) (\<lambda>kvs.
        bind_result (json_string (json_field ''namespace'' kvs)) (\<lambda>ns.
        bind_result (json_int64 (json_field ''tail_lines'' kvs)) (\<lambda>n.
          Inr (LogsOfNamespaceParams \<lparr>lnp_Namespace = ns, lnp_TailLines = n\<rparr>))))
      else if name = GatherImageStreamsOfNamespace then
        bind_result (json_struct jsonParams) (\<lambda>kvs.
        bind_result (json_string (json_field ''namespace'' kvs)) (\<lambda>ns. Inr (ImageStreamsOfNamespaceParams ns)))
      else if name = GatherAPIRequestCounts then
        bind_result (json_struct jsonParams) (\<lambda>kvs.
        bind_result (json_string (json_field ''alert_name'' kvs)) (\<lambda>a. Inr (APIRequestCountsParams a)))
      else if name = GatherContainersLogs then
        bind_result (json_struct jsonParams) (\<lambda>kvs.
        bind_result (json_string (json_field ''alert_name'' kvs)) (\<lambda>a.
        bind_result (json_string (json_field ''namespace'' kvs)) (\<lambda>ns.
        bind_result (json_string (json_field ''container'' kvs)) (\<lambda>c.
        bind_result (json_int64 (json_field ''tail_lines'' kvs)) (\<lambda>n.
        bind_result (json_bool (json_field ''previous'' kvs)) (\<lambda>p.
          Inr (ContainersLogsParams \<lparr>clp_AlertName = a, clp_Namespace = ns, clp_Container = c, clp_TailLines = n,
            clp_Previous = p\<rparr>)))))))
      else if name = GatherPodDefinition then
        bind_result (json_struct jsonParams) (\<lambda>kvs.
        bind_result (json_string (json_field ''alert_name'' kvs)) (\<lambda>a. Inr (PodDefinitionParams a)))
      else Inl (Errorf (''unable to create params for conditional.GatheringFunctionName: '' @ name)))"

fun parseGatheringFunctions ::
  "(GatheringFunctionName, json) gomap \<Rightarrow> (GatheringFunctionName, FunctionParams) gomap result" where
  "parseGatheringFunctions [] = Inr []"
| "parseGatheringFunctions ((funcName, funcParams) # rest) =
     (case NewParams funcName funcParams of
        Inl err \<Rightarrow> Inl (Errorf (error_text err))
      | Inr p \<Rightarrow> map_sum id ((#) (funcName, p)) (parseGatheringFunctions rest))"

definition parse_rule :: "json GatheringRule \<Rightarrow> FunctionParams GatheringRule option" where
  "parse_rule r =
     (case parseGatheringFunctions (rule_GatheringFunctions r) of
        Inl err \<Rightarrow> None
      | Inr fs \<Rightarrow> Some \<lparr>rule_Conditions = rule_Conditions r, rule_GatheringFunctions = fs\<rparr>)"

definition parseRemoteConfiguration ::
  "(bytes \<Rightarrow> json RemoteConfiguration result) \<Rightarrow> bytes \<Rightarrow> FunctionParams RemoteConfiguration result" where
  "parseRemoteConfiguration decode data =
     (case decode data of
        Inl err \<Rightarrow> Inl err
      | Inr rc \<Rightarrow>
          Inr \<lparr>rc_Version = rc_Version rc,
               rc_ConditionalGatheringRules = List.map_filter parse_rule (rc_ConditionalGatheringRules rc),
               rc_ContainerLogRequests = rc_ContainerLogRequests rc\<rparr>)"

section \<open>Validation\<close>

text \<open>
  \<open>gojsonschema\<close> with the embedded schemas: an error of the library, or the descriptions of the violations.
\<close>

record schemas =
  sch_rules :: "FunctionParams GatheringRule list \<Rightarrow> string list result"
  sch_logs :: "RawLogRequest list \<Rightarrow> string list result"

definition validationErrors_Less :: "go_error \<Rightarrow> go_error \<Rightarrow> bool" where
  "validationErrors_Less e e' = (error_text e < error_text e')"

definition schema_errors :: "string list result \<Rightarrow> go_error list" where
  "schema_errors res =
     (case res of
        Inl err \<Rightarrow> [err]
      | Inr violations \<Rightarrow> sort_by validationErrors_Less (map Errorf violations))"

definition validateGatheringRules :: "schemas \<Rightarrow> FunctionParams GatheringRule list \<Rightarrow> go_error list" where
  "validateGatheringRules sch rules =
     (if length rules = 0 then [Errorf ''there are no conditional rules''] else schema_errors (sch_rules sch rules))"

definition validateContainerLogRequests :: "schemas \<Rightarrow> RawLogRequest list \<Rightarrow> go_error list" where
  "validateContainerLogRequests sch requests = schema_errors (sch_logs sch requests)"

definition validateRemoteConfig :: "schemas \<Rightarrow> FunctionParams RemoteConfiguration \<Rightarrow> go_error list" where
  "validateRemoteConfig sch rc =
     validateGatheringRules sch (rc_ConditionalGatheringRules rc) @
     validateContainerLogRequests sch (rc_ContainerLogRequests rc)"

section \<open>Conditions\<close>

record semver_Version =
  sv_Major :: nat
  sv_Minor :: nat
  sv_Patch :: nat
  sv_Pre :: "string list"
  sv_Build :: "string list"

record semver =
  sv_Parse :: "string \<Rightarrow> semver_Version result"
  sv_ParseRange :: "string \<Rightarrow> (semver_Version \<Rightarrow> bool) result"

definition isAlertFiring :: "cond_gatherer \<Rightarrow> string \<Rightarrow> bool \<times> go_error option" where
  "isAlertFiring g alertName =
     (case cg_firingAlerts g of
        None \<Rightarrow> (False, Some (Errorf ''alerts cache is missing''))
      | Some alerts \<Rightarrow> (map_has alerts alertName, None))"

definition doesClusterVersionMatch :: "semver \<Rightarrow> cond_gatherer \<Rightarrow> string \<Rightarrow> bool \<times> go_error option" where
  "doesClusterVersionMatch sv g expectedVersionExpression =
     (if length (cg_clusterVersion g) = 0 then (False, Some (Errorf ''cluster version is missing''))
      else case sv_Parse sv (cg_clusterVersion g) of
             Inl err \<Rightarrow> (False, Some err)
           | Inr clusterVersion \<Rightarrow>
               let shortClusterVersion = clusterVersion\<lparr>sv_Pre := [], sv_Build := []\<rparr>
               in case sv_ParseRange sv expectedVersionExpression of
                    Inl err \<Rightarrow> (False, Some err)
                  | Inr expectedRange \<Rightarrow> (expectedRange clusterVersion \<or> expectedRange shortClusterVersion, None))"

definition checkAlertIsFiring :: "cond_gatherer \<Rightarrow> string option \<Rightarrow> bool \<times> go_error option" where
  "checkAlertIsFiring g alert =
     (case alert of
        None \<Rightarrow> (False, Some (Errorf ''alert field should not be nil''))
      | Some name \<Rightarrow> isAlertFiring g name)"

definition checkClusterVersionMatches :: "semver \<Rightarrow> cond_gatherer \<Rightarrow> string option \<Rightarrow> bool \<times> go_error option" where
  "checkClusterVersionMatches sv g clusterVersion =
     (case clusterVersion of
        None \<Rightarrow> (False, Some (Errorf ''cluster_version_matches field should not be nil''))
      | Some v \<Rightarrow> doesClusterVersionMatch sv g v)"

definition check_condition :: "semver \<Rightarrow> cond_gatherer \<Rightarrow> ConditionWithParams \<Rightarrow> bool \<times> go_error option" where
  "check_condition sv g c =
     (if cp_Type c = AlertIsFiring then checkAlertIsFiring g (cp_Alert c)
      else if cp_Type c = ClusterVersionMatches then checkClusterVersionMatches sv g (cp_ClusterVersionMatches c)
      else (False, Some (Errorf (''unknown condition type: '' @ cp_Type c))))"

fun areAllConditionsSatisfied :: "semver \<Rightarrow> cond_gatherer \<Rightarrow> ConditionWithParams list \<Rightarrow> bool \<times> go_error option" where
  "areAllConditionsSatisfied sv g [] = (True, None)"
| "areAllConditionsSatisfied sv g (c # cs) =
     (case check_condition sv g c of
        (ok, err) \<Rightarrow> if \<not> ok \<or> err \<noteq> None then (False, err) else areAllConditionsSatisfied sv g cs)"

section \<open>The caches\<close>

definition cache_alert :: "AlertLabels \<Rightarrow> (string, AlertLabels list) gomap \<Rightarrow> (string, AlertLabels list) gomap" where
  "cache_alert labels m =
     (case (map_get labels ''alertname'', map_get labels ''alertstate'') of
        (Some alertName, Some alertState) \<Rightarrow>
          if alertState = ''firing''
          then map_put alertName ((case map_get m alertName of None \<Rightarrow> [] | Some ls \<Rightarrow> ls) @ [labels]) m else m
      | _ \<Rightarrow> m)"

text \<open>\<open>answer\<close> is what the query and its decoding give: the labels of the results.\<close>

definition updateAlertsCache :: "AlertLabels list result \<Rightarrow> cond_gatherer \<Rightarrow> cond_gatherer \<times> go_error option" where
  "updateAlertsCache answer g =
     (case answer of
        Inl err \<Rightarrow> (g\<lparr>cg_firingAlerts := Some []\<rparr>, Some err)
      | Inr results \<Rightarrow> (g\<lparr>cg_firingAlerts := Some (fold cache_alert results [])\<rparr>, None))"

definition updateVersionCache :: "string result \<Rightarrow> cond_gatherer \<Rightarrow> cond_gatherer \<times> go_error option" where
  "updateVersionCache answer g =
     (case answer of
        Inl err \<Rightarrow> (g, Some err)
      | Inr v \<Rightarrow> (g\<lparr>cg_clusterVersion := v\<rparr>, None))"

record cache_env =
  ca_hasMetrics :: bool
  ca_metricsClient :: "go_error option"
  ca_alerts :: "AlertLabels list result"
  ca_configClient :: "go_error option"
  ca_version :: "string result"

definition update_alerts :: "cache_env \<Rightarrow> cond_gatherer \<Rightarrow> cond_gatherer" where
  "update_alerts e g =
     (case ca_metricsClient e of
        Some err \<Rightarrow> g
      | None \<Rightarrow>
          (case updateAlertsCache (ca_alerts e) g of
             (g, None) \<Rightarrow> g
           | (g, Some err) \<Rightarrow> g\<lparr>cg_firingAlerts := None\<rparr>))"

definition update_version :: "cache_env \<Rightarrow> cond_gatherer \<Rightarrow> cond_gatherer" where
  "update_version e g =
     (case ca_configClient e of
        Some err \<Rightarrow> g
      | None \<Rightarrow>
          (case updateVersionCache (ca_version e) g of
             (g, None) \<Rightarrow> g
           | (g, Some err) \<Rightarrow> g\<lparr>cg_clusterVersion := []\<rparr>))"

definition updateCache :: "cache_env \<Rightarrow> cond_gatherer \<Rightarrow> cond_gatherer" where
  "updateCache e g = (if ca_hasMetrics e then update_version e (update_alerts e g) else g)"

section \<open>Download\<close>

record config_answer =
  an_StatusCode :: int
  an_Status :: string
  an_Body :: "bytes result"

text \<open>
  \<open>de_configurator\<close>: none, one whose configuration is nil, or the endpoint of its configuration.  \<open>de_client\<close>: none, or what
  the requests are answered in turn; \<open>de_cancelled k\<close> is the error of the context before the request \<open>k\<close>.
\<close>

record download_env =
  de_configurator :: "string option option"
  de_client :: "(nat \<Rightarrow> config_answer result) option"
  de_releaseVersion :: "string option"
  de_cancelled :: "nat \<Rightarrow> go_error option"

definition getRemoteConfigEndpoint :: "string option option \<Rightarrow> string result option" where
  "getRemoteConfigEndpoint cfgr =
     map_option (\<lambda>config. case config of None \<Rightarrow> Inl (Errorf ''config is nil'') | Some endpoint \<Rightarrow> Inr endpoint) cfgr"

definition config_backoff :: wait_Backoff where
  "config_backoff = \<lparr>wb_Duration = 30 * Second, wb_Factor = 2, wb_Steps = 3, wb_Cap = 3 * Minute\<rparr>"

text \<open>
  \<open>wait.ExponentialBackoffWithContext\<close> counts on its copy \<open>lo\<close> of the backoff; the argument of the log message takes a
  step of the original \<open>bo\<close>.  The result has the number of requests.
\<close>

definition waitTimeout :: go_error where "waitTimeout = Errorf ''timed out waiting for the condition''"

function config_loop ::
  "(nat \<Rightarrow> go_error option) \<Rightarrow> (nat \<Rightarrow> config_answer result) \<Rightarrow> string \<Rightarrow> nat \<Rightarrow> wait_Backoff \<Rightarrow> wait_Backoff \<Rightarrow>
   bytes result \<times> nat" where
  "config_loop cancelled client url k lo bo =
     (if wb_Steps lo = 0 then (Inl waitTimeout, k)
      else case cancelled k of
        Some err \<Rightarrow> (Inl err, k)
      | None \<Rightarrow>
          (case client k of
             Inl err \<Rightarrow> (Inl err, Suc k)
           | Inr resp \<Rightarrow>
               if an_StatusCode resp \<noteq> 200 then
                 (let bo = wait_Step bo
                  in if 1 < wb_Steps bo then
                       (if wb_Steps lo = 1 then (Inl waitTimeout, Suc k)
                        else config_loop cancelled client url (Suc k) (wait_Step lo) bo)
                     else (Inl (HttpError (''received HTTP '' @ an_Status resp @ '' from '' @ url @
                         ''. Using the default built-in configuration'') (an_StatusCode resp)), Suc k))
               else case an_Body resp of
                      Inr data \<Rightarrow> (Inr data, Suc k)
                    | Inl _ \<Rightarrow>
                        if wb_Steps lo = 1 then (Inl waitTimeout, Suc k)
                        else config_loop cancelled client url (Suc k) (wait_Step lo) bo))"
  by pat_completeness auto

termination
  by (relation "measure (\<lambda>(cancelled, client, url, k, lo, bo). wb_Steps lo)") (auto simp: wait_Step_def Let_def)

declare config_loop.simps [simp del]

definition getRemoteConfiguration :: "download_env \<Rightarrow> bytes result \<times> nat" where
  "getRemoteConfiguration e =
     (case getRemoteConfigEndpoint (de_configurator e) of
        None \<Rightarrow> (Inl (Errorf ''no configurator was provided''), 0)
      | Some endpoint \<Rightarrow>
          (case de_client e of
             None \<Rightarrow> (Inl (Errorf ''gathering rules service client is nil''), 0)
           | Some client \<Rightarrow>
               (case endpoint of
                  Inl err \<Rightarrow> (Inl err, 0)
                | Inr endpoint \<Rightarrow>
                    (case de_releaseVersion e of
                       None \<Rightarrow> (Inl (Errorf ''environmental variable RELEASE_VERSION is not set or has empty value''), 0)
                     | Some ocpVersion \<Rightarrow>
                         if ocpVersion = [] then
                           (Inl (Errorf ''environmental variable RELEASE_VERSION is not set or has empty value''), 0)
                         else config_loop (de_cancelled e) client (Sprintf endpoint [(''string'', ocpVersion)]) 0
                                config_backoff config_backoff))))"

section \<open>Closures\<close>

datatype cond_closure =
    RunLogsOfNamespace string int
  | RunImageStreamsOfNamespace string
  | RunAPIRequestCounts string
  | RunContainersLogs GatherContainersLogsParams
  | RunPodDefinition string
  | RunRapidContainerLogs "RawLogRequest list"
  | RunRules GatheringRulesMetadata
  | RunRemoteConfiguration "FunctionParams RemoteConfiguration"

definition unexpectedType :: go_error where "unexpectedType = Errorf ''unexpected type in paramsInterface''"

definition BuildGatherLogsOfNamespace :: "FunctionParams \<Rightarrow> cond_closure result" where
  "BuildGatherLogsOfNamespace p =
     (case p of LogsOfNamespaceParams q \<Rightarrow> Inr (RunLogsOfNamespace (lnp_Namespace q) (lnp_TailLines q))
      | _ \<Rightarrow> Inl unexpectedType)"

definition BuildGatherImageStreamsOfNamespace :: "FunctionParams \<Rightarrow> cond_closure result" where
  "BuildGatherImageStreamsOfNamespace p =
     (case p of ImageStreamsOfNamespaceParams ns \<Rightarrow> Inr (RunImageStreamsOfNamespace ns) | _ \<Rightarrow> Inl unexpectedType)"

definition BuildGatherAPIRequestCounts :: "FunctionParams \<Rightarrow> cond_closure result" where
  "BuildGatherAPIRequestCounts p =
     (case p of APIRequestCountsParams a \<Rightarrow> Inr (RunAPIRequestCounts a) | _ \<Rightarrow> Inl unexpectedType)"

definition BuildLegacyGatherContainersLogs :: "FunctionParams \<Rightarrow> cond_closure result" where
  "BuildLegacyGatherContainersLogs p =
     (case p of ContainersLogsParams q \<Rightarrow> Inr (RunContainersLogs q) | _ \<Rightarrow> Inl unexpectedType)"

definition BuildGatherPodDefinition :: "FunctionParams \<Rightarrow> cond_closure result" where
  "BuildGatherPodDefinition p =
     (case p of PodDefinitionParams a \<Rightarrow> Inr (RunPodDefinition a) | _ \<Rightarrow> Inl unexpectedType)"

definition gatheringFunctionBuilders :: "(GatheringFunctionName, FunctionParams \<Rightarrow> cond_closure result) gomap" where
  "gatheringFunctionBuilders =
     [(GatherLogsOfNamespace, BuildGatherLogsOfNamespace),
      (GatherImageStreamsOfNamespace, BuildGatherImageStreamsOfNamespace),
      (GatherAPIRequestCounts, BuildGatherAPIRequestCounts),
      (GatherContainersLogs, BuildLegacyGatherContainersLogs),
      (GatherPodDefinition, BuildGatherPodDefinition)]"

text \<open>
  \<open>utils.StructToMap\<close> on the parameters, with the values printed as \<open>fmt\<close> prints them: a field tagged
  \<open>omitempty\<close> is left out when it is empty.  The number of lines goes through a \<open>float64\<close>, which is exact up to
  \<open>2 ^ 53\<close>.
\<close>

definition StructToMap :: "FunctionParams \<Rightarrow> (string, string) gomap" where
  "StructToMap p =
     (case p of
        LogsOfNamespaceParams q \<Rightarrow> [(''namespace'', lnp_Namespace q), (''tail_lines'', itoa (lnp_TailLines q))]
      | ImageStreamsOfNamespaceParams ns \<Rightarrow> [(''namespace'', ns)]
      | APIRequestCountsParams a \<Rightarrow> [(''alert_name'', a)]
      | ContainersLogsParams q \<Rightarrow>
          [(''alert_name'', clp_AlertName q)] @ (if clp_Namespace q = [] then [] else [(''namespace'', clp_Namespace q)]) @
          (if clp_Container q = [] then [] else [(''container'', clp_Container q)]) @
          [(''tail_lines'', itoa (clp_TailLines q))] @ (if clp_Previous q then [(''previous'', ''true'')] else [])
      | PodDefinitionParams a \<Rightarrow> [(''alert_name'', a)])"

definition getConditionalGatheringFunctionName :: "string \<Rightarrow> FunctionParams \<Rightarrow> string" where
  "getConditionalGatheringFunctionName funcName p =
     (let gatherParams = StructToMap p;
          funcName = (if length gatherParams > 0 then funcName @ ''/'' else funcName);
          params = sort_by (\<lambda>x y. fst x < fst y) (filter (\<lambda>kv. length (snd kv) > 0) gatherParams)
      in trim_suffix (funcName @ concat (map (\<lambda>(k, v). k @ ''='' @ v @ '','') params)) '','')"

fun createGatheringClosures ::
  "(GatheringFunctionName, FunctionParams) gomap \<Rightarrow> (string, cond_closure) gomap \<Rightarrow> go_error list \<Rightarrow>
   (string, cond_closure) gomap \<times> go_error list" where
  "createGatheringClosures [] closures errs = (closures, errs)"
| "createGatheringClosures ((function, params) # rest) closures errs =
     (case map_get gatheringFunctionBuilders function of
        None \<Rightarrow> createGatheringClosures rest closures (errs @ [Errorf (''unknown action type: '' @ function)])
      | Some builderFunc \<Rightarrow>
          (case builderFunc params of
             Inl err \<Rightarrow> createGatheringClosures rest closures (errs @ [err])
           | Inr closure \<Rightarrow>
               createGatheringClosures rest
                 (map_put (getConditionalGatheringFunctionName function params) closure closures) errs))"

definition rule_step ::
  "semver \<Rightarrow> cond_gatherer \<Rightarrow> FunctionParams GatheringRule \<Rightarrow>
   (string, cond_closure) gomap \<times> GatheringRuleMetadata list \<Rightarrow>
   (string, cond_closure) gomap \<times> GatheringRuleMetadata list" where
  "rule_step sv g rule st =
     (let (gatheringFunctions, rules) = st;
          (ok, err) = areAllConditionsSatisfied sv g (rule_Conditions rule);
          errors = (case err of None \<Rightarrow> [] | Some e \<Rightarrow> [error_text e]);
          (functions, errs) = (if ok then createGatheringClosures (rule_GatheringFunctions rule) [] [] else ([], []))
      in (fold (\<lambda>(k, v). map_put k v) functions gatheringFunctions,
          rules @ [\<lparr>rmd_Rule = rule, rmd_Errors = errors @ map error_text errs, rmd_WasTriggered = ok\<rparr>]))"

text \<open>A configurator that is nil is dereferenced.\<close>

definition createConditionalGatheringFunctions ::
  "semver \<Rightarrow> string option option \<Rightarrow> cache_env \<Rightarrow> FunctionParams RemoteConfiguration \<Rightarrow> cond_gatherer \<Rightarrow>
   ((string, cond_closure) gomap \<times> cond_gatherer) option" where
  "createConditionalGatheringFunctions sv cfgr e rc g =
     (let g = updateCache e g
      in case getRemoteConfigEndpoint cfgr of
           None \<Rightarrow> None
         | Some endpoint \<Rightarrow>
             let (gatheringFunctions, rules) = fold (rule_step sv g) (rc_ConditionalGatheringRules rc) ([], []);
                 metadata = \<lparr>gmd_Version = rc_Version rc, gmd_Rules = rules,
                   gmd_Endpoint = (case endpoint of Inl _ \<Rightarrow> [] | Inr s \<Rightarrow> s)\<rparr>
             in Some (map_put ''conditional_gatherer_rules'' (RunRules metadata) gatheringFunctions, g))"

definition createAllGatheringFunctions ::
  "semver \<Rightarrow> string option option \<Rightarrow> cache_env \<Rightarrow> FunctionParams RemoteConfiguration \<Rightarrow> cond_gatherer \<Rightarrow>
   ((string, cond_closure) gomap \<times> cond_gatherer) option" where
  "createAllGatheringFunctions sv cfgr e rc g =
     map_option (\<lambda>(gatheringClosures, g).
       (map_put ''remote_configuration'' (RunRemoteConfiguration rc)
          (map_put ''rapid_container_logs'' (RunRapidContainerLogs (rc_ContainerLogRequests rc)) gatheringClosures), g))
       (createConditionalGatheringFunctions sv cfgr e rc g)"

record cond_env =
  cv_download :: download_env
  cv_cache :: cache_env
  cv_semver :: semver
  cv_schemas :: schemas
  cv_decode :: "bytes \<Rightarrow> json RemoteConfiguration result"
  cv_default :: bytes

definition useBuiltInRemoteConfiguration ::
  "cond_env \<Rightarrow> cond_gatherer \<Rightarrow> ((string, cond_closure) gomap result \<times> cond_gatherer) option" where
  "useBuiltInRemoteConfiguration e g =
     (case parseRemoteConfiguration (cv_decode e) (cv_default e) of
        Inl err \<Rightarrow> Some (Inl err, g)
      | Inr rc \<Rightarrow> map_option (\<lambda>(fs, g). (Inr fs, g))
          (createAllGatheringFunctions (cv_semver e) (de_configurator (cv_download e)) (cv_cache e) rc g))"

definition availableReason :: "go_error \<Rightarrow> string" where
  "availableReason err = (case err of HttpError _ code \<Rightarrow> ''HttpStatus'' @ itoa code | _ \<Rightarrow> NotAvailableReason)"

definition conditional_GetGatheringFunctions ::
  "cond_env \<Rightarrow> cond_gatherer \<Rightarrow> ((string, cond_closure) gomap result \<times> cond_gatherer) option" where
  "conditional_GetGatheringFunctions e g =
     (let status = cg_remoteConfigStatus g
      in case fst (getRemoteConfiguration (cv_download e)) of
           Inl err \<Rightarrow>
             useBuiltInRemoteConfiguration e (g\<lparr>cg_remoteConfigStatus := status\<lparr>rcs_ConfigAvailable := False,
               rcs_Err := Some err, rcs_ConfigData := Some (cv_default e), rcs_ValidReason := ''NoValidation'',
               rcs_AvailableReason := availableReason err\<rparr>\<rparr>)
         | Inr data \<Rightarrow>
             let status = status\<lparr>rcs_ConfigAvailable := True, rcs_AvailableReason := SucceededReason\<rparr>
             in case parseRemoteConfiguration (cv_decode e) data of
                  Inl err \<Rightarrow>
                    useBuiltInRemoteConfiguration e (g\<lparr>cg_remoteConfigStatus := status\<lparr>rcs_ConfigValid := False,
                      rcs_Err := Some err, rcs_ValidReason := InvalidReason, rcs_ConfigData := Some (cv_default e)\<rparr>\<rparr>)
                | Inr rc \<Rightarrow>
                    let errs = validateRemoteConfig (cv_schemas e) rc
                    in if length errs > 0 then
                         useBuiltInRemoteConfiguration e (g\<lparr>cg_remoteConfigStatus := status\<lparr>
                           rcs_ConfigData := Some (cv_default e), rcs_ConfigValid := False, rcs_Err := UniqueErrors errs,
                           rcs_ValidReason := InvalidReason\<rparr>\<rparr>)
                       else
                         map_option (\<lambda>(fs, g). (Inr fs, g))
                           (createAllGatheringFunctions (cv_semver e) (de_configurator (cv_download e)) (cv_cache e) rc
                             (g\<lparr>cg_remoteConfigStatus := status\<lparr>rcs_ConfigValid := True, rcs_ValidReason := SucceededReason,
                               rcs_ConfigData := Some data\<rparr>\<rparr>)))"

section \<open>Running the closures\<close>

definition getAlertPodName :: "AlertLabels \<Rightarrow> string result" where
  "getAlertPodName labels =
     (case map_get labels ''pod'' of
        None \<Rightarrow> Inl (Errorf (''alert is missing '' @ [CHR 0x27] @ ''pod'' @ [CHR 0x27] @ '' label'')) | Some name \<Rightarrow> Inr name)"

definition getAlertPodNamespace :: "AlertLabels \<Rightarrow> string result" where
  "getAlertPodNamespace labels =
     (case map_get labels ''namespace'' of
        None \<Rightarrow> Inl (Errorf (''alert is missing '' @ [CHR 0x27] @ ''namespace'' @ [CHR 0x27] @ '' label''))
      | Some namespace \<Rightarrow> Inr namespace)"

text \<open>The value read for a missing label is empty, so the error is never returned.\<close>

definition getAlertPodContainer :: "AlertLabels \<Rightarrow> string result" where
  "getAlertPodContainer labels =
     (let container = (case map_get labels ''container'' of None \<Rightarrow> [] | Some c \<Rightarrow> c)
      in if map_get labels ''container'' = None \<and> length container > 0
         then Inl (Errorf (''alert is missing '' @ [CHR 0x27] @ ''container'' @ [CHR 0x27] @ '' label'')) else Inr container)"

record APIRequestCount =
  arc_ResourceName :: string
  arc_RemovedInRelease :: string
  arc_TotalRequestCount :: int
  arc_LastDayRequestCount :: int

text \<open>An item of the listed API request counts, with what the lookups of its nested fields give.\<close>

record request_count_item =
  rci_Name :: string
  rci_requestCount :: "int \<times> bool \<times> go_error option"
  rci_currentHour :: "int \<times> bool \<times> go_error option"
  rci_removedInRelease :: "string \<times> bool \<times> go_error option"

text \<open>Of a tag, the name its source refers to, if it has a source; of the status, the references of every tag.\<close>

record ImageStream =
  ist_Namespace :: string
  ist_Name :: string
  ist_SpecDockerImageRepository :: string
  ist_SpecTags :: "string option list"
  ist_StatusDockerImageRepository :: string
  ist_PublicDockerImageRepository :: string
  ist_StatusTags :: "string list list"

record pod_definition =
  pdf_Namespace :: string
  pdf_Name :: string
  pdf_Env :: "env_var list list"

datatype cond_item =
    RulesItem GatheringRulesMetadata
  | RemoteConfigurationItem "FunctionParams RemoteConfiguration"
  | RequestCountsItem "APIRequestCount list"
  | ImageStreamItem ImageStream
  | PodItem pod_definition

record cond_world =
  cw_client :: "go_error option"
  cw_listPods :: "string \<Rightarrow> string \<Rightarrow> string \<Rightarrow> log_pod list result"
  cw_logs :: log_source
  cw_compile :: compiler
  cw_arrival :: "(Record option \<times> go_error option) list \<Rightarrow> (Record option \<times> go_error option) list"
  cw_imageStreams :: "string \<Rightarrow> ImageStream list result"
  cw_requestCounts :: "request_count_item list result"
  cw_getPod :: "string \<Rightarrow> string \<Rightarrow> pod_definition result"
  cw_encode :: "cond_item \<Rightarrow> bytes option result"

definition json_record :: "cond_world \<Rightarrow> string \<Rightarrow> bool \<Rightarrow> cond_item \<Rightarrow> Record" where
  "json_record w name alwaysStored item =
     \<lparr>rec_Name = name, rec_Captured = 0,
      rec_Item = Some \<lparr>item_Marshal = cw_encode w item, item_GetExtension = ''json''\<rparr>, rec_AlwaysStored = alwaysStored\<rparr>"

definition with_client :: "cond_world \<Rightarrow> closure_run \<Rightarrow> closure_run" where
  "with_client w run = (case cw_client w of Some err \<Rightarrow> Returned [] [err] | None \<Rightarrow> run)"

definition gatherLogsOfNamespace :: "cond_world \<Rightarrow> string \<Rightarrow> int \<Rightarrow> closure_run" where
  "gatherLogsOfNamespace w namespace tailLines =
     with_client w
       (case CollectLogsFromContainers (cw_compile w) (cw_listPods w) (cw_logs w)
               \<lparr>lcf_Namespace = namespace, lcf_LabelSelector = [], lcf_FieldSelector = [], lcf_ContainerNameRegexFilter = [],
                lcf_MaxNamespaceContainers = 64\<rparr>
               \<lparr>lmf_MessagesToSearch = [], lmf_IsRegexSearch = False, lmf_SinceSeconds = 0, lmf_LimitBytes = 0,
                lmf_TailLines = tailLines, lmf_Previous = False\<rparr>
               (Some (\<lambda>namespace podName containerName.
                  conditional_GetName @ ''/namespaces/'' @ namespace @ ''/pods/'' @ podName @ ''/containers/'' @ containerName @
                  ''/logs/last-'' @ itoa tailLines @ ''-lines.log'')) of
          None \<Rightarrow> Panicked ''regexp: Compile''
        | Some (records, Some err) \<Rightarrow> Returned [] [err]
        | Some (records, None) \<Rightarrow> Returned records [])"

text \<open>
  \<open>anonymizeImageStream\<close> gets the structure by value: what it returns is a new structure, but the slices of the tags
  are shared with the original, whose tags change as well.  A tag without a source is dereferenced.
\<close>

definition anonymizeImageStream :: "ImageStream \<Rightarrow> ImageStream option" where
  "anonymizeImageStream s =
     (if None \<in> set (ist_SpecTags s) then None
      else Some (s\<lparr>ist_SpecDockerImageRepository := anonymize_String (ist_SpecDockerImageRepository s),
             ist_SpecTags := map (map_option anonymize_String) (ist_SpecTags s),
             ist_StatusDockerImageRepository := anonymize_String (ist_StatusDockerImageRepository s),
             ist_PublicDockerImageRepository := anonymize_String (ist_PublicDockerImageRepository s),
             ist_StatusTags := map (map anonymize_String) (ist_StatusTags s)\<rparr>))"

definition shared_slices :: "ImageStream \<Rightarrow> ImageStream \<Rightarrow> ImageStream" where
  "shared_slices original changed =
     original\<lparr>ist_SpecTags := ist_SpecTags changed, ist_StatusTags := ist_StatusTags changed\<rparr>"

fun image_stream_records :: "cond_world \<Rightarrow> ImageStream list \<Rightarrow> Record list option" where
  "image_stream_records w [] = Some []"
| "image_stream_records w (s # rest) =
     (case anonymizeImageStream s of
        None \<Rightarrow> None
      | Some imageStream \<Rightarrow>
          map_option ((#) (json_record w (conditional_GetName @ ''/namespaces/'' @ ist_Namespace imageStream @
              ''/imagestreams/'' @ ist_Name imageStream) False (ImageStreamItem (shared_slices s imageStream))))
            (image_stream_records w rest))"

definition gatherImageStreamsOfNamespace :: "cond_world \<Rightarrow> string \<Rightarrow> closure_run" where
  "gatherImageStreamsOfNamespace w namespace =
     with_client w
       (case cw_imageStreams w namespace of
          Inl err \<Rightarrow> Returned [] [err]
        | Inr items \<Rightarrow>
            (case image_stream_records w items of
               None \<Rightarrow> Panicked ''invalid memory address or nil pointer dereference''
             | Some records \<Rightarrow> Returned records []))"

definition label0 :: "AlertLabels \<Rightarrow> string \<Rightarrow> string" where
  "label0 labels k = (case map_get labels k of None \<Rightarrow> [] | Some v \<Rightarrow> v)"

definition alert_instances :: "cond_gatherer \<Rightarrow> string \<Rightarrow> AlertLabels list option" where
  "alert_instances g alertName = (case cg_firingAlerts g of None \<Rightarrow> None | Some m \<Rightarrow> map_get m alertName)"

definition nested_or :: "'v \<Rightarrow> ('v \<times> bool \<times> go_error option) \<Rightarrow> string list \<Rightarrow> 'v \<times> go_error list" where
  "nested_or z res fs = (case nestedWrapper res fs of Inl err \<Rightarrow> (z, [err]) | Inr v \<Rightarrow> (v, []))"

definition request_count :: "request_count_item \<Rightarrow> APIRequestCount \<times> go_error list" where
  "request_count it =
     (let (totalReqCount, e1) = nested_or 0 (rci_requestCount it) [''status'', ''requestCount''];
          (lastDayReqCount, e2) = nested_or 0 (rci_currentHour it) [''status'', ''currentHour'', ''requestCount''];
          (removedInRel, e3) = nested_or [] (rci_removedInRelease it) [''status'', ''removedInRelease'']
      in (\<lparr>arc_ResourceName = rci_Name it, arc_RemovedInRelease = removedInRel, arc_TotalRequestCount = totalReqCount,
           arc_LastDayRequestCount = lastDayReqCount\<rparr>, e1 @ e2 @ e3))"

definition gatherAPIRequestCounts :: "cond_world \<Rightarrow> cond_gatherer \<Rightarrow> string \<Rightarrow> closure_run" where
  "gatherAPIRequestCounts w g alertName =
     with_client w
       (let resources = map (\<lambda>labels. label0 labels ''resource'' @ ''.'' @ label0 labels ''version'' @ ''.'' @ label0 labels ''group'')
              (case alert_instances g alertName of None \<Rightarrow> [] | Some ls \<Rightarrow> ls)
        in case cw_requestCounts w of
             Inl err \<Rightarrow> if isNotFound err then Returned [] [] else Returned [] [err]
           | Inr items \<Rightarrow>
               let counts = map request_count (filter (\<lambda>it. rci_Name it \<in> set resources) items)
               in Returned [json_record w (conditional_GetName @ ''/alerts/'' @ alertName @ ''/api_request_counts'') False
                     (RequestCountsItem (map fst counts))] (concat (map snd counts)))"

definition not_firing :: "string \<Rightarrow> go_error" where
  "not_firing alertName = Errorf (''conditional gather triggered, but specified alert '' @ [CHR 0x22] @ alertName @ [CHR 0x22] @
     '' is not firing'')"

definition log_dir_name :: "GatherContainersLogsParams \<Rightarrow> string \<Rightarrow> string \<Rightarrow> string \<Rightarrow> string" where
  "log_dir_name params namespace podName containerName =
     conditional_GetName @ ''/namespaces/'' @ namespace @ ''/pods/'' @ podName @ ''/containers/'' @ containerName @ ''/'' @
     (if clp_Previous params then ''logs-previous'' else ''logs'') @ ''/last-'' @ itoa (clp_TailLines params) @ ''-lines.log''"

text \<open>The logs for one instance of the alert: \<open>None\<close> is a panic.\<close>

definition alert_logs ::
  "cond_world \<Rightarrow> GatherContainersLogsParams \<Rightarrow> AlertLabels \<Rightarrow> (Record list \<times> go_error list) option" where
  "alert_logs w params alertLabels =
     (case getAlertPodNamespace alertLabels of
        Inl err \<Rightarrow> Some ([], [err])
      | Inr podNamespace \<Rightarrow>
          (case getAlertPodName alertLabels of
             Inl err \<Rightarrow> Some ([], [err])
           | Inr podName \<Rightarrow>
               let (podContainer, errs) = (if length (clp_Container params) > 0 then (clp_Container params, [])
                     else case getAlertPodContainer alertLabels of Inl err \<Rightarrow> ([], [err]) | Inr c \<Rightarrow> (c, []))
               in case CollectLogsFromContainers (cw_compile w) (cw_listPods w) (cw_logs w)
                         \<lparr>lcf_Namespace = podNamespace, lcf_LabelSelector = [],
                          lcf_FieldSelector = ''metadata.name='' @ podName,
                          lcf_ContainerNameRegexFilter = (if length podContainer > 0 then ''^'' @ podContainer @ ''$'' else []),
                          lcf_MaxNamespaceContainers = 0\<rparr>
                         \<lparr>lmf_MessagesToSearch = [], lmf_IsRegexSearch = False, lmf_SinceSeconds = 0, lmf_LimitBytes = 0,
                          lmf_TailLines = clp_TailLines params, lmf_Previous = clp_Previous params\<rparr>
                         (Some (log_dir_name params)) of
                    None \<Rightarrow> None
                  | Some (logRecords, None) \<Rightarrow> Some (logRecords, errs)
                  | Some (logRecords, Some err) \<Rightarrow>
                      Some (logRecords, errs @ [Errorf (''unable to get container logs: '' @ error_text err)])))"

fun collect_instances ::
  "(AlertLabels \<Rightarrow> (Record list \<times> go_error list) option) \<Rightarrow> AlertLabels list \<Rightarrow> (Record list \<times> go_error list) option" where
  "collect_instances f [] = Some ([], [])"
| "collect_instances f (a # as) =
     (case f a of
        None \<Rightarrow> None
      | Some (rs, es) \<Rightarrow> map_option (\<lambda>(rs', es'). (rs @ rs', es @ es')) (collect_instances f as))"

definition for_alert ::
  "cond_gatherer \<Rightarrow> string \<Rightarrow> (AlertLabels \<Rightarrow> (Record list \<times> go_error list) option) \<Rightarrow> closure_run" where
  "for_alert g alertName f =
     (case alert_instances g alertName of
        None \<Rightarrow> Returned [] [not_firing alertName]
      | Some alertInstances \<Rightarrow>
          (case collect_instances f alertInstances of
             None \<Rightarrow> Panicked ''regexp: Compile''
           | Some (records, errs) \<Rightarrow> Returned records errs))"

definition gatherContainersLogs :: "cond_world \<Rightarrow> cond_gatherer \<Rightarrow> GatherContainersLogsParams \<Rightarrow> closure_run" where
  "gatherContainersLogs w g params = with_client w (for_alert g (clp_AlertName params) (alert_logs w params))"

definition alert_pod :: "cond_world \<Rightarrow> AlertLabels \<Rightarrow> (Record list \<times> go_error list) option" where
  "alert_pod w alertLabels =
     Some (case getAlertPodNamespace alertLabels of
        Inl err \<Rightarrow> ([], [err])
      | Inr podNamespace \<Rightarrow>
          (case getAlertPodName alertLabels of
             Inl err \<Rightarrow> ([], [err])
           | Inr podName \<Rightarrow>
               (case cw_getPod w podNamespace podName of
                  Inl err \<Rightarrow> ([], [err])
                | Inr pod \<Rightarrow>
                    ([json_record w (conditional_GetName @ ''/namespaces/'' @ podNamespace @ ''/pods/'' @ podName @ ''/'' @ podName)
                        False (PodItem (pod\<lparr>pdf_Env := SensitiveEnvVars (pdf_Env pod)\<rparr>))], []))))"

definition gatherPodDefinition :: "cond_world \<Rightarrow> cond_gatherer \<Rightarrow> string \<Rightarrow> closure_run" where
  "gatherPodDefinition w g alertName = with_client w (for_alert g alertName (alert_pod w))"

definition run_rapid_logs :: "cond_world \<Rightarrow> RawLogRequest list \<Rightarrow> closure_run" where
  "run_rapid_logs w requests =
     with_client w
       (case gatherContainerLogs (cw_arrival w) (cw_compile w) (\<lambda>ns. cw_listPods w ns [] []) (cw_logs w) requests of
          (records, errs) \<Rightarrow> Returned records errs)"

fun run_closure :: "cond_world \<Rightarrow> cond_gatherer \<Rightarrow> cond_closure \<Rightarrow> closure_run" where
  "run_closure w g (RunLogsOfNamespace ns n) = gatherLogsOfNamespace w ns n"
| "run_closure w g (RunImageStreamsOfNamespace ns) = gatherImageStreamsOfNamespace w ns"
| "run_closure w g (RunAPIRequestCounts a) = gatherAPIRequestCounts w g a"
| "run_closure w g (RunContainersLogs p) = gatherContainersLogs w g p"
| "run_closure w g (RunPodDefinition a) = gatherPodDefinition w g a"
| "run_closure w g (RunRapidContainerLogs rs) = run_rapid_logs w rs"
| "run_closure w g (RunRules m) =
     Returned [json_record w ''insights-operator/conditional-gatherer-rules'' False (RulesItem m)] []"
| "run_closure w g (RunRemoteConfiguration rc) =
     Returned [json_record w ''insights-operator/remote-configuration'' True (RemoteConfigurationItem rc)] []"

section \<open>The download\<close>

lemma wait_Step_less: "0 < wb_Steps lo \<Longrightarrow> wb_Steps (wait_Step lo) < wb_Steps lo"
  by (simp add: wait_Step_def Let_def)

lemma config_loop_outcome:
  "snd (config_loop cancelled client url k lo bo) \<le> k + wb_Steps lo \<and>
   (case fst (config_loop cancelled client url k lo bo) of
      Inl _ \<Rightarrow> True
    | Inr data \<Rightarrow> \<exists>j resp. k \<le> j \<and> snd (config_loop cancelled client url k lo bo) = Suc j \<and> client j = Inr resp \<and>
        an_StatusCode resp = 200 \<and> an_Body resp = Inr data)"
proof (induction "wb_Steps lo" arbitrary: k lo bo rule: less_induct)
  case less
  have IH: "snd (config_loop cancelled client url (Suc k) (wait_Step lo) bo') \<le> k + wb_Steps lo \<and>
     (case fst (config_loop cancelled client url (Suc k) (wait_Step lo) bo') of
      Inl _ \<Rightarrow> True
    | Inr data \<Rightarrow> \<exists>j resp. k \<le> j \<and> snd (config_loop cancelled client url (Suc k) (wait_Step lo) bo') = Suc j \<and>
        client j = Inr resp \<and> an_StatusCode resp = 200 \<and> an_Body resp = Inr data)" if "0 < wb_Steps lo" for bo'
    using less [OF wait_Step_less [OF that], of "Suc k" bo'] wait_Step_less [OF that]
    by (auto split: sum.splits)
  show ?case
  proof (cases "wb_Steps lo = 0")
    case False
    then show ?thesis using IH [of "wait_Step bo"] IH [of bo]
      by (subst (1 2 3) config_loop.simps) (auto simp: Let_def split: option.split sum.split)
  qed (simp add: config_loop.simps)
qed

lemma getRemoteConfiguration_cases:
  "(\<exists>err. getRemoteConfiguration e = (Inl err, 0)) \<or>
   (\<exists>client url. de_client e = Some client \<and>
      getRemoteConfiguration e = config_loop (de_cancelled e) client url 0 config_backoff config_backoff)"
  by (auto simp: getRemoteConfiguration_def split: option.split sum.split)

text \<open>
  The argument of the log message takes a step off the backoff of the closure before its steps are looked at: the
  second answer with another status ends the download, although the backoff has three steps.
\<close>

lemma http_errors_two_requests:
  assumes "de_configurator e = Some (Some endpoint)" and "de_client e = Some client"
    and "de_releaseVersion e = Some v" "v \<noteq> []" and "\<And>k. de_cancelled e k = None"
    and "\<And>k. client k = Inr (resp k)" and "\<And>k. an_StatusCode (resp k) \<noteq> 200"
  shows "\<exists>msg. getRemoteConfiguration e = (Inl (HttpError msg (an_StatusCode (resp 1))), 2)"
proof -
  have s: "wait_Step config_backoff = config_backoff\<lparr>wb_Duration := 60 * Second, wb_Steps := 2\<rparr>"
    "wait_Step (config_backoff\<lparr>wb_Duration := 60 * Second, wb_Steps := 2\<rparr>) =
      config_backoff\<lparr>wb_Duration := 120 * Second, wb_Steps := 1\<rparr>"
    by (simp_all add: wait_Step_def config_backoff_def)
  have "wb_Steps config_backoff = 3" by (simp add: config_backoff_def)
  with assms s show ?thesis
    by (simp add: getRemoteConfiguration_def getRemoteConfigEndpoint_def config_loop.simps [of _ _ _ 0]
        config_loop.simps [of _ _ _ "Suc 0"])
qed

section \<open>The rules\<close>

lemma check_condition_err: "check_condition sv g c = (True, err) \<Longrightarrow> err = None"
  by (auto simp: check_condition_def checkAlertIsFiring_def checkClusterVersionMatches_def isAlertFiring_def
      doesClusterVersionMatch_def Let_def split: if_splits option.splits sum.splits)

lemma areAllConditionsSatisfied_iff:
  "fst (areAllConditionsSatisfied sv g cs) \<longleftrightarrow> (\<forall>c \<in> set cs. fst (check_condition sv g c))"
proof (induction cs)
  case (Cons c cs)
  obtain ok err where c: "check_condition sv g c = (ok, err)" by fastforce
  with check_condition_err [of sv g c err] Cons show ?case by (cases ok) auto
qed simp

lemma cache_alert_has:
  "map_has (fold cache_alert results m) name \<longleftrightarrow>
    map_has m name \<or> (\<exists>labels \<in> set results. map_get labels ''alertname'' = Some name \<and> map_get labels ''alertstate'' = Some ''firing'')"
proof (induction results arbitrary: m)
  case (Cons labels results)
  have "map_has (cache_alert labels m) name \<longleftrightarrow>
    map_has m name \<or> (map_get labels ''alertname'' = Some name \<and> map_get labels ''alertstate'' = Some ''firing'')"
    by (auto simp: cache_alert_def split: option.split)
  with Cons show ?case by auto
qed simp

text \<open>The gathering functions that a rule asks for, with the names under which their closures are registered.\<close>

definition built :: "(GatheringFunctionName, FunctionParams) gomap \<Rightarrow> string \<Rightarrow> cond_closure \<Rightarrow> bool" where
  "built fs name c =
     (\<exists>f p b. (f, p) \<in> set fs \<and> map_get gatheringFunctionBuilders f = Some b \<and> b p = Inr c \<and>
        name = getConditionalGatheringFunctionName f p)"

lemma built_Nil [simp]: "\<not> built [] name c"
  by (simp add: built_def)

lemma built_Cons [simp]:
  "built ((f, p) # fs) name c \<longleftrightarrow>
    (\<exists>b. map_get gatheringFunctionBuilders f = Some b \<and> b p = Inr c \<and> name = getConditionalGatheringFunctionName f p) \<or>
    built fs name c"
  by (auto simp: built_def)

lemma createGatheringClosures_closures:
  "map_get (fst (createGatheringClosures fs closures errs)) name = Some c \<Longrightarrow>
    map_get closures name = Some c \<or> built fs name c"
proof (induction fs closures errs rule: createGatheringClosures.induct)
  case (2 f p fs closures errs)
  show ?case
  proof (cases "map_get gatheringFunctionBuilders f")
    case (Some b)
    show ?thesis
    proof (cases "b p")
      case (Inr c')
      from "2.IH"(3) [OF Some Inr] "2.prems" Some Inr show ?thesis by (auto split: if_splits)
    qed (use 2 Some in auto)
  qed (use 2 in auto)
qed simp

lemma createGatheringClosures_keys:
  "map_has (fst (createGatheringClosures fs closures errs)) name \<longleftrightarrow> map_has closures name \<or> (\<exists>c. built fs name c)"
proof (induction fs closures errs rule: createGatheringClosures.induct)
  case (2 f p fs closures errs)
  show ?case
  proof (cases "map_get gatheringFunctionBuilders f")
    case (Some b)
    with 2 show ?thesis by (cases "b p") auto
  qed (use 2 in auto)
qed simp

lemma createGatheringClosures_distinct:
  "distinct (map fst closures) \<Longrightarrow> distinct (map fst (fst (createGatheringClosures fs closures errs)))"
  by (induction fs closures errs rule: createGatheringClosures.induct) (auto simp: distinct_map_put split: option.split sum.split)

lemma fold_put_get:
  "map_get (fold (\<lambda>(k, v). map_put k v) xs m) name = Some c \<Longrightarrow> map_get m name = Some c \<or> (name, c) \<in> set xs"
proof (induction xs arbitrary: m)
  case (Cons kv xs)
  obtain k v where "kv = (k, v)" by fastforce
  with Cons.IH [of "map_put k v m"] Cons.prems show ?case by (auto split: if_splits)
qed simp

lemma fold_put_has: "map_has (fold (\<lambda>(k, v). map_put k v) xs m) name \<longleftrightarrow> map_has m name \<or> map_has xs name"
proof (induction xs arbitrary: m)
  case (Cons kv xs)
  then show ?case by (cases kv) (auto simp: map_has_def)
qed (simp add: map_has_def)

text \<open>What the loop over the rules leaves: the closures of the triggered rules and the metadata of every rule.\<close>

definition triggered :: "semver \<Rightarrow> cond_gatherer \<Rightarrow> FunctionParams GatheringRule \<Rightarrow> bool" where
  "triggered sv g rule = (\<forall>c \<in> set (rule_Conditions rule). fst (check_condition sv g c))"

lemma rule_step_simps:
  "fst (rule_step sv g rule (m, mds)) =
    (if triggered sv g rule
     then fold (\<lambda>(k, v). map_put k v) (fst (createGatheringClosures (rule_GatheringFunctions rule) [] [])) m else m)"
  "map (\<lambda>md. (rmd_Rule md, rmd_WasTriggered md)) (snd (rule_step sv g rule (m, mds))) =
    map (\<lambda>md. (rmd_Rule md, rmd_WasTriggered md)) mds @ [(rule, triggered sv g rule)]"
  by (simp_all add: rule_step_def Let_def triggered_def areAllConditionsSatisfied_iff [symmetric] split: prod.splits)

lemma rules_metadata:
  "map (\<lambda>md. (rmd_Rule md, rmd_WasTriggered md)) (snd (fold (rule_step sv g) rules (m, mds))) =
    map (\<lambda>md. (rmd_Rule md, rmd_WasTriggered md)) mds @ map (\<lambda>r. (r, triggered sv g r)) rules"
proof (induction rules arbitrary: m mds)
  case (Cons rule rules)
  obtain m' mds' where st: "rule_step sv g rule (m, mds) = (m', mds')" by fastforce
  from rule_step_simps(2) [of sv g rule m mds] st Cons [of m' mds'] show ?case by simp
qed simp

lemma rules_keys:
  "map_has (fst (fold (rule_step sv g) rules (m, mds))) name \<longleftrightarrow>
    map_has m name \<or> (\<exists>r \<in> set rules. triggered sv g r \<and> (\<exists>c. built (rule_GatheringFunctions r) name c))"
proof (induction rules arbitrary: m mds)
  case (Cons rule rules)
  obtain m' mds' where st: "rule_step sv g rule (m, mds) = (m', mds')" by fastforce
  from rule_step_simps(1) [of sv g rule m mds] st
  have "map_has m' name \<longleftrightarrow> map_has m name \<or> triggered sv g rule \<and> (\<exists>c. built (rule_GatheringFunctions rule) name c)"
    by (auto simp: fold_put_has createGatheringClosures_keys) (simp_all add: map_has_def)
  with st Cons [of m' mds'] show ?case by auto
qed simp

lemma rules_closures:
  assumes "map_get (fst (fold (rule_step sv g) rules (m, mds))) name = Some c"
  shows "map_get m name = Some c \<or> (\<exists>r \<in> set rules. triggered sv g r \<and> built (rule_GatheringFunctions r) name c)"
  using assms
proof (induction rules arbitrary: m mds)
  case (Cons rule rules)
  obtain m' mds' where st: "rule_step sv g rule (m, mds) = (m', mds')" by fastforce
  have d: "distinct (map fst (fst (createGatheringClosures fs [] [])))" for fs :: "(GatheringFunctionName, FunctionParams) gomap"
    by (rule createGatheringClosures_distinct) simp
  have "map_get m' name = Some c \<Longrightarrow>
      map_get m name = Some c \<or> triggered sv g rule \<and> built (rule_GatheringFunctions rule) name c"
    using rule_step_simps(1) [of sv g rule m mds] st d [of "rule_GatheringFunctions rule"]
      createGatheringClosures_closures [of "rule_GatheringFunctions rule" "[]" "[]" name c]
    by (auto split: if_splits dest!: fold_put_get)
  with st Cons.prems Cons.IH [of m' mds'] show ?case by auto
qed simp

section \<open>The configuration that is used\<close>

definition accepted :: "RemoteConfigStatus \<Rightarrow> bool" where
  "accepted st = (rcs_ConfigAvailable st \<and> rcs_ConfigValid st)"

text \<open>The configuration with the document it comes from, and whether it is the downloaded one.\<close>

definition chosen_config :: "cond_env \<Rightarrow> bool \<times> bytes" where
  "chosen_config e =
     (case fst (getRemoteConfiguration (cv_download e)) of
        Inl _ \<Rightarrow> (False, cv_default e)
      | Inr data \<Rightarrow>
          (case parseRemoteConfiguration (cv_decode e) data of
             Inl _ \<Rightarrow> (False, cv_default e)
           | Inr rc \<Rightarrow> if validateRemoteConfig (cv_schemas e) rc = [] then (True, data) else (False, cv_default e)))"

lemma updateCache_status [simp]: "cg_remoteConfigStatus (updateCache e g) = cg_remoteConfigStatus g"
  by (auto simp: updateCache_def update_alerts_def update_version_def updateAlertsCache_def updateVersionCache_def
      split: option.split sum.split)

lemma createConditional_Some:
  assumes "createConditionalGatheringFunctions sv cfgr e rc g = Some (fs, g')"
  shows "g' = updateCache e g \<and> (\<exists>endpoint mds m. getRemoteConfigEndpoint cfgr = Some endpoint \<and>
    fold (rule_step sv g') (rc_ConditionalGatheringRules rc) ([], []) = (m, mds) \<and>
    fs = map_put ''conditional_gatherer_rules'' (RunRules \<lparr>gmd_Version = rc_Version rc, gmd_Rules = mds,
           gmd_Endpoint = (case endpoint of Inl _ \<Rightarrow> [] | Inr s \<Rightarrow> s)\<rparr>) m)"
  using assms by (auto simp: createConditionalGatheringFunctions_def Let_def split: option.splits prod.splits)

lemma createAll_Some:
  assumes "createAllGatheringFunctions sv cfgr e rc g = Some (fs, g')"
  shows "g' = updateCache e g \<and> map_get fs ''remote_configuration'' = Some (RunRemoteConfiguration rc) \<and>
    map_get fs ''rapid_container_logs'' = Some (RunRapidContainerLogs (rc_ContainerLogRequests rc))"
  using assms by (auto simp: createAllGatheringFunctions_def dest!: createConditional_Some)

lemma useBuiltIn_Some:
  assumes "useBuiltInRemoteConfiguration e g = Some (res, g')"
  shows "cg_remoteConfigStatus g' = cg_remoteConfigStatus g"
    and "res = Inr fs \<Longrightarrow> \<exists>rc. parseRemoteConfiguration (cv_decode e) (cv_default e) = Inr rc \<and>
      createAllGatheringFunctions (cv_semver e) (de_configurator (cv_download e)) (cv_cache e) rc g = Some (fs, g')"
  using assms by (auto simp: useBuiltInRemoteConfiguration_def split: sum.splits dest!: createAll_Some)

lemma UniqueErrors_nonempty: "errs \<noteq> [] \<Longrightarrow> UniqueErrors errs \<noteq> None"
  by (simp add: UniqueErrors_def)

lemma GetGatheringFunctions_status:
  assumes "conditional_GetGatheringFunctions e g = Some (res, g')"
  shows "accepted (cg_remoteConfigStatus g') = fst (chosen_config e) \<and>
    rcs_ConfigData (cg_remoteConfigStatus g') = Some (snd (chosen_config e)) \<and>
    (fst (chosen_config e) \<or> rcs_Err (cg_remoteConfigStatus g') \<noteq> None)"
proof (cases "fst (getRemoteConfiguration (cv_download e))")
  case (Inl err)
  with assms show ?thesis
    by (auto simp: conditional_GetGatheringFunctions_def chosen_config_def accepted_def dest!: useBuiltIn_Some(1))
next
  case (Inr data)
  show ?thesis
  proof (cases "parseRemoteConfiguration (cv_decode e) data")
    case (Inl err)
    with Inr assms show ?thesis
      by (auto simp: conditional_GetGatheringFunctions_def chosen_config_def accepted_def dest!: useBuiltIn_Some(1))
  next
    case rc: (Inr rc)
    show ?thesis
    proof (cases "validateRemoteConfig (cv_schemas e) rc = []")
      case True
      with Inr rc assms show ?thesis
        by (auto simp: conditional_GetGatheringFunctions_def chosen_config_def accepted_def dest!: createAll_Some)
    next
      case False
      with Inr rc assms UniqueErrors_nonempty [OF False] show ?thesis
        by (auto simp: conditional_GetGatheringFunctions_def chosen_config_def accepted_def dest!: useBuiltIn_Some(1))
    qed
  qed
qed

lemma GetGatheringFunctions_config:
  assumes "conditional_GetGatheringFunctions e g = Some (Inr fs, g')"
  shows "\<exists>rc g0. parseRemoteConfiguration (cv_decode e) (snd (chosen_config e)) = Inr rc \<and>
    (fst (chosen_config e) \<longrightarrow> validateRemoteConfig (cv_schemas e) rc = []) \<and>
    cg_firingAlerts g0 = cg_firingAlerts g \<and> cg_clusterVersion g0 = cg_clusterVersion g \<and>
    createAllGatheringFunctions (cv_semver e) (de_configurator (cv_download e)) (cv_cache e) rc g0 = Some (fs, g')"
    (is "?P")
proof -
  have built_in: ?P if "\<not> fst (chosen_config e)" "snd (chosen_config e) = cv_default e"
    "useBuiltInRemoteConfiguration e (g\<lparr>cg_remoteConfigStatus := st\<rparr>) = Some (Inr fs, g')" for st
  proof -
    from useBuiltIn_Some(2) [OF that(3) refl] obtain rc where
      "parseRemoteConfiguration (cv_decode e) (cv_default e) = Inr rc"
      "createAllGatheringFunctions (cv_semver e) (de_configurator (cv_download e)) (cv_cache e) rc
        (g\<lparr>cg_remoteConfigStatus := st\<rparr>) = Some (fs, g')" by blast
    with that show ?thesis by (intro exI [of _ rc] exI [of _ "g\<lparr>cg_remoteConfigStatus := st\<rparr>"]) simp
  qed
  show ?P
  proof (cases "fst (getRemoteConfiguration (cv_download e))")
    case (Inl err)
    with assms show ?thesis
      by (intro built_in) (auto simp: conditional_GetGatheringFunctions_def chosen_config_def)
  next
    case (Inr data)
    show ?thesis
    proof (cases "parseRemoteConfiguration (cv_decode e) data")
      case (Inl err)
      with Inr assms show ?thesis
        by (intro built_in) (auto simp: conditional_GetGatheringFunctions_def chosen_config_def)
    next
      case rc: (Inr rc)
      show ?thesis
      proof (cases "validateRemoteConfig (cv_schemas e) rc = []")
        case True
        from assms Inr rc True obtain st where
          "createAllGatheringFunctions (cv_semver e) (de_configurator (cv_download e)) (cv_cache e) rc
            (g\<lparr>cg_remoteConfigStatus := st\<rparr>) = Some (fs, g')"
          by (auto simp: conditional_GetGatheringFunctions_def)
        with Inr rc True show ?thesis
          by (intro exI [of _ rc] exI [of _ "g\<lparr>cg_remoteConfigStatus := st\<rparr>"]) (simp add: chosen_config_def)
      next
        case False
        with Inr rc assms show ?thesis
          by (intro built_in) (auto simp: conditional_GetGatheringFunctions_def chosen_config_def)
      qed
    qed
  qed
qed

text \<open>Without a configurator the missing endpoint is reported, and then the nil configurator is dereferenced.\<close>

lemma nil_configurator_panics:
  assumes "de_configurator (cv_download e) = None" and "parseRemoteConfiguration (cv_decode e) (cv_default e) = Inr rc"
  shows "conditional_GetGatheringFunctions e g = None"
  using assms by (simp add: conditional_GetGatheringFunctions_def getRemoteConfiguration_def getRemoteConfigEndpoint_def
      useBuiltInRemoteConfiguration_def createAllGatheringFunctions_def createConditionalGatheringFunctions_def Let_def)

section \<open>Properties\<close>

text \<open>
  C26: The configuration that is used is the one that is reported.  When the gathering functions have been created, the
  status of the remote configuration can be turned into a condition of the cluster operator (no nil error is
  dereferenced), which is healthy exactly when the configuration was downloaded, decoded and validated; the status
  carries the document of the configuration in use, downloaded or built-in, and the created functions are those of
  that document.
\<close>

theorem remote_config_used:
  assumes "conditional_GetGatheringFunctions e g = Some (res, g')"
  shows "(\<exists>new. remote_summary (cg_remoteConfigStatus g') = Some new \<and> sm_Healthy new = fst (chosen_config e)) \<and>
    rcs_ConfigData (cg_remoteConfigStatus g') = Some (snd (chosen_config e)) \<and>
    (case res of
       Inl err \<Rightarrow> \<not> fst (chosen_config e) \<and> parseRemoteConfiguration (cv_decode e) (cv_default e) = Inl err
     | Inr fs \<Rightarrow> \<exists>rc. parseRemoteConfiguration (cv_decode e) (snd (chosen_config e)) = Inr rc \<and>
         map_get fs ''remote_configuration'' = Some (RunRemoteConfiguration rc) \<and>
         map_get fs ''rapid_container_logs'' = Some (RunRapidContainerLogs (rc_ContainerLogRequests rc)))"
proof -
  note st = GetGatheringFunctions_status [OF assms]
  have "\<exists>new. remote_summary (cg_remoteConfigStatus g') = Some new \<and> sm_Healthy new = fst (chosen_config e)"
    using st by (auto simp: remote_summary_def accepted_def Let_def)
  moreover have "\<not> fst (chosen_config e) \<and> parseRemoteConfiguration (cv_decode e) (cv_default e) = Inl err"
    if "res = Inl err" for err
    using assms that by (auto simp: conditional_GetGatheringFunctions_def chosen_config_def useBuiltInRemoteConfiguration_def Let_def
        split: sum.splits if_splits)
  moreover have "\<exists>rc. parseRemoteConfiguration (cv_decode e) (snd (chosen_config e)) = Inr rc \<and>
         map_get fs ''remote_configuration'' = Some (RunRemoteConfiguration rc) \<and>
         map_get fs ''rapid_container_logs'' = Some (RunRapidContainerLogs (rc_ContainerLogRequests rc))" if "res = Inr fs" for fs
    using GetGatheringFunctions_config [of e g fs g'] assms that createAll_Some by blast
  ultimately show ?thesis using st by (cases res) simp_all
qed

definition example_rule :: "json GatheringRule" where
  "example_rule =
     \<lparr>rule_Conditions = [\<lparr>cp_Type = AlertIsFiring, cp_Alert = Some ''A'', cp_ClusterVersionMatches = None\<rparr>],
      rule_GatheringFunctions = [(GatherPodDefinition, JObject [(''alert_name'', JString ''A'')])]\<rparr>"

definition example_cond_env :: cond_env where
  "example_cond_env =
     \<lparr>cv_download = \<lparr>de_configurator = Some (Some ''https://x/%s''),
        de_client = Some (\<lambda>_. Inr \<lparr>an_StatusCode = 200, an_Status = ''200 OK'', an_Body = Inr ''remote''\<rparr>),
        de_releaseVersion = Some ''4.20.0'', de_cancelled = (\<lambda>_. None)\<rparr>,
      cv_cache = \<lparr>ca_hasMetrics = True, ca_metricsClient = None,
        ca_alerts = Inr [[(''alertname'', ''A''), (''alertstate'', ''firing''), (''pod'', ''p1''), (''namespace'', ''openshift-a'')]],
        ca_configClient = None, ca_version = Inr ''4.20.0''\<rparr>,
      cv_semver = \<lparr>sv_Parse = (\<lambda>_. Inl (Errorf ''unused'')), sv_ParseRange = (\<lambda>_. Inl (Errorf ''unused''))\<rparr>,
      cv_schemas = \<lparr>sch_rules = (\<lambda>_. Inr []),
        sch_logs = (\<lambda>rs. Inr (if list_all (\<lambda>r. prefix ''openshift-'' (rlr_Namespace r)) rs then [] else [''pattern'']))\<rparr>,
      cv_decode = (\<lambda>d. if d = ''remote''
        then Inr \<lparr>rc_Version = ''1'', rc_ConditionalGatheringRules = [example_rule], rc_ContainerLogRequests = [example_request]\<rparr>
        else Inr \<lparr>rc_Version = [], rc_ConditionalGatheringRules = [example_rule], rc_ContainerLogRequests = []\<rparr>),
      cv_default = ''default''\<rparr>"

definition example_rc :: "FunctionParams RemoteConfiguration" where
  "example_rc =
     \<lparr>rc_Version = ''1'', rc_ConditionalGatheringRules = List.map_filter parse_rule [example_rule], rc_ContainerLogRequests = []\<rparr>"

definition example_created :: "((string, cond_closure) gomap \<times> cond_gatherer) option" where
  "example_created = createConditionalGatheringFunctions (cv_semver example_cond_env) (Some (Some ''e''))
     (cv_cache example_cond_env) example_rc conditional_New"

theorem remote_config_used_witness:
  "\<exists>res g' new. conditional_GetGatheringFunctions example_cond_env conditional_New = Some (res, g') \<and>
    remote_summary (cg_remoteConfigStatus g') = Some new \<and> sm_Healthy new"
proof -
  have "conditional_GetGatheringFunctions example_cond_env conditional_New \<noteq> None" by code_simp
  then obtain res g' where r: "conditional_GetGatheringFunctions example_cond_env conditional_New = Some (res, g')" by fastforce
  have c: "fst (chosen_config example_cond_env)" by code_simp
  from remote_config_used [OF r] c r show ?thesis by blast
qed

text \<open>
  C27: The gathering functions are those of the triggered rules.  After the caches were updated from the answers of the
  cluster, a function is registered under a name exactly when a rule whose conditions all hold asks for it, and it is
  built from that rule's parameters; the recorded metadata names every rule, in order, and whether it was triggered; and an
  alert condition holds exactly when the answer has an instance of that alert in the state firing.
\<close>

theorem rules_triggered:
  assumes "createConditionalGatheringFunctions sv cfgr e rc g = Some (fs, g')"
    and "ca_hasMetrics e" and "ca_metricsClient e = None" and "ca_alerts e = Inr results"
  shows "(\<exists>md. map_get fs ''conditional_gatherer_rules'' = Some (RunRules md) \<and> gmd_Version md = rc_Version rc \<and>
      map (\<lambda>m. (rmd_Rule m, rmd_WasTriggered m)) (gmd_Rules md) =
        map (\<lambda>r. (r, triggered sv g' r)) (rc_ConditionalGatheringRules rc)) \<and>
    (\<forall>name. name = ''conditional_gatherer_rules'' \<or> map_has fs name =
      (\<exists>r \<in> set (rc_ConditionalGatheringRules rc). triggered sv g' r \<and> (\<exists>c. built (rule_GatheringFunctions r) name c))) \<and>
    (\<forall>name c. name = ''conditional_gatherer_rules'' \<or> map_get fs name \<noteq> Some c \<or>
      (\<exists>r \<in> set (rc_ConditionalGatheringRules rc). triggered sv g' r \<and> built (rule_GatheringFunctions r) name c)) \<and>
    (\<forall>a v. fst (check_condition sv g' \<lparr>cp_Type = AlertIsFiring, cp_Alert = Some a, cp_ClusterVersionMatches = v\<rparr>) =
      (\<exists>labels \<in> set results. map_get labels ''alertname'' = Some a \<and> map_get labels ''alertstate'' = Some ''firing''))"
proof -
  from createConditional_Some [OF assms(1)] obtain endpoint mds m where
    g': "g' = updateCache e g" and "getRemoteConfigEndpoint cfgr = Some endpoint"
    and m: "fold (rule_step sv g') (rc_ConditionalGatheringRules rc) ([], []) = (m, mds)"
    and fs: "fs = map_put ''conditional_gatherer_rules'' (RunRules \<lparr>gmd_Version = rc_Version rc, gmd_Rules = mds,
           gmd_Endpoint = (case endpoint of Inl _ \<Rightarrow> [] | Inr s \<Rightarrow> s)\<rparr>) m" by blast
  have md: "\<exists>md. map_get fs ''conditional_gatherer_rules'' = Some (RunRules md) \<and> gmd_Version md = rc_Version rc \<and>
      map (\<lambda>m. (rmd_Rule m, rmd_WasTriggered m)) (gmd_Rules md) =
        map (\<lambda>r. (r, triggered sv g' r)) (rc_ConditionalGatheringRules rc)"
    using fs rules_metadata [of sv g' "rc_ConditionalGatheringRules rc" "[]" "[]"] m by simp
  have keys: "map_has fs name \<longleftrightarrow>
      (\<exists>r \<in> set (rc_ConditionalGatheringRules rc). triggered sv g' r \<and> (\<exists>c. built (rule_GatheringFunctions r) name c))"
    if "name \<noteq> ''conditional_gatherer_rules''" for name
    using that fs rules_keys [of sv g' "rc_ConditionalGatheringRules rc" "[]" "[]" name] m by (simp add: map_has_def)
  have closures: "\<exists>r \<in> set (rc_ConditionalGatheringRules rc). triggered sv g' r \<and> built (rule_GatheringFunctions r) name c"
    if "name \<noteq> ''conditional_gatherer_rules''" "map_get fs name = Some c" for name c
    using that fs rules_closures [of sv g' "rc_ConditionalGatheringRules rc" "[]" "[]" name c] m by simp
  have alerts: "cg_firingAlerts g' = Some (fold cache_alert results [])"
    unfolding g' using assms(2-4)
    by (auto simp: updateCache_def update_alerts_def update_version_def updateAlertsCache_def updateVersionCache_def
        split: option.split sum.split)
  then have "fst (check_condition sv g' \<lparr>cp_Type = AlertIsFiring, cp_Alert = Some a, cp_ClusterVersionMatches = v\<rparr>) \<longleftrightarrow>
      (\<exists>labels \<in> set results. map_get labels ''alertname'' = Some a \<and> map_get labels ''alertstate'' = Some ''firing'')" for a v
    using cache_alert_has [of results "[]" a]
    by (simp add: check_condition_def checkAlertIsFiring_def isAlertFiring_def) (simp add: map_has_def)
  with md keys closures show ?thesis by blast
qed

theorem rules_triggered_witness:
  "\<exists>fs g' md. example_created = Some (fs, g') \<and>
    map_get fs ''conditional_gatherer_rules'' = Some (RunRules md) \<and> map rmd_WasTriggered (gmd_Rules md) = [True] \<and>
    map_has fs ''pod_definition/alert_name=A''"
proof -
  let ?rules = "rc_ConditionalGatheringRules example_rc"
  have "(case example_created of None \<Rightarrow> False | Some (fs, g') \<Rightarrow> map_has fs ''pod_definition/alert_name=A'' \<and>
      map (\<lambda>r. snd (r, triggered (cv_semver example_cond_env) g' r)) ?rules = [True])" by code_simp
  then obtain fs g' where c: "example_created = Some (fs, g')" "map_has fs ''pod_definition/alert_name=A''"
    "map (\<lambda>r. snd (r, triggered (cv_semver example_cond_env) g' r)) ?rules = [True]"
    by (auto split: option.splits prod.splits)
  have "ca_hasMetrics (cv_cache example_cond_env)" "ca_metricsClient (cv_cache example_cond_env) = None"
    "ca_alerts (cv_cache example_cond_env) =
      Inr [[(''alertname'', ''A''), (''alertstate'', ''firing''), (''pod'', ''p1''), (''namespace'', ''openshift-a'')]]"
    by (simp_all add: example_cond_env_def)
  from conjunct1 [OF rules_triggered [OF c(1) [unfolded example_created_def] this]] obtain md where
    md: "map_get fs ''conditional_gatherer_rules'' = Some (RunRules md)"
    "map (\<lambda>m. (rmd_Rule m, rmd_WasTriggered m)) (gmd_Rules md) =
      map (\<lambda>r. (r, triggered (cv_semver example_cond_env) g' r)) ?rules" by (elim exE conjE)
  from arg_cong [OF md(2), of "map snd"] c(3) have "map rmd_WasTriggered (gmd_Rules md) = [True]" by (simp add: comp_def)
  with c(1,2) md(1) show ?thesis by (intro exI conjI)
qed

text \<open>The pattern of the schema container_log.schema.json for a namespace.\<close>

definition name_char :: "char \<Rightarrow> bool" where
  "name_char c = (c \<in> set ''abcdefghijklmnopqrstuvwxyzABCDEFGHIJKLMNOPQRSTUVWXYZ0123456789_.-'')"

definition log_namespace_ok :: "string \<Rightarrow> bool" where
  "log_namespace_ok ns =
     list_ex (\<lambda>p. prefix p ns \<and> length p < length ns \<and> length ns \<le> length p + 128 \<and> list_all name_char (drop (length p) ns))
       [''openshift-'', ''kube-'']"

lemma validated_log_namespace:
  assumes "validateRemoteConfig sch rc = []" and "\<And>rs. sch_logs sch rs = Inr [] \<Longrightarrow> \<forall>r \<in> set rs. log_namespace_ok (rlr_Namespace r)"
    and "r \<in> set (rc_ContainerLogRequests rc)"
  shows "log_namespace_ok (rlr_Namespace r)"
proof -
  from assms(1) have "schema_errors (sch_logs sch (rc_ContainerLogRequests rc)) = []"
    by (simp add: validateRemoteConfig_def validateContainerLogRequests_def)
  then have "sch_logs sch (rc_ContainerLogRequests rc) = Inr []"
  proof (cases "sch_logs sch (rc_ContainerLogRequests rc)")
    case (Inr vs)
    with \<open>schema_errors _ = []\<close> have "length (sort_by validationErrors_Less (map Errorf vs)) = 0" by (simp add: schema_errors_def)
    with Inr show ?thesis by simp
  qed (simp add: schema_errors_def)
  with assms(2,3) show ?thesis by blast
qed

text \<open>
  C28: Only logs of the platform.  With a validator that accepts log requests only when their namespaces match the
  pattern of the schema, and as long as the downloaded configuration is the one in use, every record of the
  requested container logs is the log of a container in a namespace of OpenShift or Kubernetes.
\<close>

theorem rapid_logs_namespaces:
  assumes "\<And>rs. sch_logs (cv_schemas e) rs = Inr [] \<Longrightarrow> \<forall>r \<in> set rs. log_namespace_ok (rlr_Namespace r)"
    and "\<And>xs. set (cw_arrival w xs) = set xs"
    and "conditional_GetGatheringFunctions e g = Some (Inr fs, g')" and "accepted (cg_remoteConfigStatus g')"
    and "map_get fs ''rapid_container_logs'' = Some closure" and "run_closure w g' closure = Returned records errs"
    and "rec \<in> set records"
  shows "\<exists>ns pod c previous. log_namespace_ok ns \<and> rec_Name rec = log_file ns pod c previous"
proof -
  from GetGatheringFunctions_status [OF assms(3)] assms(4) have "fst (chosen_config e)" by simp
  with GetGatheringFunctions_config [OF assms(3)] obtain rc g0 where
    rc: "validateRemoteConfig (cv_schemas e) rc = []"
    "createAllGatheringFunctions (cv_semver e) (de_configurator (cv_download e)) (cv_cache e) rc g0 = Some (fs, g')" by blast
  from createAll_Some [OF rc(2)] assms(5) have "closure = RunRapidContainerLogs (rc_ContainerLogRequests rc)" by simp
  with assms(6,7) have "rec \<in> set (fst (gatherContainerLogs (cw_arrival w) (cw_compile w) (\<lambda>ns. cw_listPods w ns [] []) (cw_logs w)
      (rc_ContainerLogRequests rc)))"
    by (auto simp: run_rapid_logs_def with_client_def split: option.splits prod.splits)
  from requested_record [OF assms(2) this] obtain r pod c content where
    r: "r \<in> set (rc_ContainerLogRequests rc)" "rec = log_record (log_file (rlr_Namespace r) pod c (rlr_Previous r)) content" by blast
  from validated_log_namespace [OF rc(1) assms(1) r(1)] r(2) show ?thesis by (auto simp: log_record_def)
qed

definition example_world :: cond_world where
  "example_world =
     \<lparr>cw_client = None, cw_listPods = (\<lambda>ns _ _. example_pods ns), cw_logs = example_logs, cw_compile = example_compile,
      cw_arrival = id, cw_imageStreams = (\<lambda>_. Inr []), cw_requestCounts = Inr [],
      cw_getPod = (\<lambda>_ _. Inl (NotFoundErr ''pod'')), cw_encode = (\<lambda>_. Inr None)\<rparr>"

definition example_functions :: "((string, cond_closure) gomap result \<times> cond_gatherer) option" where
  "example_functions = conditional_GetGatheringFunctions
     (example_cond_env\<lparr>cv_schemas := \<lparr>sch_rules = (\<lambda>_. Inr []),
        sch_logs = (\<lambda>rs. Inr (if list_all (\<lambda>r. log_namespace_ok (rlr_Namespace r)) rs then [] else [''pattern'']))\<rparr>\<rparr>) conditional_New"

definition example_rapid :: closure_run where
  "example_rapid =
     (case example_functions of
        Some (Inr fs, g) \<Rightarrow> (case map_get fs ''rapid_container_logs'' of Some c \<Rightarrow> run_closure example_world g c | None \<Rightarrow> Panicked [])
      | _ \<Rightarrow> Panicked [])"

theorem rapid_logs_namespaces_witness:
  "\<exists>rec errs ns pod c previous. example_rapid = Returned [rec] errs \<and> log_namespace_ok ns \<and> rec_Name rec = log_file ns pod c previous"
proof -
  have "(case example_functions of Some (Inr fs, g) \<Rightarrow> accepted (cg_remoteConfigStatus g) \<and> map_has fs ''rapid_container_logs'' | _ \<Rightarrow> False)"
    by code_simp
  note ok = this
  then obtain res g where e: "example_functions = Some (res, g)" by (auto split: option.splits)
  from ok [unfolded e] e obtain fs closure where f: "example_functions = Some (Inr fs, g)" "accepted (cg_remoteConfigStatus g)"
    "map_get fs ''rapid_container_logs'' = Some closure"
    by (cases res) (auto simp: map_has_def)
  have "(case example_rapid of Returned rs _ \<Rightarrow> length rs = 1 | _ \<Rightarrow> False)" by code_simp
  then obtain rec errs where run: "example_rapid = Returned [rec] errs"
    by (auto simp: length_Suc_conv split: closure_run.splits)
  from run [unfolded example_rapid_def f(1)] f(3)
  have *: "run_closure example_world g closure = Returned [rec] errs" by simp
  have "\<exists>ns pod c previous. log_namespace_ok ns \<and> rec_Name rec = log_file ns pod c previous"
    by (rule rapid_logs_namespaces [OF _ _ f(1) [unfolded example_functions_def] f(2,3) * ])
      (auto simp: example_world_def list_all_iff split: if_splits)
  with run show ?thesis by blast
qed

text \<open>
  Requests for the remote configuration.  At most three are made, and the configuration that is returned is the
  complete body of the last one, which was answered with the status 200.
\<close>

lemma config_requests:
  "snd (getRemoteConfiguration e) \<le> 3 \<and>
   (case fst (getRemoteConfiguration e) of
      Inl _ \<Rightarrow> True
    | Inr data \<Rightarrow> \<exists>client j resp. de_client e = Some client \<and> snd (getRemoteConfiguration e) = Suc j \<and> client j = Inr resp \<and>
        an_StatusCode resp = 200 \<and> an_Body resp = Inr data)"
proof -
  have three: "wb_Steps config_backoff = 3" by (simp add: config_backoff_def)
  consider (none) err where "getRemoteConfiguration e = (Inl err, 0)"
    | (loop) client url where "de_client e = Some client"
      "getRemoteConfiguration e = config_loop (de_cancelled e) client url 0 config_backoff config_backoff"
    using getRemoteConfiguration_cases [of e] by blast
  then show ?thesis
  proof cases
    case (loop client url)
    then show ?thesis
      using config_loop_outcome [of "de_cancelled e" client url 0 config_backoff config_backoff] three
      by (auto split: sum.split)
  qed simp
qed

text \<open>The record of an image stream has the names of the repositories as they are: only its tags are anonymised.\<close>

lemma image_stream_repository_in_clear:
  assumes "None \<notin> set (ist_SpecTags s)"
  shows "\<exists>s'. image_stream_records w [s] = Some [json_record w (conditional_GetName @ ''/namespaces/'' @ ist_Namespace s @
      ''/imagestreams/'' @ ist_Name s) False (ImageStreamItem s')] \<and>
    ist_SpecDockerImageRepository s' = ist_SpecDockerImageRepository s \<and>
    ist_StatusDockerImageRepository s' = ist_StatusDockerImageRepository s \<and>
    ist_PublicDockerImageRepository s' = ist_PublicDockerImageRepository s \<and>
    ist_StatusTags s' = map (map anonymize_String) (ist_StatusTags s)"
  by (rule exI [of _ "s\<lparr>ist_SpecTags := map (map_option anonymize_String) (ist_SpecTags s),
        ist_StatusTags := map (map anonymize_String) (ist_StatusTags s)\<rparr>"])
    (use assms in \<open>simp add: anonymizeImageStream_def shared_slices_def\<close>)

text \<open>The namespace of the parameters of the container logs has no effect.\<close>

lemma log_dir_name_namespace: "log_dir_name (params\<lparr>clp_Namespace := ns\<rparr>) = log_dir_name params"
  by (intro ext) (simp add: log_dir_name_def)

lemma params_namespace_ignored: "gatherContainersLogs w g (params\<lparr>clp_Namespace := ns\<rparr>) = gatherContainersLogs w g params"
proof -
  have "alert_logs w (params\<lparr>clp_Namespace := ns\<rparr>) = alert_logs w params"
    by (intro ext) (simp add: alert_logs_def log_dir_name_namespace Let_def split: sum.split)
  then show ?thesis by (simp add: gatherContainersLogs_def)
qed

end
