(* ===== verification/Uploader.thy ===== *)
theory Uploader
  imports InsightsClient StatusController
begin

text \<open>
  pkg/insights/insightsuploader/insightsuploader.go: the controller that uploads the archives.

  The summariser, the client and the reporter are interfaces of the code.  \<open>jitter d f\<close> is \<open>wait.Jitter\<close> with
  the factor \<open>f\<close> in tenths; \<open>fmt_time\<close> formats a time.  What a call does besides changing the state is the list
  of its events: the archive sent, the archive that is only logged, and the message on the unbuffered channel
  \<open>archiveUploaded\<close>, which is dropped when nobody waits for it.
\<close>

section \<open>State\<close>

record backoff =
  bo_Duration :: duration
  bo_Steps :: nat

record 'r uploader =
  up_status :: Summary
  up_uploadDelay :: duration
  up_backoff :: backoff
  up_reporter :: 'r

datatype upload_event = LoggedReport | SentArchive string Source | ArchiveUploaded

definition uploadOperation :: Operation where
  "uploadOperation = \<lparr>op_Name = Uploading, op_HTTPStatusCode = 0\<rparr>"

definition healthy_summary :: Summary where
  "healthy_summary = zero_Summary\<lparr>sm_Healthy := True\<rparr>"

definition upload_failure_summary :: "string \<Rightarrow> string \<Rightarrow> Summary" where
  "upload_failure_summary reason message =
     zero_Summary\<lparr>sm_Operation := uploadOperation, sm_Reason := reason, sm_Message := message\<rparr>"

definition periodicType :: string where "periodicType = ''application/vnd.redhat.openshift.periodic''"

definition New_uploader :: "duration \<Rightarrow> duration \<Rightarrow> 'r \<Rightarrow> 'r uploader" where
  "New_uploader interval initialDelay reporter =
     \<lparr>up_status = zero_Summary, up_uploadDelay = initialDelay,
      up_backoff = \<lparr>bo_Duration = go_quot interval 4, bo_Steps = 4\<rparr>, up_reporter = reporter\<rparr>"

section \<open>Periodic upload\<close>

definition send_failed ::
  "(duration \<Rightarrow> int \<Rightarrow> duration) \<Rightarrow> duration \<Rightarrow> time \<Rightarrow> go_error \<Rightarrow> 'r uploader \<Rightarrow> 'r uploader" where
  "send_failed jitter interval now err c =
     (if err = ErrWaitingForVersion then c\<lparr>up_uploadDelay := jitter (15 * Second) 10\<rparr>
      else if IsAuthorizationError err then
        c\<lparr>up_status := UpdateStatus now (upload_failure_summary ''NotAuthorized''
              (''Reporting was not allowed: '' @ error_text err)) (up_status c),
          up_uploadDelay := jitter (go_quot interval 2) 20\<rparr>
      else
        c\<lparr>up_uploadDelay := jitter (go_quot interval 8) 12,
          up_status := UpdateStatus now (upload_failure_summary ''UploadFailed''
              (''Unable to report: '' @ error_text err)) (up_status c)\<rparr>)"

definition send_succeeded :: "(time \<Rightarrow> 'r \<Rightarrow> 'r) \<Rightarrow> time \<Rightarrow> 'r uploader \<Rightarrow> 'r uploader" where
  "send_succeeded set_last start c =
     c\<lparr>up_status := UpdateStatus start healthy_summary (up_status c),
       up_reporter := set_last start (up_reporter c)\<rparr>"

text \<open>
  \<open>summary\<close> is the outcome of asking for the archives since the last report, \<open>send\<close> the client's upload
  (\<open>None\<close> when it panics), \<open>waiting\<close> whether somebody listens for uploaded archives.
\<close>

definition checkSummaryAndSend ::
  "('r \<Rightarrow> time) \<Rightarrow> (time \<Rightarrow> 'r \<Rightarrow> 'r) \<Rightarrow> (duration \<Rightarrow> int \<Rightarrow> duration) \<Rightarrow> (time \<Rightarrow> string) \<Rightarrow>
   InsightsConfiguration \<Rightarrow> (time \<Rightarrow> Source option result) \<Rightarrow> (string \<Rightarrow> Source \<Rightarrow> go_error option option) \<Rightarrow>
   time \<Rightarrow> bool \<Rightarrow> bool \<Rightarrow> 'r uploader \<Rightarrow> ('r uploader \<times> upload_event list) option" where
  "checkSummaryAndSend get_last set_last jitter fmt_time cfg summary send start waiting reportingEnabled c =
     (let lastReported = get_last (up_reporter c);
          endpoint = dr_UploadEndpoint (ic_DataReporting cfg);
          interval = dr_Interval (ic_DataReporting cfg);
          c = c\<lparr>up_uploadDelay := jitter (go_quot interval 8) 1\<rparr>
      in case summary lastReported of
           Inl err \<Rightarrow>
             Some (c\<lparr>up_status := UpdateStatus start (zero_Summary\<lparr>sm_Reason := ''SummaryFailed'',
                 sm_Message := ''Unable to retrieve local insights data: '' @ error_text err\<rparr>) (up_status c)\<rparr>, [])
         | Inr None \<Rightarrow> Some (c, [])
         | Inr (Some source) \<Rightarrow>
             if \<not> reportingEnabled \<or> length endpoint = 0 then Some (c, [LoggedReport])
             else
               let source = source\<lparr>src_ID := fmt_time start, src_Type := periodicType\<rparr>
               in case send endpoint source of
                    None \<Rightarrow> None
                  | Some (Some err) \<Rightarrow> Some (send_failed jitter interval start err c, [SentArchive endpoint source])
                  | Some None \<Rightarrow>
                      Some (send_succeeded set_last start c,
                        SentArchive endpoint source # (if waiting then [ArchiveUploaded] else [])))"

text \<open>
  The select loop of \<open>periodicTrigger\<close> on the sequence of its events.  It returns at a tick and when the
  interval changes; the end of the operator stops the ticker but does not leave the loop.  A change of the
  configuration reads whether the API disables gathering for the log message only.
\<close>

datatype trigger_event = StopCh | Tick | ConfigCh InsightsConfiguration "bool option"

fun trigger_loop ::
  "(bool \<Rightarrow> 'r uploader \<Rightarrow> ('r uploader \<times> upload_event list) option) \<Rightarrow> (duration \<Rightarrow> int \<Rightarrow> duration) \<Rightarrow>
   duration \<Rightarrow> bool \<Rightarrow> bool \<Rightarrow> trigger_event list \<Rightarrow> 'r uploader \<Rightarrow> ('r uploader \<times> upload_event list) option" where
  "trigger_loop check jitter interval enabled stopped [] c = Some (c, [])"
| "trigger_loop check jitter interval enabled stopped (StopCh # evs) c =
     trigger_loop check jitter interval enabled True evs c"
| "trigger_loop check jitter interval enabled stopped (Tick # evs) c =
     (if stopped then trigger_loop check jitter interval enabled stopped evs c else check enabled c)"
| "trigger_loop check jitter interval enabled stopped (ConfigCh cfg api # evs) c =
     (if dr_Interval (ic_DataReporting cfg) \<noteq> interval
      then Some (c\<lparr>up_uploadDelay := jitter (go_quot interval 8) 1\<rparr>, [])
      else trigger_loop check jitter interval (dr_Enabled (ic_DataReporting cfg)) stopped evs c)"

definition uploader_periodicTrigger ::
  "(bool \<Rightarrow> 'r uploader \<Rightarrow> ('r uploader \<times> upload_event list) option) \<Rightarrow> (duration \<Rightarrow> int \<Rightarrow> duration) \<Rightarrow>
   InsightsConfiguration \<Rightarrow> bool option \<Rightarrow> trigger_event list \<Rightarrow> 'r uploader \<Rightarrow>
   ('r uploader \<times> upload_event list) option" where
  "uploader_periodicTrigger check jitter cfg api evs c =
     (let disabledInAPI = (case api of None \<Rightarrow> False | Some disabled \<Rightarrow> disabled)
      in trigger_loop check jitter (dr_Interval (ic_DataReporting cfg))
           (dr_Enabled (ic_DataReporting cfg) \<and> \<not> disabledInAPI) False evs c)"

definition uploader_Run :: "time \<Rightarrow> bool \<Rightarrow> duration \<Rightarrow> 'r uploader \<Rightarrow> 'r uploader" where
  "uploader_Run now has_client initialDelay c =
     (let c = c\<lparr>up_status := UpdateStatus now healthy_summary (up_status c)\<rparr>
      in if has_client then c\<lparr>up_uploadDelay := initialDelay + 90 * Second\<rparr> else c)"

section \<open>Upload with retries\<close>

text \<open>
  \<open>Upload\<close> hands the client a copy of the source, but the reader of its contents is shared: an attempt
  returns what it leaves of the contents.  \<open>attempts k\<close> is what the k-th attempt does.  The loop is
  \<open>wait.ExponentialBackoff\<close> on a copy of the backoff, whose steps are the first argument; the closure
  counts the steps of the controller itself.
\<close>

type_synonym upload_attempt = "Source \<Rightarrow> bytes list \<times> (string \<times> int \<times> go_error option)"

definition ErrWaitTimeout :: go_error where
  "ErrWaitTimeout = Errorf ''timed out waiting for the condition''"

definition backoff_Step :: "backoff \<Rightarrow> backoff" where
  "backoff_Step b =
     (if bo_Steps b < 1 then b\<lparr>bo_Steps := 0\<rparr>
      else \<lparr>bo_Duration = 2 * bo_Duration b, bo_Steps = bo_Steps b - 1\<rparr>)"

fun upload_loop ::
  "nat \<Rightarrow> nat \<Rightarrow> (nat \<Rightarrow> upload_attempt) \<Rightarrow> Source \<Rightarrow> backoff \<Rightarrow>
   backoff \<times> Source list \<times> (string \<times> int \<times> go_error option)" where
  "upload_loop 0 k attempts s b = (b, [], ([], 0, Some ErrWaitTimeout))"
| "upload_loop (Suc n) k attempts s b =
     (case attempts k s of
        (rest, requestID, statusCode, None) \<Rightarrow> (b, [s], (requestID, statusCode, None))
      | (rest, requestID, statusCode, Some err) \<Rightarrow>
          if 1 < bo_Steps b then
            (if n = 0 then (backoff_Step b, [s], ([], statusCode, Some ErrWaitTimeout))
             else case upload_loop n (Suc k) attempts (s\<lparr>src_Contents := rest\<rparr>) (backoff_Step b) of
                    (b, sent, res) \<Rightarrow> (b, s # sent, res))
          else (b, [s], ([], statusCode, Some err)))"

definition uploader_Upload ::
  "(time \<Rightarrow> string) \<Rightarrow> time \<Rightarrow> (nat \<Rightarrow> upload_attempt) \<Rightarrow> Source \<Rightarrow> 'r uploader \<Rightarrow>
   'r uploader \<times> Source list \<times> (string \<times> int \<times> go_error option)" where
  "uploader_Upload fmt_time start attempts s c =
     (let s = s\<lparr>src_ID := fmt_time start, src_Type := periodicType\<rparr>
      in case upload_loop (bo_Steps (up_backoff c)) 0 attempts s (up_backoff c) of
           (b, sent, res) \<Rightarrow> (c\<lparr>up_backoff := b\<rparr>, sent, res))"

section \<open>The reporter as an interface\<close>

text \<open>What the uploader relies on of a reporter: the time that was set is the time that is returned.\<close>

locale status_reporter =
  fixes get_last :: "'r \<Rightarrow> time"
    and set_last :: "time \<Rightarrow> 'r \<Rightarrow> 'r"
  assumes get_set: "get_last (set_last t r) = t"
begin

lemma check_last_reported:
  assumes "checkSummaryAndSend get_last set_last jitter fmt_time cfg summary send start waiting enabled c = Some (c', evs)"
  shows "get_last (up_reporter c') =
    (if \<exists>ep s. SentArchive ep s \<in> set evs \<and> send ep s = Some None then start else get_last (up_reporter c))"
  using assms
  by (auto simp: checkSummaryAndSend_def send_failed_def send_succeeded_def get_set Let_def
      split: sum.splits option.splits if_splits)

end

interpretation co_reporter: status_reporter LastReportedTime SetLastReportedTime
  by unfold_locales (simp add: LastReportedTime_def SetLastReportedTime_def triggerStatusUpdate_def)

lemma check_sent:
  assumes "checkSummaryAndSend get_last set_last jitter fmt_time cfg summary send start waiting enabled c = Some (c', evs)"
    and "SentArchive ep s \<in> set evs"
  shows "enabled \<and> ep = dr_UploadEndpoint (ic_DataReporting cfg) \<and> ep \<noteq> [] \<and> send ep s \<noteq> None \<and>
    (\<exists>src. summary (get_last (up_reporter c)) = Inr (Some src) \<and> s = src\<lparr>src_ID := fmt_time start, src_Type := periodicType\<rparr>)"
  using assms
  by (auto simp: checkSummaryAndSend_def Let_def split: sum.splits option.splits if_splits)

lemma check_uploaded:
  assumes "checkSummaryAndSend get_last set_last jitter fmt_time cfg summary send start waiting enabled c = Some (c', evs)"
    and "ArchiveUploaded \<in> set evs"
  shows "waiting \<and> sm_Healthy (up_status c') \<and> (\<exists>ep s. SentArchive ep s \<in> set evs \<and> send ep s = Some None)"
  using assms
  by (auto simp: checkSummaryAndSend_def send_succeeded_def healthy_summary_def UpdateStatus_def zero_Summary_def
      Let_def split: sum.splits option.splits if_splits)

section \<open>Delays\<close>

definition jitter_ok :: "(duration \<Rightarrow> int \<Rightarrow> duration) \<Rightarrow> bool" where
  "jitter_ok jitter = (\<forall>d f. 0 \<le> d \<and> 0 \<le> f \<longrightarrow> d \<le> jitter d f \<and> 10 * jitter d f \<le> 10 * d + f * d)"

lemma jitter_bounds:
  assumes "jitter_ok jitter" and "0 < d" and "0 \<le> f"
  shows "0 < jitter d f" "10 * jitter d f \<le> 10 * d + f * d"
  using assms unfolding jitter_ok_def by (metis less_imp_le less_le_trans, metis less_imp_le)

lemma interval_parts:
  assumes "8 \<le> (interval :: int)"
  shows "0 < go_quot interval 8" "8 * go_quot interval 8 \<le> interval" "0 < go_quot interval 2"
    "2 * go_quot interval 2 \<le> interval"
  using assms by (simp_all add: go_quot_nonneg)

lemma check_delay:
  assumes "jitter_ok jitter" and "8 \<le> dr_Interval (ic_DataReporting cfg)"
    and "checkSummaryAndSend get_last set_last jitter fmt_time cfg summary send start waiting enabled c = Some (c', evs)"
  shows "0 < up_uploadDelay c' \<and>
    up_uploadDelay c' \<le> max (30 * Second) (dr_Interval (ic_DataReporting cfg) * 3 div 2)"
proof -
  let ?i = "dr_Interval (ic_DataReporting cfg)"
  note parts = interval_parts [OF assms(2)]
  have "up_uploadDelay c' \<in> {jitter (go_quot ?i 8) 1, jitter (15 * Second) 10, jitter (go_quot ?i 2) 20,
      jitter (go_quot ?i 8) 12}"
    using assms(3)
    by (auto simp: checkSummaryAndSend_def send_failed_def send_succeeded_def Let_def
        split: sum.splits option.splits if_splits)
  then show ?thesis
    using parts assms(2) jitter_bounds [OF assms(1) parts(1), of 1] jitter_bounds [OF assms(1) parts(1), of 12]
      jitter_bounds [OF assms(1) parts(3), of 20] jitter_bounds [OF assms(1), of "15 * Second" 10]
    by auto
qed

section \<open>Retries\<close>

lemma upload_loop_all_fail:
  assumes "\<And>k s. snd (snd (snd (attempts k s))) \<noteq> None" and "n = bo_Steps b" and "0 < n"
  shows "\<exists>b' sent res. upload_loop n k attempts s b = (b', sent, res) \<and> bo_Steps b' = 1 \<and> length sent = n"
  using assms(2,3)
proof (induction n arbitrary: k s b)
  case 0
  then show ?case by simp
next
  case (Suc n)
  obtain rest rid code e where a: "attempts k s = (rest, rid, code, Some e)"
    using assms(1) [of k s] by (metis option.exhaust prod.collapse)
  show ?case
  proof (cases n)
    case 0
    with Suc.prems have "bo_Steps b = 1" by simp
    with 0 a show ?thesis by (intro exI [of _ b] exI [of _ "[s]"]) auto
  next
    case (Suc m)
    with Suc.prems have st: "n = bo_Steps (backoff_Step b)" by (simp add: backoff_Step_def)
    have "1 < bo_Steps b" "0 < n" using Suc Suc.prems by simp_all
    moreover from Suc.IH [OF st \<open>0 < n\<close>, of "Suc k" "s\<lparr>src_Contents := rest\<rparr>"] obtain b' sent res where
      "upload_loop n (Suc k) attempts (s\<lparr>src_Contents := rest\<rparr>) (backoff_Step b) = (b', sent, res)"
      "bo_Steps b' = 1" "length sent = n" by blast
    ultimately show ?thesis using a by (intro exI [of _ b'] exI [of _ "s # sent"] exI [of _ res]) auto
  qed
qed

lemma upload_loop_one:
  assumes "bo_Steps b = 1"
  shows "\<exists>res. upload_loop 1 k attempts s b = (b, [s], res)"
  using assms by (cases "attempts k s") (auto split: option.split)

lemma upload_loop_attempts:
  "upload_loop n k attempts s b = (b', sent, res) \<Longrightarrow> length sent \<le> n \<and> bo_Steps b' \<le> bo_Steps b"
proof (induction n arbitrary: k s b b' sent res)
  case 0
  then show ?case by simp
next
  case (Suc n)
  show ?case
  proof (cases "snd (snd (snd (attempts k s))) = None \<or> bo_Steps b \<le> 1 \<or> n = 0")
    case True
    with Suc.prems show ?thesis
      by (auto simp: backoff_Step_def split: prod.splits option.splits if_splits)
  next
    case False
    then obtain rest rid code e where a: "attempts k s = (rest, rid, code, Some e)"
      by (metis option.exhaust prod.collapse)
    with Suc.prems False obtain sent' where
      l: "upload_loop n (Suc k) attempts (s\<lparr>src_Contents := rest\<rparr>) (backoff_Step b) = (b', sent', res)"
      "sent = s # sent'"
      by (auto split: prod.splits)
    from Suc.IH [OF l(1)] have "length sent' \<le> n" "bo_Steps b' \<le> bo_Steps (backoff_Step b)" by simp_all
    moreover have "bo_Steps (backoff_Step b) \<le> bo_Steps b" by (simp add: backoff_Step_def)
    ultimately show ?thesis using l(2) by simp
  qed
qed

section \<open>Properties\<close>

definition example_cfg :: InsightsConfiguration where
  "example_cfg = legacyConfigToInsightsConfiguration
     (zero_Controller\<lparr>Report := True, Endpoint := ''https://e'', Interval := 2 * Hour\<rparr>)"

definition example_uploader :: "status_state uploader" where
  "example_uploader = New_uploader (2 * Hour) 5 example_state"

lemma example_cfg_sel:
  "dr_Enabled (ic_DataReporting example_cfg)" "dr_Interval (ic_DataReporting example_cfg) = 2 * Hour"
  "dr_UploadEndpoint (ic_DataReporting example_cfg) = ''https://e''"
  by (simp_all add: example_cfg_def legacyConfigToInsightsConfiguration_def)

text \<open>
  The last reported time is the start of the last successful upload.  A check sends an archive only when
  reporting is enabled, the endpoint is set and there is something since the last report, and then sends
  exactly that source to that endpoint; the last reported time becomes the start of the check exactly when
  the client sent it without an error, and stays otherwise; and only then, with the status healthy again,
  are listeners told about an uploaded archive.
\<close>

lemma upload_reported:
  assumes "checkSummaryAndSend LastReportedTime SetLastReportedTime jitter fmt_time cfg summary send start waiting
      enabled c = Some (c', evs)"
  shows "(\<forall>ep s. SentArchive ep s \<in> set evs \<longrightarrow> enabled \<and> ep = dr_UploadEndpoint (ic_DataReporting cfg) \<and> ep \<noteq> [] \<and>
      (\<exists>src. summary (LastReportedTime (up_reporter c)) = Inr (Some src) \<and>
        s = src\<lparr>src_ID := fmt_time start, src_Type := periodicType\<rparr>)) \<and>
    LastReportedTime (up_reporter c') =
      (if \<exists>ep s. SentArchive ep s \<in> set evs \<and> send ep s = Some None then start
       else LastReportedTime (up_reporter c)) \<and>
    (ArchiveUploaded \<in> set evs \<longrightarrow>
      sm_Healthy (up_status c') \<and> (\<exists>ep s. SentArchive ep s \<in> set evs \<and> send ep s = Some None))"
  using check_sent [OF assms] check_uploaded [OF assms] co_reporter.check_last_reported [OF assms] by blast

text \<open>
  The ticker always gets a positive delay.  With an interval of at least eight nanoseconds and a jitter
  as the library documents it, the delay to the next check is positive, as a ticker needs, and at most one and
  a half intervals or half a minute, whatever the outcome of the check.
\<close>

lemma upload_delay:
  assumes "jitter_ok jitter" and "8 \<le> dr_Interval (ic_DataReporting cfg)"
    and "checkSummaryAndSend LastReportedTime SetLastReportedTime jitter fmt_time cfg summary send start waiting
      enabled c = Some (c', evs)"
  shows "0 < up_uploadDelay c' \<and>
    up_uploadDelay c' \<le> max (30 * Second) (dr_Interval (ic_DataReporting cfg) * 3 div 2)"
  using assms by (rule check_delay)

text \<open>
  A change of the configuration makes the uploader forget that the API disables gathering.  At the start
  nothing is sent while the API disables gathering; but after any change of the configuration that keeps the
  interval and leaves reporting enabled, the next tick runs the check with reporting enabled although the API
  still disables it.
\<close>

lemma api_disabling_forgotten:
  assumes "dr_Interval (ic_DataReporting cfg') = dr_Interval (ic_DataReporting cfg)"
    and "dr_Enabled (ic_DataReporting cfg')"
  shows "uploader_periodicTrigger check jitter cfg (Some True) (Tick # evs) c = check False c \<and>
    uploader_periodicTrigger check jitter cfg (Some True) (ConfigCh cfg' (Some True) # Tick # evs) c = check True c"
  using assms by (simp add: uploader_periodicTrigger_def)

text \<open>
  Retries of an upload.  An upload makes at most as many attempts as the backoff of the controller has
  steps and never gives steps back; so once an upload of a new controller has failed in all its four attempts,
  every later upload makes exactly one attempt.
\<close>

lemma upload_attempts:
  assumes "bo_Steps (up_backoff c) = 4" and "\<And>k s. snd (snd (snd (attempts k s))) \<noteq> None"
    and "uploader_Upload fmt_time start attempts s c = (c', sent, res)"
    and "uploader_Upload fmt_time start' attempts' s' c' = (c'', sent', res')"
  shows "length sent = 4 \<and> bo_Steps (up_backoff c') = 1 \<and> length sent' = 1 \<and> bo_Steps (up_backoff c'') = 1"
proof -
  let ?s = "s\<lparr>src_ID := fmt_time start, src_Type := periodicType\<rparr>"
  let ?s' = "s'\<lparr>src_ID := fmt_time start', src_Type := periodicType\<rparr>"
  from upload_loop_all_fail [of attempts 4 "up_backoff c" 0 ?s] assms(1,2) obtain b sent0 r where
    "upload_loop 4 0 attempts ?s (up_backoff c) = (b, sent0, r)" "bo_Steps b = 1" "length sent0 = 4" by auto
  with assms(1,3) have 1: "length sent = 4" "bo_Steps (up_backoff c') = 1"
    by (auto simp: uploader_Upload_def Let_def)
  with upload_loop_one [OF 1(2), of 0 attempts' ?s'] assms(4) have "length sent' = 1" "up_backoff c'' = up_backoff c'"
    by (auto simp: uploader_Upload_def Let_def)
  with 1 show ?thesis by simp
qed

text \<open>
  A retried upload does not send the archive again.  The contents are a reader that the failed attempt
  has read from: the second attempt gets the source with what the first one left, and its success is
  reported as the success of the upload.
\<close>

lemma retry_sends_rest:
  assumes "2 \<le> bo_Steps (up_backoff c)"
    and "attempts 0 (s\<lparr>src_ID := fmt_time start, src_Type := periodicType\<rparr>) = (rest, rid, code, Some e)"
    and "attempts 1 (s\<lparr>src_ID := fmt_time start, src_Type := periodicType, src_Contents := rest\<rparr>) =
      (rest', rid', code', None)"
  shows "\<exists>c'. uploader_Upload fmt_time start attempts s c =
    (c', [s\<lparr>src_ID := fmt_time start, src_Type := periodicType\<rparr>,
          s\<lparr>src_ID := fmt_time start, src_Type := periodicType, src_Contents := rest\<rparr>], (rid', code', None))"
proof -
  obtain n where "bo_Steps (up_backoff c) = Suc (Suc n)"
    using assms(1) by (metis Suc_le_D numeral_2_eq_2 Suc_le_mono)
  with assms(2,3) show ?thesis by (simp add: uploader_Upload_def Let_def)
qed

end
