(* ===== verification/GatherCommands.thy ===== *)
theory GatherCommands
  imports Conditional Uploader
begin

text \<open>
  The gathering job: pkg/controller/gather_commands.go and pkg/controller/common.go.

  \<open>GatherAndUpload\<close> is what a gathering job runs: it reads its DataGather resource, gathers, records the archive,
  uploads it, waits until it is processed and keeps the status of the resource up to date.  The server that holds the
  resource is part of the state (\<open>dg_server\<close>): the outcome of its k-th status update is an argument.  An update
  that fails returns an empty object, as the generated client does, and the server refuses a resource without a name.
  Constructors of clients, the file system, the gatherers, the attempts to upload and the answers of the processing
  service are arguments.  The context of a job ends after some time: the number of polls it leaves room for is an argument.
\<close>

section \<open>Storage\<close>

abbreviation StorageTypePersistentVolume :: string where "StorageTypePersistentVolume \<equiv> ''PersistentVolume''"

definition numberOfStatusQueryRetries :: nat where "numberOfStatusQueryRetries = 3"
definition maxGatherJobArchives :: nat where "maxGatherJobArchives = 5"

definition getCustomStoragePath :: "InsightsConfiguration \<Rightarrow> DataGatherResource option \<Rightarrow> string" where
  "getCustomStoragePath cfg dataGatherCR =
     (let defaultPath = dr_StoragePath (ic_DataReporting cfg)
      in case dataGatherCR of
           None \<Rightarrow> defaultPath
         | Some dg \<Rightarrow>
             if dgr_Storage dg = zero_Storage \<or> sto_Type (dgr_Storage dg) \<noteq> StorageTypePersistentVolume then defaultPath
             else if (sto_MountPath (dgr_Storage dg) \<noteq> [] \<or> sto_ClaimName (dgr_Storage dg) \<noteq> []) \<and>
                     sto_MountPath (dgr_Storage dg) \<noteq> []
             then sto_MountPath (dgr_Storage dg) else defaultPath)"

text \<open>The storage path of the job, from its own configuration, the configuration of the cluster and the resource.\<close>

definition job_storage_path :: "string \<Rightarrow> InsightsConfiguration \<Rightarrow> DataGatherResource \<Rightarrow> string" where
  "job_storage_path own cfg dg =
     (let p = (if getCustomStoragePath cfg (Some dg) \<noteq> [] then getCustomStoragePath cfg (Some dg) else own)
      in if sto_Type (dgr_Storage dg) = StorageTypePersistentVolume \<and> sto_MountPath (dgr_Storage dg) \<noteq> []
         then sto_MountPath (dgr_Storage dg) else p)"

text \<open>\<open>fs_stat\<close> and \<open>fs_mkdir\<close> are the errors of \<open>os.Stat\<close> and \<open>os.MkdirAll\<close>.\<close>

record path_fs =
  fs_stat :: "string \<Rightarrow> go_error option"
  fs_mkdir :: "string \<Rightarrow> go_error option"

definition make_path :: "path_fs \<Rightarrow> string \<Rightarrow> go_error option" where
  "make_path fs path =
     (case fs_stat fs path of
        Some err \<Rightarrow>
          (if isNotFound err
           then map_option (\<lambda>e. Errorf ([CHR ''c'', CHR ''a'', CHR ''n'', CHR 0x27] @ ''t create --path: '' @ error_text e)) (fs_mkdir fs path)
           else None)
      | None \<Rightarrow> None)"

definition storagePathExists :: "path_fs \<Rightarrow> string \<Rightarrow> go_error option" where
  "storagePathExists fs path = make_path fs path"

definition pathIsAvailable :: "path_fs \<Rightarrow> string \<Rightarrow> bool \<times> go_error option" where
  "pathIsAvailable fs path = (case make_path fs path of Some err \<Rightarrow> (False, Some err) | None \<Rightarrow> (True, None))"

section \<open>Is the archive processed\<close>

text \<open>
  An answer of the processing service: no answer, a status other than 200, or a body, which may be missing, fail to be
  read or decoded, or say a status.
\<close>

datatype process_answer =
    NetworkError go_error
  | StatusAnswer int
  | EmptyBody
  | BodyAnswer "string result"

record retryCounter =
  rt_network :: nat
  rt_request :: nat
  rt_status :: nat
  rt_max :: nat

text \<open>\<open>http.StatusText\<close>, empty for a code it does not know.\<close>

definition StatusText :: "int \<Rightarrow> string" where
  "StatusText code =
     (case map_of [(100, ''Continue''), (101, ''Switching Protocols''), (102, ''Processing''), (103, ''Early Hints''),
        (200, ''OK''), (201, ''Created''), (202, ''Accepted''), (203, ''Non-Authoritative Information''), (204, ''No Content''),
        (205, ''Reset Content''), (206, ''Partial Content''), (207, ''Multi-Status''), (208, ''Already Reported''),
        (226, ''IM Used''), (300, ''Multiple Choices''), (301, ''Moved Permanently''), (302, ''Found''),
        (303, ''See Other''), (304, ''Not Modified''), (305, ''Use Proxy''), (307, ''Temporary Redirect''),
        (308, ''Permanent Redirect''), (400, ''Bad Request''), (401, ''Unauthorized''), (402, ''Payment Required''),
        (403, ''Forbidden''), (404, ''Not Found''), (405, ''Method Not Allowed''), (406, ''Not Acceptable''),
        (407, ''Proxy Authentication Required''), (408, ''Request Timeout''), (409, ''Conflict''), (410, ''Gone''),
        (411, ''Length Required''), (412, ''Precondition Failed''), (413, ''Request Entity Too Large''),
        (414, ''Request URI Too Long''), (415, ''Unsupported Media Type''), (416, ''Requested Range Not Satisfiable''),
        (417, ''Expectation Failed''), (418, ''I'' @ [CHR 0x27] @ ''m a teapot''), (421, ''Misdirected Request''),
        (422, ''Unprocessable Entity''), (423, ''Locked''), (424, ''Failed Dependency''), (425, ''Too Early''),
        (426, ''Upgrade Required''), (428, ''Precondition Required''), (429, ''Too Many Requests''),
        (431, ''Request Header Fields Too Large''), (451, ''Unavailable For Legal Reasons''),
        (500, ''Internal Server Error''), (501, ''Not Implemented''), (502, ''Bad Gateway''), (503, ''Service Unavailable''),
        (504, ''Gateway Timeout''), (505, ''HTTP Version Not Supported''), (506, ''Variant Also Negotiates''),
        (507, ''Insufficient Storage''), (508, ''Loop Detected''), (510, ''Not Extended''),
        (511, ''Network Authentication Required'')] code of None \<Rightarrow> [] | Some s \<Rightarrow> s)"

definition networkRetry :: "go_error \<Rightarrow> retryCounter \<Rightarrow> retryCounter \<times> go_error option" where
  "networkRetry err c =
     (if rt_network c \<ge> rt_max c
      then (c, Some (Errorf (''failed to check processing status after '' @ itoa (int (rt_network c)) @ '' retries: '' @ error_text err)))
      else (c\<lparr>rt_network := rt_network c + 1\<rparr>, None))"

definition requestRetry :: "int \<Rightarrow> retryCounter \<Rightarrow> retryCounter \<times> go_error option" where
  "requestRetry code c =
     (if rt_request c \<ge> rt_max c then (c, Some (Errorf (''HTTP status message: '' @ StatusText code)))
      else (c\<lparr>rt_request := rt_request c + 1\<rparr>, None))"

definition statusRetry :: "string \<Rightarrow> retryCounter \<Rightarrow> retryCounter \<times> bool \<times> go_error option" where
  "statusRetry processingRespStatus c =
     (if rt_status c \<ge> rt_max c
      then (c, False, Some (Errorf (''data processing status is '' @ [CHR 0x22] @ processingRespStatus @ [CHR 0x22] @ '' after '' @
              itoa (int (rt_status c)) @ '' retries, stopping poll'')))
      else (c\<lparr>rt_status := rt_status c + 1\<rparr>, False, None))"

definition processSuccessfulResponse :: "string result option \<Rightarrow> retryCounter \<Rightarrow> retryCounter \<times> bool \<times> go_error option" where
  "processSuccessfulResponse respBody c =
     (case respBody of
        None \<Rightarrow> (c, False, None)
      | Some (Inl err) \<Rightarrow> (c, False, Some err)
      | Some (Inr status) \<Rightarrow> if status \<noteq> ''processed'' then statusRetry status c else (c, True, None))"

definition poll_processed :: "process_answer \<Rightarrow> retryCounter \<Rightarrow> retryCounter \<times> bool \<times> go_error option" where
  "poll_processed a c =
     (case a of
        NetworkError err \<Rightarrow> (case networkRetry err c of (c, e) \<Rightarrow> (c, False, e))
      | StatusAnswer code \<Rightarrow> (case requestRetry code c of (c, e) \<Rightarrow> (c, False, e))
      | EmptyBody \<Rightarrow> processSuccessfulResponse None c
      | BodyAnswer b \<Rightarrow> processSuccessfulResponse (Some b) c)"

definition contextError :: go_error where "contextError = Errorf ''context deadline exceeded''"

text \<open>
  \<open>wait.PollUntilContextCancel\<close>: the first argument is the number of polls before the context ends.  The result has
  the number of polls that were made.
\<close>

fun poll_loop :: "nat \<Rightarrow> (nat \<Rightarrow> process_answer) \<Rightarrow> nat \<Rightarrow> retryCounter \<Rightarrow> nat \<times> go_error option" where
  "poll_loop 0 answer k c = (k, Some contextError)"
| "poll_loop (Suc n) answer k c =
     (case poll_processed (answer k) c of
        (c, _, Some err) \<Rightarrow> (Suc k, Some err)
      | (c, True, None) \<Rightarrow> (Suc k, None)
      | (c, False, None) \<Rightarrow> poll_loop n answer (Suc k) c)"

definition new_retryCounter :: retryCounter where
  "new_retryCounter = \<lparr>rt_network = 0, rt_request = 0, rt_status = 0, rt_max = numberOfStatusQueryRetries\<rparr>"

definition job_wasDataProcessed :: "nat \<Rightarrow> (nat \<Rightarrow> process_answer) \<Rightarrow> bool \<times> go_error option" where
  "job_wasDataProcessed polls answer =
     (case poll_loop polls answer 0 new_retryCounter of
        (_, Some err) \<Rightarrow> (False, Some err)
      | (_, None) \<Rightarrow> (True, None))"

section \<open>The resource on the server\<close>

record dg_server =
  sv_stored :: DataGather
  sv_updates :: nat

definition server_answer :: "(nat \<Rightarrow> go_error option) \<Rightarrow> dg_server \<Rightarrow> DataGather \<Rightarrow> DataGather result" where
  "server_answer fails s dg =
     (if dg_Name dg = [] then Inl (Errorf ''resource name may not be empty'')
      else case fails (sv_updates s) of Some err \<Rightarrow> Inl err | None \<Rightarrow> Inr dg)"

definition server_after :: "DataGather result \<Rightarrow> dg_server \<Rightarrow> dg_server" where
  "server_after res s =
     s\<lparr>sv_updates := Suc (sv_updates s), sv_stored := (case res of Inr dg \<Rightarrow> dg | Inl _ \<Rightarrow> sv_stored s)\<rparr>"

text \<open>An update whose error is only logged: the resource is then the empty object that the client returns.\<close>

definition job_conditions ::
  "(nat \<Rightarrow> go_error option) \<Rightarrow> DataGather \<Rightarrow> MetaCondition list \<Rightarrow> dg_server \<Rightarrow> dg_server \<times> DataGather \<times> go_error option" where
  "job_conditions fails dg conditions s =
     (let res = snd (UpdateDataGatherConditions (server_answer fails s) (Some dg) conditions)
      in (server_after res s, case res of Inr dg \<Rightarrow> (dg, None) | Inl err \<Rightarrow> (zero_DataGather [], Some err)))"

definition job_progress ::
  "(nat \<Rightarrow> go_error option) \<Rightarrow> time \<Rightarrow> DataGather \<Rightarrow> string \<Rightarrow> dg_server \<Rightarrow> dg_server \<times> DataGather result" where
  "job_progress fails now dg state s =
     (let res = UpdateProgressingCondition (Inr dg) (server_answer fails s) now (Some dg) state
      in (server_after res s, res))"

definition updateDataGatherStatus ::
  "(nat \<Rightarrow> go_error option) \<Rightarrow> time \<Rightarrow> DataGather option \<Rightarrow> MetaCondition option \<Rightarrow> string \<Rightarrow> dg_server \<Rightarrow> dg_server" where
  "updateDataGatherStatus fails now dataGatherCR conditionToUpdate gatheringStatus s =
     (case (dataGatherCR, conditionToUpdate) of
        (Some dg, Some condition) \<Rightarrow>
          (case job_progress fails now dg gatheringStatus s of
             (s, Inl err) \<Rightarrow> s
           | (s, Inr updated) \<Rightarrow>
               fst (job_conditions fails updated [ProgressingCondition now gatheringStatus, condition] s))
      | _ \<Rightarrow> s)"

section \<open>Gathering\<close>

fun run_gatherers ::
  "'r record_op \<Rightarrow> (Task list \<Rightarrow> GatheringFunctionResult list) \<Rightarrow> GathererConfig list \<Rightarrow> periodic_gatherer list \<Rightarrow>
   'r \<times> reports \<times> RemoteConfigStatus option \<Rightarrow> ('r \<times> reports \<times> RemoteConfigStatus option) option" where
  "run_gatherers rcd sched cfgs [] st = Some st"
| "run_gatherers rcd sched cfgs (g # gs) (r, reports, remote) =
     (case CollectAndRecordGatherer rcd sched (pg_elapsed g) (pg_gatherer g) cfgs r of
        None \<Rightarrow> None
      | Some (r, functionReports, err) \<Rightarrow>
          run_gatherers rcd sched cfgs gs
            (r, fold (\<lambda>fr. map_put (gr_FuncName fr) fr) functionReports reports,
             case pg_remote g of Some rc \<Rightarrow> Some rc | None \<Rightarrow> remote))"

text \<open>\<open>GatherJob.Gather\<close> after its clients are made: the archive is flushed at the end, whatever happened.\<close>

record 'r job_run_env =
  rn_record :: "'r record_op"
  rn_flush :: "'r \<Rightarrow> 'r \<times> go_error option"
  rn_sched :: "Task list \<Rightarrow> GatheringFunctionResult list"
  rn_to_json :: "ArchiveMetadata \<Rightarrow> bytes option result"
  rn_obfuscated :: bool
  rn_gatherers :: "periodic_gatherer list"
  rn_uptime :: duration

record job_setup =
  js_kubeClient :: "go_error option"
  js_insightsClient :: "go_error option"
  js_fs :: path_fs
  js_anonymizer :: "go_error option"
  js_configClient :: "go_error option"

definition gather_metadata :: "'r job_run_env \<Rightarrow> reports \<Rightarrow> 'r \<Rightarrow> ('r \<times> go_error option) option" where
  "gather_metadata e reports r =
     RecordArchiveMetadata (rn_record e) (rn_to_json e) (FunctionReportsMapToArray reports) (rn_uptime e) (rn_obfuscated e) r"

text \<open>
  The deferred flush assigns its own error to a variable that is not the result.
\<close>

definition job_Gather :: "job_setup \<Rightarrow> 'r job_run_env \<Rightarrow> string \<Rightarrow> 'r \<Rightarrow> ('r \<times> go_error option) option" where
  "job_Gather su e storagePath r =
     (case js_kubeClient su of Some err \<Rightarrow> Some (r, Some err) | None \<Rightarrow>
      (case storagePathExists (js_fs su) storagePath of Some err \<Rightarrow> Some (r, Some err) | None \<Rightarrow>
       (case js_anonymizer su of Some err \<Rightarrow> Some (r, Some err) | None \<Rightarrow>
        (case js_configClient su of
           Some err \<Rightarrow> Some (fst (rn_flush e r), Some err)
         | None \<Rightarrow>
             (case run_gatherers (rn_record e) (rn_sched e) [] (rn_gatherers e) (r, [], None) of
                None \<Rightarrow> None
              | Some (r, reports, _) \<Rightarrow>
                  map_option (\<lambda>(r, err). (fst (rn_flush e r), err)) (gather_metadata e reports r))))))"

fun add_gatherer_statuses :: "time \<Rightarrow> GathererFunctionReport list \<Rightarrow> DataGather \<Rightarrow> DataGather result" where
  "add_gatherer_statuses now [] dg = Inr dg"
| "add_gatherer_statuses now (fr # frs) dg =
     (if gr_Duration fr = 0 then add_gatherer_statuses now frs dg
      else case CreateDataGatherGathererStatus now fr of
             Inl err \<Rightarrow> Inl err
           | Inr gs \<Rightarrow> add_gatherer_statuses now frs (dg\<lparr>dg_Gatherers := dg_Gatherers dg @ [gs]\<rparr>))"

definition zero_RemoteConfigStatus :: RemoteConfigStatus where
  "zero_RemoteConfigStatus =
     \<lparr>rcs_Err = None, rcs_AvailableReason = [], rcs_ValidReason = [], rcs_ConfigData = None, rcs_ConfigAvailable = False,
      rcs_ConfigValid = False\<rparr>"

text \<open>The recorder is shared: what was recorded stays recorded when an error is returned.\<close>

definition gatherAndReportFunctions ::
  "'r job_run_env \<Rightarrow> time \<Rightarrow> Gatherers \<Rightarrow> DataGather \<Rightarrow> 'r \<Rightarrow> ('r \<times> (reports \<times> RemoteConfigStatus \<times> DataGather) result) option" where
  "gatherAndReportFunctions e now gatherersSpec dg r =
     (let gatheringConfig = (if ga_Mode gatherersSpec = GatheringModeCustom then ga_Configs gatherersSpec else [])
      in case run_gatherers (rn_record e) (rn_sched e) gatheringConfig (rn_gatherers e) (r, [], None) of
           None \<Rightarrow> None
         | Some (r, allFunctionReports, remote) \<Rightarrow>
             Some (r, map_sum id
               (\<lambda>dg. (allFunctionReports, case remote of Some rc \<Rightarrow> rc | None \<Rightarrow> zero_RemoteConfigStatus, dg))
               (add_gatherer_statuses now (map snd allFunctionReports) dg)))"

section \<open>The conditions of the remote configuration\<close>

definition boolToConditionStatus :: "bool \<Rightarrow> string" where
  "boolToConditionStatus b = (if b then ConditionTrue else ConditionFalse)"

text \<open>The error is read when the configuration is not available or not valid; a nil error panics.\<close>

definition createRemoteConfigConditions ::
  "time \<Rightarrow> RemoteConfigStatus option \<Rightarrow> (MetaCondition \<times> MetaCondition) option" where
  "createRemoteConfigConditions now remoteConfStatus =
     (let available = RemoteConfigurationAvailableCondition now ConditionUnknown ''RemoteConfigNotRequestedYet'' [];
          valid = RemoteConfigurationValidCondition now ConditionUnknown ''NoValidationYet'' []
      in case remoteConfStatus of
           None \<Rightarrow> Some (available, valid)
         | Some rc \<Rightarrow>
             let available = available\<lparr>mc_Status := boolToConditionStatus (rcs_ConfigAvailable rc), mc_Reason := rcs_AvailableReason rc\<rparr>
             in if \<not> rcs_ConfigAvailable rc then
                  map_option (\<lambda>err. (available\<lparr>mc_Message := error_text err\<rparr>, valid)) (rcs_Err rc)
                else
                  let valid = valid\<lparr>mc_Status := boolToConditionStatus (rcs_ConfigValid rc), mc_Reason := rcs_ValidReason rc\<rparr>
                  in if rcs_ConfigValid rc then Some (available, valid)
                     else map_option (\<lambda>err. (available, valid\<lparr>mc_Message := error_text err\<rparr>)) (rcs_Err rc))"

section \<open>Recording, uploading, processing\<close>

text \<open>\<open>je_last\<close> is the last archive of the storage directory, with its content as the uploader reads it.\<close>

record 'r job_env =
  je_run :: "'r job_run_env"
  je_setup :: job_setup
  je_resource :: "DataGatherResource result"
  je_config :: InsightsConfiguration
  je_fails :: "nat \<Rightarrow> go_error option"
  je_last :: "'r \<Rightarrow> Source option result"
  je_attempts :: "nat \<Rightarrow> upload_attempt"
  je_backoff :: backoff
  je_fmt_time :: "time \<Rightarrow> string"
  je_polls :: nat
  je_processed :: "nat \<Rightarrow> process_answer"
  je_prune :: "'r \<Rightarrow> ('r \<times> go_error option) option"
  je_now :: time

definition recordAllData :: "'r job_env \<Rightarrow> reports \<Rightarrow> 'r \<Rightarrow> ('r \<times> Source option result) option" where
  "recordAllData e reports r =
     (case gather_metadata (je_run e) reports r of
        None \<Rightarrow> None
      | Some (r, Some err) \<Rightarrow> Some (r, Inl err)
      | Some (r, None) \<Rightarrow>
          (case rn_flush (je_run e) r of
             (r, Some err) \<Rightarrow> Some (r, Inl err)
           | (r, None) \<Rightarrow> Some (r, je_last e r)))"

definition job_upload :: "'r job_env \<Rightarrow> Source \<Rightarrow> string \<times> int \<times> go_error option" where
  "job_upload e s =
     snd (snd (uploader_Upload (je_fmt_time e) (je_now e) (je_attempts e) s
       \<lparr>up_status = zero_Summary, up_uploadDelay = 0, up_backoff = je_backoff e, up_reporter = ()\<rparr>))"

text \<open>The end of the job, once the archive is uploaded.\<close>

definition finish_processed ::
  "'r job_env \<Rightarrow> DataGather \<Rightarrow> string \<Rightarrow> dg_server \<Rightarrow> 'r \<Rightarrow> (dg_server \<times> 'r \<times> go_error option) option" where
  "finish_processed e dg insightsRequestID s r =
     (case job_wasDataProcessed (je_polls e) (je_processed e) of
        (processed, err) \<Rightarrow>
          let condition = DataProcessedCondition (je_now e) ConditionTrue ''Processed'' []
          in if err \<noteq> None \<or> \<not> processed then
               Some (updateDataGatherStatus (je_fails e) (je_now e) (Some dg)
                   (Some (condition\<lparr>mc_Status := ConditionFalse, mc_Reason := ''Failed'',
                      mc_Message := ''failed to process data in the given time: '' @ (case err of None \<Rightarrow> ''<nil>'' | Some e \<Rightarrow> error_text e)\<rparr>))
                   GatheringFailedReason s, r, err)
             else
               map_option (\<lambda>(r, _). (updateDataGatherStatus (je_fails e) (je_now e) (Some dg) (Some condition)
                   GatheringSucceededReason s, r, None)) (je_prune e r))"

text \<open>From the recorded archive on; a directory without an archive gives a nil source, which the upload dereferences.\<close>

definition upload_archive ::
  "'r job_env \<Rightarrow> DataGather \<Rightarrow> Source option \<Rightarrow> dg_server \<Rightarrow> 'r \<Rightarrow> (dg_server \<times> 'r \<times> go_error option) option" where
  "upload_archive e dg lastArchive s r =
     (case lastArchive of
        None \<Rightarrow> None
      | Some src \<Rightarrow>
          (case job_upload e src of
             (insightsRequestID, statusCode, Some err) \<Rightarrow>
               Some (updateDataGatherStatus (je_fails e) (je_now e) (Some dg)
                   (Some (DataUploadedCondition (je_now e) ConditionFalse ''Failed''
                      (''Failed to upload data err: '' @ error_text err @ '' with http status code: '' @ itoa statusCode)))
                   GatheringFailedReason s, r, Some err)
           | (insightsRequestID, statusCode, None) \<Rightarrow>
               (case job_conditions (je_fails e) (dg\<lparr>dg_InsightsRequestID := insightsRequestID\<rparr>)
                       [DataUploadedCondition (je_now e) ConditionTrue SucceededReason
                          (''Succeeded with http status code: '' @ itoa statusCode)] s of
                  (s, dg, _) \<Rightarrow> finish_processed e dg insightsRequestID s r)))"

definition record_archive ::
  "'r job_env \<Rightarrow> DataGather \<Rightarrow> reports \<Rightarrow> dg_server \<Rightarrow> 'r \<Rightarrow> (dg_server \<times> 'r \<times> go_error option) option" where
  "record_archive e dg reports s r =
     (let condition = DataRecordedCondition (je_now e) ConditionTrue SucceededReason []
      in case recordAllData e reports r of
           None \<Rightarrow> None
         | Some (r, Inl err) \<Rightarrow>
             Some (updateDataGatherStatus (je_fails e) (je_now e) (Some dg)
                 (Some (condition\<lparr>mc_Status := ConditionFalse, mc_Reason := ''RecordingFailed'',
                    mc_Message := ''Failed to record data: '' @ error_text err\<rparr>)) GatheringFailedReason s, r, Some err)
         | Some (r, Inr lastArchive) \<Rightarrow>
             (case job_conditions (je_fails e) dg [condition] s of
                (s, dg, _) \<Rightarrow> upload_archive e dg lastArchive s r))"

text \<open>From the resource in the state \<open>Gathering\<close> on.\<close>

definition run_job ::
  "'r job_env \<Rightarrow> DataGather \<Rightarrow> Gatherers \<Rightarrow> dg_server \<Rightarrow> 'r \<Rightarrow> (dg_server \<times> 'r \<times> go_error option) option" where
  "run_job e dg gatherersSpec s r =
     (case gatherAndReportFunctions (je_run e) (je_now e) gatherersSpec dg r of
        None \<Rightarrow> None
      | Some (r, Inl err) \<Rightarrow> Some (s, r, Some err)
      | Some (r, Inr (reports, remoteConfStatus, dg)) \<Rightarrow>
          (case rn_record (je_run e) (remote_record remoteConfStatus) r of
             None \<Rightarrow> None
           | Some (r, _) \<Rightarrow>
               (case createRemoteConfigConditions (je_now e) (Some remoteConfStatus) of
                  None \<Rightarrow> None
                | Some (available, valid) \<Rightarrow>
                    (case job_conditions (je_fails e) dg [available, valid] s of
                       (s, dg, _) \<Rightarrow> record_archive e dg reports s r))))"

definition GatherAndUpload ::
  "'r job_env \<Rightarrow> string \<Rightarrow> dg_server \<Rightarrow> 'r \<Rightarrow> (dg_server \<times> 'r \<times> go_error option) option" where
  "GatherAndUpload e storagePath s r =
     (case js_kubeClient (je_setup e) of Some err \<Rightarrow> Some (s, r, Some err) | None \<Rightarrow>
      (case js_insightsClient (je_setup e) of Some err \<Rightarrow> Some (s, r, Some err) | None \<Rightarrow>
       (case je_resource e of Inl err \<Rightarrow> Some (s, r, Some err) | Inr dataGatherCR \<Rightarrow>
        (case storagePathExists (js_fs (je_setup e)) (job_storage_path storagePath (je_config e) dataGatherCR) of
           Some err \<Rightarrow> Some (s, r, Some err)
         | None \<Rightarrow>
             (case js_anonymizer (je_setup e) of Some err \<Rightarrow> Some (s, r, Some err) | None \<Rightarrow>
              (case js_configClient (je_setup e) of Some err \<Rightarrow> Some (s, r, Some err) | None \<Rightarrow>
               (case job_progress (je_fails e) (je_now e) (dgr_status dataGatherCR) GatheringReason s of
                  (s, Inl err) \<Rightarrow> Some (s, r, Some err)
                | (s, Inr dg) \<Rightarrow> run_job e dg (dgr_Gatherers dataGatherCR) s r)))))))"

section \<open>Updates of the resource\<close>

lemma job_conditions_ok:
  assumes "fails (sv_updates s) = None" and "dg_Name dg \<noteq> []"
  shows "job_conditions fails dg cs s =
    (let dg' = dg\<lparr>dg_Conditions := fold put_condition cs (dg_Conditions dg)\<rparr>
     in (s\<lparr>sv_updates := Suc (sv_updates s), sv_stored := dg'\<rparr>, dg', None))"
  using assms by (simp add: job_conditions_def UpdateDataGatherConditions_def server_answer_def server_after_def Let_def)

lemma progress_time_name [simp]:
  "dg_Name (progress_time now state dg) = dg_Name dg" "dg_InsightsRequestID (progress_time now state dg) = dg_InsightsRequestID dg"
  by (simp_all add: progress_time_def)

lemma job_progress_ok:
  assumes "fails (sv_updates s) = None" and "dg_Name dg \<noteq> []"
  shows "job_progress fails now dg state s =
    (let dg' = (progress_time now state dg)\<lparr>dg_Conditions := put_condition (ProgressingCondition now state) (dg_Conditions dg)\<rparr>
     in (s\<lparr>sv_updates := Suc (sv_updates s), sv_stored := dg'\<rparr>, Inr dg'))"
  using assms by (simp add: job_progress_def UpdateProgressingCondition_def UpdateDataGatherConditions_def server_answer_def
      server_after_def progress_time_sel Let_def)

lemma updateDataGatherStatus_ok:
  assumes "\<And>k. fails k = None" and "dg_Name dg \<noteq> []" and "mc_Type c \<noteq> ProgressingType"
  shows "sv_updates (updateDataGatherStatus fails now (Some dg) (Some c) state s) = sv_updates s + 2"
    and "GetConditionByType (sv_stored (updateDataGatherStatus fails now (Some dg) (Some c) state s)) k =
      (if k = mc_Type c then Some c else if k = ProgressingType then Some (ProgressingCondition now state)
       else GetConditionByType dg k)"
    and "dg_InsightsRequestID (sv_stored (updateDataGatherStatus fails now (Some dg) (Some c) state s)) = dg_InsightsRequestID dg"
  using assms meta.get_put_same [of "ProgressingCondition now state"] meta.get_put_other [of _ "ProgressingCondition now state"]
    meta.get_put_same [of c] meta.get_put_other [of _ c]
  by (simp_all add: updateDataGatherStatus_def job_progress_ok job_conditions_ok GetConditionByType_eq Let_def)

text \<open>A resource without a name is never stored.\<close>

lemma nameless_kept:
  assumes "dg_Name dg = []"
  shows "sv_stored (fst (job_conditions fails dg cs s)) = sv_stored s"
    and "fst (snd (job_conditions fails dg cs s)) = zero_DataGather []"
    and "sv_stored (updateDataGatherStatus fails now (Some dg) c state s) = sv_stored s"
  using assms by (auto simp: job_conditions_def job_progress_def updateDataGatherStatus_def UpdateDataGatherConditions_def
      UpdateProgressingCondition_def server_answer_def server_after_def Let_def split: option.split)

lemma zero_DataGather_name [simp]: "dg_Name (zero_DataGather n) = n"
  by (simp add: zero_DataGather_def)

section \<open>The end of a job\<close>

definition settled :: "DataGather \<Rightarrow> bool \<Rightarrow> bool" where
  "settled dg ok =
     (\<exists>con. GetConditionByType dg ProgressingType = Some con \<and> isProgressingConditionFinished con \<and>
        (mc_Reason con = GatheringSucceededReason) = ok)"

lemma finished_ProgressingCondition:
  "isProgressingConditionFinished (ProgressingCondition now GatheringSucceededReason)"
  "isProgressingConditionFinished (ProgressingCondition now GatheringFailedReason)"
  "mc_Reason (ProgressingCondition now state) = state"
  by (simp_all add: isProgressingConditionFinished_def ProgressingCondition_def gathering_reasons)

lemma condition_types:
  "mc_Type (DataUploadedCondition now st rs ms) = DataUploaded" "mc_Type (DataRecordedCondition now st rs ms) = DataRecorded"
  "mc_Type (DataProcessedCondition now st rs ms) = DataProcessed"
  "DataUploaded \<noteq> ProgressingType" "DataRecorded \<noteq> ProgressingType" "DataProcessed \<noteq> ProgressingType"
  "DataUploaded \<noteq> DataRecorded" "DataRecorded \<noteq> DataProcessed" "DataUploaded \<noteq> DataProcessed"
  by (simp_all add: DataUploadedCondition_def DataRecordedCondition_def DataProcessedCondition_def DataUploaded_def
      DataRecorded_def DataProcessed_def ProgressingType_def)

lemma reasons_distinct: "GatheringSucceededReason \<noteq> GatheringFailedReason"
  by (simp add: gathering_reasons)

lemma update_settles:
  assumes "\<And>k. fails k = None" and "dg_Name dg \<noteq> []" and "mc_Type c \<noteq> ProgressingType"
    and "state = (if ok then GatheringSucceededReason else GatheringFailedReason)"
  shows "settled (sv_stored (updateDataGatherStatus fails now (Some dg) (Some c) state s)) ok"
  using assms reasons_distinct unfolding settled_def by (auto simp: updateDataGatherStatus_ok finished_ProgressingCondition)

lemma finish_processed_settles:
  assumes "finish_processed e dg rid s r = Some (s', r', res)" and "\<And>k. je_fails e k = None" and "dg_Name dg \<noteq> []"
  shows "settled (sv_stored s') (res = None) \<and> sv_updates s' = sv_updates s + 2 \<and>
    dg_InsightsRequestID (sv_stored s') = dg_InsightsRequestID dg \<and>
    wasDataProcessed (sv_stored s') = (res = None) \<and>
    (\<forall>k. k \<in> {DataUploaded, DataRecorded} \<longrightarrow> GetConditionByType (sv_stored s') k = GetConditionByType dg k)"
proof -
  obtain processed err where p: "job_wasDataProcessed (je_polls e) (je_processed e) = (processed, err)" by fastforce
  then have pe: "processed = (err = None)" by (auto simp: job_wasDataProcessed_def split: prod.splits option.splits)
  note upd = updateDataGatherStatus_ok [of "je_fails e", OF assms(2,3)] condition_types
    update_settles [of "je_fails e" dg _ GatheringSucceededReason True, OF assms(2,3)]
    update_settles [of "je_fails e" dg _ GatheringFailedReason False, OF assms(2,3)]
  show ?thesis
  proof (cases err)
    case None
    let ?c = "DataProcessedCondition (je_now e) ConditionTrue ''Processed'' []"
    from None assms(1) p pe
    have "s' = updateDataGatherStatus (je_fails e) (je_now e) (Some dg) (Some ?c) GatheringSucceededReason s" "res = None"
      by (auto simp: finish_processed_def Let_def)
    moreover have "mc_Status ?c = ConditionTrue" by (simp add: DataProcessedCondition_def)
    ultimately show ?thesis by (auto simp: upd wasDataProcessed_def)
  next
    case (Some x)
    let ?c = "DataProcessedCondition (je_now e) ConditionFalse ''Failed''
      (''failed to process data in the given time: '' @ error_text x)"
    from Some assms(1) p
    have "s' = updateDataGatherStatus (je_fails e) (je_now e) (Some dg) (Some ?c) GatheringFailedReason s" "res = Some x"
      by (auto simp: finish_processed_def Let_def DataProcessedCondition_def)
    moreover have "mc_Status ?c = ConditionFalse" by (simp add: DataProcessedCondition_def)
    ultimately show ?thesis by (auto simp: upd wasDataProcessed_def)
  qed
qed

lemma not_failed_True: "GetConditionByType dg k = Some c \<Longrightarrow> mc_Status c = ConditionTrue \<Longrightarrow> not_failed dg k"
  by (simp add: not_failed_def)

lemma upload_archive_settles:
  assumes "upload_archive e dg arch s r = Some (s', r', res)" and "\<And>k. je_fails e k = None" and "dg_Name dg \<noteq> []"
  shows "settled (sv_stored s') (res = None) \<and> sv_updates s + 2 \<le> sv_updates s' \<and>
    (res = None \<longrightarrow> wasDataProcessed (sv_stored s') \<and> not_failed (sv_stored s') DataUploaded \<and>
      GetConditionByType (sv_stored s') DataRecorded = GetConditionByType dg DataRecorded \<and>
      (\<exists>src code. arch = Some src \<and> job_upload e src = (dg_InsightsRequestID (sv_stored s'), code, None)))"
proof -
  from assms(1) obtain src where src: "arch = Some src" by (auto simp: upload_archive_def split: option.splits)
  obtain rid code err where u: "job_upload e src = (rid, code, err)" by (metis prod.exhaust)
  show ?thesis
  proof (cases err)
    case (Some x)
    let ?c = "DataUploadedCondition (je_now e) ConditionFalse ''Failed''
      (''Failed to upload data err: '' @ error_text x @ '' with http status code: '' @ itoa code)"
    from Some assms(1) src u
    have "s' = updateDataGatherStatus (je_fails e) (je_now e) (Some dg) (Some ?c) GatheringFailedReason s" "res = Some x"
      by (auto simp: upload_archive_def)
    then show ?thesis
      by (simp add: updateDataGatherStatus_ok [of "je_fails e", OF assms(2,3)] condition_types
          update_settles [of "je_fails e" dg _ GatheringFailedReason False, OF assms(2,3)])
  next
    case None
    let ?c = "DataUploadedCondition (je_now e) ConditionTrue SucceededReason (''Succeeded with http status code: '' @ itoa code)"
    let ?dg = "dg\<lparr>dg_InsightsRequestID := rid, dg_Conditions := fold put_condition [?c] (dg_Conditions dg)\<rparr>"
    let ?s = "s\<lparr>sv_updates := Suc (sv_updates s), sv_stored := ?dg\<rparr>"
    from None assms(1) src u have fin: "finish_processed e ?dg rid ?s r = Some (s', r', res)"
      by (simp add: upload_archive_def job_conditions_ok [of "je_fails e", OF assms(2)] assms(3) Let_def)
    have c: "GetConditionByType ?dg DataUploaded = Some ?c" "GetConditionByType ?dg DataRecorded = GetConditionByType dg DataRecorded"
      using meta.get_put_same [of ?c] meta.get_put_other [of DataRecorded ?c]
      by (simp_all add: GetConditionByType_eq condition_types not_sym [OF condition_types(7)])
    have "mc_Status ?c = ConditionTrue" by (simp add: DataUploadedCondition_def)
    with finish_processed_settles [OF fin assms(2)] assms(3) c src u None show ?thesis
      by (auto simp: condition_types intro!: not_failed_True)
  qed
qed

lemma record_archive_settles:
  assumes "record_archive e dg reports s r = Some (s', r', res)" and "\<And>k. je_fails e k = None" and "dg_Name dg \<noteq> []"
  shows "settled (sv_stored s') (res = None) \<and> sv_updates s + 2 \<le> sv_updates s' \<and>
    (res = None \<longrightarrow> wasDataProcessed (sv_stored s') \<and> not_failed (sv_stored s') DataUploaded \<and>
      not_failed (sv_stored s') DataRecorded \<and>
      (\<exists>r1 src code. recordAllData e reports r = Some (r1, Inr (Some src)) \<and>
         job_upload e src = (dg_InsightsRequestID (sv_stored s'), code, None)))"
proof -
  from assms(1) obtain r1 out where rec: "recordAllData e reports r = Some (r1, out)"
    by (auto simp: record_archive_def Let_def split: option.splits)
  show ?thesis
  proof (cases out)
    case (Inl x)
    let ?c = "DataRecordedCondition (je_now e) ConditionFalse ''RecordingFailed'' (''Failed to record data: '' @ error_text x)"
    from Inl assms(1) rec
    have "s' = updateDataGatherStatus (je_fails e) (je_now e) (Some dg) (Some ?c) GatheringFailedReason s" "res = Some x"
      by (auto simp: record_archive_def Let_def DataRecordedCondition_def)
    then show ?thesis
      by (simp add: updateDataGatherStatus_ok [of "je_fails e", OF assms(2,3)] condition_types
          update_settles [of "je_fails e" dg _ GatheringFailedReason False, OF assms(2,3)])
  next
    case (Inr arch)
    let ?c = "DataRecordedCondition (je_now e) ConditionTrue SucceededReason []"
    let ?dg = "dg\<lparr>dg_Conditions := fold put_condition [?c] (dg_Conditions dg)\<rparr>"
    let ?s = "s\<lparr>sv_updates := Suc (sv_updates s), sv_stored := ?dg\<rparr>"
    from Inr assms(1) rec have up: "upload_archive e ?dg arch ?s r1 = Some (s', r', res)"
      by (simp add: record_archive_def job_conditions_ok [of "je_fails e", OF assms(2)] assms(3) Let_def)
    have "GetConditionByType ?dg DataRecorded = Some ?c"
      using meta.get_put_same [of ?c] by (simp add: GetConditionByType_eq condition_types)
    moreover have "mc_Status ?c = ConditionTrue" by (simp add: DataRecordedCondition_def)
    ultimately show ?thesis using upload_archive_settles [OF up assms(2)] assms(3) rec Inr
      by (auto intro!: not_failed_True)
  qed
qed

lemma add_gatherer_statuses_name:
  "add_gatherer_statuses now frs dg = Inr dg' \<Longrightarrow> dg_Name dg' = dg_Name dg"
  by (induction frs arbitrary: dg) (auto split: if_splits sum.splits)

lemma run_job_settles:
  assumes "run_job e dg spec s r = Some (s', r', res)" and "\<And>k. je_fails e k = None" and "dg_Name dg \<noteq> []"
  shows "if sv_updates s' = sv_updates s then res \<noteq> None
    else sv_updates s < sv_updates s' \<and> settled (sv_stored s') (res = None) \<and>
    (res = None \<longrightarrow> wasDataProcessed (sv_stored s') \<and> not_failed (sv_stored s') DataUploaded \<and>
      not_failed (sv_stored s') DataRecorded \<and>
      (\<exists>src code. job_upload e src = (dg_InsightsRequestID (sv_stored s'), code, None)))"
proof -
  from assms(1) obtain r1 out where g: "gatherAndReportFunctions (je_run e) (je_now e) spec dg r = Some (r1, out)"
    by (auto simp: run_job_def split: option.splits)
  show ?thesis
  proof (cases out)
    case (Inl err)
    with assms(1) g show ?thesis by (auto simp: run_job_def)
  next
    case (Inr x)
    obtain reports remote dg1 where x: "x = (reports, remote, dg1)" by (metis prod.exhaust)
    with g Inr have name: "dg_Name dg1 = dg_Name dg"
      by (auto simp: gatherAndReportFunctions_def Let_def map_sum_def split: option.splits sum.splits dest: add_gatherer_statuses_name)
    from assms(1) g Inr x obtain dg2 s1 r2 where
      rec: "record_archive e dg2 reports s1 r2 = Some (s', r', res)" "dg_Name dg2 = dg_Name dg1" "sv_updates s1 = Suc (sv_updates s)"
      by (auto simp: run_job_def job_conditions_ok [of "je_fails e", OF assms(2)] assms(3) name Let_def split: option.splits prod.splits)
    from record_archive_settles [OF rec(1) assms(2)] rec(2,3) name assms(3) show ?thesis by auto
  qed
qed

section \<open>Updates that fail\<close>

text \<open>Whatever updates fail, only the last update of a job can mark a resource as succeeded.\<close>

abbreviation succeeded :: "DataGather \<Rightarrow> bool" where "succeeded dg \<equiv> settled dg True"

definition open_job :: "DataGather \<Rightarrow> dg_server \<Rightarrow> bool" where
  "open_job dg s = (\<not> succeeded dg \<and> \<not> succeeded (sv_stored s))"

lemma zero_open [simp]: "\<not> succeeded (zero_DataGather n)"
  by (simp add: settled_def zero_DataGather_def GetConditionByType_def)

lemma settled_other:
  "list_all (\<lambda>c. mc_Type c \<noteq> ProgressingType) cs \<Longrightarrow>
    settled (dg\<lparr>dg_Conditions := fold put_condition cs (dg_Conditions dg)\<rparr>) ok = settled dg ok"
proof -
  assume "list_all (\<lambda>c. mc_Type c \<noteq> ProgressingType) cs"
  then have "condition_by_type (fold put_condition cs xs) ProgressingType = condition_by_type xs ProgressingType" for xs
    using meta.get_put_other by (induction cs arbitrary: xs) auto
  then show ?thesis by (simp add: settled_def GetConditionByType_eq)
qed

lemma settled_ids [simp]:
  "settled (dg\<lparr>dg_InsightsRequestID := x\<rparr>) ok = settled dg ok" "settled (dg\<lparr>dg_Gatherers := y\<rparr>) ok = settled dg ok"
  by (simp_all add: settled_def GetConditionByType_def)

lemma settled_progress:
  "settled (dg\<lparr>dg_Conditions := put_condition (ProgressingCondition now state) xs\<rparr>) True \<Longrightarrow> state = GatheringSucceededReason"
  using meta.get_put_same [of "ProgressingCondition now state" xs]
  by (auto simp: settled_def GetConditionByType_eq finished_ProgressingCondition)

lemma job_conditions_open:
  assumes "job_conditions fails dg cs s = (s', dg', err)" and "list_all (\<lambda>c. mc_Type c \<noteq> ProgressingType) cs" and "open_job dg s"
  shows "open_job dg' s'"
  using assms settled_other [OF assms(2), of dg True]
  by (auto simp: job_conditions_def UpdateDataGatherConditions_def server_answer_def server_after_def open_job_def Let_def
      split: if_splits option.splits)

lemma job_progress_open:
  assumes "job_progress fails now dg state s = (s', res)" and "state \<noteq> GatheringSucceededReason" and "\<not> succeeded (sv_stored s)"
  shows "\<not> succeeded (sv_stored s') \<and> (\<forall>dg'. res = Inr dg' \<longrightarrow> open_job dg' s')"
  using assms settled_progress [where now = now and state = state]
  by (auto simp: job_progress_def UpdateProgressingCondition_def UpdateDataGatherConditions_def server_answer_def server_after_def
      open_job_def Let_def split: if_splits option.splits)

lemma failed_update_open:
  assumes "open_job dg s" and "mc_Type c \<noteq> ProgressingType"
  shows "\<not> succeeded (sv_stored (updateDataGatherStatus fails now (Some dg) (Some c) GatheringFailedReason s))"
proof -
  obtain s1 res where p: "job_progress fails now dg GatheringFailedReason s = (s1, res)" by force
  note o = job_progress_open [OF p] assms(1)
  show ?thesis
  proof (cases res)
    case (Inl err)
    with p o show ?thesis by (simp add: updateDataGatherStatus_def open_job_def gathering_reasons)
  next
    case (Inr dg1)
    let ?c0 = "ProgressingCondition now GatheringFailedReason"
    let ?dg = "dg1\<lparr>dg_Conditions := fold put_condition [?c0, c] (dg_Conditions dg1)\<rparr>"
    have "condition_by_type (dg_Conditions ?dg) ProgressingType = Some ?c0"
      using meta.get_put_same [of ?c0] meta.get_put_other [of ProgressingType c] assms(2) by simp
    then have "\<not> succeeded ?dg"
      using reasons_distinct by (auto simp: settled_def GetConditionByType_eq finished_ProgressingCondition)
    with p o Inr show ?thesis
      by (auto simp: updateDataGatherStatus_def job_conditions_def UpdateDataGatherConditions_def server_answer_def server_after_def
          open_job_def gathering_reasons Let_def split: if_splits option.splits)
  qed
qed

lemma finish_processed_open:
  assumes "finish_processed e dg rid s r = Some (s', r', res)" and "open_job dg s" and "succeeded (sv_stored s')"
  shows "res = None \<and> job_wasDataProcessed (je_polls e) (je_processed e) = (True, None)"
proof -
  obtain processed err where p: "job_wasDataProcessed (je_polls e) (je_processed e) = (processed, err)" by fastforce
  then have pe: "processed = (err = None)" by (auto simp: job_wasDataProcessed_def split: prod.splits option.splits)
  show ?thesis
  proof (cases err)
    case None
    with assms(1) p pe show ?thesis by (auto simp: finish_processed_def Let_def)
  next
    case (Some x)
    let ?c = "DataProcessedCondition (je_now e) ConditionFalse ''Failed''
      (''failed to process data in the given time: '' @ error_text x)"
    from Some assms(1) p
    have "s' = updateDataGatherStatus (je_fails e) (je_now e) (Some dg) (Some ?c) GatheringFailedReason s"
      by (auto simp: finish_processed_def Let_def DataProcessedCondition_def)
    with failed_update_open [OF assms(2), of ?c] assms(3) show ?thesis by (simp add: condition_types)
  qed
qed

lemma upload_archive_open:
  assumes "upload_archive e dg arch s r = Some (s', r', res)" and "open_job dg s" and "succeeded (sv_stored s')"
  shows "res = None \<and> (\<exists>src rid code. arch = Some src \<and> job_upload e src = (rid, code, None)) \<and>
    job_wasDataProcessed (je_polls e) (je_processed e) = (True, None)"
proof -
  from assms(1) obtain src where src: "arch = Some src" by (auto simp: upload_archive_def split: option.splits)
  obtain rid code err where u: "job_upload e src = (rid, code, err)" by (metis prod.exhaust)
  show ?thesis
  proof (cases err)
    case (Some x)
    let ?c = "DataUploadedCondition (je_now e) ConditionFalse ''Failed''
      (''Failed to upload data err: '' @ error_text x @ '' with http status code: '' @ itoa code)"
    from Some assms(1) src u
    have "s' = updateDataGatherStatus (je_fails e) (je_now e) (Some dg) (Some ?c) GatheringFailedReason s"
      by (auto simp: upload_archive_def)
    with failed_update_open [OF assms(2), of ?c] assms(3) show ?thesis by (simp add: condition_types)
  next
    case None
    let ?cs = "[DataUploadedCondition (je_now e) ConditionTrue SucceededReason (''Succeeded with http status code: '' @ itoa code)]"
    obtain s1 dg1 x where c: "job_conditions (je_fails e) (dg\<lparr>dg_InsightsRequestID := rid\<rparr>) ?cs s = (s1, dg1, x)"
      by (rule prod_cases3)
    have "open_job (dg\<lparr>dg_InsightsRequestID := rid\<rparr>) s" using assms(2) by (simp add: open_job_def)
    with job_conditions_open [OF c] have o: "open_job dg1 s1" by (simp add: condition_types)
    from assms(1) src u None c have fin: "finish_processed e dg1 rid s1 r = Some (s', r', res)"
      by (simp add: upload_archive_def)
    from finish_processed_open [OF fin o assms(3)] src u None show ?thesis by simp
  qed
qed

lemma record_archive_open:
  assumes "record_archive e dg reports s r = Some (s', r', res)" and "open_job dg s" and "succeeded (sv_stored s')"
  shows "res = None \<and> (\<exists>src rid code. job_upload e src = (rid, code, None)) \<and>
    job_wasDataProcessed (je_polls e) (je_processed e) = (True, None)"
proof -
  from assms(1) obtain r1 out where rec: "recordAllData e reports r = Some (r1, out)"
    by (auto simp: record_archive_def Let_def split: option.splits)
  show ?thesis
  proof (cases out)
    case (Inl x)
    let ?c = "DataRecordedCondition (je_now e) ConditionFalse ''RecordingFailed'' (''Failed to record data: '' @ error_text x)"
    from Inl assms(1) rec
    have "s' = updateDataGatherStatus (je_fails e) (je_now e) (Some dg) (Some ?c) GatheringFailedReason s"
      by (auto simp: record_archive_def Let_def DataRecordedCondition_def)
    with failed_update_open [OF assms(2), of ?c] assms(3) show ?thesis by (simp add: condition_types)
  next
    case (Inr arch)
    let ?cs = "[DataRecordedCondition (je_now e) ConditionTrue SucceededReason []]"
    obtain s1 dg1 x where c: "job_conditions (je_fails e) dg ?cs s = (s1, dg1, x)" by (rule prod_cases3)
    from job_conditions_open [OF c _ assms(2)] have o: "open_job dg1 s1" by (simp add: condition_types)
    from assms(1) rec Inr c have up: "upload_archive e dg1 arch s1 r1 = Some (s', r', res)"
      by (simp add: record_archive_def)
    from upload_archive_open [OF up o assms(3)] show ?thesis by fast
  qed
qed

lemma add_gatherer_statuses_settled:
  "add_gatherer_statuses now frs dg = Inr dg' \<Longrightarrow> settled dg' ok = settled dg ok"
  by (induction frs arbitrary: dg) (auto split: if_splits sum.splits)

lemma remote_condition_types:
  "createRemoteConfigConditions now rc = Some (a, v) \<Longrightarrow> mc_Type a \<noteq> ProgressingType \<and> mc_Type v \<noteq> ProgressingType"
  by (auto simp: createRemoteConfigConditions_def RemoteConfigurationAvailableCondition_def RemoteConfigurationValidCondition_def
      RemoteConfigurationAvailable_def RemoteConfigurationValid_def ProgressingType_def Let_def split: option.splits if_splits)

lemma run_job_open:
  assumes "run_job e dg spec s r = Some (s', r', res)" and "open_job dg s" and "succeeded (sv_stored s')"
  shows "res = None \<and> (\<exists>src rid code. job_upload e src = (rid, code, None)) \<and>
    job_wasDataProcessed (je_polls e) (je_processed e) = (True, None)"
proof -
  from assms(1) obtain r1 out where g: "gatherAndReportFunctions (je_run e) (je_now e) spec dg r = Some (r1, out)"
    by (auto simp: run_job_def split: option.splits)
  show ?thesis
  proof (cases out)
    case (Inl err)
    with assms g show ?thesis by (auto simp: run_job_def open_job_def)
  next
    case (Inr x)
    obtain reports remote dg1 where x: "x = (reports, remote, dg1)" by (metis prod.exhaust)
    with g Inr have dg1: "settled dg1 ok = settled dg ok" for ok
      by (auto simp: gatherAndReportFunctions_def Let_def map_sum_def split: option.splits sum.splits dest: add_gatherer_statuses_settled)
    from assms(1) g Inr x obtain r2 es a v where
      c: "createRemoteConfigConditions (je_now e) (Some remote) = Some (a, v)"
      and rec: "(case job_conditions (je_fails e) dg1 [a, v] s of (s, dg, _) \<Rightarrow> record_archive e dg reports s r2) = Some (s', r', res)"
      by (auto simp: run_job_def split: option.splits prod.splits)
    obtain s1 dg2 y where j: "job_conditions (je_fails e) dg1 [a, v] s = (s1, dg2, y)" by (rule prod_cases3)
    have "open_job dg2 s1"
      by (rule job_conditions_open [OF j]) (use remote_condition_types [OF c] assms(2) dg1 in \<open>simp_all add: open_job_def\<close>)
    with rec j record_archive_open assms(3) show ?thesis by simp
  qed
qed

section \<open>Polling\<close>

definition retries_left :: "retryCounter \<Rightarrow> nat" where
  "retries_left c = (rt_max c - rt_network c) + (rt_max c - rt_request c) + (rt_max c - rt_status c)"

lemma poll_retry:
  assumes "poll_processed a c = (c', False, None)" and "a \<noteq> EmptyBody"
  shows "retries_left c = Suc (retries_left c') \<and> rt_max c' = rt_max c"
proof (cases a)
  case (BodyAnswer b)
  with assms(1) show ?thesis
    by (cases b) (auto simp: poll_processed_def processSuccessfulResponse_def statusRetry_def retries_left_def split: if_splits)
qed (use assms in \<open>auto simp: poll_processed_def networkRetry_def requestRetry_def retries_left_def split: if_splits\<close>)

lemma poll_done: "poll_processed a c = (c', True, None) \<longleftrightarrow> a = BodyAnswer (Inr ''processed'') \<and> c' = c"
  by (cases a)
    (auto simp: poll_processed_def processSuccessfulResponse_def statusRetry_def networkRetry_def requestRetry_def
      split: sum.splits if_splits)

lemma poll_loop_bound:
  assumes "\<And>j. answer j \<noteq> EmptyBody"
  shows "fst (poll_loop n answer k c) \<le> k + retries_left c + 1"
proof (induction n arbitrary: k c)
  case (Suc n)
  obtain c' d err where p: "poll_processed (answer k) c = (c', d, err)" by (metis prod.exhaust)
  show ?case
  proof (cases "err = None \<and> \<not> d")
    case True
    with p poll_retry [of "answer k" c c'] assms Suc.IH [of "Suc k" c'] show ?thesis by simp
  qed (use p in \<open>cases err; cases d; simp\<close>)
qed simp

lemma poll_loop_enough:
  assumes "\<And>j. answer j \<noteq> EmptyBody" and "retries_left c < n"
  shows "poll_loop n answer k c = poll_loop (Suc (retries_left c)) answer k c"
  using assms(2)
proof (induction "retries_left c" arbitrary: n k c rule: less_induct)
  case less
  then obtain m where n: "n = Suc m" by (cases n) auto
  obtain c' d err where p: "poll_processed (answer k) c = (c', d, err)" by (metis prod.exhaust)
  show ?case
  proof (cases "err = None \<and> \<not> d")
    case True
    with p poll_retry [of "answer k" c c'] assms(1) have left: "retries_left c = Suc (retries_left c')" by simp
    with less.hyps [of c' m "Suc k"] less.prems n p True show ?thesis by simp
  qed (use p n in \<open>cases err; cases d; simp\<close>)
qed

lemma poll_loop_processed:
  "snd (poll_loop n answer k c) = None \<Longrightarrow>
    \<exists>j. k \<le> j \<and> fst (poll_loop n answer k c) = Suc j \<and> answer j = BodyAnswer (Inr ''processed'')"
proof (induction n arbitrary: k c)
  case (Suc n)
  obtain c' d err where p: "poll_processed (answer k) c = (c', d, err)" by (metis prod.exhaust)
  with Suc.prems have err: "err = None" by (cases err; cases d) auto
  show ?case
  proof (cases d)
    case True
    with p err poll_done [of "answer k" c c'] show ?thesis by auto
  next
    case False
    with p err Suc.IH [of "Suc k" c'] Suc.prems show ?thesis by auto
  qed
qed simp

text \<open>Answers without a body are not counted: only the end of the context stops the polling.\<close>

lemma empty_bodies_polled: "poll_loop n (\<lambda>_. EmptyBody) k c = (k + n, Some contextError)"
  by (induction n arbitrary: k) (simp_all add: poll_processed_def processSuccessfulResponse_def)

section \<open>A lost update\<close>

text \<open>
  When the update after the recording fails, the job goes on with an empty resource: the archive may be uploaded
  and processed, but nothing of it reaches the resource, which stays in the state of the gathering.
\<close>

lemma lost_update:
  assumes "record_archive e dg reports s r = Some (s', r', res)" and "recordAllData e reports r = Some (r1, Inr arch)"
    and "je_fails e (sv_updates s) = Some err"
  shows "sv_stored s' = sv_stored s"
proof -
  let ?c = "job_conditions (je_fails e) dg [DataRecordedCondition (je_now e) ConditionTrue SucceededReason []] s"
  have c: "sv_stored (fst ?c) = sv_stored s" "fst (snd ?c) = zero_DataGather []"
    using assms(3) by (auto simp: job_conditions_def UpdateDataGatherConditions_def server_answer_def server_after_def Let_def)
  from assms(1,2) have up: "upload_archive e (zero_DataGather []) arch (fst ?c) r1 = Some (s', r', res)"
    using c(2) by (auto simp: record_archive_def Let_def split: prod.splits)
  have fin: "sv_stored s' = sv_stored s1" if "finish_processed e dg1 rid s1 r1 = Some (s', r', res)" "dg_Name dg1 = []" for dg1 rid s1
    using that by (auto simp: finish_processed_def Let_def nameless_kept split: prod.splits if_splits)
  show ?thesis
  proof (cases arch)
    case (Some src)
    obtain rid code x where u: "job_upload e src = (rid, code, x)" by (metis prod.exhaust)
    show ?thesis
    proof (cases x)
      case None
      let ?u = "job_conditions (je_fails e) ((zero_DataGather [])\<lparr>dg_InsightsRequestID := rid\<rparr>)
        [DataUploadedCondition (je_now e) ConditionTrue SucceededReason (''Succeeded with http status code: '' @ itoa code)] (fst ?c)"
      have "fst (snd ?u) = zero_DataGather []" "sv_stored (fst ?u) = sv_stored (fst ?c)" by (simp_all add: nameless_kept)
      moreover from up Some u None have "finish_processed e (fst (snd ?u)) rid (fst ?u) r1 = Some (s', r', res)"
        by (auto simp: upload_archive_def split: prod.splits)
      ultimately show ?thesis using fin [of "fst (snd ?u)" rid "fst ?u"] c(1) by simp
    next
      case (Some y)
      with up \<open>arch = Some src\<close> u c(1) show ?thesis by (auto simp: upload_archive_def nameless_kept)
    qed
  qed (use up in \<open>simp add: upload_archive_def\<close>)
qed

section \<open>Properties\<close>

lemma GatherAndUpload_cases:
  assumes "GatherAndUpload e path s r = Some out" and "je_resource e = Inr dg"
  shows "(\<exists>err. out = (s, r, Some err)) \<or>
    (case job_progress (je_fails e) (je_now e) (dgr_status dg) GatheringReason s of
       (s, Inl err) \<Rightarrow> Some (s, r, Some err)
     | (s, Inr dg') \<Rightarrow> run_job e dg' (dgr_Gatherers dg) s r) = Some out"
  using assms by (auto simp: GatherAndUpload_def split: option.splits)


definition example_remote_status :: RemoteConfigStatus where
  "example_remote_status =
     \<lparr>rcs_Err = None, rcs_AvailableReason = SucceededReason, rcs_ValidReason = SucceededReason, rcs_ConfigData = Some ''{}'',
      rcs_ConfigAvailable = True, rcs_ConfigValid = True\<rparr>"

definition example_job :: "string \<Rightarrow> nat job_env" where
  "example_job status =
     \<lparr>je_run = \<lparr>rn_record = (\<lambda>_ n. Some (Suc n, [])), rn_flush = (\<lambda>n. (n, None)), rn_sched = map handleTask,
        rn_to_json = (\<lambda>_. Inr (Some ''{}'')), rn_obfuscated = False,
        rn_gatherers = [\<lparr>pg_gatherer = example_gatherer, pg_process = None, pg_remote = Some example_remote_status, pg_elapsed = 5\<rparr>],
        rn_uptime = 1\<rparr>,
      je_setup = \<lparr>js_kubeClient = None, js_insightsClient = None, js_fs = \<lparr>fs_stat = (\<lambda>_. None), fs_mkdir = (\<lambda>_. None)\<rparr>,
        js_anonymizer = None, js_configClient = None\<rparr>,
      je_resource = Inr example_dgr, je_config = example_cfg, je_fails = (\<lambda>_. None),
      je_last = (\<lambda>_. Inr (Some \<lparr>src_ID = [], src_Type = [], src_CreationTime = [], src_Contents = [''tar'']\<rparr>)),
      je_attempts = (\<lambda>_ _. ([], ''rq1'', 202, None)), je_backoff = \<lparr>bo_Duration = 1, bo_Steps = 2\<rparr>,
      je_fmt_time = (\<lambda>_. []), je_polls = 20, je_processed = (\<lambda>_. BodyAnswer (Inr status)),
      je_prune = (\<lambda>n. Some (n, None)), je_now = 9\<rparr>"

definition example_job_run :: "string \<Rightarrow> (dg_server \<times> nat \<times> go_error option) option" where
  "example_job_run status = GatherAndUpload (example_job status) ''/tmp'' \<lparr>sv_stored = dgr_status example_dgr, sv_updates = 0\<rparr> 0"


text \<open>
  Waiting for the processing ends.  As long as every answer has a body or is an error, the processing service is
  asked at most ten times, however long the context lasts; and data counts as processed exactly when the last
  answer said so.
\<close>

lemma processing_polls:
  assumes "\<And>j. answer j \<noteq> EmptyBody"
  shows "fst (poll_loop n answer 0 new_retryCounter) \<le> 10 \<and>
    (10 \<le> n \<longrightarrow> poll_loop n answer 0 new_retryCounter = poll_loop 10 answer 0 new_retryCounter) \<and>
    (job_wasDataProcessed n answer = (True, None) \<longrightarrow>
      (\<exists>j. fst (poll_loop n answer 0 new_retryCounter) = Suc j \<and> answer j = BodyAnswer (Inr ''processed'')))"
proof -
  have left: "retries_left new_retryCounter = 9" by (simp add: retries_left_def new_retryCounter_def numberOfStatusQueryRetries_def)
  have "snd (poll_loop n answer 0 new_retryCounter) = None" if "job_wasDataProcessed n answer = (True, None)"
    using that by (auto simp: job_wasDataProcessed_def split: prod.splits option.splits)
  with poll_loop_processed [of n answer 0 new_retryCounter] poll_loop_bound [OF assms, where n = n and k = 0 and c = new_retryCounter]
    poll_loop_enough [OF assms, where c = new_retryCounter and n = n and k = 0] left show ?thesis
    by (auto simp: numeral_eq_Suc)
qed

end
