(* ===== verification/RuntimeExtractor.thy ===== *)
theory RuntimeExtractor
  imports InsightsClient ConfigAggregator
begin

text \<open>
  pkg/controller/runtimeextractor (controller.go, informer.go) and its resources (daemonset.go, manager.go):
  the controller that keeps the daemon set of the runtime extractor deployed, and the informer that tells it
  about changes made by others.

  The daemon set on the API server is the state; \<open>ds_api\<close> is the behaviour of the server during one call, with the
  changes others make before it.  The decoded manifest, the environment, the cipher tables of library-go, the
  hash and the merge of the metadata of resourceapply are the record \<open>extractor_env\<close>.
\<close>

section \<open>The daemon set\<close>

definition daemonSetName :: string where "daemonSetName = ''insights-runtime-extractor''"
definition daemonSetNamespace :: string where "daemonSetNamespace = ''openshift-insights''"
definition extractorImageEnv :: string where "extractorImageEnv = ''RELATED_IMAGE_INSIGHTS_RUNTIME_EXTRACTOR''"
definition extractorDefaultImage :: string where
  "extractorDefaultImage = ''quay.io/openshift/origin-insights-runtime-extractor:latest''"
definition exporterImageEnv :: string where "exporterImageEnv = ''RELATED_IMAGE_INSIGHTS_RUNTIME_EXPORTER''"
definition exporterDefaultImage :: string where
  "exporterDefaultImage = ''quay.io/openshift/origin-insights-runtime-exporter:latest''"
definition proxyImageEnv :: string where "proxyImageEnv = ''RELATED_IMAGE_KUBE_RBAC_PROXY''"
definition proxyDefaultImage :: string where "proxyDefaultImage = ''quay.io/openshift/origin-kube-rbac-proxy:latest''"
definition kubeRbacProxyContainerName :: string where "kubeRbacProxyContainerName = ''kube-rbac-proxy''"

record ds_container =
  dc_Name :: string
  dc_Image :: string
  dc_Args :: "string list"

text \<open>\<open>dsp_Rest\<close> is everything in the specification but the containers.\<close>

record ds_spec =
  dsp_Containers :: "ds_container list"
  dsp_Rest :: string

record daemonset =
  ds_Namespace :: string
  ds_Name :: string
  ds_Generation :: int
  ds_Annotations :: "(string, string) gomap"
  ds_Spec :: ds_spec

definition loadImagesFromEnvs :: "(string \<Rightarrow> string) \<Rightarrow> string \<times> string \<times> string" where
  "loadImagesFromEnvs getenv =
     (let extractorReleaseVersion = getenv extractorImageEnv;
          extractorReleaseVersion = (if length extractorReleaseVersion = 0 then extractorDefaultImage else extractorReleaseVersion);
          exporterReleaseVersion = getenv exporterImageEnv;
          exporterReleaseVersion = (if length exporterReleaseVersion = 0 then exporterDefaultImage else exporterReleaseVersion);
          proxyReleaseVersion = getenv proxyImageEnv;
          proxyReleaseVersion = (if length proxyReleaseVersion = 0 then proxyDefaultImage else proxyReleaseVersion)
      in (extractorReleaseVersion, exporterReleaseVersion, proxyReleaseVersion))"

definition set_image :: "string \<times> string \<times> string \<Rightarrow> ds_container \<Rightarrow> ds_container" where
  "set_image images c =
     (let (extractor, exporter, proxy) = images
      in if dc_Name c = ''extractor'' then c\<lparr>dc_Image := extractor\<rparr>
         else if dc_Name c = ''exporter'' then c\<lparr>dc_Image := exporter\<rparr>
         else if dc_Name c = kubeRbacProxyContainerName then c\<lparr>dc_Image := proxy\<rparr>
         else c)"

definition updateContainerImages :: "(string \<Rightarrow> string) \<Rightarrow> ds_spec \<Rightarrow> ds_spec" where
  "updateContainerImages getenv sp =
     sp\<lparr>dsp_Containers := map (set_image (loadImagesFromEnvs getenv)) (dsp_Containers sp)\<rparr>"

section \<open>TLS arguments of the proxy\<close>

definition GetTLSProfileSpec ::
  "(string \<Rightarrow> TLSProfileSpec) \<Rightarrow> TLSSecurityProfile option \<Rightarrow> TLSProfileSpec result" where
  "GetTLSProfileSpec profiles profile =
     (case profile of
        None \<Rightarrow> Inr (profiles ''Intermediate'')
      | Some p \<Rightarrow>
          if sp_Type p = [] then Inr (profiles ''Intermediate'')
          else if sp_Type p \<noteq> ''Custom''
          then (if sp_Type p \<in> {''Old'', ''Intermediate'', ''Modern''} then Inr (profiles (sp_Type p))
                else Inr (profiles ''Intermediate''))
          else case sp_Custom p of
                 None \<Rightarrow> Inl (Errorf ''custom TLS profile specified but Custom field is nil'')
               | Some spec \<Rightarrow> Inr spec)"

definition supported_ciphers :: "(string list \<Rightarrow> string list) \<Rightarrow> (string \<Rightarrow> int result) \<Rightarrow> string list \<Rightarrow> string list" where
  "supported_ciphers to_iana suite ciphers =
     filter (\<lambda>name. case suite name of Inl _ \<Rightarrow> False | Inr _ \<Rightarrow> True) (to_iana ciphers)"

definition kubeRBACProxyTLSArgs ::
  "(string \<Rightarrow> TLSProfileSpec) \<Rightarrow> (string list \<Rightarrow> string list) \<Rightarrow> (string \<Rightarrow> int result) \<Rightarrow>
   TLSSecurityProfile option \<Rightarrow> string list" where
  "kubeRBACProxyTLSArgs profiles to_iana suite profile =
     (let profileSpec = (case GetTLSProfileSpec profiles profile of Inl _ \<Rightarrow> profiles ''Intermediate'' | Inr s \<Rightarrow> s);
          supported = supported_ciphers to_iana suite (tp_Ciphers profileSpec);
          supported = (if length supported = 0
                       then supported_ciphers to_iana suite (tp_Ciphers (profiles ''Intermediate''))
                       else supported)
      in [''--tls-cipher-suites='' @ join_with '','' supported,
          ''--tls-min-version='' @ tp_MinTLSVersion profileSpec])"

fun add_proxy_args :: "string list \<Rightarrow> ds_container list \<Rightarrow> ds_container list" where
  "add_proxy_args args [] = []"
| "add_proxy_args args (c # cs) =
     (if dc_Name c = kubeRbacProxyContainerName then c\<lparr>dc_Args := dc_Args c @ args\<rparr> # cs
      else c # add_proxy_args args cs)"

definition updateKubeRBACProxyTLSArgs ::
  "(string \<Rightarrow> TLSProfileSpec) \<Rightarrow> (string list \<Rightarrow> string list) \<Rightarrow> (string \<Rightarrow> int result) \<Rightarrow>
   ds_spec \<Rightarrow> TLSSecurityProfile option \<Rightarrow> ds_spec" where
  "updateKubeRBACProxyTLSArgs profiles to_iana suite sp profile =
     sp\<lparr>dsp_Containers := add_proxy_args (kubeRBACProxyTLSArgs profiles to_iana suite profile) (dsp_Containers sp)\<rparr>"

section \<open>Applying the daemon set\<close>

text \<open>
  One call of the server: what others do to the daemon set before it, an error of reading it, the answers of
  creating and updating (the object there and the object sent), and an error of deleting it.
\<close>

record ds_api =
  da_Others :: "daemonset option \<Rightarrow> daemonset option"
  da_Get :: "go_error option"
  da_Create :: "daemonset \<Rightarrow> daemonset result"
  da_Update :: "daemonset \<Rightarrow> daemonset \<Rightarrow> daemonset result"
  da_Delete :: "go_error option"

record extractor_env =
  xe_manifest :: "daemonset result"
  xe_getenv :: "string \<Rightarrow> string"
  xe_profiles :: "string \<Rightarrow> TLSProfileSpec"
  xe_to_iana :: "string list \<Rightarrow> string list"
  xe_suite :: "string \<Rightarrow> int result"
  xe_hash :: "ds_spec \<Rightarrow> string result"
  xe_ensure :: "daemonset \<Rightarrow> daemonset \<Rightarrow> bool \<times> daemonset"
  xe_conflict :: "go_error \<Rightarrow> bool"
  xe_tlsProfile :: "TLSSecurityProfile option"

record extractor_state =
  xs_server :: "daemonset option"
  xs_events :: "(string \<times> string) list"

definition getDaemonSet :: "ds_api \<Rightarrow> daemonset option \<Rightarrow> daemonset result" where
  "getDaemonSet api server =
     (case da_Get api of
        Some err \<Rightarrow> Inl err
      | None \<Rightarrow> (case server of None \<Rightarrow> Inl (NotFoundErr daemonSetName) | Some d \<Rightarrow> Inr d))"

definition SetSpecHashAnnotation :: "(ds_spec \<Rightarrow> string result) \<Rightarrow> daemonset \<Rightarrow> daemonset result" where
  "SetSpecHashAnnotation hash d =
     (case hash (ds_Spec d) of
        Inl err \<Rightarrow> Inl err
      | Inr h \<Rightarrow> Inr (d\<lparr>ds_Annotations := map_put ''operator.openshift.io/spec-hash'' h (ds_Annotations d)\<rparr>))"

definition ApplyDaemonSet ::
  "extractor_env \<Rightarrow> ds_api \<Rightarrow> daemonset \<Rightarrow> int \<Rightarrow> daemonset option \<Rightarrow> (daemonset \<times> bool) result \<times> daemonset option" where
  "ApplyDaemonSet env api requiredOriginal expectedGeneration server =
     (case SetSpecHashAnnotation (xe_hash env) requiredOriginal of
        Inl err \<Rightarrow> (Inl err, server)
      | Inr required \<Rightarrow>
          (case getDaemonSet api server of
             Inl err \<Rightarrow>
               if isNotFound err
               then (case da_Create api required of
                       Inl err \<Rightarrow> (Inl err, server)
                     | Inr actual \<Rightarrow> (Inr (actual, True), Some actual))
               else (Inl err, server)
           | Inr existing \<Rightarrow>
               let (modified, existingCopy) = xe_ensure env existing required
               in if \<not> modified \<and> ds_Generation existingCopy = expectedGeneration then (Inr (existingCopy, False), server)
                  else case da_Update api existing (existingCopy\<lparr>ds_Spec := ds_Spec required\<rparr>) of
                         Inl err \<Rightarrow> (Inl err, server)
                       | Inr actual \<Rightarrow> (Inr (actual, True), Some actual)))"

text \<open>
  The retry of client-go: the first argument is the number of attempts left after the current one, and the last
  component of the result is the number of attempts made.
\<close>

fun retry_on_conflict ::
  "nat \<Rightarrow> (go_error \<Rightarrow> bool) \<Rightarrow> (nat \<Rightarrow> 's \<Rightarrow> 'a result \<times> 's) \<Rightarrow> nat \<Rightarrow> 's \<Rightarrow> 'a result \<times> 's \<times> nat" where
  "retry_on_conflict n conflict f i s =
     (case f i s of
        (Inr x, s) \<Rightarrow> (Inr x, s, Suc i)
      | (Inl err, s) \<Rightarrow>
          if conflict err
          then (case n of 0 \<Rightarrow> (Inl err, s, Suc i) | Suc m \<Rightarrow> retry_on_conflict m conflict f (Suc i) s)
          else (Inl err, s, Suc i))"

declare retry_on_conflict.simps [simp del]

definition DefaultRetry_Steps :: nat where "DefaultRetry_Steps = 5"

definition required_daemonset :: "extractor_env \<Rightarrow> daemonset \<Rightarrow> daemonset" where
  "required_daemonset env d =
     d\<lparr>ds_Spec := updateKubeRBACProxyTLSArgs (xe_profiles env) (xe_to_iana env) (xe_suite env)
         (updateContainerImages (xe_getenv env) (ds_Spec d)) (xe_tlsProfile env)\<rparr>"

definition applyDaemonSet ::
  "extractor_env \<Rightarrow> (nat \<Rightarrow> ds_api) \<Rightarrow> extractor_state \<Rightarrow> daemonset result \<times> extractor_state" where
  "applyDaemonSet env apis st =
     (case xe_manifest env of
        Inl err \<Rightarrow> (Inl (Errorf (''failed to unmarshal runtime extractor daemonset: '' @ error_text err)), st)
      | Inr loaded \<Rightarrow>
          (case retry_on_conflict (DefaultRetry_Steps - 1) (xe_conflict env)
                  (\<lambda>i server. ApplyDaemonSet env (apis i) (required_daemonset env loaded) (- 1) (da_Others (apis i) server))
                  0 (xs_server st) of
             (Inl err, server, _) \<Rightarrow>
               (Inl (Errorf (''failed to apply runtime extractor daemonset: '' @ error_text err)), st\<lparr>xs_server := server\<rparr>)
           | (Inr (applied, modified), server, _) \<Rightarrow>
               (Inr applied,
                st\<lparr>xs_server := server,
                   xs_events := (if modified
                     then xs_events st @ [(''DaemonSet Updated'', ''Runtime extractor DaemonSet '' @ ds_Namespace applied @ ''/'' @
                            ds_Name applied @ '' was created or updated'')]
                     else xs_events st)\<rparr>)))"

definition deleteDaemonSet :: "ds_api \<Rightarrow> extractor_state \<Rightarrow> go_error option \<times> extractor_state" where
  "deleteDaemonSet api st =
     (let answer = (case da_Delete api of
                      Some err \<Rightarrow> Some err
                    | None \<Rightarrow> (case xs_server st of None \<Rightarrow> Some (NotFoundErr daemonSetName) | Some _ \<Rightarrow> None))
      in case answer of
           Some err \<Rightarrow>
             if isNotFound err then (None, st)
             else (Some (Errorf (''failed to delete runtime extractor daemonset: '' @ error_text err)), st)
         | None \<Rightarrow>
             (None, st\<lparr>xs_server := None,
                       xs_events := xs_events st @ [(''DaemonSet Deleted'', ''Runtime extractor DaemonSet '' @ daemonSetNamespace @
                         ''/'' @ daemonSetName @ '' deleted'')]\<rparr>))"

definition daemonSetExists :: "ds_api \<Rightarrow> extractor_state \<Rightarrow> bool" where
  "daemonSetExists api st = (case getDaemonSet api (xs_server st) of Inl err \<Rightarrow> False | Inr _ \<Rightarrow> True)"

section \<open>The resource manager\<close>

definition ApplyRuntimeExtractorResources ::
  "extractor_env \<Rightarrow> (nat \<Rightarrow> ds_api) \<Rightarrow> extractor_state \<Rightarrow> go_error option \<times> extractor_state" where
  "ApplyRuntimeExtractorResources env apis st =
     (case applyDaemonSet env apis st of
        (Inl err, st) \<Rightarrow> (Some (Errorf (''failed to apply daemonset: '' @ error_text err)), st)
      | (Inr _, st) \<Rightarrow> (None, st))"

definition DeleteRuntimeExtractorResources :: "ds_api \<Rightarrow> extractor_state \<Rightarrow> go_error option \<times> extractor_state" where
  "DeleteRuntimeExtractorResources api st =
     (case deleteDaemonSet api st of
        (Some err, st) \<Rightarrow> (Some (Errorf (''failed to delete daemonset: '' @ error_text err)), st)
      | (None, st) \<Rightarrow> (None, st))"

definition ResourcesExists :: "ds_api \<Rightarrow> extractor_state \<Rightarrow> bool" where
  "ResourcesExists api st = daemonSetExists api st"

section \<open>The controller\<close>

definition isCreated :: "ds_api \<Rightarrow> extractor_state \<Rightarrow> bool" where
  "isCreated api st = ResourcesExists api st"

definition createDeployment :: "extractor_env \<Rightarrow> (nat \<Rightarrow> ds_api) \<Rightarrow> extractor_state \<Rightarrow> extractor_state" where
  "createDeployment env apis st = snd (ApplyRuntimeExtractorResources env apis st)"

definition deleteDeployment :: "(nat \<Rightarrow> ds_api) \<Rightarrow> extractor_state \<Rightarrow> extractor_state" where
  "deleteDeployment apis st =
     (if \<not> isCreated (apis 0) st then st else snd (DeleteRuntimeExtractorResources (apis 0) st))"

definition updateDeployment :: "extractor_env \<Rightarrow> (nat \<Rightarrow> ds_api) \<Rightarrow> extractor_state \<Rightarrow> extractor_state" where
  "updateDeployment env apis st =
     (if \<not> isCreated (apis 0) st then st else snd (ApplyRuntimeExtractorResources env apis st))"

definition extractor_disabled :: "InsightsConfiguration \<Rightarrow> bool" where
  "extractor_disabled cfg = dr_DisableRuntimeExtractor (ic_DataReporting cfg)"

definition handleConfigChange ::
  "extractor_env \<Rightarrow> InsightsConfiguration \<Rightarrow> (nat \<Rightarrow> ds_api) \<Rightarrow> extractor_state \<Rightarrow> extractor_state" where
  "handleConfigChange env cfg apis st =
     (if extractor_disabled cfg then deleteDeployment apis st else createDeployment env apis st)"

definition handleVersionUpdate ::
  "extractor_env \<Rightarrow> InsightsConfiguration \<Rightarrow> (nat \<Rightarrow> ds_api) \<Rightarrow> extractor_state \<Rightarrow> extractor_state" where
  "handleVersionUpdate env cfg apis st = (if extractor_disabled cfg then st else updateDeployment env apis st)"

definition handleResourceDrift ::
  "extractor_env \<Rightarrow> InsightsConfiguration \<Rightarrow> (nat \<Rightarrow> ds_api) \<Rightarrow> extractor_state \<Rightarrow> extractor_state" where
  "handleResourceDrift env cfg apis st =
     (if extractor_disabled cfg then deleteDeployment apis st
      else snd (ApplyRuntimeExtractorResources env apis st))"

text \<open>
  The loop over the events it receives: each carries the configuration at that moment and the behaviour of the server;
  \<open>Others\<close> is a change of the daemon set by others in between.
\<close>

datatype extractor_event =
    ConfigChangedEv InsightsConfiguration "nat \<Rightarrow> ds_api"
  | VersionEv InsightsConfiguration "nat \<Rightarrow> ds_api"
  | ResourceModifiedEv InsightsConfiguration "nat \<Rightarrow> ds_api"
  | OthersEv "daemonset option \<Rightarrow> daemonset option"
  | ExtractorDone

fun extractor_loop :: "extractor_env \<Rightarrow> extractor_event list \<Rightarrow> extractor_state \<Rightarrow> extractor_state" where
  "extractor_loop env [] st = st"
| "extractor_loop env (ConfigChangedEv cfg apis # evs) st = extractor_loop env evs (handleConfigChange env cfg apis st)"
| "extractor_loop env (VersionEv cfg apis # evs) st = extractor_loop env evs (handleVersionUpdate env cfg apis st)"
| "extractor_loop env (ResourceModifiedEv cfg apis # evs) st = extractor_loop env evs (handleResourceDrift env cfg apis st)"
| "extractor_loop env (OthersEv f # evs) st = extractor_loop env evs (st\<lparr>xs_server := f (xs_server st)\<rparr>)"
| "extractor_loop env (ExtractorDone # evs) st = st"

definition extractor_Run ::
  "extractor_env \<Rightarrow> InsightsConfiguration \<Rightarrow> (nat \<Rightarrow> ds_api) \<Rightarrow> extractor_event list \<Rightarrow> extractor_state \<Rightarrow> extractor_state" where
  "extractor_Run env cfg apis evs st = extractor_loop env evs (handleConfigChange env cfg apis st)"

section \<open>The informer\<close>

text \<open>
  What the informer hands to the handlers: a daemon set, or another object whose metadata (namespace and name) may
  be readable.  The channel of notifications is the number of those pending.
\<close>

datatype informer_object = DaemonSetObj daemonset | OtherObj "(string \<times> string) option"

definition modifiedCh_capacity :: nat where "modifiedCh_capacity = 10"

definition notifyModification :: "nat \<Rightarrow> nat" where
  "notifyModification pending = (if pending < modifiedCh_capacity then Suc pending else pending)"

definition isDaemonSetModified :: "daemonset \<Rightarrow> daemonset \<Rightarrow> bool" where
  "isDaemonSetModified oldObj newObj = (ds_Generation oldObj \<noteq> ds_Generation newObj)"

definition handleDaemonSetUpdate :: "informer_object \<Rightarrow> informer_object \<Rightarrow> nat \<Rightarrow> nat" where
  "handleDaemonSetUpdate oldObj newObj pending =
     (case oldObj of
        OtherObj _ \<Rightarrow> pending
      | DaemonSetObj oldDS \<Rightarrow>
          (case newObj of
             OtherObj _ \<Rightarrow> pending
           | DaemonSetObj newDS \<Rightarrow>
               if ds_Namespace newDS \<noteq> daemonSetNamespace \<or> ds_Name newDS \<noteq> daemonSetName then pending
               else if isDaemonSetModified oldDS newDS then notifyModification pending else pending))"

definition handleResourceDeletion :: "informer_object \<Rightarrow> nat \<Rightarrow> nat" where
  "handleResourceDeletion obj pending =
     (case (case obj of DaemonSetObj d \<Rightarrow> Some (ds_Namespace d, ds_Name d) | OtherObj m \<Rightarrow> m) of
        None \<Rightarrow> pending
      | Some (namespace, name) \<Rightarrow>
          if namespace \<noteq> daemonSetNamespace then pending
          else if name = daemonSetName then notifyModification pending else pending)"

text \<open>The events the informer sees of one change of the daemon set; there is no handler for its creation.\<close>

fun daemonSetEventHandler :: "daemonset option \<Rightarrow> daemonset option \<Rightarrow> nat \<Rightarrow> nat" where
  "daemonSetEventHandler (Some d) (Some d') pending = handleDaemonSetUpdate (DaemonSetObj d) (DaemonSetObj d') pending"
| "daemonSetEventHandler (Some d) None pending = handleResourceDeletion (DaemonSetObj d) pending"
| "daemonSetEventHandler None _ pending = pending"

section \<open>Reconciliation\<close>

text \<open>
  What the server is relied on for: there is one object under the name of the daemon set, a successful write stores the
  specification that was sent, and the generation changes exactly with the specification.
\<close>

definition server_ok :: "daemonset option \<Rightarrow> bool" where
  "server_ok s = (case s of None \<Rightarrow> True | Some d \<Rightarrow>
     ds_Namespace d = daemonSetNamespace \<and> ds_Name d = daemonSetName \<and> 0 \<le> ds_Generation d)"

definition api_laws :: "ds_api \<Rightarrow> bool" where
  "api_laws api =
     ((\<forall>s. server_ok s \<longrightarrow> server_ok (da_Others api s)) \<and>
      (\<forall>d d'. da_Create api d = Inr d' \<longrightarrow>
         ds_Namespace d' = ds_Namespace d \<and> ds_Name d' = ds_Name d \<and> 0 \<le> ds_Generation d' \<and> ds_Spec d' = ds_Spec d) \<and>
      (\<forall>c d d'. da_Update api c d = Inr d' \<longrightarrow>
         ds_Namespace d' = ds_Namespace c \<and> ds_Name d' = ds_Name c \<and> ds_Generation c \<le> ds_Generation d' \<and>
         ds_Spec d' = ds_Spec d \<and> (ds_Generation d' = ds_Generation c) = (ds_Spec d = ds_Spec c)))"

definition env_laws :: "extractor_env \<Rightarrow> daemonset \<Rightarrow> bool" where
  "env_laws env m =
     (xe_manifest env = Inr m \<and> ds_Namespace m = daemonSetNamespace \<and> ds_Name m = daemonSetName \<and>
      (\<forall>existing required modified copy. xe_ensure env existing required = (modified, copy) \<longrightarrow>
         ds_Generation copy = ds_Generation existing))"

definition deployed :: "extractor_env \<Rightarrow> daemonset \<Rightarrow> daemonset option \<Rightarrow> bool" where
  "deployed env m s = (case s of None \<Rightarrow> False | Some d \<Rightarrow> ds_Spec d = ds_Spec (required_daemonset env m))"

lemma retry_on_conflict_rule:
  assumes "\<And>i s r s'. f i s = (r, s') \<Longrightarrow> P s \<Longrightarrow> P s' \<and> (\<forall>x. r = Inr x \<longrightarrow> Q x s')"
    and "P s" and "retry_on_conflict n conflict f i s = (r, s', k)"
  shows "P s' \<and> (\<forall>x. r = Inr x \<longrightarrow> Q x s') \<and> i < k \<and> k \<le> i + Suc n"
  using assms(2,3)
proof (induction n arbitrary: i s)
  case 0
  then show ?case using assms(1) by (subst (asm) retry_on_conflict.simps) (force split: prod.splits sum.splits if_splits)
next
  case (Suc n)
  obtain r1 s1 where f: "f i s = (r1, s1)" by force
  show ?case
  proof (cases "\<exists>err. r1 = Inl err \<and> conflict err")
    case True
    with Suc.prems(2) f have "retry_on_conflict n conflict f (Suc i) s1 = (r, s', k)"
      by (subst (asm) retry_on_conflict.simps) auto
    moreover have "P s1" using assms(1) [OF f Suc.prems(1)] by blast
    ultimately show ?thesis using Suc.IH [of s1 "Suc i"] by auto
  next
    case False
    with Suc.prems(2) f have "r = r1" "s' = s1" "k = Suc i"
      by (subst (asm) retry_on_conflict.simps; auto split: sum.splits)+
    then show ?thesis using assms(1) [OF f Suc.prems(1)] by simp
  qed
qed

lemma SetSpecHashAnnotation_keeps:
  "SetSpecHashAnnotation hash d = Inr r \<Longrightarrow>
    ds_Spec r = ds_Spec d \<and> ds_Namespace r = ds_Namespace d \<and> ds_Name r = ds_Name d"
  by (auto simp: SetSpecHashAnnotation_def split: sum.splits)

lemma ApplyDaemonSet_ok:
  assumes "env_laws env m" and "api_laws api" and "server_ok s"
    and "ApplyDaemonSet env api (required_daemonset env m) (- 1) s = (r, s')"
  shows "server_ok s' \<and> (\<forall>x. r = Inr x \<longrightarrow> deployed env m s')"
proof -
  note laws = assms(1) [unfolded env_laws_def] assms(2) [unfolded api_laws_def]
  show ?thesis
  proof (cases "\<exists>x. r = Inr x")
    case False
    then have "s' = s" using assms(4)
      by (auto simp: ApplyDaemonSet_def Let_def split: sum.splits prod.splits if_splits)
    with False assms(3) show ?thesis by simp
  next
    case True
    have gen: "(case s of None \<Rightarrow> True | Some d \<Rightarrow> 0 \<le> ds_Generation d)" using assms(3) by (auto simp: server_ok_def split: option.splits)
    from True assms(4) obtain req where req: "SetSpecHashAnnotation (xe_hash env) (required_daemonset env m) = Inr req"
      by (cases "SetSpecHashAnnotation (xe_hash env) (required_daemonset env m)") (auto simp: ApplyDaemonSet_def)
    from SetSpecHashAnnotation_keeps [OF this] have keeps: "ds_Spec req = ds_Spec (required_daemonset env m)"
      "ds_Namespace req = ds_Namespace m" "ds_Name req = ds_Name m" by (simp_all add: required_daemonset_def)
    show ?thesis
    proof (cases "getDaemonSet api s")
      case (Inl err)
      with True assms(4) req obtain d where "da_Create api req = Inr d" "s' = Some d"
        by (auto simp: ApplyDaemonSet_def split: sum.splits if_splits)
      with laws keeps show ?thesis by (auto simp: server_ok_def deployed_def)
    next
      case (Inr existing)
      then have e: "s = Some existing" by (auto simp: getDaemonSet_def split: option.splits)
      obtain b copy where en: "xe_ensure env existing req = (b, copy)" by force
      have "ds_Generation copy \<noteq> - 1" using laws(1) en gen e by fastforce
      with True assms(4) req Inr en obtain d where
        "da_Update api existing (copy\<lparr>ds_Spec := ds_Spec req\<rparr>) = Inr d" "s' = Some d"
        by (auto simp: ApplyDaemonSet_def Let_def split: sum.splits)
      then have "ds_Namespace d = ds_Namespace existing" "ds_Name d = ds_Name existing"
        "ds_Generation existing \<le> ds_Generation d" "ds_Spec d = ds_Spec req"
        using laws(2) by fastforce+
      with \<open>s' = Some d\<close> keeps(1) e assms(3) show ?thesis by (simp add: server_ok_def deployed_def)
    qed
  qed
qed

lemma Apply_ok:
  assumes "env_laws env m" and "\<And>i. api_laws (apis i)" and "server_ok (xs_server st)"
    and "ApplyRuntimeExtractorResources env apis st = (r, st')"
  shows "server_ok (xs_server st') \<and> (r = None \<longrightarrow> deployed env m (xs_server st'))"
proof -
  let ?f = "\<lambda>i server. ApplyDaemonSet env (apis i) (required_daemonset env m) (- 1) (da_Others (apis i) server)"
  obtain r1 s1 k where run: "retry_on_conflict (DefaultRetry_Steps - 1) (xe_conflict env) ?f 0 (xs_server st) = (r1, s1, k)"
    by (rule prod_cases3)
  have "server_ok s1 \<and> (\<forall>x. r1 = Inr x \<longrightarrow> deployed env m s1) \<and> 0 < k \<and> k \<le> 0 + Suc (DefaultRetry_Steps - 1)"
  proof (rule retry_on_conflict_rule [where P = server_ok and Q = "\<lambda>_. deployed env m", OF _ assms(3) run])
    fix i s r s'
    assume "?f i s = (r, s')" "server_ok s"
    moreover have "server_ok (da_Others (apis i) s)" using assms(2) [of i] \<open>server_ok s\<close> by (simp add: api_laws_def)
    ultimately show "server_ok s' \<and> (\<forall>x. r = Inr x \<longrightarrow> deployed env m s')"
      using ApplyDaemonSet_ok [OF assms(1) assms(2)] by blast
  qed
  moreover have "xs_server st' = s1 \<and> (r = None \<longrightarrow> (\<exists>x. r1 = Inr x))"
  proof -
    have "xe_manifest env = Inr m" using assms(1) by (simp add: env_laws_def)
    then have "applyDaemonSet env apis st = (case (r1, s1, k) of
        (Inl err, server, _) \<Rightarrow>
          (Inl (Errorf (''failed to apply runtime extractor daemonset: '' @ error_text err)), st\<lparr>xs_server := server\<rparr>)
      | (Inr (applied, modified), server, _) \<Rightarrow>
          (Inr applied, st\<lparr>xs_server := server, xs_events := (if modified
             then xs_events st @ [(''DaemonSet Updated'', ''Runtime extractor DaemonSet '' @ ds_Namespace applied @ ''/'' @
                    ds_Name applied @ '' was created or updated'')]
             else xs_events st)\<rparr>))"
      by (simp only: applyDaemonSet_def sum.case run)
    with assms(4) show ?thesis
      by (cases r1) (auto simp: ApplyRuntimeExtractorResources_def split: prod.splits)
  qed
  ultimately show ?thesis by auto
qed

text \<open>The daemon set that is applied: the images, and the arguments of the proxy.\<close>

lemma add_proxy_args_nth:
  assumes "i < length cs"
  shows "add_proxy_args args cs ! i =
    (if dc_Name (cs ! i) = kubeRbacProxyContainerName \<and> (\<forall>j < i. dc_Name (cs ! j) \<noteq> kubeRbacProxyContainerName)
     then (cs ! i)\<lparr>dc_Args := dc_Args (cs ! i) @ args\<rparr> else cs ! i)"
  using assms
proof (induction cs arbitrary: i)
  case (Cons c cs)
  show ?case
  proof (cases i)
    case 0
    then show ?thesis by simp
  next
    case (Suc j)
    have "(\<forall>k < Suc j. dc_Name ((c # cs) ! k) \<noteq> kubeRbacProxyContainerName) \<longleftrightarrow>
        dc_Name c \<noteq> kubeRbacProxyContainerName \<and> (\<forall>k < j. dc_Name (cs ! k) \<noteq> kubeRbacProxyContainerName)"
      by (auto simp: less_Suc_eq_0_disj)
    with Suc Cons.prems Cons.IH [of j] show ?thesis by auto
  qed
qed simp

lemma add_proxy_args_length [simp]: "length (add_proxy_args args cs) = length cs"
  by (induction cs) auto

lemma set_image_keeps [simp]: "dc_Name (set_image im c) = dc_Name c" "dc_Args (set_image im c) = dc_Args c"
  by (auto simp: set_image_def Let_def split: prod.splits)

lemma GetTLSProfileSpec_client:
  "GetTLSProfileSpec profiles profile =
    getTLSProfileSpec profiles (case profile of None \<Rightarrow> \<lparr>sp_Type = ''Intermediate'', sp_Custom = None\<rparr> | Some p \<Rightarrow> p)"
  by (auto simp: GetTLSProfileSpec_def getTLSProfileSpec_def split: option.splits)

lemma supported_ciphers_ok: "c \<in> set (supported_ciphers to_iana suite cs) \<Longrightarrow> \<exists>n. suite c = Inr n"
  by (auto simp: supported_ciphers_def split: sum.splits)

lemma valid_suites_supported:
  "valid_suites suite (to_iana cs) = [] \<longleftrightarrow> supported_ciphers to_iana suite cs = []"
  by (induction "to_iana cs") (auto simp: valid_suites_def supported_ciphers_def List.map_filter_def filter_empty_conv split: sum.splits)

lemma proxy_args:
  assumes "supported_ciphers to_iana suite (tp_Ciphers (profiles ''Intermediate'')) \<noteq> []"
  shows "\<exists>ciphers minimum. kubeRBACProxyTLSArgs profiles to_iana suite profile =
      [''--tls-cipher-suites='' @ join_with '','' ciphers, ''--tls-min-version='' @ minimum] \<and>
    ciphers \<noteq> [] \<and> (\<forall>c \<in> set ciphers. \<exists>n. suite c = Inr n) \<and>
    minimum = tp_MinTLSVersion (case GetTLSProfileSpec profiles profile of Inl _ \<Rightarrow> profiles ''Intermediate'' | Inr s \<Rightarrow> s)"
  using assms supported_ciphers_ok by (auto simp: kubeRBACProxyTLSArgs_def Let_def)

text \<open>
  The containers of the daemon set that is applied.  Their images are those of the release, named by the environment,
  or the default ones; only the first proxy container gets arguments, and these name a minimum
  version, that of the profile the HTTP client of the operator follows too (the Intermediate one when the profile has no
  specification), and a list of ciphers that is not empty and has supported ciphers only.
\<close>

lemma extractor_containers:
  assumes "supported_ciphers (xe_to_iana env) (xe_suite env) (tp_Ciphers (xe_profiles env ''Intermediate'')) \<noteq> []"
    and "i < length (dsp_Containers (ds_Spec m))"
  defines "c \<equiv> dsp_Containers (ds_Spec m) ! i"
    and "c' \<equiv> dsp_Containers (ds_Spec (required_daemonset env m)) ! i"
    and "image_of \<equiv> \<lambda>variable fallback. if xe_getenv env variable = [] then fallback else xe_getenv env variable"
  shows "dc_Name c' = dc_Name c \<and>
    (dc_Name c = ''extractor'' \<longrightarrow> dc_Image c' = image_of extractorImageEnv extractorDefaultImage) \<and>
    (dc_Name c = ''exporter'' \<longrightarrow> dc_Image c' = image_of exporterImageEnv exporterDefaultImage) \<and>
    (dc_Name c = ''kube-rbac-proxy'' \<longrightarrow> dc_Image c' = image_of proxyImageEnv proxyDefaultImage) \<and>
    (dc_Args c' = dc_Args c \<or> dc_Name c = ''kube-rbac-proxy'') \<and>
    (dc_Name c = ''kube-rbac-proxy'' \<and> (\<forall>j < i. dc_Name (dsp_Containers (ds_Spec m) ! j) \<noteq> ''kube-rbac-proxy'') \<longrightarrow>
      (\<exists>ciphers spec. dc_Args c' = dc_Args c @ [''--tls-cipher-suites='' @ join_with '','' ciphers,
           ''--tls-min-version='' @ tp_MinTLSVersion spec] \<and>
         ciphers \<noteq> [] \<and> (\<forall>n \<in> set ciphers. \<exists>k. xe_suite env n = Inr k) \<and>
         spec = (case getTLSProfileSpec (xe_profiles env)
                        (case xe_tlsProfile env of None \<Rightarrow> \<lparr>sp_Type = ''Intermediate'', sp_Custom = None\<rparr> | Some p \<Rightarrow> p) of
                   Inl _ \<Rightarrow> xe_profiles env ''Intermediate'' | Inr s \<Rightarrow> s)))"
proof -
  let ?args = "kubeRBACProxyTLSArgs (xe_profiles env) (xe_to_iana env) (xe_suite env) (xe_tlsProfile env)"
  let ?cs = "map (set_image (loadImagesFromEnvs (xe_getenv env))) (dsp_Containers (ds_Spec m))"
  have c': "c' = (if dc_Name c = kubeRbacProxyContainerName \<and>
        (\<forall>j < i. dc_Name (dsp_Containers (ds_Spec m) ! j) \<noteq> kubeRbacProxyContainerName)
      then (set_image (loadImagesFromEnvs (xe_getenv env)) c)\<lparr>dc_Args := dc_Args c @ ?args\<rparr>
      else set_image (loadImagesFromEnvs (xe_getenv env)) c)"
    using assms(2) add_proxy_args_nth [of i ?cs ?args]
    by (auto simp: c_def c'_def required_daemonset_def updateKubeRBACProxyTLSArgs_def updateContainerImages_def)
  have images: "dc_Image c' = dc_Image (set_image (loadImagesFromEnvs (xe_getenv env)) c)" "dc_Name c' = dc_Name c"
    by (simp_all add: c')
  from proxy_args [of "xe_to_iana env" "xe_suite env" "xe_profiles env", OF assms(1), of "xe_tlsProfile env"] obtain ciphers minimum where
    a: "?args = [''--tls-cipher-suites='' @ join_with '','' ciphers, ''--tls-min-version='' @ minimum]" "ciphers \<noteq> []"
    "\<forall>c \<in> set ciphers. \<exists>n. xe_suite env c = Inr n"
    "minimum = tp_MinTLSVersion (case GetTLSProfileSpec (xe_profiles env) (xe_tlsProfile env) of
       Inl _ \<Rightarrow> xe_profiles env ''Intermediate'' | Inr s \<Rightarrow> s)"
    by blast
  show ?thesis
  proof (intro conjI impI)
    show "dc_Args c' = dc_Args c \<or> dc_Name c = ''kube-rbac-proxy''" by (auto simp: c' kubeRbacProxyContainerName_def)
    assume "dc_Name c = ''kube-rbac-proxy'' \<and> (\<forall>j < i. dc_Name (dsp_Containers (ds_Spec m) ! j) \<noteq> ''kube-rbac-proxy'')"
    then have "dc_Args c' = dc_Args c @ ?args" by (simp add: c' kubeRbacProxyContainerName_def)
    with a show "\<exists>ciphers spec. dc_Args c' = dc_Args c @ [''--tls-cipher-suites='' @ join_with '','' ciphers,
           ''--tls-min-version='' @ tp_MinTLSVersion spec] \<and>
         ciphers \<noteq> [] \<and> (\<forall>n \<in> set ciphers. \<exists>k. xe_suite env n = Inr k) \<and>
         spec = (case getTLSProfileSpec (xe_profiles env)
                        (case xe_tlsProfile env of None \<Rightarrow> \<lparr>sp_Type = ''Intermediate'', sp_Custom = None\<rparr> | Some p \<Rightarrow> p) of
                   Inl _ \<Rightarrow> xe_profiles env ''Intermediate'' | Inr s \<Rightarrow> s)"
      unfolding GetTLSProfileSpec_client by (intro exI [of _ ciphers] exI conjI) simp_all
  qed (simp_all add: images set_image_def loadImagesFromEnvs_def Let_def image_of_def kubeRbacProxyContainerName_def)
qed

definition example_manifest :: daemonset where
  "example_manifest =
     \<lparr>ds_Namespace = ''openshift-insights'', ds_Name = ''insights-runtime-extractor'', ds_Generation = 0, ds_Annotations = [],
      ds_Spec = \<lparr>dsp_Containers = [\<lparr>dc_Name = ''kube-rbac-proxy'', dc_Image = ''i'', dc_Args = [''--v'']\<rparr>,
        \<lparr>dc_Name = ''extractor'', dc_Image = ''i'', dc_Args = []\<rparr>], dsp_Rest = ''r''\<rparr>\<rparr>"

definition example_xenv :: extractor_env where
  "example_xenv =
     \<lparr>xe_manifest = Inr example_manifest,
      xe_getenv = (\<lambda>v. if v = ''RELATED_IMAGE_KUBE_RBAC_PROXY'' then ''proxy:1'' else []),
      xe_profiles = (\<lambda>_. \<lparr>tp_Ciphers = [''A''], tp_MinTLSVersion = ''VersionTLS12''\<rparr>), xe_to_iana = (\<lambda>x. x),
      xe_suite = (\<lambda>_. Inr 1), xe_hash = (\<lambda>_. Inr ''h''), xe_ensure = (\<lambda>e _. (False, e)), xe_conflict = (\<lambda>_. False),
      xe_tlsProfile = None\<rparr>"

lemma deleteDeployment_absent:
  assumes "da_Get (apis 0) = None" and "da_Delete (apis 0) = None"
  shows "xs_server (deleteDeployment apis st) = None"
  using assms
  by (cases "xs_server st") (simp_all add: deleteDeployment_def isCreated_def ResourcesExists_def daemonSetExists_def getDaemonSet_def
      DeleteRuntimeExtractorResources_def deleteDaemonSet_def)

lemma deleteDeployment_ok: "server_ok (xs_server st) \<Longrightarrow> server_ok (xs_server (deleteDeployment apis st))"
  by (auto simp: deleteDeployment_def DeleteRuntimeExtractorResources_def deleteDaemonSet_def Let_def server_ok_def
      split: option.splits)

definition event_laws :: "extractor_event \<Rightarrow> bool" where
  "event_laws ev = (case ev of
       ConfigChangedEv cfg apis \<Rightarrow> \<forall>i. api_laws (apis i)
     | VersionEv cfg apis \<Rightarrow> \<forall>i. api_laws (apis i)
     | ResourceModifiedEv cfg apis \<Rightarrow> \<forall>i. api_laws (apis i)
     | OthersEv f \<Rightarrow> \<forall>s. server_ok s \<longrightarrow> server_ok (f s)
     | ExtractorDone \<Rightarrow> True)"

lemma Apply_server_ok:
  assumes "env_laws env m" and "\<forall>i. api_laws (apis i)" and "server_ok (xs_server st)"
  shows "server_ok (xs_server (snd (ApplyRuntimeExtractorResources env apis st)))"
  using Apply_ok [OF assms(1) _ assms(3), of apis] assms(2) by (metis prod.collapse)

lemmas handler_defs = handleConfigChange_def handleVersionUpdate_def handleResourceDrift_def createDeployment_def updateDeployment_def

lemma extractor_loop_ok:
  assumes "env_laws env m" and "list_all event_laws evs" and "server_ok (xs_server st)"
  shows "server_ok (xs_server (extractor_loop env evs st))"
  using assms
  by (induction env evs st rule: extractor_loop.induct)
    (auto simp: event_laws_def handler_defs Apply_server_ok deleteDeployment_ok)

lemma extractor_loop_append:
  "ExtractorDone \<notin> set evs \<Longrightarrow> extractor_loop env (evs @ evs') st = extractor_loop env evs' (extractor_loop env evs st)"
  by (induction env evs st rule: extractor_loop.induct) auto

text \<open>
  The daemon set follows the configuration.  Whatever happened before, when the configuration changes or a
  change of the daemon set by others is noticed: with the extractor enabled, and an apply without error, the
  server holds the specification with the images and arguments of this release;
  with the extractor disabled, and a server that answers, there is no daemon set.
\<close>

lemma extractor_reconciles:
  fixes cfg0 :: InsightsConfiguration
  assumes "env_laws env m" and "list_all event_laws (evs @ [ev])" and "\<forall>i. api_laws (apis0 i)" and "server_ok (xs_server st0)"
    and "ExtractorDone \<notin> set evs" and "ev = ConfigChangedEv cfg apis \<or> ev = ResourceModifiedEv cfg apis"
  defines "st \<equiv> extractor_Run env cfg0 apis0 evs st0"
    and "st' \<equiv> extractor_Run env cfg0 apis0 (evs @ [ev]) st0"
  shows "(\<not> extractor_disabled cfg \<and> fst (ApplyRuntimeExtractorResources env apis st) = None \<longrightarrow>
      (\<exists>d. xs_server st' = Some d \<and> ds_Spec d = ds_Spec (required_daemonset env m))) \<and>
    (extractor_disabled cfg \<and> da_Get (apis 0) = None \<and> da_Delete (apis 0) = None \<longrightarrow> xs_server st' = None)"
proof -
  have st': "st' = (if extractor_disabled cfg then deleteDeployment apis st else snd (ApplyRuntimeExtractorResources env apis st))"
    using assms(5,6) by (auto simp: st_def st'_def extractor_Run_def extractor_loop_append handler_defs)
  have "server_ok (xs_server (handleConfigChange env cfg0 apis0 st0))"
    using assms(3,4) by (simp add: handler_defs Apply_server_ok [OF assms(1)] deleteDeployment_ok)
  with assms(2) have ok: "server_ok (xs_server st)"
    unfolding st_def extractor_Run_def by (intro extractor_loop_ok [OF assms(1)]) simp_all
  have laws: "api_laws (apis i)" for i using assms(2,6) by (auto simp: event_laws_def)
  obtain r st1 where ap: "ApplyRuntimeExtractorResources env apis st = (r, st1)" by force
  from Apply_ok [OF assms(1) laws ok ap] have "r = None \<longrightarrow> deployed env m (xs_server st1)" by blast
  then show ?thesis
    by (auto simp: st' ap deleteDeployment_absent deployed_def split: option.splits)
qed

definition example_ds_api :: ds_api where
  "example_ds_api = \<lparr>da_Others = (\<lambda>s. s), da_Get = None, da_Create = (\<lambda>d. Inr (d\<lparr>ds_Generation := 1\<rparr>)),
     da_Update = (\<lambda>c d. Inr (d\<lparr>ds_Namespace := ds_Namespace c, ds_Name := ds_Name c,
       ds_Generation := (if ds_Spec d = ds_Spec c then ds_Generation c else ds_Generation c + 1)\<rparr>)), da_Delete = None\<rparr>"

lemma example_laws: "api_laws example_ds_api" "env_laws example_xenv example_manifest"
  by (simp_all add: api_laws_def example_ds_api_def env_laws_def example_xenv_def example_manifest_def daemonSetNamespace_def daemonSetName_def)

section \<open>Changes made by others\<close>

text \<open>
  The daemon set on the server, the number of notifications pending, and whether the last apply call of the controller
  failed.  Others change or delete the daemon set (the generation changes with the specification); the controller, with
  the extractor enabled, takes a notification, or is told of a change of the configuration or of the version, and
  applies the daemon set, with or without success.
\<close>

inductive drift_step ::
  "extractor_env \<Rightarrow> daemonset \<Rightarrow> daemonset option \<times> nat \<times> bool \<Rightarrow> daemonset option \<times> nat \<times> bool \<Rightarrow> bool"
  for env :: extractor_env and m :: daemonset where
  others: "server_ok s' \<Longrightarrow>
    (\<And>d d'. s = Some d \<Longrightarrow> s' = Some d' \<Longrightarrow> ds_Generation d = ds_Generation d' \<Longrightarrow> ds_Spec d = ds_Spec d') \<Longrightarrow>
    drift_step env m (s, p, failed) (s', daemonSetEventHandler s s' p, failed)"
| reconcile: "(\<And>i. api_laws (apis i)) \<Longrightarrow> \<not> extractor_disabled cfg \<Longrightarrow>
    st = \<lparr>xs_server = s, xs_events = evs\<rparr> \<Longrightarrow> s' = xs_server (handleResourceDrift env cfg apis st) \<Longrightarrow>
    failed' = (fst (ApplyRuntimeExtractorResources env apis st) \<noteq> None) \<Longrightarrow>
    drift_step env m (s, Suc p, failed) (s', daemonSetEventHandler s s' p, failed')"
| configured: "(\<And>i. api_laws (apis i)) \<Longrightarrow> \<not> extractor_disabled cfg \<Longrightarrow>
    st = \<lparr>xs_server = s, xs_events = evs\<rparr> \<Longrightarrow> s' = xs_server (handleConfigChange env cfg apis st) \<Longrightarrow>
    failed' = (fst (ApplyRuntimeExtractorResources env apis st) \<noteq> None) \<Longrightarrow>
    drift_step env m (s, p, failed) (s', daemonSetEventHandler s s' p, failed')"
| versioned: "(\<And>i. api_laws (apis i)) \<Longrightarrow> \<not> extractor_disabled cfg \<Longrightarrow>
    st = \<lparr>xs_server = s, xs_events = evs\<rparr> \<Longrightarrow> s' = xs_server (handleVersionUpdate env cfg apis st) \<Longrightarrow>
    failed' = (if isCreated (apis 0) st then fst (ApplyRuntimeExtractorResources env apis st) \<noteq> None else failed) \<Longrightarrow>
    drift_step env m (s, p, failed) (s', daemonSetEventHandler s s' p, failed')"

lemma notify_pos [simp]: "0 < notifyModification p"
  by (simp add: notifyModification_def modifiedCh_capacity_def)

lemma notify_mono: "p \<le> notifyModification p" "p \<le> modifiedCh_capacity \<Longrightarrow> notifyModification p \<le> modifiedCh_capacity"
  by (simp_all add: notifyModification_def)

lemma handler_mono: "p \<le> daemonSetEventHandler s s' p"
  "p \<le> modifiedCh_capacity \<Longrightarrow> daemonSetEventHandler s s' p \<le> modifiedCh_capacity"
  by (cases s; cases s'; simp add: handleDaemonSetUpdate_def handleResourceDeletion_def notify_mono)+

lemma handler_notices:
  assumes "server_ok s" and "server_ok s'" and "deployed env m s"
    and "\<And>d d'. s = Some d \<Longrightarrow> s' = Some d' \<Longrightarrow> ds_Generation d = ds_Generation d' \<Longrightarrow> ds_Spec d = ds_Spec d'"
  shows "deployed env m s' \<or> 0 < daemonSetEventHandler s s' p"
proof -
  from assms(3) obtain d where s: "s = Some d" by (auto simp: deployed_def split: option.splits)
  show ?thesis
  proof (cases s')
    case None
    with assms(1) s show ?thesis by (simp add: handleResourceDeletion_def server_ok_def)
  next
    case (Some d')
    with assms s show ?thesis
      by (cases "ds_Generation d = ds_Generation d'") (auto simp: handleDaemonSetUpdate_def isDaemonSetModified_def server_ok_def deployed_def)
  qed
qed

definition drift_inv :: "extractor_env \<Rightarrow> daemonset \<Rightarrow> daemonset option \<times> nat \<times> bool \<Rightarrow> bool" where
  "drift_inv env m x =
     (case x of (s, p, failed) \<Rightarrow> server_ok s \<and> (deployed env m s \<or> 0 < p \<or> failed) \<and> p \<le> modifiedCh_capacity)"

lemma drift_inv_applied:
  assumes "env_laws env m" and "\<And>i. api_laws (apis i)" and "server_ok s" and "p \<le> modifiedCh_capacity"
    and "st = \<lparr>xs_server = s, xs_events = evs\<rparr>" and "s' = xs_server (snd (ApplyRuntimeExtractorResources env apis st))"
    and "failed' = (fst (ApplyRuntimeExtractorResources env apis st) \<noteq> None)"
  shows "drift_inv env m (s', daemonSetEventHandler s s' p, failed')"
proof -
  obtain r st' where ap: "ApplyRuntimeExtractorResources env apis st = (r, st')" by force
  from Apply_ok [OF assms(1,2) _ ap] assms(3,5) have "server_ok (xs_server st')" "r = None \<longrightarrow> deployed env m (xs_server st')"
    by simp_all
  then show ?thesis using assms(4,6,7) ap handler_mono(2) by (auto simp: drift_inv_def)
qed

lemma drift_step_inv:
  assumes "env_laws env m" and "drift_inv env m x" and "drift_step env m x y"
  shows "drift_inv env m y"
  using assms(3)
proof (cases rule: drift_step.cases)
  case (others s' s p failed)
  have "deployed env m s' \<or> 0 < daemonSetEventHandler s s' p \<or> failed"
  proof (cases "0 < p \<or> failed")
    case True
    then show ?thesis using handler_mono(1) [of p s s'] by linarith
  next
    case False
    with assms(2) others(1) have "server_ok s" "deployed env m s" by (simp_all add: drift_inv_def)
    from handler_notices [of s s' env m p, OF this(1) others(3) this(2)] others(4) show ?thesis by metis
  qed
  with assms(2) others(1-3) handler_mono(2) show ?thesis by (simp add: drift_inv_def)
next
  case (reconcile apis cfg st s evs s' failed' p failed)
  from assms(2) reconcile(1) have ok: "server_ok s" "p \<le> modifiedCh_capacity" by (simp_all add: drift_inv_def)
  from reconcile have s': "s' = xs_server (snd (ApplyRuntimeExtractorResources env apis st))" by (simp add: handler_defs)
  from drift_inv_applied [OF assms(1) reconcile(3) ok reconcile(5) s' reconcile(7)] show ?thesis by (simp only: reconcile(2))
next
  case (configured apis cfg st s evs s' failed' p failed)
  from assms(2) configured(1) have ok: "server_ok s" "p \<le> modifiedCh_capacity" by (simp_all add: drift_inv_def)
  from configured have s': "s' = xs_server (snd (ApplyRuntimeExtractorResources env apis st))" by (simp add: handler_defs)
  from drift_inv_applied [OF assms(1) configured(3) ok configured(5) s' configured(7)] show ?thesis by (simp only: configured(2))
next
  case (versioned apis cfg st s evs s' failed' failed p)
  show ?thesis
  proof (cases "isCreated (apis 0) st")
    case True
    from assms(2) versioned(1) have ok: "server_ok s" "p \<le> modifiedCh_capacity" by (simp_all add: drift_inv_def)
    from True versioned have s': "s' = xs_server (snd (ApplyRuntimeExtractorResources env apis st))"
      and f: "failed' = (fst (ApplyRuntimeExtractorResources env apis st) \<noteq> None)" by (simp_all add: handler_defs)
    from drift_inv_applied [OF assms(1) versioned(3) ok versioned(5) s' f] show ?thesis by (simp only: versioned(2))
  next
    case False
    with versioned have "s' = s" "failed' = failed" by (simp_all add: handler_defs)
    with versioned(1,2) assms(2) handler_mono [of p s s] show ?thesis by (auto simp: drift_inv_def)
  qed
qed

text \<open>
  C31: No change of the daemon set is forgotten but by an apply call that fails.  As long as the extractor is enabled, on a
  server that stores the specification it is sent: at every moment the server holds the specification of this release, or
  a notification is pending, or the last apply call of the controller failed, however many changes others make and
  although a full channel drops notifications; no more than ten are ever pending.
\<close>

theorem drift_noticed:
  assumes "env_laws env m" and "(drift_step env m)\<^sup>*\<^sup>* (s0, p0, failed0) (s, p, failed)"
    and "server_ok s0" and "deployed env m s0 \<or> failed0" and "p0 \<le> modifiedCh_capacity"
  shows "(deployed env m s \<or> 0 < p \<or> failed) \<and> p \<le> 10"
proof -
  have "drift_inv env m (s0, p0, failed0)" using assms(3-5) by (auto simp: drift_inv_def)
  with assms(2) have "drift_inv env m (s, p, failed)" by (rule rtranclp_induct) (auto intro: drift_step_inv [OF assms(1)])
  then show ?thesis by (simp add: drift_inv_def modifiedCh_capacity_def)
qed

theorem drift_noticed_witness:
  "deployed example_xenv example_manifest (Some ((required_daemonset example_xenv example_manifest)\<lparr>ds_Generation := 1\<rparr>)) \<and>
   (drift_step example_xenv example_manifest)\<^sup>*\<^sup>*
     (Some ((required_daemonset example_xenv example_manifest)\<lparr>ds_Generation := 1\<rparr>), 0, False) (None, Suc 0, False) \<and>
   (deployed example_xenv example_manifest None \<or> 0 < Suc 0 \<or> False) \<and> Suc 0 \<le> (10 :: nat)"
proof -
  let ?d = "(required_daemonset example_xenv example_manifest)\<lparr>ds_Generation := 1\<rparr>"
  have ok: "server_ok (Some ?d)"
    by (simp add: server_ok_def required_daemonset_def example_manifest_def daemonSetNamespace_def daemonSetName_def)
  have dep: "deployed example_xenv example_manifest (Some ?d)" by (simp add: deployed_def)
  have h: "daemonSetEventHandler (Some ?d) None 0 = Suc 0"
    using ok by (simp add: handleResourceDeletion_def server_ok_def notifyModification_def modifiedCh_capacity_def)
  have "drift_step example_xenv example_manifest (Some ?d, 0, False) (None, daemonSetEventHandler (Some ?d) None 0, False)"
    by (rule others) (simp_all add: server_ok_def)
  with h have run: "(drift_step example_xenv example_manifest)\<^sup>*\<^sup>* (Some ?d, 0, False) (None, Suc 0, False)" by simp
  from dep have "deployed example_xenv example_manifest (Some ?d) \<or> False" by simp
  from drift_noticed [OF example_laws(2) run ok this] dep run show ?thesis by simp
qed

text \<open>
  When nobody else interferes and the server answers, the controller repairs the daemon set and comes to rest.
\<close>

definition reconcile_drift :: "extractor_env \<Rightarrow> InsightsConfiguration \<Rightarrow> ds_api \<Rightarrow> daemonset option \<times> nat \<Rightarrow> daemonset option \<times> nat" where
  "reconcile_drift env cfg api x =
     (case x of
        (s, 0) \<Rightarrow> (s, 0)
      | (s, Suc p) \<Rightarrow>
          let s' = xs_server (handleResourceDrift env cfg (\<lambda>_. api) \<lparr>xs_server = s, xs_events = []\<rparr>)
          in (s', daemonSetEventHandler s s' p))"

definition answering :: "extractor_env \<Rightarrow> ds_api \<Rightarrow> bool" where
  "answering env api =
     (api_laws api \<and> da_Others api = (\<lambda>s. s) \<and> da_Get api = None \<and> (\<forall>d. \<exists>d'. da_Create api d = Inr d') \<and>
      (\<forall>c d. \<exists>d'. da_Update api c d = Inr d') \<and> (\<forall>sp. \<exists>h. xe_hash env sp = Inr h))"

lemma apply_answers:
  assumes "env_laws env m" and "answering env api" and "server_ok s"
  shows "\<exists>st'. ApplyRuntimeExtractorResources env (\<lambda>_. api) \<lparr>xs_server = s, xs_events = evs\<rparr> = (None, st') \<and>
    (\<forall>d. s = Some d \<longrightarrow> deployed env m s \<longrightarrow> (\<exists>d'. xs_server st' = Some d' \<and> ds_Generation d' = ds_Generation d))"
proof -
  note an = assms(2) [unfolded answering_def]
  from an obtain h where h: "xe_hash env (ds_Spec (required_daemonset env m)) = Inr h" by blast
  define req where "req = (required_daemonset env m)\<lparr>ds_Annotations :=
    map_put ''operator.openshift.io/spec-hash'' h (ds_Annotations (required_daemonset env m))\<rparr>"
  have req: "SetSpecHashAnnotation (xe_hash env) (required_daemonset env m) = Inr req" "ds_Spec req = ds_Spec (required_daemonset env m)"
    by (simp_all add: SetSpecHashAnnotation_def h req_def)
  have "\<exists>d b. ApplyDaemonSet env api (required_daemonset env m) (- 1) s = (Inr (d, b), Some d) \<and>
      (\<forall>e. s = Some e \<longrightarrow> deployed env m s \<longrightarrow> ds_Generation d = ds_Generation e)"
  proof (cases s)
    case None
    from an obtain d where "da_Create api req = Inr d" by blast
    with None an req have "ApplyDaemonSet env api (required_daemonset env m) (- 1) s = (Inr (d, True), Some d)"
      by (simp add: ApplyDaemonSet_def getDaemonSet_def isNotFound_def)
    with None show ?thesis by blast
  next
    case (Some e)
    obtain b copy where en: "xe_ensure env e req = (b, copy)" by force
    with assms(1,3) Some have g: "ds_Generation copy \<noteq> - 1" by (fastforce simp: env_laws_def server_ok_def)
    from an obtain d where u: "da_Update api e (copy\<lparr>ds_Spec := ds_Spec req\<rparr>) = Inr d" by blast
    have "api_laws api" using an by blast
    then have "(ds_Generation d = ds_Generation e) = (ds_Spec (copy\<lparr>ds_Spec := ds_Spec req\<rparr>) = ds_Spec e)"
      using u unfolding api_laws_def by blast
    then have "deployed env m s \<longrightarrow> ds_Generation d = ds_Generation e" using Some req(2) by (simp add: deployed_def)
    moreover from Some an req(1) en g u have "ApplyDaemonSet env api (required_daemonset env m) (- 1) s = (Inr (d, True), Some d)"
      by (simp add: ApplyDaemonSet_def getDaemonSet_def)
    ultimately show ?thesis using Some by blast
  qed
  then obtain d b where a: "ApplyDaemonSet env api (required_daemonset env m) (- 1) s = (Inr (d, b), Some d)"
    "\<forall>e. s = Some e \<longrightarrow> deployed env m s \<longrightarrow> ds_Generation d = ds_Generation e" by blast
  have r: "retry_on_conflict (DefaultRetry_Steps - 1) (xe_conflict env)
      (\<lambda>i server. ApplyDaemonSet env api (required_daemonset env m) (- 1) (da_Others api server)) 0 s = (Inr (d, b), Some d, 1)"
    using an a(1) by (subst retry_on_conflict.simps) simp
  have "xe_manifest env = Inr m" using assms(1) by (simp add: env_laws_def)
  then have "\<exists>evs'. ApplyRuntimeExtractorResources env (\<lambda>_. api) \<lparr>xs_server = s, xs_events = evs\<rparr> = (None, \<lparr>xs_server = Some d, xs_events = evs'\<rparr>)"
    by (simp add: ApplyRuntimeExtractorResources_def applyDaemonSet_def r del: One_nat_def)
  with a(2) show ?thesis by fastforce
qed

lemma reconcile_once:
  assumes "env_laws env m" and "answering env api" and "server_ok s" and "\<not> extractor_disabled cfg"
    and "reconcile_drift env cfg api (s, Suc p) = (s', p')" and "Suc p \<le> modifiedCh_capacity"
  shows "server_ok s' \<and> deployed env m s' \<and> p' \<le> (if deployed env m s then p else Suc p) \<and> p' \<le> modifiedCh_capacity"
proof -
  from apply_answers [OF assms(1,2,3), of "[]"] obtain st' where
    ap: "ApplyRuntimeExtractorResources env (\<lambda>_. api) \<lparr>xs_server = s, xs_events = []\<rparr> = (None, st')"
    and g: "\<forall>d. s = Some d \<longrightarrow> deployed env m s \<longrightarrow> (\<exists>d'. xs_server st' = Some d' \<and> ds_Generation d' = ds_Generation d)" by blast
  have laws: "api_laws api" using assms(2) by (simp add: answering_def)
  from Apply_ok [OF assms(1) laws _ ap] assms(3) have ok: "server_ok (xs_server st')" "deployed env m (xs_server st')" by simp_all
  from assms(4,5) ap have s': "s' = xs_server st'" "p' = daemonSetEventHandler s s' p"
    by (auto simp: reconcile_drift_def handleResourceDrift_def Let_def)
  have "p' \<le> Suc p" using s'(2)
    by (cases s; cases s') (simp_all add: handleDaemonSetUpdate_def handleResourceDeletion_def notifyModification_def)
  moreover have "deployed env m s \<Longrightarrow> p' \<le> p"
  proof -
    assume dep: "deployed env m s"
    then obtain d where s: "s = Some d" by (auto simp: deployed_def split: option.splits)
    with g dep obtain d' where "s' = Some d'" "ds_Generation d' = ds_Generation d" using s'(1) by blast
    with s s'(2) show "p' \<le> p" by (simp add: handleDaemonSetUpdate_def isDaemonSetModified_def)
  qed
  moreover have "p' \<le> modifiedCh_capacity" using handler_mono(2) [of p s s'] assms(6) s'(2) by simp
  ultimately show ?thesis using ok s'(1) by simp
qed

text \<open>
  C30: Changes by others are repaired and the controller comes to rest.  From every state with a notification pending, or with the
  specification of this release in place, and a server that answers: after at most one reconciliation more than there are
  notifications, the specification is in place and nothing is pending, although the repair changes the generation and so
  notifies the controller of its own change.
\<close>

theorem drift_converges:
  assumes "env_laws env m" and "answering env api" and "server_ok s" and "\<not> extractor_disabled cfg"
    and "p \<le> modifiedCh_capacity" and "0 < p \<or> deployed env m s" and "Suc p \<le> n"
  shows "\<exists>s'. (reconcile_drift env cfg api ^^ n) (s, p) = (s', 0) \<and> deployed env m s'"
proof -
  let ?mu = "\<lambda>s p. p + (if deployed env m s then 0 else 1 :: nat)"
  have "\<exists>s'. (reconcile_drift env cfg api ^^ n) (s, p) = (s', 0) \<and> deployed env m s'"
    if "server_ok s" "p \<le> modifiedCh_capacity" "0 < p \<or> deployed env m s" "?mu s p \<le> n" for s p n
    using that
  proof (induction n arbitrary: s p)
    case (Suc n)
    show ?case
    proof (cases p)
      case 0
      with Suc.prems have "deployed env m s" by simp
      moreover have "reconcile_drift env cfg api (s, 0) = (s, 0)" by (simp add: reconcile_drift_def)
      then have "(reconcile_drift env cfg api ^^ k) (s, 0) = (s, 0)" for k by (induction k) simp_all
      ultimately show ?thesis using 0 by blast
    next
      case (Suc q)
      obtain s' p' where st: "reconcile_drift env cfg api (s, Suc q) = (s', p')" by force
      note r = reconcile_once [OF assms(1,2) Suc.prems(1) assms(4) st]
      with Suc.prems Suc have "server_ok s'" "deployed env m s'" "p' \<le> modifiedCh_capacity" "?mu s' p' \<le> n"
        by (auto split: if_splits)
      from Suc.IH [OF this(1,3) _ this(4)] this(2) Suc st show ?thesis by (simp only: funpow_Suc_right comp_def) blast
    qed
  qed (auto split: if_splits)
  from this [OF assms(3,5,6)] assms(7) show ?thesis by simp
qed

theorem drift_converges_witness:
  "\<exists>s'. (reconcile_drift example_xenv example_cm example_ds_api ^^ 2) (None, 1) = (s', 0) \<and> deployed example_xenv example_manifest s'"
proof (rule drift_converges [OF example_laws(2)])
  show "answering example_xenv example_ds_api"
    using example_laws(1) by (simp add: answering_def example_ds_api_def example_xenv_def)
  show "\<not> extractor_disabled example_cm" by code_simp
qed (simp_all add: server_ok_def modifiedCh_capacity_def)

text \<open>After an apply that fails no notification is left: the daemon set stays as others left it until the next event.\<close>

lemma failed_repair_forgotten:
  assumes "xe_manifest env = Inl err"
  shows "handleResourceDrift env cfg apis st = st \<or> extractor_disabled cfg"
  using assms by (simp add: handleResourceDrift_def ApplyRuntimeExtractorResources_def applyDaemonSet_def)

end
