(* ===== verification/Operator.thy ===== *)
theory Operator
  imports GatherCommands RuntimeExtractor
begin

text \<open>
  The start of the operator: pkg/controller/operator.go, kubeconfigs.go, const.go and generic_client.go.

  \<open>Run\<close> is the sequence of steps of the code: every constructor that can fail is an outcome of the record
  \<open>startup_env\<close>, a step that fails ends the start with its error.  The state has the configuration, the
  loops (goroutines) started so far, the sources of the status reporter, and the gathering jobs and DataGather resources
  that a restart cleans up.
\<close>

section \<open>Configurations of the clients\<close>

definition metricCAFile :: string where "metricCAFile = ''/var/run/configmaps/service-ca-bundle/service-ca.crt''"
definition metricHost :: string where "metricHost = ''https://prometheus-k8s.openshift-monitoring.svc:9091''"
definition alertManagerHost :: string where "alertManagerHost = ''https://alertmanager-main.openshift-monitoring.svc:9094''"
definition insecurePrometheusTokenEnvVariable :: string where
  "insecurePrometheusTokenEnvVariable = ''INSECURE_PROMETHEUS_TOKEN''"

record rest_config =
  rc_Host :: string
  rc_APIPath :: string
  rc_CAFile :: string
  rc_CAData :: bytes
  rc_Insecure :: bool
  rc_BearerToken :: string
  rc_ImpersonateUserName :: string
  rc_GroupVersion :: "(string \<times> string) option"
  rc_NegotiatedSerializer :: string

definition createGatherConfig :: "rest_config \<Rightarrow> string \<Rightarrow> string \<Rightarrow> rest_config" where
  "createGatherConfig kubeConfig configHost token =
     (let c = kubeConfig\<lparr>rc_CAFile := metricCAFile, rc_NegotiatedSerializer := ''scheme.Codecs'',
                rc_GroupVersion := Some ([], []), rc_APIPath := ''/'', rc_Host := configHost\<rparr>
      in if 0 < length token
         then c\<lparr>rc_Insecure := True, rc_BearerToken := token, rc_CAFile := [], rc_CAData := []\<rparr>
         else c)"

definition prepareGatherConfigs ::
  "(string \<Rightarrow> string) \<Rightarrow> rest_config \<Rightarrow> rest_config \<Rightarrow> string \<Rightarrow> rest_config \<times> rest_config \<times> rest_config \<times> rest_config" where
  "prepareGatherConfigs getenv protoKubeConfig kubeConfig impersonate =
     (let gatherProtoKubeConfig = (if 0 < length impersonate then protoKubeConfig\<lparr>rc_ImpersonateUserName := impersonate\<rparr> else protoKubeConfig);
          gatherKubeConfig = (if 0 < length impersonate then kubeConfig\<lparr>rc_ImpersonateUserName := impersonate\<rparr> else kubeConfig);
          token = trim_space (getenv insecurePrometheusTokenEnvVariable)
      in (gatherProtoKubeConfig, gatherKubeConfig, createGatherConfig kubeConfig metricHost token,
          createGatherConfig kubeConfig alertManagerHost token))"

section \<open>The client of the log level controller\<close>

text \<open>
  The resource of the operator, with its specification and status; \<open>lister\<close> is the outcome of reading it from the cache of the
  informer, and the answer of the API server to a write is an argument.  A write returns the object that was sent, too.
\<close>

record ('spec, 'status, 'meta) operator_resource =
  or_ResourceVersion :: string
  or_OperatorSpec :: 'spec
  or_OperatorStatus :: 'status
  or_ObjectMeta :: 'meta

definition CurrentStatus :: "('spec, 'status, 'meta) operator_resource result \<Rightarrow> 'status result" where
  "CurrentStatus lister = (case lister of Inl err \<Rightarrow> Inl err | Inr i \<Rightarrow> Inr (or_OperatorStatus i))"

definition GetOperatorState :: "('spec, 'status, 'meta) operator_resource result \<Rightarrow> ('spec \<times> 'status \<times> string) result" where
  "GetOperatorState lister =
     (case lister of Inl err \<Rightarrow> Inl err | Inr i \<Rightarrow> Inr (or_OperatorSpec i, or_OperatorStatus i, or_ResourceVersion i))"

definition GetObjectMeta :: "('spec, 'status, 'meta) operator_resource result \<Rightarrow> 'meta result" where
  "GetObjectMeta lister = (case lister of Inl err \<Rightarrow> Inl err | Inr i \<Rightarrow> Inr (or_ObjectMeta i))"

definition GetOperatorStateWithQuorum :: "('spec, 'status, 'meta) operator_resource result \<Rightarrow> ('spec \<times> 'status \<times> string) result" where
  "GetOperatorStateWithQuorum lister =
     (case lister of Inl err \<Rightarrow> Inl err | Inr i \<Rightarrow> Inr (or_OperatorSpec i, or_OperatorStatus i, or_ResourceVersion i))"

definition UpdateOperatorSpec ::
  "('spec, 'status, 'meta) operator_resource result \<Rightarrow>
   (('spec, 'status, 'meta) operator_resource \<Rightarrow> ('spec, 'status, 'meta) operator_resource result) \<Rightarrow>
   string \<Rightarrow> 'spec \<Rightarrow> ('spec, 'status, 'meta) operator_resource list \<times> ('spec \<times> string) result" where
  "UpdateOperatorSpec lister update resourceVersion sp =
     (case lister of
        Inl err \<Rightarrow> ([], Inl err)
      | Inr i \<Rightarrow>
          let copy = i\<lparr>or_ResourceVersion := resourceVersion, or_OperatorSpec := sp\<rparr>
          in ([copy], case update copy of Inl err \<Rightarrow> Inl err | Inr ret \<Rightarrow> Inr (or_OperatorSpec ret, or_ResourceVersion ret)))"

definition UpdateOperatorStatus ::
  "('spec, 'status, 'meta) operator_resource result \<Rightarrow>
   (('spec, 'status, 'meta) operator_resource \<Rightarrow> ('spec, 'status, 'meta) operator_resource result) \<Rightarrow>
   string \<Rightarrow> 'status \<Rightarrow> ('spec, 'status, 'meta) operator_resource list \<times> 'status result" where
  "UpdateOperatorStatus lister update resourceVersion s =
     (case lister of
        Inl err \<Rightarrow> ([], Inl err)
      | Inr i \<Rightarrow>
          let copy = i\<lparr>or_ResourceVersion := resourceVersion, or_OperatorStatus := s\<rparr>
          in ([copy], case update copy of Inl err \<Rightarrow> Inl err | Inr ret \<Rightarrow> Inr (or_OperatorStatus ret)))"

section \<open>Is the operator healthy\<close>

record container_last_state =
  cls_Terminated :: bool
  cls_Waiting :: bool

text \<open>The outcome of the client constructor, of the context and of reading the own pod.\<close>

definition isRunning ::
  "go_error option \<Rightarrow> go_error option \<Rightarrow> container_last_state list result \<Rightarrow> bool result" where
  "isRunning client ctxErr pod =
     (case client of
        Some err \<Rightarrow> Inl err
      | None \<Rightarrow>
          (case ctxErr of
             Some err \<Rightarrow> Inl err
           | None \<Rightarrow>
               (case pod of
                  Inl err \<Rightarrow> Inr False
                | Inr cs \<Rightarrow> Inr (\<not> list_ex (\<lambda>c. cls_Terminated c \<or> cls_Waiting c) cs))))"

text \<open>Polling until the answer is true, an error, or the timeout after the given answers.\<close>

fun poll_until :: "bool result list \<Rightarrow> go_error option" where
  "poll_until [] = Some (Errorf ''context deadline exceeded'')"
| "poll_until (Inl err # _) = Some err"
| "poll_until (Inr True # _) = None"
| "poll_until (Inr False # rs) = poll_until rs"

definition fetchTLSProfile :: "TLSSecurityProfile option result \<Rightarrow> TLSSecurityProfile option" where
  "fetchTLSProfile apiServer = (case apiServer of Inl _ \<Rightarrow> None | Inr profile \<Rightarrow> profile)"

section \<open>Jobs that a restart interrupts\<close>

record gathering_job =
  gj_Name :: string
  gj_Active :: int

record jobs_state =
  js_jobs :: "gathering_job list"
  js_resources :: "(string, DataGather) gomap"

record jobs_api =
  ja_list :: "go_error option"
  ja_delete :: "string \<Rightarrow> go_error option"
  ja_get :: "string \<Rightarrow> go_error option"
  ja_update :: "string \<Rightarrow> go_error option"

definition interrupted :: "gathering_job \<Rightarrow> bool" where
  "interrupted j = (gj_Active j > 0 \<and> prefix ''periodic-gathering-'' (gj_Name j))"

definition fail_resource :: "jobs_api \<Rightarrow> time \<Rightarrow> string \<Rightarrow> (string, DataGather) gomap \<Rightarrow> (string, DataGather) gomap" where
  "fail_resource api now name rs =
     (case UpdateProgressingCondition
             (case ja_get api name of
                Some err \<Rightarrow> Inl err
              | None \<Rightarrow> (case map_get rs name of None \<Rightarrow> Inl (NotFoundErr name) | Some dg \<Rightarrow> Inr dg))
             (\<lambda>dg. case ja_update api name of Some err \<Rightarrow> Inl err | None \<Rightarrow> Inr dg) now None GatheringFailedReason of
        Inl _ \<Rightarrow> rs
      | Inr dg \<Rightarrow> map_put name dg rs)"

definition delete_job :: "jobs_api \<Rightarrow> time \<Rightarrow> gathering_job \<Rightarrow> jobs_state \<Rightarrow> jobs_state" where
  "delete_job api now j st =
     (if interrupted j
      then (case ja_delete api (gj_Name j) of
              Some err \<Rightarrow> st
            | None \<Rightarrow> \<lparr>js_jobs = filter (\<lambda>k. gj_Name k \<noteq> gj_Name j) (js_jobs st),
                        js_resources = fail_resource api now (gj_Name j) (js_resources st)\<rparr>)
      else st)"

definition deleteAllRunningGatheringsPods :: "jobs_api \<Rightarrow> time \<Rightarrow> jobs_state \<Rightarrow> jobs_state" where
  "deleteAllRunningGatheringsPods api now st =
     (case ja_list api of
        Some err \<Rightarrow> st
      | None \<Rightarrow> fold (delete_job api now) (js_jobs st) st)"

section \<open>The start\<close>

datatype loop =
    KubeInformers | ConfigMapObserverLoop | SecretConfigObserverLoop | ConfigAggregatorLoop
  | RuntimeExtractorInformers | RuntimeExtractorResourceInformer | RuntimeExtractorLoop
  | FeatureGateAccessorLoop | ConfigInformers | InsightsDataGatherObserverLoop | TechPreviewConfigInformers
  | JobInformerLoop | JobInformers | DataGatherInformerLoop | InsightsInformers
  | RecorderPrune | PeriodicPruneLoop | PeriodicGather duration | UploaderLoop duration | ReportLoop
  | StatusReporterLoop | ScaLoop | ClusterTransferLoop | PrometheusRulesLoop | LogLevelLoop

datatype source = PeriodicSources | ReportRetrieverSource | UploaderSource | ReportSource | ScaSource | ClusterTransferSource

record startup_env =
  se_decoded :: "Serialized result"
  se_parse_duration :: "string \<Rightarrow> duration result"
  se_kubeClient :: "go_error option"
  se_configClient :: "go_error option"
  se_operatorClient :: "go_error option"
  se_insightClient :: "go_error option"
  se_gatherClient :: "go_error option"
  se_configMapObserver :: "go_error option"
  se_resourceInformer :: "go_error option"
  se_gatesObserved :: bool
  se_featureGates :: "bool result"
  se_jobs :: jobs_api
  se_now :: time
  se_insightsDataGatherObserver :: "go_error option"
  se_jobInformer :: "go_error option"
  se_dataGatherInformer :: "go_error option"
  se_config :: InsightsConfiguration
  se_fs :: path_fs
  se_networkAnonymizer :: "go_error option"
  se_anonymizer :: "go_error option"
  se_gatherConfigClient :: "go_error option"
  se_running :: "bool result list"
  se_jitter :: "duration \<Rightarrow> duration"
  se_statusStart :: "go_error option"

record startup_state =
  ss_Controller :: Controller
  ss_loops :: "loop list"
  ss_sources :: "source list"
  ss_jobs :: jobs_state

type_synonym startup = "startup_state \<Rightarrow> go_error option \<times> startup_state"

definition check_err :: "go_error option \<Rightarrow> startup" where "check_err err st = (err, st)"
definition go_start :: "loop list \<Rightarrow> startup" where "go_start ls st = (None, st\<lparr>ss_loops := ss_loops st @ ls\<rparr>)"
definition AddSources :: "source list \<Rightarrow> startup" where "AddSources ss st = (None, st\<lparr>ss_sources := ss_sources st @ ss\<rparr>)"
definition no_step :: startup where "no_step st = (None, st)"

fun run_steps :: "startup list \<Rightarrow> startup" where
  "run_steps [] st = (None, st)"
| "run_steps (f # fs) st = (case f st of (Some err, st) \<Rightarrow> (Some err, st) | (None, st) \<Rightarrow> run_steps fs st)"

definition load_step :: "startup_env \<Rightarrow> startup" where
  "load_step env st =
     (case LoadConfig (se_decoded env) (ToController (se_parse_duration env)) (ss_Controller st) of
        (_, Some err) \<Rightarrow> (Some err, st)
      | (cont, None) \<Rightarrow> (None, st\<lparr>ss_Controller := cont\<rparr>))"

definition gates_step :: "startup_env \<Rightarrow> startup" where
  "gates_step env st =
     (if \<not> se_gatesObserved env then (Some (Errorf ''timed out waiting for FeatureGate detection''), st)
      else case se_featureGates env of Inl err \<Rightarrow> (Some err, st) | Inr _ \<Rightarrow> (None, st))"

definition insightsConfigEnabled :: "startup_env \<Rightarrow> bool" where
  "insightsConfigEnabled env = (case se_featureGates env of Inl _ \<Rightarrow> False | Inr b \<Rightarrow> b)"

definition wrap_err :: "string \<Rightarrow> go_error option \<Rightarrow> go_error option" where
  "wrap_err s err = map_option (\<lambda>e. Errorf (s @ error_text e)) err"

definition createTechPreviewInformers :: "startup_env \<Rightarrow> startup" where
  "createTechPreviewInformers env =
     run_steps
       [check_err (wrap_err ''failed to create job informer: '' (se_jobInformer env)),
        check_err (wrap_err ''failed to create DataGather informer: '' (se_dataGatherInformer env)),
        go_start [JobInformerLoop, JobInformers, DataGatherInformerLoop, InsightsInformers]]"

definition tech_preview_step :: "startup_env \<Rightarrow> startup" where
  "tech_preview_step env =
     run_steps
       [\<lambda>st. (None, st\<lparr>ss_jobs := deleteAllRunningGatheringsPods (se_jobs env) (se_now env) (ss_jobs st)\<rparr>),
        check_err (wrap_err ''failed to create InsightsDataGather observer: '' (se_insightsDataGatherObserver env)),
        go_start [InsightsDataGatherObserverLoop, TechPreviewConfigInformers],
        \<lambda>st. case createTechPreviewInformers env st of
                (err, st) \<Rightarrow> (wrap_err ''failed to create TechPreview informers: '' err, st)]"

definition storage_step :: "startup_env \<Rightarrow> startup" where
  "storage_step env st =
     (let customPath = getCustomStoragePath (se_config env) None;
          st = (if customPath \<noteq> [] \<and> fst (pathIsAvailable (se_fs env) customPath)
                then st\<lparr>ss_Controller := (ss_Controller st)\<lparr>StoragePath := customPath\<rparr>\<rparr> else st)
      in (wrap_err ''the snapshot folder is not available: '' (snd (pathIsAvailable (se_fs env) (StoragePath (ss_Controller st)))), st))"

definition initial_delay :: "startup_env \<Rightarrow> Controller \<Rightarrow> duration" where
  "initial_delay env cont =
     (case poll_until (se_running env) of Some err \<Rightarrow> se_jitter env (go_quot (Interval cont) 12) | None \<Rightarrow> 0)"

definition Run :: "startup_env \<Rightarrow> startup" where
  "Run env =
     run_steps
       [load_step env,
        check_err (se_kubeClient env), check_err (se_configClient env), check_err (se_operatorClient env),
        check_err (se_insightClient env), check_err (se_gatherClient env), check_err (se_configMapObserver env),
        go_start [KubeInformers, ConfigMapObserverLoop, SecretConfigObserverLoop, ConfigAggregatorLoop],
        check_err (wrap_err ''failed to create runtime extractor resource informer: '' (se_resourceInformer env)),
        go_start [RuntimeExtractorInformers, RuntimeExtractorResourceInformer, RuntimeExtractorLoop,
                  FeatureGateAccessorLoop, ConfigInformers],
        gates_step env,
        if insightsConfigEnabled env then tech_preview_step env else no_step,
        storage_step env,
        if insightsConfigEnabled env then no_step
        else run_steps [check_err (se_networkAnonymizer env), check_err (se_anonymizer env), go_start [RecorderPrune]],
        check_err (se_gatherConfigClient env),
        if insightsConfigEnabled env
        then run_steps [AddSources [PeriodicSources, ReportRetrieverSource], go_start [PeriodicPruneLoop]]
        else AddSources [PeriodicSources],
        \<lambda>st. go_start [PeriodicGather (initial_delay env (ss_Controller st))] st,
        if insightsConfigEnabled env then no_step
        else run_steps
          [AddSources [UploaderSource],
           \<lambda>st. go_start [UploaderLoop (initial_delay env (ss_Controller st))] st,
           AddSources [ReportSource], go_start [ReportLoop]],
        check_err (wrap_err ''unable to set initial cluster status: '' (se_statusStart env)),
        go_start [StatusReporterLoop],
        AddSources [ScaSource], go_start [ScaLoop],
        AddSources [ClusterTransferSource], go_start [ClusterTransferLoop, PrometheusRulesLoop, LogLevelLoop]]"

section \<open>What a start does\<close>

lemma run_steps_Cons_None:
  "run_steps (f # fs) st = (None, st') \<longleftrightarrow> (\<exists>st1. f st = (None, st1) \<and> run_steps fs st1 = (None, st'))"
  by (auto split: prod.splits option.splits)

lemma run_steps_Nil_None: "run_steps [] st = (None, st') \<longleftrightarrow> st' = st"
  by auto

lemma run_steps_append:
  "run_steps (fs @ gs) st = (case run_steps fs st of (Some err, st) \<Rightarrow> (Some err, st) | (None, st) \<Rightarrow> run_steps gs st)"
  by (induction fs arbitrary: st) (auto split: prod.splits option.splits)

text \<open>A step keeps a property of the state, whether it fails or not.\<close>

definition keeps :: "(startup_state \<Rightarrow> bool) \<Rightarrow> startup \<Rightarrow> bool" where
  "keeps P f = (\<forall>st. P st \<longrightarrow> P (snd (f st)))"

lemma keeps_run_steps: "list_all (keeps P) fs \<Longrightarrow> keeps P (run_steps fs)"
proof (induction fs)
  case (Cons f fs)
  show ?case unfolding keeps_def
  proof (intro allI impI)
    fix st assume "P st"
    obtain r st1 where f: "f st = (r, st1)" by force
    with \<open>P st\<close> Cons.prems have "P st1" by (auto simp: keeps_def)
    with f Cons show "P (snd (run_steps (f # fs) st))" by (cases r) (auto simp: keeps_def)
  qed
qed (simp add: keeps_def)

lemma keeps_steps [simp]:
  "keeps P (check_err err)" "keeps P no_step" "keeps P (gates_step env)"
  by (simp_all add: keeps_def check_err_def no_step_def gates_step_def split: sum.split)

lemmas step_defs = load_step_def check_err_def go_start_def AddSources_def no_step_def gates_step_def

definition gather_loop :: "loop \<Rightarrow> bool" where
  "gather_loop l = (case l of PeriodicGather _ \<Rightarrow> True | UploaderLoop _ \<Rightarrow> True | _ \<Rightarrow> False)"

definition before_gathering :: "startup_state \<Rightarrow> bool" where
  "before_gathering st = (\<not> list_ex gather_loop (ss_loops st))"

text \<open>What holds of the state when the storage is known, and after.\<close>

definition guarded :: "startup_env \<Rightarrow> startup_state \<Rightarrow> bool" where
  "guarded env st =
     (pathIsAvailable (se_fs env) (StoragePath (ss_Controller st)) = (True, None) \<and>
      (\<forall>d. PeriodicGather d \<in> set (ss_loops st) \<longrightarrow>
         PeriodicSources \<in> set (ss_sources st) \<and> d = initial_delay env (ss_Controller st)) \<and>
      (\<forall>d. UploaderLoop d \<in> set (ss_loops st) \<longrightarrow> \<not> insightsConfigEnabled env \<and> UploaderSource \<in> set (ss_sources st) \<and>
         (RecorderPrune \<in> set (ss_loops st)) \<and> d = initial_delay env (ss_Controller st)))"

definition early_steps :: "startup_env \<Rightarrow> startup list" where
  "early_steps env =
     [load_step env,
      check_err (se_kubeClient env), check_err (se_configClient env), check_err (se_operatorClient env),
      check_err (se_insightClient env), check_err (se_gatherClient env), check_err (se_configMapObserver env),
      go_start [KubeInformers, ConfigMapObserverLoop, SecretConfigObserverLoop, ConfigAggregatorLoop],
      check_err (wrap_err ''failed to create runtime extractor resource informer: '' (se_resourceInformer env)),
      go_start [RuntimeExtractorInformers, RuntimeExtractorResourceInformer, RuntimeExtractorLoop,
                FeatureGateAccessorLoop, ConfigInformers],
      gates_step env,
      if insightsConfigEnabled env then tech_preview_step env else no_step]"

lemma keeps_early: "list_all (keeps before_gathering) (early_steps env)"
proof -
  have "keeps before_gathering (load_step env)" by (auto simp: keeps_def load_step_def before_gathering_def split: prod.split option.split)
  moreover have go: "keeps before_gathering (go_start ls)" if "\<not> list_ex gather_loop ls" for ls
    using that by (simp add: keeps_def go_start_def before_gathering_def)
  moreover have "keeps before_gathering (createTechPreviewInformers env)"
    unfolding createTechPreviewInformers_def by (rule keeps_run_steps) (simp add: go gather_loop_def)
  then have "keeps before_gathering (tech_preview_step env)"
    unfolding tech_preview_step_def
    by (intro keeps_run_steps) (simp add: go gather_loop_def, simp add: keeps_def before_gathering_def case_prod_beta)
  ultimately show ?thesis by (simp add: early_steps_def gather_loop_def)
qed

definition recorder_steps :: "startup_env \<Rightarrow> startup list" where
  "recorder_steps env =
     [if insightsConfigEnabled env then no_step
      else run_steps [check_err (se_networkAnonymizer env), check_err (se_anonymizer env), go_start [RecorderPrune]],
      check_err (se_gatherConfigClient env)]"

definition gather_steps :: "startup_env \<Rightarrow> startup list" where
  "gather_steps env =
     [if insightsConfigEnabled env
      then run_steps [AddSources [PeriodicSources, ReportRetrieverSource], go_start [PeriodicPruneLoop]]
      else AddSources [PeriodicSources],
      \<lambda>st. go_start [PeriodicGather (initial_delay env (ss_Controller st))] st,
      if insightsConfigEnabled env then no_step
      else run_steps
        [AddSources [UploaderSource],
         \<lambda>st. go_start [UploaderLoop (initial_delay env (ss_Controller st))] st,
         AddSources [ReportSource], go_start [ReportLoop]]]"

definition final_steps :: "startup_env \<Rightarrow> startup list" where
  "final_steps env =
     [check_err (wrap_err ''unable to set initial cluster status: '' (se_statusStart env)),
      go_start [StatusReporterLoop],
      AddSources [ScaSource], go_start [ScaLoop],
      AddSources [ClusterTransferSource], go_start [ClusterTransferLoop, PrometheusRulesLoop, LogLevelLoop]]"

lemma Run_phases: "Run env = run_steps (early_steps env @ storage_step env # recorder_steps env @ gather_steps env @ final_steps env)"
  by (simp add: Run_def early_steps_def recorder_steps_def gather_steps_def final_steps_def)

definition stored :: "startup_env \<Rightarrow> startup_state \<Rightarrow> bool" where
  "stored env st = (before_gathering st \<and> pathIsAvailable (se_fs env) (StoragePath (ss_Controller st)) = (True, None))"

lemma storage_step_ok:
  assumes "before_gathering st" and "storage_step env st = (r, st')"
  shows "before_gathering st' \<and> (r = None \<longrightarrow> stored env st')"
  using assms
  by (auto simp: storage_step_def stored_def before_gathering_def wrap_err_def pathIsAvailable_def Let_def split: option.splits if_splits)

lemma keeps_recorder: "list_all (keeps (stored env)) (recorder_steps env)"
proof -
  have "keeps (stored env) (run_steps [check_err (se_networkAnonymizer env), check_err (se_anonymizer env), go_start [RecorderPrune]])"
    by (rule keeps_run_steps) (simp add: keeps_def check_err_def go_start_def stored_def before_gathering_def gather_loop_def)
  then show ?thesis by (simp add: recorder_steps_def)
qed

lemma recorder_prunes:
  "run_steps (recorder_steps env) st = (None, st') \<Longrightarrow> \<not> insightsConfigEnabled env \<Longrightarrow> RecorderPrune \<in> set (ss_loops st')"
  by (auto simp: recorder_steps_def run_steps_Cons_None check_err_def go_start_def simp del: run_steps.simps(2))

lemma gather_guarded:
  assumes "stored env st" and "\<not> insightsConfigEnabled env \<longrightarrow> RecorderPrune \<in> set (ss_loops st)"
  shows "\<exists>st'. run_steps (gather_steps env) st = (None, st') \<and> guarded env st'"
  using assms
  by (auto simp: gather_steps_def AddSources_def go_start_def no_step_def guarded_def stored_def before_gathering_def list_ex_iff gather_loop_def)

lemma keeps_final: "list_all (keeps (guarded env)) (final_steps env)"
proof -
  have "keeps (guarded env) (AddSources ss)" for ss by (auto simp: keeps_def AddSources_def guarded_def)
  moreover have "keeps (guarded env) (go_start ls)" if "list_all (\<lambda>l. \<not> gather_loop l) ls" for ls
    using that by (auto simp: keeps_def go_start_def guarded_def list_all_iff gather_loop_def split: loop.splits)
  ultimately show ?thesis by (simp add: final_steps_def gather_loop_def)
qed

lemma run_phase:
  assumes "keeps P (run_steps fs)" and "P st" and "run_steps (fs @ gs) st = (r, st')"
  obtains "P st'" | st1 where "run_steps fs st = (None, st1)" "P st1" "run_steps gs st1 = (r, st')"
proof -
  obtain r1 st1 where f: "run_steps fs st = (r1, st1)" by force
  with assms(1,2) have "P st1" by (auto simp: keeps_def)
  with f assms(3) that show thesis by (cases r1) (auto simp: run_steps_append)
qed

lemma Run_guarded:
  assumes "before_gathering st0" and "Run env st0 = (r, st)"
  shows "before_gathering st \<or> guarded env st"
  using assms(2) unfolding Run_phases
proof (rule run_phase [OF keeps_run_steps [OF keeps_early] assms(1)])
  fix st1
  assume b: "before_gathering st1"
    and r: "run_steps (storage_step env # recorder_steps env @ gather_steps env @ final_steps env) st1 = (r, st)"
  obtain r2 st2 where s: "storage_step env st1 = (r2, st2)" by force
  show ?thesis
  proof (cases r2)
    case (Some err)
    with r s storage_step_ok [OF b s] show ?thesis by simp
  next
    case None
    with storage_step_ok [OF b s] have "stored env st2" by simp
    moreover from None r s have "run_steps (recorder_steps env @ gather_steps env @ final_steps env) st2 = (r, st)" by simp
    ultimately show ?thesis
    proof (rule run_phase [OF keeps_run_steps [OF keeps_recorder]])
      fix st3
      assume st3: "run_steps (recorder_steps env) st2 = (None, st3)" "stored env st3"
        and r3: "run_steps (gather_steps env @ final_steps env) st3 = (r, st)"
      from gather_guarded [OF st3(2)] recorder_prunes [OF st3(1)] obtain st4 where
        "run_steps (gather_steps env) st3 = (None, st4)" "guarded env st4" by blast
      with r3 have "run_steps (final_steps env) st4 = (r, st)" by (simp add: run_steps_append)
      with keeps_run_steps [OF keeps_final [of env]] \<open>guarded env st4\<close> show ?thesis by (metis keeps_def snd_conv)
    qed (simp add: stored_def)
  qed
qed simp

text \<open>
  C32: Nothing is gathered or uploaded without a place to store it.  However the start of the operator ends: a gathering loop that
  was started has a storage path that is available, its sources are known to the status reporter, and
  it begins after the delay of an unhealthy operator; an upload loop was started only without the gathering
  jobs, with its source and with the pruning of the archives.
\<close>

theorem startup_guarded:
  assumes "Run env st0 = (r, st)" and "ss_loops st0 = []"
  shows "(PeriodicGather d \<in> set (ss_loops st) \<longrightarrow>
      pathIsAvailable (se_fs env) (StoragePath (ss_Controller st)) = (True, None) \<and>
      PeriodicSources \<in> set (ss_sources st) \<and> d = initial_delay env (ss_Controller st)) \<and>
    (UploaderLoop d \<in> set (ss_loops st) \<longrightarrow>
      pathIsAvailable (se_fs env) (StoragePath (ss_Controller st)) = (True, None) \<and>
      \<not> insightsConfigEnabled env \<and> UploaderSource \<in> set (ss_sources st) \<and> RecorderPrune \<in> set (ss_loops st) \<and>
      d = initial_delay env (ss_Controller st))"
proof -
  have "before_gathering st0" by (simp add: before_gathering_def assms(2))
  from Run_guarded [OF this assms(1)] show ?thesis
    by (auto simp: before_gathering_def guarded_def list_ex_iff gather_loop_def)
qed

text \<open>The state after each phase of a start that succeeds.\<close>

lemma early_result:
  assumes "run_steps (early_steps env) st0 = (None, st)" and "ss_loops st0 = []"
  shows "se_gatesObserved env \<and> ss_sources st = ss_sources st0 \<and>
    ss_loops st = [KubeInformers, ConfigMapObserverLoop, SecretConfigObserverLoop, ConfigAggregatorLoop,
        RuntimeExtractorInformers, RuntimeExtractorResourceInformer, RuntimeExtractorLoop, FeatureGateAccessorLoop, ConfigInformers] @
      (if insightsConfigEnabled env then [InsightsDataGatherObserverLoop, TechPreviewConfigInformers, JobInformerLoop, JobInformers,
         DataGatherInformerLoop, InsightsInformers] else []) \<and>
    ss_jobs st = (if insightsConfigEnabled env then deleteAllRunningGatheringsPods (se_jobs env) (se_now env) (ss_jobs st0) else ss_jobs st0)"
proof -
  from assms(1) obtain st1 where l: "load_step env st0 = (None, st1)"
    and r: "run_steps [gates_step env, if insightsConfigEnabled env then tech_preview_step env else no_step]
      (st1\<lparr>ss_loops := ss_loops st1 @ [KubeInformers, ConfigMapObserverLoop, SecretConfigObserverLoop, ConfigAggregatorLoop,
        RuntimeExtractorInformers, RuntimeExtractorResourceInformer, RuntimeExtractorLoop, FeatureGateAccessorLoop, ConfigInformers]\<rparr>) = (None, st)"
    by (auto simp: early_steps_def run_steps_Cons_None check_err_def go_start_def simp del: run_steps.simps(2))
  from l assms(2) have s1: "ss_loops st1 = []" "ss_sources st1 = ss_sources st0" "ss_jobs st1 = ss_jobs st0"
    by (auto simp: load_step_def split: prod.splits option.splits)
  show ?thesis
  proof (cases "insightsConfigEnabled env")
    case True
    with r s1 show ?thesis
      by (auto simp: run_steps_Cons_None check_err_def go_start_def gates_step_def tech_preview_step_def createTechPreviewInformers_def
          wrap_err_def simp del: run_steps.simps(2) split: if_splits sum.splits prod.splits)
  next
    case False
    with r s1 show ?thesis
      by (auto simp: run_steps_Cons_None no_step_def gates_step_def simp del: run_steps.simps(2) split: if_splits sum.splits)
  qed
qed

lemma storage_result:
  assumes "storage_step env st = (None, st')"
  shows "ss_loops st' = ss_loops st \<and> ss_sources st' = ss_sources st \<and> ss_jobs st' = ss_jobs st \<and>
    (let customPath = getCustomStoragePath (se_config env) None
     in customPath \<noteq> [] \<and> fst (pathIsAvailable (se_fs env) customPath) \<longrightarrow> StoragePath (ss_Controller st') = customPath)"
  using assms by (auto simp: storage_step_def Let_def split: if_splits)

lemma recorder_result:
  assumes "run_steps (recorder_steps env) st = (None, st')"
  shows "ss_Controller st' = ss_Controller st \<and> ss_sources st' = ss_sources st \<and> ss_jobs st' = ss_jobs st \<and>
    ss_loops st' = ss_loops st @ (if insightsConfigEnabled env then [] else [RecorderPrune]) \<and>
    (\<not> insightsConfigEnabled env \<longrightarrow> se_networkAnonymizer env = None \<and> se_anonymizer env = None)"
  using assms by (auto simp: recorder_steps_def run_steps_Cons_None check_err_def go_start_def no_step_def simp del: run_steps.simps(2))

lemma gather_result:
  assumes "run_steps (gather_steps env) st = (None, st')"
  shows "ss_Controller st' = ss_Controller st \<and> ss_jobs st' = ss_jobs st \<and>
    ss_sources st' = ss_sources st @ (if insightsConfigEnabled env then [PeriodicSources, ReportRetrieverSource]
      else [PeriodicSources, UploaderSource, ReportSource]) \<and>
    ss_loops st' = ss_loops st @ (let d = initial_delay env (ss_Controller st) in if insightsConfigEnabled env
      then [PeriodicPruneLoop, PeriodicGather d] else [PeriodicGather d, UploaderLoop d, ReportLoop])"
  using assms by (cases "insightsConfigEnabled env") (auto simp: gather_steps_def AddSources_def go_start_def no_step_def Let_def)

lemma final_result:
  assumes "run_steps (final_steps env) st = (None, st')"
  shows "ss_Controller st' = ss_Controller st \<and> ss_jobs st' = ss_jobs st \<and> se_statusStart env = None \<and>
    ss_sources st' = ss_sources st @ [ScaSource, ClusterTransferSource] \<and>
    ss_loops st' = ss_loops st @ [StatusReporterLoop, ScaLoop, ClusterTransferLoop, PrometheusRulesLoop, LogLevelLoop]"
  using assms by (auto simp: final_steps_def run_steps_Cons_None check_err_def AddSources_def go_start_def wrap_err_def simp del: run_steps.simps(2))

lemma run_steps_append_None:
  "run_steps (fs @ gs) st = (None, st') \<longleftrightarrow> (\<exists>st1. run_steps fs st = (None, st1) \<and> run_steps gs st1 = (None, st'))"
  by (auto simp: run_steps_append split: prod.splits option.splits)

text \<open>
  A start that succeeds has everything running.  Every constructor succeeded, the feature gates were seen; without the
  gathering jobs the operator gathers, uploads and pulls reports itself, with them it watches jobs and DataGather resources, and in
  both cases every controller that was started is a source of the status reporter, once, and the
  storage path is the configured one whenever that is available.
\<close>

lemma startup_complete:
  assumes "Run env st0 = (None, st)" and "ss_loops st0 = []" and "ss_sources st0 = []"
  shows "se_gatesObserved env \<and> se_statusStart env = None \<and>
    ss_sources st = (if insightsConfigEnabled env
      then [PeriodicSources, ReportRetrieverSource, ScaSource, ClusterTransferSource]
      else [PeriodicSources, UploaderSource, ReportSource, ScaSource, ClusterTransferSource]) \<and>
    distinct (ss_loops st) \<and>
    {SecretConfigObserverLoop, ConfigAggregatorLoop, RuntimeExtractorLoop, PeriodicGather (initial_delay env (ss_Controller st)),
     StatusReporterLoop, ScaLoop, ClusterTransferLoop, PrometheusRulesLoop} \<subseteq> set (ss_loops st) \<and>
    (if insightsConfigEnabled env
     then {JobInformerLoop, DataGatherInformerLoop, PeriodicPruneLoop} \<subseteq> set (ss_loops st) \<and>
       ss_jobs st = deleteAllRunningGatheringsPods (se_jobs env) (se_now env) (ss_jobs st0)
     else {RecorderPrune, UploaderLoop (initial_delay env (ss_Controller st)), ReportLoop} \<subseteq> set (ss_loops st) \<and>
       se_networkAnonymizer env = None \<and> se_anonymizer env = None \<and> ss_jobs st = ss_jobs st0) \<and>
    (let customPath = getCustomStoragePath (se_config env) None
     in customPath \<noteq> [] \<and> fst (pathIsAvailable (se_fs env) customPath) \<longrightarrow> StoragePath (ss_Controller st) = customPath)"
proof -
  from assms(1) obtain s1 s2 s3 s4 where
    ph: "run_steps (early_steps env) st0 = (None, s1)" "storage_step env s1 = (None, s2)"
      "run_steps (recorder_steps env) s2 = (None, s3)" "run_steps (gather_steps env) s3 = (None, s4)"
      "run_steps (final_steps env) s4 = (None, st)"
    unfolding Run_phases run_steps_append_None run_steps_Cons_None by blast
  note r = early_result [OF ph(1) assms(2)] storage_result [OF ph(2)] recorder_result [OF ph(3)] gather_result [OF ph(4)]
    final_result [OF ph(5)]
  show ?thesis
  proof (cases "insightsConfigEnabled env")
    case True
    with r assms(3) show ?thesis by (simp add: Let_def)
  next
    case False
    with r assms(3) show ?thesis by (simp add: Let_def)
  qed
qed

definition example_serialized :: Serialized where
  "example_serialized =
     \<lparr>s_Report = True, s_StoragePath = ''/var/lib'', s_Interval = ''2h'', s_Endpoint = ''https://upload'', s_ConditionalGathererEndpoint = [],
      s_PullEndpoint = [], s_PullDelay = ''1h'', s_PullTimeout = ''1h'', s_PullMinRetryTime = ''1h'', s_Impersonate = [],
      s_EnableGlobalObfuscation = False, s_SCAEndpoint = [], s_SCAInterval = [], s_SCADisabled = False,
      s_ClusterTransferEndpoint = [], s_ClusterTransferInterval = [], s_DisableInsightsAlerts = False,
      s_ProcessingStatusEndpoint = [], s_ReportEndpointTechPreview = [], s_DisableRuntimeExtractor = False\<rparr>"

definition example_startup :: "bool \<Rightarrow> startup_env" where
  "example_startup gathering_jobs =
     \<lparr>se_decoded = Inr example_serialized, se_parse_duration = (\<lambda>_. Inr (2 * Hour)), se_kubeClient = None, se_configClient = None,
      se_operatorClient = None, se_insightClient = None, se_gatherClient = None, se_configMapObserver = None,
      se_resourceInformer = None, se_gatesObserved = True, se_featureGates = Inr gathering_jobs,
      se_jobs = \<lparr>ja_list = None, ja_delete = (\<lambda>_. None), ja_get = (\<lambda>_. None), ja_update = (\<lambda>_. None)\<rparr>, se_now = 7,
      se_insightsDataGatherObserver = None, se_jobInformer = None, se_dataGatherInformer = None, se_config = example_cm,
      se_fs = \<lparr>fs_stat = (\<lambda>_. None), fs_mkdir = (\<lambda>_. None)\<rparr>, se_networkAnonymizer = None, se_anonymizer = None,
      se_gatherConfigClient = None, se_running = [Inr False, Inr True], se_jitter = (\<lambda>d. d), se_statusStart = None\<rparr>"

definition example_started :: startup_state where
  "example_started = \<lparr>ss_Controller = zero_Controller, ss_loops = [], ss_sources = [],
     ss_jobs = \<lparr>js_jobs = [\<lparr>gj_Name = ''periodic-gathering-1'', gj_Active = 1\<rparr>, \<lparr>gj_Name = ''other'', gj_Active = 1\<rparr>],
                js_resources = [(''periodic-gathering-1'', example_dg)]\<rparr>\<rparr>"

lemma example_loaded: "\<exists>cont. LoadConfig (Inr example_serialized) (ToController (\<lambda>_. Inr (2 * Hour))) zero_Controller = (cont, None)"
  by (simp add: LoadConfig_def ToController_def ToController_pull_def ToController_ocm_def load_duration_def example_serialized_def Let_def)

lemma example_path: "getCustomStoragePath example_cm None = []"
  by (simp add: getCustomStoragePath_def example_cm_def ToConfig_def Let_def)

lemma example_start:
  "fst (Run (example_startup b) example_started) = None"
  "PeriodicGather 0 \<in> set (ss_loops (snd (Run (example_startup b) example_started)))"
proof -
  from example_loaded obtain cont where "LoadConfig (Inr example_serialized) (ToController (\<lambda>_. Inr (2 * Hour))) zero_Controller = (cont, None)" by blast
  then show "fst (Run (example_startup b) example_started) = None"
    "PeriodicGather 0 \<in> set (ss_loops (snd (Run (example_startup b) example_started)))"
    by (simp_all add: Run_def step_defs example_startup_def example_started_def insightsConfigEnabled_def tech_preview_step_def
        createTechPreviewInformers_def wrap_err_def storage_step_def example_path pathIsAvailable_def make_path_def initial_delay_def)
qed

theorem startup_guarded_witness:
  "let st = snd (Run (example_startup False) example_started) in
   pathIsAvailable (se_fs (example_startup False)) (StoragePath (ss_Controller st)) = (True, None) \<and> PeriodicSources \<in> set (ss_sources st)"
proof -
  let ?st = "snd (Run (example_startup False) example_started)"
  have "ss_loops example_started = []" by (simp add: example_started_def)
  from startup_guarded [of "example_startup False" example_started "fst (Run (example_startup False) example_started)" ?st 0, OF _ this]
    example_start(2) [of False] show ?thesis by (simp add: Let_def)
qed

section \<open>Interrupted jobs\<close>

definition failed_resource :: "time \<Rightarrow> DataGather \<Rightarrow> DataGather" where
  "failed_resource now dg = (let dg = progress_time now GatheringFailedReason dg
     in dg\<lparr>dg_Conditions := put_condition (ProgressingCondition now GatheringFailedReason) (dg_Conditions dg)\<rparr>)"

lemma fail_resource_get:
  "map_get (fail_resource api now name rs) k =
    (if k = name \<and> ja_get api name = None \<and> ja_update api name = None then map_option (failed_resource now) (map_get rs k) else map_get rs k)"
  by (auto simp: fail_resource_def UpdateProgressingCondition_def UpdateDataGatherConditions_def failed_resource_def Let_def
      split: option.splits sum.splits)

definition removable :: "jobs_api \<Rightarrow> gathering_job \<Rightarrow> bool" where
  "removable api j = (interrupted j \<and> ja_delete api (gj_Name j) = None)"

lemma delete_job_eq:
  "delete_job api now j st =
     (if removable api j
      then \<lparr>js_jobs = filter (\<lambda>k. gj_Name k \<noteq> gj_Name j) (js_jobs st),
             js_resources = fail_resource api now (gj_Name j) (js_resources st)\<rparr>
      else st)"
  by (auto simp: delete_job_def removable_def split: option.split)

lemma delete_jobs_result:
  assumes "distinct (map gj_Name js)"
  shows "js_jobs (fold (delete_job api now) js st) = filter (\<lambda>k. \<not> (\<exists>j \<in> set js. gj_Name j = gj_Name k \<and> removable api j)) (js_jobs st) \<and>
    map_get (js_resources (fold (delete_job api now) js st)) n =
      (if (\<exists>j \<in> set js. gj_Name j = n \<and> removable api j) \<and> ja_get api n = None \<and> ja_update api n = None
       then map_option (failed_resource now) (map_get (js_resources st) n) else map_get (js_resources st) n)"
  using assms
proof (induction js arbitrary: st)
  case (Cons j js)
  let ?st = "delete_job api now j st"
  let ?hit = "\<lambda>n js. \<exists>j \<in> set js. gj_Name j = n \<and> removable api j"
  have f: "fold (delete_job api now) (j # js) st = fold (delete_job api now) js ?st" by simp
  have d: "distinct (map gj_Name js)" using Cons.prems by simp
  have "js_jobs ?st = filter (\<lambda>k. \<not> (gj_Name j = gj_Name k \<and> removable api j)) (js_jobs st)"
    by (auto simp: delete_job_eq intro!: filter_cong)
  then have jobs: "js_jobs (fold (delete_job api now) (j # js) st) = filter (\<lambda>k. \<not> ?hit (gj_Name k) (j # js)) (js_jobs st)"
    unfolding f conjunct1 [OF Cons.IH [OF d]] by (auto intro!: filter_cong)
  have one: "map_get (js_resources ?st) n =
      (if gj_Name j = n \<and> removable api j \<and> ja_get api n = None \<and> ja_update api n = None
       then map_option (failed_resource now) (map_get (js_resources st) n) else map_get (js_resources st) n)"
    by (auto simp: delete_job_eq fail_resource_get)
  define H where "H = ?hit n js"
  have "gj_Name j = n \<Longrightarrow> \<not> H" using Cons.prems by (auto simp: H_def image_iff)
  moreover have "?hit n (j # js) = (gj_Name j = n \<and> removable api j \<or> H)" by (simp add: H_def)
  ultimately have "map_get (js_resources (fold (delete_job api now) (j # js) st)) n =
      (if ?hit n (j # js) \<and> ja_get api n = None \<and> ja_update api n = None
       then map_option (failed_resource now) (map_get (js_resources st) n) else map_get (js_resources st) n)"
    unfolding f conjunct2 [OF Cons.IH [OF d]] one H_def [symmetric] by (cases H) auto
  with jobs show ?case by blast
qed simp

text \<open>
  A restart settles what it interrupts.  When the jobs can be listed: exactly the active jobs of periodic gatherings whose
  deletion is accepted are gone, the DataGather resource of each is marked as failed (when the server accepts it), with its
  finish time, and no other job and no other resource changes.
\<close>

lemma restart_fails_jobs:
  fixes now :: time
  assumes "ja_list api = None" and "distinct (map gj_Name (js_jobs st))"
  defines "st' \<equiv> deleteAllRunningGatheringsPods api now st"
  shows "js_jobs st' = filter (\<lambda>j. \<not> removable api j) (js_jobs st)"
    and "j \<in> set (js_jobs st) \<Longrightarrow> removable api j \<Longrightarrow> map_get (js_resources st) (gj_Name j) = Some dg \<Longrightarrow>
      ja_get api (gj_Name j) = None \<Longrightarrow> ja_update api (gj_Name j) = None \<Longrightarrow>
      map_get (js_resources st') (gj_Name j) = Some (failed_resource now dg)"
    and "\<forall>j \<in> set (js_jobs st). gj_Name j = n \<longrightarrow> \<not> removable api j \<Longrightarrow> map_get (js_resources st') n = map_get (js_resources st) n"
proof -
  have st': "st' = fold (delete_job api now) (js_jobs st) st" by (simp add: st'_def deleteAllRunningGatheringsPods_def assms(1))
  note r = delete_jobs_result [OF assms(2), of api now st]
  have "j = k" if "j \<in> set (js_jobs st)" "k \<in> set (js_jobs st)" "gj_Name j = gj_Name k" for j k
    using that assms(2) by (auto simp: distinct_map dest: inj_onD)
  then show "js_jobs st' = filter (\<lambda>j. \<not> removable api j) (js_jobs st)"
    using r by (auto simp: st' intro!: filter_cong)
  show "j \<in> set (js_jobs st) \<Longrightarrow> removable api j \<Longrightarrow> map_get (js_resources st) (gj_Name j) = Some dg \<Longrightarrow>
      ja_get api (gj_Name j) = None \<Longrightarrow> ja_update api (gj_Name j) = None \<Longrightarrow>
      map_get (js_resources st') (gj_Name j) = Some (failed_resource now dg)"
    using r [of "gj_Name j"] by (auto simp: st')
  show "\<forall>j \<in> set (js_jobs st). gj_Name j = n \<longrightarrow> \<not> removable api j \<Longrightarrow> map_get (js_resources st') n = map_get (js_resources st) n"
    using r [of n] by (auto simp: st')
qed

text \<open>The log level controller changes the specification or the status of the resource, and nothing else of it.\<close>

lemma operator_client_writes:
  "UpdateOperatorSpec (Inr i) update v sp = (sent, r) \<Longrightarrow>
     sent = [i\<lparr>or_ResourceVersion := v, or_OperatorSpec := sp\<rparr>] \<and> (\<forall>x. r = Inr x \<longrightarrow> (\<exists>ret. update (hd sent) = Inr ret \<and> x = (or_OperatorSpec ret, or_ResourceVersion ret)))"
  "UpdateOperatorStatus (Inr i) update v s = (sent, q) \<Longrightarrow>
     sent = [i\<lparr>or_ResourceVersion := v, or_OperatorStatus := s\<rparr>] \<and> (\<forall>x. q = Inr x \<longrightarrow> (\<exists>ret. update (hd sent) = Inr ret \<and> x = or_OperatorStatus ret))"
  by (auto simp: UpdateOperatorSpec_def UpdateOperatorStatus_def Let_def split: sum.splits)

text \<open>
  The clients of the metrics and the alerts verify the server with the CA of the services unless a token is given for
  insecure access; the impersonation reaches the two gathering clients only.
\<close>

lemma gather_configs:
  assumes "prepareGatherConfigs getenv proto kube impersonate = (p, k, metrics, alerts)"
  shows "rc_Insecure metrics = (rc_Insecure kube \<or> trim_space (getenv insecurePrometheusTokenEnvVariable) \<noteq> [])"
    and "trim_space (getenv insecurePrometheusTokenEnvVariable) = [] \<Longrightarrow> rc_CAFile metrics = metricCAFile \<and> rc_CAFile alerts = metricCAFile"
    and "rc_ImpersonateUserName metrics = rc_ImpersonateUserName kube"
    and "impersonate \<noteq> [] \<Longrightarrow> rc_ImpersonateUserName p = impersonate \<and> rc_ImpersonateUserName k = impersonate"
  using assms by (auto simp: prepareGatherConfigs_def createGatherConfig_def Let_def)

end
