(* ===== verification/Commands.thy ===== *)
theory Commands
  imports Operator
begin

text \<open>
  The commands beside the operator: cmd/obfuscate-archive/main.go, which obfuscates an archive after it was made, the receiver
  for tests of pkg/cmd/start/receiver.go, and the single gathering runs of pkg/cmd/start/start.go.

  JSON decoding is a parameter; an archive file is what its tar reader returns.
\<close>

section \<open>Obfuscating an archive\<close>

text \<open>The file: an error of opening or of its compression, or the entries and the error that ends the reading other than the end of the file.\<close>

type_synonym archive_file = "((string \<times> bytes) list \<times> go_error option) result"

definition add_entry :: "string \<times> bytes \<Rightarrow> (string, MemoryRecord) gomap \<Rightarrow> (string, MemoryRecord) gomap" where
  "add_entry e records =
     map_put (fst e) \<lparr>mr_Name = fst e, mr_At = 0, mr_Data = Some (snd e), mr_Fingerprint = []\<rparr> records"

definition readArchive :: "archive_file \<Rightarrow> (string, MemoryRecord) gomap result" where
  "readArchive file =
     (case file of
        Inl err \<Rightarrow> Inl err
      | Inr (es, Some err) \<Rightarrow> Inl err
      | Inr (es, None) \<Rightarrow> Inr (fold add_entry es []))"

definition missing_record :: "string \<Rightarrow> go_error" where
  "missing_record path = Errorf (path @ '' record needed to fetch cluster base domain wasn'' @ [CHR 0x27] @ ''t found'')"

definition getClusterBaseDomainFromInfrastructureRecord :: "(bytes \<Rightarrow> string result) \<Rightarrow> (string, MemoryRecord) gomap \<Rightarrow> string result" where
  "getClusterBaseDomainFromInfrastructureRecord decode records =
     (case map_get records ''config/infrastructure.json'' of
        None \<Rightarrow> Inl (missing_record ''config/infrastructure.json'')
      | Some r \<Rightarrow>
          (case decode (data_bytes (mr_Data r)) of
             Inl err \<Rightarrow> Inl err
           | Inr domain \<Rightarrow> if domain = [] then Inl (Errorf ''status.etcdDiscoveryDomain from config/infrastructure.json is empty'') else Inr domain))"

text \<open>An ingress record that cannot be decoded gives an empty domain and no error.\<close>

definition getClusterBaseDomainFromIngressRecord :: "(bytes \<Rightarrow> string result) \<Rightarrow> (string, MemoryRecord) gomap \<Rightarrow> string result" where
  "getClusterBaseDomainFromIngressRecord decode records =
     (case map_get records ''config/ingress.json'' of
        None \<Rightarrow> Inl (missing_record ''config/ingress.json'')
      | Some r \<Rightarrow>
          (case decode (data_bytes (mr_Data r)) of
             Inl err \<Rightarrow> Inr []
           | Inr specDomain \<Rightarrow>
               (let domain = (if prefix ''apps.'' specDomain then drop 5 specDomain else specDomain)
                in if domain = [] then Inl (Errorf ''ingress.Spec.Domain from config/ingress.json is empty'') else Inr domain)))"

definition getClusterBaseDomain ::
  "(bytes \<Rightarrow> string result) \<Rightarrow> (bytes \<Rightarrow> string result) \<Rightarrow> (string, MemoryRecord) gomap \<Rightarrow> string result" where
  "getClusterBaseDomain infra ingress records =
     (case getClusterBaseDomainFromInfrastructureRecord infra records of
        Inr domain \<Rightarrow> Inr domain
      | Inl _ \<Rightarrow> getClusterBaseDomainFromIngressRecord ingress records)"

fun decode_subnets :: "(bytes \<Rightarrow> string list result) \<Rightarrow> (string \<times> MemoryRecord) list \<Rightarrow> string list list result" where
  "decode_subnets subnet [] = Inr []"
| "decode_subnets subnet ((name, r) # rest) =
     (if \<not> prefix ''config/hostsubnet/'' name then decode_subnets subnet rest
      else case subnet (data_bytes (mr_Data r)) of
             Inl err \<Rightarrow> Inl err
           | Inr s \<Rightarrow> map_sum id (\<lambda>ss. s # ss) (decode_subnets subnet rest))"

text \<open>The outer option is the panic of an external IP configuration without policy.\<close>

definition GetNetworksForAnonymizerFromRecords ::
  "(bytes \<Rightarrow> clusterNetworks result) \<Rightarrow> (bytes \<Rightarrow> string list result) \<Rightarrow> (string, MemoryRecord) gomap \<Rightarrow> string list result option" where
  "GetNetworksForAnonymizerFromRecords network subnet records =
     (case map_get records ''config/network.json'' of
        None \<Rightarrow> Some (Inl (Errorf ''unable to find the record containing cluster networks required for anonymizer to work correctly''))
      | Some r \<Rightarrow>
          (case network (data_bytes (mr_Data r)) of
             Inl err \<Rightarrow> Some (Inl err)
           | Inr clusterNetworks \<Rightarrow>
               (case decode_subnets subnet records of
                  Inl err \<Rightarrow> Some (Inl err)
                | Inr hostSubnets \<Rightarrow>
                    map_option Inr (getNetworksForAnonymizer clusterNetworks
                      (map_option (\<lambda>r. data_bytes (mr_Data r))
                        (map_get records ''config/configmaps/kube-system/cluster-config-v1/install-config'')) hostSubnets))))"

record archive_tools =
  at_infra :: "bytes \<Rightarrow> string result"
  at_ingress :: "bytes \<Rightarrow> string result"
  at_network :: "bytes \<Rightarrow> clusterNetworks result"
  at_subnet :: "bytes \<Rightarrow> string list result"
  at_parse_cidrs :: "string list \<Rightarrow> (ip \<times> ip) list result"
  at_flag :: "bytes \<Rightarrow> bytes result"

text \<open>
  \<open>at_flag\<close> decodes the metadata, sets the flag of obfuscation and encodes it.  The anonymiser of this command does not run in a cluster, so the
  first call reads no network configuration.
\<close>

definition flag_metadata :: "archive_tools \<Rightarrow> MemoryRecord \<Rightarrow> MemoryRecord result" where
  "flag_metadata tools r =
     (if mr_Name r = MetadataRecordName @ ''.json''
      then (case at_flag tools (data_bytes (mr_Data r)) of Inl err \<Rightarrow> Inl err | Inr b \<Rightarrow> Inr (r\<lparr>mr_Data := Some b\<rparr>))
      else Inr r)"

fun anonymize_records ::
  "archive_tools \<Rightarrow> bool \<Rightarrow> NetworkAnonymizer \<Rightarrow> MemoryRecord list \<Rightarrow> MemoryRecord list result option" where
  "anonymize_records tools once na [] = Some (Inr [])"
| "anonymize_records tools once na (r # rs) =
     (case flag_metadata tools r of
        Inl err \<Rightarrow> Some (Inl err)
      | Inr r \<Rightarrow>
          (case AnonymizeData (\<lambda>na. Some (na, None)) once na r of
             None \<Rightarrow> None
           | Some (once, na, r) \<Rightarrow> map_option (map_sum id (\<lambda>rs. r # rs)) (anonymize_records tools once na rs)))"

definition empty_anonymizer :: NetworkAnonymizer where
  "empty_anonymizer = \<lparr>na_sensitiveValues = [], na_networks = [], na_translationTable = [], na_dataPolicy = [], na_runningInCluster = False\<rparr>"

definition archive_anonymizer :: "archive_tools \<Rightarrow> (string, MemoryRecord) gomap \<Rightarrow> NetworkAnonymizer result option" where
  "archive_anonymizer tools records =
     (case getClusterBaseDomain (at_infra tools) (at_ingress tools) records of
        Inl err \<Rightarrow> Some (Inl err)
      | Inr clusterBaseDomain \<Rightarrow>
          (case GetNetworksForAnonymizerFromRecords (at_network tools) (at_subnet tools) records of
             None \<Rightarrow> None
           | Some (Inl err) \<Rightarrow> Some (Inl err)
           | Some (Inr networks) \<Rightarrow>
               Some (Build (at_parse_cidrs tools) networks
                 (WithDataPolicies [DataPolicyOptionObfuscateNetworking]
                   (WithSensitiveValue clusterBaseDomain ClusterBaseDomainPlaceholder empty_anonymizer)))))"

definition obfuscated_path :: "string \<Rightarrow> string" where
  "obfuscated_path path = take (length path - length ''.tar.gz'') path @ ''-obfuscated.tar.gz''"

definition obfuscateArchive ::
  "archive_tools \<Rightarrow> disk_faults \<Rightarrow> time \<Rightarrow> (string \<Rightarrow> archive_file) \<Rightarrow> string \<Rightarrow> disk \<Rightarrow> (string result \<times> disk) option" where
  "obfuscateArchive tools flt now open_file path d =
     (if \<not> suffix ''.tar.gz'' path then Some (Inl (Errorf ''invalid path to the archive''), d)
      else case readArchive (open_file path) of
             Inl err \<Rightarrow> Some (Inl err, d)
           | Inr records \<Rightarrow>
               (case archive_anonymizer tools records of
                  None \<Rightarrow> None
                | Some (Inl err) \<Rightarrow> Some (Inl err, d)
                | Some (Inr na) \<Rightarrow>
                    (case anonymize_records tools False na (map snd records) of
                       None \<Rightarrow> None
                     | Some (Inl err) \<Rightarrow> Some (Inl err, d)
                     | Some (Inr anonymizedRecords) \<Rightarrow>
                         (case SaveAtPath flt now (obfuscated_path path) anonymizedRecords d of
                            (d, _, Some err) \<Rightarrow> Some (Inl err, d)
                          | (d, _, None) \<Rightarrow> Some (Inr (obfuscated_path path), d)))))"

section \<open>The receiver\<close>

text \<open>A part of the request: its form name, its content type, and its content: not compressed, a broken archive, or the entries.\<close>

record form_part =
  fp_FormName :: string
  fp_ContentType :: string
  fp_gzip :: "go_error option"
  fp_tar :: "string list \<times> go_error option"

record upload_request =
  ur_ContentType :: string
  ur_multipart :: "go_error option"
  ur_parts :: "form_part list"
  ur_end :: "go_error option"

definition receive_part :: "form_part \<Rightarrow> bool" where
  "receive_part p \<longleftrightarrow> fp_FormName p = ''file'' \<and> suffix ''+tgz'' (fp_ContentType p) \<and> fp_gzip p = None \<and> snd (fp_tar p) = None"

text \<open>The status of the answer; the loop over the parts ends at the first one that is refused.\<close>

definition receive_upload :: "upload_request \<Rightarrow> int" where
  "receive_upload req =
     (if ur_ContentType req = [] then 400
      else if ur_multipart req \<noteq> None then 400
      else if \<not> list_all receive_part (ur_parts req) then 400
      else if ur_end req \<noteq> None then 400
      else 200)"

text \<open>The upload of the client: the archive under \<open>file\<close> with the type of the source, and the metadata.\<close>

definition client_request :: "string \<Rightarrow> string list \<Rightarrow> upload_request" where
  "client_request source_type es =
     \<lparr>ur_ContentType = ''multipart/form-data'', ur_multipart = None,
      ur_parts = [\<lparr>fp_FormName = ''file'', fp_ContentType = source_type, fp_gzip = None, fp_tar = (es, None)\<rparr>,
                  \<lparr>fp_FormName = ''metadata'', fp_ContentType = ''application/octet-stream'', fp_gzip = None, fp_tar = ([], None)\<rparr>],
      ur_end = None\<rparr>"

text \<open>The receiver refuses what the uploader sends: the type of its archives has no such suffix, and the metadata is an unknown field.\<close>

lemma receiver_refuses_uploads: "receive_upload (client_request ''application/vnd.redhat.openshift.periodic'' es) = 400"
  by (simp add: receive_upload_def client_request_def receive_part_def)

section \<open>The commands of the operator\<close>

text \<open>
  pkg/cmd/start/start.go: the configurations the commands start from, and the two commands that gather once.  A command ends the
  process with an exit code; \<open>klog.Exit\<close> ends it with 1.  The configuration file, the kubeconfig file and the feature gates are what reading
  them gives.
\<close>

definition operator_controller :: Controller where
  "operator_controller = zero_Controller
     \<lparr>StoragePath := ''/var/lib/insights-operator'', Interval := 10 * Minute,
      Endpoint := ''https://console.redhat.com/api/ingress/v1/upload'',
      ReportEndpoint := ''https://console.redhat.com/api/insights-results-aggregator/v2/cluster/%s/reports'',
      ConditionalGathererEndpoint := ''https://console.redhat.com/api/gathering/gathering_rules'',
      ReportPullingDelay := 60 * Second, ReportMinRetryTime := 10 * Second, ReportPullingTimeout := 30 * Minute,
      OCMConf := \<lparr>ocm_SCAInterval = 8 * Hour,
        ocm_SCAEndpoint = ''https://api.openshift.com/api/accounts_mgmt/v1/entitlement_certificates'', ocm_SCADisabled = False,
        ocm_ClusterTransferEndpoint = ''https://api.openshift.com/api/accounts_mgmt/v1/cluster_transfers'',
        ocm_ClusterTransferInterval = 12 * Hour\<rparr>\<rparr>"

definition gather_controller :: Controller where
  "gather_controller = zero_Controller
     \<lparr>ConditionalGathererEndpoint := ''https://console.redhat.com/api/gathering/gathering_rules'',
      StoragePath := ''/var/lib/insights-operator'', Interval := 30 * Minute\<rparr>"

definition gather_and_upload_controller :: Controller where
  "gather_and_upload_controller = zero_Controller
     \<lparr>ConditionalGathererEndpoint := ''https://console.redhat.com/api/gathering/gathering_rules'',
      StoragePath := ''/var/lib/insights-operator'', Interval := 2 * Hour,
      Endpoint := ''https://console.redhat.com/api/ingress/v1/upload'',
      ReportEndpoint := ''https://console.redhat.com/api/insights-results-aggregator/v2/cluster/%s/reports'',
      ReportPullingDelay := 60 * Second, ReportMinRetryTime := 10 * Second, ReportPullingTimeout := 30 * Minute,
      ProcessingStatusEndpoint := ''https://console.redhat.com/api/insights-results-aggregator/v2/cluster/%s/request/%s/status'',
      ReportEndpointTechPreview := ''https://console.redhat.com/api/insights-results-aggregator/v2/cluster/%s/request/%s/report''\<rparr>"

datatype 'a process = Exits int | Goes 'a

definition exit_on_error :: "'a result \<Rightarrow> ('a \<Rightarrow> 'b process) \<Rightarrow> 'b process" where
  "exit_on_error x f = (case x of Inl _ \<Rightarrow> Exits 1 | Inr a \<Rightarrow> f a)"

record client_config = rest_config +
  cc_AcceptContentTypes :: string
  cc_ContentType :: string

record start_env =
  sv_configArg :: string
  sv_config :: "Serialized result result"
  sv_parse_duration :: "string \<Rightarrow> duration result"
  sv_kubeConfigPath :: string
  sv_ReadFile :: "string \<Rightarrow> bytes result"
  sv_clientConfig :: "bytes \<Rightarrow> client_config result"
  sv_inCluster :: "client_config result"
  sv_client :: "go_error option"
  sv_observed :: bool
  sv_firstGates :: "(string \<Rightarrow> bool option) result"
  sv_gates :: "(string \<Rightarrow> bool option) result"

text \<open>
  \<open>sv_clientConfig\<close> is \<open>NewClientConfigFromBytes\<close> followed by \<open>ClientConfig\<close>; a feature gate is unknown, for which \<open>Enabled\<close> panics,
  or set.
\<close>

definition createClientConfig :: "start_env \<Rightarrow> client_config result" where
  "createClientConfig env =
     (if 0 < length (sv_kubeConfigPath env)
      then (case sv_ReadFile env (sv_kubeConfigPath env) of Inl err \<Rightarrow> Inl err | Inr b \<Rightarrow> sv_clientConfig env b)
      else sv_inCluster env)"

record gather_job =
  gj_Controller :: Controller
  gj_InsightsConfigEnabled :: bool

definition proto_config :: "client_config \<Rightarrow> client_config" where
  "proto_config c = c\<lparr>cc_AcceptContentTypes := ''application/vnd.kubernetes.protobuf,application/json'',
                      cc_ContentType := ''application/vnd.kubernetes.protobuf''\<rparr>"

definition createGatherClientConfig :: "start_env \<Rightarrow> gather_job \<Rightarrow> (gather_job \<times> client_config \<times> client_config) process" where
  "createGatherClientConfig env job =
     (if length (sv_configArg env) = 0 then Exits 1
      else exit_on_error (sv_config env) (\<lambda>decoded.
        case LoadConfig decoded (ToDisconnectedController (sv_parse_duration env)) (gj_Controller job) of
          (_, Some err) \<Rightarrow> Exits 1
        | (cont, None) \<Rightarrow>
            exit_on_error (createClientConfig env) (\<lambda>clientCfg.
              Goes (job\<lparr>gj_Controller := cont\<rparr>, clientCfg, proto_config clientCfg))))"

text \<open>The option is the panic of the first reading of the gates, whose error is ignored, and of a gate that is not known.\<close>

definition checkFeatureGates :: "start_env \<Rightarrow> gather_job \<Rightarrow> gather_job process option" where
  "checkFeatureGates env job =
     (case sv_client env of
        Some _ \<Rightarrow> Some (Exits 1)
      | None \<Rightarrow>
          if \<not> sv_observed env then Some (Exits 1)
          else case sv_firstGates env of
            Inl _ \<Rightarrow> None
          | Inr _ \<Rightarrow>
              (case sv_gates env of
                 Inl _ \<Rightarrow> Some (Exits 1)
               | Inr gates \<Rightarrow> map_option (\<lambda>b. Goes (job\<lparr>gj_InsightsConfigEnabled := b\<rparr>)) (gates ''InsightsConfig'')))"

definition prepare_job :: "start_env \<Rightarrow> gather_job \<Rightarrow> (gather_job \<times> client_config \<times> client_config) process option" where
  "prepare_job env job =
     (case createGatherClientConfig env job of
        Exits c \<Rightarrow> Some (Exits c)
      | Goes (job, clientConfig, protoConfig) \<Rightarrow>
          (case checkFeatureGates env job of
             None \<Rightarrow> None
           | Some (Exits c) \<Rightarrow> Some (Exits c)
           | Some (Goes job) \<Rightarrow> Some (Goes (job, clientConfig, protoConfig))))"

text \<open>
  \<open>gather\<close> and \<open>upload\<close> are \<open>GatherJob.Gather\<close> and \<open>GatherJob.GatherAndUpload\<close> at the operator and the two client configurations; the state
  they leave is the first component of the result, beside the exit code.
\<close>

type_synonym 's job_body = "gather_job \<Rightarrow> client_config \<Rightarrow> client_config \<Rightarrow> 's \<Rightarrow> ('s \<times> go_error option) option"

definition runGather :: "start_env \<Rightarrow> 's job_body \<Rightarrow> gather_job \<Rightarrow> 's \<Rightarrow> ('s \<times> int) option" where
  "runGather env gather job st =
     (case prepare_job env job of
        None \<Rightarrow> None
      | Some (Exits c) \<Rightarrow> Some (st, c)
      | Some (Goes (job, clientConfig, protoConfig)) \<Rightarrow> map_option (\<lambda>(st, _). (st, 0)) (gather job clientConfig protoConfig st))"

definition runGatherAndUpload :: "start_env \<Rightarrow> 's job_body \<Rightarrow> gather_job \<Rightarrow> 's \<Rightarrow> ('s \<times> int) option" where
  "runGatherAndUpload env upload job st =
     (case prepare_job env job of
        None \<Rightarrow> None
      | Some (Exits c) \<Rightarrow> Some (st, c)
      | Some (Goes (job, clientConfig, protoConfig)) \<Rightarrow>
          map_option (\<lambda>(st, err). (st, case err of Some _ \<Rightarrow> 1 | None \<Rightarrow> 0)) (upload job clientConfig protoConfig st))"

text \<open>The two commands on the bodies of the gathering job.\<close>

definition gather_command :: "start_env \<Rightarrow> job_setup \<Rightarrow> 'r job_run_env \<Rightarrow> 'r \<Rightarrow> ('r \<times> int) option" where
  "gather_command env su e r =
     runGather env (\<lambda>job _ _ r. job_Gather su e (StoragePath (gj_Controller job)) r)
       \<lparr>gj_Controller = gather_controller, gj_InsightsConfigEnabled = False\<rparr> r"

definition gather_and_upload_command :: "start_env \<Rightarrow> 'r job_env \<Rightarrow> dg_server \<times> 'r \<Rightarrow> ((dg_server \<times> 'r) \<times> int) option" where
  "gather_and_upload_command env e st =
     runGatherAndUpload env
       (\<lambda>job _ _ (s, r). map_option (\<lambda>(s, r, err). ((s, r), err)) (GatherAndUpload e (StoragePath (gj_Controller job)) s r))
       \<lparr>gj_Controller = gather_and_upload_controller, gj_InsightsConfigEnabled = False\<rparr> st"

lemma prepared_job:
  assumes "prepare_job env job = Some (Goes (job', clientConfig, protoConfig))"
  shows "0 < Interval (gj_Controller job')" "StoragePath (gj_Controller job') \<noteq> []"
    "Endpoint (gj_Controller job') = Endpoint (gj_Controller job)"
    "protoConfig = proto_config clientConfig" "createClientConfig env = Inr clientConfig"
  using assms
  by (auto simp: prepare_job_def createGatherClientConfig_def checkFeatureGates_def exit_on_error_def LoadConfig_def
      ToDisconnectedController_def Let_def split: process.splits option.splits if_splits sum.splits prod.splits)

lemma prepare_exit:
  assumes "prepare_job env job = Some (Exits c)"
  shows "c = 1"
  using assms
  by (auto simp: prepare_job_def createGatherClientConfig_def checkFeatureGates_def exit_on_error_def
      split: process.splits option.splits if_splits sum.splits prod.splits)

text \<open>
  A job that was started always ends with exit code 0 under the command \<open>gather\<close>, whatever the gathering returned; under
  \<open>gather-and-upload\<close> the exit code is 0 exactly when there was no error.
\<close>

lemma gather_exit_code:
  assumes "prepare_job env job = Some (Goes x)" and "runGather env gather job st = Some (st', c)"
  shows "c = 0"
  using assms by (auto simp: runGather_def split: prod.splits)

theorem upload_exit_code:
  assumes "gather_and_upload_command env e (s, r) = Some ((s', r'), c)"
  shows "c = 1 \<and> (s', r') = (s, r) \<or>
    (\<exists>path err. path \<noteq> [] \<and> GatherAndUpload e path s r = Some (s', r', err) \<and> c = (if err = None then 0 else 1))"
proof (cases "prepare_job env \<lparr>gj_Controller = gather_and_upload_controller, gj_InsightsConfigEnabled = False\<rparr>")
  case None
  with assms show ?thesis by (simp add: gather_and_upload_command_def runGatherAndUpload_def)
next
  case (Some p)
  show ?thesis
  proof (cases p)
    case (Exits c')
    with Some prepare_exit [of env _ c'] assms show ?thesis by (auto simp: gather_and_upload_command_def runGatherAndUpload_def)
  next
    case (Goes x)
    obtain job cc pc where "x = (job, cc, pc)" by (cases x) auto
    with Some Goes prepared_job(2) [of env _ job cc pc] assms show ?thesis
      by (fastforce simp: gather_and_upload_command_def runGatherAndUpload_def split: option.splits)
  qed
qed

lemma failed_gathering_exits_0:
  assumes "sv_configArg env \<noteq> []" "sv_config env = Inr (Inr s)" "s_StoragePath s \<noteq> []" "s_Interval s = []"
    and "createClientConfig env = Inr cc" "sv_client env = None" "sv_observed env" "sv_firstGates env = Inr gates" "sv_gates env = Inr gates"
    and "gates ''InsightsConfig'' = Some b" and "js_kubeClient su = Some err"
  shows "gather_command env su e r = Some (r, 0)"
  using assms
  by (simp add: gather_command_def runGather_def prepare_job_def createGatherClientConfig_def checkFeatureGates_def exit_on_error_def
      LoadConfig_def ToDisconnectedController_def load_duration_def gather_controller_def job_Gather_def Let_def)

section \<open>What is written\<close>

lemma obfuscated_path_suffix: "suffix ''.tar.gz'' (obfuscated_path path)"
  unfolding obfuscated_path_def suffix_def by (rule exI[of _ "take (length path - length ''.tar.gz'') path @ ''-obfuscated''"]) simp

text \<open>The records with their obfuscation, one after the other with the state of the anonymiser handed on.\<close>

fun obfuscation_of :: "NetworkAnonymizer \<Rightarrow> MemoryRecord list \<Rightarrow> MemoryRecord list" where
  "obfuscation_of na [] = []"
| "obfuscation_of na (r # rs) = (case anonymize_record na r of (na, r) \<Rightarrow> r # obfuscation_of na rs)"

lemma anonymize_records_all:
  "anonymize_records tools once na rs = Some (Inr out) \<Longrightarrow>
     (\<exists>flagged. list_all2 (\<lambda>r f. flag_metadata tools r = Inr f) rs flagged \<and> out = obfuscation_of na flagged)"
proof (induction tools once na rs arbitrary: out rule: anonymize_records.induct)
  case (1 tools once na)
  then show ?case by simp
next
  case (2 tools once na r rs)
  from 2(2) obtain f where f: "flag_metadata tools r = Inr f" by (cases "flag_metadata tools r") auto
  obtain na' r' where a: "anonymize_record na f = (na', r')" by (cases "anonymize_record na f")
  have step: "AnonymizeData (\<lambda>na. Some (na, None)) once na f = Some (True, na', r')" by (simp add: AnonymizeData_def a)
  from 2(2) have "map_option (map_sum id (\<lambda>rs. r' # rs)) (anonymize_records tools True na' rs) = Some (Inr out)" by (simp add: f step)
  then obtain z where z: "anonymize_records tools True na' rs = Some z" "map_sum id (\<lambda>rs. r' # rs) z = Inr out" by auto
  then obtain rest where rest: "anonymize_records tools True na' rs = Some (Inr rest)" "out = r' # rest" by (cases z) auto
  from 2(1)[OF f step refl refl rest(1)] obtain flagged where "list_all2 (\<lambda>r f. flag_metadata tools r = Inr f) rs flagged" "rest = obfuscation_of na' flagged"
    by blast
  then show ?case using f a rest(2) by (intro exI[of _ "f # flagged"]) simp
qed

lemma fold_entries:
  "map_get (fold add_entry es m) n =
     (case map_get (rev es) n of None \<Rightarrow> map_get m n | Some b \<Rightarrow> Some \<lparr>mr_Name = n, mr_At = 0, mr_Data = Some b, mr_Fingerprint = []\<rparr>)"
proof (induction es arbitrary: m)
  case (Cons e es)
  obtain k b where e: "e = (k, b)" by (cases e)
  show ?case unfolding fold_Cons comp_apply Cons.IH e by (auto simp: add_entry_def map_of_append map_add_def split: option.splits)
qed simp

text \<open>
  A successful run leaves a complete archive beside the original under the name with the suffix, that holds the
  obfuscation of every file of the original, with the flag set in the metadata; the files that were on disk stay.
\<close>

theorem archive_obfuscated:
  assumes "obfuscateArchive tools flt now open_file path d = Some (Inr p, d')"
  obtains es na flagged f where
    "p = obfuscated_path path" "open_file path = Inr (es, None)" "archive_anonymizer tools (fold add_entry es []) = Some (Inr na)"
    "list_all2 (\<lambda>r f. flag_metadata tools r = Inr f) (map snd (fold add_entry es [])) flagged"
    "f \<in> set (dk_files d')" "de_name f = p" "de_complete f" "de_content f = obfuscation_of na flagged" "set (dk_files d) \<subseteq> set (dk_files d')"
proof -
  from assms obtain es where es: "open_file path = Inr (es, None)"
    by (auto simp: obfuscateArchive_def readArchive_def split: if_splits sum.splits option.splits prod.splits)
  let ?records = "fold add_entry es []"
  have read: "readArchive (open_file path) = Inr ?records" by (simp add: readArchive_def es)
  from assms read obtain na out where na: "archive_anonymizer tools ?records = Some (Inr na)"
    and out: "anonymize_records tools False na (map snd ?records) = Some (Inr out)"
    and s: "(case SaveAtPath flt now (obfuscated_path path) out d of
              (d, _, Some err) \<Rightarrow> Some (Inl err, d) | (d, _, None) \<Rightarrow> Some (Inr (obfuscated_path path), d)) = Some (Inr p, d')"
    by (auto simp: obfuscateArchive_def split: if_splits option.splits sum.splits)
  obtain ws where save: "SaveAtPath flt now (obfuscated_path path) out d = (d', ws, None)" "p = obfuscated_path path"
    using s by (auto split: prod.splits option.splits)
  from anonymize_records_all[OF out] obtain flagged where fl: "list_all2 (\<lambda>r f. flag_metadata tools r = Inr f) (map snd ?records) flagged"
    "out = obfuscation_of na flagged" by blast
  let ?f = "\<lparr>de_name = p, de_isDir = False, de_modTime = now, de_content = out, de_complete = True\<rparr>"
  have files: "dk_files d' = insert_by entry_less ?f (dk_files d)" using SaveAtPath_ok[OF save(1)] by (simp add: save(2))
  have f: "?f \<in> set (dk_files d')" unfolding files by (simp add: set_insert_by)
  have keep: "set (dk_files d) \<subseteq> set (dk_files d')" by (rule SaveAtPath_keeps[OF save(1)])
  show ?thesis by (rule that[OF save(2) es na fl(1) f _ _ _ keep]) (simp_all add: fl(2))
qed

text \<open>When the ingress record is needed and cannot be decoded, the run goes on without a base domain to hide.\<close>

lemma undecodable_ingress_ignored:
  assumes "map_get records ''config/infrastructure.json'' = None" "map_get records ''config/ingress.json'' = Some r"
    "ingress (data_bytes (mr_Data r)) = Inl err"
  shows "getClusterBaseDomain infra ingress records = Inr []"
  using assms by (simp add: getClusterBaseDomain_def getClusterBaseDomainFromInfrastructureRecord_def getClusterBaseDomainFromIngressRecord_def)

end
