(* ===== verification/Process.thy ===== *)
theory Process
  imports Commands
begin

text \<open>
  The process of the operator: \<open>runOperator\<close> of pkg/cmd/start/start.go, the manager with the metrics server of pkg/cmd/start/manager.go,
  and the registration of the metrics (pkg/insights/metrics.go).  Shown: how the process ends before the operator runs, what holds once it runs, and exactly what
  makes it stop for a restart.

  The constructors of the controller libraries are outcomes; the registry of the metrics is the list of what was registered.
\<close>

section \<open>Metrics\<close>

type_synonym registry = "string list"

fun register_all :: "(string \<Rightarrow> go_error option) \<Rightarrow> string list \<Rightarrow> registry \<Rightarrow> registry \<times> go_error option" where
  "register_all Register [] reg = (reg, None)"
| "register_all Register (c # cs) reg =
     (case Register c of
        Some err \<Rightarrow> (reg, Some (Errorf (''failed to register insights metric: '' @ error_text err)))
      | None \<Rightarrow> register_all Register cs (reg @ [c]))"

definition RegisterInsightsMetrics :: "(string \<Rightarrow> go_error option) \<Rightarrow> registry \<Rightarrow> registry \<times> go_error option" where
  "RegisterInsightsMetrics Register reg = register_all Register [''RecommendationCollector'', ''counterRequestSend''] reg"

section \<open>The manager\<close>

record ('profile, 'policy) manager_env =
  me_Register :: "string \<Rightarrow> go_error option"
  me_client :: "go_error option"
  me_profile :: "'profile result"
  me_policy :: "'policy result"
  me_new :: "go_error option"
  me_watcher :: "go_error option"
  me_healthz :: "go_error option"
  me_readyz :: "go_error option"

record manager_options =
  mo_BindAddress :: string
  mo_SecureServing :: bool
  mo_CertDir :: string
  mo_authenticated :: bool
  mo_LeaderElection :: bool
  mo_LeaderElectionNamespace :: string
  mo_HealthProbeBindAddress :: string

record ('profile, 'policy) metrics_manager =
  mm_options :: manager_options
  mm_profile :: 'profile
  mm_policy :: 'policy
  mm_checks :: "string list"

definition createManager :: "string \<Rightarrow> manager_options" where
  "createManager namespace =
     \<lparr>mo_BindAddress = '':8443'', mo_SecureServing = True, mo_CertDir = ''/var/run/secrets/serving-cert'', mo_authenticated = True,
      mo_LeaderElection = False, mo_LeaderElectionNamespace = namespace, mo_HealthProbeBindAddress = '':8080''\<rparr>"

definition wrapped :: "string \<Rightarrow> go_error \<Rightarrow> 'a result" where
  "wrapped s err = Inl (Errorf (s @ error_text err))"

definition NewManager ::
  "('profile, 'policy) manager_env \<Rightarrow> string \<Rightarrow> registry \<Rightarrow> registry \<times> ('profile, 'policy) metrics_manager result" where
  "NewManager env namespace reg =
     (case RegisterInsightsMetrics (me_Register env) reg of
        (reg, Some err) \<Rightarrow> (reg, wrapped ''failed to register insights metrics: '' err)
      | (reg, None) \<Rightarrow>
          (case me_Register env ''recvReport'' of
             Some err \<Rightarrow> (reg, wrapped ''failed to register recv report metric: '' err)
           | None \<Rightarrow>
               (case me_Register env ''insightsStatus'' of
                  Some err \<Rightarrow> (reg @ [''recvReport''], wrapped ''failed to register insights status metric: '' err)
                | None \<Rightarrow>
                    (reg @ [''recvReport'', ''insightsStatus''],
                     case me_client env of Some err \<Rightarrow> wrapped ''failed to create Kubernetes client: '' err
                     | None \<Rightarrow> (case me_profile env of Inl err \<Rightarrow> wrapped ''unable to get TLS profile from API server: '' err
                     | Inr profile \<Rightarrow> (case me_policy env of Inl err \<Rightarrow> wrapped ''unable to get TLS adherence policy from API server: '' err
                     | Inr policy \<Rightarrow> (case me_new env of Some err \<Rightarrow> Inl err
                     | None \<Rightarrow> (case me_watcher env of Some err \<Rightarrow> wrapped ''unable to set up TLS security profile watcher: '' err
                     | None \<Rightarrow> (case me_healthz env of Some err \<Rightarrow> wrapped ''unable to set up healthz endpoint: '' err
                     | None \<Rightarrow> (case me_readyz env of Some err \<Rightarrow> wrapped ''unable to set up readyz endpoint: '' err
                     | None \<Rightarrow> Inr \<lparr>mm_options = createManager namespace, mm_profile = profile, mm_policy = policy,
                                    mm_checks = [''healthz'', ''readyz'']\<rparr>))))))))))"

section \<open>Running the operator\<close>

text \<open>
  \<open>oe_config\<close> is the outcome of reading the configuration, with the namespace of its leader election; \<open>oe_rotation\<close> the files whose content is watched.
\<close>

record ('profile, 'policy) operator_env =
  oe_configArg :: string
  oe_config :: "string result"
  oe_rotation :: "((string, bytes) gomap \<times> string list) result"
  oe_serviceCA :: "bytes result"
  oe_clientConfig :: "client_config result"
  oe_scheme :: "go_error option"
  oe_manager :: "('profile, 'policy) manager_env"

record ('profile, 'policy) operator_process =
  op_startingFileContent :: "(string, bytes) gomap"
  op_observedFiles :: "string list"
  op_mgr :: "('profile, 'policy) metrics_manager"
  op_clientConfig :: client_config

definition serviceCACertPath :: string where "serviceCACertPath = ''/var/run/configmaps/service-ca-bundle/service-ca.crt''"

text \<open>\<open>klog.Exit\<close> ends the process with 1, \<open>klog.Fatalf\<close> with 255.\<close>

definition runOperator :: "('profile, 'policy) operator_env \<Rightarrow> registry \<Rightarrow> registry \<times> ('profile, 'policy) operator_process process" where
  "runOperator env reg =
     (if length (oe_configArg env) = 0 then (reg, Exits 1)
      else case oe_config env of
        Inl _ \<Rightarrow> (reg, Exits 1)
      | Inr namespace \<Rightarrow>
          (case oe_rotation env of
             Inl _ \<Rightarrow> (reg, Exits 1)
           | Inr (startingFileContent, observedFiles) \<Rightarrow>
               let startingFileContent = (case oe_serviceCA env of Inr data \<Rightarrow> map_put serviceCACertPath data startingFileContent
                                          | Inl _ \<Rightarrow> startingFileContent);
                   observedFiles = observedFiles @ [serviceCACertPath]
               in case oe_clientConfig env of
                    Inl _ \<Rightarrow> (reg, Exits 1)
                  | Inr clientConfig \<Rightarrow>
                      (case oe_scheme env of
                         Some _ \<Rightarrow> (reg, Exits 255)
                       | None \<Rightarrow>
                           (case NewManager (oe_manager env) namespace reg of
                              (reg, Inl _) \<Rightarrow> (reg, Exits 255)
                            | (reg, Inr mgr) \<Rightarrow>
                                (reg, Goes \<lparr>op_startingFileContent = startingFileContent, op_observedFiles = observedFiles,
                                            op_mgr = mgr, op_clientConfig = clientConfig\<rparr>)))))"

text \<open>
  While the operator runs, its context is cancelled by a change of an observed file, by the watcher of the TLS settings, and by a manager that stops with an
  error other than the cancellation.  \<open>ManagerStops\<close> has the error and whether it is the cancellation of the context.
\<close>

datatype ('profile, 'policy) process_event =
    FileSeen string bytes
  | ProfileSeen 'profile
  | PolicySeen 'policy
  | ManagerStops "(go_error \<times> bool) option"

definition file_changed :: "('profile, 'policy) operator_process \<Rightarrow> string \<Rightarrow> bytes \<Rightarrow> bool" where
  "file_changed p f data = (f \<in> set (op_observedFiles p) \<and> map_get (op_startingFileContent p) f \<noteq> Some data)"

fun cancels :: "('profile, 'policy) operator_process \<Rightarrow> ('profile, 'policy) process_event \<Rightarrow> bool" where
  "cancels p (FileSeen f data) = file_changed p f data"
| "cancels p (ProfileSeen profile) = (profile \<noteq> mm_profile (op_mgr p))"
| "cancels p (PolicySeen policy) = (policy \<noteq> mm_policy (op_mgr p))"
| "cancels p (ManagerStops None) = False"
| "cancels p (ManagerStops (Some (err, canceled))) = (\<not> canceled)"

fun run_process :: "('profile, 'policy) operator_process \<Rightarrow> ('profile, 'policy) process_event list \<Rightarrow> bool" where
  "run_process p [] = False"
| "run_process p (ev # evs) = (cancels p ev \<or> run_process p evs)"

section \<open>What holds while the operator runs\<close>

lemma register_all_ok:
  "register_all Register cs reg = (reg', None) \<Longrightarrow> reg' = reg @ cs \<and> list_all (\<lambda>c. Register c = None) cs"
  by (induction Register cs reg rule: register_all.induct) (auto split: option.splits)

lemma NewManager_ok:
  assumes "NewManager env namespace reg = (reg', Inr mgr)"
  shows "reg' = reg @ [''RecommendationCollector'', ''counterRequestSend'', ''recvReport'', ''insightsStatus'']"
    and "mm_checks mgr = [''healthz'', ''readyz'']" and "mm_options mgr = createManager namespace"
    and "me_profile env = Inr (mm_profile mgr)" and "me_policy env = Inr (mm_policy mgr)"
  using assms register_all_ok [of "me_Register env" "[''RecommendationCollector'', ''counterRequestSend'']" reg]
  by (auto simp: NewManager_def RegisterInsightsMetrics_def wrapped_def split: prod.splits option.splits sum.splits)

text \<open>
  Once the operator runs, all its metrics are registered and served with TLS and authentication at the profile of the cluster, its health is probed, and
  the service CA is among the observed files; until then the process ends with code 1 for its configuration and 255 for the manager.
\<close>

theorem operator_runs:
  assumes "runOperator env reg = (reg', Goes p)"
  shows "reg' = reg @ [''RecommendationCollector'', ''counterRequestSend'', ''recvReport'', ''insightsStatus''] \<and>
    mo_SecureServing (mm_options (op_mgr p)) \<and> mo_authenticated (mm_options (op_mgr p)) \<and>
    mm_checks (op_mgr p) = [''healthz'', ''readyz''] \<and>
    me_profile (oe_manager env) = Inr (mm_profile (op_mgr p)) \<and> serviceCACertPath \<in> set (op_observedFiles p) \<and>
    oe_clientConfig env = Inr (op_clientConfig p)"
proof -
  from assms obtain namespace where m: "NewManager (oe_manager env) namespace reg = (reg', Inr (op_mgr p))"
    and "serviceCACertPath \<in> set (op_observedFiles p)" "oe_clientConfig env = Inr (op_clientConfig p)"
    by (auto simp: runOperator_def Let_def split: if_splits sum.splits prod.splits option.splits)
  with NewManager_ok [OF m] show ?thesis by (simp add: createManager_def)
qed

lemma operator_exit_codes: "runOperator env reg = (reg', Exits c) \<Longrightarrow> c = 1 \<and> reg' = reg \<or> c = 255"
  by (auto simp: runOperator_def Let_def split: if_splits sum.splits prod.splits option.splits)

lemma run_process_iff: "run_process p evs \<longleftrightarrow> list_ex (cancels p) evs"
  by (induction evs) auto

text \<open>
  The process restarts exactly for a reason: with the files, the profile and the policy it started with and a manager that does not fail, it
  runs on; the service CA, once rotated, stops it, also when it could not be read at the start.
\<close>

lemma unchanged_process_runs:
  assumes "list_all (\<lambda>ev. case ev of FileSeen f data \<Rightarrow> map_get (op_startingFileContent p) f = Some data
      | ProfileSeen profile \<Rightarrow> profile = mm_profile (op_mgr p) | PolicySeen policy \<Rightarrow> policy = mm_policy (op_mgr p)
      | ManagerStops e \<Rightarrow> pred_option snd e) evs"
  shows "\<not> run_process p evs"
proof -
  have "\<not> cancels p ev" if "ev \<in> set evs" for ev
    using assms that by (cases "(p, ev)" rule: cancels.cases) (force simp: list_all_iff file_changed_def)+
  then show ?thesis by (auto simp: run_process_iff list_ex_iff)
qed

lemma rotated_service_ca:
  assumes "runOperator env reg = (reg', Goes p)" and "oe_serviceCA env \<noteq> Inr data"
    and "\<And>files observed. oe_rotation env = Inr (files, observed) \<Longrightarrow> map_get files serviceCACertPath = None"
  shows "run_process p [FileSeen serviceCACertPath data]"
proof -
  have "serviceCACertPath \<in> set (op_observedFiles p)" using operator_runs [OF assms(1)] by blast
  moreover have "map_get (op_startingFileContent p) serviceCACertPath \<noteq> Some data"
    using assms by (auto simp: runOperator_def Let_def split: if_splits sum.splits prod.splits option.splits)
  ultimately show ?thesis by (simp add: file_changed_def)
qed

end
