(* ===== verification/StatusLoop.thy ===== *)
theory StatusLoop
  imports StatusController
begin

text \<open>
  The loop of the status controller (\<open>Start\<close> of pkg/controller/status/controller.go) and the registration of its sources, with the resource of
  the cluster operator on the API server.  Shown: what the server stores after an iteration that reaches it, however the loop got
  there; a report is never forgotten; the loop of a cancelled context goes on.

  The API server is modelled by what its documentation says of the calls: a created object has no status, an update of the status stores it.
  The rate limiter only delays an iteration.
\<close>

section \<open>Sources\<close>

definition AddSources_map :: "(string \<times> Summary option) list \<Rightarrow> (string, Summary option) gomap \<Rightarrow> (string, Summary option) gomap" where
  "AddSources_map sources m = fold (\<lambda>(name, s). map_put name s) sources m"

definition Source_of :: "string \<Rightarrow> (string, Summary option) gomap \<Rightarrow> Summary option option" where
  "Source_of name m = map_get m name"

section \<open>The loop\<close>

record api_answers =
  aa_get :: "go_error option"
  aa_create :: "go_error option"
  aa_update :: "go_error option"

record loop_world =
  lw_env :: status_env
  lw_c :: status_state
  lw_server :: "ClusterOperatorStatus option"

record status_tools =
  tl_semver :: "string \<Rightarrow> (nat \<times> nat \<times> string) result"
  tl_marshal :: "time \<Rightarrow> bytes"
  tl_unmarshal :: "bytes \<Rightarrow> time"

definition read_operator :: "api_answers \<Rightarrow> ClusterOperatorStatus option \<Rightarrow> ClusterOperatorStatus result" where
  "read_operator ans server =
     (case aa_get ans of
        Some err \<Rightarrow> Inl err
      | None \<Rightarrow> (case server of None \<Rightarrow> Inl (NotFoundErr ''clusteroperators insights not found'') | Some co \<Rightarrow> Inr co))"

fun stored_status :: "api_answers \<Rightarrow> co_call list \<Rightarrow> ClusterOperatorStatus option \<Rightarrow> ClusterOperatorStatus option" where
  "stored_status ans [] server = server"
| "stored_status ans (CreateCO _ # calls) server =
     stored_status ans calls (if aa_create ans = None then Some zero_ClusterOperatorStatus else server)"
| "stored_status ans (UpdateStatusCO co # calls) server = stored_status ans calls (if aa_update ans = None then Some co else server)"

definition run_update :: "status_tools \<Rightarrow> bool \<Rightarrow> time \<Rightarrow> api_answers \<Rightarrow> loop_world \<Rightarrow> loop_world \<times> go_error option" where
  "run_update tools initial now ans w =
     (case updateStatus (tl_semver tools) (tl_marshal tools) (tl_unmarshal tools) (lw_env w) now initial (read_operator ans (lw_server w))
             (aa_create ans) (aa_update ans) (lw_c w) of
        (c, calls, err) \<Rightarrow> (w\<lparr>lw_c := c, lw_server := stored_status ans calls (lw_server w)\<rparr>, err))"

text \<open>
  What happens around the loop and in it: the environment and the sources change, a report is made, the ticker fires, the signal of a
  report is received, and the context is done, in which case the loop does not return.
\<close>

datatype loop_event =
    SourcesAdded "(string \<times> Summary option) list"
  | ConfigChanges bool "bool option"
  | Reports time
  | TimerFires time api_answers
  | SignalReceived time api_answers
  | ContextDone time api_answers

fun loop_step :: "status_tools \<Rightarrow> loop_event \<Rightarrow> loop_world \<Rightarrow> loop_world" where
  "loop_step tools (SourcesAdded ss) w = w\<lparr>lw_env := (lw_env w)\<lparr>se_sources := AddSources_map ss (se_sources (lw_env w))\<rparr>\<rparr>"
| "loop_step tools (ConfigChanges enabled api) w = w\<lparr>lw_env := (lw_env w)\<lparr>se_enabled := enabled, se_api := api\<rparr>\<rparr>"
| "loop_step tools (Reports at) w = w\<lparr>lw_c := SetLastReportedTime at (lw_c w)\<rparr>"
| "loop_step tools (TimerFires now ans) w = fst (run_update tools False now ans w)"
| "loop_step tools (SignalReceived now ans) w =
     (if sc_statusCh (lw_c w) then fst (run_update tools False now ans (w\<lparr>lw_c := (lw_c w)\<lparr>sc_statusCh := False\<rparr>\<rparr>)) else w)"
| "loop_step tools (ContextDone now ans) w = fst (run_update tools False now ans w)"

text \<open>\<open>Start\<close> fails when the first update does; otherwise the loop runs.\<close>

definition status_Start :: "status_tools \<Rightarrow> time \<Rightarrow> api_answers \<Rightarrow> loop_event list \<Rightarrow> loop_world \<Rightarrow> loop_world \<times> go_error option" where
  "status_Start tools now ans events w =
     (case run_update tools True now ans w of
        (w, Some err) \<Rightarrow> (w, Some err)
      | (w, None) \<Rightarrow> (fold (loop_step tools) events w, None))"

definition api_works :: "api_answers \<Rightarrow> bool" where
  "api_works ans = (aa_get ans = None \<and> aa_create ans = None \<and> aa_update ans = None)"

section \<open>What the server stores\<close>

lemma run_update_stores:
  assumes "api_works ans"
  shows "\<exists>c existing c' co changed. lw_server (fst (run_update tools initial now ans w)) = Some co \<and>
    status_merge (tl_semver tools) (tl_marshal tools) (lw_env w) now existing c = (c', co, changed) \<and>
    (\<not> initial \<longrightarrow> sc_reported c = sc_reported (lw_c w)) \<and> snd (run_update tools initial now ans w) = None \<and>
    lw_env (fst (run_update tools initial now ans w)) = lw_env w"
proof (cases "lw_server w")
  case None
  obtain c co changed where m: "status_merge (tl_semver tools) (tl_marshal tools) (lw_env w) now None (lw_c w) = (c, co, changed)"
    by (metis surj_pair)
  with None assms have "run_update tools initial now ans w = (w\<lparr>lw_c := c, lw_server := Some co\<rparr>, None)"
    by (simp add: run_update_def updateStatus_def read_operator_def api_works_def isNotFound_def)
  with m show ?thesis by (intro exI conjI) auto
next
  case (Some old)
  define c0 where "c0 = (if initial then SetLastReportedTime
      (if 0 < length (co_Extension old) then tl_unmarshal tools (co_Extension old) else 0) (lw_c w) else lw_c w)"
  obtain c co changed where m: "status_merge (tl_semver tools) (tl_marshal tools) (lw_env w) now (Some old) c0 = (c, co, changed)"
    by (metis surj_pair)
  with Some assms have "run_update tools initial now ans w = (w\<lparr>lw_c := c, lw_server := Some co\<rparr>, None)"
    by (auto simp: run_update_def updateStatus_def read_operator_def api_works_def c0_def Let_def)
  with m show ?thesis by (intro exI [of _ c0] exI [of _ "Some old"] exI [of _ c] exI [of _ co] exI [of _ changed]) (simp add: c0_def)
qed

lemma status_merge_reported:
  assumes "status_merge ps mr env now existing c = (c', co, changed)"
  shows "sc_reported c' = sc_reported c" "sc_statusCh c' = sc_statusCh c" "co_Extension co = mr (sc_reported c)"
  using assms
  by (auto simp: status_merge_def controllerStartTime_def LastReportedTime_def Let_def split: prod.splits if_splits)

lemma timer_stores:
  assumes "api_works ans"
  shows "\<exists>co. lw_server (loop_step tools (TimerFires now ans) w) = Some co \<and>
    written_status co OperatorDegraded = Some (if env_failing (lw_env w) \<and> \<not> env_disabled (lw_env w) then ConditionTrue else ConditionFalse) \<and>
    written_status co OperatorAvailable = Some (if env_failing (lw_env w) \<and> \<not> env_disabled (lw_env w) then ConditionFalse else ConditionTrue) \<and>
    co_Extension co = tl_marshal tools (sc_reported (lw_c w))"
proof -
  from run_update_stores [OF assms, of tools False now w] obtain c existing c' co changed where
    "lw_server (loop_step tools (TimerFires now ans) w) = Some co"
    and m: "status_merge (tl_semver tools) (tl_marshal tools) (lw_env w) now existing c = (c', co, changed)"
    and "sc_reported c = sc_reported (lw_c w)" by auto
  with operator_statuses [OF m] status_merge_reported(3) [OF m] show ?thesis by auto
qed

lemma unreadable_operator:
  assumes "aa_get ans = Some err" and "\<not> isNotFound err"
  shows "loop_step tools (TimerFires now ans) w = w"
  using assms by (simp add: run_update_def updateStatus_def read_operator_def)

text \<open>
  A report is not lost before it is written: from the report on, the signal is pending or the stored status already has
  the report, as long as the server answers; the signal is taken in the next iteration.
\<close>

lemma update_keeps_signal:
  "sc_statusCh (lw_c (fst (run_update tools False now ans w))) = sc_statusCh (lw_c w)"
  "sc_reported (lw_c (fst (run_update tools False now ans w))) = sc_reported (lw_c w)"
proof -
  have k: "sc_reported (fst (status_merge ps mr env now existing c)) = sc_reported c \<and>
      sc_statusCh (fst (status_merge ps mr env now existing c)) = sc_statusCh c" for ps mr env now existing c
    using status_merge_reported(1,2) [of ps mr env now existing c] by (metis prod.collapse)
  show "sc_statusCh (lw_c (fst (run_update tools False now ans w))) = sc_statusCh (lw_c w)"
    "sc_reported (lw_c (fst (run_update tools False now ans w))) = sc_reported (lw_c w)"
    using k by (auto simp: run_update_def updateStatus_def Let_def split: prod.splits sum.splits option.splits) (metis fst_conv)+
qed

definition report_pending :: "status_tools \<Rightarrow> loop_world \<Rightarrow> bool" where
  "report_pending tools w =
     (sc_statusCh (lw_c w) \<or> (\<exists>co. lw_server w = Some co \<and> co_Extension co = tl_marshal tools (sc_reported (lw_c w))))"

fun event_answers :: "loop_event \<Rightarrow> api_answers option" where
  "event_answers (TimerFires _ ans) = Some ans"
| "event_answers (SignalReceived _ ans) = Some ans"
| "event_answers (ContextDone _ ans) = Some ans"
| "event_answers _ = None"

lemma run_update_pending:
  assumes "api_works ans"
  shows "report_pending tools (fst (run_update tools False now ans w))"
proof -
  from run_update_stores [OF assms, of tools False now w] obtain c existing c' co changed where
    co: "lw_server (fst (run_update tools False now ans w)) = Some co"
    and m: "status_merge (tl_semver tools) (tl_marshal tools) (lw_env w) now existing c = (c', co, changed)"
    and "sc_reported c = sc_reported (lw_c w)" by auto
  with status_merge_reported(3) [OF m] update_keeps_signal(2) [of tools now ans w] show ?thesis by (auto simp: report_pending_def)
qed

theorem report_not_forgotten:
  assumes "list_all (\<lambda>ev. pred_option api_works (event_answers ev)) events"
  shows "report_pending tools (fold (loop_step tools) events (loop_step tools (Reports at) w))"
  using assms
proof (induction events rule: rev_induct)
  case Nil
  then show ?case by (simp add: report_pending_def SetLastReportedTime_def triggerStatusUpdate_def)
next
  case (snoc ev events)
  then have IH: "report_pending tools (fold (loop_step tools) events (loop_step tools (Reports at) w))" by simp
  from snoc.prems have ev: "pred_option api_works (event_answers ev)" by simp
  show ?case
    using IH ev
    by (cases ev) (auto simp: run_update_pending report_pending_def [of _ "_\<lparr>lw_env := _\<rparr>"] report_pending_def [of _ "_\<lparr>lw_c := SetLastReportedTime _ _\<rparr>"]
      SetLastReportedTime_def triggerStatusUpdate_def, auto simp: report_pending_def)
qed

text \<open>An iteration that finds the context done goes on like any other: the ticker's iteration and this one are the same step.\<close>

lemma cancelled_loop_runs: "loop_step tools (ContextDone now ans) = loop_step tools (TimerFires now ans)"
  by (rule ext) simp

section \<open>Properties\<close>

definition example_tools :: status_tools where
  "example_tools = \<lparr>tl_semver = (\<lambda>_. Inl EOF), tl_marshal = (\<lambda>_. []), tl_unmarshal = (\<lambda>_. 0)\<rparr>"

definition example_loop :: loop_world where
  "example_loop = \<lparr>lw_env = example_env (Some (upload_failure\<lparr>sm_Count := 5\<rparr>)), lw_c = example_state, lw_server = None\<rparr>"

definition all_answer :: "go_error option \<Rightarrow> api_answers" where
  "all_answer err = \<lparr>aa_get = err, aa_create = err, aa_update = err\<rparr>"

text \<open>
  C9: The status survives errors of the API server.  Whatever happened in the loop before (failed creations and updates, new sources, changes
  of the configuration, reports), an iteration that cannot read the cluster operator changes nothing, and the next one that reaches the server stores
  a status that is Degraded exactly when a source fails in a degrading way and gathering is not disabled, Available exactly when it is not Degraded,
  and that carries the last report.
\<close>

theorem status_survives_errors:
  assumes "aa_get bad = Some err" and "\<not> isNotFound err" and "api_works ans" and "w = fold (loop_step tools) events w0"
  shows "\<exists>co. lw_server (fold (loop_step tools) (events @ [TimerFires now bad, TimerFires now' ans]) w0) = Some co \<and>
    lw_server (fold (loop_step tools) (events @ [TimerFires now bad]) w0) = lw_server w \<and>
    written_status co OperatorDegraded = Some (if env_failing (lw_env w) \<and> \<not> env_disabled (lw_env w) then ConditionTrue else ConditionFalse) \<and>
    written_status co OperatorAvailable = Some (if env_failing (lw_env w) \<and> \<not> env_disabled (lw_env w) then ConditionFalse else ConditionTrue) \<and>
    co_Extension co = tl_marshal tools (sc_reported (lw_c w))"
proof -
  have bad: "loop_step tools (TimerFires now bad) w = w" by (rule unreadable_operator [OF assms(1,2)])
  from timer_stores [OF assms(3), of tools now' w] obtain co where
    "lw_server (loop_step tools (TimerFires now' ans) w) = Some co"
    "written_status co OperatorDegraded = Some (if env_failing (lw_env w) \<and> \<not> env_disabled (lw_env w) then ConditionTrue else ConditionFalse)"
    "written_status co OperatorAvailable = Some (if env_failing (lw_env w) \<and> \<not> env_disabled (lw_env w) then ConditionFalse else ConditionTrue)"
    "co_Extension co = tl_marshal tools (sc_reported (lw_c w))" by blast
  moreover have "fold (loop_step tools) (events @ [TimerFires now bad, TimerFires now' ans]) w0 = loop_step tools (TimerFires now' ans) w"
    "fold (loop_step tools) (events @ [TimerFires now bad]) w0 = w"
    using bad by (simp_all add: assms(4) del: loop_step.simps)
  ultimately show ?thesis by (intro exI [of _ co]) simp
qed

theorem status_survives_errors_witness:
  "\<exists>co. lw_server (fold (loop_step example_tools)
      ([TimerFires 4 (all_answer (Some EOF))] @ [TimerFires 5 (all_answer (Some EOF)), TimerFires 9 (all_answer None)]) example_loop) = Some co \<and>
    written_status co OperatorDegraded = Some ConditionTrue \<and> written_status co OperatorAvailable = Some ConditionFalse"
proof -
  define w where "w = fold (loop_step example_tools) [TimerFires 4 (all_answer (Some EOF))] example_loop"
  have "w = example_loop"
    unfolding w_def using unreadable_operator [of "all_answer (Some EOF)" EOF example_tools 4 example_loop]
    by (simp add: all_answer_def isNotFound_def del: loop_step.simps)
  then have "env_failing (lw_env w)" "\<not> env_disabled (lw_env w)"
    by (simp_all add: example_loop_def env_failing_def env_disabled_def degrading_messages_def degrading_def degradingFailure_def example_env_def
        upload_failure_def zero_Summary_def uploadFailuresCountThreshold_def map_filter_def)
  moreover have "aa_get (all_answer (Some EOF)) = Some EOF" "\<not> isNotFound EOF" "api_works (all_answer None)"
    by (simp_all add: all_answer_def isNotFound_def api_works_def)
  note status_survives_errors [OF this w_def, of 5 9]
  ultimately show ?thesis by auto
qed

end
