(* ===== verification/Workloads.thy ===== *)
theory Workloads
  imports Gather InsightsClient
begin

text \<open>
  The workloads gatherer: pkg/gatherers/workloads/ with gather_workloads_info.go, gather_workloads_runtime_infos.go,
  gather_helm_info.go, types.go and workloads_gatherer.go.

  The pods of the cluster arrive in pages, which are an argument: the answers to the requests in turn, the last
  of which has no continue token.  They are summed up per hashed namespace as shapes; the images of the shapes are
  looked up by a goroutine that drains a channel in batches, with a cache across gatherings (the model of
  github.com/golang/groupcache/lru); the runtime extractors of the nodes are asked for the containers of the shapes.
  The digest, parsing of image references and the metadata of images are arguments, as are the answers of the API.
\<close>

section \<open>Data\<close>

definition workloadGatherPageSize :: nat where "workloadGatherPageSize = 500"
definition podsLimit :: int where "podsLimit = 8000"

record containerInfo =
  ci_namespace :: string
  ci_pod :: string
  ci_containerID :: string

record RuntimeComponent =
  rtc_Name :: string
  rtc_Version :: string

record workloadRuntimeInfoContainer =
  ri_Os :: string
  ri_OsVersion :: string
  ri_Kind :: string
  ri_KindVersion :: string
  ri_KindImplementer :: string
  ri_Runtimes :: "RuntimeComponent list"

type_synonym workloadRuntimes = "(containerInfo, workloadRuntimeInfoContainer) gomap"
type_synonym containerIDsByNode = "(string, string list) gomap"

record workloadContainerShape =
  cs_ImageID :: string
  cs_FirstCommand :: string
  cs_FirstArg :: string
  cs_RuntimeInfo :: "workloadRuntimeInfoContainer option"
  cs_runtimeKey :: containerInfo

record workloadPodShape =
  ps_Duplicates :: int
  ps_RestartsAlways :: bool
  ps_InitContainers :: "workloadContainerShape list"
  ps_Containers :: "workloadContainerShape list"

record workloadNamespacePods =
  np_Count :: int
  np_TerminalCount :: int
  np_IgnoredCount :: int
  np_InvalidCount :: int
  np_Shapes :: "workloadPodShape list"

record workloadImage =
  wi_LayerIDs :: "string list"
  wi_FirstCommand :: string
  wi_FirstArg :: string
  wi_Repository :: string

record workloadPods =
  wk_PodCount :: int
  wk_ImageCount :: int
  wk_Images :: "(string, workloadImage) gomap"
  wk_Namespaces :: "(string, workloadNamespacePods) gomap"

text \<open>What the gatherer reads of a pod.\<close>

record wl_container =
  wc_Name :: string
  wc_Image :: string
  wc_Command :: "string list"
  wc_Args :: "string list"

record wl_containerStatus =
  ws_Name :: string
  ws_ImageID :: string
  ws_ContainerID :: string
  ws_Terminated :: bool

record wl_pod =
  wp_Namespace :: string
  wp_Name :: string
  wp_Phase :: string
  wp_NodeName :: string
  wp_PodIP :: string
  wp_RestartPolicy :: string
  wp_InitContainers :: "wl_container list"
  wp_Containers :: "wl_container list"
  wp_InitContainerStatuses :: "wl_containerStatus list"
  wp_ContainerStatuses :: "wl_containerStatus list"

abbreviation PodRunning :: string where "PodRunning \<equiv> ''Running''"
abbreviation PodPending :: string where "PodPending \<equiv> ''Pending''"
abbreviation PodSucceeded :: string where "PodSucceeded \<equiv> ''Succeeded''"
abbreviation PodFailed :: string where "PodFailed \<equiv> ''Failed''"

section \<open>Hashes\<close>

definition base64_char :: "int \<Rightarrow> char" where
  "base64_char n =
     ''ABCDEFGHIJKLMNOPQRSTUVWXYZabcdefghijklmnopqrstuvwxyz0123456789-_'' ! nat (n mod 64)"

text \<open>\<open>base64.RawURLEncoding\<close>\<close>

fun base64_encode :: "bytes \<Rightarrow> string" where
  "base64_encode (a # b # c # rest) =
     (let n = of_char a * 65536 + of_char b * 256 + of_char c
      in base64_char (n div 262144) # base64_char (n div 4096) # base64_char (n div 64) # base64_char n # base64_encode rest)"
| "base64_encode [a, b] =
     (let n = of_char a * 65536 + of_char b * 256 in [base64_char (n div 262144), base64_char (n div 4096), base64_char (n div 64)])"
| "base64_encode [a] = (let n = of_char a * 65536 in [base64_char (n div 262144), base64_char (n div 4096)])"
| "base64_encode [] = []"

definition hex_encode :: "bytes \<Rightarrow> string" where
  "hex_encode bs = concat (map (\<lambda>b. [hex_char (of_char b div 16), hex_char (of_char b mod 16)]) bs)"

definition workloadHashString :: "(bytes \<Rightarrow> bytes) \<Rightarrow> string \<Rightarrow> string" where
  "workloadHashString sha s = take 12 (base64_encode (sha s))"

definition after_last :: "char \<Rightarrow> string \<Rightarrow> string" where
  "after_last c s = rev (takeWhile (\<lambda>x. x \<noteq> c) (rev s))"

definition trim_slashes :: "string \<Rightarrow> string" where
  "trim_slashes s = (let p = (\<lambda>c. c = CHR ''/'' \<or> c = CHR 0x5C) in rev (dropWhile p (rev (dropWhile p s))))"

definition workloadArgumentString :: "string \<Rightarrow> string" where
  "workloadArgumentString s =
     (let s = takeWhile (\<lambda>c. c \<noteq> CHR '' '') (trim_space s)
      in if prefix ''-'' s \<and> CHR ''='' \<notin> set s then []
         else
           let s = (if prefix ''-'' s then takeWhile (\<lambda>c. c \<noteq> CHR ''='') s else s);
               s = trim_slashes s
           in if CHR ''/'' \<in> set s then after_last (CHR ''/'') s
              else if CHR 0x5C \<in> set s then after_last (CHR 0x5C) s else s)"

section \<open>Shapes\<close>

definition isPodTerminated :: "wl_pod \<Rightarrow> bool" where
  "isPodTerminated pod = (wp_Phase pod = PodSucceeded \<or> wp_Phase pod = PodFailed)"

definition podCanBeIgnored :: "wl_pod \<Rightarrow> bool" where
  "podCanBeIgnored pod =
     (wp_Phase pod \<noteq> PodRunning \<and> wp_Phase pod \<noteq> PodPending \<or>
      length (wp_InitContainerStatuses pod) \<noteq> length (wp_InitContainers pod) \<or>
      length (wp_ContainerStatuses pod) \<noteq> length (wp_Containers pod))"

definition matchingSpecIndex :: "string \<Rightarrow> wl_container list \<Rightarrow> nat \<Rightarrow> nat option" where
  "matchingSpecIndex name spec hint =
     (if hint < length spec \<and> wc_Name (spec ! hint) = name then Some hint
      else find (\<lambda>i. wc_Name (spec ! i) = name) [0..<length spec])"

text \<open>\<open>parse\<close> gives the identifier of a parsed image reference.\<close>

definition idForImageReference :: "(string \<Rightarrow> string result) \<Rightarrow> string \<Rightarrow> string" where
  "idForImageReference parse s = (if length s = 0 then [] else case parse s of Inl _ \<Rightarrow> [] | Inr i \<Rightarrow> i)"

definition trim_prefix :: "string \<Rightarrow> string \<Rightarrow> string" where
  "trim_prefix s p = (if prefix p s then drop (length p) s else s)"

definition first_hash :: "(bytes \<Rightarrow> bytes) \<Rightarrow> string list \<Rightarrow> string" where
  "first_hash sha xs = (case xs of [] \<Rightarrow> [] | x # _ \<Rightarrow> workloadHashString sha (workloadArgumentString x))"

definition container_shape ::
  "(bytes \<Rightarrow> bytes) \<Rightarrow> (string \<Rightarrow> string result) \<Rightarrow> wl_pod \<Rightarrow> wl_container list \<Rightarrow> nat \<Rightarrow> wl_containerStatus \<Rightarrow>
   workloadContainerShape option" where
  "container_shape sha parse pod spec i status =
     (case matchingSpecIndex (ws_Name status) spec i of
        None \<Rightarrow> None
      | Some specIndex \<Rightarrow>
          let c = spec ! specIndex;
              imageID = idForImageReference parse (trim_prefix (ws_ImageID status) ''docker-pullable://'');
              imageID = (if length imageID = 0 then idForImageReference parse (wc_Image c) else imageID)
          in if length imageID = 0 then None
             else Some \<lparr>cs_ImageID = imageID, cs_FirstCommand = first_hash sha (wc_Command c),
               cs_FirstArg = first_hash sha (wc_Args c), cs_RuntimeInfo = None,
               cs_runtimeKey = \<lparr>ci_namespace = wp_Namespace pod, ci_pod = wp_Name pod, ci_containerID = ws_ContainerID status\<rparr>\<rparr>)"

fun container_shapes ::
  "(bytes \<Rightarrow> bytes) \<Rightarrow> (string \<Rightarrow> string result) \<Rightarrow> wl_pod \<Rightarrow> wl_container list \<Rightarrow> nat \<Rightarrow> wl_containerStatus list \<Rightarrow>
   workloadContainerShape list option" where
  "container_shapes sha parse pod spec i [] = Some []"
| "container_shapes sha parse pod spec i (st # sts) =
     (case container_shape sha parse pod spec i st of
        None \<Rightarrow> None
      | Some c \<Rightarrow> map_option ((#) c) (container_shapes sha parse pod spec (Suc i) sts))"

definition calculateWorkloadContainerShapes ::
  "(bytes \<Rightarrow> bytes) \<Rightarrow> (string \<Rightarrow> string result) \<Rightarrow> wl_pod \<Rightarrow> wl_container list \<Rightarrow> wl_containerStatus list \<Rightarrow>
   workloadContainerShape list option" where
  "calculateWorkloadContainerShapes sha parse pod spec status = container_shapes sha parse pod spec 0 status"

definition calculatePodShape ::
  "(bytes \<Rightarrow> bytes) \<Rightarrow> (string \<Rightarrow> string result) \<Rightarrow> wl_pod \<Rightarrow> workloadPodShape option" where
  "calculatePodShape sha parse pod =
     (case calculateWorkloadContainerShapes sha parse pod (wp_InitContainers pod) (wp_InitContainerStatuses pod) of
        None \<Rightarrow> None
      | Some inits \<Rightarrow>
          (case calculateWorkloadContainerShapes sha parse pod (wp_Containers pod) (wp_ContainerStatuses pod) of
             None \<Rightarrow> None
           | Some cs \<Rightarrow> Some \<lparr>ps_Duplicates = 0, ps_RestartsAlways = (wp_RestartPolicy pod = ''Always''),
               ps_InitContainers = inits, ps_Containers = cs\<rparr>))"

definition container_key :: "workloadContainerShape \<Rightarrow> string \<times> string \<times> string" where
  "container_key c = (cs_ImageID c, cs_FirstArg c, cs_FirstCommand c)"

definition workloadContainerShapesEqual :: "workloadContainerShape list \<Rightarrow> workloadContainerShape list \<Rightarrow> bool" where
  "workloadContainerShapesEqual a b =
     (length a = length b \<and> list_all (\<lambda>i. container_key (a ! i) = container_key (b ! i)) [0..<length a])"

definition workloadPodShapeIndex :: "workloadPodShape list \<Rightarrow> workloadPodShape \<Rightarrow> nat option" where
  "workloadPodShapeIndex shapes shape =
     find (\<lambda>i. workloadContainerShapesEqual (ps_InitContainers (shapes ! i)) (ps_InitContainers shape) \<and>
               workloadContainerShapesEqual (ps_Containers (shapes ! i)) (ps_Containers shape)) (rev [0..<length shapes])"

section \<open>The pods of the cluster\<close>

definition add_container :: "string \<Rightarrow> wl_containerStatus \<Rightarrow> containerIDsByNode \<Rightarrow> containerIDsByNode" where
  "add_container nodeName st m =
     (if ws_Terminated st \<or> ws_ContainerID st = [] then m
      else map_put nodeName ((case map_get m nodeName of None \<Rightarrow> [] | Some ids \<Rightarrow> ids) @ [ws_ContainerID st]) m)"

definition addPodContainers :: "wl_pod \<Rightarrow> containerIDsByNode \<Rightarrow> containerIDsByNode" where
  "addPodContainers pod m =
     (if wp_Phase pod \<noteq> PodRunning then m else fold (add_container (wp_NodeName pod)) (wp_ContainerStatuses pod) m)"

text \<open>The variables of the loop; \<open>wl_images\<close> is what was sent to the channel of images.\<close>

record wl_state =
  wl_info :: workloadPods
  wl_namespace :: string
  wl_namespaceHash :: string
  wl_namespacePods :: workloadNamespacePods
  wl_containers :: containerIDsByNode
  wl_images :: "string list"

definition new_namespacePods :: workloadNamespacePods where
  "new_namespacePods = \<lparr>np_Count = 0, np_TerminalCount = 0, np_IgnoredCount = 0, np_InvalidCount = 0, np_Shapes = []\<rparr>"

definition wl_start :: wl_state where
  "wl_start =
     \<lparr>wl_info = \<lparr>wk_PodCount = 0, wk_ImageCount = 0, wk_Images = [], wk_Namespaces = []\<rparr>, wl_namespace = [],
      wl_namespaceHash = [], wl_namespacePods = new_namespacePods, wl_containers = [], wl_images = []\<rparr>"

definition close_namespace :: "wl_state \<Rightarrow> wl_state" where
  "close_namespace s =
     (if length (wl_namespace s) \<noteq> 0 then
        s\<lparr>wl_info := (wl_info s)\<lparr>
          wk_Namespaces := map_put (wl_namespaceHash s) (wl_namespacePods s) (wk_Namespaces (wl_info s)),
          wk_PodCount := wk_PodCount (wl_info s) + np_Count (wl_namespacePods s)\<rparr>\<rparr>
      else s)"

definition enter_namespace :: "(bytes \<Rightarrow> bytes) \<Rightarrow> string \<Rightarrow> wl_state \<Rightarrow> wl_state" where
  "enter_namespace sha ns s =
     (if ns \<noteq> wl_namespace s then
        (close_namespace s)\<lparr>wl_namespace := ns, wl_namespaceHash := workloadHashString sha ns,
          wl_namespacePods := new_namespacePods\<rparr>
      else s)"

definition count_pod ::
  "(bytes \<Rightarrow> bytes) \<Rightarrow> (string \<Rightarrow> string result) \<Rightarrow> wl_pod \<Rightarrow> wl_state \<Rightarrow> wl_state" where
  "count_pod sha parse pod s =
     (let np = (wl_namespacePods s)\<lparr>np_Count := np_Count (wl_namespacePods s) + 1\<rparr>
      in if isPodTerminated pod then s\<lparr>wl_namespacePods := np\<lparr>np_TerminalCount := np_TerminalCount np + 1\<rparr>\<rparr>
         else if podCanBeIgnored pod then s\<lparr>wl_namespacePods := np\<lparr>np_IgnoredCount := np_IgnoredCount np + 1\<rparr>\<rparr>
         else case calculatePodShape sha parse pod of
                None \<Rightarrow> s\<lparr>wl_namespacePods := np\<lparr>np_InvalidCount := np_InvalidCount np + 1\<rparr>\<rparr>
              | Some shape \<Rightarrow>
                  (case workloadPodShapeIndex (np_Shapes np) shape of
                     Some i \<Rightarrow>
                       s\<lparr>wl_namespacePods := np\<lparr>np_Shapes := (np_Shapes np)[i := (np_Shapes np ! i)\<lparr>
                         ps_Duplicates := ps_Duplicates (np_Shapes np ! i) + 1\<rparr>]\<rparr>\<rparr>
                   | None \<Rightarrow>
                       s\<lparr>wl_namespacePods := np\<lparr>np_Shapes := np_Shapes np @ [shape]\<rparr>,
                         wl_containers := addPodContainers pod (wl_containers s),
                         wl_images := wl_images s @ map cs_ImageID (ps_InitContainers shape) @ map cs_ImageID (ps_Containers shape)\<rparr>))"

text \<open>The pods of a page: whether the limit was reached, and the state.\<close>

fun scan_pods ::
  "(bytes \<Rightarrow> bytes) \<Rightarrow> (string \<Rightarrow> string result) \<Rightarrow> wl_pod list \<Rightarrow> wl_state \<Rightarrow> bool \<times> wl_state" where
  "scan_pods sha parse [] s = (False, s)"
| "scan_pods sha parse (pod # pods) s =
     (let s = enter_namespace sha (wp_Namespace pod) s
      in if wk_PodCount (wl_info s) \<ge> podsLimit \<or> wk_PodCount (wl_info s) + np_Count (wl_namespacePods s) \<ge> podsLimit
         then (True, s)
         else scan_pods sha parse pods (count_pod sha parse pod s))"

fun scan_pages ::
  "(bytes \<Rightarrow> bytes) \<Rightarrow> (string \<Rightarrow> string result) \<Rightarrow> wl_pod list result list \<Rightarrow> wl_state \<Rightarrow> (bool \<times> wl_state) result" where
  "scan_pages sha parse [] s = Inr (False, s)"
| "scan_pages sha parse (page # pages) s =
     (case page of
        Inl err \<Rightarrow> Inl err
      | Inr pods \<Rightarrow>
          (case scan_pods sha parse pods s of
             (True, s) \<Rightarrow> Inr (True, s)
           | (False, s) \<Rightarrow> scan_pages sha parse pages s))"

definition workloadInfo ::
  "(bytes \<Rightarrow> bytes) \<Rightarrow> (string \<Rightarrow> string result) \<Rightarrow> wl_pod list result list \<Rightarrow>
   (bool \<times> workloadPods \<times> containerIDsByNode \<times> string list) result" where
  "workloadInfo sha parse pages =
     (case scan_pages sha parse pages wl_start of
        Inl err \<Rightarrow> Inl err
      | Inr (limitReached, s) \<Rightarrow>
          Inr (limitReached, wl_info (close_namespace s), wl_containers s, wl_images s))"

section \<open>Images\<close>

definition workloadImage_Empty :: "workloadImage \<Rightarrow> bool" where
  "workloadImage_Empty i = (length (wi_LayerIDs i) = 0)"

definition zero_workloadImage :: workloadImage where
  "zero_workloadImage = \<lparr>wi_LayerIDs = [], wi_FirstCommand = [], wi_FirstArg = [], wi_Repository = []\<rparr>"

text \<open>An image of the API; its metadata are none when they cannot be decoded.\<close>

record image_metadata =
  imd_Entrypoint :: "string list"
  imd_Cmd :: "string list"

record api_image =
  aim_Layers :: "string list"
  aim_Reference :: string
  aim_Metadata :: "image_metadata option"

definition getExternalImageRepo :: "string \<Rightarrow> string" where
  "getExternalImageRepo s = (if contains_str ''redhat'' s then [] else s)"

definition calculateWorkloadInfo :: "(bytes \<Rightarrow> bytes) \<Rightarrow> api_image \<Rightarrow> workloadImage" where
  "calculateWorkloadInfo sha im =
     (let repo = getExternalImageRepo (aim_Reference im);
          info = \<lparr>wi_LayerIDs = aim_Layers im, wi_FirstCommand = [], wi_FirstArg = [],
            wi_Repository = (if repo \<noteq> [] then workloadHashString sha repo else [])\<rparr>
      in case aim_Metadata im of
           None \<Rightarrow> info
         | Some md \<Rightarrow> info\<lparr>wi_FirstCommand := first_hash sha (imd_Entrypoint md), wi_FirstArg := first_hash sha (imd_Cmd md)\<rparr>)"

definition imageFromID :: "(string \<Rightarrow> api_image result) \<Rightarrow> string \<Rightarrow> api_image option" where
  "imageFromID get imageID = (case get imageID of Inl _ \<Rightarrow> None | Inr im \<Rightarrow> Some im)"

text \<open>The cache of the package lru: the entries with the most recently used one first; zero entries means no limit.\<close>

record 'v lru_cache =
  lru_MaxEntries :: int
  lru_entries :: "(string \<times> 'v) list"

definition lru_Get :: "string \<Rightarrow> 'v lru_cache \<Rightarrow> 'v lru_cache \<times> 'v option" where
  "lru_Get k c =
     (case map_of (lru_entries c) k of
        None \<Rightarrow> (c, None)
      | Some v \<Rightarrow> (c\<lparr>lru_entries := (k, v) # filter (\<lambda>e. fst e \<noteq> k) (lru_entries c)\<rparr>, Some v))"

definition lru_Add :: "string \<Rightarrow> 'v \<Rightarrow> 'v lru_cache \<Rightarrow> 'v lru_cache" where
  "lru_Add k v c =
     (let es = (k, v) # filter (\<lambda>e. fst e \<noteq> k) (lru_entries c)
      in if map_of (lru_entries c) k \<noteq> None then c\<lparr>lru_entries := es\<rparr>
         else c\<lparr>lru_entries := (if lru_MaxEntries c \<noteq> 0 \<and> int (length es) > lru_MaxEntries c then butlast es else es)\<rparr>)"

definition workloadImageResize :: "int \<Rightarrow> 'v lru_cache \<Rightarrow> 'v lru_cache" where
  "workloadImageResize estimatedSize c = c\<lparr>lru_MaxEntries := go_quot (estimatedSize * 6) 5\<rparr>"

definition workloadImageGet :: "string \<Rightarrow> workloadImage lru_cache \<Rightarrow> workloadImage lru_cache \<times> workloadImage option" where
  "workloadImageGet imageID c = lru_Get imageID c"

definition workloadImageAdd :: "string \<Rightarrow> workloadImage \<Rightarrow> workloadImage lru_cache \<Rightarrow> workloadImage lru_cache" where
  "workloadImageAdd imageID im c = lru_Add imageID im c"

definition readImageSHAs :: "(string, workloadImage) gomap \<Rightarrow> string list \<Rightarrow> string list" where
  "readImageSHAs images ids = remdups (filter (\<lambda>i. \<not> map_has images i) ids)"

text \<open>Loading a value through a cache: the computed value is stored, the default for a missing one is not.\<close>

definition load_with ::
  "(string \<Rightarrow> 'c \<Rightarrow> 'c \<times> 'v option) \<Rightarrow> (string \<Rightarrow> 'v \<Rightarrow> 'c \<Rightarrow> 'c) \<Rightarrow> (string \<Rightarrow> 'v option) \<Rightarrow> 'v \<Rightarrow> string \<Rightarrow>
   (string, 'v) gomap \<times> 'c \<Rightarrow> (string, 'v) gomap \<times> 'c" where
  "load_with look put compute missing k st =
     (let (m, cache) = st
      in if map_has m k then st
         else case look k cache of
                (cache, Some v) \<Rightarrow> (map_put k v m, cache)
              | (cache, None) \<Rightarrow>
                  (case compute k of
                     None \<Rightarrow> (map_put k missing m, cache)
                   | Some v \<Rightarrow> (map_put k v m, put k v cache)))"

definition load_image ::
  "(bytes \<Rightarrow> bytes) \<Rightarrow> (string \<Rightarrow> api_image result) \<Rightarrow> string \<Rightarrow>
   (string, workloadImage) gomap \<times> workloadImage lru_cache \<Rightarrow> (string, workloadImage) gomap \<times> workloadImage lru_cache" where
  "load_image sha get imageID st =
     load_with workloadImageGet workloadImageAdd (\<lambda>i. map_option (calculateWorkloadInfo sha) (imageFromID get i))
       zero_workloadImage imageID st"

definition load_batch ::
  "(bytes \<Rightarrow> bytes) \<Rightarrow> (string \<Rightarrow> api_image result) \<Rightarrow> string list \<Rightarrow>
   (string, workloadImage) gomap \<times> workloadImage lru_cache \<Rightarrow> (string, workloadImage) gomap \<times> workloadImage lru_cache" where
  "load_batch sha get ids st = fold (load_image sha get) (readImageSHAs (fst st) ids) st"

record workloadImageInfo =
  wii_count :: int
  wii_images :: "(string, workloadImage) gomap"

text \<open>The goroutine on the batches it drains, until the channel is closed or the context ends.\<close>

definition gatherWorkloadImageInfo ::
  "(bytes \<Rightarrow> bytes) \<Rightarrow> (string \<Rightarrow> api_image result) \<Rightarrow> string list list \<Rightarrow> workloadImage lru_cache \<Rightarrow>
   workloadImageInfo \<times> workloadImage lru_cache" where
  "gatherWorkloadImageInfo sha get batches cache =
     (let (images, cache) = fold (load_batch sha get) batches ([], cache)
      in (\<lparr>wii_count = int (length images), wii_images = filter (\<lambda>kv. \<not> workloadImage_Empty (snd kv)) images\<rparr>, cache))"

text \<open>\<open>received\<close> is what the select gets before its timeout: nothing when the timeout comes first.\<close>

definition image_wait :: "int \<Rightarrow> duration" where
  "image_wait podCount = go_quot (Second * podCount) 10 + 15 * Second"

definition handleWorkloadImageInfo :: "workloadImageInfo option \<Rightarrow> workloadPods \<Rightarrow> workloadPods" where
  "handleWorkloadImageInfo received info =
     (case received of
        None \<Rightarrow> info\<lparr>wk_Images := [], wk_ImageCount := 0\<rparr>
      | Some ii \<Rightarrow> info\<lparr>wk_Images := wii_images ii, wk_ImageCount := wii_count ii\<rparr>)"

section \<open>Runtime information\<close>

record podWithNodeName =
  pn_podIP :: string
  pn_nodeName :: string

definition getInsightsOperatorRuntimePodIPs :: "wl_pod list result \<Rightarrow> podWithNodeName list result" where
  "getInsightsOperatorRuntimePodIPs pods =
     (case pods of
        Inl err \<Rightarrow> Inl err
      | Inr items \<Rightarrow>
          let runtimePods = map (\<lambda>p. \<lparr>pn_podIP = wp_PodIP p, pn_nodeName = wp_NodeName p\<rparr>)
                (filter (\<lambda>p. wp_Phase p = PodRunning) items)
          in if length runtimePods = 0
             then Inl (Errorf ''no running pods found for the insights-runtime-extractor statefulset'') else Inr runtimePods)"

type_synonym nodeRuntimeInfo = "(string, (string, (string, workloadRuntimeInfoContainer) gomap) gomap) gomap"

definition zero_runtimeInfo :: workloadRuntimeInfoContainer where
  "zero_runtimeInfo = \<lparr>ri_Os = [], ri_OsVersion = [], ri_Kind = [], ri_KindVersion = [], ri_KindImplementer = [], ri_Runtimes = []\<rparr>"

definition flatten_runtimes :: "nodeRuntimeInfo \<Rightarrow> (containerInfo \<times> workloadRuntimeInfoContainer) list" where
  "flatten_runtimes out =
     concat (map (\<lambda>(ns, pods). concat (map (\<lambda>(pod, cs). map (\<lambda>(i, info).
       (\<lparr>ci_namespace = ns, ci_pod = pod, ci_containerID = i\<rparr>, info)) cs) pods)) out)"

definition mergeWorkloads :: "workloadRuntimes \<Rightarrow> workloadRuntimes \<Rightarrow> workloadRuntimes" where
  "mergeWorkloads global node = fold (\<lambda>(k, v). map_put k v) node global"

text \<open>The environment of the requests to the extractors: the HTTP client, the token, the answers and the decoder.\<close>

record runtime_env =
  rtv_pods :: "wl_pod list result"
  rtv_client :: "go_error option"
  rtv_token :: "bytes result"
  rtv_do :: "http_request \<Rightarrow> http_response result"
  rtv_encode :: "string list \<Rightarrow> bytes"
  rtv_decode :: "bytes \<Rightarrow> nodeRuntimeInfo result"

definition getNodeWorkloadRuntimeInfos ::
  "runtime_env \<Rightarrow> string \<Rightarrow> string \<Rightarrow> string list \<Rightarrow> workloadRuntimes result" where
  "getNodeWorkloadRuntimeInfos e url token containerIDs =
     (case rtv_do e \<lparr>rq_Method = ''POST'', rq_URL = url,
             rq_Header = [(''Content-Type'', ''application/json''), (''Authorization'', ''Bearer '' @ token)],
             rq_Body = Payload (rtv_encode e containerIDs)\<rparr> of
        Inl err \<Rightarrow> Inl err
      | Inr resp \<Rightarrow>
          if rs_StatusCode resp \<noteq> 200
          then Inl (HttpError (''received unexpected status code '' @ rs_Status resp @ '' from '' @ url) (rs_StatusCode resp))
          else case rtv_decode e (rs_Body resp) of
                 Inl err \<Rightarrow> Inl (Errorf (''unable to read parse JSON content from '' @ url @ '': '' @ error_text err))
               | Inr out \<Rightarrow> Inr (mergeWorkloads [] (filter (\<lambda>kv. snd kv \<noteq> zero_runtimeInfo) (flatten_runtimes out))))"

definition join_host_port :: "string \<Rightarrow> string \<Rightarrow> string" where
  "join_host_port host port = (if CHR '':'' \<in> set host then ''['' @ host @ '']:'' @ port else host @ '':'' @ port)"

definition node_result :: "runtime_env \<Rightarrow> containerIDsByNode \<Rightarrow> podWithNodeName \<Rightarrow> workloadRuntimes result option" where
  "node_result e containersByNode pod =
     (let containerIDs = (case map_get containersByNode (pn_nodeName pod) of None \<Rightarrow> [] | Some ids \<Rightarrow> ids)
      in if length containerIDs = 0 then None
         else case rtv_client e of
                Some err \<Rightarrow> None
              | None \<Rightarrow>
                  (case rtv_token e of
                     Inl err \<Rightarrow> None
                   | Inr token \<Rightarrow>
                       Some (getNodeWorkloadRuntimeInfos e
                         (''https://'' @ join_host_port (pn_podIP pod) ''8443'' @ ''/gather_runtime_info'') token containerIDs)))"

definition receive_result ::
  "workloadRuntimes result \<Rightarrow> workloadRuntimes \<times> go_error list \<Rightarrow> workloadRuntimes \<times> go_error list" where
  "receive_result res st =
     (case res of Inl err \<Rightarrow> (fst st, snd st @ [err]) | Inr infos \<Rightarrow> (mergeWorkloads (fst st) infos, snd st))"

text \<open>\<open>arrival\<close> is the order in which the goroutines of the nodes send their results.\<close>

definition gatherWorkloadRuntimeInfos ::
  "(workloadRuntimes result list \<Rightarrow> workloadRuntimes result list) \<Rightarrow> runtime_env \<Rightarrow> containerIDsByNode \<Rightarrow>
   workloadRuntimes \<times> go_error list" where
  "gatherWorkloadRuntimeInfos arrival e containersByNode =
     (case getInsightsOperatorRuntimePodIPs (rtv_pods e) of
        Inl err \<Rightarrow> ([], [err])
      | Inr pods \<Rightarrow> fold receive_result (arrival (List.map_filter (node_result e containersByNode) pods)) ([], []))"

definition merge_container :: "workloadRuntimes \<Rightarrow> workloadContainerShape \<Rightarrow> workloadContainerShape" where
  "merge_container infos c =
     (case map_get infos (cs_runtimeKey c) of Some ri \<Rightarrow> c\<lparr>cs_RuntimeInfo := Some ri\<rparr> | None \<Rightarrow> c)"

definition mergeRuntimeInfoIntoShapes :: "workloadRuntimes \<Rightarrow> workloadPods \<Rightarrow> workloadPods" where
  "mergeRuntimeInfoIntoShapes infos info =
     info\<lparr>wk_Namespaces := map (\<lambda>(h, np). (h, np\<lparr>np_Shapes :=
       map (\<lambda>s. s\<lparr>ps_Containers := map (merge_container infos) (ps_Containers s)\<rparr>) (np_Shapes np)\<rparr>)) (wk_Namespaces info)\<rparr>"

section \<open>The gathering function\<close>

text \<open>How the goroutine of the images drains what is sent is the argument \<open>drain\<close>; \<open>timely\<close> says whether it ends in time.\<close>

record workload_env =
  we_clients :: "go_error option"
  we_sha :: "bytes \<Rightarrow> bytes"
  we_parse :: "string \<Rightarrow> string result"
  we_pages :: "wl_pod list result list"
  we_image :: "string \<Rightarrow> api_image result"
  we_drain :: "string list \<Rightarrow> string list list"
  we_timely :: bool
  we_arrival :: "workloadRuntimes result list \<Rightarrow> workloadRuntimes result list"
  we_runtime :: runtime_env
  we_encode :: "workloadPods \<Rightarrow> bytes option result"

definition workload_record :: "workload_env \<Rightarrow> workloadPods \<Rightarrow> Record" where
  "workload_record e info =
     \<lparr>rec_Name = ''config/workload_info'', rec_Captured = 0,
      rec_Item = Some \<lparr>item_Marshal = we_encode e info, item_GetExtension = ''json''\<rparr>, rec_AlwaysStored = False\<rparr>"

definition gatherWorkloadInfo ::
  "workload_env \<Rightarrow> workloadImage lru_cache \<Rightarrow> workloadImage lru_cache \<times> Record list \<times> go_error list" where
  "gatherWorkloadInfo e cache =
     (case workloadInfo (we_sha e) (we_parse e) (we_pages e) of
        Inl err \<Rightarrow> (cache, [], [err])
      | Inr (limitReached, info, containersByNode, imageIDs) \<Rightarrow>
          let (workloadInfos, errs) = gatherWorkloadRuntimeInfos (we_arrival e) (we_runtime e) containersByNode;
              info = mergeRuntimeInfoIntoShapes workloadInfos info;
              cache = workloadImageResize (wk_PodCount info) cache;
              (imageInfo, cache) = gatherWorkloadImageInfo (we_sha e) (we_image e) (we_drain e imageIDs) cache;
              info = handleWorkloadImageInfo (if we_timely e then Some imageInfo else None) info
          in (cache, [workload_record e info],
              errs @ (if limitReached
                then [Errorf (''the '' @ itoa podsLimit @ '' limit for number of pods gathered was reached'')] else [])))"

definition GatherWorkloadInfo ::
  "workload_env \<Rightarrow> workloadImage lru_cache \<Rightarrow> workloadImage lru_cache \<times> Record list \<times> go_error list" where
  "GatherWorkloadInfo e cache =
     (case we_clients e of Some err \<Rightarrow> (cache, [], [err]) | None \<Rightarrow> gatherWorkloadInfo e cache)"

section \<open>Helm charts\<close>

record HelmChartInfo =
  hi_Name :: string
  hi_Version :: string
  hi_Resources :: "(string, int) gomap"

type_synonym HelmChartInfoList = "(string, HelmChartInfo list) gomap"

definition helm_addItem :: "string \<Rightarrow> string \<Rightarrow> string \<times> string \<Rightarrow> HelmChartInfoList \<Rightarrow> HelmChartInfoList" where
  "helm_addItem ns resourceType nv m =
     (let infos = (case map_get m ns of None \<Rightarrow> [] | Some is \<Rightarrow> is)
      in case find (\<lambda>i. (hi_Name (infos ! i), hi_Version (infos ! i)) = nv) [0..<length infos] of
           None \<Rightarrow> map_put ns (infos @ [\<lparr>hi_Name = fst nv, hi_Version = snd nv, hi_Resources = [(resourceType, 1)]\<rparr>]) m
         | Some i \<Rightarrow>
             let h = infos ! i; n = (case map_get (hi_Resources h) resourceType of None \<Rightarrow> 0 | Some n \<Rightarrow> n)
             in map_put ns (infos[i := h\<lparr>hi_Resources := map_put resourceType (n + 1) (hi_Resources h)\<rparr>]) m)"

definition isStringVersion :: "string \<Rightarrow> bool" where
  "isStringVersion version = (version \<in> set [''latest'', ''beta'', ''alpha''])"

definition helmChartNameAndVersion :: "string \<Rightarrow> string \<times> string" where
  "helmChartNameAndVersion chart =
     (let parts = split_on (CHR ''-'') chart
      in if length parts = 1 then (chart, [])
         else
           let name = join_with ''-'' (butlast parts); version = last parts
           in if \<not> contains_str ''.'' version \<and> \<not> isStringVersion version then (name @ ''-'' @ version, []) else (name, version))"

definition createHash :: "(bytes \<Rightarrow> bytes) \<Rightarrow> string \<Rightarrow> string" where
  "createHash sha chartName = hex_encode (sha chartName)"

record helm_item =
  hit_Namespace :: string
  hit_Chart :: string

definition helm_item_step :: "(bytes \<Rightarrow> bytes) \<Rightarrow> string \<Rightarrow> helm_item \<Rightarrow> HelmChartInfoList \<Rightarrow> HelmChartInfoList" where
  "helm_item_step sha resource it m =
     (let nv = helmChartNameAndVersion (hit_Chart it)
      in if fst nv = [] \<and> snd nv = [] then m else helm_addItem (createHash sha (hit_Namespace it)) resource nv m)"

fun helm_resources ::
  "(bytes \<Rightarrow> bytes) \<Rightarrow> (string \<Rightarrow> helm_item list result) \<Rightarrow> string list \<Rightarrow> HelmChartInfoList \<Rightarrow> go_error list \<Rightarrow>
   (HelmChartInfoList \<times> go_error list) option" where
  "helm_resources sha items [] m errs = Some (m, errs)"
| "helm_resources sha items (resource # rs) m errs =
     (case items resource of
        Inl err \<Rightarrow> if isNotFound err then None else helm_resources sha items rs m (errs @ [err])
      | Inr its \<Rightarrow> helm_resources sha items rs (fold (helm_item_step sha resource) its m) errs)"

definition gatherHelmInfo ::
  "(bytes \<Rightarrow> bytes) \<Rightarrow> (HelmChartInfoList \<Rightarrow> bytes option result) \<Rightarrow> (string \<Rightarrow> helm_item list result) \<Rightarrow>
   Record list \<times> go_error list" where
  "gatherHelmInfo sha encode items =
     (case helm_resources sha items [''replicasets'', ''daemonsets'', ''statefulsets'', ''services'', ''deployments''] [] [] of
        None \<Rightarrow> ([], [])
      | Some (m, errs) \<Rightarrow>
          (if length m > 0 then
             [\<lparr>rec_Name = ''config/helmchart_info'', rec_Captured = 0,
               rec_Item = Some \<lparr>item_Marshal = encode m, item_GetExtension = ''json''\<rparr>, rec_AlwaysStored = False\<rparr>]
           else [], errs))"

definition GatherHelmInfo ::
  "go_error option \<Rightarrow> (bytes \<Rightarrow> bytes) \<Rightarrow> (HelmChartInfoList \<Rightarrow> bytes option result) \<Rightarrow> (string \<Rightarrow> helm_item list result) \<Rightarrow>
   Record list \<times> go_error list" where
  "GatherHelmInfo client sha encode items =
     (case client of Some err \<Rightarrow> ([], [err]) | None \<Rightarrow> gatherHelmInfo sha encode items)"

section \<open>The gatherer\<close>

definition workloadsGathererPeriod :: duration where "workloadsGathererPeriod = 12 * Hour"

record workloads_gatherer =
  wg_lastProcessingTime :: time

definition workloads_GetName :: string where "workloads_GetName = ''workloads''"

definition workloads_New :: workloads_gatherer where "workloads_New = \<lparr>wg_lastProcessingTime = 0\<rparr>"

text \<open>The closures run when they are called; \<open>elapsed\<close> are the times they take.\<close>

definition workloads_GetGatheringFunctions ::
  "duration \<times> duration \<Rightarrow> Record list \<times> go_error list \<Rightarrow> Record list \<times> go_error list \<Rightarrow> (string, GatheringClosure) gomap" where
  "workloads_GetGatheringFunctions elapsed workload helm =
     [(''workload_info'', (Returned (fst workload) (snd workload), fst elapsed)),
      (''helmchart_info'', (Returned (fst helm) (snd helm), snd elapsed))]"

definition workloads_ShouldBeProcessedNow :: "time \<Rightarrow> workloads_gatherer \<Rightarrow> bool" where
  "workloads_ShouldBeProcessedNow now g = ShouldBeProcessedNow now (wg_lastProcessingTime g) workloadsGathererPeriod"

definition workloads_UpdateLastProcessingTime :: "time \<Rightarrow> workloads_gatherer \<Rightarrow> workloads_gatherer" where
  "workloads_UpdateLastProcessingTime now g = g\<lparr>wg_lastProcessingTime := now\<rparr>"

section \<open>Every pod is counted once\<close>

definition shape_key :: "workloadPodShape \<Rightarrow> (string \<times> string \<times> string) list \<times> (string \<times> string \<times> string) list" where
  "shape_key s = (map container_key (ps_InitContainers s), map container_key (ps_Containers s))"

lemma workloadContainerShapesEqual_iff: "workloadContainerShapesEqual a b \<longleftrightarrow> map container_key a = map container_key b"
  by (auto simp: workloadContainerShapesEqual_def list_all_iff list_eq_iff_nth_eq [of "map container_key a" "map container_key b"])

lemma workloadPodShapeIndex_None:
  "workloadPodShapeIndex shapes shape = None \<longleftrightarrow> shape_key shape \<notin> shape_key ` set shapes"
proof -
  have "workloadPodShapeIndex shapes shape = None \<longleftrightarrow> (\<forall>i < length shapes. shape_key (shapes ! i) \<noteq> shape_key shape)"
    by (auto simp: workloadPodShapeIndex_def find_None_iff workloadContainerShapesEqual_iff shape_key_def)
  also have "\<dots> \<longleftrightarrow> shape_key shape \<notin> shape_key ` set shapes" by (metis image_iff in_set_conv_nth)
  finally show ?thesis .
qed

lemma calculatePodShape_fresh: "calculatePodShape sha parse pod = Some shape \<Longrightarrow> ps_Duplicates shape = 0"
  by (auto simp: calculatePodShape_def split: option.splits)

lemma workloadPodShapeIndex_Some:
  "workloadPodShapeIndex shapes shape = Some i \<Longrightarrow> i < length shapes"
  by (auto simp: workloadPodShapeIndex_def find_Some_iff rev_nth)

definition counts_ok :: "workloadNamespacePods \<Rightarrow> bool" where
  "counts_ok np =
     (np_Count np = np_TerminalCount np + np_IgnoredCount np + np_InvalidCount np + (\<Sum>s \<leftarrow> np_Shapes np. ps_Duplicates s + 1) \<and>
      distinct (map shape_key (np_Shapes np)))"

lemma counts_ok_new [simp]: "counts_ok new_namespacePods"
  by (simp add: counts_ok_def new_namespacePods_def)

lemma sum_list_update_add:
  fixes f :: "'a \<Rightarrow> int"
  shows "i < length xs \<Longrightarrow> (\<Sum>x \<leftarrow> xs[i := y]. f x) = (\<Sum>x \<leftarrow> xs. f x) - f (xs ! i) + f y"
  by (induction xs arbitrary: i) (auto split: nat.splits)

lemma count_pod_counts:
  assumes "counts_ok (wl_namespacePods s)"
  shows "counts_ok (wl_namespacePods (count_pod sha parse pod s))"
    and "np_Count (wl_namespacePods (count_pod sha parse pod s)) = np_Count (wl_namespacePods s) + 1"
    and "wl_info (count_pod sha parse pod s) = wl_info s" and "wl_namespace (count_pod sha parse pod s) = wl_namespace s"
proof -
  let ?shapes = "np_Shapes (wl_namespacePods s)"
  have dup: "map shape_key (?shapes[i := (?shapes ! i)\<lparr>ps_Duplicates := n\<rparr>]) = map shape_key ?shapes" if "i < length ?shapes" for i n
  proof -
    have "shape_key ((?shapes ! i)\<lparr>ps_Duplicates := n\<rparr>) = map shape_key ?shapes ! i" using that by (simp add: shape_key_def)
    then show ?thesis by (simp only: map_update list_update_id)
  qed
  show "counts_ok (wl_namespacePods (count_pod sha parse pod s))"
  proof (cases "calculatePodShape sha parse pod")
    case None
    with assms show ?thesis by (simp add: count_pod_def counts_ok_def Let_def)
  next
    case (Some shape)
    show ?thesis
    proof (cases "workloadPodShapeIndex ?shapes shape")
      case None
      with Some assms workloadPodShapeIndex_None [of ?shapes shape] calculatePodShape_fresh [OF Some] show ?thesis
        by (simp add: count_pod_def counts_ok_def Let_def)
    next
      case (Some i)
      with \<open>calculatePodShape sha parse pod = Some shape\<close> assms workloadPodShapeIndex_Some [OF Some] dup [of i] show ?thesis
        by (simp add: count_pod_def counts_ok_def sum_list_update_add Let_def)
    qed
  qed
  show "np_Count (wl_namespacePods (count_pod sha parse pod s)) = np_Count (wl_namespacePods s) + 1"
    "wl_info (count_pod sha parse pod s) = wl_info s" "wl_namespace (count_pod sha parse pod s) = wl_namespace s"
    by (simp_all add: count_pod_def Let_def split: option.split)
qed

text \<open>The state of the scan: the accounts of every namespace, and a namespace as soon as a pod was counted.\<close>

definition scan_ok :: "wl_state \<Rightarrow> bool" where
  "scan_ok s =
     (counts_ok (wl_namespacePods s) \<and> (\<forall>(h, np) \<in> set (wk_Namespaces (wl_info s)). counts_ok np) \<and>
      (wl_namespace s = [] \<longrightarrow> np_Count (wl_namespacePods s) = 0) \<and>
      0 \<le> np_Count (wl_namespacePods s) \<and> 0 \<le> wk_PodCount (wl_info s))"

definition scanned :: "wl_state \<Rightarrow> int" where
  "scanned s = wk_PodCount (wl_info s) + np_Count (wl_namespacePods s)"

lemma scan_ok_start [simp]: "scan_ok wl_start" "scanned wl_start = 0"
  by (simp_all add: scan_ok_def scanned_def wl_start_def) (simp_all add: new_namespacePods_def)

lemma close_namespace_ok:
  assumes "scan_ok s"
  shows "\<forall>(h, np) \<in> set (wk_Namespaces (wl_info (close_namespace s))). counts_ok np"
    and "wk_PodCount (wl_info (close_namespace s)) = scanned s"
  using assms set_map_put_subset [of "wl_namespaceHash s" "wl_namespacePods s" "wk_Namespaces (wl_info s)"]
  by (auto simp: scan_ok_def scanned_def close_namespace_def)

lemma enter_namespace_ok:
  assumes "scan_ok s" and "ns \<noteq> []"
  shows "scan_ok (enter_namespace sha ns s)" and "scanned (enter_namespace sha ns s) = scanned s"
    and "wl_namespace (enter_namespace sha ns s) = ns"
  using assms close_namespace_ok [OF assms(1)]
  by (auto simp: enter_namespace_def scan_ok_def scanned_def) (simp_all add: new_namespacePods_def)

lemma count_pod_ok:
  assumes "scan_ok s" and "wl_namespace s \<noteq> []"
  shows "scan_ok (count_pod sha parse pod s)" and "scanned (count_pod sha parse pod s) = scanned s + 1"
  using assms count_pod_counts [of s sha parse pod] by (simp_all add: scan_ok_def scanned_def)

lemma scan_pods_ok:
  assumes "scan_ok s" and "list_all (\<lambda>p. wp_Namespace p \<noteq> []) pods" and "scanned s \<le> podsLimit"
    and "scan_pods sha parse pods s = (lim, s')"
  shows "scan_ok s' \<and> scanned s' = min podsLimit (scanned s + int (length pods)) \<and> lim = (podsLimit < scanned s + int (length pods))"
  using assms
proof (induction pods arbitrary: s)
  case Nil
  then show ?case by simp
next
  case (Cons pod pods)
  let ?s = "enter_namespace sha (wp_Namespace pod) s"
  have n: "wp_Namespace pod \<noteq> []" using Cons.prems(2) by simp
  note e = enter_namespace_ok [OF Cons.prems(1) n, of sha]
  have full: "podsLimit \<le> wk_PodCount (wl_info ?s) \<or> podsLimit \<le> wk_PodCount (wl_info ?s) + np_Count (wl_namespacePods ?s) \<longleftrightarrow>
      podsLimit \<le> scanned s"
    using e(1,2) by (auto simp: scan_ok_def scanned_def)
  show ?case
  proof (cases "podsLimit \<le> scanned s")
    case True
    with Cons.prems full have "lim" "s' = ?s" by (simp_all add: Let_def)
    with True e Cons.prems(3) show ?thesis by simp
  next
    case False
    with Cons.prems(4) full have scan: "scan_pods sha parse pods (count_pod sha parse pod ?s) = (lim, s')" by (simp add: Let_def)
    have c: "scan_ok (count_pod sha parse pod ?s)" "scanned (count_pod sha parse pod ?s) = scanned s + 1"
      using count_pod_ok [OF e(1), of sha parse pod] e(2,3) n by simp_all
    from Cons.IH [OF c(1) _ _ scan] Cons.prems(2) False c(2) show ?thesis by (simp add: ac_simps)
  qed
qed

definition page_pods :: "wl_pod list result list \<Rightarrow> wl_pod list" where
  "page_pods pages = concat (map (\<lambda>p. case p of Inl _ \<Rightarrow> [] | Inr pods \<Rightarrow> pods) pages)"

lemma scan_pages_ok:
  assumes "scan_ok s" and "list_all (\<lambda>p. wp_Namespace p \<noteq> []) (page_pods pages)" and "scanned s \<le> podsLimit"
    and "scan_pages sha parse pages s = Inr (lim, s')"
  shows "scan_ok s' \<and> scanned s' = min podsLimit (scanned s + int (length (page_pods pages))) \<and>
    lim = (podsLimit < scanned s + int (length (page_pods pages)))"
  using assms
proof (induction pages arbitrary: s)
  case Nil
  then show ?case by (simp add: page_pods_def)
next
  case (Cons page pages)
  then obtain pods where page: "page = Inr pods" by (cases page) auto
  obtain l1 s1 where s1: "scan_pods sha parse pods s = (l1, s1)" by fastforce
  have pp: "page_pods (page # pages) = pods @ page_pods pages" by (simp add: page_pods_def page)
  with scan_pods_ok [OF Cons.prems(1) _ Cons.prems(3) s1] Cons.prems(2)
  have k: "scan_ok s1" "scanned s1 = min podsLimit (scanned s + int (length pods))" "l1 = (podsLimit < scanned s + int (length pods))" by simp_all
  show ?case
  proof (cases l1)
    case True
    with Cons.prems(4) page s1 have "lim" "s' = s1" by simp_all
    with k True pp show ?thesis by simp
  next
    case False
    with Cons.prems(4) page s1 have "scan_pages sha parse pages s1 = Inr (lim, s')" by simp
    from Cons.IH [OF k(1) _ _ this] Cons.prems(2) pp k False show ?thesis by (simp add: ac_simps)
  qed
qed

text \<open>
  The accounts of a namespace in full: what a list of pods adds up to, with the pods of every shape, told apart by images, first
  commands and first arguments.
\<close>

definition pod_key ::
  "(bytes \<Rightarrow> bytes) \<Rightarrow> (string \<Rightarrow> string result) \<Rightarrow> wl_pod \<Rightarrow>
   ((string \<times> string \<times> string) list \<times> (string \<times> string \<times> string) list) option" where
  "pod_key sha parse pod =
     (if isPodTerminated pod \<or> podCanBeIgnored pod then None else map_option shape_key (calculatePodShape sha parse pod))"

definition accounts_for ::
  "(bytes \<Rightarrow> bytes) \<Rightarrow> (string \<Rightarrow> string result) \<Rightarrow> wl_pod list \<Rightarrow> workloadNamespacePods \<Rightarrow> bool" where
  "accounts_for sha parse pods np =
     (np_Count np = int (length pods) \<and>
      np_TerminalCount np = int (length (filter isPodTerminated pods)) \<and>
      np_IgnoredCount np = int (length (filter (\<lambda>p. \<not> isPodTerminated p \<and> podCanBeIgnored p) pods)) \<and>
      np_InvalidCount np = int (length (filter (\<lambda>p. \<not> isPodTerminated p \<and> \<not> podCanBeIgnored p \<and>
        calculatePodShape sha parse p = None) pods)) \<and>
      distinct (map shape_key (np_Shapes np)) \<and>
      (\<forall>k. (\<Sum>s \<leftarrow> np_Shapes np. if shape_key s = k then ps_Duplicates s + 1 else 0) =
        int (length (filter (\<lambda>p. pod_key sha parse p = Some k) pods))))"

lemma accounts_for_new [simp]: "accounts_for sha parse [] new_namespacePods"
  by (simp add: accounts_for_def new_namespacePods_def)

lemma workloadPodShapeIndex_key:
  assumes "workloadPodShapeIndex shapes shape = Some i"
  shows "i < length shapes \<and> shape_key (shapes ! i) = shape_key shape"
  using assms
  by (auto simp: workloadPodShapeIndex_def find_Some_iff rev_nth workloadContainerShapesEqual_iff shape_key_def)

lemma count_pod_accounts:
  assumes "accounts_for sha parse pods (wl_namespacePods s)"
  shows "accounts_for sha parse (pods @ [pod]) (wl_namespacePods (count_pod sha parse pod s))"
proof -
  let ?shapes = "np_Shapes (wl_namespacePods s)"
  show ?thesis
  proof (cases "isPodTerminated pod \<or> podCanBeIgnored pod")
    case True
    then have "pod_key sha parse pod = None" by (simp add: pod_key_def)
    with True assms show ?thesis by (cases "isPodTerminated pod") (simp_all add: count_pod_def accounts_for_def Let_def)
  next
    case False
    then have key: "pod_key sha parse pod = map_option shape_key (calculatePodShape sha parse pod)" by (simp add: pod_key_def)
    show ?thesis
    proof (cases "calculatePodShape sha parse pod")
      case None
      with False key assms show ?thesis by (simp add: count_pod_def accounts_for_def Let_def)
    next
      case shape: (Some shape)
      show ?thesis
      proof (cases "workloadPodShapeIndex ?shapes shape")
        case None
        with shape False key assms workloadPodShapeIndex_None [of ?shapes shape] calculatePodShape_fresh [OF shape] show ?thesis
          by (simp add: count_pod_def accounts_for_def Let_def)
      next
        case (Some i)
        note i = workloadPodShapeIndex_key [OF Some]
        let ?new = "(?shapes ! i)\<lparr>ps_Duplicates := ps_Duplicates (?shapes ! i) + 1\<rparr>"
        have same: "shape_key ?new = shape_key (?shapes ! i)" by (simp add: shape_key_def)
        then have keys: "map shape_key (?shapes[i := ?new]) = map shape_key ?shapes"
          using i by (simp add: map_update) (metis list_update_id nth_map)
        have "(\<Sum>s \<leftarrow> ?shapes[i := ?new]. if shape_key s = k then ps_Duplicates s + 1 else 0) =
            (\<Sum>s \<leftarrow> ?shapes. if shape_key s = k then ps_Duplicates s + 1 else 0) + (if shape_key shape = k then 1 else 0)" for k
          using i same by (simp add: sum_list_update_add)
        with Some shape False key assms keys show ?thesis by (simp add: count_pod_def accounts_for_def Let_def)
      qed
    qed
  qed
qed

text \<open>
  The state after the pods \<open>pods\<close> were counted, with the names \<open>closed\<close> of the namespaces left behind: these are accounted for in the
  result, the current namespace in the running counts.
\<close>

definition of_namespace :: "string \<Rightarrow> wl_pod list \<Rightarrow> wl_pod list" where
  "of_namespace ns pods = filter (\<lambda>p. wp_Namespace p = ns) pods"

definition counted :: "(bytes \<Rightarrow> bytes) \<Rightarrow> (string \<Rightarrow> string result) \<Rightarrow> string set \<Rightarrow> wl_pod list \<Rightarrow> wl_state \<Rightarrow> bool" where
  "counted sha parse closed pods s =
     (wp_Namespace ` set pods \<subseteq> insert (wl_namespace s) closed \<and> wl_namespace s \<notin> closed \<and> [] \<notin> wp_Namespace ` set pods \<and>
      (wl_namespace s = [] \<longrightarrow> closed = {}) \<and>
      (wl_namespace s \<noteq> [] \<longrightarrow> wl_namespaceHash s = workloadHashString sha (wl_namespace s)) \<and>
      accounts_for sha parse (of_namespace (wl_namespace s) pods) (wl_namespacePods s) \<and>
      distinct (map fst (wk_Namespaces (wl_info s))) \<and>
      fst ` set (wk_Namespaces (wl_info s)) = workloadHashString sha ` closed \<and>
      (\<forall>n \<in> closed. \<exists>np. map_get (wk_Namespaces (wl_info s)) (workloadHashString sha n) = Some np \<and>
         accounts_for sha parse (of_namespace n pods) np) \<and>
      (\<Sum>(h, np) \<leftarrow> wk_Namespaces (wl_info s). np_Count np) = wk_PodCount (wl_info s))"

lemma counted_start: "counted sha parse {} [] wl_start"
  by (simp add: counted_def wl_start_def of_namespace_def)

lemma fst_map_put: "fst ` set (map_put k v m) = insert k (fst ` set m)"
  by (induction m) auto

lemma close_counted:
  assumes "counted sha parse closed pods s" and "wl_namespace s \<noteq> []"
    and "inj_on (workloadHashString sha) (insert (wl_namespace s) closed)"
  defines "info \<equiv> wl_info (close_namespace s)"
  shows "distinct (map fst (wk_Namespaces info)) \<and>
    fst ` set (wk_Namespaces info) = workloadHashString sha ` insert (wl_namespace s) closed \<and>
    (\<forall>n \<in> insert (wl_namespace s) closed. \<exists>np. map_get (wk_Namespaces info) (workloadHashString sha n) = Some np \<and>
       accounts_for sha parse (of_namespace n pods) np) \<and>
    (\<Sum>(h, np) \<leftarrow> wk_Namespaces info. np_Count np) = wk_PodCount info"
proof -
  let ?m = "wk_Namespaces (wl_info s)" and ?h = "workloadHashString sha (wl_namespace s)"
  note c = assms(1) [unfolded counted_def]
  have info: "wk_Namespaces info = map_put ?h (wl_namespacePods s) ?m"
    "wk_PodCount info = wk_PodCount (wl_info s) + np_Count (wl_namespacePods s)"
    using assms(2) c by (simp_all add: info_def close_namespace_def)
  have fresh: "?h \<notin> workloadHashString sha ` closed"
  proof
    assume "?h \<in> workloadHashString sha ` closed"
    then obtain n where "n \<in> closed" "?h = workloadHashString sha n" by blast
    with inj_onD [OF assms(3), of "wl_namespace s" n] c show False by auto
  qed
  with c have none: "map_get ?m ?h = None" by (metis map_of_eq_None_iff)
  have sum: "(\<Sum>(h, np) \<leftarrow> map_put ?h (wl_namespacePods s) ?m. np_Count np) =
      (\<Sum>(h, np) \<leftarrow> ?m. np_Count np) + np_Count (wl_namespacePods s)"
    using sum_list_map_put [of ?m np_Count ?h "wl_namespacePods s"] c none by (simp add: case_prod_beta)
  have other: "workloadHashString sha n \<noteq> ?h" if "n \<in> closed" for n using fresh that by (metis imageI)
  show ?thesis unfolding info using c sum other by (auto simp: distinct_map_put fst_map_put)
qed

lemma enter_counted:
  assumes "counted sha parse closed pods s" and "ns \<noteq> []" and "ns \<notin> closed"
    and "inj_on (workloadHashString sha) (insert (wl_namespace s) closed)"
  defines "closed' \<equiv> (if ns = wl_namespace s \<or> wl_namespace s = [] then closed else insert (wl_namespace s) closed)"
  shows "counted sha parse closed' pods (enter_namespace sha ns s)"
proof (cases "ns = wl_namespace s")
  case True
  with assms(1) show ?thesis by (simp add: enter_namespace_def closed'_def)
next
  case False
  have out: "ns \<notin> wp_Namespace ` set pods" using assms(1,3) False by (auto simp: counted_def)
  then have none: "of_namespace ns pods = []" by (auto simp: of_namespace_def filter_empty_conv)
  show ?thesis
  proof (cases "wl_namespace s = []")
    case True
    with assms(1) have "pods = []" by (cases pods) (auto simp: counted_def)
    with True assms(1-3) none False show ?thesis
      by (auto simp: enter_namespace_def close_namespace_def counted_def closed'_def of_namespace_def)
  next
    case current: False
    from close_counted [OF assms(1) current assms(4)] assms(1-3) none False current show ?thesis
      by (auto simp: enter_namespace_def counted_def closed'_def)
  qed
qed

lemma count_pod_counted:
  assumes "counted sha parse closed pods s" and "wp_Namespace pod = wl_namespace s" and "wp_Namespace pod \<noteq> []"
  shows "counted sha parse closed (pods @ [pod]) (count_pod sha parse pod s)"
proof -
  have k: "wl_info (count_pod sha parse pod s) = wl_info s" "wl_namespace (count_pod sha parse pod s) = wl_namespace s"
    "wl_namespaceHash (count_pod sha parse pod s) = wl_namespaceHash s"
    by (simp_all add: count_pod_def Let_def split: option.split)
  have here: "of_namespace (wl_namespace s) (pods @ [pod]) = of_namespace (wl_namespace s) pods @ [pod]"
    using assms(2) by (simp add: of_namespace_def)
  have there: "of_namespace n (pods @ [pod]) = of_namespace n pods" if "n \<in> closed" for n
    using that assms(1,2) by (auto simp: of_namespace_def counted_def)
  from assms count_pod_accounts [of sha parse "of_namespace (wl_namespace s) pods" s pod] show ?thesis
    unfolding counted_def k here using there by auto
qed

lemma remdups_adj_next:
  assumes "distinct (remdups_adj (x # y # zs))"
  shows "distinct (remdups_adj (y # zs)) \<and> (y \<noteq> x \<longrightarrow> x \<notin> set (y # zs))"
  using assms remdups_adj_set [of "y # zs"] by (cases "x = y") (simp_all del: remdups_adj_set)

lemma scan_pods_counted:
  assumes "counted sha parse closed pods0 s" and "scan_ok s" and "scanned s = int (length pods0)" and "scanned s \<le> podsLimit"
    and "distinct (remdups_adj (wl_namespace s # map wp_Namespace pods))" and "wp_Namespace ` set pods \<inter> closed = {}"
    and "[] \<notin> wp_Namespace ` set pods" and "closed \<union> wp_Namespace ` set pods \<subseteq> A" and "wl_namespace s \<in> insert [] A"
    and "scan_pods sha parse pods s = (lim, s')" and "inj_on (workloadHashString sha) A"
  shows "\<exists>closed'. counted sha parse closed' (pods0 @ take (nat (podsLimit - scanned s)) pods) s' \<and>
    closed' \<subseteq> A \<and> wl_namespace s' \<in> insert [] A"
  using assms(1-10)
proof (induction pods arbitrary: closed pods0 s)
  case Nil
  then show ?case by auto
next
  case (Cons pod pods)
  let ?ns = "wp_Namespace pod"
  let ?s = "enter_namespace sha ?ns s"
  let ?closed = "if ?ns = wl_namespace s \<or> wl_namespace s = [] then closed else insert (wl_namespace s) closed"
  have ne: "?ns \<noteq> []" using Cons.prems(7) by auto
  note e = enter_namespace_ok [OF Cons.prems(2) ne, of sha]
  have "inj_on (workloadHashString sha) (insert (wl_namespace s) closed)"
  proof (cases "wl_namespace s = []")
    case True
    with Cons.prems(1) show ?thesis by (simp add: counted_def)
  next
    case False
    with Cons.prems(8,9) show ?thesis by (intro inj_on_subset [OF assms(11)]) auto
  qed
  moreover have "?ns \<notin> closed" using Cons.prems(6) by auto
  ultimately have c: "counted sha parse ?closed pods0 ?s" using enter_counted [OF Cons.prems(1) ne] by blast
  from remdups_adj_next [of "wl_namespace s" ?ns "map wp_Namespace pods"] Cons.prems(5)
  have next_ns: "distinct (remdups_adj (?ns # map wp_Namespace pods))" "?ns \<noteq> wl_namespace s \<longrightarrow> wl_namespace s \<notin> wp_Namespace ` set pods"
    by auto
  have sub: "?closed \<subseteq> A" "?ns \<in> A" using Cons.prems(8,9) by auto
  have full: "podsLimit \<le> wk_PodCount (wl_info ?s) \<or> podsLimit \<le> wk_PodCount (wl_info ?s) + np_Count (wl_namespacePods ?s) \<longleftrightarrow>
      podsLimit \<le> scanned s"
    using e(1,2) by (auto simp: scan_ok_def scanned_def)
  show ?case
  proof (cases "podsLimit \<le> scanned s")
    case True
    with Cons.prems(10) full have "s' = ?s" by (simp add: Let_def)
    with True c sub e(3) show ?thesis by (intro exI [of _ ?closed]) simp
  next
    case False
    let ?t = "count_pod sha parse pod ?s"
    from False Cons.prems(10) full have scan: "scan_pods sha parse pods ?t = (lim, s')" by (simp add: Let_def)
    have t: "scan_ok ?t" "scanned ?t = scanned s + 1" "wl_namespace ?t = ?ns"
      using count_pod_ok [OF e(1), of sha parse pod] e(2,3) ne count_pod_counts(4) [of ?s sha parse pod] e(1)
      by (simp_all add: scan_ok_def)
    have ct: "counted sha parse ?closed (pods0 @ [pod]) ?t" using count_pod_counted [OF c] e(3) ne by simp
    have "scanned ?t = int (length (pods0 @ [pod]))" "scanned ?t \<le> podsLimit" using t(2) Cons.prems(3) False by simp_all
    moreover have "distinct (remdups_adj (wl_namespace ?t # map wp_Namespace pods))" using next_ns(1) t(3) by simp
    moreover have "wp_Namespace ` set pods \<inter> ?closed = {}" using Cons.prems(6) next_ns(2) by auto
    moreover have "[] \<notin> wp_Namespace ` set pods" "?closed \<union> wp_Namespace ` set pods \<subseteq> A" using Cons.prems(7,8) sub by auto
    moreover have "wl_namespace ?t \<in> insert [] A" using t(3) sub(2) by simp
    ultimately have "\<exists>closed'. counted sha parse closed' ((pods0 @ [pod]) @ take (nat (podsLimit - scanned ?t)) pods) s' \<and>
        closed' \<subseteq> A \<and> wl_namespace s' \<in> insert [] A"
      using Cons.IH [OF ct t(1) _ _ _ _ _ _ _ scan] by blast
    moreover have "nat (podsLimit - scanned s) = Suc (nat (podsLimit - scanned ?t))" using False t(2) by simp
    ultimately show ?thesis by simp
  qed
qed

lemma scan_pods_append:
  "scan_pods sha parse (pods @ pods2) s =
    (case scan_pods sha parse pods s of (True, s) \<Rightarrow> (True, s) | (False, s) \<Rightarrow> scan_pods sha parse pods2 s)"
  by (induction pods arbitrary: s) (simp_all add: Let_def)

lemma scan_pages_pods:
  "scan_pages sha parse pages s = Inr (lim, s') \<Longrightarrow> scan_pods sha parse (page_pods pages) s = (lim, s')"
proof (induction pages arbitrary: s)
  case Nil
  then show ?case by (simp add: page_pods_def)
next
  case (Cons page pages)
  then obtain pods where page: "page = Inr pods" by (cases page) auto
  have "page_pods (page # pages) = pods @ page_pods pages" by (simp add: page_pods_def page)
  with Cons page show ?case by (auto simp: scan_pods_append split: prod.splits bool.splits)
qed

text \<open>
  C29: Every pod is counted exactly once.  When the pods could be listed, the number of pods is the number of listed pods
  or the limit, and the limit is reported exactly when there are more; in every recorded namespace the number of pods
  is the number of terminated, ignored and invalid ones and of those of the shapes, and the shapes are pairwise different.
  When the listing has the pods of a namespace together and the hashes tell the namespaces apart, the counts of the namespaces add
  up to the number of pods, and every namespace with a scanned pod is recorded under its hash, with as many terminated, ignored
  and invalid pods, and as many pods of every shape, as were scanned of it.
\<close>

theorem workload_accounting:
  assumes "workloadInfo sha parse pages = Inr (limitReached, info, containers, imgs)"
    and "list_all (\<lambda>p. wp_Namespace p \<noteq> []) (page_pods pages)"
  shows "wk_PodCount info = min podsLimit (int (length (page_pods pages))) \<and>
    limitReached = (podsLimit < int (length (page_pods pages))) \<and>
    (\<forall>(h, np) \<in> set (wk_Namespaces info).
       np_Count np = np_TerminalCount np + np_IgnoredCount np + np_InvalidCount np + (\<Sum>s \<leftarrow> np_Shapes np. ps_Duplicates s + 1) \<and>
       distinct (map shape_key (np_Shapes np))) \<and>
    (distinct (remdups_adj (map wp_Namespace (page_pods pages))) \<and>
       inj_on (workloadHashString sha) (wp_Namespace ` set (page_pods pages)) \<longrightarrow>
     (\<Sum>(h, np) \<leftarrow> wk_Namespaces info. np_Count np) = wk_PodCount info \<and>
     (\<forall>pod \<in> set (take (nat podsLimit) (page_pods pages)).
        \<exists>np. map_get (wk_Namespaces info) (workloadHashString sha (wp_Namespace pod)) = Some np \<and>
          accounts_for sha parse (of_namespace (wp_Namespace pod) (take (nat podsLimit) (page_pods pages))) np))"
proof -
  let ?pods = "page_pods pages"
  let ?done = "take (nat podsLimit) ?pods"
  from assms(1) obtain s where s: "scan_pages sha parse pages wl_start = Inr (limitReached, s)" "info = wl_info (close_namespace s)"
    by (auto simp: workloadInfo_def split: sum.splits)
  have lim: "scanned wl_start \<le> podsLimit" by (simp add: podsLimit_def)
  from scan_pages_ok [OF _ assms(2) lim s(1)] have ok: "scan_ok s" "scanned s = min podsLimit (int (length ?pods))"
    "limitReached = (podsLimit < int (length ?pods))" by simp_all
  have accounts: "(\<Sum>(h, np) \<leftarrow> wk_Namespaces info. np_Count np) = wk_PodCount info \<and>
     (\<forall>pod \<in> set ?done. \<exists>np. map_get (wk_Namespaces info) (workloadHashString sha (wp_Namespace pod)) = Some np \<and>
        accounts_for sha parse (of_namespace (wp_Namespace pod) ?done) np)"
    if grouped: "distinct (remdups_adj (map wp_Namespace ?pods))" and inj: "inj_on (workloadHashString sha) (wp_Namespace ` set ?pods)"
  proof -
    let ?A = "wp_Namespace ` set ?pods"
    have named: "[] \<notin> ?A" using assms(2) by (auto simp: list_all_iff)
    have adj: "distinct (remdups_adj (wl_namespace wl_start # map wp_Namespace ?pods))"
      using grouped named by (cases ?pods) (auto simp: wl_start_def)
    have "\<exists>closed. counted sha parse closed ([] @ take (nat (podsLimit - scanned wl_start)) ?pods) s \<and>
        closed \<subseteq> ?A \<and> wl_namespace s \<in> insert [] ?A"
      by (rule scan_pods_counted [OF counted_start _ _ lim adj _ named _ _ scan_pages_pods [OF s(1)] inj])
        (simp_all, simp add: wl_start_def)
    then obtain closed where c: "counted sha parse closed ?done s" "closed \<subseteq> ?A" "wl_namespace s \<in> insert [] ?A" by auto
    show ?thesis
    proof (cases "wl_namespace s = []")
      case True
      with c(1) have "set ?done = {}" by (cases ?done) (auto simp: counted_def)
      with c(1) True s(2) show ?thesis by (auto simp: counted_def close_namespace_def)
    next
      case False
      have "inj_on (workloadHashString sha) (insert (wl_namespace s) closed)"
        using c(2,3) False by (intro inj_on_subset [OF inj]) auto
      note closed = close_counted [OF c(1) False this, folded s(2)]
      have "wp_Namespace pod \<in> insert (wl_namespace s) closed" if "pod \<in> set ?done" for pod
        using c(1) that unfolding counted_def by blast
      with closed show ?thesis by blast
    qed
  qed
  from ok close_namespace_ok [of s] s(2) have
    "wk_PodCount info = min podsLimit (int (length ?pods))" "limitReached = (podsLimit < int (length ?pods))"
    "\<forall>(h, np) \<in> set (wk_Namespaces info).
       np_Count np = np_TerminalCount np + np_IgnoredCount np + np_InvalidCount np + (\<Sum>s \<leftarrow> np_Shapes np. ps_Duplicates s + 1) \<and>
       distinct (map shape_key (np_Shapes np))"
    by (auto simp: counts_ok_def)
  with accounts show ?thesis by blast
qed

definition example_pod :: "string \<Rightarrow> string \<Rightarrow> wl_pod" where
  "example_pod name phase =
     \<lparr>wp_Namespace = ''ns'', wp_Name = name, wp_Phase = phase, wp_NodeName = ''n1'', wp_PodIP = ''10.0.0.1'',
      wp_RestartPolicy = ''Always'', wp_InitContainers = [],
      wp_Containers = [\<lparr>wc_Name = ''c'', wc_Image = ''im'', wc_Command = [''/bin/sh''], wc_Args = []\<rparr>], wp_InitContainerStatuses = [],
      wp_ContainerStatuses = [\<lparr>ws_Name = ''c'', ws_ImageID = ''docker-pullable://im'', ws_ContainerID = ''cri-o://1'', ws_Terminated = False\<rparr>]\<rparr>"

definition example_scan :: "(bool \<times> workloadPods \<times> containerIDsByNode \<times> string list) result" where
  "example_scan = workloadInfo (\<lambda>s. take 32 (s @ replicate 32 (CHR 0x00))) Inr
     [Inr [example_pod ''a'' ''Running'', example_pod ''b'' ''Failed''], Inr [example_pod ''c'' ''Running'']]"

theorem workload_accounting_witness:
  "\<exists>lim info cs imgs np. example_scan = Inr (lim, info, cs, imgs) \<and> wk_PodCount info = 3 \<and> \<not> lim \<and>
    map_get (wk_Namespaces info) (workloadHashString (\<lambda>s. take 32 (s @ replicate 32 (CHR 0x00))) ''ns'') = Some np \<and>
    np_Count np = 3 \<and> np_TerminalCount np = 1"
proof -
  let ?sha = "\<lambda>s :: string. take 32 (s @ replicate 32 (CHR 0x00))"
  have "(case example_scan of Inl _ \<Rightarrow> False | Inr _ \<Rightarrow> True)" by code_simp
  then obtain lim info cs imgs where e: "example_scan = Inr (lim, info, cs, imgs)" by (auto split: sum.splits)
  let ?pages = "[Inr [example_pod ''a'' ''Running'', example_pod ''b'' ''Failed''], Inr [example_pod ''c'' ''Running'']]"
  let ?pods = "[example_pod ''a'' ''Running'', example_pod ''b'' ''Failed'', example_pod ''c'' ''Running'']"
  have pods: "page_pods ?pages = ?pods" by (simp add: page_pods_def)
  have ns: "wp_Namespace (example_pod x y) = ''ns''" "isPodTerminated (example_pod x y) = (y = ''Succeeded'' \<or> y = ''Failed'')" for x y
    by (simp_all add: example_pod_def isPodTerminated_def)
  have "list_all (\<lambda>p. wp_Namespace p \<noteq> []) (page_pods ?pages)" unfolding pods by (simp add: ns)
  note a = workload_accounting [OF e [unfolded example_scan_def] this, unfolded pods]
  have count: "wk_PodCount info = 3" using conjunct1 [OF a] by (simp add: podsLimit_def)
  have lim: "\<not> lim" using conjunct1 [OF conjunct2 [OF a]] by (simp add: podsLimit_def)
  have grouped: "distinct (remdups_adj (map wp_Namespace ?pods)) \<and> inj_on (workloadHashString ?sha) (wp_Namespace ` set ?pods)"
    by (simp add: ns)
  have all: "take (nat podsLimit) ?pods = ?pods" by (simp add: podsLimit_def)
  from a [THEN conjunct2, THEN conjunct2, THEN conjunct2, THEN mp, OF grouped, THEN conjunct2, unfolded all]
  obtain np where np: "map_get (wk_Namespaces info) (workloadHashString ?sha ''ns'') = Some np"
    "accounts_for ?sha Inr (of_namespace ''ns'' ?pods) np" by (auto simp: ns)
  then have "np_Count np = 3 \<and> np_TerminalCount np = 1" by (simp add: accounts_for_def of_namespace_def ns)
  with e count lim np(1) show ?thesis by blast
qed

section \<open>The cache of images\<close>

text \<open>
  What a cache promises: what is found was put there, and nothing else appears.  Then a property that all
  computed values have is a property of all loaded values, and of the values that stay in the cache.
\<close>

locale value_cache =
  fixes look :: "string \<Rightarrow> 'c \<Rightarrow> 'c \<times> 'v option"
    and put :: "string \<Rightarrow> 'v \<Rightarrow> 'c \<Rightarrow> 'c"
    and holds :: "'c \<Rightarrow> string \<Rightarrow> 'v \<Rightarrow> bool"
  assumes look_found: "look k c = (c', Some v) \<Longrightarrow> holds c k v"
    and look_keeps: "look k c = (c', r) \<Longrightarrow> holds c' k' v \<Longrightarrow> holds c k' v"
    and put_holds: "holds (put k v c) k' v' \<Longrightarrow> k' = k \<and> v' = v \<or> holds c k' v'"
begin

definition loaded_ok :: "(string \<Rightarrow> 'v \<Rightarrow> bool) \<Rightarrow> 'v \<Rightarrow> (string, 'v) gomap \<times> 'c \<Rightarrow> bool" where
  "loaded_ok P missing st \<longleftrightarrow>
     (\<forall>k v. map_get (fst st) k = Some v \<longrightarrow> v = missing \<or> P k v) \<and> (\<forall>k v. holds (snd st) k v \<longrightarrow> P k v)"

lemma load_with_ok:
  assumes "loaded_ok P missing st" and "\<And>k v. compute k = Some v \<Longrightarrow> P k v"
  shows "loaded_ok P missing (load_with look put compute missing k st)"
proof -
  obtain m c where st: "st = (m, c)" by fastforce
  obtain c' r where l: "look k c = (c', r)" by fastforce
  show ?thesis
  proof (cases "map_has m k")
    case True
    with st assms(1) show ?thesis by (simp add: load_with_def)
  next
    case False
    show ?thesis
    proof (cases r)
      case (Some v)
      with False st l assms(1) look_found [of k c c' v] look_keeps [OF l] show ?thesis
        by (auto simp: load_with_def loaded_ok_def)
    next
      case None
      show ?thesis
      proof (cases "compute k")
        case None
        with \<open>r = None\<close> False st l assms(1) look_keeps [OF l] show ?thesis by (auto simp: load_with_def loaded_ok_def)
      next
        case (Some v)
        with \<open>r = None\<close> False st l assms look_keeps [OF l] put_holds [of k v c'] show ?thesis
          by (fastforce simp: load_with_def loaded_ok_def)
      qed
    qed
  qed
qed

lemma load_all_ok:
  assumes "loaded_ok P missing st" and "\<And>k v. compute k = Some v \<Longrightarrow> P k v"
  shows "loaded_ok P missing (fold (load_with look put compute missing) ks st)"
  using assms(1) by (induction ks arbitrary: st) (simp_all add: load_with_ok assms(2))

end

definition lru_holds :: "'v lru_cache \<Rightarrow> string \<Rightarrow> 'v \<Rightarrow> bool" where
  "lru_holds c k v = ((k, v) \<in> set (lru_entries c))"

interpretation images: value_cache workloadImageGet workloadImageAdd lru_holds
proof
  show "lru_holds c k v" if "workloadImageGet k c = (c', Some v)" for k c c' v
    using that by (auto simp: workloadImageGet_def lru_Get_def lru_holds_def dest: map_of_SomeD split: option.splits)
  show "lru_holds c k' v" if "workloadImageGet k c = (c', r)" "lru_holds c' k' v" for k c c' r k' v
    using that
    by (auto simp: workloadImageGet_def lru_Get_def lru_holds_def dest: map_of_SomeD map_of_SomeD [OF sym] split: option.splits)
  show "k' = k \<and> v' = v \<or> lru_holds c k' v'" if "lru_holds (workloadImageAdd k v c) k' v'" for k v c k' v'
    using that by (auto simp: workloadImageAdd_def lru_Add_def lru_holds_def Let_def dest!: in_set_butlastD split: if_splits)
qed

lemma load_batch_eq:
  "load_batch sha get ids st = fold (load_with workloadImageGet workloadImageAdd
     (\<lambda>i. map_option (calculateWorkloadInfo sha) (imageFromID get i)) zero_workloadImage) (readImageSHAs (fst st) ids) st"
  by (simp add: load_batch_def load_image_def [abs_def])

lemma load_with_keys:
  assumes "distinct (map fst (fst st))"
  shows "distinct (map fst (fst (load_with look put compute missing k st)))"
    and "fst ` set (fst (load_with look put compute missing k st)) = insert k (fst ` set (fst st))"
proof -
  obtain m c where st: "st = (m, c)" by fastforce
  obtain c' r where l: "look k c = (c', r)" by fastforce
  have "distinct (map fst (fst (load_with look put compute missing k st))) \<and>
    fst ` set (fst (load_with look put compute missing k st)) = insert k (fst ` set (fst st))"
  proof (cases "map_has m k")
    case True
    then have "k \<in> fst ` set m" by (force simp: map_has_def dest: map_of_SomeD)
    with True st assms show ?thesis by (simp add: load_with_def insert_absorb)
  next
    case False
    with st l assms show ?thesis
      by (cases r; cases "compute k") (simp_all add: load_with_def distinct_map_put AList.dom_update)
  qed
  then show "distinct (map fst (fst (load_with look put compute missing k st)))"
    "fst ` set (fst (load_with look put compute missing k st)) = insert k (fst ` set (fst st))" by blast+
qed

lemma load_all_keys:
  "distinct (map fst (fst st)) \<Longrightarrow> distinct (map fst (fst (fold (load_with look put compute missing) ks st))) \<and>
   fst ` set (fst (fold (load_with look put compute missing) ks st)) = set ks \<union> fst ` set (fst st)"
  by (induction ks arbitrary: st) (auto simp: load_with_keys)

lemma readImageSHAs_keys: "set (readImageSHAs m ids) \<union> fst ` set m = set ids \<union> fst ` set m"
proof -
  have "i \<in> fst ` set m" if "map_has m i" for i using that by (force simp: map_has_def dest: map_of_SomeD)
  then show ?thesis by (auto simp: readImageSHAs_def)
qed

lemma load_batches:
  assumes "distinct (map fst (fst st))"
  shows "distinct (map fst (fst (fold (load_batch sha get) batches st))) \<and>
    fst ` set (fst (fold (load_batch sha get) batches st)) = set (concat batches) \<union> fst ` set (fst st)"
  using assms
proof (induction batches arbitrary: st)
  case (Cons ids batches)
  let ?st = "load_batch sha get ids st"
  have "distinct (map fst (fst ?st))" "fst ` set (fst ?st) = set ids \<union> fst ` set (fst st)"
    using load_all_keys [OF Cons.prems, of workloadImageGet workloadImageAdd] readImageSHAs_keys [of "fst st" ids]
    by (simp_all add: load_batch_eq)
  with Cons.IH [of ?st] show ?case by auto
qed simp

lemma load_batches_ok:
  assumes "images.loaded_ok P zero_workloadImage st" and "\<And>k im. get k = Inr im \<Longrightarrow> P k (calculateWorkloadInfo sha im)"
  shows "images.loaded_ok P zero_workloadImage (fold (load_batch sha get) batches st)"
  using assms(1)
proof (induction batches arbitrary: st)
  case (Cons ids batches)
  have "images.loaded_ok P zero_workloadImage (load_batch sha get ids st)"
    unfolding load_batch_eq
    by (rule images.load_all_ok [OF Cons.prems]) (use assms(2) in \<open>auto simp: imageFromID_def split: sum.splits\<close>)
  with Cons.IH show ?case by simp
qed simp

text \<open>
  Images are reported for the containers that use them.  Whatever holds of the information computed from the image that
  the cluster returns for an identifier, and of the cache left by earlier gatherings, holds of every reported
  image under its identifier and of the cache that is left; reported images have layers, and the image count
  is the number of different identifiers that the shapes of the pods sent.
\<close>

lemma images_reported:
  assumes "gatherWorkloadImageInfo sha get batches cache = (ii, cache')"
    and "\<And>k im. get k = Inr im \<Longrightarrow> P k (calculateWorkloadInfo sha im)" and "\<And>k v. lru_holds cache k v \<Longrightarrow> P k v"
  shows "(\<forall>(k, v) \<in> set (wii_images ii). P k v \<and> wi_LayerIDs v \<noteq> [] \<and> k \<in> set (concat batches)) \<and>
    wii_count ii = int (card (set (concat batches))) \<and> (\<forall>k v. lru_holds cache' k v \<longrightarrow> P k v)"
proof -
  let ?st = "fold (load_batch sha get) batches ([], cache)"
  from assms(1) have r: "wii_count ii = int (length (fst ?st))" "cache' = snd ?st"
    "wii_images ii = filter (\<lambda>kv. \<not> workloadImage_Empty (snd kv)) (fst ?st)"
    by (auto simp: gatherWorkloadImageInfo_def split: prod.splits)
  have ok: "images.loaded_ok P zero_workloadImage ?st"
    by (rule load_batches_ok) (use assms(2,3) in \<open>auto simp: images.loaded_ok_def\<close>)
  have k: "distinct (map fst (fst ?st))" "fst ` set (fst ?st) = set (concat batches)"
    using load_batches [of "([], cache)" sha get batches] by simp_all
  have "length (fst ?st) = card (set (concat batches))"
    using distinct_card [OF k(1)] k(2) by simp
  moreover have "P i v \<and> wi_LayerIDs v \<noteq> [] \<and> i \<in> set (concat batches)" if "(i, v) \<in> set (wii_images ii)" for i v
  proof -
    from that r(3) have iv: "(i, v) \<in> set (fst ?st)" "wi_LayerIDs v \<noteq> []" by (auto simp: workloadImage_Empty_def)
    with k(1) have "map_get (fst ?st) i = Some v" by simp
    with ok have "v = zero_workloadImage \<or> P i v" by (simp add: images.loaded_ok_def)
    with iv(2) have "P i v" by (auto simp: zero_workloadImage_def)
    moreover have "i \<in> set (concat batches)" using iv(1) k(2) by force
    ultimately show ?thesis using iv(2) by blast
  qed
  ultimately show ?thesis using r ok by (auto simp: images.loaded_ok_def)
qed

lemma calculateWorkloadInfo_layers: "wi_LayerIDs (calculateWorkloadInfo sha im) = aim_Layers im"
  by (simp add: calculateWorkloadInfo_def Let_def split: option.split)

definition example_images :: "workloadImageInfo \<times> workloadImage lru_cache" where
  "example_images = gatherWorkloadImageInfo id
     (\<lambda>i. if i = ''sha256:1'' then Inr \<lparr>aim_Layers = [''l1''], aim_Reference = ''quay.io/x'', aim_Metadata = None\<rparr> else Inl (NotFoundErr i))
     [[''sha256:1'', ''sha256:2''], [''sha256:1'']] \<lparr>lru_MaxEntries = 500, lru_entries = []\<rparr>"

section \<open>Helm charts\<close>

text \<open>
  Names and versions of charts are split without loss: the name, a dash and the version are the label of the chart,
  or the name alone is when no version was recognised.
\<close>

lemma helm_chart_split:
  "let (name, version) = helmChartNameAndVersion chart in
   chart = (if version = [] then name else name @ ''-'' @ version)"
proof (cases "length (split_on (CHR ''-'') chart) = 1")
  case True
  then show ?thesis by (simp add: helmChartNameAndVersion_def Let_def)
next
  case False
  let ?parts = "split_on (CHR ''-'') chart"
  have ne: "butlast ?parts \<noteq> []" "?parts \<noteq> []" using False split_by_nonempty [of _ chart] by (cases ?parts; force)+
  have "chart = join_with ''-'' (butlast ?parts @ [last ?parts])" using join_split [of "CHR ''-''" chart] ne(2) by simp
  then have c: "chart = join_with ''-'' (butlast ?parts) @ ''-'' @ last ?parts" by (simp only: join_with_snoc [OF ne(1)])
  have "last ?parts = [] \<Longrightarrow> \<not> contains_str ''.'' (last ?parts) \<and> \<not> isStringVersion (last ?parts)"
    by (simp add: isStringVersion_def)
  with False c show ?thesis by (auto simp: helmChartNameAndVersion_def Let_def)
qed

definition helm_key :: "HelmChartInfo \<Rightarrow> string \<times> string" where
  "helm_key h = (hi_Name h, hi_Version h)"

definition helm_count :: "HelmChartInfoList \<Rightarrow> string \<Rightarrow> string \<times> string \<Rightarrow> string \<Rightarrow> int" where
  "helm_count m ns nv resource =
     (case map_get m ns of
        None \<Rightarrow> 0
      | Some infos \<Rightarrow>
          (case find (\<lambda>h. helm_key h = nv) infos of
             None \<Rightarrow> 0
           | Some h \<Rightarrow> (case map_get (hi_Resources h) resource of None \<Rightarrow> 0 | Some n \<Rightarrow> n)))"

lemma find_index:
  "find (\<lambda>i. P (xs ! i)) [0..<length xs] = Some i \<Longrightarrow> i < length xs \<and> find P xs = Some (xs ! i) \<and> P (xs ! i) \<and> (\<forall>j < i. \<not> P (xs ! j))"
  by (auto simp: find_Some_iff)

lemma find_index_None: "find (\<lambda>i. P (xs ! i)) [0..<length xs] = None \<longleftrightarrow> find P xs = None"
  by (auto simp: find_None_iff in_set_conv_nth)

lemma find_update_other: "i < length xs \<Longrightarrow> \<not> Q (xs ! i) \<Longrightarrow> \<not> Q y \<Longrightarrow> find Q (xs[i := y]) = find Q xs"
  by (induction xs arbitrary: i) (auto split: nat.splits)

lemma find_update_same: "i < length xs \<Longrightarrow> Q y \<Longrightarrow> (\<forall>j < i. \<not> Q (xs ! j)) \<Longrightarrow> find Q (xs[i := y]) = Some y"
proof (induction xs arbitrary: i)
  case (Cons x xs)
  then show ?case by (cases i) fastforce+
qed simp

lemma find_snoc: "find P (xs @ [x]) = (case find P xs of Some y \<Rightarrow> Some y | None \<Rightarrow> if P x then Some x else None)"
  by (induction xs) auto

lemma helm_addItem_count:
  "helm_count (helm_addItem ns resource nv m) ns' nv' resource' =
    helm_count m ns' nv' resource' + (if ns' = ns \<and> nv' = nv \<and> resource' = resource then 1 else 0)"
proof -
  let ?is = "case map_get m ns of None \<Rightarrow> [] | Some is \<Rightarrow> is"
  have here: "helm_count m ns nv' resource' = (case find (\<lambda>h. helm_key h = nv') ?is of None \<Rightarrow> 0
      | Some h \<Rightarrow> (case map_get (hi_Resources h) resource' of None \<Rightarrow> 0 | Some n \<Rightarrow> n))"
    by (simp add: helm_count_def split: option.split)
  show ?thesis
  proof (cases "find (\<lambda>i. helm_key (?is ! i) = nv) [0..<length ?is]")
    case None
    then have add: "helm_addItem ns resource nv m =
        map_put ns (?is @ [\<lparr>hi_Name = fst nv, hi_Version = snd nv, hi_Resources = [(resource, 1)]\<rparr>]) m"
      by (simp add: helm_addItem_def helm_key_def Let_def)
    from None have no: "find (\<lambda>h. helm_key h = nv) ?is = None" by (rule find_index_None [THEN iffD1])
    show ?thesis
    proof (cases "ns' = ns")
      case True
      show ?thesis
      proof (cases "nv' = nv")
        case True
        with add no here \<open>ns' = ns\<close> show ?thesis by (simp add: helm_count_def find_snoc helm_key_def)
      next
        case False
        have "helm_key \<lparr>hi_Name = fst nv, hi_Version = snd nv, hi_Resources = [(resource, 1)]\<rparr> \<noteq> nv'"
          using False by (simp add: helm_key_def)
        then have "find (\<lambda>h. helm_key h = nv') (?is @ [\<lparr>hi_Name = fst nv, hi_Version = snd nv, hi_Resources = [(resource, 1)]\<rparr>]) =
            find (\<lambda>h. helm_key h = nv') ?is"
          by (simp add: find_snoc split: option.split)
        with add here False \<open>ns' = ns\<close> show ?thesis by (simp add: helm_count_def)
      qed
    qed (simp add: add helm_count_def)
  next
    case (Some i)
    note idx = find_index [OF Some]
    let ?h = "?is ! i"
    let ?n = "case map_get (hi_Resources ?h) resource of None \<Rightarrow> 0 | Some n \<Rightarrow> n"
    let ?h' = "?h\<lparr>hi_Resources := map_put resource (?n + 1) (hi_Resources ?h)\<rparr>"
    from Some have add: "helm_addItem ns resource nv m = map_put ns (?is[i := ?h']) m"
      by (simp add: helm_addItem_def helm_key_def Let_def)
    have k: "helm_key ?h' = helm_key ?h" by (simp add: helm_key_def)
    show ?thesis
    proof (cases "ns' = ns")
      case True
      show ?thesis
      proof (cases "nv' = nv")
        case True
        have "find (\<lambda>h. helm_key h = nv) (?is[i := ?h']) = Some ?h'" by (rule find_update_same) (use idx k in simp_all)
        with add idx here True \<open>ns' = ns\<close> show ?thesis by (simp add: helm_count_def split: option.split)
      next
        case False
        have "find (\<lambda>h. helm_key h = nv') (?is[i := ?h']) = find (\<lambda>h. helm_key h = nv') ?is"
          by (rule find_update_other) (use idx k False in simp_all)
        with add here False \<open>ns' = ns\<close> show ?thesis by (simp add: helm_count_def)
      qed
    qed (simp add: add helm_count_def)
  qed
qed

definition chart_items :: "(bytes \<Rightarrow> bytes) \<Rightarrow> string \<Rightarrow> string \<times> string \<Rightarrow> helm_item list \<Rightarrow> helm_item list" where
  "chart_items sha ns nv its =
     filter (\<lambda>it. createHash sha (hit_Namespace it) = ns \<and> helmChartNameAndVersion (hit_Chart it) = nv) its"

lemma helm_items_count:
  assumes "nv \<noteq> ([], [])"
  shows "helm_count (fold (helm_item_step sha resource) its m) ns nv resource' =
    helm_count m ns nv resource' + (if resource' = resource then int (length (chart_items sha ns nv its)) else 0)"
proof (induction its arbitrary: m)
  case (Cons it its)
  then show ?case using assms
    by (auto simp: helm_item_step_def chart_items_def helm_addItem_count Let_def prod_eq_iff)
qed (simp add: chart_items_def)

lemma helm_resources_count:
  assumes "nv \<noteq> ([], [])" and "helm_resources sha items rs m errs = Some (m', errs')" and "distinct rs"
  shows "helm_count m' ns nv resource = helm_count m ns nv resource +
    (if resource \<in> set rs then (case items resource of Inl _ \<Rightarrow> 0 | Inr its \<Rightarrow> int (length (chart_items sha ns nv its))) else 0)"
  using assms(2,3)
proof (induction rs arbitrary: m errs)
  case (Cons r rs)
  show ?case
  proof (cases "items r")
    case (Inl err)
    with Cons.prems have h: "helm_resources sha items rs m (errs @ [err]) = Some (m', errs')" by (simp split: if_splits)
    from Cons.IH [OF h] Cons.prems(2) Inl show ?thesis by auto
  next
    case (Inr its)
    with Cons.prems have h: "helm_resources sha items rs (fold (helm_item_step sha r) its m) errs = Some (m', errs')" by simp
    from Cons.IH [OF h] Cons.prems(2) Inr helm_items_count [OF assms(1), of sha r its m ns resource] show ?thesis by auto
  qed
qed simp

text \<open>
  The resources of Helm charts are counted.  For every hashed namespace, every chart and every kind of
  resource, the recorded number is the number of the listed resources of that kind whose namespace has that hash and whose label
  names that chart; a kind that could not be listed counts as none.
\<close>

lemma helm_counts:
  assumes "helm_resources sha items [''replicasets'', ''daemonsets'', ''statefulsets'', ''services'', ''deployments''] [] [] = Some (m, errs)"
    and "nv \<noteq> ([], [])"
    and "resource \<in> {''replicasets'', ''daemonsets'', ''statefulsets'', ''services'', ''deployments''}"
  shows "helm_count m ns nv resource =
    (case items resource of Inl _ \<Rightarrow> 0 | Inr its \<Rightarrow> int (length (chart_items sha ns nv its)))"
  using helm_resources_count [OF assms(2,1), of ns resource] assms(3) by (auto simp: helm_count_def)

definition example_helm :: "(HelmChartInfoList \<times> go_error list) option" where
  "example_helm = helm_resources id (\<lambda>r. if r = ''services'' then Inr [\<lparr>hit_Namespace = ''n'', hit_Chart = ''redis-1.2''\<rparr>] else Inr [])
     [''replicasets'', ''daemonsets'', ''statefulsets'', ''services'', ''deployments''] [] []"

text \<open>
  An argument is reduced to a name before it is hashed: no blank, no path, and of a flag nothing from the equals sign on.
\<close>

lemma after_last_clean: "c \<notin> set (after_last c s)" "set (after_last c s) \<subseteq> set s"
  by (auto simp: after_last_def dest: set_takeWhileD)

lemma trim_slashes_subset: "set (trim_slashes s) \<subseteq> set s"
  by (auto simp: trim_slashes_def Let_def dest!: set_dropWhileD)

lemma argument_reduced:
  "CHR '' '' \<notin> set (workloadArgumentString s)" "CHR ''/'' \<notin> set (workloadArgumentString s)"
  "prefix ''-'' (trim_space s) \<Longrightarrow> CHR ''='' \<notin> set (workloadArgumentString s)"
proof -
  let ?s = "takeWhile (\<lambda>c. c \<noteq> CHR '' '') (trim_space s)"
  let ?t = "trim_slashes (if prefix ''-'' ?s then takeWhile (\<lambda>c. c \<noteq> CHR ''='') ?s else ?s)"
  have sub: "set (workloadArgumentString s) \<subseteq> set ?t"
    using after_last_clean(2) by (auto simp: workloadArgumentString_def Let_def)
  moreover have "CHR '' '' \<notin> set ?t" using trim_slashes_subset by (fastforce dest: set_takeWhileD split: if_splits)
  ultimately show "CHR '' '' \<notin> set (workloadArgumentString s)" by blast
  show "CHR ''/'' \<notin> set (workloadArgumentString s)"
    by (auto simp: workloadArgumentString_def Let_def after_last_clean(1) dest: subsetD [OF after_last_clean(2)])
  show "CHR ''='' \<notin> set (workloadArgumentString s)" if "prefix ''-'' (trim_space s)"
  proof -
    from that have "prefix ''-'' ?s" by (cases "trim_space s") auto
    then have "CHR ''='' \<notin> set ?t" using trim_slashes_subset by (fastforce dest: set_takeWhileD)
    with sub show ?thesis by blast
  qed
qed

text \<open>When one of the kinds is not known to the cluster, what was found of the others is dropped, without an error.\<close>

lemma helm_not_found_drops:
  assumes "items ''deployments'' = Inl (NotFoundErr e)"
  shows "gatherHelmInfo sha encode items = ([], [])"
  using assms by (simp add: gatherHelmInfo_def isNotFound_def split: sum.split)

end
