(* ===== verification/Launcher.thy ===== *)
theory Launcher
  imports ContainerLogs
begin

text \<open>
  The logs of the launchers of virtual machines (pkg/gatherers/clusterconfig/gather_qemu_kubevirt_launcher_logs.go), a client of
  \<open>CollectLogsFromContainers\<close>: its filters, the extraction of the arguments, and the shape of the records it returns.
\<close>

section \<open>Arguments of virtual machines\<close>

text \<open>
  gather_qemu_kubevirt_launcher_logs.go.  \<open>launcher_json\<close> is the leftmost match of the expression \<open>(\{.*\})$\<close>, whose dot does not match
  a newline: the text from the first opening brace of the last line, when that line ends in a closing brace.
\<close>

definition launcher_json :: "string \<Rightarrow> string" where
  "launcher_json s =
     (let l = rev (takeWhile (\<lambda>c. c \<noteq> newline) (rev s))
      in if l \<noteq> [] \<and> List.last l = CHR ''}'' then dropWhile (\<lambda>c. c \<noteq> CHR ''{'') l else [])"

definition getQEMUArgsMessageFilter :: LogMessagesFilter where
  "getQEMUArgsMessageFilter =
     \<lparr>lmf_MessagesToSearch = [''/usr/libexec/qemu-kvm''], lmf_IsRegexSearch = True, lmf_SinceSeconds = 0, lmf_LimitBytes = 0,
      lmf_TailLines = 0, lmf_Previous = False\<rparr>"

definition getQEMUArgsContainerFilter :: "int \<Rightarrow> LogContainersFilter" where
  "getQEMUArgsContainerFilter maxContainers =
     \<lparr>lcf_Namespace = [], lcf_LabelSelector = ''kubevirt.io=virt-launcher'', lcf_FieldSelector = ''status.phase!=Pending'',
      lcf_ContainerNameRegexFilter = [], lcf_MaxNamespaceContainers = maxContainers\<rparr>"

definition launcher_name :: "string \<Rightarrow> string \<Rightarrow> string \<Rightarrow> string" where
  "launcher_name namespace podName c = ''namespaces/'' @ namespace @ ''/pods/'' @ podName @ ''/virt-launcher.json''"

text \<open>The outer option is the panic of a record without an item.\<close>

fun formatKubeVirtRecords :: "Record list \<Rightarrow> Record list result option" where
  "formatKubeVirtRecords [] = Some (Inr [])"
| "formatKubeVirtRecords (r # rs) =
     (case rec_Item r of
        None \<Rightarrow> None
      | Some m \<Rightarrow>
          (case item_Marshal m of
             Inl err \<Rightarrow> Some (Inl err)
           | Inr log \<Rightarrow>
               map_option (map_sum id (\<lambda>rs.
                 r\<lparr>rec_Item := Some \<lparr>item_Marshal = Inr (Some (launcher_json (data_bytes log))), item_GetExtension = []\<rparr>\<rparr> # rs))
                 (formatKubeVirtRecords rs)))"

text \<open>
  The error of skipped containers is the only one that comes with records (\<open>skipped_has_records\<close>); it is logged.
\<close>

definition GatherQEMUKubeVirtLauncherLogs ::
  "compiler \<Rightarrow> go_error option \<Rightarrow> (string \<Rightarrow> string \<Rightarrow> string \<Rightarrow> log_pod list result) \<Rightarrow> log_source \<Rightarrow>
   (Record list \<times> go_error list) option" where
  "GatherQEMUKubeVirtLauncherLogs compile client pods src =
     (case client of
        Some err \<Rightarrow> Some ([], [err])
      | None \<Rightarrow>
          (case CollectLogsFromContainers compile pods src (getQEMUArgsContainerFilter 100) getQEMUArgsMessageFilter (Some launcher_name) of
             None \<Rightarrow> None
           | Some ([], Some err) \<Rightarrow> Some ([], [err])
           | Some (records, _) \<Rightarrow>
               (case formatKubeVirtRecords records of
                  None \<Rightarrow> None
                | Some (Inl err) \<Rightarrow> Some ([], [err])
                | Some (Inr records) \<Rightarrow> Some (records, []))))"

lemma collect_containers_unlimited:
  assumes "collect_containers compile src cf mf build pod False n cs records skipped = Some (Inr (records', skipped'))"
  shows "skipped' = skipped \<and> length records \<le> length records'"
  using assms
proof (induction cs arbitrary: records)
  case (Cons c cs)
  then show ?case by (fastforce split: sum.splits bool.splits option.splits if_splits dest: Suc_leD)
qed simp

lemma collect_pods_skipped:
  assumes "collect_pods compile src cf mf build pods records skipped = Some (Inr (records', skipped'))"
    and "0 < lcf_MaxNamespaceContainers cf" and "skipped \<noteq> 0 \<Longrightarrow> records \<noteq> []"
  shows "skipped' \<noteq> 0 \<Longrightarrow> records' \<noteq> []"
  using assms
proof (induction pods arbitrary: records skipped)
  case (Cons pod pods)
  show ?case
  proof (cases "int (length records) \<ge> lcf_MaxNamespaceContainers cf")
    case True
    with Cons.prems(3) have "records \<noteq> []" by auto
    with True Cons.prems Cons.IH [of records "skipped + int (length (lp_Containers pod @ lp_InitContainers pod))"] show ?thesis
      by (auto simp: Let_def)
  next
    case False
    with Cons.prems obtain rs s where
      pod: "collect_containers compile src cf mf build pod False (length (lp_Containers pod @ lp_InitContainers pod))
        (lp_Containers pod @ lp_InitContainers pod) records skipped = Some (Inr (rs, s))"
      and rest: "collect_pods compile src cf mf build pods rs s = Some (Inr (records', skipped'))"
      by (auto simp: Let_def split: option.splits sum.splits)
    from collect_containers_unlimited [OF pod] have "s = skipped" "length records \<le> length rs" by auto
    with Cons.prems(4) have "s \<noteq> 0 \<Longrightarrow> rs \<noteq> []" by auto
    from Cons.IH [OF Cons.prems(1) rest Cons.prems(3) this] show ?thesis .
  qed
qed auto

lemma skipped_has_records:
  assumes "0 < lcf_MaxNamespaceContainers cf" and "pods (lcf_Namespace cf) (lcf_LabelSelector cf) (lcf_FieldSelector cf) = Inr items"
    and "collect_pods compile src cf mf f items [] 0 = Some (Inr (records, skipped))"
    and "CollectLogsFromContainers compile pods src cf mf (Some f) = Some (records', Some err)"
  shows "records' = records \<and> records \<noteq> [] \<and> err = ContainersSkippedError cf skipped"
  using assms collect_pods_skipped [OF assms(3,1)] by (auto simp: CollectLogsFromContainers_def split: if_splits)

lemma dropWhile_starts: "dropWhile P xs = y # ys \<Longrightarrow> \<not> P y"
  by (induction xs) (auto split: if_splits)

lemma launcher_json_shape:
  "suffix (launcher_json s) s"
  "newline \<notin> set (launcher_json s)"
  "launcher_json s \<noteq> [] \<Longrightarrow> hd (launcher_json s) = CHR ''{'' \<and> List.last (launcher_json s) = CHR ''}''"
proof -
  define l where "l = rev (takeWhile (\<lambda>c. c \<noteq> newline) (rev s))"
  have l: "suffix l s" "newline \<notin> set l"
    unfolding l_def using takeWhile_is_prefix [of "\<lambda>c. c \<noteq> newline" "rev s"] set_takeWhileD [of newline "\<lambda>c. c \<noteq> newline" "rev s"]
    by (auto simp: suffix_to_prefix)
  have d: "suffix (dropWhile (\<lambda>c. c \<noteq> CHR ''{'') l) l" by (rule suffix_dropWhile)
  have eq: "launcher_json s = (if l \<noteq> [] \<and> List.last l = CHR ''}'' then dropWhile (\<lambda>c. c \<noteq> CHR ''{'') l else [])"
    by (simp add: launcher_json_def l_def Let_def)
  show "suffix (launcher_json s) s" using l(1) d suffix_order.trans by (auto simp: eq)
  show "newline \<notin> set (launcher_json s)" using l(2) d set_mono_suffix by (fastforce simp: eq)
  assume "launcher_json s \<noteq> []"
  with eq obtain c cs where c: "launcher_json s = dropWhile (\<lambda>c. c \<noteq> CHR ''{'') l" "dropWhile (\<lambda>c. c \<noteq> CHR ''{'') l = c # cs"
      "List.last l = CHR ''}''"
    by (cases "dropWhile (\<lambda>c. c \<noteq> CHR ''{'') l") (auto split: if_splits)
  from d have "List.last (dropWhile (\<lambda>c. c \<noteq> CHR ''{'') l) = List.last l" using c(2) by (auto simp: suffix_def)
  with c dropWhile_starts [OF c(2)] show "hd (launcher_json s) = CHR ''{'' \<and> List.last (launcher_json s) = CHR ''}''" by simp
qed

text \<open>
  A record of a launcher carries the last line of what was collected from the opening brace on, on one line between braces, or nothing; there
  are as many records as logs, under the same names.
\<close>

lemma map_sum_id_Inr: "map_sum id f x = Inr y \<longleftrightarrow> (\<exists>z. x = Inr z \<and> y = f z)"
  by (cases x) auto

lemma formatKubeVirtRecords_eq:
  assumes "formatKubeVirtRecords records = Some (Inr records')"
  shows "map rec_Name records' = map rec_Name records \<and>
    list_all2 (\<lambda>r r'. \<exists>log. map_option item_Marshal (rec_Item r) = Some (Inr log) \<and>
      map_option item_Marshal (rec_Item r') = Some (Inr (Some (launcher_json (data_bytes log))))) records records'"
  using assms
proof (induction records arbitrary: records')
  case (Cons r rs)
  then obtain m log rs' where "rec_Item r = Some m" "item_Marshal m = Inr log" "formatKubeVirtRecords rs = Some (Inr rs')"
    and "records' = r\<lparr>rec_Item := Some \<lparr>item_Marshal = Inr (Some (launcher_json (data_bytes log))), item_GetExtension = []\<rparr>\<rparr> # rs'"
    by (auto split: option.splits sum.splits simp: map_sum_id_Inr)
  with Cons.IH [of rs'] show ?case by simp
qed simp

theorem launcher_records:
  assumes "GatherQEMUKubeVirtLauncherLogs compile client pods src = Some (records, errs)" and "r \<in> set records"
  shows "errs = [] \<and> client = None \<and> (\<exists>t. map_option item_Marshal (rec_Item r) = Some (Inr (Some t)) \<and> newline \<notin> set t \<and>
    (t = [] \<or> hd t = CHR ''{'' \<and> List.last t = CHR ''}''))"
proof -
  from assms obtain logs where logs: "formatKubeVirtRecords logs = Some (Inr records)" and "errs = []" "client = None"
    by (auto simp: GatherQEMUKubeVirtLauncherLogs_def split: option.splits prod.splits list.splits sum.splits simp del: formatKubeVirtRecords.simps)
  from formatKubeVirtRecords_eq [OF logs] assms(2) obtain log where
    "map_option item_Marshal (rec_Item r) = Some (Inr (Some (launcher_json (data_bytes log))))"
    by (auto simp: list_all2_conv_all_nth in_set_conv_nth)
  with \<open>errs = []\<close> \<open>client = None\<close> launcher_json_shape(2,3) show ?thesis by blast
qed

lemma launcher_json_example:
  "launcher_json (''2025-06-24T13:13:43Z {a}'' @ [newline] @ ''2025-06-24T13:13:44Z {k:{}}'') = ''{k:{}}''"
  by code_simp

end
