(* ===== verification/ClusterData.thy ===== *)
theory ClusterData
  imports Recorder
begin

text \<open>
  pkg/gatherers/clusterconfig, data of the cluster that is filtered, anonymised or limited before it is recorded:
  gather_certificate_signing_requests.go, gather_cluster_ingress_certificates.go, gather_install_plans.go,
  gather_container_images.go and gather_config_maps.go.

  The decoders of PEM blocks and of X.509 objects, the formats of times, the parser of image references and the JSON
  and YAML libraries are arguments.  Lists of the API server that come in pages are the list of the answers.
  A record is its name and what it holds.
\<close>

section \<open>Certificates\<close>

record pkix_name =
  pn_CommonName :: string
  pn_Locality :: "string list"
  pn_Province :: "string list"
  pn_StreetAddress :: "string list"
  pn_PostalCode :: "string list"
  pn_Country :: "string list"
  pn_Organization :: "string list"
  pn_OrganizationalUnit :: "string list"
  pn_SerialNumber :: string
  pn_Names :: "(string \<times> string) list"

record x509_request =
  xr_Subject :: pkix_name
  xr_SignatureAlgorithm :: string
  xr_PublicKeyAlgorithm :: string
  xr_DNSNames :: "string list"
  xr_EmailAddresses :: "string list"
  xr_IPAddresses :: "string list"
  xr_URIs :: "string list"
  xr_CheckSignature :: "go_error option"

record x509_certificate =
  xc_Issuer :: pkix_name
  xc_Subject :: pkix_name
  xc_NotBefore :: time
  xc_NotAfter :: time

record crypto_env =
  cy_pem :: "bytes \<Rightarrow> (bytes \<times> bytes) option"
  cy_request :: "bytes \<Rightarrow> x509_request result"
  cy_certificate :: "bytes \<Rightarrow> x509_certificate result"
  cy_format :: "time \<Rightarrow> string"
  cy_parse :: "string \<Rightarrow> time result"

section \<open>Certificate signing requests\<close>

record csr_object =
  csr_Name :: string
  csr_Meta :: string
  csr_Username :: string
  csr_Groups :: "string list"
  csr_Usages :: "string list"
  csr_Request :: bytes
  csr_Conditions :: "string list"
  csr_Certificate :: bytes

record CsrFeatures =
  cf_ValidSignature :: bool
  cf_SignatureAlgorithm :: string
  cf_PublicKeyAlgorithm :: string
  cf_DNSNames :: "string list"
  cf_EmailAddresses :: "string list"
  cf_IPAddresses :: "string list"
  cf_URIs :: "string list"
  cf_Subject :: pkix_name

record CertFeatures =
  tf_Verified :: bool
  tf_Issuer :: pkix_name
  tf_Subject :: pkix_name
  tf_NotBefore :: string
  tf_NotAfter :: string

record StateFeatures =
  sf_Username :: string
  sf_Groups :: "string list"
  sf_Usages :: "string list"
  sf_Request :: "CsrFeatures option"

record StatusFeatures =
  tf_Conditions :: "string list"
  tf_Cert :: "CertFeatures option"

record CSRAnonymizedFeatures =
  af_Name :: string
  af_Meta :: string
  af_Spec :: "StateFeatures option"
  af_Status :: "StatusFeatures option"

definition anonymizePkxName :: "pkix_name \<Rightarrow> pkix_name" where
  "anonymizePkxName s =
     \<lparr>pn_CommonName = anonymize_String (pn_CommonName s), pn_Locality = map anonymize_String (pn_Locality s),
      pn_Province = map anonymize_String (pn_Province s), pn_StreetAddress = map anonymize_String (pn_StreetAddress s),
      pn_PostalCode = map anonymize_String (pn_PostalCode s), pn_Country = map anonymize_String (pn_Country s),
      pn_Organization = map anonymize_String (pn_Organization s),
      pn_OrganizationalUnit = map anonymize_String (pn_OrganizationalUnit s),
      pn_SerialNumber = anonymize_String (pn_SerialNumber s), pn_Names = []\<rparr>"

definition anonymizeCSRRequest :: "crypto_env \<Rightarrow> csr_object \<Rightarrow> CSRAnonymizedFeatures \<Rightarrow> CSRAnonymizedFeatures" where
  "anonymizeCSRRequest env r c =
     (let sp = \<lparr>sf_Username = csr_Username r, sf_Groups = csr_Groups r, sf_Usages = csr_Usages r, sf_Request = None\<rparr>;
          c = c\<lparr>af_Spec := Some sp\<rparr>
      in case cy_pem env (csr_Request r) of
           None \<Rightarrow> c
         | Some (block, _) \<Rightarrow>
             (case cy_request env block of
                Inl err \<Rightarrow> c
              | Inr csr \<Rightarrow>
                  (case xr_CheckSignature csr of
                     Some err \<Rightarrow> c
                   | None \<Rightarrow>
                       c\<lparr>af_Spec := Some (sp\<lparr>sf_Request := Some
                          \<lparr>cf_ValidSignature = True, cf_SignatureAlgorithm = xr_SignatureAlgorithm csr,
                           cf_PublicKeyAlgorithm = xr_PublicKeyAlgorithm csr,
                           cf_DNSNames = map anonymize_URL (xr_DNSNames csr),
                           cf_EmailAddresses = map anonymize_URL (xr_EmailAddresses csr),
                           cf_IPAddresses = map anonymize_URL (xr_IPAddresses csr),
                           cf_URIs = map anonymize_URL (xr_URIs csr),
                           cf_Subject = anonymizePkxName (xr_Subject csr)\<rparr>\<rparr>)\<rparr>)))"

definition anonymizeCSRCert :: "crypto_env \<Rightarrow> csr_object \<Rightarrow> CSRAnonymizedFeatures \<Rightarrow> CSRAnonymizedFeatures" where
  "anonymizeCSRCert env r c =
     (let s = \<lparr>tf_Conditions = csr_Conditions r, tf_Cert = None\<rparr>;
          c = c\<lparr>af_Status := Some s\<rparr>
      in case cy_pem env (csr_Certificate r) of
           None \<Rightarrow> c
         | Some (block, _) \<Rightarrow>
             (case cy_certificate env block of
                Inl err \<Rightarrow> c
              | Inr cert \<Rightarrow>
                  c\<lparr>af_Status := Some (s\<lparr>tf_Cert := Some
                     \<lparr>tf_Verified = True, tf_Issuer = anonymizePkxName (xc_Issuer cert),
                      tf_Subject = anonymizePkxName (xc_Subject cert), tf_NotBefore = cy_format env (xc_NotBefore cert),
                      tf_NotAfter = cy_format env (xc_NotAfter cert)\<rparr>\<rparr>)\<rparr>))"

definition addMeta :: "csr_object \<Rightarrow> CSRAnonymizedFeatures \<Rightarrow> CSRAnonymizedFeatures" where
  "addMeta r c = c\<lparr>af_Name := csr_Name r, af_Meta := csr_Meta r\<rparr>"

definition anonymizeCSR :: "crypto_env \<Rightarrow> csr_object \<Rightarrow> CSRAnonymizedFeatures" where
  "anonymizeCSR env r =
     anonymizeCSRCert env r (anonymizeCSRRequest env r
       (addMeta r \<lparr>af_Name = [], af_Meta = [], af_Spec = None, af_Status = None\<rparr>))"

definition IncludeCSR :: "crypto_env \<Rightarrow> time \<Rightarrow> CSRAnonymizedFeatures \<Rightarrow> bool" where
  "IncludeCSR env now c =
     (case af_Status c of
        None \<Rightarrow> True
      | Some s \<Rightarrow>
          (case tf_Cert s of
             None \<Rightarrow> True
           | Some cert \<Rightarrow>
               if \<not> tf_Verified cert then True
               else if (case cy_parse env (tf_NotBefore cert) of Inl _ \<Rightarrow> False | Inr t \<Rightarrow> now < t) then True
               else if (case cy_parse env (tf_NotAfter cert) of Inl _ \<Rightarrow> False | Inr t \<Rightarrow> t < now) then True
               else False))"

text \<open>The clock is read for every request: \<open>clock i\<close> is the time when the request at position \<open>i\<close> is looked at.\<close>

definition gatherCertificateSigningRequests ::
  "crypto_env \<Rightarrow> (nat \<Rightarrow> time) \<Rightarrow> csr_object list result \<Rightarrow> (string \<times> CSRAnonymizedFeatures) list \<times> go_error list" where
  "gatherCertificateSigningRequests env clock requests =
     (case requests of
        Inl err \<Rightarrow> ([], if isNotFound err then [] else [err])
      | Inr items \<Rightarrow>
          (map (\<lambda>(i, c). (''config/certificatesigningrequests/'' @ af_Name c, c))
             (filter (\<lambda>(i, c). IncludeCSR env (clock i) c) (enumerate 0 (map (anonymizeCSR env) items))), []))"

section \<open>Certificates of the ingress controllers\<close>

definition ingressCertificatesLimits :: nat where "ingressCertificatesLimits = 64"

record CertificateInfo =
  ci_Name :: string
  ci_Namespace :: string
  ci_NotBefore :: time
  ci_NotAfter :: time
  ci_Controllers :: "(string \<times> string) list"

record ingress_controller =
  ing_Name :: string
  ing_Namespace :: string
  ing_DefaultCertificate :: "string option"

record ingress_client =
  ig_secret :: "string \<Rightarrow> string \<Rightarrow> (string, bytes) gomap result"
  ig_controllers :: "string \<Rightarrow> ingress_controller list result"

type_synonym cert_infos = "(string \<times> string, CertificateInfo) gomap"

definition getCertificateInfoFromSecret ::
  "crypto_env \<Rightarrow> ingress_client \<Rightarrow> string \<Rightarrow> string \<Rightarrow> CertificateInfo result" where
  "getCertificateInfoFromSecret env client namespace secretName =
     (let quoted = (\<lambda>s. [CHR 0x27] @ s @ [CHR 0x27])
      in case ig_secret client namespace secretName of
           Inl err \<Rightarrow> Inl (Errorf (''failed to get secret '' @ quoted secretName @ '' in namespace '' @ quoted namespace @ '': '' @ error_text err))
         | Inr secret \<Rightarrow>
             (case map_get secret ''tls.crt'' of
                None \<Rightarrow> Inl (Errorf (quoted ''tls.crt'' @ '' not found in secret '' @ quoted secretName @ '' in namespace '' @ quoted namespace))
              | Some crtData \<Rightarrow>
                  (case cy_pem env crtData of
                     None \<Rightarrow> Inl (Errorf (''unable to decode certificate (x509) from secret '' @ quoted secretName @ '' in namespace '' @ quoted namespace))
                   | Some (block, _) \<Rightarrow>
                       (case cy_certificate env block of
                          Inl err \<Rightarrow> Inl (Errorf (''failed to parse certificate from secret '' @ quoted secretName @ '' in namespace '' @
                            quoted namespace @ '': '' @ error_text err))
                        | Inr cert \<Rightarrow> Inr \<lparr>ci_Name = secretName, ci_Namespace = namespace, ci_NotBefore = xc_NotBefore cert,
                                           ci_NotAfter = xc_NotAfter cert, ci_Controllers = []\<rparr>))))"

definition getRouterCACertInfo :: "crypto_env \<Rightarrow> ingress_client \<Rightarrow> CertificateInfo result" where
  "getRouterCACertInfo env client = getCertificateInfoFromSecret env client ''openshift-ingress-operator'' ''router-ca''"

definition getRouterCertsDefaultCertInfo :: "crypto_env \<Rightarrow> ingress_client \<Rightarrow> CertificateInfo result" where
  "getRouterCertsDefaultCertInfo env client = getCertificateInfoFromSecret env client ''openshift-ingress'' ''router-certs-default''"

definition newCertificateInfoKey :: "CertificateInfo \<Rightarrow> string \<times> string" where
  "newCertificateInfoKey info = (ci_Name info, ci_Namespace info)"

definition add_controller :: "CertificateInfo \<Rightarrow> ingress_controller \<Rightarrow> cert_infos \<Rightarrow> cert_infos" where
  "add_controller certInfo controller m =
     (let entry = (ing_Name controller, ing_Namespace controller);
          c = (case map_get m (newCertificateInfoKey certInfo) of Some c \<Rightarrow> c | None \<Rightarrow> certInfo)
      in map_put (newCertificateInfoKey certInfo) (c\<lparr>ci_Controllers := ci_Controllers c @ [entry]\<rparr>) m)"

definition limit_error :: go_error where
  "limit_error = Errorf (''reached the limit of ingress certificates (64), skipping additional certificates'')"

fun controllers_step ::
  "crypto_env \<Rightarrow> ingress_client \<Rightarrow> string \<Rightarrow> ingress_controller list \<Rightarrow> cert_infos \<times> go_error list \<Rightarrow> cert_infos \<times> go_error list" where
  "controllers_step env client namespace [] acc = acc"
| "controllers_step env client namespace (controller # rest) acc =
     (let (m, errs) = acc
      in if ingressCertificatesLimits \<le> length m then (m, errs @ [limit_error])
         else case ing_DefaultCertificate controller of
                None \<Rightarrow> controllers_step env client namespace rest acc
              | Some secretName \<Rightarrow>
                  (case getCertificateInfoFromSecret env client namespace secretName of
                     Inl certErr \<Rightarrow> controllers_step env client namespace rest (m, errs @ [certErr])
                   | Inr certInfo \<Rightarrow> controllers_step env client namespace rest (add_controller certInfo controller m, errs)))"

definition router_step :: "CertificateInfo result \<Rightarrow> cert_infos \<times> go_error list \<Rightarrow> cert_infos \<times> go_error list" where
  "router_step info acc =
     (case info of
        Inl err \<Rightarrow> (fst acc, snd acc @ [err])
      | Inr i \<Rightarrow> (map_put (newCertificateInfoKey i) i (fst acc), snd acc))"

definition namespace_certs :: "crypto_env \<Rightarrow> ingress_client \<Rightarrow> string \<Rightarrow> cert_infos \<times> go_error list \<Rightarrow> cert_infos \<times> go_error list" where
  "namespace_certs env client namespace acc =
     (case ig_controllers client namespace of
        Inl err \<Rightarrow> if isNotFound err then acc else (fst acc, snd acc @ [err])
      | Inr controllers \<Rightarrow> controllers_step env client namespace controllers acc)"

definition gatherClusterIngressCertificates :: "crypto_env \<Rightarrow> ingress_client \<Rightarrow> CertificateInfo list \<times> go_error list" where
  "gatherClusterIngressCertificates env client =
     (let acc = router_step (getRouterCertsDefaultCertInfo env client) (router_step (getRouterCACertInfo env client) ([], []));
          (m, errs) = fold (namespace_certs env client) [''openshift-ingress-operator'', ''openshift-ingress''] acc
      in (map snd m, errs))"

section \<open>Install plans\<close>

record collectedPlan =
  cp_Namespace :: string
  cp_Name :: string
  cp_CSV :: string
  cp_Count :: int

text \<open>
  An item of a page: not an object, or what is found under the fields that are read; a name of a service version that is not a text is \<open>None\<close>.
\<close>

datatype plan_item =
    NotAnObject
  | PlanObject "string option list result" "string result" "string result"

type_synonym plans = "(string, collectedPlan) gomap"

definition plan_key :: "string \<Rightarrow> string \<Rightarrow> string \<Rightarrow> string" where
  "plan_key ns genName csv = ns @ ''.'' @ genName @ ''.'' @ csv"

definition plan_csv :: "string option list \<Rightarrow> string" where
  "plan_csv names = (case names of [] \<Rightarrow> ''[NONE]'' | Some s # _ \<Rightarrow> s | None # _ \<Rightarrow> [])"

definition collectInstallPlan :: "plan_item \<Rightarrow> plans \<Rightarrow> plans result" where
  "collectInstallPlan item recs =
     (case item of
        NotAnObject \<Rightarrow> Inl (Errorf ''cannot cast item to map'')
      | PlanObject names ns genName \<Rightarrow>
          (case names of Inl err \<Rightarrow> Inl err | Inr names \<Rightarrow>
          (case ns of Inl err \<Rightarrow> Inl err | Inr ns \<Rightarrow>
          (case genName of Inl err \<Rightarrow> Inl err | Inr genName \<Rightarrow>
             let csv = plan_csv names; key = plan_key ns genName csv
             in case map_get recs key of
                  None \<Rightarrow> Inr (map_put key \<lparr>cp_Namespace = ns, cp_Name = genName, cp_CSV = csv, cp_Count = 1\<rparr> recs)
                | Some m \<Rightarrow> Inr (map_put key (m\<lparr>cp_Count := cp_Count m + 1\<rparr>) recs)))))"

fun collect_items :: "plan_item list \<Rightarrow> plans \<Rightarrow> plans result" where
  "collect_items [] recs = Inr recs"
| "collect_items (item # rest) recs =
     (case collectInstallPlan item recs of Inl err \<Rightarrow> Inl err | Inr recs \<Rightarrow> collect_items rest recs)"

text \<open>
  The pages of all namespaces of the platform, in the order they are read: an error, or the items.  Without the kind of resource nothing is recorded, without an error.
\<close>

fun collect_pages :: "plan_item list result list \<Rightarrow> plans \<times> int \<Rightarrow> go_error list + plans \<times> int" where
  "collect_pages [] acc = Inr acc"
| "collect_pages (Inl err # _) acc = Inl (if isNotFound err then [] else [err])"
| "collect_pages (Inr items # rest) acc =
     (case collect_items items (fst acc) of
        Inl err \<Rightarrow> Inl [err]
      | Inr recs \<Rightarrow> collect_pages rest (recs, snd acc + int (length items)))"

definition platform_namespace :: "string \<Rightarrow> bool" where
  "platform_namespace n = (n = ''openshift'' \<or> prefix ''openshift-'' n)"

definition gatherInstallPlans ::
  "string list result \<Rightarrow> (string \<Rightarrow> plan_item list result list) \<Rightarrow> (plans \<times> int) option \<times> go_error list" where
  "gatherInstallPlans namespaces pages =
     (case namespaces of
        Inl err \<Rightarrow> (None, if isNotFound err then [] else [err])
      | Inr names \<Rightarrow>
          (case collect_pages (concat (map pages (filter platform_namespace names))) ([], 0) of
             Inl errs \<Rightarrow> (None, errs)
           | Inr acc \<Rightarrow> (Some acc, [])))"

text \<open>The plans that are written, of a map in the order of its iteration.\<close>

fun select_plans :: "int \<Rightarrow> nat \<Rightarrow> collectedPlan list \<Rightarrow> nat \<Rightarrow> collectedPlan list" where
  "select_plans countLimit limit [] uls = []"
| "select_plans countLimit limit (v # vs) uls =
     (let (out, uls) = (if countLimit \<le> cp_Count v then ([v], Suc uls) else ([], uls))
      in if limit \<le> uls then out else out @ select_plans countLimit limit vs uls)"

definition plans_Marshal :: "nat \<Rightarrow> plans \<Rightarrow> int \<Rightarrow> (int \<times> int) \<times> collectedPlan list" where
  "plans_Marshal limit recs totalCount =
     (let limit = (if limit = 0 then 100 else limit);
          cnts = rev (sort (map (cp_Count \<circ> snd) recs));
          countLimit = (if limit < length cnts \<and> 0 < limit then cnts ! (limit - 1) else - 1)
      in ((totalCount, int (length recs)), sort_key (\<lambda>v. - cp_Count v) (select_plans countLimit limit (map snd recs) 0)))"

section \<open>Container images\<close>

record image_pod = pod +
  imp_Namespace :: string
  imp_Name :: string
  imp_Env :: "env_var list list"
  imp_Running :: bool
  imp_Month :: string
  imp_Images :: "string list"
  imp_InitImages :: "string list"
  imp_EphemeralImages :: "string list"

type_synonym month_counts = "(string, int) gomap"
type_synonym img2Month2CountMap = "(string, month_counts) gomap"

definition imageGatherPodLimit :: nat where "imageGatherPodLimit = 200"
definition containerImageLimit :: nat where "containerImageLimit = 1000"

text \<open>\<open>parse\<close> gives the identifier in an image reference, empty when there is none.\<close>

definition count_image :: "string \<Rightarrow> string \<Rightarrow> img2Month2CountMap \<Rightarrow> img2Month2CountMap" where
  "count_image startMonth img m =
     (case map_get m img of
        Some countMap \<Rightarrow>
          map_put img (map_put startMonth ((case map_get countMap startMonth of None \<Rightarrow> 0 | Some n \<Rightarrow> n) + 1) countMap) m
      | None \<Rightarrow> map_put img [(startMonth, 1)] m)"

definition minimal_image :: "(string \<Rightarrow> string result) \<Rightarrow> string \<Rightarrow> string option" where
  "minimal_image parse img = (case parse img of Inl _ \<Rightarrow> None | Inr i \<Rightarrow> Some (if i = [] then img else i))"

definition gatherImages :: "(string \<Rightarrow> string result) \<Rightarrow> string \<Rightarrow> string list \<Rightarrow> img2Month2CountMap \<Rightarrow> img2Month2CountMap" where
  "gatherImages parse startMonth containers m =
     fold (\<lambda>img m. case minimal_image parse img of None \<Rightarrow> m | Some i \<Rightarrow> count_image startMonth i m) containers m"

definition crashing_platform_pod :: "image_pod \<Rightarrow> bool" where
  "crashing_platform_pod p = (prefix ''openshift-'' (imp_Namespace p) \<and> HasContainerInCrashloop (pod.truncate p))"

definition image_pod_step ::
  "(string \<Rightarrow> string result) \<Rightarrow> image_pod \<Rightarrow> (string \<times> image_pod) list \<times> img2Month2CountMap \<Rightarrow>
   (string \<times> image_pod) list \<times> img2Month2CountMap" where
  "image_pod_step parse p acc =
     (let (records, m) = acc
      in if crashing_platform_pod p
         then (records @ [(''config/pod/'' @ imp_Namespace p @ ''/'' @ imp_Name p, p\<lparr>imp_Env := SensitiveEnvVars (imp_Env p)\<rparr>)], m)
         else if imp_Running p
         then (records, gatherImages parse (imp_Month p) (imp_EphemeralImages p)
                 (gatherImages parse (imp_Month p) (imp_InitImages p) (gatherImages parse (imp_Month p) (imp_Images p) m)))
         else acc)"

fun image_pages ::
  "(string \<Rightarrow> string result) \<Rightarrow> image_pod list result list \<Rightarrow> (string \<times> image_pod) list \<times> img2Month2CountMap \<Rightarrow>
   ((string \<times> image_pod) list \<times> img2Month2CountMap) result" where
  "image_pages parse [] acc = Inr acc"
| "image_pages parse (Inl err # _) acc = Inl err"
| "image_pages parse (Inr pods # rest) acc = image_pages parse rest (fold (image_pod_step parse) pods acc)"

text \<open>The reported images, by their index, and the containers by month and index.\<close>

record ContainerInfo =
  ci_Images :: "string list"
  ci_Containers :: "(string, (nat, int) gomap) gomap"

definition PodsWithAge_Add :: "string \<Rightarrow> nat \<Rightarrow> int \<Rightarrow> (string, (nat, int) gomap) gomap \<Rightarrow> (string, (nat, int) gomap) gomap" where
  "PodsWithAge_Add startMonth im cnt p =
     (case map_get p startMonth of
        Some imageMap \<Rightarrow> map_put startMonth (map_put im ((case map_get imageMap im of None \<Rightarrow> 0 | Some n \<Rightarrow> n) + cnt) imageMap) p
      | None \<Rightarrow> map_put startMonth [(im, cnt)] p)"

fun report_images :: "(string \<times> month_counts) list \<Rightarrow> nat \<Rightarrow> ContainerInfo \<Rightarrow> ContainerInfo" where
  "report_images [] totalEntries info = info"
| "report_images ((img, counts) # rest) totalEntries info =
     (if containerImageLimit \<le> totalEntries then info
      else let imgIndex = length (ci_Images info);
               info = \<lparr>ci_Images = ci_Images info @ [img],
                       ci_Containers = fold (\<lambda>(month, cnt) p. PodsWithAge_Add month imgIndex cnt p) counts (ci_Containers info)\<rparr>
           in report_images rest (totalEntries + length counts) info)"

definition gatherContainerImages ::
  "(string \<Rightarrow> string result) \<Rightarrow> image_pod list result list \<Rightarrow> ((string \<times> image_pod) list \<times> ContainerInfo) result" where
  "gatherContainerImages parse pages =
     (case image_pages parse pages ([], []) of
        Inl err \<Rightarrow> Inl err
      | Inr (records, m) \<Rightarrow>
          Inr (records, report_images (sort_key (\<lambda>(img, counts). - sum_list (map snd counts)) m) 0 \<lparr>ci_Images = [], ci_Containers = []\<rparr>))"

section \<open>Config maps\<close>

record config_map =
  cmp_Namespace :: string
  cmp_Name :: string
  cmp_Data :: "(string, string) gomap"
  cmp_BinaryData :: "(string, bytes) gomap"

definition anonymizedPemBlock :: string where
  "anonymizedPemBlock = ''-----BEGIN CERTIFICATE-----'' @ [CHR 0x0A] @ ''ANONYMIZED'' @ [CHR 0x0A] @ ''-----END CERTIFICATE-----'' @ [CHR 0x0A]"

text \<open>The blocks are decoded one after the other; the fuel is more than the number of bytes.\<close>

fun anonymize_blocks :: "nat \<Rightarrow> (bytes \<Rightarrow> (bytes \<times> bytes) option) \<Rightarrow> bytes \<Rightarrow> bytes \<Rightarrow> string \<Rightarrow> string option" where
  "anonymize_blocks 0 decode dv r sb = None"
| "anonymize_blocks (Suc n) decode dv r sb =
     (case decode r of
        None \<Rightarrow> Some dv
      | Some (_, r') \<Rightarrow>
          let sb = sb @ anonymizedPemBlock
          in if length r' = 0 then Some sb else anonymize_blocks n decode dv r' sb)"

definition anonymizeConfigMap :: "(bytes \<Rightarrow> (bytes \<times> bytes) option) \<Rightarrow> bytes \<Rightarrow> string option" where
  "anonymizeConfigMap decode dv = anonymize_blocks (Suc (length dv)) decode dv dv []"

text \<open>A record of a config map: its name, the bytes, and whether they are encoded.\<close>

definition gatherConfigMaps :: "config_map list result \<Rightarrow> (string \<times> bytes \<times> bool) list \<times> go_error list" where
  "gatherConfigMaps cms =
     (case cms of
        Inl err \<Rightarrow> ([], [err])
      | Inr items \<Rightarrow>
          (concat (map (\<lambda>cm.
             map (\<lambda>(dk, dv). (''config/configmaps/'' @ cmp_Namespace cm @ ''/'' @ cmp_Name cm @ ''/'' @ dk, dv, False)) (cmp_Data cm) @
             map (\<lambda>(dk, dv). (''config/configmaps/'' @ cmp_Namespace cm @ ''/'' @ cmp_Name cm @ ''/'' @ dk, dv, True)) (cmp_BinaryData cm)) items), []))"

definition trim_suffix :: "string \<Rightarrow> string \<Rightarrow> string" where
  "trim_suffix suf s = (if suffix suf s then take (length s - length suf) s else s)"

fun yaml_records :: "(string \<Rightarrow> bytes result) \<Rightarrow> config_map \<Rightarrow> (string \<times> string) list \<Rightarrow> (string \<times> bytes) list result" where
  "yaml_records to_json cm [] = Inr []"
| "yaml_records to_json cm ((dk, dv) # rest) =
     (case to_json dv of
        Inl err \<Rightarrow> Inl err
      | Inr j \<Rightarrow>
          (case yaml_records to_json cm rest of
             Inl err \<Rightarrow> Inl err
           | Inr rs \<Rightarrow> Inr ((''config/configmaps/'' @ cmp_Namespace cm @ ''/'' @ cmp_Name cm @ ''/'' @ trim_suffix ''.yaml'' dk, j) # rs)))"

definition gatherConfigMap :: "(string \<Rightarrow> bytes result) \<Rightarrow> config_map result \<Rightarrow> (string \<times> bytes) list \<times> go_error list" where
  "gatherConfigMap to_json cm =
     (case cm of
        Inl err \<Rightarrow> ([], [err])
      | Inr cm \<Rightarrow> (case yaml_records to_json cm (cmp_Data cm) of Inl err \<Rightarrow> ([], [err]) | Inr rs \<Rightarrow> (rs, [])))"

section \<open>Requests are anonymised\<close>

definition masked :: "string \<Rightarrow> bool" where "masked s = list_all (\<lambda>c. c = CHR ''x'') s"
definition url_masked :: "string \<Rightarrow> bool" where "url_masked s = list_all (\<lambda>c. c \<in> set ''x.-/:'') s"

definition name_masked :: "pkix_name \<Rightarrow> bool" where
  "name_masked n =
     (masked (pn_CommonName n) \<and> masked (pn_SerialNumber n) \<and> pn_Names n = [] \<and>
      (\<forall>s \<in> set (pn_Locality n @ pn_Province n @ pn_StreetAddress n @ pn_PostalCode n @ pn_Country n @ pn_Organization n @
         pn_OrganizationalUnit n). masked s))"

lemma anonymize_String_masked [simp]: "masked (anonymize_String s)"
  by (auto simp: anonymize_String_def masked_def list_all_iff)

lemma anonymize_URL_masked [simp]: "url_masked (anonymize_URL s)"
  by (auto simp: anonymize_URL_def url_masked_def list_all_iff)

lemma anonymizePkxName_masked: "name_masked (anonymizePkxName n)"
  by (auto simp: name_masked_def anonymizePkxName_def)

definition features_masked :: "CSRAnonymizedFeatures \<Rightarrow> bool" where
  "features_masked c =
     ((\<forall>sp q. af_Spec c = Some sp \<longrightarrow> sf_Request sp = Some q \<longrightarrow>
         name_masked (cf_Subject q) \<and> (\<forall>s \<in> set (cf_DNSNames q @ cf_EmailAddresses q @ cf_IPAddresses q @ cf_URIs q). url_masked s)) \<and>
      (\<forall>st t. af_Status c = Some st \<longrightarrow> tf_Cert st = Some t \<longrightarrow> name_masked (tf_Issuer t) \<and> name_masked (tf_Subject t)))"

lemma anonymizeCSR_masked: "features_masked (anonymizeCSR env r)"
proof -
  have "features_masked (anonymizeCSRRequest env r c)" if "af_Status c = None" for c
    using that anonymizePkxName_masked
    by (auto simp: features_masked_def anonymizeCSRRequest_def Let_def split: option.splits prod.splits sum.splits)
  moreover have "features_masked (anonymizeCSRCert env r c)" if "features_masked c" for c
    using that anonymizePkxName_masked by (auto simp: features_masked_def anonymizeCSRCert_def Let_def split: option.splits prod.splits sum.splits)
  ultimately show ?thesis by (simp add: anonymizeCSR_def addMeta_def)
qed

lemma anonymizeCSR_cert:
  "af_Name (anonymizeCSR env r) = csr_Name r"
  "\<exists>st. af_Status (anonymizeCSR env r) = Some st \<and>
    tf_Cert st = (case cy_pem env (csr_Certificate r) of None \<Rightarrow> None | Some (block, _) \<Rightarrow>
      (case cy_certificate env block of Inl _ \<Rightarrow> None | Inr cert \<Rightarrow> Some \<lparr>tf_Verified = True, tf_Issuer = anonymizePkxName (xc_Issuer cert),
        tf_Subject = anonymizePkxName (xc_Subject cert), tf_NotBefore = cy_format env (xc_NotBefore cert),
        tf_NotAfter = cy_format env (xc_NotAfter cert)\<rparr>))"
proof -
  have "af_Name (anonymizeCSRRequest env r c) = af_Name c" "af_Name (anonymizeCSRCert env r c) = af_Name c" for c
    by (simp_all add: anonymizeCSRRequest_def anonymizeCSRCert_def Let_def split: option.split sum.split)
  then show "af_Name (anonymizeCSR env r) = csr_Name r" by (simp add: anonymizeCSR_def addMeta_def)
qed (simp add: anonymizeCSR_def anonymizeCSRCert_def Let_def split: option.split sum.split)

text \<open>
  A time written in the layout \<open>time.RFC3339\<close> keeps its whole seconds, and is read back for the years the layout can express,
  1 to 9999; \<open>year_10000\<close> is the number of nanoseconds from the zero time to the year 10000.
\<close>

definition year_10000 :: time where "year_10000 = 3652059 * 24 * Hour"

definition whole_seconds :: "time \<Rightarrow> time" where "whole_seconds t = t - t mod Second"

definition rfc3339_laws :: "crypto_env \<Rightarrow> bool" where
  "rfc3339_laws env = (\<forall>t. 0 \<le> t \<and> t < year_10000 \<longrightarrow> cy_parse env (cy_format env t) = Inr (whole_seconds t))"

definition issued_certificate :: "crypto_env \<Rightarrow> csr_object \<Rightarrow> x509_certificate option" where
  "issued_certificate env r =
     (case cy_pem env (csr_Certificate r) of None \<Rightarrow> None | Some (block, _) \<Rightarrow>
      (case cy_certificate env block of Inl _ \<Rightarrow> None | Inr cert \<Rightarrow> Some cert))"

definition dated :: "crypto_env \<Rightarrow> csr_object \<Rightarrow> bool" where
  "dated env r = (\<forall>cert. issued_certificate env r = Some cert \<longrightarrow>
     0 \<le> xc_NotBefore cert \<and> xc_NotBefore cert < year_10000 \<and> 0 \<le> xc_NotAfter cert \<and> xc_NotAfter cert < year_10000)"

definition valid_certificate :: "crypto_env \<Rightarrow> time \<Rightarrow> csr_object \<Rightarrow> bool" where
  "valid_certificate env now r =
     (case issued_certificate env r of None \<Rightarrow> False | Some cert \<Rightarrow>
        whole_seconds (xc_NotBefore cert) \<le> now \<and> now \<le> whole_seconds (xc_NotAfter cert))"

lemma IncludeCSR_iff:
  assumes "rfc3339_laws env" and "dated env r"
  shows "IncludeCSR env now (anonymizeCSR env r) = (\<not> valid_certificate env now r)"
proof -
  from anonymizeCSR_cert(2) [of env r] obtain st where st: "af_Status (anonymizeCSR env r) = Some st"
    "tf_Cert st = (case cy_pem env (csr_Certificate r) of None \<Rightarrow> None | Some (block, _) \<Rightarrow>
      (case cy_certificate env block of Inl _ \<Rightarrow> None | Inr cert \<Rightarrow> Some \<lparr>tf_Verified = True, tf_Issuer = anonymizePkxName (xc_Issuer cert),
        tf_Subject = anonymizePkxName (xc_Subject cert), tf_NotBefore = cy_format env (xc_NotBefore cert),
        tf_NotAfter = cy_format env (xc_NotAfter cert)\<rparr>))" by blast
  then show ?thesis using assms
    by (auto simp: IncludeCSR_def valid_certificate_def issued_certificate_def dated_def rfc3339_laws_def
        split: option.splits prod.splits sum.splits)
qed

lemma anonymizeCSR_requester:
  "\<exists>sp. af_Spec (anonymizeCSR env r) = Some sp \<and> sf_Username sp = csr_Username r \<and> sf_Groups sp = csr_Groups r"
proof -
  have "af_Spec (anonymizeCSRCert env r c) = af_Spec c" for c
    by (simp add: anonymizeCSRCert_def Let_def split: option.split sum.split)
  then show ?thesis
    by (simp add: anonymizeCSR_def anonymizeCSRRequest_def Let_def split: option.split sum.split)
qed

text \<open>
  C35: Signing requests are recorded with their certificates masked.  When a time of the years 1 to 9999 is read back from
  the RFC 3339 layout with its whole seconds, and the certificates are of these years: the recorded requests are exactly, and
  in order, those without a certificate that is valid, to the second, at the time they are looked at, under their own name.  Of
  subjects and issuers only masked text is left, and of host names, mail addresses, IP addresses and URIs only the punctuation of an
  address; the name and the groups of the requester are recorded as they are.
\<close>

theorem csr_records:
  assumes "rfc3339_laws env" and "list_all (dated env) items"
    and "gatherCertificateSigningRequests env clock (Inr items) = (records, errs)"
  shows "map fst records = map (\<lambda>(i, r). ''config/certificatesigningrequests/'' @ csr_Name r)
      (filter (\<lambda>(i, r). \<not> valid_certificate env (clock i) r) (enumerate 0 items)) \<and>
    (\<forall>(name, c) \<in> set records. features_masked c \<and>
      (\<exists>r \<in> set items. \<exists>sp. af_Name c = csr_Name r \<and> af_Spec c = Some sp \<and>
        sf_Username sp = csr_Username r \<and> sf_Groups sp = csr_Groups r)) \<and>
    errs = []"
proof -
  let ?kept = "filter (\<lambda>(i, r). \<not> valid_certificate env (clock i) r) (enumerate 0 items)"
  have en: "enumerate 0 (map (anonymizeCSR env) items) = map (\<lambda>(i, r). (i, anonymizeCSR env r)) (enumerate 0 items)"
    by (simp add: enumerate_eq_zip zip_map2)
  have inc: "IncludeCSR env (clock i) (anonymizeCSR env r) = (\<not> valid_certificate env (clock i) r)" if "(i, r) \<in> set (enumerate 0 items)" for i r
  proof -
    from that have "r \<in> set items" by (auto simp: in_set_enumerate_eq)
    with assms(2) show ?thesis by (intro IncludeCSR_iff [OF assms(1)]) (simp add: list_all_iff)
  qed
  have kept: "filter (\<lambda>(i, c). IncludeCSR env (clock i) c) (enumerate 0 (map (anonymizeCSR env) items)) =
      map (\<lambda>(i, r). (i, anonymizeCSR env r)) ?kept"
    unfolding en filter_map using inc by (intro arg_cong [where f = "map _"] filter_cong) auto
  have r: "records = map (\<lambda>(i, r). (''config/certificatesigningrequests/'' @ af_Name (anonymizeCSR env r), anonymizeCSR env r)) ?kept"
    "errs = []"
    using assms(3) by (auto simp: gatherCertificateSigningRequests_def kept)
  have "map fst records = map (\<lambda>(i, r). ''config/certificatesigningrequests/'' @ csr_Name r) ?kept"
    unfolding r by (simp add: anonymizeCSR_cert(1) case_prod_beta comp_def)
  moreover have "features_masked c \<and> (\<exists>r \<in> set items. \<exists>sp. af_Name c = csr_Name r \<and> af_Spec c = Some sp \<and>
      sf_Username sp = csr_Username r \<and> sf_Groups sp = csr_Groups r)" if "(name, c) \<in> set records" for name c
  proof -
    from that obtain i x where x: "(i, x) \<in> set (enumerate 0 items)" "c = anonymizeCSR env x" unfolding r by auto
    then have "x \<in> set items" by (auto simp: in_set_enumerate_eq)
    with x(2) anonymizeCSR_masked anonymizeCSR_requester [of env x] anonymizeCSR_cert(1) show ?thesis by metis
  qed
  ultimately show ?thesis using r(2) by blast
qed

definition example_crypto :: crypto_env where
  "example_crypto =
     \<lparr>cy_pem = (\<lambda>b. if b = [] then None else Some (b, [])), cy_request = (\<lambda>_. Inl (Errorf ''request'')),
      cy_certificate = (\<lambda>b. Inr \<lparr>xc_Issuer = \<lparr>pn_CommonName = b, pn_Locality = [], pn_Province = [], pn_StreetAddress = [], pn_PostalCode = [],
          pn_Country = [], pn_Organization = [], pn_OrganizationalUnit = [], pn_SerialNumber = [], pn_Names = []\<rparr>,
        xc_Subject = \<lparr>pn_CommonName = b, pn_Locality = [], pn_Province = [], pn_StreetAddress = [], pn_PostalCode = [],
          pn_Country = [], pn_Organization = [], pn_OrganizationalUnit = [], pn_SerialNumber = [], pn_Names = []\<rparr>,
        xc_NotBefore = 5 * Second, xc_NotAfter = 10 * Second\<rparr>),
      cy_format = (\<lambda>t. replicate (nat t) CHR ''+''), cy_parse = (\<lambda>s. Inr (whole_seconds (int (length s))))\<rparr>"

definition example_csr :: "string \<Rightarrow> bytes \<Rightarrow> csr_object" where
  "example_csr name cert = \<lparr>csr_Name = name, csr_Meta = [], csr_Username = ''u'', csr_Groups = [], csr_Usages = [], csr_Request = [],
     csr_Conditions = [], csr_Certificate = cert\<rparr>"

lemma example_times: "rfc3339_laws example_crypto"
  by (simp add: rfc3339_laws_def example_crypto_def)

theorem csr_records_witness:
  "\<exists>records errs. gatherCertificateSigningRequests example_crypto (\<lambda>_. 7 * Second) (Inr [example_csr ''a'' [], example_csr ''b'' ''cert'']) =
      (records, errs) \<and> map fst records = [''config/certificatesigningrequests/a''] \<and> errs = []"
proof -
  let ?items = "[example_csr ''a'' [], example_csr ''b'' ''cert'']"
  obtain records errs where g: "gatherCertificateSigningRequests example_crypto (\<lambda>_. 7 * Second) (Inr ?items) = (records, errs)" by force
  have d: "list_all (dated example_crypto) ?items"
    by (auto simp: dated_def issued_certificate_def example_crypto_def year_10000_def split: option.splits prod.splits)
  have "filter (\<lambda>(i, r). \<not> valid_certificate example_crypto (7 * Second) r) (enumerate 0 ?items) = [(0, example_csr ''a'' [])]"
    by (simp add: valid_certificate_def issued_certificate_def example_csr_def example_crypto_def whole_seconds_def)
  moreover have "csr_Name (example_csr ''a'' []) = ''a''" by (simp add: example_csr_def)
  ultimately show ?thesis using csr_records [OF example_times d g] g by simp
qed

section \<open>The limit of ingress certificates\<close>

definition ingress_namespace :: "string \<Rightarrow> bool" where
  "ingress_namespace n = (n \<in> {''openshift-ingress-operator'', ''openshift-ingress''})"

definition info_ok :: "crypto_env \<Rightarrow> ingress_client \<Rightarrow> string \<times> string \<Rightarrow> CertificateInfo \<Rightarrow> bool" where
  "info_ok env client k i =
     (k = newCertificateInfoKey i \<and> ingress_namespace (ci_Namespace i) \<and>
      getCertificateInfoFromSecret env client (ci_Namespace i) (ci_Name i) = Inr (i\<lparr>ci_Controllers := []\<rparr>))"

definition certs_ok :: "crypto_env \<Rightarrow> ingress_client \<Rightarrow> cert_infos \<Rightarrow> bool" where
  "certs_ok env client m =
     (distinct (map fst m) \<and> length m \<le> ingressCertificatesLimits \<and> (\<forall>(k, i) \<in> set m. info_ok env client k i))"

lemma certificate_key:
  assumes "getCertificateInfoFromSecret env client namespace name = Inr i"
  shows "ci_Name i = name \<and> ci_Namespace i = namespace \<and> ci_Controllers i = []"
  using assms by (auto simp: getCertificateInfoFromSecret_def Let_def split: sum.splits option.splits)

lemma certificate_info_ok:
  assumes "getCertificateInfoFromSecret env client namespace name = Inr i" and "ingress_namespace namespace"
  shows "info_ok env client (newCertificateInfoKey i) i"
proof -
  from certificate_key [OF assms(1)] have "ci_Name i = name" "ci_Namespace i = namespace" "i\<lparr>ci_Controllers := []\<rparr> = i"
    by (cases i; simp)+
  with assms show ?thesis by (simp add: info_ok_def)
qed

lemma map_put_length: "length (map_put k v m) = (if map_has m k then length m else Suc (length m))"
  by (induction m) (auto simp: map_has_def)

lemma certs_ok_put:
  assumes "certs_ok env client m" and "length m < ingressCertificatesLimits" and "info_ok env client k i"
  shows "certs_ok env client (map_put k i m)"
proof -
  have "info_ok env client k' i'" if "(k', i') \<in> set (map_put k i m)" for k' i'
    using subsetD [OF set_map_put_subset that] assms(1,3) by (auto simp: certs_ok_def)
  moreover have "distinct (map fst (map_put k i m))" using assms(1) by (intro distinct_map_put) (simp add: certs_ok_def)
  ultimately show ?thesis using assms(2) by (auto simp: certs_ok_def map_put_length)
qed

lemma add_controller_ok:
  assumes "certs_ok env client m" and "length m < ingressCertificatesLimits"
    and "getCertificateInfoFromSecret env client namespace name = Inr info" and "ingress_namespace namespace"
  shows "certs_ok env client (add_controller info controller m)"
proof -
  define c where "c = (case map_get m (newCertificateInfoKey info) of Some c \<Rightarrow> c | None \<Rightarrow> info)"
  have "info_ok env client (newCertificateInfoKey info) c"
  proof (cases "map_get m (newCertificateInfoKey info)")
    case None
    with certificate_info_ok [OF assms(3,4)] show ?thesis by (simp add: c_def)
  next
    case (Some i)
    from map_of_SomeD [OF Some] assms(1) have "info_ok env client (newCertificateInfoKey info) i" by (auto simp: certs_ok_def)
    with Some show ?thesis by (simp add: c_def)
  qed
  then have "info_ok env client (newCertificateInfoKey info)
      (c\<lparr>ci_Controllers := ci_Controllers c @ [(ing_Name controller, ing_Namespace controller)]\<rparr>)"
    by (simp add: info_ok_def newCertificateInfoKey_def)
  from certs_ok_put [OF assms(1,2) this] show ?thesis by (simp add: add_controller_def Let_def c_def)
qed

definition entry_in :: "CertificateInfo \<Rightarrow> ingress_controller \<Rightarrow> cert_infos \<Rightarrow> bool" where
  "entry_in info controller m =
     (\<exists>i. map_get m (newCertificateInfoKey info) = Some i \<and> (ing_Name controller, ing_Namespace controller) \<in> set (ci_Controllers i))"

lemma entry_in_add: "entry_in info controller (add_controller info controller m)"
  "entry_in info controller m \<Longrightarrow> entry_in info controller (add_controller info' controller' m)"
  by (auto simp: entry_in_def add_controller_def Let_def split: option.split)

lemma controllers_step_ok:
  assumes "ingress_namespace namespace" and "certs_ok env client m"
    and "controllers_step env client namespace cs (m, errs) = (m', errs')"
  shows "certs_ok env client m' \<and> set errs \<subseteq> set errs' \<and> (\<forall>info c. entry_in info c m \<longrightarrow> entry_in info c m') \<and>
    (limit_error \<in> set errs' \<or> (\<forall>c \<in> set cs. \<forall>secret info. ing_DefaultCertificate c = Some secret \<longrightarrow>
       getCertificateInfoFromSecret env client namespace secret = Inr info \<longrightarrow> entry_in info c m'))"
  using assms(2,3)
proof (induction cs arbitrary: m errs)
  case (Cons c cs)
  show ?case
  proof (cases "ingressCertificatesLimits \<le> length m")
    case True
    with Cons.prems show ?thesis by auto
  next
    case False
    show ?thesis
    proof (cases "ing_DefaultCertificate c")
      case None
      with False Cons.prems(2) have "controllers_step env client namespace cs (m, errs) = (m', errs')" by simp
      from Cons.IH [OF Cons.prems(1) this] None show ?thesis by auto
    next
      case (Some secret)
      show ?thesis
      proof (cases "getCertificateInfoFromSecret env client namespace secret")
        case (Inl err)
        with False Some Cons.prems(2) have "controllers_step env client namespace cs (m, errs @ [err]) = (m', errs')" by simp
        from Cons.IH [OF Cons.prems(1) this] Some Inl show ?thesis by auto
      next
        case (Inr info)
        with False Some Cons.prems(2) have st: "controllers_step env client namespace cs (add_controller info c m, errs) = (m', errs')" by simp
        have "certs_ok env client (add_controller info c m)"
          by (rule add_controller_ok [OF Cons.prems(1) _ Inr assms(1)]) (use False in simp)
        from Cons.IH [OF this st] Some Inr entry_in_add show ?thesis by auto
      qed
    qed
  qed
qed simp

lemma router_step_ok:
  assumes "certs_ok env client (fst acc)" and "length (fst acc) < ingressCertificatesLimits"
    and "info = getCertificateInfoFromSecret env client namespace name" and "ingress_namespace namespace"
  shows "certs_ok env client (fst (router_step info acc)) \<and> length (fst (router_step info acc)) \<le> Suc (length (fst acc))"
proof (cases info)
  case (Inr i)
  with assms(3) have "getCertificateInfoFromSecret env client namespace name = Inr i" by simp
  from certs_ok_put [OF assms(1,2) certificate_info_ok [OF this assms(4)]] Inr show ?thesis
    by (simp add: router_step_def map_put_length)
qed (use assms(1) in \<open>simp add: router_step_def\<close>)

lemma ingress_namespaces: "ingress_namespace ''openshift-ingress-operator''" "ingress_namespace ''openshift-ingress''"
  by (simp_all add: ingress_namespace_def)

lemma routers_ok:
  "certs_ok env client (fst (router_step (getRouterCertsDefaultCertInfo env client) (router_step (getRouterCACertInfo env client) ([], []))))"
proof -
  let ?a = "router_step (getRouterCACertInfo env client) ([], [])"
  have "certs_ok env client (fst ([] :: cert_infos, [] :: go_error list))" by (simp add: certs_ok_def)
  from router_step_ok [OF this _ getRouterCACertInfo_def ingress_namespaces(1)]
  have a: "certs_ok env client (fst ?a)" "length (fst ?a) \<le> 1" by (simp_all add: ingressCertificatesLimits_def)
  from router_step_ok [OF a(1) _ getRouterCertsDefaultCertInfo_def ingress_namespaces(2)] a(2)
  show ?thesis by (simp add: ingressCertificatesLimits_def)
qed

lemma namespace_certs_ok:
  assumes "ingress_namespace namespace" and "certs_ok env client (fst acc)"
  shows "certs_ok env client (fst (namespace_certs env client namespace acc)) \<and> set (snd acc) \<subseteq> set (snd (namespace_certs env client namespace acc)) \<and>
    (\<forall>info c. entry_in info c (fst acc) \<longrightarrow> entry_in info c (fst (namespace_certs env client namespace acc))) \<and>
    (\<forall>cs. ig_controllers client namespace = Inr cs \<longrightarrow> limit_error \<in> set (snd (namespace_certs env client namespace acc)) \<or>
      (\<forall>c \<in> set cs. \<forall>secret info. ing_DefaultCertificate c = Some secret \<longrightarrow>
        getCertificateInfoFromSecret env client namespace secret = Inr info \<longrightarrow> entry_in info c (fst (namespace_certs env client namespace acc))))"
proof (cases "ig_controllers client namespace")
  case (Inl err)
  with assms(2) show ?thesis by (auto simp: namespace_certs_def)
next
  case (Inr cs)
  obtain m errs m' errs' where "acc = (m, errs)" "controllers_step env client namespace cs (m, errs) = (m', errs')" by (metis surj_pair)
  with Inr assms(2) controllers_step_ok [OF assms(1), of env client m cs errs m' errs'] show ?thesis
    by (simp add: namespace_certs_def)
qed

text \<open>
  C36: Certificates of ingress controllers are limited and complete below the limit.  At most 64 certificates are reported, each secret once, only of the
  two namespaces of the ingress, each with the dates of the certificate in its secret; and unless the limit is reported, every
  controller whose certificate can be read is listed with it.
\<close>

theorem ingress_certificates:
  assumes "gatherClusterIngressCertificates env client = (infos, errs)"
  shows "length infos \<le> 64 \<and> distinct (map newCertificateInfoKey infos) \<and>
    (\<forall>i \<in> set infos. ci_Namespace i \<in> {''openshift-ingress-operator'', ''openshift-ingress''} \<and>
       getCertificateInfoFromSecret env client (ci_Namespace i) (ci_Name i) = Inr (i\<lparr>ci_Controllers := []\<rparr>)) \<and>
    (limit_error \<in> set errs \<or>
     (\<forall>namespace \<in> {''openshift-ingress-operator'', ''openshift-ingress''}. \<forall>cs. ig_controllers client namespace = Inr cs \<longrightarrow>
       (\<forall>c \<in> set cs. \<forall>secret info. ing_DefaultCertificate c = Some secret \<longrightarrow> getCertificateInfoFromSecret env client namespace secret = Inr info \<longrightarrow>
          (\<exists>i \<in> set infos. newCertificateInfoKey i = newCertificateInfoKey info \<and>
             (ing_Name c, ing_Namespace c) \<in> set (ci_Controllers i)))))"
proof -
  define a0 where "a0 = router_step (getRouterCertsDefaultCertInfo env client) (router_step (getRouterCACertInfo env client) ([], []))"
  define a1 where "a1 = namespace_certs env client ''openshift-ingress-operator'' a0"
  define a2 where "a2 = namespace_certs env client ''openshift-ingress'' a1"
  from assms have r: "infos = map snd (fst a2)" "errs = snd a2"
    by (simp_all add: gatherClusterIngressCertificates_def a0_def a1_def a2_def Let_def case_prod_beta)
  have ok0: "certs_ok env client (fst a0)" using routers_ok by (simp add: a0_def)
  note ok1 = namespace_certs_ok [OF ingress_namespaces(1) ok0, folded a1_def]
  note ok2 = namespace_certs_ok [OF ingress_namespaces(2) conjunct1 [OF ok1], folded a2_def]
  have ok: "distinct (map fst (fst a2))" "length (fst a2) \<le> 64" "\<And>k i. (k, i) \<in> set (fst a2) \<Longrightarrow> info_ok env client k i"
    using conjunct1 [OF ok2] by (auto simp: certs_ok_def ingressCertificatesLimits_def)
  have keys: "map newCertificateInfoKey infos = map fst (fst a2)" unfolding r using ok(3) by (auto simp: info_ok_def)
  have "ci_Namespace i \<in> {''openshift-ingress-operator'', ''openshift-ingress''} \<and>
      getCertificateInfoFromSecret env client (ci_Namespace i) (ci_Name i) = Inr (i\<lparr>ci_Controllers := []\<rparr>)" if "i \<in> set infos" for i
  proof -
    from that r obtain k where "(k, i) \<in> set (fst a2)" by auto
    from ok(3) [OF this] show ?thesis unfolding info_ok_def ingress_namespace_def by blast
  qed
  moreover have entry: "\<exists>i \<in> set infos. newCertificateInfoKey i = newCertificateInfoKey info \<and> (ing_Name c, ing_Namespace c) \<in> set (ci_Controllers i)"
    if "entry_in info c (fst a2)" for info c
  proof -
    from that obtain i where i: "map_get (fst a2) (newCertificateInfoKey info) = Some i" "(ing_Name c, ing_Namespace c) \<in> set (ci_Controllers i)"
      unfolding entry_in_def by blast
    from map_of_SomeD [OF i(1)] ok(3) have "newCertificateInfoKey i = newCertificateInfoKey info" by (auto simp: info_ok_def)
    moreover have "i \<in> set infos" using map_of_SomeD [OF i(1)] unfolding r by force
    ultimately show ?thesis using i(2) by blast
  qed
  moreover have "distinct (map newCertificateInfoKey infos)" unfolding keys by (rule ok(1))
  ultimately show ?thesis using ok(2) ok1 ok2 r by (intro conjI) (simp, blast, blast, blast)
qed

definition example_ingress :: ingress_client where
  "example_ingress = \<lparr>ig_secret = (\<lambda>ns name. Inr [(''tls.crt'', ''cert'')]),
     ig_controllers = (\<lambda>ns. if ns = ''openshift-ingress'' then Inr [\<lparr>ing_Name = ''c'', ing_Namespace = ns, ing_DefaultCertificate = Some ''mine''\<rparr>] else Inr [])\<rparr>"

theorem ingress_certificates_witness:
  "\<exists>infos errs. gatherClusterIngressCertificates example_crypto example_ingress = (infos, errs) \<and> length infos \<le> 64 \<and> errs = []"
proof -
  obtain infos errs where g: "gatherClusterIngressCertificates example_crypto example_ingress = (infos, errs)" by force
  have "errs = []" using g by (simp add: gatherClusterIngressCertificates_def example_ingress_def example_crypto_def getRouterCACertInfo_def
      getRouterCertsDefaultCertInfo_def getCertificateInfoFromSecret_def router_step_def namespace_certs_def newCertificateInfoKey_def
      ingressCertificatesLimits_def add_controller_def Let_def)
  with ingress_certificates [OF g] g show ?thesis by simp
qed

section \<open>Install plans are counted\<close>

definition item_key :: "plan_item \<Rightarrow> string option" where
  "item_key item = (case item of PlanObject (Inr names) (Inr ns) (Inr genName) \<Rightarrow> Some (plan_key ns genName (plan_csv names)) | _ \<Rightarrow> None)"

definition plan_count :: "plans \<Rightarrow> string \<Rightarrow> int" where
  "plan_count recs k = (case map_get recs k of None \<Rightarrow> 0 | Some p \<Rightarrow> cp_Count p)"

lemma collectInstallPlan_count:
  assumes "collectInstallPlan item recs = Inr recs'"
  shows "\<exists>key. item_key item = Some key \<and> (\<forall>k. plan_count recs' k = plan_count recs k + (if k = key then 1 else 0)) \<and>
    (distinct (map fst recs) \<longrightarrow> distinct (map fst recs'))"
proof -
  from assms obtain names ns genName where item: "item = PlanObject (Inr names) (Inr ns) (Inr genName)"
    by (auto simp: collectInstallPlan_def split: plan_item.splits sum.splits)
  let ?key = "plan_key ns genName (plan_csv names)"
  from assms item obtain p where "recs' = map_put ?key p recs" "cp_Count p = plan_count recs ?key + 1"
    by (auto simp: collectInstallPlan_def plan_count_def Let_def split: option.splits)
  then show ?thesis using item by (auto simp: item_key_def plan_count_def distinct_map_put)
qed

lemma collect_items_count:
  assumes "collect_items items recs = Inr recs'"
  shows "plan_count recs' k = plan_count recs k + int (length (filter (\<lambda>i. item_key i = Some k) items)) \<and>
    (distinct (map fst recs) \<longrightarrow> distinct (map fst recs'))"
  using assms
proof (induction items arbitrary: recs)
  case (Cons item items)
  from Cons.prems obtain recs1 where c: "collectInstallPlan item recs = Inr recs1" "collect_items items recs1 = Inr recs'"
    by (auto split: sum.splits)
  from collectInstallPlan_count [OF c(1)] Cons.IH [OF c(2)] show ?case by auto
qed simp

lemma collect_pages_count:
  assumes "collect_pages pages (recs, n) = Inr (recs', n')" and "distinct (map fst recs)"
  shows "plan_count recs' k = plan_count recs k + int (length (filter (\<lambda>i. item_key i = Some k) (concat (map (case_sum (\<lambda>_. []) id) pages)))) \<and>
    n' = n + int (length (concat (map (case_sum (\<lambda>_. []) id) pages))) \<and> distinct (map fst recs')"
  using assms
proof (induction pages arbitrary: recs n)
  case (Cons page pages)
  from Cons.prems(1) obtain items recs1 where c: "page = Inr items" "collect_items items recs = Inr recs1"
    "collect_pages pages (recs1, n + int (length items)) = Inr (recs', n')"
    by (cases page) (auto split: sum.splits)
  from collect_items_count [OF c(2), of k] Cons.IH [OF c(3)] Cons.prems(2) c(1) show ?case by auto
qed simp

text \<open>
  Install plans are counted exactly.  When the plans are recorded: the total is the number of plans listed in the namespaces of the platform, and
  for every namespace, name and service version the count is the number of the plans with them.
\<close>

lemma plans_counted:
  assumes "gatherInstallPlans namespaces pages = (Some (recs, n), errs)"
  shows "\<exists>names. namespaces = Inr names \<and> errs = [] \<and> distinct (map fst recs) \<and>
    (let items = concat (map (case_sum (\<lambda>_. []) id) (concat (map pages (filter platform_namespace names))))
     in n = int (length items) \<and> (\<forall>k. plan_count recs k = int (length (filter (\<lambda>i. item_key i = Some k) items))))"
proof -
  from assms obtain names where n: "namespaces = Inr names" "errs = []"
    "collect_pages (concat (map pages (filter platform_namespace names))) ([], 0) = Inr (recs, n)"
    by (auto simp: gatherInstallPlans_def split: sum.splits)
  from collect_pages_count [OF n(3)] have "plan_count recs k = int (length (filter (\<lambda>i. item_key i = Some k)
      (concat (map (case_sum (\<lambda>_. []) id) (concat (map pages (filter platform_namespace names)))))))"
    "n = int (length (concat (map (case_sum (\<lambda>_. []) id) (concat (map pages (filter platform_namespace names))))))" "distinct (map fst recs)" for k
    by (simp_all add: plan_count_def)
  with n show ?thesis by (auto simp: Let_def)
qed

text \<open>At most the limit of plans is written, each with at least the count of the plan at the limit.\<close>

lemma select_plans_bound:
  assumes "0 < limit" and "uls < limit"
  shows "uls + length (select_plans countLimit limit vs uls) \<le> limit \<and> (\<forall>v \<in> set (select_plans countLimit limit vs uls). v \<in> set vs \<and> countLimit \<le> cp_Count v)"
  using assms
proof (induction vs arbitrary: uls)
  case (Cons v vs)
  show ?case
  proof (cases "countLimit \<le> cp_Count v")
    case True
    with Cons.IH [of "Suc uls"] Cons.prems show ?thesis by (cases "limit \<le> Suc uls") auto
  next
    case False
    with Cons.IH [of uls] Cons.prems show ?thesis by (auto simp: not_le)
  qed
qed simp

lemma plans_written:
  assumes "plans_Marshal limit recs n = (stats, plans)"
  shows "stats = (n, int (length recs)) \<and> length plans \<le> (if limit = 0 then 100 else limit) \<and> set plans \<subseteq> snd ` set recs \<and>
    sorted (map (\<lambda>v. - cp_Count v) plans)"
proof -
  let ?l = "if limit = 0 then 100 else limit"
  from assms obtain cl where "stats = (n, int (length recs))" "plans = sort_key (\<lambda>v. - cp_Count v) (select_plans cl ?l (map snd recs) 0)"
    unfolding plans_Marshal_def Let_def prod.inject by metis
  moreover have "0 < ?l" by simp
  note b = select_plans_bound [OF this this, of cl "map snd recs"]
  ultimately show ?thesis by auto
qed

text \<open>
  Among plans with equal counts at the limit the iteration order decides, and then a plan with a higher count can be left out: here
  the plan with five installations is dropped for two with three.
\<close>

lemma frequent_plan_dropped:
  "map cp_Count (snd (plans_Marshal 2
     [(''a'', \<lparr>cp_Namespace = [], cp_Name = [], cp_CSV = [], cp_Count = 3\<rparr>), (''b'', \<lparr>cp_Namespace = [], cp_Name = [], cp_CSV = [], cp_Count = 3\<rparr>),
      (''c'', \<lparr>cp_Namespace = [], cp_Name = [], cp_CSV = [], cp_Count = 5\<rparr>)] 11)) = [3, 3]"
  by (simp add: plans_Marshal_def Let_def insort_key_def)

section \<open>Images are counted\<close>

definition get2 :: "('a, ('b, int) gomap) gomap \<Rightarrow> 'a \<Rightarrow> 'b \<Rightarrow> int" where
  "get2 m a b = (case map_get m a of None \<Rightarrow> 0 | Some c \<Rightarrow> (case map_get c b of None \<Rightarrow> 0 | Some n \<Rightarrow> n))"

definition counts_keyed :: "('a, ('b, int) gomap) gomap \<Rightarrow> bool" where
  "counts_keyed m = (distinct (map fst m) \<and> (\<forall>(a, c) \<in> set m. distinct (map fst c)))"

lemma count_image_get: "get2 (count_image month img m) a b = get2 m a b + (if a = img \<and> b = month then 1 else 0)"
  by (auto simp: count_image_def get2_def split: option.splits)

lemma count_image_keyed: "counts_keyed m \<Longrightarrow> counts_keyed (count_image month img m)"
proof -
  assume k: "counts_keyed m"
  define c where "c = (case map_get m img of Some c \<Rightarrow> map_put month ((case map_get c month of None \<Rightarrow> 0 | Some n \<Rightarrow> n) + 1) c | None \<Rightarrow> [(month, 1)])"
  have c: "count_image month img m = map_put img c m" by (simp add: count_image_def c_def split: option.split)
  have "distinct (map fst c)"
    using k by (auto simp: c_def counts_keyed_def split: option.split dest!: map_of_SomeD intro!: distinct_map_put)
  with k show ?thesis unfolding c counts_keyed_def
    using set_map_put_subset [of img c m] by (auto intro!: distinct_map_put)
qed

definition image_count :: "(string \<Rightarrow> string result) \<Rightarrow> string \<Rightarrow> string list \<Rightarrow> int" where
  "image_count parse img containers = int (length (filter (\<lambda>i. minimal_image parse i = Some img) containers))"

lemma gatherImages_get:
  "get2 (gatherImages parse month cs m) a b = get2 m a b + (if b = month then image_count parse a cs else 0)"
  "counts_keyed m \<Longrightarrow> counts_keyed (gatherImages parse month cs m)"
  unfolding gatherImages_def
  by (induction cs arbitrary: m) (auto simp: image_count_def count_image_get count_image_keyed split: option.split)

definition pod_images :: "image_pod \<Rightarrow> string list" where
  "pod_images p = (if crashing_platform_pod p \<or> \<not> imp_Running p then [] else imp_Images p @ imp_InitImages p @ imp_EphemeralImages p)"

lemma image_pod_step_get:
  "get2 (snd (image_pod_step parse p acc)) a b = get2 (snd acc) a b + (if b = imp_Month p then image_count parse a (pod_images p) else 0)"
  "counts_keyed (snd acc) \<Longrightarrow> counts_keyed (snd (image_pod_step parse p acc))"
  by (auto simp: image_pod_step_def pod_images_def gatherImages_get image_count_def case_prod_beta)

definition month_images :: "string \<Rightarrow> image_pod list \<Rightarrow> string list" where
  "month_images month pods = concat (map pod_images (filter (\<lambda>p. imp_Month p = month) pods))"

lemma image_pods_get:
  "get2 (snd (fold (image_pod_step parse) pods acc)) a b = get2 (snd acc) a b + image_count parse a (month_images b pods)"
  "counts_keyed (snd acc) \<Longrightarrow> counts_keyed (snd (fold (image_pod_step parse) pods acc))"
  by (induction pods arbitrary: acc) (auto simp: image_pod_step_get image_count_def month_images_def)

lemma image_pages_get:
  assumes "image_pages parse pages acc = Inr acc'"
  shows "get2 (snd acc') a b = get2 (snd acc) a b + image_count parse a (month_images b (concat (map (case_sum (\<lambda>_. []) id) pages))) \<and>
    (counts_keyed (snd acc) \<longrightarrow> counts_keyed (snd acc'))"
  using assms
  by (induction parse pages acc rule: image_pages.induct) (auto simp: image_pods_get image_count_def month_images_def)

lemma PodsWithAge_Add_get: "get2 (PodsWithAge_Add month i n p) a b = get2 p a b + (if a = month \<and> b = i then n else 0)"
  by (auto simp: PodsWithAge_Add_def get2_def split: option.splits)

lemma adds_get:
  assumes "distinct (map fst counts)"
  shows "get2 (fold (\<lambda>(month, cnt) p. PodsWithAge_Add month i cnt p) counts p) a b =
    get2 p a b + (if b = i then (case map_get counts a of None \<Rightarrow> 0 | Some n \<Rightarrow> n) else 0)"
  using assms
proof (induction counts arbitrary: p)
  case (Cons c counts)
  obtain month n where c: "c = (month, n)" by force
  with Cons.prems have "map_get counts month = None" by (auto simp: map_of_eq_None_iff)
  with Cons c show ?case by (auto simp: PodsWithAge_Add_get)
qed simp

lemma report_images_get:
  assumes "\<forall>(img, counts) \<in> set entries. distinct (map fst counts)" and "\<forall>a b. length (ci_Images info) \<le> b \<longrightarrow> get2 (ci_Containers info) a b = 0"
    and "length (ci_Images info) \<le> i" and "i < length (ci_Images (report_images entries t info))"
  shows "i - length (ci_Images info) < length entries \<and>
    ci_Images (report_images entries t info) ! i = fst (entries ! (i - length (ci_Images info))) \<and>
    get2 (ci_Containers (report_images entries t info)) a i =
      (case map_get (snd (entries ! (i - length (ci_Images info)))) a of None \<Rightarrow> 0 | Some n \<Rightarrow> n)"
proof -
  have keep: "j < length (ci_Images info) \<Longrightarrow> ci_Images (report_images entries t info) ! j = ci_Images info ! j \<and>
      get2 (ci_Containers (report_images entries t info)) a j = get2 (ci_Containers info) a j \<and> j < length (ci_Images (report_images entries t info))"
    if "\<forall>(img, counts) \<in> set entries. distinct (map fst counts)" for j a info t entries
    using that
  proof (induction entries arbitrary: t info)
    case (Cons e entries)
    obtain img counts where e: "e = (img, counts)" by force
    with Cons.prems(2) have "distinct (map fst counts)" by simp
    with Cons e show ?case by (auto simp: Let_def adds_get nth_append)
  qed simp
  show ?thesis
    using assms
  proof (induction entries arbitrary: t info)
    case Nil
    then show ?case by simp
  next
    case (Cons e entries)
    obtain img counts where e: "e = (img, counts)" by force
    with Cons.prems(1) have d: "distinct (map fst counts)" by simp
    let ?info = "\<lparr>ci_Images = ci_Images info @ [img],
      ci_Containers = fold (\<lambda>(month, cnt) p. PodsWithAge_Add month (length (ci_Images info)) cnt p) counts (ci_Containers info)\<rparr>"
    from Cons.prems(3,4) e have r: "report_images (e # entries) t info = report_images entries (t + length counts) ?info"
      by (auto simp: Let_def split: if_splits)
    have fresh: "\<forall>a b. length (ci_Images ?info) \<le> b \<longrightarrow> get2 (ci_Containers ?info) a b = 0"
      using Cons.prems(2) by (simp add: adds_get [OF d])
    show ?case
    proof (cases "i = length (ci_Images info)")
      case True
      have "\<forall>(img, counts) \<in> set entries. distinct (map fst counts)" using Cons.prems(1) by simp
      from keep [OF this, of i ?info "t + length counts" a] True e Cons.prems(2) show ?thesis
        unfolding r by (simp add: adds_get [OF d])
    next
      case False
      with Cons.prems(3) have l: "length (ci_Images ?info) \<le> i" by simp
      have ent: "\<forall>(img, counts) \<in> set entries. distinct (map fst counts)" using Cons.prems(1) by simp
      have lt: "i < length (ci_Images (report_images entries (t + length counts) ?info))" using Cons.prems(4) unfolding r .
      have idx: "i - length (ci_Images info) = Suc (i - length (ci_Images ?info))" using l by simp
      show ?thesis unfolding r idx using Cons.IH [OF ent fresh l lt] by simp
    qed
  qed
qed

text \<open>
  Images of running containers are counted.  For every reported image and every month, the reported number is the number of containers (also
  init and ephemeral ones) with that image in the running pods created in that month; pods of the platform in a crash loop are recorded instead and not
  counted.  No image is reported twice.
\<close>

lemma images_counted:
  assumes "gatherContainerImages parse pages = Inr (records, info)" and "i < length (ci_Images info)"
  shows "get2 (ci_Containers info) month i =
      image_count parse (ci_Images info ! i) (month_images month (concat (map (case_sum (\<lambda>_. []) id) pages))) \<and>
    distinct (ci_Images info)"
proof -
  let ?key = "\<lambda>(img, counts). - sum_list (map snd counts) :: int"
  from assms(1) obtain m where m: "image_pages parse pages ([], []) = Inr (records, m)"
    "info = report_images (sort_key ?key m) 0 \<lparr>ci_Images = [], ci_Containers = []\<rparr>"
    by (auto simp: gatherContainerImages_def split: sum.splits)
  let ?es = "sort_key ?key m"
  from image_pages_get [OF m(1)] have k: "counts_keyed m" and
    g: "get2 m a b = image_count parse a (month_images b (concat (map (case_sum (\<lambda>_. []) id) pages)))" for a b
    by (simp_all add: counts_keyed_def get2_def)
  have ds: "\<forall>(img, counts) \<in> set ?es. distinct (map fst counts)" "distinct (map fst m)" using k by (auto simp: counts_keyed_def)
  have r: "j < length ?es \<and> ci_Images info ! j = fst (?es ! j) \<and>
      get2 (ci_Containers info) a j = (case map_get (snd (?es ! j)) a of None \<Rightarrow> 0 | Some n \<Rightarrow> n)" if "j < length (ci_Images info)" for j a
    using report_images_get [OF ds(1), of "\<lparr>ci_Images = [], ci_Containers = []\<rparr>" j 0 a] that m(2) by (simp add: get2_def)
  have "(fst (?es ! i), snd (?es ! i)) \<in> set m" using r [OF assms(2)] nth_mem [of i ?es] by auto
  then have "map_get m (ci_Images info ! i) = Some (snd (?es ! i))" using r [OF assms(2)] ds(2) by (simp add: map_of_is_SomeI)
  then have "get2 (ci_Containers info) month i = get2 m (ci_Images info ! i) month" using r [OF assms(2), of month] by (simp add: get2_def)
  moreover have "distinct (ci_Images info)"
  proof -
    have "distinct (map fst ?es)"
      using ds(2) by (metis (no_types) distinct_map distinct_sort set_sort)
    moreover have "length (ci_Images info) \<le> length ?es" using r by (meson not_le_imp_less less_irrefl)
    then have "ci_Images info = take (length (ci_Images info)) (map fst ?es)"
      using r by (intro nth_equalityI) auto
    ultimately show ?thesis by (metis distinct_take)
  qed
  ultimately show ?thesis using g by simp
qed

definition example_image_pod :: image_pod where
  "example_image_pod = \<lparr>pod_pending = False, pod_created = 0, pod_initStatuses = [], pod_statuses = [], imp_Namespace = ''n'', imp_Name = ''p'',
     imp_Env = [], imp_Running = True, imp_Month = ''2024-01'', imp_Images = [''img'', ''img''], imp_InitImages = [''img''], imp_EphemeralImages = []\<rparr>"

section \<open>Certificates in config maps\<close>

text \<open>
  A config map is anonymised when it is a sequence of blocks and nothing else; with anything after the last block it is recorded as it is.
  The decoding of a block consumes bytes, so the loop ends.
\<close>

lemma anonymize_blocks_ends:
  assumes "\<And>r block r'. decode r = Some (block, r') \<Longrightarrow> length r' < length r" and "length r < n"
  shows "\<exists>s. anonymize_blocks n decode dv r sb = Some s \<and> (s = dv \<or> (\<exists>k. s = sb @ concat (replicate (Suc k) anonymizedPemBlock)))"
  using assms(2)
proof (induction n arbitrary: r sb)
  case (Suc n)
  show ?case
  proof (cases "decode r")
    case (Some p)
    obtain block r' where p: "p = (block, r')" by force
    with Some assms(1) have "length r' < length r" by blast
    with Suc.prems have "length r' < n" by simp
    from Suc.IH [OF this, of "sb @ anonymizedPemBlock"] obtain s where s: "anonymize_blocks n decode dv r' (sb @ anonymizedPemBlock) = Some s"
      "s = dv \<or> (\<exists>k. s = (sb @ anonymizedPemBlock) @ concat (replicate (Suc k) anonymizedPemBlock))" by blast
    show ?thesis
    proof (cases "length r' = 0")
      case True
      with Some p show ?thesis by (auto simp: Let_def intro!: exI [of _ 0])
    next
      case False
      with Some p s have e: "anonymize_blocks (Suc n) decode dv r sb = Some s" by (simp add: Let_def)
      from s(2) have "s = dv \<or> (\<exists>k. s = sb @ concat (replicate (Suc (Suc k)) anonymizedPemBlock))" by simp
      with e show ?thesis by blast
    qed
  qed simp
qed simp

lemma config_map_anonymized:
  assumes "\<And>r block r'. decode r = Some (block, r') \<Longrightarrow> length r' < length r"
  shows "\<exists>s. anonymizeConfigMap decode dv = Some s \<and> (s = dv \<or> (\<exists>k. s = concat (replicate (Suc k) anonymizedPemBlock)))"
  using anonymize_blocks_ends [where decode = decode and r = dv and n = "Suc (length dv)" and dv = dv and sb = "[]", OF assms]
  by (simp add: anonymizeConfigMap_def)

lemma trailing_bytes_in_clear:
  assumes "decode dv = Some (block, r)" and "r \<noteq> []" and "decode r = None" and "dv \<noteq> []"
  shows "anonymizeConfigMap decode dv = Some dv"
  using assms by (cases dv) (auto simp: anonymizeConfigMap_def Let_def)

end
