(* ===== verification/OperatorPods.thy ===== *)
theory OperatorPods
  imports Recorder
begin

text \<open>
  pkg/gatherers/clusterconfig: gather_cluster_operator_pods_and_events.go, events_filtering.go and
  gather_openshift_machine_api_events.go, the events, pod definitions and container logs of unhealthy operators.

  The API server is the record \<open>op_client\<close>: its lists, and the answer to a request for a log, which is an error or the chunks
  in which the log is read and an error at the end.  The buffer that the code reuses for all logs is a state with
  its capacity, because the code asks for at most as many bytes as the buffer has room for; \<open>alloc\<close> is the
  capacity the runtime gives for a size.  The requests made are part of the state.  A record is its name and what it holds.
\<close>

section \<open>Events\<close>

record k8s_event =
  ev_Namespace :: string
  ev_LastTimestamp :: time
  ev_Series :: "time option"
  ev_Reason :: string
  ev_Message :: string
  ev_Type :: string

record CompactedEvent =
  ce_Namespace :: string
  ce_LastTimestamp :: time
  ce_Reason :: string
  ce_Message :: string
  ce_Type :: string

definition isEventNew :: "k8s_event \<Rightarrow> time \<Rightarrow> bool" where
  "isEventNew event oldestEventTime =
     (if oldestEventTime < ev_LastTimestamp event then True
      else if ev_LastTimestamp event = 0
      then (case ev_Series event of None \<Rightarrow> False | Some observed \<Rightarrow> oldestEventTime < observed)
      else False)"

definition getEventsForInterval :: "time \<Rightarrow> duration \<Rightarrow> k8s_event list \<Rightarrow> k8s_event list" where
  "getEventsForInterval now interval events = filter (\<lambda>e. isEventNew e (now - interval)) events"

definition isEventAbnormal :: "k8s_event \<Rightarrow> bool" where
  "isEventAbnormal event = (ev_Type event \<noteq> ''Normal'')"

definition filterAbnormalEvents :: "k8s_event list \<Rightarrow> k8s_event list" where
  "filterAbnormalEvents events = filter isEventAbnormal events"

definition compact_event :: "k8s_event \<Rightarrow> CompactedEvent" where
  "compact_event event =
     (let c = \<lparr>ce_Namespace = ev_Namespace event, ce_LastTimestamp = ev_LastTimestamp event, ce_Reason = ev_Reason event,
                ce_Message = ev_Message event, ce_Type = ev_Type event\<rparr>
      in if ev_LastTimestamp event = 0
         then (case ev_Series event of None \<Rightarrow> c | Some observed \<Rightarrow> c\<lparr>ce_LastTimestamp := observed\<rparr>)
         else c)"

definition eventListToCompactedEventList :: "k8s_event list \<Rightarrow> CompactedEvent list" where
  "eventListToCompactedEventList events = sort_key ce_LastTimestamp (map compact_event events)"

section \<open>Operators and pods\<close>

record ObjectReference =
  ref_Group :: string
  ref_Resource :: string
  ref_Namespace :: string
  ref_Name :: string

record cluster_operator =
  cop_Name :: string
  cop_Conditions :: "(string \<times> string) list"
  cop_RelatedObjects :: "ObjectReference list"

record op_container =
  opc_Name :: string
  opc_Env :: "env_var list"

record op_pod = pod +
  opp_Namespace :: string
  opp_Name :: string
  opp_InitContainers :: "op_container list"
  opp_Containers :: "op_container list"

definition isOperatorConditionDegraded :: "string \<times> string \<Rightarrow> bool" where
  "isOperatorConditionDegraded c = (fst c = ''Degraded'' \<and> snd c = ''True'')"

definition isOperatorConditionAvailable :: "string \<times> string \<Rightarrow> bool" where
  "isOperatorConditionAvailable c = (fst c = ''Available'' \<and> snd c = ''False'')"

definition isHealthyOperator :: "cluster_operator \<Rightarrow> bool" where
  "isHealthyOperator operator =
     (\<not> list_ex (\<lambda>c. isOperatorConditionDegraded c \<or> isOperatorConditionAvailable c) (cop_Conditions operator))"

definition namespacesForOperator :: "cluster_operator \<Rightarrow> string list" where
  "namespacesForOperator operator =
     map ref_Name (filter (\<lambda>r. ref_Resource r = ''namespaces'') (cop_RelatedObjects operator))"

definition isPodRestarted :: "op_pod \<Rightarrow> bool" where
  "isPodRestarted p =
     (list_ex (\<lambda>s. 0 < cs_restartCount s) (pod_initStatuses p) \<or> list_ex (\<lambda>s. 0 < cs_restartCount s) (pod_statuses p))"

definition getAllRelatedPods :: "op_pod list \<Rightarrow> op_pod list \<times> int" where
  "getAllRelatedPods pods =
     (pods, sum_list (map (\<lambda>p. int (length (opp_InitContainers p) + length (opp_Containers p))) pods))"

section \<open>Stack traces\<close>

definition logMaxTailLines :: int where "logMaxTailLines = 100"
definition logMaxLongTailLines :: int where "logMaxLongTailLines = 2000"
definition logLinesOffset :: nat where "logLinesOffset = 20"
definition logStackTraceMaxLines :: nat where "logStackTraceMaxLines = 40"
definition logStackTraceBeginningLimit :: nat where "logStackTraceBeginningLimit = 35"
definition logStackTraceEndLimit :: nat where "logStackTraceEndLimit = 5"

text \<open>The expression of a line of a stack trace: \<open>.go:\<close>, digits, one white space and \<open>+0x\<close>.\<close>

definition stack_position :: "string \<Rightarrow> bool" where
  "stack_position s =
     (prefix ''.go:'' s \<and>
      (let r = drop 4 s; d = dropWhile is_digit r
       in takeWhile is_digit r \<noteq> [] \<and>
          (case d of [] \<Rightarrow> False
           | c # d' \<Rightarrow> c \<in> {CHR '' '', CHR 0x09, CHR 0x0A, CHR 0x0C, CHR 0x0D} \<and> prefix ''+0x'' d')))"

definition stackTraceRegex_MatchString :: "string \<Rightarrow> bool" where
  "stackTraceRegex_MatchString s = list_ex stack_position (suffixes s)"

definition getLogWithStacktracing :: "string list \<Rightarrow> string" where
  "getLogWithStacktracing logArray =
     (let hit = (\<lambda>i. stackTraceRegex_MatchString (logArray ! i));
          stackTraceStart = (case find hit [0..<length logArray] of None \<Rightarrow> 0 | Some i \<Rightarrow> i);
          stackTraceEnd = (case find hit (rev [0..<length logArray]) of None \<Rightarrow> 0 | Some i \<Rightarrow> i);
          stackTraceEnd = (if stackTraceEnd < stackTraceStart then stackTraceStart else stackTraceEnd);
          stackTraceLen = stackTraceEnd - stackTraceStart
      in if stackTraceLen > logStackTraceMaxLines
         then (let from = stackTraceStart - logLinesOffset;
                   to = min (length logArray) (from + logStackTraceBeginningLimit)
               in join_with [CHR 0x0A] (take (to - from) (drop from logArray)) @
                  [CHR 0x0A] @ ''... ('' @ itoa (int (stackTraceLen - logStackTraceMaxLines)) @ '' stacktrace lines suppressed) ...'' @ [CHR 0x0A] @
                  join_with [CHR 0x0A] (drop (stackTraceEnd - logStackTraceEndLimit) logArray))
         else join_with [CHR 0x0A] (drop (stackTraceStart - logLinesOffset) logArray))"

section \<open>Reading logs\<close>

record log_request =
  lr_Namespace :: string
  lr_Pod :: string
  lr_Container :: string
  lr_Previous :: bool
  lr_TailLines :: int
  lr_LimitBytes :: nat

text \<open>The buffer: its capacity and what it holds.  Reading makes room for 512 bytes before every read, the last one included.\<close>

record log_buffer =
  lb_cap :: nat
  lb_data :: bytes

record log_state =
  ls_buf :: log_buffer
  ls_requests :: "log_request list"

definition buffer_grow :: "(nat \<Rightarrow> nat) \<Rightarrow> log_buffer \<Rightarrow> log_buffer" where
  "buffer_grow alloc b =
     (if length (lb_data b) + 512 \<le> lb_cap b then b
      else b\<lparr>lb_cap := alloc (max (length (lb_data b) + 512) (2 * lb_cap b))\<rparr>)"

fun buffer_ReadFrom :: "(nat \<Rightarrow> nat) \<Rightarrow> bytes list \<Rightarrow> log_buffer \<Rightarrow> log_buffer" where
  "buffer_ReadFrom alloc [] b = buffer_grow alloc b"
| "buffer_ReadFrom alloc (chunk # chunks) b =
     (let b = buffer_grow alloc b in buffer_ReadFrom alloc chunks (b\<lparr>lb_data := lb_data b @ chunk\<rparr>))"

record op_client =
  ocl_operators :: "cluster_operator list result"
  ocl_pods :: "string \<Rightarrow> op_pod list result"
  ocl_events :: "string \<Rightarrow> k8s_event list result"
  ocl_log :: "log_request \<Rightarrow> (bytes list \<times> go_error option) result"
  ocl_now :: time

definition logFilename :: "string \<Rightarrow> bool \<Rightarrow> string" where
  "logFilename name prev = (if prev then name @ ''_previous.log'' else name @ ''_current.log'')"

definition fetchPodContainerLog ::
  "(nat \<Rightarrow> nat) \<Rightarrow> op_client \<Rightarrow> op_pod \<Rightarrow> string \<Rightarrow> bool \<Rightarrow> int \<Rightarrow> log_state \<Rightarrow> go_error option \<times> log_state" where
  "fetchPodContainerLog alloc client p containerName isPrevious tailLines st =
     (let req = \<lparr>lr_Namespace = opp_Namespace p, lr_Pod = opp_Name p, lr_Container = containerName, lr_Previous = isPrevious,
                  lr_TailLines = tailLines, lr_LimitBytes = lb_cap (ls_buf st)\<rparr>;
          st = st\<lparr>ls_requests := ls_requests st @ [req]\<rparr>
      in case ocl_log client req of
           Inl err \<Rightarrow> (Some err, st)
         | Inr (chunks, err) \<Rightarrow> (err, st\<lparr>ls_buf := buffer_ReadFrom alloc chunks (ls_buf st)\<rparr>))"

definition getContainerLogString ::
  "(nat \<Rightarrow> nat) \<Rightarrow> op_client \<Rightarrow> op_pod \<Rightarrow> string \<Rightarrow> bool \<Rightarrow> int \<Rightarrow> log_state \<Rightarrow> string result \<times> log_state" where
  "getContainerLogString alloc client p name isPrevious tailLines st =
     (case fetchPodContainerLog alloc client p name isPrevious tailLines (st\<lparr>ls_buf := (ls_buf st)\<lparr>lb_data := []\<rparr>\<rparr>) of
        (Some err, st) \<Rightarrow> (Inl err, st)
      | (None, st) \<Rightarrow>
          if length (lb_data (ls_buf st)) = 0 then (Inl (Errorf ''log buffer is empty''), st)
          else (Inr (lb_data (ls_buf st)), st))"

section \<open>Records\<close>

datatype op_item = EventsItem "CompactedEvent list" | PodItem op_pod | RawItem string

type_synonym op_record = "string \<times> op_item"

definition container_log ::
  "(nat \<Rightarrow> nat) \<Rightarrow> op_client \<Rightarrow> op_pod \<Rightarrow> bool \<Rightarrow> op_container \<Rightarrow> op_record list \<times> log_state \<Rightarrow> op_record list \<times> log_state" where
  "container_log alloc client p isPrevious c acc =
     (let (records, st) = acc;
          name = ''config/pod/'' @ opp_Namespace p @ ''/logs/'' @ opp_Name p @ ''/'' @ logFilename (opc_Name c) isPrevious
      in if isPrevious \<and> \<not> isPodRestarted p then acc
         else case getContainerLogString alloc client p (opc_Name c) isPrevious logMaxTailLines st of
                (Inl err, st) \<Rightarrow> (records, st)
              | (Inr logString, st) \<Rightarrow>
                  if stackTraceRegex_MatchString logString
                  then (case getContainerLogString alloc client p (opc_Name c) isPrevious logMaxLongTailLines st of
                          (Inl err, st) \<Rightarrow> (records, st)
                        | (Inr logString, st) \<Rightarrow>
                            (records @ [(name, RawItem (getLogWithStacktracing (split_on (CHR 0x0A) logString)))], st))
                  else (records @ [(name, RawItem logString)], st))"

definition getContainerLogs ::
  "(nat \<Rightarrow> nat) \<Rightarrow> op_client \<Rightarrow> op_pod \<Rightarrow> bool \<Rightarrow> log_state \<Rightarrow> op_record list \<times> log_state" where
  "getContainerLogs alloc client p isPrevious st =
     fold (container_log alloc client p isPrevious) (opp_InitContainers p @ opp_Containers p) ([], st)"

definition anonymize_pod :: "op_pod \<Rightarrow> op_pod" where
  "anonymize_pod p = p\<lparr>opp_Containers := map (\<lambda>c. c\<lparr>opc_Env := map sensitiveEnvVar (opc_Env c)\<rparr>) (opp_Containers p)\<rparr>"

definition pod_records ::
  "(nat \<Rightarrow> nat) \<Rightarrow> op_client \<Rightarrow> op_pod \<Rightarrow> op_record list \<times> log_state \<Rightarrow> op_record list \<times> log_state" where
  "pod_records alloc client p acc =
     (let (records, st) = acc;
          (records, st) =
            (if \<not> IsHealthyPod (pod.truncate p) (ocl_now client)
             then (let (previousLog, st) = getContainerLogs alloc client (anonymize_pod p) True st
                   in (records @ [(''config/pod/'' @ opp_Namespace p @ ''/'' @ opp_Name p, PodItem (anonymize_pod p))] @ previousLog, st))
             else (records, st));
          (currentLog, st) = getContainerLogs alloc client p False st
      in (records @ currentLog, st))"

definition gatherPodsAndTheirContainersLogs ::
  "(nat \<Rightarrow> nat) \<Rightarrow> op_client \<Rightarrow> op_pod list \<Rightarrow> int \<Rightarrow> (op_record list \<times> log_request list) result" where
  "gatherPodsAndTheirContainersLogs alloc client pods bufferSize =
     (if bufferSize \<le> 0 then Inl (Errorf (''invalid buffer size '' @ itoa bufferSize))
      else let (records, st) = fold (pod_records alloc client) pods
                 ([], \<lparr>ls_buf = \<lparr>lb_cap = nat bufferSize, lb_data = []\<rparr>, ls_requests = []\<rparr>)
           in Inr (records, ls_requests st))"

definition gatherNamespaceEvents :: "op_client \<Rightarrow> string \<Rightarrow> duration \<Rightarrow> op_record list result" where
  "gatherNamespaceEvents client namespace interval =
     (if \<not> prefix ''openshift-'' namespace then Inr []
      else case ocl_events client namespace of
             Inl err \<Rightarrow> Inl err
           | Inr events \<Rightarrow>
               let filteredEvents = getEventsForInterval (ocl_now client) interval events
               in if length filteredEvents = 0 then Inr []
                  else Inr [(''events/'' @ namespace, EventsItem (eventListToCompactedEventList filteredEvents))])"

record unhealthy_state =
  us_pods :: "op_pod list"
  us_records :: "op_record list"
  us_total :: int
  us_collected :: "string list"

definition namespace_step :: "op_client \<Rightarrow> duration \<Rightarrow> string \<Rightarrow> unhealthy_state \<Rightarrow> unhealthy_state" where
  "namespace_step client interval namespace st =
     (case ocl_pods client namespace of
        Inl err \<Rightarrow> st
      | Inr podList \<Rightarrow>
          let (nsPods, nsTotal) = getAllRelatedPods podList;
              st = st\<lparr>us_pods := us_pods st @ nsPods, us_total := us_total st + nsTotal\<rparr>
          in if namespace \<in> set (us_collected st) then st
             else case gatherNamespaceEvents client namespace interval of
                    Inl err \<Rightarrow> st
                  | Inr eventRecords \<Rightarrow>
                      st\<lparr>us_records := us_records st @ eventRecords, us_collected := namespace # us_collected st\<rparr>)"

definition unhealthyClusterOperator :: "op_client \<Rightarrow> duration \<Rightarrow> cluster_operator list \<Rightarrow> unhealthy_state" where
  "unhealthyClusterOperator client interval items =
     fold (\<lambda>item st. if isHealthyOperator item then st else fold (namespace_step client interval) (namespacesForOperator item) st)
       items \<lparr>us_pods = [], us_records = [], us_total = 0, us_collected = []\<rparr>"

definition logCompressionRatio :: int where "logCompressionRatio = 2"

definition gatherClusterOperatorPodsAndEvents ::
  "(nat \<Rightarrow> nat) \<Rightarrow> op_client \<Rightarrow> duration \<Rightarrow> op_record list \<times> go_error option" where
  "gatherClusterOperatorPodsAndEvents alloc client interval =
     (case ocl_operators client of
        Inl err \<Rightarrow> ([], if isNotFound err then None else Some err)
      | Inr items \<Rightarrow>
          let st = unhealthyClusterOperator client interval items
          in if length (us_pods st) = 0 \<or> us_total st \<le> 0 then (us_records st, None)
             else let bufferSize = go_quot (go_quot (MaxArchiveSize * logCompressionRatio) (us_total st)) 2
                  in case gatherPodsAndTheirContainersLogs alloc client (us_pods st) bufferSize of
                       Inl err \<Rightarrow> (us_records st, None)
                     | Inr (clogs, _) \<Rightarrow> (us_records st @ clogs, None))"

definition gatherOpenshiftMachineAPIEvents :: "op_client \<Rightarrow> duration \<Rightarrow> op_record list result" where
  "gatherOpenshiftMachineAPIEvents client interval =
     (case ocl_events client ''openshift-machine-api'' of
        Inl err \<Rightarrow> Inl err
      | Inr events \<Rightarrow>
          let filteredEvents = filterAbnormalEvents (getEventsForInterval (ocl_now client) interval events)
          in if length filteredEvents = 0 then Inr []
             else Inr [(''events/openshift-machine-api'', EventsItem (eventListToCompactedEventList filteredEvents))])"

section \<open>Recent events\<close>

lemma compact_event_time:
  assumes "isEventNew e oldest" and "0 \<le> oldest"
  shows "oldest < ce_LastTimestamp (compact_event e)"
  using assms by (auto simp: isEventNew_def compact_event_def Let_def split: if_splits option.splits)

text \<open>
  The events of a namespace: only of the platform, exactly the recent ones, in the order of time; the record is left out when there are none.
\<close>

lemma events_recent:
  assumes "gatherNamespaceEvents client namespace interval = Inr records" and "interval \<le> ocl_now client"
    and "(name, item) \<in> set records"
  shows "\<exists>events compacted. prefix ''openshift-'' namespace \<and> ocl_events client namespace = Inr events \<and>
    name = ''events/'' @ namespace \<and> item = EventsItem compacted \<and> compacted \<noteq> [] \<and>
    mset compacted = image_mset compact_event (mset (filter (\<lambda>e. isEventNew e (ocl_now client - interval)) events)) \<and>
    sorted (map ce_LastTimestamp compacted) \<and> (\<forall>c \<in> set compacted. ocl_now client - interval < ce_LastTimestamp c)"
proof -
  from assms(1,3) obtain events where e: "prefix ''openshift-'' namespace" "ocl_events client namespace = Inr events"
    "getEventsForInterval (ocl_now client) interval events \<noteq> []" "name = ''events/'' @ namespace"
    "item = EventsItem (eventListToCompactedEventList (getEventsForInterval (ocl_now client) interval events))"
    by (auto simp: gatherNamespaceEvents_def Let_def split: if_splits sum.splits)
  let ?c = "eventListToCompactedEventList (getEventsForInterval (ocl_now client) interval events)"
  have "mset ?c = image_mset compact_event (mset (filter (\<lambda>e. isEventNew e (ocl_now client - interval)) events))"
    by (simp add: eventListToCompactedEventList_def getEventsForInterval_def)
  moreover have "sorted (map ce_LastTimestamp ?c)" by (simp add: eventListToCompactedEventList_def)
  moreover have "ocl_now client - interval < ce_LastTimestamp c" if "c \<in> set ?c" for c
    using that compact_event_time assms(2) by (auto simp: eventListToCompactedEventList_def getEventsForInterval_def)
  moreover have "?c \<noteq> []" using e(3) by (metis eventListToCompactedEventList_def length_0_conv length_map length_sort)
  ultimately show ?thesis using e by blast
qed

lemma events_recent_record:
  assumes "gatherNamespaceEvents client namespace interval = Inr records" and "r \<in> set records"
  shows "\<exists>events compacted. r = (''events/'' @ namespace, EventsItem compacted) \<and> prefix ''openshift-'' namespace \<and>
    ocl_events client namespace = Inr events \<and>
    mset compacted = image_mset compact_event (mset (filter (\<lambda>e. isEventNew e (ocl_now client - interval)) events)) \<and>
    sorted (map ce_LastTimestamp compacted)"
  using assms
  by (auto simp: gatherNamespaceEvents_def eventListToCompactedEventList_def getEventsForInterval_def Let_def
      split: if_splits sum.splits)

section \<open>The budget of the logs\<close>

lemma buffer_grow_keeps: "length (lb_data b) + 512 \<le> lb_cap b \<Longrightarrow> buffer_grow alloc b = b"
  by (simp add: buffer_grow_def)

lemma buffer_ReadFrom_fits:
  "length (lb_data b) + length (concat chunks) + 512 \<le> lb_cap b \<Longrightarrow>
    buffer_ReadFrom alloc chunks b = b\<lparr>lb_data := lb_data b @ concat chunks\<rparr>"
  by (induction chunks arbitrary: b) (simp_all add: buffer_grow_keeps Let_def)

lemma buffer_grow_cap:
  assumes "\<And>n. n \<le> alloc n"
  shows "lb_cap b \<le> lb_cap (buffer_grow alloc b)" "lb_data (buffer_grow alloc b) = lb_data b"
    "lb_cap b < length (lb_data b) + 512 \<Longrightarrow> 2 * lb_cap b \<le> lb_cap (buffer_grow alloc b)"
  using assms [of "max (length (lb_data b) + 512) (2 * lb_cap b)"] by (auto simp: buffer_grow_def)

lemma buffer_ReadFrom_grows:
  assumes "\<And>n. n \<le> alloc n"
  shows "lb_data (buffer_ReadFrom alloc chunks b) = lb_data b @ concat chunks \<and> lb_cap b \<le> lb_cap (buffer_ReadFrom alloc chunks b) \<and>
    (lb_cap b < length (lb_data b) + length (concat chunks) + 512 \<longrightarrow> 2 * lb_cap b \<le> lb_cap (buffer_ReadFrom alloc chunks b))"
proof (induction chunks arbitrary: b)
  case Nil
  then show ?case using buffer_grow_cap [OF assms, of b] by simp
next
  case (Cons chunk chunks)
  let ?b = "(buffer_grow alloc b)\<lparr>lb_data := lb_data (buffer_grow alloc b) @ chunk\<rparr>"
  note g = buffer_grow_cap [OF assms, of b]
  show ?case
  proof (cases "lb_cap (buffer_grow alloc b) = lb_cap b")
    case True
    with Cons.IH [of ?b] g show ?thesis by (auto simp: Let_def)
  next
    case False
    then have "lb_cap b < length (lb_data b) + 512" by (auto simp: buffer_grow_def split: if_splits)
    with Cons.IH [of ?b] g show ?thesis by (auto simp: Let_def)
  qed
qed

text \<open>
  A log that comes within 512 bytes of its limit doubles the limit of every later request: the buffer grows while it is read,
  and the code takes its capacity as the next limit.
\<close>

lemma full_log_doubles_limit:
  assumes "\<And>n. n \<le> alloc n"
    and "getContainerLogString alloc client p name prev tail st = (Inr log, st')"
    and "lb_cap (ls_buf st) < length log + 512"
  shows "2 * lb_cap (ls_buf st) \<le> lb_cap (ls_buf st')"
proof -
  from assms(2) obtain chunks where
    "ls_buf st' = buffer_ReadFrom alloc chunks ((ls_buf st)\<lparr>lb_data := []\<rparr>)" "log = lb_data (ls_buf st')"
    by (auto simp: getContainerLogString_def fetchPodContainerLog_def Let_def split: sum.splits prod.splits option.splits if_splits)
  with buffer_ReadFrom_grows [OF assms(1), of chunks "(ls_buf st)\<lparr>lb_data := []\<rparr>"] assms(3) show ?thesis by simp
qed

definition quiet :: "op_client \<Rightarrow> bool" where
  "quiet client = (\<forall>req chunks err. ocl_log client req = Inr (chunks, err) \<longrightarrow> length (concat chunks) + 512 \<le> lr_LimitBytes req)"

text \<open>At most \<open>k\<close> of at most \<open>l\<close> requests are for a short log; every request is for a short or for a long one, and within the limit.\<close>

definition requests_ok :: "nat \<Rightarrow> nat \<Rightarrow> nat \<Rightarrow> log_state \<Rightarrow> bool" where
  "requests_ok c k l st =
     (lb_cap (ls_buf st) = c \<and>
      list_all (\<lambda>r. lr_LimitBytes r = c \<and> lr_TailLines r \<in> {logMaxTailLines, logMaxLongTailLines}) (ls_requests st) \<and>
      length (filter (\<lambda>r. lr_TailLines r = logMaxTailLines) (ls_requests st)) \<le> k \<and> length (ls_requests st) \<le> l)"

lemma requests_ok_mono: "requests_ok c k l st \<Longrightarrow> k \<le> k' \<Longrightarrow> l \<le> l' \<Longrightarrow> requests_ok c k' l' st"
  by (simp add: requests_ok_def)

lemma getContainerLogString_ok:
  assumes "quiet client" and "requests_ok c k l st" and "getContainerLogString alloc client p name prev tail st = (r, st')"
    and "tail \<in> {logMaxTailLines, logMaxLongTailLines}"
  shows "requests_ok c (if tail = logMaxTailLines then Suc k else k) (Suc l) st'"
proof -
  let ?st = "st\<lparr>ls_buf := (ls_buf st)\<lparr>lb_data := []\<rparr>\<rparr>"
  let ?req = "\<lparr>lr_Namespace = opp_Namespace p, lr_Pod = opp_Name p, lr_Container = name, lr_Previous = prev, lr_TailLines = tail,
    lr_LimitBytes = lb_cap (ls_buf st)\<rparr>"
  have "ls_requests st' = ls_requests st @ [?req] \<and> lb_cap (ls_buf st') = lb_cap (ls_buf st)"
  proof (cases "ocl_log client ?req")
    case (Inl err)
    with assms(3) show ?thesis by (auto simp: getContainerLogString_def fetchPodContainerLog_def Let_def)
  next
    case (Inr a)
    obtain chunks err where a: "a = (chunks, err)" by force
    have "length (concat chunks) + 512 \<le> lr_LimitBytes ?req"
      by (rule assms(1) [unfolded quiet_def, rule_format]) (simp add: Inr a)
    then have "length (concat chunks) + 512 \<le> lb_cap (ls_buf st)" by simp
    then have "buffer_ReadFrom alloc chunks ((ls_buf st)\<lparr>lb_data := []\<rparr>) = (ls_buf st)\<lparr>lb_data := concat chunks\<rparr>"
      by (subst buffer_ReadFrom_fits) simp_all
    with Inr a assms(3) show ?thesis
      by (cases err) (auto simp: getContainerLogString_def fetchPodContainerLog_def Let_def split: if_splits)
  qed
  with assms(2,4) show ?thesis by (auto simp: requests_ok_def)
qed

lemma container_log_ok:
  assumes "quiet client" and "requests_ok c k l (snd acc)"
  shows "requests_ok c (Suc k) (l + 2) (snd (container_log alloc client p prev ct acc))"
proof -
  obtain records st where acc: "acc = (records, st)" by force
  have ne: "logMaxLongTailLines \<noteq> logMaxTailLines" by (simp add: logMaxLongTailLines_def logMaxTailLines_def)
  obtain r1 st1 where g1: "getContainerLogString alloc client p (opc_Name ct) prev logMaxTailLines st = (r1, st1)" by force
  obtain r2 st2 where g2: "getContainerLogString alloc client p (opc_Name ct) prev logMaxLongTailLines st1 = (r2, st2)" by force
  have ok1: "requests_ok c (Suc k) (Suc l) st1" using getContainerLogString_ok [OF assms(1) _ g1, of c k l] assms(2) acc by simp
  have ok2: "requests_ok c (Suc k) (l + 2) st2" using getContainerLogString_ok [OF assms(1) ok1 g2] ne by simp
  from assms(2) acc have "requests_ok c (Suc k) (l + 2) st" by (auto intro: requests_ok_mono)
  moreover from ok1 have "requests_ok c (Suc k) (l + 2) st1" by (auto intro: requests_ok_mono)
  ultimately show ?thesis using acc g1 g2 ok2 by (auto simp: container_log_def Let_def split: sum.splits)
qed

lemma container_logs_ok:
  assumes "quiet client" and "requests_ok c k (2 * k) (snd acc)"
  shows "requests_ok c (k + length cs) (2 * (k + length cs)) (snd (fold (container_log alloc client p prev) cs acc))"
  using assms(2)
proof (induction cs arbitrary: acc k)
  case (Cons ct cs)
  from container_log_ok [OF assms(1) Cons.prems, of alloc p prev ct]
  have "requests_ok c (Suc k) (2 * Suc k) (snd (container_log alloc client p prev ct acc))" by simp
  from Cons.IH [OF this] show ?case by simp
qed simp

definition container_count :: "op_pod list \<Rightarrow> nat" where
  "container_count pods = sum_list (map (\<lambda>p. length (opp_InitContainers p) + length (opp_Containers p)) pods)"

lemma getContainerLogs_ok:
  assumes "quiet client" and "requests_ok c k (2 * k) st" and "getContainerLogs alloc client p prev st = (rs, st')"
    and "k + (length (opp_InitContainers p) + length (opp_Containers p)) = n"
  shows "requests_ok c n (2 * n) st'"
  using container_logs_ok [OF assms(1), of c k "([], st)" "opp_InitContainers p @ opp_Containers p" alloc p prev] assms(2-)
  by (auto simp: getContainerLogs_def)

lemma anonymize_pod_sel [simp]:
  "opp_InitContainers (anonymize_pod p) = opp_InitContainers p" "length (opp_Containers (anonymize_pod p)) = length (opp_Containers p)"
  "opp_Namespace (anonymize_pod p) = opp_Namespace p" "opp_Name (anonymize_pod p) = opp_Name p"
  "pod_initStatuses (anonymize_pod p) = pod_initStatuses p" "pod_statuses (anonymize_pod p) = pod_statuses p"
  "map opc_Name (opp_Containers (anonymize_pod p)) = map opc_Name (opp_Containers p)"
  by (simp_all add: anonymize_pod_def comp_def)

lemma pod_records_ok:
  assumes "quiet client" and "requests_ok c k (2 * k) (snd acc)"
    and "n = k + 2 * (length (opp_InitContainers p) + length (opp_Containers p))"
  shows "requests_ok c n (2 * n) (snd (pod_records alloc client p acc))"
proof -
  let ?n = "length (opp_InitContainers p) + length (opp_Containers p)"
  obtain records st where acc: "acc = (records, st)" by force
  obtain r1 st1 where g1: "getContainerLogs alloc client (anonymize_pod p) True st = (r1, st1)" by force
  obtain r2 st2 where g2: "getContainerLogs alloc client p False st1 = (r2, st2)" by force
  obtain r3 st3 where g3: "getContainerLogs alloc client p False st = (r3, st3)" by force
  have ok: "requests_ok c k (2 * k) st" using assms(2) acc by simp
  have ok1: "requests_ok c (k + ?n) (2 * (k + ?n)) st1" using getContainerLogs_ok [OF assms(1) ok g1, of "k + ?n"] by simp
  have "requests_ok c n (2 * n) st2"
    by (rule requests_ok_mono [OF getContainerLogs_ok [OF assms(1) ok1 g2 refl]]) (simp_all add: assms(3))
  moreover have "requests_ok c n (2 * n) st3"
    by (rule requests_ok_mono [OF getContainerLogs_ok [OF assms(1) ok g3 refl]]) (simp_all add: assms(3))
  ultimately show ?thesis using acc g1 g2 g3 by (simp add: pod_records_def)
qed

lemma pods_records_ok:
  assumes "quiet client" and "requests_ok c k (2 * k) (snd acc)" and "n = k + 2 * container_count pods"
  shows "requests_ok c n (2 * n) (snd (fold (pod_records alloc client) pods acc))"
  using assms(2,3)
proof (induction pods arbitrary: acc k)
  case (Cons p pods)
  from Cons.IH [OF pod_records_ok [OF assms(1) Cons.prems(1) refl, of p alloc]] Cons.prems(2) show ?case
    by (simp add: container_count_def algebra_simps)
qed (simp add: container_count_def)

text \<open>The logs among the records: at most one of every container, before and after a restart.\<close>

definition is_log :: "op_record \<Rightarrow> bool" where
  "is_log r = (case snd r of RawItem _ \<Rightarrow> True | _ \<Rightarrow> False)"

definition log_count :: "op_record list \<Rightarrow> nat" where "log_count rs = length (filter is_log rs)"

lemma log_count_simps [simp]:
  "log_count [] = 0" "log_count (rs @ rs') = log_count rs + log_count rs'" "log_count ((n, PodItem q) # rs) = log_count rs"
  by (simp_all add: log_count_def is_log_def)

lemma container_log_adds:
  "fst (container_log alloc client p prev c acc) = fst acc \<or>
   ((prev \<longrightarrow> isPodRestarted p) \<and> (\<exists>s. fst (container_log alloc client p prev c acc) = fst acc @
      [(''config/pod/'' @ opp_Namespace p @ ''/logs/'' @ opp_Name p @ ''/'' @ logFilename (opc_Name c) prev, RawItem s)]))"
  by (simp add: container_log_def Let_def split: prod.split sum.split)

lemma container_log_count: "log_count (fst (container_log alloc client p prev c acc)) \<le> Suc (log_count (fst acc))"
proof -
  have one: "log_count (rs @ [(n, RawItem q)]) = Suc (log_count rs)" for rs n q by (simp add: log_count_def is_log_def)
  from container_log_adds [of alloc client p prev c acc] show ?thesis
    by (elim disjE conjE exE) (simp_all only: one le_refl le_SucI)
qed

lemma getContainerLogs_count:
  assumes "getContainerLogs alloc client p prev st = (rs, st')"
  shows "log_count rs \<le> length (opp_InitContainers p) + length (opp_Containers p)"
proof -
  have "log_count (fst (fold (container_log alloc client p prev) cs acc)) \<le> log_count (fst acc) + length cs" for cs acc
  proof (induction cs arbitrary: acc)
    case (Cons c cs)
    from Cons.IH [of "container_log alloc client p prev c acc"] container_log_count [of alloc client p prev c acc] show ?case by simp
  qed simp
  from this [of "opp_InitContainers p @ opp_Containers p" "([], st)"] assms show ?thesis by (simp add: getContainerLogs_def)
qed

lemma pod_records_count:
  "log_count (fst (pod_records alloc client p acc)) \<le>
    log_count (fst acc) + 2 * (length (opp_InitContainers p) + length (opp_Containers p))"
proof -
  obtain records st where acc: "acc = (records, st)" by force
  obtain r1 st1 where g1: "getContainerLogs alloc client (anonymize_pod p) True st = (r1, st1)" by force
  obtain r2 st2 where g2: "getContainerLogs alloc client p False st1 = (r2, st2)" by force
  obtain r3 st3 where g3: "getContainerLogs alloc client p False st = (r3, st3)" by force
  from getContainerLogs_count [OF g1] getContainerLogs_count [OF g2] getContainerLogs_count [OF g3] show ?thesis
    using acc g1 g2 g3 by (simp add: pod_records_def)
qed

lemma pods_records_count:
  "log_count (fst (fold (pod_records alloc client) pods acc)) \<le> log_count (fst acc) + 2 * container_count pods"
proof (induction pods arbitrary: acc)
  case (Cons p pods)
  from Cons.IH [of "pod_records alloc client p acc"] pod_records_count [of alloc client p acc] show ?case
    by (simp add: container_count_def)
qed (simp add: container_count_def)

lemma int_sum_list: "int (sum_list (map f xs)) = sum_list (map (\<lambda>x. int (f x)) xs)"
  by (induction xs) simp_all

lemma us_total_count:
  "us_total (unhealthyClusterOperator client interval items) = int (container_count (us_pods (unhealthyClusterOperator client interval items)))"
proof -
  let ?P = "\<lambda>st. us_total st = int (container_count (us_pods st))"
  have s: "?P st \<Longrightarrow> ?P (namespace_step client interval ns st)" for ns st
    by (auto simp: namespace_step_def getAllRelatedPods_def container_count_def Let_def int_sum_list split: sum.splits)
  have n: "?P st \<Longrightarrow> ?P (fold (namespace_step client interval) nss st)" for nss st
    by (induction nss arbitrary: st) (auto intro: s)
  have "?P st \<Longrightarrow> ?P (fold (\<lambda>item st. if isHealthyOperator item then st else fold (namespace_step client interval) (namespacesForOperator item) st) items st)" for st
    by (induction items arbitrary: st) (auto intro: n)
  then show ?thesis by (simp add: unhealthyClusterOperator_def container_count_def)
qed

text \<open>
  C34: The logs of unhealthy operators stay within the budget.  When the pods and containers found get the share of the buffer
  that the code computes, and no answer comes within 512 bytes of its limit: every request asks for at most that share; there
  are at most two logs per container, the current and the previous one, and at most four requests per container, because a log with
  a stack trace is asked for again in a longer form that replaces it; so all the requests of 100 lines ask for at most twice the
  size of an archive, and all the requests, the repeated ones included, for at most four times that size.
\<close>

theorem log_budget:
  assumes "quiet client" and "st = unhealthyClusterOperator client interval items"
    and "bufferSize = go_quot (go_quot (MaxArchiveSize * logCompressionRatio) (us_total st)) 2" and "0 < us_total st"
    and "gatherPodsAndTheirContainersLogs alloc client (us_pods st) bufferSize = Inr (records, requests)"
  shows "list_all (\<lambda>r. int (lr_LimitBytes r) = bufferSize \<and> lr_TailLines r \<in> {100, 2000}) requests \<and>
    int (log_count records) \<le> 2 * us_total st \<and>
    int (length (filter (\<lambda>r. lr_TailLines r = 100) requests)) \<le> 2 * us_total st \<and>
    int (length requests) \<le> 4 * us_total st \<and>
    2 * us_total st * bufferSize \<le> 2 * MaxArchiveSize \<and>
    (\<Sum>r \<leftarrow> requests. int (lr_LimitBytes r)) \<le> 4 * MaxArchiveSize"
proof -
  let ?st0 = "\<lparr>ls_buf = \<lparr>lb_cap = nat bufferSize, lb_data = []\<rparr>, ls_requests = []\<rparr>"
  let ?n = "us_total st"
  from assms(5) have pos: "0 < bufferSize" and
    req: "requests = ls_requests (snd (fold (pod_records alloc client) (us_pods st) ([], ?st0)))" and
    recs: "records = fst (fold (pod_records alloc client) (us_pods st) ([], ?st0))"
    by (auto simp: gatherPodsAndTheirContainersLogs_def case_prod_beta split: if_splits)
  have n: "?n = int (container_count (us_pods st))" using us_total_count assms(2) by blast
  have "requests_ok (nat bufferSize) 0 (2 * 0) (snd (([] :: op_record list), ?st0))" by (simp add: requests_ok_def)
  from pods_records_ok [OF assms(1) this refl, of "us_pods st" alloc] req
  have ok: "list_all (\<lambda>r. lr_LimitBytes r = nat bufferSize \<and> lr_TailLines r \<in> {logMaxTailLines, logMaxLongTailLines}) requests"
    "length (filter (\<lambda>r. lr_TailLines r = logMaxTailLines) requests) \<le> 2 * container_count (us_pods st)"
    "length requests \<le> 4 * container_count (us_pods st)"
    by (simp_all add: requests_ok_def)
  have all: "list_all (\<lambda>r. int (lr_LimitBytes r) = bufferSize \<and> lr_TailLines r \<in> {100, 2000}) requests"
    using ok(1) pos by (simp add: list_all_iff logMaxTailLines_def logMaxLongTailLines_def)
  have short: "int (length (filter (\<lambda>r. lr_TailLines r = 100) requests)) \<le> 2 * ?n"
    using ok(2) unfolding logMaxTailLines_def n by simp
  have "int (length requests) \<le> int (4 * container_count (us_pods st))" using ok(3) by (simp only: of_nat_le_iff)
  then have len: "int (length requests) \<le> 4 * ?n" by (simp add: n)
  have "log_count records \<le> 2 * container_count (us_pods st)"
    using pods_records_count [of alloc client "us_pods st" "([], ?st0)"] recs by simp
  then have "int (log_count records) \<le> int (2 * container_count (us_pods st))" by (simp only: of_nat_le_iff)
  then have logs: "int (log_count records) \<le> 2 * ?n" by (simp add: n)
  have share: "2 * ?n * bufferSize \<le> 2 * MaxArchiveSize"
  proof -
    have b: "bufferSize = MaxArchiveSize * 2 div ?n div 2"
      using assms(3,4) by (simp add: go_quot_nonneg logCompressionRatio_def MaxArchiveSize_def pos_imp_zdiv_nonneg_iff)
    have "2 * bufferSize \<le> MaxArchiveSize * 2 div ?n" by (simp add: b)
    then have "?n * (2 * bufferSize) \<le> ?n * (MaxArchiveSize * 2 div ?n)" using assms(4) by simp
    also have "\<dots> \<le> MaxArchiveSize * 2"
      using mult_div_mod_eq [of ?n "MaxArchiveSize * 2"] pos_mod_sign [OF assms(4), of "MaxArchiveSize * 2"] by linarith
    finally show ?thesis by (simp add: algebra_simps)
  qed
  have "(\<Sum>r \<leftarrow> requests. int (lr_LimitBytes r)) = int (length requests) * bufferSize"
    using all by (induction requests) (simp_all add: algebra_simps)
  also have "\<dots> \<le> 4 * ?n * bufferSize" using len pos by (intro mult_right_mono) simp_all
  also have "\<dots> \<le> 4 * MaxArchiveSize" using share by simp
  finally show ?thesis using all short len logs share by blast
qed

definition example_op_pod :: op_pod where
  "example_op_pod = \<lparr>pod_pending = False, pod_created = 0, pod_initStatuses = [],
     pod_statuses = [\<lparr>cs_restartCount = 1, cs_lastTerminatedExit = None, cs_lastWaiting = False, cs_terminatedExit = None\<rparr>],
     opp_Namespace = ''openshift-dns'', opp_Name = ''p'', opp_InitContainers = [], opp_Containers = [\<lparr>opc_Name = ''c'', opc_Env = []\<rparr>]\<rparr>"

definition example_op_client :: op_client where
  "example_op_client =
     \<lparr>ocl_operators = Inr [\<lparr>cop_Name = ''dns'', cop_Conditions = [(''Degraded'', ''True'')],
        cop_RelatedObjects = [\<lparr>ref_Group = [], ref_Resource = ''namespaces'', ref_Namespace = [], ref_Name = ''openshift-dns''\<rparr>]\<rparr>],
      ocl_pods = (\<lambda>ns. if ns = ''openshift-dns'' then Inr [example_op_pod] else Inr []), ocl_events = (\<lambda>_. Inr []),
      ocl_log = (\<lambda>r. if 515 \<le> lr_LimitBytes r then Inr ([''log''], None) else Inl (Errorf [])), ocl_now = 100\<rparr>"

definition example_items :: "cluster_operator list" where
  "example_items = (case ocl_operators example_op_client of Inl _ \<Rightarrow> [] | Inr items \<Rightarrow> items)"

lemma example_unhealthy:
  "unhealthyClusterOperator example_op_client 10 example_items =
     \<lparr>us_pods = [example_op_pod], us_records = [], us_total = 1, us_collected = [''openshift-dns'']\<rparr>"
  by (simp add: unhealthyClusterOperator_def example_items_def example_op_client_def isHealthyOperator_def isOperatorConditionDegraded_def
      isOperatorConditionAvailable_def namespacesForOperator_def namespace_step_def getAllRelatedPods_def gatherNamespaceEvents_def
      getEventsForInterval_def example_op_pod_def)

lemma example_quiet: "quiet example_op_client"
  by (auto simp: quiet_def example_op_client_def split: if_splits)

theorem log_budget_witness:
  "\<exists>records requests. gatherPodsAndTheirContainersLogs (\<lambda>n. n) example_op_client [example_op_pod] (MaxArchiveSize * 2 div 2) = Inr (records, requests) \<and>
    int (log_count records) \<le> 2 \<and> (\<Sum>r \<leftarrow> requests. int (lr_LimitBytes r)) \<le> 4 * MaxArchiveSize"
proof -
  let ?st = "unhealthyClusterOperator example_op_client 10 example_items"
  have b: "go_quot (go_quot (MaxArchiveSize * logCompressionRatio) (us_total ?st)) 2 = MaxArchiveSize"
    by (simp add: example_unhealthy go_quot_nonneg logCompressionRatio_def MaxArchiveSize_def)
  obtain records requests where g: "gatherPodsAndTheirContainersLogs (\<lambda>n. n) example_op_client (us_pods ?st) MaxArchiveSize = Inr (records, requests)"
    by (auto simp: gatherPodsAndTheirContainersLogs_def MaxArchiveSize_def case_prod_beta)
  have "0 < us_total ?st" by (simp add: example_unhealthy)
  from log_budget [OF example_quiet refl b [symmetric] this g] have "int (log_count records) \<le> 2 \<and>
      (\<Sum>r \<leftarrow> requests. int (lr_LimitBytes r)) \<le> 4 * MaxArchiveSize"
    by (simp add: example_unhealthy)
  with g show ?thesis by (auto simp: example_unhealthy)
qed

section \<open>What is gathered of unhealthy operators\<close>

text \<open>A container whose proxy variables, by name, are overwritten with as many crosses as they had characters.\<close>

definition proxies_masked :: "op_container \<Rightarrow> op_container \<Rightarrow> bool" where
  "proxies_masked c d =
     (opc_Name d = opc_Name c \<and>
      list_all2 (\<lambda>(n, v) (n', v'). n' = n \<and>
          v' = (if contains_str ''HTTP_PROXY'' n \<or> contains_str ''HTTPS_PROXY'' n then replicate (length v) (CHR ''x'') else v))
        (opc_Env c) (opc_Env d))"

lemma anonymize_pod_masked: "list_all2 proxies_masked (opp_Containers p) (opp_Containers (anonymize_pod p))"
proof -
  have "proxies_masked c (c\<lparr>opc_Env := map sensitiveEnvVar (opc_Env c)\<rparr>)" for c
    by (simp add: proxies_masked_def list_all2_map2 list.rel_refl_strong sensitiveEnvVar_def anonymize_String_def case_prod_beta)
  then show ?thesis by (simp add: anonymize_pod_def list_all2_map2 list.rel_refl_strong)
qed

definition pod_record_ok :: "op_client \<Rightarrow> op_pod \<Rightarrow> op_record \<Rightarrow> bool" where
  "pod_record_ok client p r =
     (case snd r of
        PodItem q \<Rightarrow> q = p\<lparr>opp_Containers := opp_Containers q\<rparr> \<and> list_all2 proxies_masked (opp_Containers p) (opp_Containers q) \<and>
          \<not> IsHealthyPod (pod.truncate p) (ocl_now client) \<and> fst r = ''config/pod/'' @ opp_Namespace p @ ''/'' @ opp_Name p
      | RawItem _ \<Rightarrow> \<exists>c prev. c \<in> set (map opc_Name (opp_InitContainers p @ opp_Containers p)) \<and>
          fst r = ''config/pod/'' @ opp_Namespace p @ ''/logs/'' @ opp_Name p @ ''/'' @ logFilename c prev \<and>
          (prev \<longrightarrow> isPodRestarted p \<and> \<not> IsHealthyPod (pod.truncate p) (ocl_now client))
      | EventsItem _ \<Rightarrow> False)"

definition log_of :: "op_pod \<Rightarrow> bool \<Rightarrow> op_record \<Rightarrow> bool" where
  "log_of p prev r =
     (\<exists>c s. c \<in> set (map opc_Name (opp_InitContainers p @ opp_Containers p)) \<and> (prev \<longrightarrow> isPodRestarted p) \<and>
        r = (''config/pod/'' @ opp_Namespace p @ ''/logs/'' @ opp_Name p @ ''/'' @ logFilename c prev, RawItem s))"

lemma container_log_of:
  assumes "c \<in> set (opp_InitContainers p @ opp_Containers p)" and "\<forall>r \<in> set (fst acc). log_of p prev r"
    and "r \<in> set (fst (container_log alloc client p prev c acc))"
  shows "log_of p prev r"
proof (cases "r \<in> set (fst acc)")
  case False
  have "opc_Name c \<in> set (map opc_Name (opp_InitContainers p @ opp_Containers p))" using assms(1) by (simp only: set_map) (rule imageI)
  moreover from container_log_adds [of alloc client p prev c acc] False assms(3) obtain s where "prev \<longrightarrow> isPodRestarted p"
    "r = (''config/pod/'' @ opp_Namespace p @ ''/logs/'' @ opp_Name p @ ''/'' @ logFilename (opc_Name c) prev, RawItem s)"
    by (auto simp del: append_Cons)
  ultimately show ?thesis unfolding log_of_def by blast
qed (use assms(2) in blast)

lemma container_logs_of:
  assumes "set cs \<subseteq> set (opp_InitContainers p @ opp_Containers p)" and "\<forall>r \<in> set (fst acc). log_of p prev r"
  shows "\<forall>r \<in> set (fst (fold (container_log alloc client p prev) cs acc)). log_of p prev r"
  using assms
proof (induction cs arbitrary: acc)
  case (Cons c cs)
  have "\<forall>r \<in> set (fst (container_log alloc client p prev c acc)). log_of p prev r"
    using container_log_of [of c p acc prev] Cons.prems by simp
  with Cons.IH [of "container_log alloc client p prev c acc"] Cons.prems(1) show ?case by simp
qed simp

lemma getContainerLogs_of:
  assumes "getContainerLogs alloc client p prev st = (rs, st')" and "r \<in> set rs"
  shows "log_of p prev r"
  using container_logs_of [of "opp_InitContainers p @ opp_Containers p" p "([], st)" prev alloc client] assms
  by (simp add: getContainerLogs_def)

lemma log_of_anonymized: "log_of (anonymize_pod p) prev r \<longleftrightarrow> log_of p prev r"
  unfolding log_of_def isPodRestarted_def map_append anonymize_pod_sel ..

lemma pod_records_sound:
  assumes "r \<in> set (fst (pod_records alloc client p acc))" and "r \<notin> set (fst acc)"
  shows "pod_record_ok client p r"
proof -
  obtain records st where acc: "acc = (records, st)" by force
  obtain r1 st1 where g1: "getContainerLogs alloc client (anonymize_pod p) True st = (r1, st1)" by force
  obtain r2 st2 where g2: "getContainerLogs alloc client p False st1 = (r2, st2)" by force
  obtain r3 st3 where g3: "getContainerLogs alloc client p False st = (r3, st3)" by force
  have l: "log_of p prev r \<Longrightarrow> prev \<longrightarrow> \<not> IsHealthyPod (pod.truncate p) (ocl_now client) \<Longrightarrow> pod_record_ok client p r" for prev r
    unfolding log_of_def pod_record_ok_def by (elim exE conjE, simp only: fst_conv snd_conv op_item.case, blast)
  show ?thesis
  proof (cases "IsHealthyPod (pod.truncate p) (ocl_now client)")
    case True
    with assms acc g3 have "r \<in> set r3" by (simp add: pod_records_def)
    with getContainerLogs_of [OF g3] l show ?thesis by blast
  next
    case False
    with assms acc g1 g2 have "r = (''config/pod/'' @ opp_Namespace p @ ''/'' @ opp_Name p, PodItem (anonymize_pod p)) \<or> r \<in> set r1 \<or> r \<in> set r2"
      by (auto simp: pod_records_def)
    then consider "r = (''config/pod/'' @ opp_Namespace p @ ''/'' @ opp_Name p, PodItem (anonymize_pod p))" | "log_of p True r" | "log_of p False r"
      using getContainerLogs_of [OF g1] getContainerLogs_of [OF g2] log_of_anonymized by blast
    moreover have "anonymize_pod p = p\<lparr>opp_Containers := opp_Containers (anonymize_pod p)\<rparr>" by (simp add: anonymize_pod_def)
    ultimately show ?thesis using l False anonymize_pod_masked [of p] by cases (simp add: pod_record_ok_def, blast+)
  qed
qed

lemma pods_records_sound:
  assumes "r \<in> set (fst (fold (pod_records alloc client) pods acc))" and "r \<notin> set (fst acc)"
  shows "\<exists>p \<in> set pods. pod_record_ok client p r"
  using assms
proof (induction pods arbitrary: acc)
  case (Cons p pods)
  then show ?case using pod_records_sound [of r alloc client p acc] by (cases "r \<in> set (fst (pod_records alloc client p acc))") auto
qed simp

lemma unhealthy_sources:
  "(\<forall>p \<in> set (us_pods (unhealthyClusterOperator client interval items)).
      \<exists>operator \<in> set items. \<exists>ns ps. \<not> isHealthyOperator operator \<and> ns \<in> set (namespacesForOperator operator) \<and> ocl_pods client ns = Inr ps \<and> p \<in> set ps) \<and>
   (\<forall>r \<in> set (us_records (unhealthyClusterOperator client interval items)).
      \<exists>operator \<in> set items. \<exists>ns rs. \<not> isHealthyOperator operator \<and> ns \<in> set (namespacesForOperator operator) \<and>
        gatherNamespaceEvents client ns interval = Inr rs \<and> r \<in> set rs)"
proof -
  define P where "P = (\<lambda>st :: unhealthy_state. (\<forall>p \<in> set (us_pods st). \<exists>operator \<in> set items. \<exists>ns ps. \<not> isHealthyOperator operator \<and>
        ns \<in> set (namespacesForOperator operator) \<and> ocl_pods client ns = Inr ps \<and> p \<in> set ps) \<and>
     (\<forall>r \<in> set (us_records st). \<exists>operator \<in> set items. \<exists>ns rs. \<not> isHealthyOperator operator \<and>
        ns \<in> set (namespacesForOperator operator) \<and> gatherNamespaceEvents client ns interval = Inr rs \<and> r \<in> set rs))"
  have s: "P (namespace_step client interval ns st)" if "P st" "operator \<in> set items" "\<not> isHealthyOperator operator" "ns \<in> set (namespacesForOperator operator)"
    for operator ns st
    using that unfolding P_def namespace_step_def getAllRelatedPods_def by (auto simp: Let_def split: sum.splits)
  have n: "P (fold (namespace_step client interval) nss st)"
    if "P st" "operator \<in> set items" "\<not> isHealthyOperator operator" "set nss \<subseteq> set (namespacesForOperator operator)" for operator nss st
    using that by (induction nss arbitrary: st) (simp_all add: s)
  have "P (fold (\<lambda>item st. if isHealthyOperator item then st else fold (namespace_step client interval) (namespacesForOperator item) st) is st)"
    if "P st" "set is \<subseteq> set items" for "is" st
    using that
  proof (induction "is" arbitrary: st)
    case (Cons item "is")
    then have "P (if isHealthyOperator item then st else fold (namespace_step client interval) (namespacesForOperator item) st)"
      using n [of st item "namespacesForOperator item"] by simp
    with Cons show ?case by simp
  qed simp
  moreover have "P \<lparr>us_pods = [], us_records = [], us_total = 0, us_collected = []\<rparr>" by (simp add: P_def)
  ultimately have "P (unhealthyClusterOperator client interval items)" unfolding unhealthyClusterOperator_def by blast
  then show ?thesis unfolding P_def .
qed

text \<open>
  C33: Only unhealthy operators are looked into.  Every record is about a namespace that an operator names among its related objects
  which is degraded or not available: the events of it newer than the interval, compacted and in the order of time, and only when
  the name of the namespace begins with openshift-; the definition of a pod of it that is not healthy, in which the proxy variables
  of its containers, but not of its init containers, are overwritten and nothing else is changed; or the log of a container of such
  a pod, the previous one only when the pod is not healthy and was restarted.
\<close>

theorem unhealthy_only:
  assumes "gatherClusterOperatorPodsAndEvents alloc client interval = (records, err)" and "r \<in> set records"
  shows "\<exists>items operator ref ns. ocl_operators client = Inr items \<and> operator \<in> set items \<and>
    ((''Degraded'', ''True'') \<in> set (cop_Conditions operator) \<or> (''Available'', ''False'') \<in> set (cop_Conditions operator)) \<and>
    ref \<in> set (cop_RelatedObjects operator) \<and> ref_Resource ref = ''namespaces'' \<and> ns = ref_Name ref \<and>
    ((\<exists>events compacted. r = (''events/'' @ ns, EventsItem compacted) \<and> prefix ''openshift-'' ns \<and>
        ocl_events client ns = Inr events \<and>
        mset compacted = image_mset compact_event (mset (filter (\<lambda>e. isEventNew e (ocl_now client - interval)) events)) \<and>
        sorted (map ce_LastTimestamp compacted)) \<or>
     (\<exists>ps p. ocl_pods client ns = Inr ps \<and> p \<in> set ps \<and> pod_record_ok client p r))"
proof -
  from assms obtain items where items: "ocl_operators client = Inr items"
    by (auto simp: gatherClusterOperatorPodsAndEvents_def split: sum.splits)
  let ?st = "unhealthyClusterOperator client interval items"
  have "r \<in> set (us_records ?st) \<or> (\<exists>b acc. r \<in> set (fst (fold (pod_records alloc client) (us_pods ?st) ([], b))))"
    using assms items
    by (auto simp: gatherClusterOperatorPodsAndEvents_def gatherPodsAndTheirContainersLogs_def Let_def case_prod_beta split: if_splits)
  then have "\<exists>operator ns. operator \<in> set items \<and> \<not> isHealthyOperator operator \<and> ns \<in> set (namespacesForOperator operator) \<and>
    ((\<exists>rs. gatherNamespaceEvents client ns interval = Inr rs \<and> r \<in> set rs) \<or>
     (\<exists>ps p. ocl_pods client ns = Inr ps \<and> p \<in> set ps \<and> pod_record_ok client p r))"
  proof
    assume "r \<in> set (us_records ?st)"
    with unhealthy_sources [of client interval items] show ?thesis by blast
  next
    assume "\<exists>b acc. r \<in> set (fst (fold (pod_records alloc client) (us_pods ?st) ([], b)))"
    then obtain p where "p \<in> set (us_pods ?st)" "pod_record_ok client p r"
      using pods_records_sound [of r alloc client "us_pods ?st"] by fastforce
    with unhealthy_sources [of client interval items] show ?thesis by blast
  qed
  then obtain operator ns where o: "operator \<in> set items" "\<not> isHealthyOperator operator" "ns \<in> set (namespacesForOperator operator)"
    and r: "(\<exists>rs. gatherNamespaceEvents client ns interval = Inr rs \<and> r \<in> set rs) \<or>
      (\<exists>ps p. ocl_pods client ns = Inr ps \<and> p \<in> set ps \<and> pod_record_ok client p r)" by blast
  from o(3) obtain ref where ref: "ref \<in> set (cop_RelatedObjects operator)" "ref_Resource ref = ''namespaces''" "ns = ref_Name ref"
    by (auto simp: namespacesForOperator_def)
  have bad: "(''Degraded'', ''True'') \<in> set (cop_Conditions operator) \<or> (''Available'', ''False'') \<in> set (cop_Conditions operator)"
    using o(2) by (force simp: isHealthyOperator_def list_ex_iff isOperatorConditionDegraded_def isOperatorConditionAvailable_def)
  have "(\<exists>events compacted. r = (''events/'' @ ns, EventsItem compacted) \<and> prefix ''openshift-'' ns \<and> ocl_events client ns = Inr events \<and>
      mset compacted = image_mset compact_event (mset (filter (\<lambda>e. isEventNew e (ocl_now client - interval)) events)) \<and>
      sorted (map ce_LastTimestamp compacted)) \<or> (\<exists>ps p. ocl_pods client ns = Inr ps \<and> p \<in> set ps \<and> pod_record_ok client p r)"
    using r events_recent_record [of client ns interval _ r] by blast
  with items o(1) bad ref show ?thesis by blast
qed

theorem unhealthy_only_witness:
  "\<exists>records. gatherClusterOperatorPodsAndEvents (\<lambda>n. n) example_op_client 10 = (records, None) \<and>
    (''config/pod/openshift-dns/p'', PodItem example_op_pod) \<in> set records \<and>
    ((''Degraded'', ''True'') \<in> set (cop_Conditions (hd example_items)) \<or> (''Available'', ''False'') \<in> set (cop_Conditions (hd example_items)))"
proof -
  let ?r = "(''config/pod/openshift-dns/p'', PodItem example_op_pod)"
  obtain records where g: "gatherClusterOperatorPodsAndEvents (\<lambda>n. n) example_op_client 10 = (records, None)"
    and r: "?r \<in> set records"
  proof -
    have o: "ocl_operators example_op_client = Inr example_items" by (simp add: example_items_def example_op_client_def)
    have a: "anonymize_pod example_op_pod = example_op_pod" by (simp add: anonymize_pod_def example_op_pod_def)
    have "\<not> IsHealthyPod (pod.truncate example_op_pod) (ocl_now example_op_client)"
      by (simp add: IsHealthyPod_def example_op_pod_def unhealthy_container_def pod.truncate_def)
    then have "?r \<in> set (fst (pod_records (\<lambda>n. n) example_op_client example_op_pod ([], st)))" for st
      by (simp add: pod_records_def case_prod_beta a) (simp add: example_op_pod_def)
    then have "\<exists>records. gatherClusterOperatorPodsAndEvents (\<lambda>n. n) example_op_client 10 = (records, None) \<and> ?r \<in> set records"
      by (simp add: gatherClusterOperatorPodsAndEvents_def o example_unhealthy gatherPodsAndTheirContainersLogs_def
          go_quot_nonneg logCompressionRatio_def MaxArchiveSize_def case_prod_beta)
    then show thesis using that by blast
  qed
  from unhealthy_only [OF g r] obtain operator where "operator \<in> set example_items"
    "(''Degraded'', ''True'') \<in> set (cop_Conditions operator) \<or> (''Available'', ''False'') \<in> set (cop_Conditions operator)"
    by (auto simp: example_items_def)
  moreover have "operator = hd example_items" using calculation(1) by (simp add: example_items_def example_op_client_def)
  ultimately show ?thesis using g r by blast
qed

text \<open>The environment of init containers is recorded as it is.\<close>

lemma init_containers_in_clear: "opp_InitContainers (anonymize_pod p) = opp_InitContainers p"
  by simp

section \<open>Excerpts of stack traces\<close>

text \<open>
  With a long stack trace that starts at line 20 or later, 20 more lines are left out than the message says.
\<close>

lemma suppressed_lines:
  fixes first final :: nat
  assumes "logStackTraceMaxLines < final - first" and "logLinesOffset \<le> first" and "final < n"
  defines "from \<equiv> first - logLinesOffset"
  shows "(final - logStackTraceEndLimit) - min n (from + logStackTraceBeginningLimit) = final - first - logStackTraceMaxLines + 20"
  using assms by (simp add: logStackTraceMaxLines_def logLinesOffset_def logStackTraceEndLimit_def logStackTraceBeginningLimit_def)

end
