(* ===== verification/Unstructured.thy ===== *)
theory Unstructured
  imports OperatorPods
begin

text \<open>
  Objects of arbitrary kinds: pkg/utils/unstructerd_wrappers.go, pkg/utils/anonymize/unstructured.go and the
  gatherers of pkg/gatherers/clusterconfig that change such objects before they are recorded:
  gather_machine_sets.go, gather_machines.go and gather_cluster_operators.go.

  An object is a JSON value; the accessors of apimachinery (NestedFieldNoCopy, SetNestedField) are functions on it.  The
  code changes maps in place and keeps references into them; here the changed object is returned, and what the code
  holds a reference to is read from the changed object.
\<close>

section \<open>Values and paths\<close>

datatype json =
    JNull
  | JBool bool
  | JNumber string
  | JString string
  | JArray "json list"
  | JObject "(string \<times> json) list"

type_synonym json_map = "(string, json) gomap"

fun nested :: "json \<Rightarrow> string list \<Rightarrow> json option result" where
  "nested v [] = Inr (Some v)"
| "nested JNull (f # fs) = Inr None"
| "nested (JObject m) (f # fs) = (case map_get m f of None \<Rightarrow> Inr None | Some v \<Rightarrow> nested v fs)"
| "nested (JBool b) (f # fs) = Inl (Errorf ''accessor error'')"
| "nested (JNumber n) (f # fs) = Inl (Errorf ''accessor error'')"
| "nested (JString s) (f # fs) = Inl (Errorf ''accessor error'')"
| "nested (JArray xs) (f # fs) = Inl (Errorf ''accessor error'')"

definition NestedFieldNoCopy :: "json_map \<Rightarrow> string list \<Rightarrow> json option result" where
  "NestedFieldNoCopy obj path = nested (JObject obj) path"

definition NestedString :: "json_map \<Rightarrow> string list \<Rightarrow> string \<times> bool \<times> go_error option" where
  "NestedString obj path =
     (case NestedFieldNoCopy obj path of
        Inl err \<Rightarrow> ([], False, Some err)
      | Inr None \<Rightarrow> ([], False, None)
      | Inr (Some (JString s)) \<Rightarrow> (s, True, None)
      | Inr (Some _) \<Rightarrow> ([], False, Some (Errorf ''accessor error'')))"

definition NestedSlice :: "json_map \<Rightarrow> string list \<Rightarrow> json list \<times> bool \<times> go_error option" where
  "NestedSlice obj path =
     (case NestedFieldNoCopy obj path of
        Inl err \<Rightarrow> ([], False, Some err)
      | Inr None \<Rightarrow> ([], False, None)
      | Inr (Some (JArray xs)) \<Rightarrow> (xs, True, None)
      | Inr (Some _) \<Rightarrow> ([], False, Some (Errorf ''accessor error'')))"

text \<open>\<open>int64_of\<close> tells which numbers the decoder keeps as an int64.\<close>

definition NestedInt64 :: "(string \<Rightarrow> int option) \<Rightarrow> json_map \<Rightarrow> string list \<Rightarrow> int \<times> bool \<times> go_error option" where
  "NestedInt64 int64_of obj path =
     (case NestedFieldNoCopy obj path of
        Inl err \<Rightarrow> (0, False, Some err)
      | Inr None \<Rightarrow> (0, False, None)
      | Inr (Some (JNumber n)) \<Rightarrow>
          (case int64_of n of Some i \<Rightarrow> (i, True, None) | None \<Rightarrow> (0, False, Some (Errorf ''accessor error'')))
      | Inr (Some _) \<Rightarrow> (0, False, Some (Errorf ''accessor error'')))"

definition NestedStringWrapper :: "json_map \<Rightarrow> string list \<Rightarrow> string result" where
  "NestedStringWrapper obj path = nestedWrapper (NestedString obj path) path"

definition NestedSliceWrapper :: "json_map \<Rightarrow> string list \<Rightarrow> json list result" where
  "NestedSliceWrapper obj path = nestedWrapper (NestedSlice obj path) path"

definition NestedInt64Wrapper :: "(string \<Rightarrow> int option) \<Rightarrow> json_map \<Rightarrow> string list \<Rightarrow> int result" where
  "NestedInt64Wrapper int64_of obj path = nestedWrapper (NestedInt64 int64_of obj path) path"

text \<open>The paths of the code are not empty; the code would panic on an empty one, which is read here as no change.\<close>

fun SetNestedField :: "json_map \<Rightarrow> json \<Rightarrow> string list \<Rightarrow> json_map result" where
  "SetNestedField m v [] = Inr m"
| "SetNestedField m v [f] = Inr (map_put f v m)"
| "SetNestedField m v (f # g # fs) =
     (case map_get m f of
        Some (JObject m') \<Rightarrow>
          (case SetNestedField m' v (g # fs) of Inl err \<Rightarrow> Inl err | Inr m'' \<Rightarrow> Inr (map_put f (JObject m'') m))
      | Some _ \<Rightarrow> Inl (Errorf ''value cannot be set because it is not a map'')
      | None \<Rightarrow>
          (case SetNestedField [] v (g # fs) of Inl err \<Rightarrow> Inl err | Inr m'' \<Rightarrow> Inr (map_put f (JObject m'') m)))"

definition UnstructuredNestedStringField :: "json_map \<Rightarrow> string list \<Rightarrow> go_error option \<times> json_map" where
  "UnstructuredNestedStringField data path =
     (case NestedFieldNoCopy data path of
        Inl err \<Rightarrow> (Some err, data)
      | Inr None \<Rightarrow> (Some (Errorf ''unable to find field''), data)
      | Inr (Some val) \<Rightarrow>
          (case SetNestedField data (JString (anonymize_String (case val of JString s \<Rightarrow> s | _ \<Rightarrow> []))) path of
             Inl err \<Rightarrow> (Some err, data)
           | Inr data \<Rightarrow> (None, data)))"

section \<open>Machine sets and machines\<close>

definition anonymize_fields :: "string list list \<Rightarrow> json_map \<Rightarrow> json_map" where
  "anonymize_fields paths data = fold (\<lambda>path data. snd (UnstructuredNestedStringField data path)) paths data"

definition service_accounts_path :: "string list" where
  "service_accounts_path = [''spec'', ''template'', ''spec'', ''providerSpec'', ''value'', ''serviceAccounts'']"

definition anonymize_account :: "json \<Rightarrow> json" where
  "anonymize_account a =
     (case a of
        JObject m \<Rightarrow> (case map_get m ''email'' of Some (JString email) \<Rightarrow> JObject (map_put ''email'' (JString (anonymize_String email)) m) | _ \<Rightarrow> a)
      | _ \<Rightarrow> a)"

definition anonymizeServiceAccounts :: "json_map \<Rightarrow> json_map" where
  "anonymizeServiceAccounts data =
     (case NestedSlice data service_accounts_path of
        (accounts, True, None) \<Rightarrow>
          (case SetNestedField data (JArray (map anonymize_account accounts)) service_accounts_path of Inl _ \<Rightarrow> data | Inr data \<Rightarrow> data)
      | _ \<Rightarrow> data)"

definition machineset_fields :: "string list list" where
  "machineset_fields =
     [[''spec'', ''template'', ''spec'', ''providerSpec'', ''value'', ''projectID''],
      [''spec'', ''template'', ''spec'', ''providerSpec'', ''value'', ''region''],
      [''spec'', ''template'', ''spec'', ''providerSpec'', ''value'', ''placement'', ''availabilityZone''],
      [''spec'', ''template'', ''spec'', ''providerSpec'', ''value'', ''placement'', ''region'']]"

definition anonymizeMachineset :: "json_map \<Rightarrow> json_map" where
  "anonymizeMachineset data = anonymizeServiceAccounts (anonymize_fields machineset_fields data)"

definition machine_fields :: "string list list" where
  "machine_fields =
     [[''spec'', ''providerID''],
      [''spec'', ''providerSpec'', ''value'', ''placement'', ''availabilityZone''],
      [''spec'', ''providerSpec'', ''value'', ''placement'', ''region''],
      [''metadata'', ''labels'', ''machine.openshift.io/region'']]"

definition anonymizeMachine :: "json_map \<Rightarrow> json_map" where
  "anonymizeMachine data = anonymize_fields machine_fields data"

record unstructured =
  un_Name :: string
  un_Namespace :: string
  un_Kind :: string
  un_APIVersion :: string
  un_Object :: json_map

definition named_record :: "string \<Rightarrow> unstructured \<Rightarrow> string" where
  "named_record pre u =
     (if un_Namespace u \<noteq> [] then pre @ un_Namespace u @ ''/'' @ un_Name u else pre @ un_Name u)"

definition gatherMachineSet :: "unstructured list result \<Rightarrow> (string \<times> json_map) list \<times> go_error list" where
  "gatherMachineSet machineSets =
     (case machineSets of
        Inl err \<Rightarrow> ([], if isNotFound err then [] else [err])
      | Inr items \<Rightarrow> (map (\<lambda>ms. (named_record ''machinesets/'' ms, anonymizeMachineset (un_Object ms))) items, []))"

definition gatherMachine :: "unstructured list result \<Rightarrow> (string \<times> json_map) list \<times> go_error list" where
  "gatherMachine machines =
     (case machines of
        Inl err \<Rightarrow> ([], if isNotFound err then [] else [err])
      | Inr items \<Rightarrow> (map (\<lambda>m. (named_record ''config/machines/'' m, anonymizeMachine (un_Object m))) items, []))"

section \<open>Cluster operators\<close>

record clusterOperatorResource =
  cor_APIVersion :: string
  cor_Kind :: string
  cor_Name :: string
  cor_Spec :: "json option"
  cor_namespace :: string
  cor_Status :: "json option"

definition identity_path :: "string list" where
  "identity_path = [''spec'', ''observedConfig'', ''oauthServer'', ''oauthConfig'', ''identityProviders'']"

definition sensitive_attributes :: "string list" where
  "sensitive_attributes = [''url'', ''bindDN'', ''hostname'', ''clientID'', ''hostedDomain'', ''issuer'', ''domainName'']"

definition anonymize_attribute :: "json_map \<Rightarrow> string list \<Rightarrow> json_map" where
  "anonymize_attribute ip path =
     (case NestedStringWrapper ip path of
        Inl _ \<Rightarrow> ip
      | Inr val \<Rightarrow> (case SetNestedField ip (JString (anonymize_String val)) path of Inl _ \<Rightarrow> ip | Inr ip \<Rightarrow> ip))"

definition anonymize_provider :: "json \<Rightarrow> json" where
  "anonymize_provider ip =
     (case ip of
        JObject m \<Rightarrow> JObject (fold (\<lambda>path m. anonymize_attribute m path) (map (\<lambda>attr. [''provider'', attr]) sensitive_attributes) m)
      | _ \<Rightarrow> ip)"

definition anonymizeIdentityProviders :: "json_map \<Rightarrow> json_map" where
  "anonymizeIdentityProviders obj =
     (case NestedSliceWrapper obj identity_path of
        Inl _ \<Rightarrow> obj
      | Inr ips \<Rightarrow> (case SetNestedField obj (JArray (map anonymize_provider ips)) identity_path of Inl _ \<Rightarrow> obj | Inr obj \<Rightarrow> obj))"

text \<open>The reader of a related object: its group and resource with the version, its namespace and its name.\<close>

type_synonym resource_get = "string \<times> string \<times> string \<Rightarrow> string \<Rightarrow> string \<Rightarrow> unstructured result"

definition getRelatedObjectResource :: "resource_get \<Rightarrow> ObjectReference \<Rightarrow> string \<Rightarrow> string \<Rightarrow> unstructured result" where
  "getRelatedObjectResource get ro coName version =
     (let name = (if ref_Name ro = [] \<and> coName = ''ingress'' then ''default'' else ref_Name ro)
      in get (ref_Group ro, version, ref_Resource ro) (ref_Namespace ro) name)"

definition operator_resource_record :: "unstructured \<Rightarrow> clusterOperatorResource" where
  "operator_resource_record u =
     (let obj = anonymizeIdentityProviders (un_Object u)
      in \<lparr>cor_APIVersion = un_APIVersion u, cor_Kind = un_Kind u, cor_Name = un_Name u, cor_Spec = map_get obj ''spec'',
          cor_namespace = un_Namespace u,
          cor_Status = (if un_Kind u = ''InsightsOperator'' then map_get obj ''status'' else None)\<rparr>)"

definition collectClusterOperatorRelatedObjects ::
  "resource_get \<Rightarrow> cluster_operator \<Rightarrow> (string \<times> string, string) gomap \<Rightarrow> clusterOperatorResource list" where
  "collectClusterOperatorRelatedObjects get co resVer =
     concat (map (\<lambda>ro.
       case getRelatedObjectResource get ro (cop_Name co)
              (case map_get resVer (ref_Group ro, ref_Resource ro) of None \<Rightarrow> [] | Some v \<Rightarrow> v) of
         Inl err \<Rightarrow> []
       | Inr u \<Rightarrow> [operator_resource_record u])
       (filter (\<lambda>ro. contains_str ''operator.openshift.io'' (ref_Group ro)) (cop_RelatedObjects co)))"

text \<open>A list of preferred resources: the group and version, and the names; \<open>parse\<close> splits the group and version.\<close>

definition getOperatorResourcesVersions ::
  "(string \<Rightarrow> (string \<times> string) result) \<Rightarrow> (string \<times> string list) list result \<Rightarrow> (string \<times> string, string) gomap result" where
  "getOperatorResourcesVersions parse resources =
     (case resources of
        Inl err \<Rightarrow> Inl err
      | Inr ls \<Rightarrow>
          Inr (fold (\<lambda>(gv, names) m.
                 if contains_str ''operator.openshift.io'' gv
                 then (case parse gv of Inl _ \<Rightarrow> m | Inr (grp, version) \<Rightarrow> fold (\<lambda>n m. map_put (grp, n) version m) names m)
                 else m) ls []))"

datatype operator_item = OperatorItem cluster_operator | OperatorResourceItem clusterOperatorResource

definition resource_record_name :: "(string \<Rightarrow> (string \<times> string) result) \<Rightarrow> clusterOperatorResource \<Rightarrow> string" where
  "resource_record_name parse rr =
     (let grp = (case parse (cor_APIVersion rr) of Inl _ \<Rightarrow> [] | Inr (g, _) \<Rightarrow> g)
      in if cor_namespace rr \<noteq> []
         then ''config/clusteroperator/'' @ grp @ ''/'' @ map to_lower (cor_Kind rr) @ ''/'' @ cor_namespace rr @ ''/'' @ cor_Name rr
         else ''config/clusteroperator/'' @ grp @ ''/'' @ map to_lower (cor_Kind rr) @ ''/'' @ cor_Name rr)"

definition operator_records ::
  "(string \<Rightarrow> (string \<times> string) result) \<Rightarrow> resource_get \<Rightarrow> (string \<times> string, string) gomap result \<Rightarrow> cluster_operator \<Rightarrow>
   (string \<times> operator_item) list" where
  "operator_records parse get resVer item =
     (''config/clusteroperator/'' @ cop_Name item, OperatorItem item) #
     (case resVer of
        Inl _ \<Rightarrow> []
      | Inr versions \<Rightarrow>
          map (\<lambda>rr. (resource_record_name parse rr, OperatorResourceItem rr))
            (filter (\<lambda>rr. \<not> contains_str ''imageregistry'' (cor_APIVersion rr)) (collectClusterOperatorRelatedObjects get item versions)))"

definition clusterOperatorsRecords ::
  "(string \<Rightarrow> (string \<times> string) result) \<Rightarrow> resource_get \<Rightarrow> (string \<times> string list) list result \<Rightarrow> cluster_operator list \<Rightarrow>
   (string \<times> operator_item) list" where
  "clusterOperatorsRecords parse get resources items =
     concat (map (operator_records parse get (getOperatorResourcesVersions parse resources)) items)"

definition gatherClusterOperators ::
  "(string \<Rightarrow> (string \<times> string) result) \<Rightarrow> resource_get \<Rightarrow> (string \<times> string list) list result \<Rightarrow> cluster_operator list result \<Rightarrow>
   (string \<times> operator_item) list \<times> go_error option" where
  "gatherClusterOperators parse get resources config =
     (case config of
        Inl err \<Rightarrow> ([], if isNotFound err then None else Some err)
      | Inr items \<Rightarrow> (clusterOperatorsRecords parse get resources items, None))"


section \<open>Laws of nested fields\<close>

definition map_found :: "('v \<Rightarrow> 'w) \<Rightarrow> 'v option result \<Rightarrow> 'w option result" where
  "map_found f r = (case r of Inl err \<Rightarrow> Inl err | Inr v \<Rightarrow> Inr (map_option f v))"

lemma map_found_simps [simp]:
  "map_found f (Inl err) = Inl err" "map_found f (Inr None) = Inr None" "map_found f (Inr (Some v)) = Inr (Some (f v))"
  by (simp_all add: map_found_def)

lemma set_nested_same:
  assumes "SetNestedField m v p = Inr m'" "p \<noteq> []"
  shows "NestedFieldNoCopy m' p = Inr (Some v)"
  using assms
  by (induction m v p arbitrary: m' rule: SetNestedField.induct)
    (auto simp: NestedFieldNoCopy_def split: option.splits json.splits sum.splits)

lemma parallel_Cons: "parallel (f # p) (g # q) \<longleftrightarrow> f \<noteq> g \<or> parallel p q"
  by (auto simp: parallel_def)

lemma not_parallel_Nil [simp]: "\<not> parallel [] q" "\<not> parallel p []"
  by (auto simp: parallel_def)

lemma set_nested_apart:
  assumes "SetNestedField m v p = Inr m'" "parallel p q"
  shows "NestedFieldNoCopy m' q = NestedFieldNoCopy m q"
  using assms
proof (induction m v p arbitrary: m' q rule: SetNestedField.induct)
  case (1 m v)
  then show ?case by simp
next
  case (2 m v f)
  then show ?case by (cases q) (auto simp: NestedFieldNoCopy_def parallel_Cons)
next
  case (3 m v f g fs)
  then obtain h q' where q: "q = h # q'" by (cases q) auto
  show ?case
  proof (cases "h = f")
    case True
    with 3(4) q have q': "parallel (g # fs) q'" by (simp add: parallel_Cons)
    then obtain a q'' where "q' = a # q''" by (cases q') auto
    with 3 q True q' show ?thesis
      by (fastforce simp: NestedFieldNoCopy_def split: option.splits json.splits sum.splits)
  next
    case False
    with 3(3) q show ?thesis by (auto simp: NestedFieldNoCopy_def split: option.splits json.splits sum.splits)
  qed
qed

lemma nested_error_or_set:
  assumes "NestedFieldNoCopy m p = Inr (Some w)" "p \<noteq> []"
  shows "\<exists>m'. SetNestedField m v p = Inr m'"
  using assms
proof (induction m v p rule: SetNestedField.induct)
  case (3 m v f g fs)
  then obtain u where u: "map_get m f = Some u" "nested u (g # fs) = Inr (Some w)"
    by (auto simp: NestedFieldNoCopy_def split: option.splits)
  then obtain m' where "u = JObject m'" by (cases u) auto
  with 3 u show ?case by (fastforce simp: NestedFieldNoCopy_def)
qed auto

lemma nested_set_no_error:
  "NestedFieldNoCopy m p = Inr (Some w) \<Longrightarrow> SetNestedField m v p = Inl err \<Longrightarrow> p = []"
  using nested_error_or_set[of m p w v] by auto

text \<open>
  What the gatherers rely on when they mask a list of fields one after the other: masking one changes that field and
  no field apart from it.
\<close>

locale field_masking =
  fixes get :: "'o \<Rightarrow> string list \<Rightarrow> 'v option result"
    and mask :: "'o \<Rightarrow> string list \<Rightarrow> 'o"
    and masked :: "'v \<Rightarrow> 'v"
  assumes get_mask: "p \<noteq> [] \<Longrightarrow> get (mask x p) p = map_found masked (get x p)"
    and get_mask_apart: "parallel p q \<Longrightarrow> get (mask x p) q = get x q"
begin

lemma masks_apart:
  "list_all (\<lambda>p. parallel p q) ps \<Longrightarrow> get (fold (\<lambda>p x. mask x p) ps x) q = get x q"
  by (induction ps arbitrary: x) (simp_all add: get_mask_apart)

lemma masks_each:
  assumes "sorted_wrt parallel ps" "[] \<notin> set ps" "p \<in> set ps"
  shows "get (fold (\<lambda>p x. mask x p) ps x) p = map_found masked (get x p)"
  using assms
proof (induction ps arbitrary: x)
  case (Cons a ps)
  show ?case
  proof (cases "p = a")
    case True
    with Cons.prems have "list_all (\<lambda>p'. parallel p' a) ps"
      by (auto simp: list_all_iff intro: parallelI dest: parallelD1 parallelD2 elim: parallelE)
    with True Cons.prems get_mask[of a x] show ?thesis by (auto simp: masks_apart)
  next
    case False
    with Cons show ?thesis by (simp add: get_mask_apart)
  qed
qed simp

end

definition masked_json :: "json \<Rightarrow> json" where
  "masked_json v = JString (anonymize_String (case v of JString s \<Rightarrow> s | _ \<Rightarrow> []))"

lemma masked_field:
  "p \<noteq> [] \<Longrightarrow> NestedFieldNoCopy (snd (UnstructuredNestedStringField m p)) p = map_found masked_json (NestedFieldNoCopy m p)"
  by (auto simp: UnstructuredNestedStringField_def masked_json_def set_nested_same dest: nested_set_no_error split: sum.splits option.splits)

lemma masked_field_apart:
  "parallel p q \<Longrightarrow> NestedFieldNoCopy (snd (UnstructuredNestedStringField m p)) q = NestedFieldNoCopy m q"
  by (auto simp: UnstructuredNestedStringField_def set_nested_apart split: sum.splits option.splits)

interpretation masked_object: field_masking NestedFieldNoCopy "\<lambda>m p. snd (UnstructuredNestedStringField m p)" masked_json
  by unfold_locales (simp_all add: masked_field masked_field_apart)

lemma slice_iff: "NestedSlice m p = (xs, True, e) \<longleftrightarrow> NestedFieldNoCopy m p = Inr (Some (JArray xs)) \<and> e = None"
  by (auto simp: NestedSlice_def split: sum.splits option.splits json.splits)

lemma service_accounts_masked:
  "NestedFieldNoCopy (anonymizeServiceAccounts m) service_accounts_path =
     map_found (\<lambda>v. case v of JArray xs \<Rightarrow> JArray (map anonymize_account xs) | _ \<Rightarrow> v) (NestedFieldNoCopy m service_accounts_path)"
proof -
  have ne: "service_accounts_path \<noteq> []" by (simp add: service_accounts_path_def)
  show ?thesis
    using ne by (auto simp: anonymizeServiceAccounts_def NestedSlice_def set_nested_same dest: nested_set_no_error
        split: sum.splits option.splits json.splits)
qed

lemma service_accounts_apart:
  "parallel service_accounts_path q \<Longrightarrow> NestedFieldNoCopy (anonymizeServiceAccounts m) q = NestedFieldNoCopy m q"
  by (auto simp: anonymizeServiceAccounts_def NestedSlice_def set_nested_apart split: sum.splits option.splits json.splits)

lemma machineset_fields_apart:
  "sorted_wrt parallel machineset_fields" "list_all (\<lambda>p. parallel p service_accounts_path) machineset_fields"
  "[] \<notin> set machineset_fields"
  by (simp_all add: machineset_fields_def service_accounts_path_def parallel_Cons)

lemma machine_fields_apart: "sorted_wrt parallel machine_fields" "[] \<notin> set machine_fields"
  by (simp_all add: machine_fields_def parallel_Cons)

text \<open>
  In a recorded machine set, the listed fields and the e-mail addresses of the service accounts are masked, and every field apart
  from these is as it was read.
\<close>

theorem machineset_masked:
  shows "p \<in> set machineset_fields \<Longrightarrow> NestedFieldNoCopy (anonymizeMachineset m) p = map_found masked_json (NestedFieldNoCopy m p)"
    and "NestedFieldNoCopy (anonymizeMachineset m) service_accounts_path =
      map_found (\<lambda>v. case v of JArray xs \<Rightarrow> JArray (map anonymize_account xs) | _ \<Rightarrow> v) (NestedFieldNoCopy m service_accounts_path)"
    and "list_all (\<lambda>p. parallel p q) (service_accounts_path # machineset_fields) \<Longrightarrow>
      NestedFieldNoCopy (anonymizeMachineset m) q = NestedFieldNoCopy m q"
proof -
  note fields = masked_object.masks_each[of machineset_fields] masked_object.masks_apart[of _ machineset_fields]
  have sym: "p \<in> set machineset_fields \<Longrightarrow> parallel service_accounts_path p"
    using machineset_fields_apart(2) by (auto simp: list_all_iff intro: parallelI dest: parallelD1 parallelD2)
  then show "p \<in> set machineset_fields \<Longrightarrow> NestedFieldNoCopy (anonymizeMachineset m) p = map_found masked_json (NestedFieldNoCopy m p)"
    using machineset_fields_apart by (auto simp: anonymizeMachineset_def anonymize_fields_def service_accounts_apart fields)
  show "NestedFieldNoCopy (anonymizeMachineset m) service_accounts_path =
      map_found (\<lambda>v. case v of JArray xs \<Rightarrow> JArray (map anonymize_account xs) | _ \<Rightarrow> v) (NestedFieldNoCopy m service_accounts_path)"
    using machineset_fields_apart by (simp add: anonymizeMachineset_def anonymize_fields_def service_accounts_masked fields)
  show "list_all (\<lambda>p. parallel p q) (service_accounts_path # machineset_fields) \<Longrightarrow>
      NestedFieldNoCopy (anonymizeMachineset m) q = NestedFieldNoCopy m q"
    by (simp add: anonymizeMachineset_def anonymize_fields_def service_accounts_apart fields)
qed

theorem machine_masked:
  shows "p \<in> set machine_fields \<Longrightarrow> NestedFieldNoCopy (anonymizeMachine m) p = map_found masked_json (NestedFieldNoCopy m p)"
    and "list_all (\<lambda>p. parallel p q) machine_fields \<Longrightarrow> NestedFieldNoCopy (anonymizeMachine m) q = NestedFieldNoCopy m q"
  using machine_fields_apart
  by (auto simp: anonymizeMachine_def anonymize_fields_def intro: masked_object.masks_each masked_object.masks_apart)

definition masked_text :: "json \<Rightarrow> json" where
  "masked_text v = (case v of JString s \<Rightarrow> JString (anonymize_String s) | _ \<Rightarrow> v)"

interpretation masked_provider: field_masking NestedFieldNoCopy anonymize_attribute masked_text
proof unfold_locales
  fix p :: "string list" and m :: json_map
  assume "p \<noteq> []"
  then show "NestedFieldNoCopy (anonymize_attribute m p) p = map_found masked_text (NestedFieldNoCopy m p)"
    by (auto simp: anonymize_attribute_def NestedStringWrapper_def nestedWrapper_def NestedString_def masked_text_def set_nested_same
        dest: nested_set_no_error split: sum.splits option.splits json.splits)
next
  fix p q :: "string list" and m :: json_map
  assume "parallel p q"
  then show "NestedFieldNoCopy (anonymize_attribute m p) q = NestedFieldNoCopy m q"
    by (auto simp: anonymize_attribute_def NestedStringWrapper_def nestedWrapper_def NestedString_def set_nested_apart
        split: sum.splits option.splits json.splits)
qed

lemma provider_paths:
  "sorted_wrt parallel (map (\<lambda>attr. [''provider'', attr]) sensitive_attributes)" "[] \<notin> set (map (\<lambda>attr. [''provider'', attr]) sensitive_attributes)"
  by (simp_all add: sensitive_attributes_def parallel_Cons)

lemma provider_masked:
  assumes "attr \<in> set sensitive_attributes"
  shows "nested (anonymize_provider (JObject m)) [''provider'', attr] = map_found masked_text (nested (JObject m) [''provider'', attr])"
proof -
  have "NestedFieldNoCopy (fold (\<lambda>path m. anonymize_attribute m path) (map (\<lambda>attr. [''provider'', attr]) sensitive_attributes) m) [''provider'', attr]
      = map_found masked_text (NestedFieldNoCopy m [''provider'', attr])"
    using assms by (intro masked_provider.masks_each provider_paths) simp
  then show ?thesis by (simp add: anonymize_provider_def NestedFieldNoCopy_def del: nested.simps)
qed

lemma provider_kept:
  assumes "list_all (\<lambda>attr. parallel [''provider'', attr] q) sensitive_attributes"
  shows "nested (anonymize_provider (JObject m)) q = nested (JObject m) q"
proof -
  have "NestedFieldNoCopy (fold (\<lambda>path m. anonymize_attribute m path) (map (\<lambda>attr. [''provider'', attr]) sensitive_attributes) m) q
      = NestedFieldNoCopy m q"
    using assms by (intro masked_provider.masks_apart) (simp add: list_all_length)
  then show ?thesis by (simp add: anonymize_provider_def NestedFieldNoCopy_def del: nested.simps)
qed

lemma identity_providers_masked:
  "NestedFieldNoCopy (anonymizeIdentityProviders m) identity_path =
     map_found (\<lambda>v. case v of JArray xs \<Rightarrow> JArray (map anonymize_provider xs) | _ \<Rightarrow> v) (NestedFieldNoCopy m identity_path)"
  "parallel identity_path q \<Longrightarrow> NestedFieldNoCopy (anonymizeIdentityProviders m) q = NestedFieldNoCopy m q"
proof -
  have ne: "identity_path \<noteq> []" by (simp add: identity_path_def)
  show "NestedFieldNoCopy (anonymizeIdentityProviders m) identity_path =
     map_found (\<lambda>v. case v of JArray xs \<Rightarrow> JArray (map anonymize_provider xs) | _ \<Rightarrow> v) (NestedFieldNoCopy m identity_path)"
    using ne by (auto simp: anonymizeIdentityProviders_def NestedSliceWrapper_def nestedWrapper_def NestedSlice_def set_nested_same
        dest: nested_set_no_error split: sum.splits option.splits json.splits)
  show "parallel identity_path q \<Longrightarrow> NestedFieldNoCopy (anonymizeIdentityProviders m) q = NestedFieldNoCopy m q"
    by (auto simp: anonymizeIdentityProviders_def NestedSliceWrapper_def nestedWrapper_def NestedSlice_def set_nested_apart
        split: sum.splits option.splits json.splits)
qed

section \<open>Records of the cluster operators\<close>

text \<open>What a recorded specification holds on a path.\<close>

definition spec_at :: "json option \<Rightarrow> string list \<Rightarrow> json option result" where
  "spec_at spec q = (case spec of None \<Rightarrow> Inr None | Some v \<Rightarrow> nested v q)"

lemma nested_spec: "NestedFieldNoCopy m (''spec'' # q) = spec_at (map_get m ''spec'') q"
  by (simp add: NestedFieldNoCopy_def spec_at_def)

definition masked_providers :: "json \<Rightarrow> json" where
  "masked_providers v = (case v of JArray xs \<Rightarrow> JArray (map anonymize_provider xs) | _ \<Rightarrow> v)"

lemma spec_masked:
  "spec_at (map_get (anonymizeIdentityProviders m) ''spec'') (tl identity_path) = map_found masked_providers (spec_at (map_get m ''spec'') (tl identity_path))"
  "parallel (tl identity_path) q \<Longrightarrow> spec_at (map_get (anonymizeIdentityProviders m) ''spec'') q = spec_at (map_get m ''spec'') q"
proof -
  have path: "identity_path = ''spec'' # tl identity_path" by (simp add: identity_path_def)
  show "spec_at (map_get (anonymizeIdentityProviders m) ''spec'') (tl identity_path) = map_found masked_providers (spec_at (map_get m ''spec'') (tl identity_path))"
    using identity_providers_masked(1)[of m, folded masked_providers_def] path nested_spec by metis
  show "parallel (tl identity_path) q \<Longrightarrow> spec_at (map_get (anonymizeIdentityProviders m) ''spec'') q = spec_at (map_get m ''spec'') q"
    using identity_providers_masked(2)[of "''spec'' # q" m] path parallel_Cons nested_spec by metis
qed

text \<open>
  What masking promises for an identity provider \<open>x\<close> that is recorded as \<open>y\<close>: every sensitive attribute that is a text is masked, whatever is
  apart from these attributes is the same.
\<close>

definition provider_masking :: "json \<Rightarrow> json \<Rightarrow> bool" where
  "provider_masking x y =
     (case x of
        JObject m \<Rightarrow>
          list_all (\<lambda>attr. nested y [''provider'', attr] = map_found masked_text (nested x [''provider'', attr])) sensitive_attributes \<and>
          (\<forall>q. list_all (\<lambda>attr. parallel [''provider'', attr] q) sensitive_attributes \<longrightarrow> nested y q = nested x q)
      | _ \<Rightarrow> y = x)"

definition providers_masking :: "json option result \<Rightarrow> json option result \<Rightarrow> bool" where
  "providers_masking before after =
     (case before of
        Inr (Some (JArray xs)) \<Rightarrow> (\<exists>ys. after = Inr (Some (JArray ys)) \<and> list_all2 provider_masking xs ys)
      | _ \<Rightarrow> after = before)"

lemma anonymize_provider_masking: "provider_masking x (anonymize_provider x)"
proof (cases x)
  case (JObject m)
  then show ?thesis using provider_masked[of _ m] provider_kept[of _ m] by (simp add: provider_masking_def list_all_iff del: nested.simps)
qed (simp_all add: provider_masking_def anonymize_provider_def)

lemma masked_providers_masking: "providers_masking r (map_found masked_providers r)"
  by (auto simp: providers_masking_def masked_providers_def list_all2_map2 anonymize_provider_masking
      intro!: list_all2_refl split: sum.splits option.splits json.splits)

lemma related_object_records:
  "rr \<in> set (collectClusterOperatorRelatedObjects get co resVer) \<longleftrightarrow>
     (\<exists>ro u. ro \<in> set (cop_RelatedObjects co) \<and> contains_str ''operator.openshift.io'' (ref_Group ro) \<and>
        getRelatedObjectResource get ro (cop_Name co) (case map_get resVer (ref_Group ro, ref_Resource ro) of None \<Rightarrow> [] | Some v \<Rightarrow> v) = Inr u \<and>
        rr = operator_resource_record u)"
  by (auto simp: collectClusterOperatorRelatedObjects_def split: sum.splits; metis)

lemma resource_item_iff:
  "(name, OperatorResourceItem rr) \<in> set (operator_records parse get resVer item) \<longleftrightarrow>
     (\<exists>versions. resVer = Inr versions \<and> rr \<in> set (collectClusterOperatorRelatedObjects get item versions) \<and>
        \<not> contains_str ''imageregistry'' (cor_APIVersion rr) \<and> name = resource_record_name parse rr)"
  by (auto simp: operator_records_def split: sum.splits)

text \<open>
  C37: The gatherer of cluster operators records every operator, and of the resources only objects read for a related object of the
  operator.openshift.io groups that are not of an image registry.  In the recorded specification the sensitive attributes of every
  identity provider are masked and nothing outside the list of identity providers is changed; the status is recorded
  for the InsightsOperator resource only.
\<close>

theorem operator_resources_masked:
  assumes "gatherClusterOperators parse get resources (Inr items) = (records, err)"
  shows "err = None \<and>
    list_all (\<lambda>item. (''config/clusteroperator/'' @ cop_Name item, OperatorItem item) \<in> set records) items \<and>
    list_all (\<lambda>(name, i). case i of
        OperatorItem item \<Rightarrow> item \<in> set items
      | OperatorResourceItem rr \<Rightarrow>
          (\<exists>item ro version u. item \<in> set items \<and> ro \<in> set (cop_RelatedObjects item) \<and>
             contains_str ''operator.openshift.io'' (ref_Group ro) \<and>
             getRelatedObjectResource get ro (cop_Name item) version = Inr u \<and>
             \<not> contains_str ''imageregistry'' (un_APIVersion u) \<and>
             (cor_Kind rr, cor_Name rr, cor_namespace rr, cor_APIVersion rr) = (un_Kind u, un_Name u, un_Namespace u, un_APIVersion u) \<and>
             providers_masking (spec_at (map_get (un_Object u) ''spec'') (tl identity_path)) (spec_at (cor_Spec rr) (tl identity_path)) \<and>
             (\<forall>q. parallel (tl identity_path) q \<longrightarrow> spec_at (cor_Spec rr) q = spec_at (map_get (un_Object u) ''spec'') q) \<and>
             (cor_Status rr = None \<or> un_Kind u = ''InsightsOperator''))) records"
proof -
  let ?recs = "operator_records parse get (getOperatorResourcesVersions parse resources)"
  have records: "records = concat (map ?recs items)" and "err = None"
    using assms by (simp_all add: gatherClusterOperators_def clusterOperatorsRecords_def)
  have op: "item' = item" if "(name, OperatorItem item') \<in> set (?recs item)" for name item item'
    using that by (auto simp: operator_records_def split: sum.splits)
  have res: "\<exists>ro version u. ro \<in> set (cop_RelatedObjects item) \<and>
             contains_str ''operator.openshift.io'' (ref_Group ro) \<and>
             getRelatedObjectResource get ro (cop_Name item) version = Inr u \<and>
             \<not> contains_str ''imageregistry'' (un_APIVersion u) \<and>
             (cor_Kind rr, cor_Name rr, cor_namespace rr, cor_APIVersion rr) = (un_Kind u, un_Name u, un_Namespace u, un_APIVersion u) \<and>
             providers_masking (spec_at (map_get (un_Object u) ''spec'') (tl identity_path)) (spec_at (cor_Spec rr) (tl identity_path)) \<and>
             (\<forall>q. parallel (tl identity_path) q \<longrightarrow> spec_at (cor_Spec rr) q = spec_at (map_get (un_Object u) ''spec'') q) \<and>
             (cor_Status rr = None \<or> un_Kind u = ''InsightsOperator'')"
    if rr: "(name, OperatorResourceItem rr) \<in> set (?recs item)" for name item rr
  proof -
    from rr obtain versions ro u where "ro \<in> set (cop_RelatedObjects item)" "contains_str ''operator.openshift.io'' (ref_Group ro)"
      "getRelatedObjectResource get ro (cop_Name item) (case map_get versions (ref_Group ro, ref_Resource ro) of None \<Rightarrow> [] | Some v \<Rightarrow> v) = Inr u"
      "rr = operator_resource_record u" "\<not> contains_str ''imageregistry'' (cor_APIVersion rr)"
      unfolding resource_item_iff related_object_records by blast
    then show ?thesis
      by (intro exI[of _ ro] exI[of _ "case map_get versions (ref_Group ro, ref_Resource ro) of None \<Rightarrow> [] | Some v \<Rightarrow> v"] exI[of _ u])
        (simp add: operator_resource_record_def Let_def spec_masked masked_providers_masking)
  qed
  have "(''config/clusteroperator/'' @ cop_Name item, OperatorItem item) \<in> set (?recs item)" for item
    by (simp add: operator_records_def)
  with \<open>err = None\<close> show ?thesis
    unfolding records list_all_iff by (fastforce split: operator_item.splits dest: op res)
qed

definition example_oauth :: unstructured where
  "example_oauth = \<lparr>un_Name = ''cluster'', un_Namespace = [], un_Kind = ''Authentication'', un_APIVersion = ''operator.openshift.io/v1'',
     un_Object = [(''spec'', JObject [(''logLevel'', JString ''Normal''), (''observedConfig'', JObject [(''oauthServer'', JObject [(''oauthConfig'',
       JObject [(''identityProviders'', JArray [JObject [(''provider'', JObject [(''url'', JString ''ldap''), (''kind'', JString ''LDAP'')])]])])])])]),
       (''status'', JNull)]\<rparr>"

definition example_authentication :: cluster_operator where
  "example_authentication = \<lparr>cop_Name = ''authentication'', cop_Conditions = [],
     cop_RelatedObjects = [\<lparr>ref_Group = ''operator.openshift.io'', ref_Resource = ''authentications'', ref_Namespace = [], ref_Name = ''cluster''\<rparr>,
       \<lparr>ref_Group = ''config.openshift.io'', ref_Resource = ''oauths'', ref_Namespace = [], ref_Name = ''cluster''\<rparr>]\<rparr>"

definition example_parse :: "string \<Rightarrow> (string \<times> string) result" where
  "example_parse gv = Inr (''operator.openshift.io'', ''v1'')"

definition example_read :: resource_get where
  "example_read r ns n = (if r = (''operator.openshift.io'', ''v1'', ''authentications'') \<and> n = ''cluster'' then Inr example_oauth else Inl (NotFoundErr n))"

definition example_operator_records :: "(string \<times> operator_item) list" where
  "example_operator_records =
     [(''config/clusteroperator/authentication'', OperatorItem example_authentication),
      (''config/clusteroperator/operator.openshift.io/authentication/cluster'', OperatorResourceItem
        \<lparr>cor_APIVersion = ''operator.openshift.io/v1'', cor_Kind = ''Authentication'', cor_Name = ''cluster'',
         cor_Spec = Some (JObject [(''logLevel'', JString ''Normal''), (''observedConfig'', JObject [(''oauthServer'', JObject [(''oauthConfig'',
           JObject [(''identityProviders'', JArray [JObject [(''provider'', JObject [(''url'', JString ''xxxx''), (''kind'', JString ''LDAP'')])]])])])])]),
         cor_namespace = [], cor_Status = None\<rparr>)]"

lemma example_operators:
  "gatherClusterOperators example_parse example_read (Inr [(''operator.openshift.io/v1'', [''authentications''])]) (Inr [example_authentication]) =
     (example_operator_records, None)"
  by code_simp

theorem operator_resources_masked_witness:
  "(''config/clusteroperator/authentication'', OperatorItem example_authentication) \<in> set example_operator_records \<and>
   (\<exists>u spec. example_read (''operator.openshift.io'', ''v1'', ''authentications'') [] ''cluster'' = Inr u \<and>
      list_ex (\<lambda>(name, i). case i of OperatorItem _ \<Rightarrow> False | OperatorResourceItem rr \<Rightarrow> cor_Spec rr = spec) example_operator_records \<and>
      providers_masking (spec_at (map_get (un_Object u) ''spec'') (tl identity_path)) (spec_at spec (tl identity_path)))"
proof -
  note ok = operator_resources_masked[OF example_operators]
  have first: "(''config/clusteroperator/authentication'', OperatorItem example_authentication) \<in> set example_operator_records"
    by (simp add: example_operator_records_def)
  obtain rr where rr: "(''config/clusteroperator/operator.openshift.io/authentication/cluster'', OperatorResourceItem rr) \<in> set example_operator_records"
    by (auto simp: example_operator_records_def)
  with ok obtain ro version u where u: "ro \<in> set (cop_RelatedObjects example_authentication)"
    "getRelatedObjectResource example_read ro (cop_Name example_authentication) version = Inr u"
    "providers_masking (spec_at (map_get (un_Object u) ''spec'') (tl identity_path)) (spec_at (cor_Spec rr) (tl identity_path))"
    unfolding list_all_iff by fastforce
  have "u = example_oauth" using u(2) by (auto simp: getRelatedObjectResource_def example_read_def Let_def split: if_splits)
  then have "example_read (''operator.openshift.io'', ''v1'', ''authentications'') [] ''cluster'' = Inr u" by (simp add: example_read_def)
  moreover have "list_ex (\<lambda>(name, i). case i of OperatorItem _ \<Rightarrow> False | OperatorResourceItem r \<Rightarrow> cor_Spec r = cor_Spec rr) example_operator_records"
    using rr by (force simp: list_ex_iff)
  ultimately show ?thesis using first u(3) by blast
qed

end
