(* ===== verification/CustomResources.thy ===== *)
theory CustomResources
  imports Unstructured
begin

text \<open>
  The gatherers of pkg/gatherers/clusterconfig that list custom resources with the dynamic client and record them, most
  of them after removing or masking parts: machine configs, control plane machine sets, OLM operators, LokiStacks,
  OpenTelemetry collectors, node network states, the OpenStack resources, subscriptions, Ceph clusters, the Alertmanager
  configuration and the ones that are recorded as they are.

  A listing is its outcome, a list of objects or an error; the content of a record is the object after the changes.
  JSON and YAML coding are parameters.
\<close>

section \<open>Listings\<close>

definition list_items :: "'a list result \<Rightarrow> ('a list \<Rightarrow> (string \<times> 'b) list \<times> go_error list) \<Rightarrow> (string \<times> 'b) list \<times> go_error list" where
  "list_items listing f =
     (case listing of
        Inl err \<Rightarrow> ([], if isNotFound err then [] else [err])
      | Inr items \<Rightarrow> f items)"

text \<open>The gatherers that record every listed object under its own name.\<close>

definition scoped_name :: "string \<Rightarrow> unstructured \<Rightarrow> string" where
  "scoped_name pre u = pre @ un_Namespace u @ ''/'' @ un_Name u"

definition plain_name :: "string \<Rightarrow> unstructured \<Rightarrow> string" where
  "plain_name pre u = pre @ un_Name u"

definition gatherMachineHealthCheck :: "unstructured list result \<Rightarrow> (string \<times> json_map) list \<times> go_error list" where
  "gatherMachineHealthCheck listing =
     list_items listing (\<lambda>items. (map (\<lambda>u. (named_record ''config/machinehealthchecks/'' u, un_Object u)) items, []))"

definition gatherMachineAutoscalers :: "unstructured list result \<Rightarrow> (string \<times> json_map) list \<times> go_error list" where
  "gatherMachineAutoscalers listing =
     list_items listing (\<lambda>items. (map (\<lambda>u. (named_record ''config/machineautoscalers/'' u, un_Object u)) items, []))"

definition gatherMachineConfigPool :: "unstructured list result \<Rightarrow> (string \<times> json_map) list \<times> go_error list" where
  "gatherMachineConfigPool listing =
     list_items listing (\<lambda>items. (map (\<lambda>u. (plain_name ''config/machineconfigpools/'' u, un_Object u)) items, []))"

definition gatherContainerRuntimeConfig :: "unstructured list result \<Rightarrow> (string \<times> json_map) list \<times> go_error list" where
  "gatherContainerRuntimeConfig listing =
     list_items listing (\<lambda>items. (map (\<lambda>u. (plain_name ''config/containerruntimeconfigs/'' u, un_Object u)) items, []))"

definition gatherGatherKubeletConfig :: "unstructured list result \<Rightarrow> (string \<times> json_map) list \<times> go_error list" where
  "gatherGatherKubeletConfig listing =
     list_items listing (\<lambda>items. (map (\<lambda>u. (plain_name ''config/kubeletconfigs/'' u, un_Object u)) items, []))"

definition gatherCostManagementMetricsConfigs :: "unstructured list result \<Rightarrow> (string \<times> json_map) list \<times> go_error list" where
  "gatherCostManagementMetricsConfigs listing =
     list_items listing (\<lambda>items. (map (\<lambda>u. (plain_name ''config/cost_management_metrics_configs/'' u, un_Object u)) items, []))"

definition gatherNodeNetworkConfigurationPolicy :: "unstructured list result \<Rightarrow> (string \<times> json_map) list \<times> go_error list" where
  "gatherNodeNetworkConfigurationPolicy listing =
     list_items listing (\<lambda>items.
       (map (\<lambda>u. (plain_name ''cluster-scoped-resources/nmstate.io/nodenetworkconfigurationpolicies/'' u, un_Object u)) items, []))"

definition gatherSAPDatahubs :: "unstructured list result \<Rightarrow> (string \<times> json_map) list \<times> go_error list" where
  "gatherSAPDatahubs listing =
     list_items listing (\<lambda>items. (map (\<lambda>u. (scoped_name ''customresources/installers.datahub.sap.com/datahubs/'' u, un_Object u)) items, []))"

definition gatherOpenshiftLogging :: "unstructured list result \<Rightarrow> (string \<times> json_map) list \<times> go_error list" where
  "gatherOpenshiftLogging listing =
     list_items listing (\<lambda>items. (map (\<lambda>u. (scoped_name ''config/logging/'' u, un_Object u)) items, []))"

definition resource_name :: "string \<Rightarrow> string \<Rightarrow> unstructured \<Rightarrow> string" where
  "resource_name pre res u = pre @ un_Namespace u @ ''/'' @ res @ ''/'' @ un_Name u"

definition gatherStorageCluster :: "unstructured list result \<Rightarrow> (string \<times> json_map) list \<times> go_error list" where
  "gatherStorageCluster listing =
     list_items listing (\<lambda>items. (map (\<lambda>u. (resource_name ''config/storage/'' ''storageclusters'' u, un_Object u)) items, []))"

definition gatherOpenstackVersions :: "unstructured list result \<Rightarrow> (string \<times> json_map) list \<times> go_error list" where
  "gatherOpenstackVersions listing =
     list_items listing (\<lambda>items. (map (\<lambda>u. (resource_name ''namespaces/'' ''core.openstack.org/openstackversions'' u, un_Object u)) items, []))"

text \<open>Of a Ceph cluster only its status is recorded; of a subscription everything but its status.\<close>

definition gatherCephCluster :: "unstructured list result \<Rightarrow> (string \<times> json option) list \<times> go_error list" where
  "gatherCephCluster listing =
     list_items listing (\<lambda>items.
       (map (\<lambda>u. (resource_name ''config/storage/'' ''cephclusters'' u, map_get (un_Object u) ''status'')) items, []))"

definition gatherSubscriptions :: "unstructured list result \<Rightarrow> (string \<times> json_map) list \<times> go_error list" where
  "gatherSubscriptions listing =
     list_items listing (\<lambda>items.
       (map (\<lambda>u. (scoped_name ''config/subscriptions/'' u, AList.delete ''status'' (un_Object u))) items, []))"

text \<open>The gatherer of Jaeger resources stops at its limit and reports an error then.\<close>

definition jaeger_limit :: nat where
  "jaeger_limit = 5"

fun jaeger_loop :: "(string \<times> json_map) list \<Rightarrow> unstructured list \<Rightarrow> (string \<times> json_map) list \<times> go_error list" where
  "jaeger_loop records [] = (records, [])"
| "jaeger_loop records (j # js) =
     (let records = records @ [(plain_name ''config/jaegertracing.io/'' j, un_Object j)]
      in if length records = jaeger_limit
         then (records, [Errorf ''limit 5 for number of gathered jaegers.jaegertracing.io resources exceeded''])
         else jaeger_loop records js)"

definition gatherJaegerCR :: "unstructured list result \<Rightarrow> (string \<times> json_map) list \<times> go_error list" where
  "gatherJaegerCR listing = list_items listing (jaeger_loop [])"

section \<open>Parts that are overwritten or removed\<close>

fun RemoveNestedField :: "json_map \<Rightarrow> string list \<Rightarrow> json_map" where
  "RemoveNestedField m [] = m"
| "RemoveNestedField m [f] = AList.delete f m"
| "RemoveNestedField m (f # g # fs) =
     (case map_get m f of
        Some (JObject x) \<Rightarrow> map_put f (JObject (RemoveNestedField x (g # fs))) m
      | _ \<Rightarrow> m)"

definition NestedMap :: "json_map \<Rightarrow> string list \<Rightarrow> json_map \<times> bool \<times> go_error option" where
  "NestedMap obj path =
     (case NestedFieldNoCopy obj path of
        Inl err \<Rightarrow> ([], False, Some err)
      | Inr None \<Rightarrow> ([], False, None)
      | Inr (Some (JObject m)) \<Rightarrow> (m, True, None)
      | Inr (Some _) \<Rightarrow> ([], False, Some (Errorf ''accessor error'')))"

text \<open>\<open>SetNestedField\<close> with the error added to the errors of the gatherer; the object keeps what it has when it fails.\<close>

definition overwrite_field :: "string list \<Rightarrow> json_map \<times> go_error list \<Rightarrow> json_map \<times> go_error list" where
  "overwrite_field path st =
     (case SetNestedField (fst st) JNull path of Inl err \<Rightarrow> (fst st, snd st @ [err]) | Inr obj \<Rightarrow> (obj, snd st))"

definition strip_control_plane :: "unstructured \<Rightarrow> json_map \<times> go_error list" where
  "strip_control_plane ms = overwrite_field [''spec'', ''template''] (overwrite_field [''spec'', ''templates''] (un_Object ms, []))"

definition gatherControlPlaneMachineSet :: "unstructured list result \<Rightarrow> (string \<times> json_map) list \<times> go_error list" where
  "gatherControlPlaneMachineSet listing =
     list_items listing (\<lambda>items.
       (map (\<lambda>ms. (named_record ''config/controlplanemachinesets/'' ms, fst (strip_control_plane ms))) items,
        concat (map (\<lambda>ms. snd (strip_control_plane ms)) items)))"

subsection \<open>Machine configs\<close>

definition GetAnnotations :: "json_map \<Rightarrow> (string, string) gomap" where
  "GetAnnotations obj =
     (case NestedFieldNoCopy obj [''metadata'', ''annotations''] of
        Inr (Some (JObject m)) \<Rightarrow>
          (if list_all (\<lambda>(k, v). case v of JString _ \<Rightarrow> True | JNull \<Rightarrow> True | _ \<Rightarrow> False) m
           then map (\<lambda>(k, v). (k, case v of JString s \<Rightarrow> s | _ \<Rightarrow> [])) m else [])
      | _ \<Rightarrow> [])"

definition SetAnnotations :: "(string, string) gomap \<Rightarrow> json_map \<Rightarrow> json_map" where
  "SetAnnotations annotations obj =
     (case SetNestedField obj (JObject (map (\<lambda>(k, s). (k, JString s)) annotations)) [''metadata'', ''annotations''] of
        Inl _ \<Rightarrow> obj | Inr obj \<Rightarrow> obj)"

definition files_path :: "string list" where
  "files_path = [''spec'', ''config'', ''storage'', ''files'']"

definition users_path :: "string list" where
  "users_path = [''spec'', ''config'', ''passwd'', ''users'']"

text \<open>\<open>getCRSize\<close> is the length of the encoded object or the encoder's error.\<close>

definition strip_machine_config :: "(unstructured \<Rightarrow> int result) \<Rightarrow> unstructured \<Rightarrow> json_map \<times> go_error list" where
  "strip_machine_config getCRSize mc =
     (let mcSize = (case getCRSize mc of Inl _ \<Rightarrow> 0 | Inr n \<Rightarrow> n);
          errs = (case getCRSize mc of Inl err \<Rightarrow> [err] | Inr _ \<Rightarrow> []);
          obj = SetAnnotations (map_put ''insights.operator.openshift.io/cr-size'' (itoa mcSize) (GetAnnotations (un_Object mc))) (un_Object mc)
      in overwrite_field users_path (overwrite_field files_path (obj, errs)))"

datatype machine_config_item = MachineConfigItem json_map | UnusedMachineConfigsCount nat

definition config_in_use :: "string set \<Rightarrow> unstructured \<Rightarrow> bool" where
  "config_in_use inUse mc = (inUse = {} \<or> un_Name mc \<in> inUse)"

definition gatherMachineConfigs ::
  "(unstructured \<Rightarrow> int result) \<Rightarrow> unstructured list result \<Rightarrow> string set \<Rightarrow> (string \<times> machine_config_item) list \<times> go_error list" where
  "gatherMachineConfigs getCRSize listing inUse =
     (case (case listing of Inl err \<Rightarrow> if isNotFound err then Inr [] else Inl err | Inr items \<Rightarrow> Inr items) of
        Inl err \<Rightarrow> ([], [err])
      | Inr items \<Rightarrow>
          (let used = filter (config_in_use inUse) items;
               records = map (\<lambda>mc. (plain_name ''config/machineconfigs/'' mc, MachineConfigItem (fst (strip_machine_config getCRSize mc)))) used;
               errs = concat (map (\<lambda>mc. snd (strip_machine_config getCRSize mc)) used)
           in if errs \<noteq> [] then (records, errs)
              else (records @ [(''aggregated/unused_machine_configs_count'', UnusedMachineConfigsCount (length items - length used))], [])))"

text \<open>Pools are their configuration in status and specification; nodes are their annotations.\<close>

definition node_configs :: "(string, string) gomap \<Rightarrow> string list" where
  "node_configs annotations =
     (case map_get annotations ''machineconfiguration.openshift.io/currentConfig'' of None \<Rightarrow> [] | Some c \<Rightarrow> [c]) @
     (case map_get annotations ''machineconfiguration.openshift.io/desiredConfig'' of None \<Rightarrow> [] | Some c \<Rightarrow> [c])"

definition getInUseMachineConfigs ::
  "(string \<times> string) list result \<Rightarrow> (string, string) gomap list result \<Rightarrow> string set result" where
  "getInUseMachineConfigs poolList nodeList =
     (case poolList of
        Inl err \<Rightarrow> Inl err
      | Inr pools \<Rightarrow>
          (case nodeList of
             Inl err \<Rightarrow> Inl err
           | Inr nodes \<Rightarrow> Inr (set (concat (map (\<lambda>(status, spec). [status, spec]) pools)) \<union> set (concat (map node_configs nodes)))))"

definition GatherMachineConfigs ::
  "(unstructured \<Rightarrow> int result) \<Rightarrow> unstructured list result \<Rightarrow> (string \<times> string) list result \<Rightarrow> (string, string) gomap list result \<Rightarrow>
   (string \<times> machine_config_item) list \<times> go_error list" where
  "GatherMachineConfigs getCRSize listing poolList nodeList =
     (let inUse = getInUseMachineConfigs poolList nodeList;
          (records, errs) = gatherMachineConfigs getCRSize listing (case inUse of Inl _ \<Rightarrow> {} | Inr s \<Rightarrow> s)
      in (records, (case inUse of Inl err \<Rightarrow> [err] | Inr _ \<Rightarrow> []) @ errs))"

subsection \<open>LokiStacks\<close>

definition streams_path :: "string \<Rightarrow> string list" where
  "streams_path tenant = [''spec'', ''limits'', ''tenants'', tenant, ''retention'', ''streams'']"

definition remove_selector :: "json \<Rightarrow> json" where
  "remove_selector stream = (case stream of JObject m \<Rightarrow> JObject (AList.delete ''selector'' m) | _ \<Rightarrow> stream)"

fun remove_limits :: "string list \<Rightarrow> json_map \<Rightarrow> json_map \<times> go_error option" where
  "remove_limits [] obj = (obj, None)"
| "remove_limits (tenant # tenants) obj =
     (case NestedSlice obj (streams_path tenant) of
        (_, _, Some err) \<Rightarrow> (obj, Some err)
      | (_, False, None) \<Rightarrow> remove_limits tenants obj
      | (streams, True, None) \<Rightarrow>
          (case SetNestedField obj (JArray (map remove_selector streams)) (streams_path tenant) of
             Inl err \<Rightarrow> (obj, Some err)
           | Inr obj \<Rightarrow> remove_limits tenants obj))"

definition removeLimitsTenant :: "json_map \<Rightarrow> json_map \<times> go_error option" where
  "removeLimitsTenant obj = remove_limits [''application'', ''infrastructure'', ''audit''] obj"

text \<open>No record, and the error, when the limits cannot be removed.\<close>

definition fillLokiStackRecord :: "unstructured \<Rightarrow> (string \<times> json_map) option \<times> go_error option" where
  "fillLokiStackRecord item =
     (case removeLimitsTenant (un_Object item) of
        (_, Some err) \<Rightarrow> (None, Some err)
      | (obj, None) \<Rightarrow>
          (Some (''namespace/'' @ un_Namespace item @ ''/loki.grafana.com/lokistacks/'' @ un_Name item, obj), None))"

definition lokiStackResourceLimit :: nat where
  "lokiStackResourceLimit = 20"

record loki_state =
  lk_records :: "(string \<times> json_map) list"
  lk_errs :: "go_error list"
  lk_otherNamespace :: bool
  lk_tooMany :: bool

text \<open>The record is dereferenced before the error is looked at: a missing record is a panic (\<open>None\<close>).\<close>

definition loki_step :: "nat \<Rightarrow> unstructured \<Rightarrow> loki_state \<Rightarrow> loki_state option" where
  "loki_step n item st =
     (if \<not> prefix ''openshift-'' (un_Namespace item) then
        Some (if lk_otherNamespace st then st
              else st\<lparr>lk_otherNamespace := True, lk_errs := lk_errs st @ [Errorf ''found resource in an unexpected namespace'']\<rparr>)
      else if lokiStackResourceLimit \<le> length (lk_records st) then
        Some (if lk_tooMany st then st
              else st\<lparr>lk_tooMany := True,
                     lk_errs := lk_errs st @ [Errorf (''found '' @ itoa (int n) @ '' resources, limit (20) reached'')]\<rparr>)
      else (case fillLokiStackRecord item of
              (None, _) \<Rightarrow> None
            | (Some r, err) \<Rightarrow>
                Some (st\<lparr>lk_records := lk_records st @ [r],
                         lk_errs := lk_errs st @ (case err of None \<Rightarrow> [] | Some e \<Rightarrow> [e])\<rparr>)))"

fun loki_loop :: "nat \<Rightarrow> unstructured list \<Rightarrow> loki_state \<Rightarrow> loki_state option" where
  "loki_loop n [] st = Some st"
| "loki_loop n (item # items) st = (case loki_step n item st of None \<Rightarrow> None | Some st \<Rightarrow> loki_loop n items st)"

definition gatherLokiStack :: "unstructured list result \<Rightarrow> ((string \<times> json_map) list \<times> go_error list) option" where
  "gatherLokiStack listing =
     (case listing of
        Inl err \<Rightarrow> Some ([], if isNotFound err then [] else [err])
      | Inr items \<Rightarrow>
          map_option (\<lambda>st. (lk_records st, lk_errs st))
            (loki_loop (length items) items \<lparr>lk_records = [], lk_errs = [], lk_otherNamespace = False, lk_tooMany = False\<rparr>))"

subsection \<open>OpenTelemetry collectors\<close>

definition cleanCollectorSpecConfig :: "json_map \<Rightarrow> json_map result" where
  "cleanCollectorSpecConfig obj =
     (case NestedMap obj [''spec'', ''config''] of
        (_, _, Some err) \<Rightarrow> Inl err
      | (_, False, None) \<Rightarrow> Inr obj
      | (specConfig, True, None) \<Rightarrow>
          SetNestedField obj
            (JObject (case map_get specConfig ''service'' of None \<Rightarrow> [] | Some s \<Rightarrow> [(''service'', s)])) [''spec'', ''config''])"

definition collectors_limit :: nat where
  "collectors_limit = 5"

fun collectors_loop :: "(string \<times> json_map) list \<Rightarrow> go_error list \<Rightarrow> unstructured list \<Rightarrow> (string \<times> json_map) list \<times> go_error list" where
  "collectors_loop records errs [] = (records, errs)"
| "collectors_loop records errs (item # items) =
     (case cleanCollectorSpecConfig (un_Object item) of
        Inl err \<Rightarrow> collectors_loop records (errs @ [err]) items
      | Inr obj \<Rightarrow>
          (let records = records @ [(scoped_name ''config/opentelemetry/'' item, obj)]
           in if collectors_limit \<le> length records then (records, errs) else collectors_loop records errs items))"

definition gatherOpenTelemetryCollectors :: "unstructured list result \<Rightarrow> (string \<times> json_map) list \<times> go_error list" where
  "gatherOpenTelemetryCollectors listing = list_items listing (collectors_loop [] [])"

subsection \<open>Node network states\<close>

definition interfaces_path :: "string list" where
  "interfaces_path = [''status'', ''currentState'', ''interfaces'']"

text \<open>An interface that is not a map is left out.\<close>

definition anonymize_interface :: "json \<Rightarrow> json list" where
  "anonymize_interface networkInterface =
     (case networkInterface of
        JObject m \<Rightarrow>
          (case NestedStringWrapper m [''mac-address''] of
             Inl _ \<Rightarrow> [JObject m]
           | Inr macAddress \<Rightarrow>
               (case SetNestedField m (JString (anonymize_String macAddress)) [''mac-address''] of
                  Inl _ \<Rightarrow> []
                | Inr m \<Rightarrow> [JObject m]))
      | _ \<Rightarrow> [])"

definition anonymizeNodeNetworkState :: "json_map \<Rightarrow> json_map result" where
  "anonymizeNodeNetworkState state =
     (case NestedSliceWrapper state interfaces_path of
        Inl _ \<Rightarrow> Inr state
      | Inr networkInterfaces \<Rightarrow> SetNestedField state (JArray (concat (map anonymize_interface networkInterfaces))) interfaces_path)"

definition network_state_step :: "unstructured \<Rightarrow> (string \<times> json_map) list \<times> go_error list \<Rightarrow> (string \<times> json_map) list \<times> go_error list" where
  "network_state_step item acc =
     (case anonymizeNodeNetworkState (un_Object item) of
        Inl err \<Rightarrow> (fst acc, snd acc @ [err])
      | Inr obj \<Rightarrow> (fst acc @ [(plain_name ''cluster-scoped-resources/nmstate.io/nodenetworkstates/'' item, obj)], snd acc))"

definition gatherNodeNetworkState :: "unstructured list result \<Rightarrow> (string \<times> json_map) list \<times> go_error list" where
  "gatherNodeNetworkState listing = list_items listing (\<lambda>items. fold network_state_step items ([], []))"

subsection \<open>OpenStack resources\<close>

definition removeFields :: "json_map \<Rightarrow> string list list \<Rightarrow> json_map" where
  "removeFields data fieldsToRemove = fold (\<lambda>path data. RemoveNestedField data path) fieldsToRemove data"

definition masked_or_xxx :: "json \<Rightarrow> json" where
  "masked_or_xxx v = JString (case v of JString (c # s) \<Rightarrow> anonymize_String (c # s) | _ \<Rightarrow> ''xxx'')"

definition anonymize_path :: "json_map \<Rightarrow> string list \<Rightarrow> json_map" where
  "anonymize_path data path =
     (case NestedFieldNoCopy data path of
        Inr (Some v) \<Rightarrow> (case SetNestedField data (masked_or_xxx v) path of Inl _ \<Rightarrow> data | Inr data \<Rightarrow> data)
      | _ \<Rightarrow> data)"

definition anonymizeFields :: "json_map \<Rightarrow> string list list \<Rightarrow> json_map" where
  "anonymizeFields data fieldsToAnonymize = fold (\<lambda>path data. anonymize_path data path) fieldsToAnonymize data"

text \<open>
  The fields of the given names, at any depth of maps.  The code runs the recursion once per given name on the same map;
  running it again changes nothing (\<open>custom_fields_idem\<close>), and it is written once here.
\<close>

fun custom_value :: "string list \<Rightarrow> json \<Rightarrow> json" where
  "custom_value names (JObject m) =
     JObject (map (\<lambda>(k, v). (k, if k \<in> set names then masked_or_xxx v else custom_value names v)) m)"
| "custom_value names v = v"

definition anonymizeCustomPathFields :: "json_map \<Rightarrow> string list \<Rightarrow> json_map" where
  "anonymizeCustomPathFields data names =
     (if names = [] then data
      else map (\<lambda>(k, v). (k, if k \<in> set names then masked_or_xxx v else custom_value names v)) data)"

definition anonymize_hostname :: "string \<Rightarrow> string \<times> json \<Rightarrow> json_map \<Rightarrow> json_map" where
  "anonymize_hostname host entry data =
     (case snd entry of
        JString hostname \<Rightarrow>
          (case SetNestedField data (JString (anonymize_String hostname)) [''status'', ''allHostnames'', host, fst entry] of
             Inl _ \<Rightarrow> data | Inr data \<Rightarrow> data)
      | _ \<Rightarrow> data)"

definition anonymize_host :: "string \<times> json \<Rightarrow> json_map \<Rightarrow> json_map" where
  "anonymize_host entry data =
     (case snd entry of
        JObject networksList \<Rightarrow> fold (anonymize_hostname (fst entry)) networksList data
      | _ \<Rightarrow> data)"

definition anonymizeStatusHostNames :: "json_map \<Rightarrow> json_map" where
  "anonymizeStatusHostNames data =
     (case NestedMap data [''status'', ''allHostnames''] of
        (allHosts, True, None) \<Rightarrow> fold anonymize_host allHosts data
      | _ \<Rightarrow> data)"

definition last_applied_path :: "string list" where
  "last_applied_path = [''metadata'', ''annotations'', ''kubectl.kubernetes.io/last-applied-configuration'']"

definition prepareOpenStackDataPlaneNodeSet :: "json_map \<Rightarrow> json_map" where
  "prepareOpenStackDataPlaneNodeSet data =
     anonymizeStatusHostNames
       (anonymizeCustomPathFields (anonymizeFields (removeFields data [last_applied_path]) [])
         [''ansibleHost'', ''ansibleUser'', ''edpm_sshd_allowed_ranges'', ''dnsClusterAddresses''])"

definition prepareOpenStackControlPlane :: "json_map \<Rightarrow> json_map" where
  "prepareOpenStackControlPlane data =
     anonymizeFields (removeFields data [last_applied_path]) [[''spec'', ''dns'', ''template'', ''options'']]"

definition prepareOpenStackDataPlaneDeployment :: "json_map \<Rightarrow> json_map" where
  "prepareOpenStackDataPlaneDeployment data = removeFields data [last_applied_path]"

definition gatherOpenstackDataplaneNodeSets :: "unstructured list result \<Rightarrow> (string \<times> json_map) list \<times> go_error list" where
  "gatherOpenstackDataplaneNodeSets listing =
     list_items listing (\<lambda>items. (map (\<lambda>u. (resource_name ''namespaces/'' ''dataplane.openstack.org/openstackdataplanenodesets'' u,
       prepareOpenStackDataPlaneNodeSet (un_Object u))) items, []))"

definition gatherOpenstackControlplanes :: "unstructured list result \<Rightarrow> (string \<times> json_map) list \<times> go_error list" where
  "gatherOpenstackControlplanes listing =
     list_items listing (\<lambda>items. (map (\<lambda>u. (resource_name ''namespaces/'' ''core.openstack.org/openstackcontrolplanes'' u,
       prepareOpenStackControlPlane (un_Object u))) items, []))"

definition gatherOpenstackDataplaneDeployments :: "unstructured list result \<Rightarrow> (string \<times> json_map) list \<times> go_error list" where
  "gatherOpenstackDataplaneDeployments listing =
     list_items listing (\<lambda>items. (map (\<lambda>u. (resource_name ''namespaces/'' ''dataplane.openstack.org/openstackdataplanedeployments'' u,
       prepareOpenStackDataPlaneDeployment (un_Object u))) items, []))"

section \<open>OLM operators\<close>

record olmOperator =
  olm_Name :: string
  olm_DisplayName :: string
  olm_Version :: string
  olm_Conditions :: "json list"

record csvRef =
  csv_Name :: string
  csv_Namespace :: string
  csv_Version :: string

definition isInArray :: "olmOperator \<Rightarrow> olmOperator list \<Rightarrow> bool" where
  "isInArray op a = list_ex (\<lambda>x. olm_Name op = olm_Name x \<and> olm_Version op = olm_Version x) a"

text \<open>
  The outer option is the panic of a failed type assertion; the result is an error or the reference, if it is one of
  a cluster service version.
\<close>

definition findCSVRefInRefs :: "json \<Rightarrow> csvRef option result option" where
  "findCSVRefInRefs r =
     (case r of
        JObject refMap \<Rightarrow>
          (if map_get refMap ''kind'' = Some (JString ''ClusterServiceVersion'') then
             (case map_get refMap ''name'' of
                Some (JString name) \<Rightarrow>
                  (if CHR ''.'' \<notin> set name then Some (Inl (Errorf (''clusterserviceversion '' @ name @ '' does not include version'')))
                   else (case map_get refMap ''namespace'' of
                           Some (JString ns) \<Rightarrow>
                             Some (Inr (Some \<lparr>csv_Name = name, csv_Namespace = ns,
                                              csv_Version = tl (dropWhile (\<lambda>c. c \<noteq> CHR ''.'') name)\<rparr>))
                         | _ \<Rightarrow> None))
              | _ \<Rightarrow> None)
           else Some (Inr None))
      | _ \<Rightarrow> Some (Inl (Errorf ''cannot convert the reference'')))"

definition parseCsv :: "json_map \<Rightarrow> (string \<times> json list) result" where
  "parseCsv csv =
     (case NestedSliceWrapper csv [''status'', ''conditions''] of
        Inl err \<Rightarrow> Inl err
      | Inr conditions \<Rightarrow>
          (case NestedStringWrapper csv [''spec'', ''displayName''] of
             Inl err \<Rightarrow> Inl err
           | Inr name \<Rightarrow> Inr (name, conditions)))"

text \<open>\<open>get\<close> reads a cluster service version by namespace and name.\<close>

definition getCSVAndParse :: "(string \<Rightarrow> string \<Rightarrow> json_map result) \<Rightarrow> csvRef \<Rightarrow> (string \<times> json list) result" where
  "getCSVAndParse get ref =
     (case get (csv_Namespace ref) (csv_Name ref) of
        Inl _ \<Rightarrow> Inl (Errorf (''failed to get '' @ csv_Name ref @ '' ClusterServiceVersion''))
      | Inr csv \<Rightarrow>
          (case parseCsv csv of
             Inl _ \<Rightarrow> Inl (Errorf (''cannot read '' @ csv_Name ref @ '' ClusterServiceVersion attributes''))
           | Inr r \<Rightarrow> Inr r))"

text \<open>The operator being built is shared by the references of one object.\<close>

type_synonym olm_state = "olmOperator \<times> olmOperator list \<times> go_error list"

definition olm_ref_step :: "(string \<Rightarrow> string \<Rightarrow> json_map result) \<Rightarrow> json \<Rightarrow> olm_state \<Rightarrow> olm_state option" where
  "olm_ref_step get r st =
     (case st of (newOlm, olms, errs) \<Rightarrow>
        (case findCSVRefInRefs r of
           None \<Rightarrow> None
         | Some (Inl err) \<Rightarrow> Some (newOlm, olms @ [newOlm], errs @ [err])
         | Some (Inr None) \<Rightarrow> Some st
         | Some (Inr (Some ref)) \<Rightarrow>
             (let newOlm = newOlm\<lparr>olm_Version := csv_Version ref\<rparr>
              in case getCSVAndParse get ref of
                   Inl err \<Rightarrow> Some (newOlm, olms @ [newOlm], errs @ [err])
                 | Inr (name, conditions) \<Rightarrow>
                     (let newOlm = newOlm\<lparr>olm_DisplayName := name, olm_Conditions := conditions\<rparr>
                      in Some (newOlm, if isInArray newOlm olms then olms else olms @ [newOlm], errs)))))"

fun olm_refs :: "(string \<Rightarrow> string \<Rightarrow> json_map result) \<Rightarrow> json list \<Rightarrow> olm_state \<Rightarrow> olm_state option" where
  "olm_refs get [] st = Some st"
| "olm_refs get (r # rs) st = (case olm_ref_step get r st of None \<Rightarrow> None | Some st \<Rightarrow> olm_refs get rs st)"

fun olm_items ::
  "(string \<Rightarrow> string \<Rightarrow> json_map result) \<Rightarrow> unstructured list \<Rightarrow> olmOperator list \<times> go_error list \<Rightarrow> (olmOperator list \<times> go_error list) option" where
  "olm_items get [] acc = Some acc"
| "olm_items get (i # is) (olms, errs) =
     (let newOlm = \<lparr>olm_Name = un_Name i, olm_DisplayName = [], olm_Version = [], olm_Conditions = []\<rparr>
      in case NestedSliceWrapper (un_Object i) [''status'', ''components'', ''refs''] of
           Inl _ \<Rightarrow> olm_items get is (olms @ [newOlm], errs @ [Errorf (''cannot find status.components.refs in '' @ un_Name i @ '' definition'')])
         | Inr refs \<Rightarrow>
             (case olm_refs get refs (newOlm, olms, errs) of
                None \<Rightarrow> None
              | Some (_, olms, errs) \<Rightarrow> olm_items get is (olms, errs)))"

definition gatherOLMOperators ::
  "(string \<Rightarrow> string \<Rightarrow> json_map result) \<Rightarrow> unstructured list result \<Rightarrow> (olmOperator list option \<times> go_error list) option" where
  "gatherOLMOperators get listing =
     (case listing of
        Inl err \<Rightarrow> Some (None, if isNotFound err then [] else [err])
      | Inr items \<Rightarrow>
          (case olm_items get items ([], []) of
             None \<Rightarrow> None
           | Some (olms, errs) \<Rightarrow> Some (if olms = [] then (None, []) else (Some olms, errs))))"

section \<open>The Alertmanager configuration\<close>

text \<open>The expression \<open>(?i)(token|key|secret|password|auth|url|host)\<close>, on ASCII keys.\<close>

definition sensitive_key :: "string \<Rightarrow> bool" where
  "sensitive_key k = list_ex (\<lambda>w. contains_str w (map to_lower k)) [''token'', ''key'', ''secret'', ''password'', ''auth'', ''url'', ''host'']"

text \<open>
  The code recurses from maps to maps and slices and from slices to maps; \<open>anonymize_entry\<close> is the value of a map,
  \<open>anonymize_element\<close> the element of a slice.
\<close>

fun anonymize_entry :: "bool \<Rightarrow> json \<Rightarrow> json" and anonymize_element :: "bool \<Rightarrow> json \<Rightarrow> json" where
  "anonymize_entry sensitive (JString s) = JString (if sensitive then anonymize_String s else s)"
| "anonymize_entry sensitive (JObject m) = JObject (map (\<lambda>(k, v). (k, anonymize_entry (sensitive \<or> sensitive_key k) v)) m)"
| "anonymize_entry sensitive (JArray xs) = JArray (map (anonymize_element sensitive) xs)"
| "anonymize_entry sensitive JNull = JNull"
| "anonymize_entry sensitive (JBool b) = JBool b"
| "anonymize_entry sensitive (JNumber n) = JNumber n"
| "anonymize_element sensitive (JString s) = JString (if sensitive then anonymize_String s else s)"
| "anonymize_element sensitive (JObject m) = JObject (map (\<lambda>(k, v). (k, anonymize_entry (sensitive \<or> sensitive_key k) v)) m)"
| "anonymize_element sensitive (JArray xs) = JArray xs"
| "anonymize_element sensitive JNull = JNull"
| "anonymize_element sensitive (JBool b) = JBool b"
| "anonymize_element sensitive (JNumber n) = JNumber n"

definition anonymizeMap :: "json_map \<Rightarrow> bool \<Rightarrow> json_map" where
  "anonymizeMap m sensitive = map (\<lambda>(k, v). (k, anonymize_entry (sensitive \<or> sensitive_key k) v)) m"

definition anonymizeSlice :: "json list \<Rightarrow> bool \<Rightarrow> json list" where
  "anonymizeSlice s sensitive = map (anonymize_element sensitive) s"

definition alertmanager_keys :: "string list" where
  "alertmanager_keys = [''receivers'', ''route'', ''inhibit_rules'']"

definition gatherAlertmanagerConfig ::
  "(string \<Rightarrow> json_map result) \<Rightarrow> (string, string) gomap result \<Rightarrow> (string \<times> json_map) list \<times> go_error list" where
  "gatherAlertmanagerConfig unmarshal secret =
     (case secret of
        Inl err \<Rightarrow> ([], if isNotFound err then [] else [err])
      | Inr data \<Rightarrow>
          (case map_get data ''alertmanager.yaml'' of
             None \<Rightarrow> ([], [])
           | Some yamlData \<Rightarrow>
               (case unmarshal yamlData of
                  Inl err \<Rightarrow> ([], [err])
                | Inr fullCfg \<Rightarrow>
                    (let cfg = concat (map (\<lambda>key. case map_get fullCfg key of None \<Rightarrow> [] | Some val \<Rightarrow> [(key, val)]) alertmanager_keys)
                     in ([(''config/secrets/openshift-monitoring/alertmanager-main/data'', anonymizeMap cfg False)], [])))))"

section \<open>What the listings promise\<close>

text \<open>
  The contract of a gatherer that records every listed object: an absent resource type is no error, another error is the only result, and
  otherwise there is one record per object, under a name that tells objects apart.
\<close>

locale listing_gatherer =
  fixes gather :: "unstructured list result \<Rightarrow> (string \<times> 'b) list \<times> go_error list"
    and name :: "unstructured \<Rightarrow> string"
    and content :: "unstructured \<Rightarrow> 'b"
    and key :: "unstructured \<Rightarrow> 'k"
  assumes gather_error: "gather (Inl err) = ([], if isNotFound err then [] else [err])"
    and gather_items: "gather (Inr items) = (map (\<lambda>u. (name u, content u)) items, [])"
    and name_key: "CHR ''/'' \<notin> set (un_Namespace u) \<union> set (un_Namespace v) \<Longrightarrow> name u = name v \<Longrightarrow> key u = key v"
begin

lemma errors_exclude_records: "snd (gather listing) \<noteq> [] \<Longrightarrow> fst (gather listing) = []"
  by (cases listing) (simp_all add: gather_error gather_items)

lemma every_object_recorded: "u \<in> set items \<Longrightarrow> (name u, content u) \<in> set (fst (gather (Inr items)))"
  by (auto simp: gather_items)

lemma names_distinct:
  assumes "distinct (map key items)" "list_all (\<lambda>u. CHR ''/'' \<notin> set (un_Namespace u)) items"
  shows "distinct (map fst (fst (gather (Inr items))))"
proof -
  have "distinct (map name items)"
    using assms name_key unfolding distinct_map inj_on_def list_all_iff by (meson Un_iff)
  then show ?thesis by (simp add: gather_items comp_def)
qed

end

lemma slash_split:
  assumes "CHR ''/'' \<notin> set a" "CHR ''/'' \<notin> set b" "a @ CHR ''/'' # x = b @ CHR ''/'' # y"
  shows "a = b \<and> x = y"
  using assms by (induction a arbitrary: b) (auto simp: Cons_eq_append_conv append_eq_Cons_conv)

lemma scoped_name_key:
  "CHR ''/'' \<notin> set (un_Namespace u) \<union> set (un_Namespace v) \<Longrightarrow> scoped_name pre u = scoped_name pre v \<Longrightarrow>
     (un_Namespace u, un_Name u) = (un_Namespace v, un_Name v)"
  by (auto simp: scoped_name_def dest: slash_split)

lemma resource_name_key:
  "CHR ''/'' \<notin> set (un_Namespace u) \<union> set (un_Namespace v) \<Longrightarrow> resource_name pre res u = resource_name pre res v \<Longrightarrow>
     (un_Namespace u, un_Name u) = (un_Namespace v, un_Name v)"
  by (auto simp: resource_name_def dest: slash_split)

lemmas listing_simps = list_items_def plain_name_def

interpretation pools: listing_gatherer gatherMachineConfigPool "plain_name ''config/machineconfigpools/''" un_Object un_Name
  by unfold_locales (simp_all add: gatherMachineConfigPool_def listing_simps)

interpretation runtime_configs: listing_gatherer gatherContainerRuntimeConfig "plain_name ''config/containerruntimeconfigs/''" un_Object un_Name
  by unfold_locales (simp_all add: gatherContainerRuntimeConfig_def listing_simps)

interpretation kubelet_configs: listing_gatherer gatherGatherKubeletConfig "plain_name ''config/kubeletconfigs/''" un_Object un_Name
  by unfold_locales (simp_all add: gatherGatherKubeletConfig_def listing_simps)

interpretation cost_configs: listing_gatherer gatherCostManagementMetricsConfigs "plain_name ''config/cost_management_metrics_configs/''" un_Object un_Name
  by unfold_locales (simp_all add: gatherCostManagementMetricsConfigs_def listing_simps)

interpretation network_policies: listing_gatherer gatherNodeNetworkConfigurationPolicy
    "plain_name ''cluster-scoped-resources/nmstate.io/nodenetworkconfigurationpolicies/''" un_Object un_Name
  by unfold_locales (simp_all add: gatherNodeNetworkConfigurationPolicy_def listing_simps)

interpretation datahubs: listing_gatherer gatherSAPDatahubs "scoped_name ''customresources/installers.datahub.sap.com/datahubs/''" un_Object
    "\<lambda>u. (un_Namespace u, un_Name u)"
  by unfold_locales (simp add: gatherSAPDatahubs_def list_items_def, simp add: gatherSAPDatahubs_def list_items_def, rule scoped_name_key)

interpretation logging: listing_gatherer gatherOpenshiftLogging "scoped_name ''config/logging/''" un_Object "\<lambda>u. (un_Namespace u, un_Name u)"
  by unfold_locales (simp add: gatherOpenshiftLogging_def list_items_def, simp add: gatherOpenshiftLogging_def list_items_def, rule scoped_name_key)

interpretation subscriptions: listing_gatherer gatherSubscriptions "scoped_name ''config/subscriptions/''"
    "\<lambda>u. AList.delete ''status'' (un_Object u)" "\<lambda>u. (un_Namespace u, un_Name u)"
  by unfold_locales (simp add: gatherSubscriptions_def list_items_def, simp add: gatherSubscriptions_def list_items_def, rule scoped_name_key)

interpretation storage_clusters: listing_gatherer gatherStorageCluster "resource_name ''config/storage/'' ''storageclusters''" un_Object
    "\<lambda>u. (un_Namespace u, un_Name u)"
  by unfold_locales (simp add: gatherStorageCluster_def list_items_def, simp add: gatherStorageCluster_def list_items_def, rule resource_name_key)

interpretation openstack_versions: listing_gatherer gatherOpenstackVersions "resource_name ''namespaces/'' ''core.openstack.org/openstackversions''" un_Object
    "\<lambda>u. (un_Namespace u, un_Name u)"
  by unfold_locales (simp add: gatherOpenstackVersions_def list_items_def, simp add: gatherOpenstackVersions_def list_items_def, rule resource_name_key)

interpretation ceph_clusters: listing_gatherer gatherCephCluster "resource_name ''config/storage/'' ''cephclusters''" "\<lambda>u. map_get (un_Object u) ''status''"
    "\<lambda>u. (un_Namespace u, un_Name u)"
  by unfold_locales (simp add: gatherCephCluster_def list_items_def, simp add: gatherCephCluster_def list_items_def, rule resource_name_key)

interpretation node_sets: listing_gatherer gatherOpenstackDataplaneNodeSets
    "resource_name ''namespaces/'' ''dataplane.openstack.org/openstackdataplanenodesets''" "\<lambda>u. prepareOpenStackDataPlaneNodeSet (un_Object u)"
    "\<lambda>u. (un_Namespace u, un_Name u)"
  by unfold_locales (simp add: gatherOpenstackDataplaneNodeSets_def list_items_def, simp add: gatherOpenstackDataplaneNodeSets_def list_items_def,
      rule resource_name_key)

interpretation control_planes: listing_gatherer gatherOpenstackControlplanes
    "resource_name ''namespaces/'' ''core.openstack.org/openstackcontrolplanes''" "\<lambda>u. prepareOpenStackControlPlane (un_Object u)"
    "\<lambda>u. (un_Namespace u, un_Name u)"
  by unfold_locales (simp add: gatherOpenstackControlplanes_def list_items_def, simp add: gatherOpenstackControlplanes_def list_items_def,
      rule resource_name_key)

interpretation deployments: listing_gatherer gatherOpenstackDataplaneDeployments
    "resource_name ''namespaces/'' ''dataplane.openstack.org/openstackdataplanedeployments''" "\<lambda>u. prepareOpenStackDataPlaneDeployment (un_Object u)"
    "\<lambda>u. (un_Namespace u, un_Name u)"
  by unfold_locales (simp add: gatherOpenstackDataplaneDeployments_def list_items_def, simp add: gatherOpenstackDataplaneDeployments_def list_items_def,
      rule resource_name_key)

text \<open>A Jaeger resource has a namespace, but its record is named without it: two of the same name get one name.\<close>

lemma jaeger_names_collide:
  "map fst (fst (gatherJaegerCR (Inr [\<lparr>un_Name = ''j'', un_Namespace = ''a'', un_Kind = [], un_APIVersion = [], un_Object = []\<rparr>,
     \<lparr>un_Name = ''j'', un_Namespace = ''b'', un_Kind = [], un_APIVersion = [], un_Object = []\<rparr>]))) =
     [''config/jaegertracing.io/j'', ''config/jaegertracing.io/j'']"
  by (simp add: gatherJaegerCR_def list_items_def plain_name_def jaeger_limit_def Let_def)

lemma jaeger_loop_limit:
  "length records < jaeger_limit \<Longrightarrow>
     length (fst (jaeger_loop records js)) = min jaeger_limit (length records + length js) \<and>
     (snd (jaeger_loop records js) \<noteq> [] \<longleftrightarrow> jaeger_limit \<le> length records + length js)"
  by (induction records js rule: jaeger_loop.induct) (auto simp: Let_def)

text \<open>At most five Jaeger resources are recorded; with exactly five the error says that the limit is exceeded.\<close>

lemma jaeger_limited:
  "length (fst (gatherJaegerCR (Inr js))) = min jaeger_limit (length js)"
  "snd (gatherJaegerCR (Inr js)) \<noteq> [] \<longleftrightarrow> jaeger_limit \<le> length js"
  using jaeger_loop_limit[of "[]" js] by (simp_all add: gatherJaegerCR_def list_items_def jaeger_limit_def)

section \<open>What is masked\<close>

subsection \<open>The Alertmanager configuration\<close>

text \<open>A position in a value: through the keys of maps and the indexes of slices.\<close>

datatype step = Key string | Idx nat

fun value_at :: "json \<Rightarrow> step list \<Rightarrow> json option" where
  "value_at v [] = Some v"
| "value_at (JObject m) (Key k # p) = (case map_get m k of None \<Rightarrow> None | Some v \<Rightarrow> value_at v p)"
| "value_at (JArray xs) (Idx i # p) = (if i < length xs then value_at (xs ! i) p else None)"
| "value_at _ _ = None"

text \<open>Below a slice that is an element of a slice nothing is looked at.\<close>

fun slice_in_slice :: "step list \<Rightarrow> bool" where
  "slice_in_slice (Idx i # Idx j # p) = True"
| "slice_in_slice (_ # p) = slice_in_slice p"
| "slice_in_slice [] = False"

definition sensitive_path :: "step list \<Rightarrow> bool" where
  "sensitive_path p = list_ex (\<lambda>x. case x of Key k \<Rightarrow> sensitive_key k | Idx _ \<Rightarrow> False) p"

lemma sensitive_path_simps [simp]:
  "\<not> sensitive_path []" "sensitive_path (Key k # p) \<longleftrightarrow> sensitive_key k \<or> sensitive_path p" "sensitive_path (Idx i # p) = sensitive_path p"
  by (simp_all add: sensitive_path_def)

lemma slice_in_slice_Cons:
  "slice_in_slice (Key k # p) = slice_in_slice p"
  "slice_in_slice (Idx i # p) \<longleftrightarrow> (\<exists>j q. p = Idx j # q) \<or> slice_in_slice p"
proof -
  show "slice_in_slice (Key k # p) = slice_in_slice p" by simp
  show "slice_in_slice (Idx i # p) \<longleftrightarrow> (\<exists>j q. p = Idx j # q) \<or> slice_in_slice p"
  proof (cases p)
    case (Cons a q)
    then show ?thesis by (cases a) simp_all
  qed simp
qed

lemma map_of_map_values: "map_get (map (\<lambda>(k, v). (k, f k v)) m) k = map_option (f k) (map_get m k)"
  by (induction m) auto

definition masked_at :: "bool \<Rightarrow> step list \<Rightarrow> string \<Rightarrow> string" where
  "masked_at sensitive p t = (if (sensitive \<or> sensitive_path p) \<and> \<not> slice_in_slice p then anonymize_String t else t)"

lemma string_in_object:
  assumes "value_at (JObject m) p = Some (JString t)"
  obtains k q v where "p = Key k # q" "map_get m k = Some v" "value_at v q = Some (JString t)" "(k, v) \<in> set m"
proof (cases p)
  case (Cons a q)
  with assms that show ?thesis by (cases a) (auto split: option.splits dest: map_of_SomeD)
qed (use assms in simp)

lemma string_in_array:
  assumes "value_at (JArray xs) p = Some (JString t)"
  obtains i q where "p = Idx i # q" "i < length xs" "value_at (xs ! i) q = Some (JString t)"
proof (cases p)
  case (Cons a q)
  with assms that show ?thesis by (cases a) (auto split: if_splits)
qed (use assms in simp)

lemma string_in_scalar:
  "value_at (JString u) p = Some (JString t) \<longleftrightarrow> p = [] \<and> u = t"
  "value_at JNull p \<noteq> Some (JString t)" "value_at (JBool b) p \<noteq> Some (JString t)" "value_at (JNumber n) p \<noteq> Some (JString t)"
  by (cases p; auto)+

lemma masked_entry_element:
  shows "value_at v p = Some (JString t) \<Longrightarrow> value_at (anonymize_entry sensitive v) p = Some (JString (masked_at sensitive p t))"
    and "value_at v p = Some (JString t) \<Longrightarrow>
      value_at (anonymize_element sensitive v) p = Some (JString (if \<exists>j q. p = Idx j # q then t else masked_at sensitive p t))"
proof (induction sensitive v and sensitive v arbitrary: p and p rule: anonymize_entry_anonymize_element.induct)
  case (2 sensitive m)
  from 2(2) show ?case
  proof (cases rule: string_in_object)
    case (1 k q v)
    then have "value_at (anonymize_entry (sensitive \<or> sensitive_key k) v) q = Some (JString (masked_at (sensitive \<or> sensitive_key k) q t))"
      using 2(1)[of "(k, v)" k v q] by simp
    with 1 show ?thesis by (simp add: map_of_map_values masked_at_def slice_in_slice_Cons)
  qed
next
  case (3 sensitive xs)
  from 3(2) show ?case
  proof (cases rule: string_in_array)
    case (1 i q)
    with 3(1)[of "xs ! i" q] show ?thesis by (auto simp: masked_at_def slice_in_slice_Cons)
  qed
next
  case (8 sensitive m)
  from 8(2) show ?case
  proof (cases rule: string_in_object)
    case (1 k q v)
    then have "value_at (anonymize_entry (sensitive \<or> sensitive_key k) v) q = Some (JString (masked_at (sensitive \<or> sensitive_key k) q t))"
      using 8(1)[of "(k, v)" k v q] by simp
    with 1 show ?thesis by (simp add: map_of_map_values masked_at_def slice_in_slice_Cons)
  qed
next
  case (9 sensitive xs)
  from 9 show ?case by (auto elim: string_in_array)
qed (simp_all add: string_in_scalar, auto simp: masked_at_def)

lemma selected_keys:
  "map_get (concat (map (\<lambda>key. case map_get m key of None \<Rightarrow> [] | Some val \<Rightarrow> [(key, val)]) ks)) k = (if k \<in> set ks then map_get m k else None)"
  by (induction ks) (auto split: option.splits)

text \<open>
  C38: The recorded Alertmanager configuration holds the receivers, the route and the inhibition rules only.  Every text that is
  reached through a sensitive key is masked, at any depth, unless the way to it passes a slice that is an element of a slice; every other text is kept.
\<close>

theorem alertmanager_masked:
  assumes "gatherAlertmanagerConfig unmarshal (Inr data) = ([(name, cfg)], errs)"
  shows "errs = [] \<and>
    (\<exists>yaml fullCfg. map_get data ''alertmanager.yaml'' = Some yaml \<and> unmarshal yaml = Inr fullCfg \<and>
      (\<forall>k q t. value_at (JObject fullCfg) (Key k # q) = Some (JString t) \<longrightarrow>
         value_at (JObject cfg) (Key k # q) =
           (if k \<notin> {''receivers'', ''route'', ''inhibit_rules''} then None
            else if sensitive_path (Key k # q) \<and> \<not> slice_in_slice (Key k # q) then Some (JString (anonymize_String t))
            else Some (JString t))))"
proof -
  let ?sel = "\<lambda>m. concat (map (\<lambda>key. case map_get m key of None \<Rightarrow> [] | Some val \<Rightarrow> [(key, val)]) alertmanager_keys)"
  from assms obtain yaml fullCfg where y: "map_get data ''alertmanager.yaml'' = Some yaml" "unmarshal yaml = Inr fullCfg"
      "cfg = anonymizeMap (?sel fullCfg) False" "errs = []"
    by (auto simp: gatherAlertmanagerConfig_def Let_def split: option.splits sum.splits)
  have "value_at (JObject cfg) (Key k # q) =
           (if k \<notin> set alertmanager_keys then None
            else if sensitive_path (Key k # q) \<and> \<not> slice_in_slice (Key k # q) then Some (JString (anonymize_String t))
            else Some (JString t))"
    if "value_at (JObject fullCfg) (Key k # q) = Some (JString t)" for k q t
  proof -
    from that obtain v where v: "map_get fullCfg k = Some v" "value_at v q = Some (JString t)" by (auto split: option.splits)
    have "map_get cfg k = (if k \<in> set alertmanager_keys then Some (anonymize_entry (sensitive_key k) v) else None)"
      using v(1) by (simp add: y(3) anonymizeMap_def map_of_map_values selected_keys)
    with masked_entry_element(1)[OF v(2), of "sensitive_key k"] show ?thesis
      by (simp add: masked_at_def slice_in_slice_Cons)
  qed
  moreover have "set alertmanager_keys = {''receivers'', ''route'', ''inhibit_rules''}" by (simp add: alertmanager_keys_def)
  ultimately show ?thesis using y(1,2,4) by metis
qed

definition example_alertmanager :: json_map where
  "example_alertmanager =
     [(''global'', JObject [(''smtp_auth_password'', JString ''abc'')]),
      (''receivers'', JArray [JObject [(''name'', JString ''pager''), (''service_key'', JString ''k1''),
         (''webhook_configs'', JArray [JObject [(''url'', JString ''http'')]])]])]"

definition example_masked_alertmanager :: json_map where
  "example_masked_alertmanager =
     [(''receivers'', JArray [JObject [(''name'', JString ''pager''), (''service_key'', JString ''xx''),
         (''webhook_configs'', JArray [JObject [(''url'', JString ''xxxx'')]])]])]"

lemma example_alertmanager_gathered:
  "gatherAlertmanagerConfig (\<lambda>_. Inr example_alertmanager) (Inr [(''alertmanager.yaml'', ''y'')]) =
     ([(''config/secrets/openshift-monitoring/alertmanager-main/data'', example_masked_alertmanager)], [])"
  by code_simp

theorem alertmanager_masked_witness:
  "value_at (JObject example_masked_alertmanager) [Key ''receivers'', Idx 0, Key ''webhook_configs'', Idx 0, Key ''url''] =
     Some (JString (anonymize_String ''http'')) \<and>
   value_at (JObject example_masked_alertmanager) [Key ''receivers'', Idx 0, Key ''name''] = Some (JString ''pager'') \<and>
   value_at (JObject example_masked_alertmanager) [Key ''global'', Key ''smtp_auth_password''] = None"
proof -
  from alertmanager_masked[OF example_alertmanager_gathered]
  have ok: "value_at (JObject example_alertmanager) (Key k # q) = Some (JString t) \<Longrightarrow>
         value_at (JObject example_masked_alertmanager) (Key k # q) =
           (if k \<notin> {''receivers'', ''route'', ''inhibit_rules''} then None
            else if sensitive_path (Key k # q) \<and> \<not> slice_in_slice (Key k # q) then Some (JString (anonymize_String t))
            else Some (JString t))" for k q t
    by auto
  have at: "value_at (JObject example_alertmanager) [Key ''receivers'', Idx 0, Key ''webhook_configs'', Idx 0, Key ''url''] = Some (JString ''http'')"
    "value_at (JObject example_alertmanager) [Key ''receivers'', Idx 0, Key ''name''] = Some (JString ''pager'')"
    "value_at (JObject example_alertmanager) [Key ''global'', Key ''smtp_auth_password''] = Some (JString ''abc'')"
    by code_simp+
  have "sensitive_key ''url''" "\<not> sensitive_key ''receivers''" "\<not> sensitive_key ''name''" by code_simp+
  then show ?thesis using ok[OF at(1)] ok[OF at(2)] ok[OF at(3)] by simp
qed

text \<open>A text below a slice in a slice stays as it is, whatever keys lead to it.\<close>

lemma slice_in_slice_in_clear:
  "anonymizeMap [(''password'', JArray [JArray [JString s]])] False = [(''password'', JArray [JArray [JString s]])]"
  by (simp add: anonymizeMap_def)

subsection \<open>Machine configs and control plane machine sets\<close>

lemma overwritten:
  assumes "NestedFieldNoCopy (fst (overwrite_field p st)) p = Inr (Some v)" "p \<noteq> []"
  shows "v = JNull"
  using assms nested_set_no_error[of "fst st" p v JNull] set_nested_same[of "fst st" JNull p]
  by (auto simp: overwrite_field_def split: sum.splits)

lemma overwrite_apart: "parallel p q \<Longrightarrow> NestedFieldNoCopy (fst (overwrite_field p st)) q = NestedFieldNoCopy (fst st) q"
  by (auto simp: overwrite_field_def set_nested_apart split: sum.splits)

lemma stripped_machine_config:
  assumes "NestedFieldNoCopy (fst (strip_machine_config getCRSize mc)) p = Inr (Some v)" "p \<in> {files_path, users_path}"
  shows "v = JNull"
proof -
  have apart: "parallel users_path files_path" and ne: "users_path \<noteq> []" "files_path \<noteq> []"
    by (simp_all add: users_path_def files_path_def parallel_Cons)
  show ?thesis
  proof (cases "p = users_path")
    case True
    with assms(1) ne(1) show ?thesis by (auto simp: strip_machine_config_def Let_def dest: overwritten)
  next
    case False
    with assms(2) have "p = files_path" by simp
    with assms(1) ne(2) show ?thesis by (auto simp: strip_machine_config_def Let_def overwrite_apart[OF apart] dest: overwritten)
  qed
qed

text \<open>
  A recorded machine config is in use, or none is known to be, and holds no files and no users; the count of unused ones is recorded
  when there was no error.
\<close>

theorem machine_configs_stripped:
  assumes "gatherMachineConfigs getCRSize (Inr items) inUse = (records, errs)"
  shows "(name, MachineConfigItem obj) \<in> set records \<Longrightarrow>
      (\<exists>mc \<in> set items. name = ''config/machineconfigs/'' @ un_Name mc \<and> (inUse = {} \<or> un_Name mc \<in> inUse)) \<and>
      (\<forall>v. NestedFieldNoCopy obj files_path = Inr (Some v) \<or> NestedFieldNoCopy obj users_path = Inr (Some v) \<longrightarrow> v = JNull)"
    and "(name, UnusedMachineConfigsCount n) \<in> set records \<longleftrightarrow>
      errs = [] \<and> name = ''aggregated/unused_machine_configs_count'' \<and> n = length (filter (\<lambda>mc. inUse \<noteq> {} \<and> un_Name mc \<notin> inUse) items)"
proof -
  have unused: "length items - length (filter (config_in_use inUse) items) = length (filter (\<lambda>mc. inUse \<noteq> {} \<and> un_Name mc \<notin> inUse) items)"
    using sum_length_filter_compl[of "config_in_use inUse" items] by (simp add: config_in_use_def)
  show "(\<exists>mc \<in> set items. name = ''config/machineconfigs/'' @ un_Name mc \<and> (inUse = {} \<or> un_Name mc \<in> inUse)) \<and>
      (\<forall>v. NestedFieldNoCopy obj files_path = Inr (Some v) \<or> NestedFieldNoCopy obj users_path = Inr (Some v) \<longrightarrow> v = JNull)"
    if "(name, MachineConfigItem obj) \<in> set records"
    using assms that
    by (auto simp: gatherMachineConfigs_def Let_def plain_name_def config_in_use_def split: if_splits dest: stripped_machine_config)
  show "(name, UnusedMachineConfigsCount n) \<in> set records \<longleftrightarrow>
      errs = [] \<and> name = ''aggregated/unused_machine_configs_count'' \<and> n = length (filter (\<lambda>mc. inUse \<noteq> {} \<and> un_Name mc \<notin> inUse) items)"
    using assms unfolding gatherMachineConfigs_def Let_def unused[symmetric] by (auto split: if_splits)
qed

lemma control_plane_stripped:
  assumes "(name, obj) \<in> set (fst (gatherControlPlaneMachineSet (Inr items)))" "p \<in> {[''spec'', ''template''], [''spec'', ''templates'']}"
    "NestedFieldNoCopy obj p = Inr (Some v)"
  shows "v = JNull"
proof -
  have apart: "parallel [''spec'', ''template''] [''spec'', ''templates'']" by (simp add: parallel_Cons)
  from assms(1) obtain ms where "obj = fst (strip_control_plane ms)" by (auto simp: gatherControlPlaneMachineSet_def list_items_def)
  with assms(2,3) show ?thesis
    by (auto simp: strip_control_plane_def overwrite_apart[OF apart] dest: overwritten)
qed

subsection \<open>LokiStacks\<close>

lemma streams_path_apart: "t \<noteq> t' \<Longrightarrow> parallel (streams_path t) (streams_path t')"
  by (simp add: streams_path_def parallel_Cons)

definition has_selector :: "json \<Rightarrow> bool" where
  "has_selector stream = (case stream of JObject m \<Rightarrow> map_has m ''selector'' | _ \<Rightarrow> False)"

lemma remove_selector_none: "\<not> has_selector (remove_selector stream)"
  by (cases stream) (simp_all add: has_selector_def remove_selector_def map_has_def delete_conv')

lemma remove_limits_apart:
  "remove_limits tenants obj = (obj', None) \<Longrightarrow> list_all (\<lambda>t. parallel (streams_path t) q) tenants \<Longrightarrow>
     NestedFieldNoCopy obj' q = NestedFieldNoCopy obj q"
  by (induction tenants arbitrary: obj) (auto simp: set_nested_apart split: prod.splits bool.splits option.splits sum.splits)

lemma limits_removed:
  assumes "remove_limits tenants obj = (obj', None)" "distinct tenants" "t \<in> set tenants"
    "NestedFieldNoCopy obj' (streams_path t) = Inr (Some (JArray streams))"
  shows "list_all (\<lambda>stream. \<not> has_selector stream) streams"
  using assms
proof (induction tenants arbitrary: obj)
  case (Cons a tenants)
  obtain ss ok err where sl: "NestedSlice obj (streams_path a) = (ss, ok, err)" by (metis prod_cases3)
  show ?case
  proof (cases "t = a")
    case False
    with Cons sl show ?thesis by (auto split: option.splits bool.splits sum.splits)
  next
    case True
    have apart: "list_all (\<lambda>t'. parallel (streams_path t') (streams_path a)) tenants"
      unfolding list_all_iff using Cons.prems(2) by (metis distinct.simps(2) streams_path_apart)
    have ne: "streams_path a \<noteq> []" by (simp add: streams_path_def)
    show ?thesis
    proof (cases ok)
      case ok: True
      with Cons.prems sl obtain m where m: "SetNestedField obj (JArray (map remove_selector ss)) (streams_path a) = Inr m" "remove_limits tenants m = (obj', None)"
        by (auto split: option.splits sum.splits)
      have "NestedFieldNoCopy obj' (streams_path a) = Inr (Some (JArray (map remove_selector ss)))"
        using remove_limits_apart[OF m(2) apart] set_nested_same[OF m(1) ne] by simp
      with True Cons.prems(4) show ?thesis by (auto simp: list_all_iff remove_selector_none)
    next
      case False
      with Cons.prems sl have "remove_limits tenants obj = (obj', None)" "err = None" by (auto split: option.splits)
      with remove_limits_apart[OF this(1) apart] True Cons.prems(4)
      have "NestedFieldNoCopy obj (streams_path a) = Inr (Some (JArray streams))" by simp
      with sl False show ?thesis by (simp add: NestedSlice_def)
    qed
  qed
qed simp

definition loki_ok :: "loki_state \<Rightarrow> bool" where
  "loki_ok st \<longleftrightarrow> length (lk_records st) \<le> lokiStackResourceLimit \<and>
     list_all (\<lambda>r. \<exists>item. prefix ''openshift-'' (un_Namespace item) \<and> fillLokiStackRecord item = (Some r, None)) (lk_records st)"

lemma fill_no_error: "fillLokiStackRecord item = (Some r, err) \<Longrightarrow> err = None"
  by (auto simp: fillLokiStackRecord_def split: prod.splits option.splits)

lemma loki_step_ok: "loki_ok st \<Longrightarrow> loki_step n item st = Some st' \<Longrightarrow> loki_ok st'"
  by (auto simp: loki_ok_def loki_step_def dest: fill_no_error split: if_splits prod.splits option.splits)

lemma loki_loop_ok: "loki_ok st \<Longrightarrow> loki_loop n items st = Some st' \<Longrightarrow> loki_ok st'"
  by (induction items arbitrary: st) (auto split: option.splits dest: loki_step_ok)

text \<open>
  When the gatherer does not panic, it records at most 20 LokiStacks, from platform namespaces, and no selector of a stream of the three tenants.
\<close>

theorem loki_bounded:
  assumes "gatherLokiStack (Inr items) = Some (records, errs)"
  shows "length records \<le> 20"
    and "(name, obj) \<in> set records \<Longrightarrow> \<exists>ns n. prefix ''openshift-'' ns \<and> name = ''namespace/'' @ ns @ ''/loki.grafana.com/lokistacks/'' @ n"
    and "(name, obj) \<in> set records \<Longrightarrow> t \<in> {''application'', ''infrastructure'', ''audit''} \<Longrightarrow>
      NestedFieldNoCopy obj (streams_path t) = Inr (Some (JArray streams)) \<Longrightarrow> list_all (\<lambda>stream. \<not> has_selector stream) streams"
proof -
  from assms obtain st where st: "loki_loop (length items) items \<lparr>lk_records = [], lk_errs = [], lk_otherNamespace = False, lk_tooMany = False\<rparr> = Some st"
    "records = lk_records st" by (auto simp: gatherLokiStack_def)
  have ok: "loki_ok st" using loki_loop_ok[OF _ st(1)] by (simp add: loki_ok_def)
  then show "length records \<le> 20" by (simp add: st(2) loki_ok_def lokiStackResourceLimit_def)
  have filled: "\<exists>item. prefix ''openshift-'' (un_Namespace item) \<and> fillLokiStackRecord item = (Some r, None)" if "r \<in> set records" for r
    using ok that unfolding loki_ok_def list_all_iff st(2) by blast
  have rec: "\<exists>(item :: unstructured) obj0. prefix ''openshift-'' (un_Namespace item) \<and> removeLimitsTenant obj0 = (obj, None) \<and>
      name = ''namespace/'' @ un_Namespace item @ ''/loki.grafana.com/lokistacks/'' @ un_Name item" if "(name, obj) \<in> set records"
  proof -
    from filled[OF that] obtain item where "prefix ''openshift-'' (un_Namespace item)" "fillLokiStackRecord item = (Some (name, obj), None)" by blast
    moreover obtain o1 e1 where "removeLimitsTenant (un_Object item) = (o1, e1)" by (metis surj_pair)
    ultimately show ?thesis by - (rule exI[of _ item], rule exI[of _ "un_Object item"], simp add: fillLokiStackRecord_def split: option.splits)
  qed
  then show "(name, obj) \<in> set records \<Longrightarrow> \<exists>ns n. prefix ''openshift-'' ns \<and> name = ''namespace/'' @ ns @ ''/loki.grafana.com/lokistacks/'' @ n"
    by blast
  show "list_all (\<lambda>stream. \<not> has_selector stream) streams"
    if r: "(name, obj) \<in> set records" and t: "t \<in> {''application'', ''infrastructure'', ''audit''}"
      and n: "NestedFieldNoCopy obj (streams_path t) = Inr (Some (JArray streams))"
  proof -
    from rec[OF r] obtain obj0 where "remove_limits [''application'', ''infrastructure'', ''audit''] obj0 = (obj, None)"
      by (auto simp: removeLimitsTenant_def)
    from limits_removed[OF this _ _ n] t show ?thesis by simp
  qed
qed

text \<open>One LokiStack of a platform namespace whose streams are not a list ends the gatherer in a panic.\<close>

lemma loki_malformed_panics:
  assumes "prefix ''openshift-'' (un_Namespace item)" "NestedFieldNoCopy (un_Object item) (streams_path ''application'') = Inr (Some (JString t))"
  shows "gatherLokiStack (Inr (item # items)) = None"
  using assms
  by (simp add: gatherLokiStack_def loki_step_def lokiStackResourceLimit_def fillLokiStackRecord_def removeLimitsTenant_def NestedSlice_def)

subsection \<open>Collectors, network states and OpenStack resources\<close>

lemma clean_config:
  assumes "cleanCollectorSpecConfig obj = Inr obj'" "NestedFieldNoCopy obj' [''spec'', ''config''] = Inr (Some (JObject m))"
  shows "set (map fst m) \<subseteq> {''service''}"
proof (cases "NestedMap obj [''spec'', ''config'']")
  case (fields sc ok err)
  with assms show ?thesis
    by (auto simp: cleanCollectorSpecConfig_def NestedMap_def set_nested_same split: option.splits bool.splits sum.splits json.splits)
qed

lemma collectors_loop_ok:
  assumes "length records < collectors_limit" "list_all (\<lambda>(n, obj). \<exists>u. cleanCollectorSpecConfig u = Inr obj) records"
    "collectors_loop records errs items = (records', errs')"
  shows "length records' \<le> collectors_limit \<and> list_all (\<lambda>(n, obj). \<exists>u. cleanCollectorSpecConfig u = Inr obj) records'"
  using assms
  by (induction records errs items rule: collectors_loop.induct) (auto simp: Let_def split: sum.splits if_splits)

text \<open>At most five collectors are recorded, and of their configuration only the service.\<close>

theorem collectors_limited:
  assumes "gatherOpenTelemetryCollectors (Inr items) = (records, errs)"
  shows "length records \<le> 5"
    and "(n, obj) \<in> set records \<Longrightarrow> NestedFieldNoCopy obj [''spec'', ''config''] = Inr (Some (JObject m)) \<Longrightarrow> set (map fst m) \<subseteq> {''service''}"
proof -
  from assms have ok: "length records \<le> 5" "list_all (\<lambda>(n, obj). \<exists>u. cleanCollectorSpecConfig u = Inr obj) records"
    using collectors_loop_ok[of "[]" "[]" items records errs] by (simp_all add: gatherOpenTelemetryCollectors_def list_items_def collectors_limit_def)
  show "length records \<le> 5" by (rule ok(1))
  show "(n, obj) \<in> set records \<Longrightarrow> NestedFieldNoCopy obj [''spec'', ''config''] = Inr (Some (JObject m)) \<Longrightarrow> set (map fst m) \<subseteq> {''service''}"
    using ok(2) unfolding list_all_iff by (blast dest: clean_config)
qed

text \<open>In a recorded node network state no hardware address is left: a text under that key is made of x only.\<close>

lemma interface_masked:
  assumes "x \<in> set (anonymize_interface i)" "x = JObject m" "map_get m ''mac-address'' = Some (JString t)"
  shows "\<exists>mac. t = anonymize_String mac"
proof (cases i)
  case (JObject m0)
  show ?thesis
  proof (cases "NestedStringWrapper m0 [''mac-address'']")
    case (Inl e)
    with assms JObject show ?thesis
      by (auto simp: anonymize_interface_def NestedStringWrapper_def NestedString_def NestedFieldNoCopy_def nestedWrapper_def split: option.splits json.splits)
  next
    case (Inr mac)
    with assms JObject show ?thesis by (auto simp: anonymize_interface_def)
  qed
qed (use assms in \<open>simp_all add: anonymize_interface_def\<close>)

theorem network_state_masked:
  assumes "anonymizeNodeNetworkState obj = Inr obj'" "NestedFieldNoCopy obj' interfaces_path = Inr (Some (JArray xs))"
    "JObject m \<in> set xs" "map_get m ''mac-address'' = Some (JString t)"
  shows "\<exists>mac. t = anonymize_String mac"
proof (cases "NestedSliceWrapper obj interfaces_path")
  case (Inl e)
  with assms(1,2) show ?thesis
    by (auto simp: anonymizeNodeNetworkState_def NestedSliceWrapper_def nestedWrapper_def NestedSlice_def)
next
  case (Inr ifs)
  have ne: "interfaces_path \<noteq> []" by (simp add: interfaces_path_def)
  from Inr assms(1) have "SetNestedField obj (JArray (concat (map anonymize_interface ifs))) interfaces_path = Inr obj'"
    by (simp add: anonymizeNodeNetworkState_def)
  from set_nested_same[OF this ne] assms(2-4) show ?thesis by (auto intro: interface_masked)
qed

lemma masked_or_xxx_idem: "masked_or_xxx (masked_or_xxx v) = masked_or_xxx v"
proof (cases v)
  case (JString s)
  then show ?thesis by (cases s) (simp_all add: masked_or_xxx_def anonymize_String_def)
qed (simp_all add: masked_or_xxx_def anonymize_String_def)

lemma custom_value_idem: "custom_value names (custom_value names v) = custom_value names v"
  by (induction names v rule: custom_value.induct) (auto simp: masked_or_xxx_idem)

lemma custom_fields_idem: "anonymizeCustomPathFields (anonymizeCustomPathFields data names) names = anonymizeCustomPathFields data names"
  by (auto simp: anonymizeCustomPathFields_def masked_or_xxx_idem custom_value_idem)

text \<open>Every field of a given name is masked, whatever maps it is in; a value that is in no such field is kept.\<close>

lemma custom_value_nested:
  assumes "list_all (\<lambda>k. k \<notin> set names) p"
  shows "f \<in> set names \<Longrightarrow> nested (custom_value names v) (p @ [f]) = map_found masked_or_xxx (nested v (p @ [f]))"
    and "nested v p = Inr (Some w) \<Longrightarrow> nested (custom_value names v) p = Inr (Some (custom_value names w))"
  using assms
proof (induction p arbitrary: v)
  case Nil
  { case 1 then show ?case by (cases v) (auto simp: map_of_map_values split: option.split) }
  { case 2 then show ?case by simp }
next
  case (Cons k p)
  { case 1
    then show ?case using Cons.IH(1) by (cases v) (auto simp: map_of_map_values split: option.split) }
  { case 2
    then show ?case using Cons.IH(2) by (cases v) (auto simp: map_of_map_values split: option.splits) }
qed

theorem custom_fields_masked:
  assumes "f \<in> set names" "list_all (\<lambda>k. k \<notin> set names) p"
  shows "NestedFieldNoCopy (anonymizeCustomPathFields data names) (p @ [f]) = map_found masked_or_xxx (NestedFieldNoCopy data (p @ [f]))"
proof -
  have "JObject (anonymizeCustomPathFields data names) = custom_value names (JObject data)"
    using assms(1) by (auto simp: anonymizeCustomPathFields_def)
  then show ?thesis using custom_value_nested(1)[OF assms(2,1), of "JObject data"] by (simp add: NestedFieldNoCopy_def)
qed

subsection \<open>OLM operators\<close>

text \<open>
  The operator that is built keeps the display name and the conditions of the previous reference: when a second cluster service version
  cannot be read, it is listed with its own version and the data of the first.
\<close>

lemma olm_stale_data:
  assumes "findCSVRefInRefs r = Some (Inr (Some ref))" "getCSVAndParse get ref = Inl err"
  shows "olm_ref_step get r (newOlm, olms, errs) =
    Some (newOlm\<lparr>olm_Version := csv_Version ref\<rparr>, olms @ [newOlm\<lparr>olm_Version := csv_Version ref\<rparr>], errs @ [err])"
  using assms by (simp add: olm_ref_step_def Let_def)

text \<open>The version of a reference is what follows the first dot of its name.\<close>

lemma split_at_dot:
  "CHR ''.'' \<in> set s \<Longrightarrow> s = takeWhile (\<lambda>c. c \<noteq> CHR ''.'') s @ CHR ''.'' # tl (dropWhile (\<lambda>c. c \<noteq> CHR ''.'') s)"
  by (induction s) auto

lemma csv_ref_version:
  assumes "findCSVRefInRefs r = Some (Inr (Some ref))"
  shows "\<exists>base. CHR ''.'' \<notin> set base \<and> csv_Name ref = base @ CHR ''.'' # csv_Version ref"
proof -
  from assms have dot: "CHR ''.'' \<in> set (csv_Name ref)" and v: "csv_Version ref = tl (dropWhile (\<lambda>c. c \<noteq> CHR ''.'') (csv_Name ref))"
    by (auto simp: findCSVRefInRefs_def split: json.splits if_splits option.splits)
  show ?thesis
    using split_at_dot[OF dot] by (intro exI[of _ "takeWhile (\<lambda>c. c \<noteq> CHR ''.'') (csv_Name ref)"]) (auto simp: v dest: set_takeWhileD)
qed

text \<open>
  Without errors, no operator is listed twice with the same version: a reference adds an entry only when there is none of its name and version.
\<close>

definition olm_key :: "olmOperator \<Rightarrow> string \<times> string" where
  "olm_key x = (olm_Name x, olm_Version x)"

lemma isInArray_key: "isInArray x a \<longleftrightarrow> olm_key x \<in> olm_key ` set a"
  by (auto simp: isInArray_def list_ex_iff olm_key_def image_iff)

definition olm_ok :: "olmOperator list \<Rightarrow> go_error list \<Rightarrow> bool" where
  "olm_ok olms errs \<longleftrightarrow> errs = [] \<longrightarrow> distinct (map olm_key olms)"

lemma olm_step_ok: "olm_ok olms errs \<Longrightarrow> olm_ref_step get r (n, olms, errs) = Some (n', olms', errs') \<Longrightarrow> olm_ok olms' errs'"
  by (auto simp: olm_ok_def olm_ref_step_def isInArray_key Let_def split: option.splits sum.splits prod.splits if_splits)

lemma olm_refs_ok: "olm_ok olms errs \<Longrightarrow> olm_refs get rs (n, olms, errs) = Some (n', olms', errs') \<Longrightarrow> olm_ok olms' errs'"
  by (induction rs arbitrary: n olms errs) (auto split: option.splits dest: olm_step_ok)

lemma olm_items_ok: "olm_ok olms errs \<Longrightarrow> olm_items get items (olms, errs) = Some (olms', errs') \<Longrightarrow> olm_ok olms' errs'"
proof (induction items arbitrary: olms errs)
  case (Cons i items)
  let ?new = "\<lparr>olm_Name = un_Name i, olm_DisplayName = [], olm_Version = [], olm_Conditions = []\<rparr>"
  show ?case
  proof (cases "NestedSliceWrapper (un_Object i) [''status'', ''components'', ''refs'']")
    case (Inl e)
    with Cons.prems(2) obtain err where "olm_items get items (olms @ [?new], errs @ [err]) = Some (olms', errs')" by (auto simp: Let_def)
    from Cons.IH[OF _ this] show ?thesis by (simp add: olm_ok_def)
  next
    case (Inr refs)
    with Cons.prems(2) obtain n1 o1 e1 where "olm_refs get refs (?new, olms, errs) = Some (n1, o1, e1)" "olm_items get items (o1, e1) = Some (olms', errs')"
      by (auto simp: Let_def split: option.splits)
    with Cons.IH Cons.prems(1) show ?thesis by (blast dest: olm_refs_ok)
  qed
qed simp

theorem olm_operators_distinct:
  assumes "gatherOLMOperators get (Inr items) = Some (Some olms, [])"
  shows "distinct (map olm_key olms)"
proof -
  from assms obtain errs where "olm_items get items ([], []) = Some (olms, errs)" "errs = []"
    by (auto simp: gatherOLMOperators_def split: option.splits prod.splits if_splits)
  with olm_items_ok[of "[]" "[]" get items olms errs] show ?thesis by (simp add: olm_ok_def)
qed

end
