(* ===== verification/ClusterState.thy ===== *)
theory ClusterState
  imports CustomResources
begin

text \<open>
  Namespaces with overlapping UID ranges (pkg/gatherers/clusterconfig/gather_namespaces_with_overlapping_uids.go): the parsing of the
  ranges, the test of two ranges, and the sets of namespaces.  The ends of ranges are computed in 64 bits, as in the code.
\<close>

section \<open>Namespaces with overlapping UID ranges\<close>

record uidRange =
  uid_starting :: "64 word"
  uid_length :: "64 word"

record namespaceWithRange =
  nwr_name :: string
  nwr_range :: uidRange

definition IsOverlappingWith :: "uidRange \<Rightarrow> uidRange \<Rightarrow> bool" where
  "IsOverlappingWith u r =
     (let uSum = uid_starting u + uid_length u; rSum = uid_starting r + uid_length r
      in (sint uSum > sint (uid_starting r) \<and> sint uSum \<le> sint rSum) \<or> (sint rSum > sint (uid_starting u) \<and> sint rSum \<le> sint uSum))"

definition uidRange_String :: "uidRange \<Rightarrow> string" where
  "uidRange_String u = itoa (sint (uid_starting u)) @ ''/'' @ itoa (sint (uid_length u))"

text \<open>The second part is indexed before it is known to exist: \<open>None\<close> is the panic.\<close>

definition uidStringToRange :: "string \<Rightarrow> uidRange result option" where
  "uidStringToRange s =
     (let values = split_on (CHR ''/'') s
      in case atoi (hd values) of
           Inl err \<Rightarrow> Some (Inl err)
         | Inr starting \<Rightarrow>
             (case tl values of
                [] \<Rightarrow> None
              | v # _ \<Rightarrow>
                  (case atoi v of
                     Inl err \<Rightarrow> Some (Inl err)
                   | Inr rge \<Rightarrow> Some (Inr \<lparr>uid_starting = word_of_int starting, uid_length = word_of_int rge\<rparr>))))"

type_synonym NamespaceSet = "namespaceWithRange set"

definition set_Insert :: "namespaceWithRange list \<Rightarrow> NamespaceSet \<Rightarrow> NamespaceSet" where
  "set_Insert namespaces ns = fold insert namespaces ns"

definition NewSet :: "namespaceWithRange list \<Rightarrow> NamespaceSet" where
  "NewSet namespaces = set_Insert namespaces {}"

definition set_BothOverlap :: "NamespaceSet \<Rightarrow> namespaceWithRange \<Rightarrow> namespaceWithRange \<Rightarrow> bool" where
  "set_BothOverlap ns n1 n2 =
     (ns \<noteq> {} \<and> (\<forall>k \<in> ns. IsOverlappingWith (nwr_range n1) (nwr_range k) \<and> IsOverlappingWith (nwr_range n2) (nwr_range k)))"

text \<open>The sets are maps that the slice refers to: inserting changes the set in the slice.\<close>

fun insert_overlapping :: "namespaceWithRange \<Rightarrow> namespaceWithRange \<Rightarrow> NamespaceSet list \<Rightarrow> NamespaceSet list" where
  "insert_overlapping n1 n2 [] = [set_Insert [n1, n2] (NewSet [])]"
| "insert_overlapping n1 n2 (es # ss) =
     (if set_BothOverlap es n1 n2 then set_Insert [n1, n2] es # ss else es # insert_overlapping n1 n2 ss)"

definition pair_step :: "namespaceWithRange \<Rightarrow> namespaceWithRange \<Rightarrow> NamespaceSet list \<Rightarrow> NamespaceSet list" where
  "pair_step n1 n2 ss = (if IsOverlappingWith (nwr_range n1) (nwr_range n2) then insert_overlapping n1 n2 ss else ss)"

fun overlapping_sets :: "namespaceWithRange list \<Rightarrow> NamespaceSet list \<Rightarrow> NamespaceSet list" where
  "overlapping_sets [] ss = ss"
| "overlapping_sets (n1 # remainingNs) ss = overlapping_sets remainingNs (fold (pair_step n1) remainingNs ss)"

text \<open>A namespace is its name and the value of its annotation, empty when it has none.\<close>

fun read_ranges :: "(string \<times> string) list \<Rightarrow> (namespaceWithRange list \<times> go_error list) option" where
  "read_ranges [] = Some ([], [])"
| "read_ranges ((name, uidRangeString) # rest) =
     (case uidStringToRange uidRangeString of
        None \<Rightarrow> None
      | Some r \<Rightarrow>
          (case read_ranges rest of
             None \<Rightarrow> None
           | Some (namespaces, errs) \<Rightarrow>
               Some (case r of
                       Inl _ \<Rightarrow> (namespaces, Errorf (''can't read uid range of the '' @ name @ '' namespace'') # errs)
                     | Inr rng \<Rightarrow> (\<lparr>nwr_name = name, nwr_range = rng\<rparr> # namespaces, errs))))"

definition gatherNamespacesWithOverlappingUIDs ::
  "(string \<times> string) list result \<Rightarrow> (NamespaceSet list option \<times> go_error list) option" where
  "gatherNamespacesWithOverlappingUIDs nsList =
     (case nsList of
        Inl err \<Rightarrow> Some (None, [err])
      | Inr items \<Rightarrow> map_option (\<lambda>(namespaces, errs). (Some (overlapping_sets namespaces []), errs)) (read_ranges items))"

text \<open>What is written: the names of each set.\<close>

definition sets_Marshal :: "NamespaceSet list \<Rightarrow> string set list" where
  "sets_Marshal ss = map (\<lambda>s. nwr_name ` s) ss"

subsection \<open>The sets are what the ranges say\<close>

lemma overlap_sym: "IsOverlappingWith u r = IsOverlappingWith r u"
  by (auto simp: IsOverlappingWith_def Let_def)

text \<open>A range that has UIDs and does not overflow; the UIDs of a range.\<close>

definition valid_range :: "uidRange \<Rightarrow> bool" where
  "valid_range u \<longleftrightarrow> 0 < sint (uid_length u) \<and> sint (uid_starting u) + sint (uid_length u) < 2 ^ 63"

definition uids :: "uidRange \<Rightarrow> int set" where
  "uids u = {sint (uid_starting u) ..< sint (uid_starting u) + sint (uid_length u)}"

lemma sint_range_64: "- (2 ^ 63) \<le> sint (w :: 64 word)" "sint (w :: 64 word) < 2 ^ 63"
  using sint_greater_eq[of w] sint_less[of w] by simp_all

lemma sint_sum:
  assumes "valid_range u"
  shows "sint (uid_starting u + uid_length u) = sint (uid_starting u) + sint (uid_length u)"
proof -
  have "- (2 ^ 63) \<le> sint (uid_starting u) + sint (uid_length u)" "sint (uid_starting u) + sint (uid_length u) < 2 ^ 63"
    using assms sint_range_64(1)[of "uid_starting u"] by (simp_all add: valid_range_def)
  then have "signed_take_bit 63 (sint (uid_starting u) + sint (uid_length u)) = sint (uid_starting u) + sint (uid_length u)"
    by (intro signed_take_bit_int_eq_self) simp_all
  then show ?thesis by (simp add: sint_word_ariths)
qed

lemma overlap_iff_shared:
  assumes "valid_range u" "valid_range r"
  shows "IsOverlappingWith u r \<longleftrightarrow> uids u \<inter> uids r \<noteq> {}"
proof -
  let ?a = "sint (uid_starting u)" and ?b = "sint (uid_starting r)"
  let ?m = "sint (uid_length u)" and ?n = "sint (uid_length r)"
  have pos: "0 < ?m" "0 < ?n" using assms by (simp_all add: valid_range_def)
  have "IsOverlappingWith u r \<longleftrightarrow> (?a + ?m > ?b \<and> ?a + ?m \<le> ?b + ?n) \<or> (?b + ?n > ?a \<and> ?b + ?n \<le> ?a + ?m)"
    using assms by (simp add: IsOverlappingWith_def Let_def sint_sum)
  also have "\<dots> \<longleftrightarrow> ?a < ?b + ?n \<and> ?b < ?a + ?m" using pos by linarith
  also have "\<dots> \<longleftrightarrow> max ?a ?b \<in> uids u \<inter> uids r" using pos by (simp add: uids_def max_def)
  also have "\<dots> \<longleftrightarrow> uids u \<inter> uids r \<noteq> {}" by (auto simp: uids_def)
  finally show ?thesis .
qed

definition pairwise_overlap :: "NamespaceSet \<Rightarrow> bool" where
  "pairwise_overlap s = (\<forall>x \<in> s. \<forall>y \<in> s. x \<noteq> y \<longrightarrow> IsOverlappingWith (nwr_range x) (nwr_range y))"

definition together :: "NamespaceSet list \<Rightarrow> namespaceWithRange \<Rightarrow> namespaceWithRange \<Rightarrow> bool" where
  "together ss x y = list_ex (\<lambda>s. x \<in> s \<and> y \<in> s) ss"

lemma set_Insert_two: "set_Insert [n1, n2] s = insert n2 (insert n1 s)"
  by (simp add: set_Insert_def)

lemma insert_overlapping_pairwise:
  assumes "IsOverlappingWith (nwr_range n1) (nwr_range n2)" "list_all pairwise_overlap ss"
  shows "list_all pairwise_overlap (insert_overlapping n1 n2 ss)"
  using assms(2)
proof (induction ss)
  case Nil
  have "IsOverlappingWith (nwr_range n2) (nwr_range n1)" using assms(1) overlap_sym by blast
  with assms(1) show ?case by (simp add: NewSet_def set_Insert_def pairwise_overlap_def)
next
  case (Cons s ss)
  have "pairwise_overlap (set_Insert [n1, n2] s)" if b: "set_BothOverlap s n1 n2"
  proof -
    have "IsOverlappingWith (nwr_range n1) (nwr_range k)" "IsOverlappingWith (nwr_range n2) (nwr_range k)"
      "IsOverlappingWith (nwr_range k) (nwr_range n1)" "IsOverlappingWith (nwr_range k) (nwr_range n2)" if "k \<in> s" for k
      using b that overlap_sym unfolding set_BothOverlap_def by blast+
    moreover have "IsOverlappingWith (nwr_range n2) (nwr_range n1)" using assms(1) overlap_sym by blast
    ultimately show ?thesis using Cons.prems assms(1) unfolding set_Insert_two pairwise_overlap_def by auto
  qed
  with Cons show ?case by simp
qed

lemma insert_overlapping_together:
  "together (insert_overlapping n1 n2 ss) n1 n2"
  "together ss x y \<Longrightarrow> together (insert_overlapping n1 n2 ss) x y"
  by (induction ss) (auto simp: together_def set_Insert_two NewSet_def)

lemma insert_overlapping_sub: "\<Union> (set (insert_overlapping n1 n2 ss)) = insert n1 (insert n2 (\<Union> (set ss)))"
  by (induction ss) (auto simp: set_Insert_two NewSet_def set_Insert_def)

lemma pair_step_pairwise: "list_all pairwise_overlap ss \<Longrightarrow> list_all pairwise_overlap (pair_step n1 n2 ss)"
  by (simp add: pair_step_def insert_overlapping_pairwise)

lemma pair_step_together:
  "IsOverlappingWith (nwr_range n1) (nwr_range n2) \<Longrightarrow> together (pair_step n1 n2 ss) n1 n2"
  "together ss x y \<Longrightarrow> together (pair_step n1 n2 ss) x y"
  by (simp_all add: pair_step_def insert_overlapping_together)

lemma pair_steps:
  shows "list_all pairwise_overlap ss \<Longrightarrow> list_all pairwise_overlap (fold (pair_step n1) ns ss)"
    and "together ss x y \<Longrightarrow> together (fold (pair_step n1) ns ss) x y"
    and "n2 \<in> set ns \<Longrightarrow> IsOverlappingWith (nwr_range n1) (nwr_range n2) \<Longrightarrow> together (fold (pair_step n1) ns ss) n1 n2"
    and "\<Union> (set (fold (pair_step n1) ns ss)) \<subseteq> \<Union> (set ss) \<union> insert n1 (set ns)"
proof -
  show mono: "together (fold (pair_step n1) ns ss) x y" if "together ss x y" for ss x y
    using that by (induction ns arbitrary: ss) (simp_all add: pair_step_together)
  show "list_all pairwise_overlap ss \<Longrightarrow> list_all pairwise_overlap (fold (pair_step n1) ns ss)"
    by (induction ns arbitrary: ss) (simp_all add: pair_step_pairwise)
  show "n2 \<in> set ns \<Longrightarrow> IsOverlappingWith (nwr_range n1) (nwr_range n2) \<Longrightarrow> together (fold (pair_step n1) ns ss) n1 n2"
  proof (induction ns arbitrary: ss)
    case (Cons a ns)
    have mono': "together (fold (pair_step n1) ns ss) n1 n2" if "together ss n1 n2" for ss
      using that by (induction ns arbitrary: ss) (simp_all add: pair_step_together)
    with Cons show ?case by (auto simp: pair_step_together)
  qed simp
  show "\<Union> (set (fold (pair_step n1) ns ss)) \<subseteq> \<Union> (set ss) \<union> insert n1 (set ns)"
  proof (induction ns arbitrary: ss)
    case (Cons a ns)
    have "\<Union> (set (pair_step n1 a ss)) \<subseteq> \<Union> (set ss) \<union> {n1, a}" by (auto simp: pair_step_def insert_overlapping_sub)
    with Cons.IH[of "pair_step n1 a ss"] show ?case by auto
  qed auto
qed

lemma overlapping_sets_ok:
  shows "list_all pairwise_overlap ss \<Longrightarrow> list_all pairwise_overlap (overlapping_sets ns ss)"
    and "together ss x y \<Longrightarrow> together (overlapping_sets ns ss) x y"
    and "\<Union> (set (overlapping_sets ns ss)) \<subseteq> \<Union> (set ss) \<union> set ns"
proof (induction ns ss rule: overlapping_sets.induct)
  case (2 n1 rest ss)
  { case 1 then show ?case using 2(1) by (simp add: pair_steps) }
  { case 2 then show ?case using "2.IH"(2) by (simp add: pair_steps) }
  { case 3 show ?case using "2.IH"(3) pair_steps(4)[of n1 rest ss] by auto }
qed simp_all

lemma overlapping_sets_complete:
  "i < j \<Longrightarrow> j < length ns \<Longrightarrow> IsOverlappingWith (nwr_range (ns ! i)) (nwr_range (ns ! j)) \<Longrightarrow> together (overlapping_sets ns ss) (ns ! i) (ns ! j)"
proof (induction ns ss arbitrary: i j rule: overlapping_sets.induct)
  case (2 n1 rest ss)
  show ?case
  proof (cases i)
    case 0
    with 2(2-) have "together (fold (pair_step n1) rest ss) n1 (rest ! (j - 1))" by (intro pair_steps(3)) (auto simp: nth_Cons')
    with 0 2(2) show ?thesis using overlapping_sets_ok(2) by (simp add: nth_Cons')
  next
    case (Suc i')
    with 2 show ?thesis by (cases j) simp_all
  qed
qed simp

definition has_range :: "(string \<times> string) list \<Rightarrow> string \<Rightarrow> uidRange \<Rightarrow> bool" where
  "has_range items n r = list_ex (\<lambda>(name, str). name = n \<and> uidStringToRange str = Some (Inr r)) items"

lemma read_ranges_set:
  "read_ranges items = Some (ns, errs) \<Longrightarrow> set ns = {\<lparr>nwr_name = n, nwr_range = r\<rparr> | n r. has_range items n r}"
proof (induction items arbitrary: ns errs)
  case Nil
  then show ?case by (simp add: has_range_def)
next
  case (Cons i items)
  obtain n str where i: "i = (n, str)" by (cases i)
  from Cons.prems obtain r ns' errs' where r: "uidStringToRange str = Some r" "read_ranges items = Some (ns', errs')"
    "(ns, errs) = (case r of Inl _ \<Rightarrow> (ns', Errorf (''can't read uid range of the '' @ n @ '' namespace'') # errs')
                     | Inr rng \<Rightarrow> (\<lparr>nwr_name = n, nwr_range = rng\<rparr> # ns', errs'))"
    by (auto simp: i split: option.splits)
  show ?case using Cons.IH[OF r(2)] r(1,3) by (cases r) (auto simp: i has_range_def)
qed

lemma read_ranges_names:
  "read_ranges items = Some (ns, errs) \<Longrightarrow> nwr_name ` set ns \<subseteq> fst ` set items \<and> (distinct (map fst items) \<longrightarrow> distinct (map nwr_name ns))"
proof (induction items arbitrary: ns errs)
  case (Cons i items)
  obtain n str where i: "i = (n, str)" by (cases i)
  from Cons.prems obtain r ns' errs' where r: "uidStringToRange str = Some r" "read_ranges items = Some (ns', errs')"
    "ns = (case r of Inl _ \<Rightarrow> ns' | Inr rng \<Rightarrow> \<lparr>nwr_name = n, nwr_range = rng\<rparr> # ns')"
    by (auto simp: i split: option.splits sum.splits)
  show ?case using Cons.IH[OF r(2)] r(3) by (cases r) (auto simp: i)
qed simp

lemma together_sym: "together ss x y = together ss y x"
  by (auto simp: together_def list_ex_iff)

text \<open>
  C39: Two namespaces are recorded in a common set exactly when their UID ranges share a UID, for all namespaces whose ranges
  could be read, are not empty and do not overflow 64 bits, whatever the ranges of the others are; so any two such namespaces
  of one recorded set share UIDs.
\<close>

theorem overlapping_uids:
  assumes "gatherNamespacesWithOverlappingUIDs (Inr items) = Some (Some ss, errs)" "distinct (map fst items)"
  shows "list_all (\<lambda>s. \<forall>x y. x \<in> s \<and> y \<in> s \<and> x \<noteq> y \<and> valid_range (nwr_range x) \<and> valid_range (nwr_range y) \<longrightarrow>
      uids (nwr_range x) \<inter> uids (nwr_range y) \<noteq> {}) ss \<and>
    (\<forall>n1 r1 n2 r2. has_range items n1 r1 \<and> has_range items n2 r2 \<and> n1 \<noteq> n2 \<and> valid_range r1 \<and> valid_range r2 \<longrightarrow>
       (together ss \<lparr>nwr_name = n1, nwr_range = r1\<rparr> \<lparr>nwr_name = n2, nwr_range = r2\<rparr> \<longleftrightarrow> uids r1 \<inter> uids r2 \<noteq> {}))"
proof -
  from assms(1) obtain ns where ns: "read_ranges items = Some (ns, errs)" "ss = overlapping_sets ns []"
    by (auto simp: gatherNamespacesWithOverlappingUIDs_def)
  have pair: "list_all pairwise_overlap ss"
    using overlapping_sets_ok(1)[of "[]" ns] by (simp add: ns(2))
  have share: "uids (nwr_range x) \<inter> uids (nwr_range y) \<noteq> {}"
    if "s \<in> set ss" "x \<in> s" "y \<in> s" "x \<noteq> y" "valid_range (nwr_range x)" "valid_range (nwr_range y)" for s x y
    using that pair overlap_iff_shared[of "nwr_range x" "nwr_range y"] unfolding list_all_iff pairwise_overlap_def by blast
  have complete: "together ss x y"
    if xy: "x \<in> set ns" "y \<in> set ns" "x \<noteq> y" "IsOverlappingWith (nwr_range x) (nwr_range y)" for x y
  proof -
    have o: "IsOverlappingWith (nwr_range x) (nwr_range y)" "IsOverlappingWith (nwr_range y) (nwr_range x)"
      using overlap_sym xy(4) by simp_all
    from xy obtain i j where ij: "i < length ns" "j < length ns" "x = ns ! i" "y = ns ! j" "i \<noteq> j" by (metis in_set_conv_nth)
    then consider "i < j" | "j < i" by linarith
    then show ?thesis
    proof cases
      case 1
      then show ?thesis using overlapping_sets_complete[of i j ns "[]"] ij o by (simp add: ns(2))
    next
      case 2
      then show ?thesis using overlapping_sets_complete[of j i ns "[]"] ij o together_sym by (simp add: ns(2))
    qed
  qed
  have "list_all (\<lambda>s. \<forall>x y. x \<in> s \<and> y \<in> s \<and> x \<noteq> y \<and> valid_range (nwr_range x) \<and> valid_range (nwr_range y) \<longrightarrow>
      uids (nwr_range x) \<inter> uids (nwr_range y) \<noteq> {}) ss"
    unfolding list_all_iff using share by blast
  moreover have "together ss \<lparr>nwr_name = n1, nwr_range = r1\<rparr> \<lparr>nwr_name = n2, nwr_range = r2\<rparr> \<longleftrightarrow> uids r1 \<inter> uids r2 \<noteq> {}"
    if h: "has_range items n1 r1" "has_range items n2 r2" "n1 \<noteq> n2" "valid_range r1" "valid_range r2" for n1 r1 n2 r2
  proof -
    let ?x = "\<lparr>nwr_name = n1, nwr_range = r1\<rparr>" and ?y = "\<lparr>nwr_name = n2, nwr_range = r2\<rparr>"
    have "?x \<in> set ns" "?y \<in> set ns" "?x \<noteq> ?y" using h unfolding read_ranges_set[OF ns(1)] by auto
    then show ?thesis using complete[of ?x ?y] share[of _ ?x ?y] overlap_iff_shared[of r1 r2] h(4,5)
      by (auto simp: together_def list_ex_iff)
  qed
  ultimately show ?thesis by blast
qed

definition example_namespaces :: "(string \<times> string) list" where
  "example_namespaces = [(''a'', ''1000/10''), (''b'', ''1009/10''), (''c'', ''1010/5''), (''d'', [])]"

lemma example_namespaces_gathered: "\<exists>ss errs. gatherNamespacesWithOverlappingUIDs (Inr example_namespaces) = Some (Some ss, errs)"
proof -
  have "read_ranges example_namespaces \<noteq> None" by code_simp
  then show ?thesis by (auto simp: gatherNamespacesWithOverlappingUIDs_def)
qed

lemma example_ranges:
  "has_range example_namespaces n r \<longleftrightarrow>
     (n, r) \<in> {(''a'', \<lparr>uid_starting = 1000, uid_length = 10\<rparr>), (''b'', \<lparr>uid_starting = 1009, uid_length = 10\<rparr>),
       (''c'', \<lparr>uid_starting = 1010, uid_length = 5\<rparr>)}"
proof -
  have "uidStringToRange ''1000/10'' = Some (Inr \<lparr>uid_starting = 1000, uid_length = 10\<rparr>)"
    "uidStringToRange ''1009/10'' = Some (Inr \<lparr>uid_starting = 1009, uid_length = 10\<rparr>)"
    "uidStringToRange ''1010/5'' = Some (Inr \<lparr>uid_starting = 1010, uid_length = 5\<rparr>)"
    "uidStringToRange [] = Some (Inl (Errorf ''invalid syntax''))"
    by code_simp+
  then show ?thesis by (auto simp: has_range_def example_namespaces_def)
qed

theorem overlapping_uids_witness:
  "\<exists>ss errs. gatherNamespacesWithOverlappingUIDs (Inr example_namespaces) = Some (Some ss, errs) \<and>
     together ss \<lparr>nwr_name = ''a'', nwr_range = \<lparr>uid_starting = 1000, uid_length = 10\<rparr>\<rparr>
       \<lparr>nwr_name = ''b'', nwr_range = \<lparr>uid_starting = 1009, uid_length = 10\<rparr>\<rparr> \<and>
     \<not> together ss \<lparr>nwr_name = ''a'', nwr_range = \<lparr>uid_starting = 1000, uid_length = 10\<rparr>\<rparr>
       \<lparr>nwr_name = ''c'', nwr_range = \<lparr>uid_starting = 1010, uid_length = 5\<rparr>\<rparr>"
proof -
  obtain ss errs where g: "gatherNamespacesWithOverlappingUIDs (Inr example_namespaces) = Some (Some ss, errs)"
    using example_namespaces_gathered by blast
  have d: "distinct (map fst example_namespaces)" by (simp add: example_namespaces_def)
  have v: "valid_range r" if "has_range example_namespaces n r" for n r
    using that unfolding example_ranges by (auto simp: valid_range_def)
  have ok: "together ss \<lparr>nwr_name = n1, nwr_range = r1\<rparr> \<lparr>nwr_name = n2, nwr_range = r2\<rparr> \<longleftrightarrow> uids r1 \<inter> uids r2 \<noteq> {}"
    if "has_range example_namespaces n1 r1" "has_range example_namespaces n2 r2" "n1 \<noteq> n2" for n1 r1 n2 r2
    by (rule overlapping_uids[OF g d, THEN conjunct2, THEN spec, THEN spec, THEN spec, THEN spec, THEN mp])
      (use that v in simp)
  have "together ss \<lparr>nwr_name = ''a'', nwr_range = \<lparr>uid_starting = 1000, uid_length = 10\<rparr>\<rparr>
       \<lparr>nwr_name = ''b'', nwr_range = \<lparr>uid_starting = 1009, uid_length = 10\<rparr>\<rparr>"
    by (subst ok) (simp_all add: example_ranges uids_def)
  moreover have "\<not> together ss \<lparr>nwr_name = ''a'', nwr_range = \<lparr>uid_starting = 1000, uid_length = 10\<rparr>\<rparr>
       \<lparr>nwr_name = ''c'', nwr_range = \<lparr>uid_starting = 1010, uid_length = 5\<rparr>\<rparr>"
    by (subst ok) (simp_all add: example_ranges uids_def)
  ultimately show ?thesis using g by blast
qed

text \<open>An annotation without a slash ends the gatherer in a panic; a sum that overflows hides an overlap.\<close>

lemma no_slash_panics: "gatherNamespacesWithOverlappingUIDs (Inr [(''a'', ''1000'')]) = None"
  by code_simp

lemma overflow_hides_overlap:
  "\<not> IsOverlappingWith \<lparr>uid_starting = 0x7FFFFFFFFFFFFFF0, uid_length = 31\<rparr> \<lparr>uid_starting = 0x7FFFFFFFFFFFFFF1, uid_length = 5\<rparr>"
  by code_simp

end
