(* ===== verification/ClusterCounts.thy ===== *)
theory ClusterCounts
  imports ClusterState ContainerLogs
begin

text \<open>
  Gatherers of pkg/gatherers/clusterconfig that count, select or limit what they record: annotations of the SDN,
  failed network checks, revisions of objects, service accounts, pods and configuration of SAP installations, volumes and
  instances of monitoring, alerts, disruption budgets, node logs and the metrics of the deployment validation operator.
\<close>

section \<open>Annotations of the SDN\<close>

text \<open>Pods and namespaces are their annotations; a listing is the list of its pages, each an outcome.\<close>

fun count_pages :: "('a \<Rightarrow> bool) \<Rightarrow> 'a list result list \<Rightarrow> nat \<Rightarrow> nat \<times> go_error option" where
  "count_pages P [] n = (n, None)"
| "count_pages P (Inl err # _) n = (0, Some err)"
| "count_pages P (Inr items # rest) n = count_pages P rest (n + length (filter P items))"

definition getNumberOfPodsWithAnnotation :: "string \<Rightarrow> (string, string) gomap list result list \<Rightarrow> nat \<times> go_error option" where
  "getNumberOfPodsWithAnnotation annotation pages = count_pages (\<lambda>a. map_has a annotation) pages 0"

definition getNumberOfNetnamespacesWithAnnotation :: "string \<Rightarrow> (string, string) gomap list result list \<Rightarrow> nat \<times> go_error option" where
  "getNumberOfNetnamespacesWithAnnotation annotation pages = count_pages (\<lambda>a. map_get a annotation = Some ''true'') pages 0"

definition gatherNumberOfPodsAndNetnamespacesWithSDN ::
  "(string, string) gomap list result list \<Rightarrow> (string, string) gomap list result list \<Rightarrow> (nat \<times> nat) option \<times> go_error list" where
  "gatherNumberOfPodsAndNetnamespacesWithSDN pods netNamespaces =
     (let (numberOfPods, err1) = getNumberOfPodsWithAnnotation ''pod.network.openshift.io/assign-macvlan'' pods;
          (numberOfNetnamespaces, err2) = getNumberOfNetnamespacesWithAnnotation ''netnamespace.network.openshift.io/multicast-enabled'' netNamespaces;
          errs = (case err1 of None \<Rightarrow> [] | Some e \<Rightarrow> [e]) @ (case err2 of None \<Rightarrow> [] | Some e \<Rightarrow> [e])
      in if numberOfNetnamespaces = 0 \<and> numberOfPods = 0 then (None, [])
         else (Some (numberOfPods, numberOfNetnamespaces), errs))"

section \<open>Network connectivity checks\<close>

record LogEntry =
  le_Start :: time
  le_Success :: bool
  le_Reason :: string
  le_Message :: string

definition getUnsuccessfulChecks :: "time \<Rightarrow> LogEntry list \<Rightarrow> LogEntry list" where
  "getUnsuccessfulChecks now entries =
     filter (\<lambda>e. \<not> le_Success e) (filter (\<lambda>e. \<not> le_Start e < now - 24 * 3600 * 1000000000) entries)"

record connectivity_check =
  cc_Failures :: "LogEntry list"
  cc_Outages :: "(LogEntry list \<times> LogEntry list) list"

definition unsuccessful_entries :: "time \<Rightarrow> connectivity_check list \<Rightarrow> LogEntry list" where
  "unsuccessful_entries now checks =
     concat (map (\<lambda>c. getUnsuccessfulChecks now (cc_Failures c) @
       concat (map (\<lambda>(startLogs, endLogs). getUnsuccessfulChecks now startLogs @ getUnsuccessfulChecks now endLogs) (cc_Outages c))) checks)"

type_synonym reasons = "(string, (string, time) gomap) gomap"

definition reason_step :: "LogEntry \<Rightarrow> reasons \<Rightarrow> reasons" where
  "reason_step entry reasons =
     (let messages = (case map_get reasons (le_Reason entry) of None \<Rightarrow> [] | Some m \<Rightarrow> m)
      in case map_get messages (le_Message entry) of
           Some oldTime \<Rightarrow>
             map_put (le_Reason entry) (if oldTime < le_Start entry then map_put (le_Message entry) (le_Start entry) messages else messages) reasons
         | None \<Rightarrow> map_put (le_Reason entry) (map_put (le_Message entry) (le_Start entry) messages) reasons)"

definition gatherPNCC :: "time \<Rightarrow> connectivity_check list result \<Rightarrow> reasons result" where
  "gatherPNCC now pnccList =
     (case pnccList of Inl err \<Rightarrow> Inl err | Inr checks \<Rightarrow> Inr (fold reason_step (unsuccessful_entries now checks) []))"

section \<open>Revisions of objects\<close>

text \<open>The expression \<open>-\d+$\<close>: a dash and at least one digit at the end are removed.\<close>

definition extractBaseName :: "string \<Rightarrow> string" where
  "extractBaseName name =
     (let digits = takeWhile is_digit (rev name); rest = dropWhile is_digit (rev name)
      in if digits \<noteq> [] \<and> rest \<noteq> [] \<and> hd rest = CHR ''-'' then rev (tl rest) else name)"

definition hasRevisionStatusOwner :: "string list \<Rightarrow> bool" where
  "hasRevisionStatusOwner ownerRefs = list_ex (\<lambda>n. prefix ''revision-status-'' n) ownerRefs"

record NamespaceRevisionCounts =
  rc_ConfigMaps :: "(string, nat) gomap"
  rc_Secrets :: "(string, nat) gomap"

text \<open>Objects are their names and the names of their owners; an error leaves the counts empty.\<close>

definition count_revision :: "string \<times> string list \<Rightarrow> (string, nat) gomap \<Rightarrow> (string, nat) gomap" where
  "count_revision obj m =
     (if hasRevisionStatusOwner (snd obj)
      then map_put (extractBaseName (fst obj)) ((case map_get m (extractBaseName (fst obj)) of None \<Rightarrow> 0 | Some n \<Rightarrow> n) + 1) m
      else m)"

definition count_revisions :: "(string \<times> string list) list result \<Rightarrow> (string, nat) gomap" where
  "count_revisions listing = (case listing of Inl _ \<Rightarrow> [] | Inr objs \<Rightarrow> fold count_revision objs [])"

definition revisionedObjectNamespaces :: "string list" where
  "revisionedObjectNamespaces = [''openshift-kube-apiserver'']"

definition gatherRevisionedObjectCounts ::
  "(string \<Rightarrow> (string \<times> string list) list result) \<Rightarrow> (string \<Rightarrow> (string \<times> string list) list result) \<Rightarrow> (string, NamespaceRevisionCounts) gomap" where
  "gatherRevisionedObjectCounts configMaps secrets =
     fold (\<lambda>ns m.
       let nsCounts = \<lparr>rc_ConfigMaps = count_revisions (configMaps ns), rc_Secrets = count_revisions (secrets ns)\<rparr>
       in if rc_ConfigMaps nsCounts \<noteq> [] \<or> rc_Secrets nsCounts \<noteq> [] then map_put ns nsCounts m else m)
       revisionedObjectNamespaces []"

section \<open>Service accounts\<close>

record service_account =
  sa_Name :: string
  sa_Namespace :: string
  sa_Secrets :: nat

definition defaultNamespaces :: "string list" where
  "defaultNamespaces = [''default'', ''kube-system'', ''kube-public'', ''openshift'']"

definition maxServiceAccountsLimit :: nat where
  "maxServiceAccountsLimit = 1000"

fun add_accounts :: "service_account list \<Rightarrow> service_account list \<Rightarrow> service_account list" where
  "add_accounts accounts [] = accounts"
| "add_accounts accounts (a # as) =
     (if maxServiceAccountsLimit < length accounts then accounts else add_accounts (accounts @ [a]) as)"

definition account_step :: "service_account list result \<Rightarrow> service_account list \<times> nat \<Rightarrow> service_account list \<times> nat" where
  "account_step svca acc =
     (case svca of
        Inl _ \<Rightarrow> acc
      | Inr items \<Rightarrow> (add_accounts (fst acc) items, snd acc + length items))"

definition gatherServiceAccounts ::
  "string list result \<Rightarrow> (string \<Rightarrow> service_account list result) \<Rightarrow> (service_account list \<times> nat) option \<times> go_error list" where
  "gatherServiceAccounts namespaceList svca =
     (case namespaceList of
        Inl err \<Rightarrow> (None, if isNotFound err then [] else [err])
      | Inr items \<Rightarrow>
          (Some (fold (\<lambda>ns. account_step (svca ns)) (defaultNamespaces @ filter (prefix ''openshift-'') items) ([], 0)), []))"

definition add_account_info :: "service_account \<Rightarrow> (string, (string \<times> nat) list) gomap \<Rightarrow> (string, (string \<times> nat) list) gomap" where
  "add_account_info a m =
     map_put (sa_Namespace a) ((case map_get m (sa_Namespace a) of None \<Rightarrow> [] | Some l \<Rightarrow> l) @ [(sa_Name a, sa_Secrets a)]) m"

definition accounts_Marshal :: "service_account list \<Rightarrow> (string, (string \<times> nat) list) gomap" where
  "accounts_Marshal accounts = fold add_account_info accounts []"

section \<open>SAP installations\<close>

record sap_pod =
  sap_Namespace :: string
  sap_Name :: string
  sap_Phase :: string
  sap_Owners :: "(string \<times> string) list"

text \<open>A job is the number of its succeeded pods.\<close>

fun successful_job :: "(string \<Rightarrow> int result) \<Rightarrow> (string \<times> string) list \<Rightarrow> bool result" where
  "successful_job job [] = Inr False"
| "successful_job job ((kind, name) # owners) =
     (if kind \<noteq> ''Job'' then successful_job job owners
      else case job name of
             Inl err \<Rightarrow> Inl err
           | Inr succeeded \<Rightarrow> if 0 < succeeded then Inr True else successful_job job owners)"

fun sap_pods :: "(string \<Rightarrow> string \<Rightarrow> int result) \<Rightarrow> sap_pod list \<Rightarrow> (string \<times> sap_pod) list result" where
  "sap_pods job [] = Inr []"
| "sap_pods job (p # ps) =
     (if sap_Phase p = ''Running'' \<or> sap_Phase p = ''Succeeded'' then sap_pods job ps
      else case successful_job (job (sap_Namespace p)) (sap_Owners p) of
             Inl err \<Rightarrow> Inl err
           | Inr True \<Rightarrow> sap_pods job ps
           | Inr False \<Rightarrow> map_sum id (\<lambda>rs. (''config/pod/'' @ sap_Namespace p @ ''/'' @ sap_Name p, p) # rs) (sap_pods job ps))"

fun sap_namespaces ::
  "(string \<Rightarrow> sap_pod list result) \<Rightarrow> (string \<Rightarrow> string \<Rightarrow> int result) \<Rightarrow> string list \<Rightarrow> string list \<Rightarrow> (string \<times> sap_pod) list result" where
  "sap_namespaces pods job collected [] = Inr []"
| "sap_namespaces pods job collected (ns # nss) =
     (if ns \<in> set collected then sap_namespaces pods job collected nss
      else case pods ns of
             Inl err \<Rightarrow> if isNotFound err then sap_namespaces pods job (ns # collected) nss else Inl err
           | Inr ps \<Rightarrow>
               (case sap_pods job ps of
                  Inl err \<Rightarrow> Inl err
                | Inr rs \<Rightarrow> map_sum id (\<lambda>rest. rs @ rest) (sap_namespaces pods job (ns # collected) nss)))"

definition gatherSAPPods ::
  "(string \<Rightarrow> sap_pod list result) \<Rightarrow> (string \<Rightarrow> string \<Rightarrow> int result) \<Rightarrow> string list result \<Rightarrow> (string \<times> sap_pod) list \<times> go_error list" where
  "gatherSAPPods pods job datahubNamespaces =
     (case datahubNamespaces of
        Inl err \<Rightarrow> ([], if isNotFound err then [] else [err])
      | Inr nss \<Rightarrow> (case sap_namespaces pods job [] nss of Inl err \<Rightarrow> ([], [err]) | Inr rs \<Rightarrow> (rs, [])))"

text \<open>Named objects that are read one by one: a missing one is left out, another error ends the gatherer.\<close>

fun read_named :: "(string \<Rightarrow> 'a result) \<Rightarrow> (string \<Rightarrow> string) \<Rightarrow> string list \<Rightarrow> (string \<times> 'a) list result" where
  "read_named get name [] = Inr []"
| "read_named get name (n # ns) =
     (case get n of
        Inl err \<Rightarrow> if isNotFound err then read_named get name ns else Inl err
      | Inr obj \<Rightarrow> map_sum id (\<lambda>rs. (name n, obj) # rs) (read_named get name ns))"

definition gatherSAPConfig ::
  "unstructured list result \<Rightarrow> (string \<Rightarrow> 'a result) \<Rightarrow> (string \<Rightarrow> 'a result) \<Rightarrow> (string \<times> 'a) list \<times> go_error list" where
  "gatherSAPConfig datahubs getSCC getCRB =
     (case datahubs of
        Inl err \<Rightarrow> ([], if isNotFound err then [] else [err])
      | Inr items \<Rightarrow>
          (if items = [] then ([], [])
           else case read_named getSCC (\<lambda>n. ''config/securitycontextconstraint/'' @ n) [''anyuid'', ''privileged''] of
                  Inl err \<Rightarrow> ([], [err])
                | Inr sccs \<Rightarrow>
                    (case read_named getCRB (\<lambda>n. ''config/clusterrolebinding/'' @ map (\<lambda>c. if c = CHR '':'' then CHR ''_'' else c) n)
                            [''system:openshift:scc:anyuid'', ''system:openshift:scc:privileged''] of
                       Inl err \<Rightarrow> ([], [err])
                     | Inr crbs \<Rightarrow> (sccs @ crbs, []))))"

definition gatherCRD :: "(string \<Rightarrow> 'a result) \<Rightarrow> (string \<times> 'a) list \<times> go_error list" where
  "gatherCRD get =
     (case read_named get (\<lambda>n. ''config/crd/'' @ n)
             [''volumesnapshots.snapshot.storage.k8s.io'', ''volumesnapshotcontents.snapshot.storage.k8s.io''] of
        Inl err \<Rightarrow> ([], [err])
      | Inr rs \<Rightarrow> (rs, []))"

definition gatherClusterRole :: "(string \<Rightarrow> 'a result) \<Rightarrow> string \<Rightarrow> (string \<times> 'a) result" where
  "gatherClusterRole get name =
     map_sum id (\<lambda>r. (''cluster-scoped-resources/rbac.authorization.k8s.io/clusterroles/'' @ name, r)) (get name)"

definition gatherClusterRoles :: "(string \<Rightarrow> 'a result) \<Rightarrow> string list \<Rightarrow> (string \<times> 'a) list \<times> go_error list" where
  "gatherClusterRoles get names =
     (concat (map (\<lambda>n. case gatherClusterRole get n of Inl _ \<Rightarrow> [] | Inr r \<Rightarrow> [r]) names),
      concat (map (\<lambda>n. case gatherClusterRole get n of Inl err \<Rightarrow> [err] | Inr _ \<Rightarrow> []) names))"

section \<open>Monitoring\<close>

text \<open>Claims are their name and volume; a volume is read by its name.\<close>

definition gather_MonitoringPVs :: "(string \<times> string) list result \<Rightarrow> (string \<Rightarrow> 'a result) \<Rightarrow> (string \<times> 'a) list \<times> go_error list" where
  "gather_MonitoringPVs pvcList getPV =
     (case pvcList of
        Inl err \<Rightarrow> ([], [err])
      | Inr pvcs \<Rightarrow>
          (let vols = map snd (filter (\<lambda>(n, v). contains_str ''prometheus-k8s'' n) pvcs)
           in (concat (map (\<lambda>v. case getPV v of Inl _ \<Rightarrow> [] | Inr pv \<Rightarrow> [(''config/persistentvolumes/'' @ v, pv)]) vols),
               concat (map (\<lambda>v. case getPV v of Inl err \<Rightarrow> [err] | Inr _ \<Rightarrow> []) vols))))"

definition monitoringNamespace :: string where
  "monitoringNamespace = ''openshift-monitoring''"

text \<open>Instances are their namespace and name.\<close>

definition getOutcasted :: "(string \<times> string) list result \<Rightarrow> string list result" where
  "getOutcasted listing = map_sum id (\<lambda>items. map snd (filter (\<lambda>(ns, n). ns \<noteq> monitoringNamespace) items)) listing"

definition gather_monitoringCRNames ::
  "(string \<times> string) list result \<Rightarrow> (string \<times> string) list result \<Rightarrow> (string list \<times> string list) option \<times> go_error list" where
  "gather_monitoringCRNames prometheuses alertmanagers =
     (case (getOutcasted prometheuses, getOutcasted alertmanagers) of
        (Inl e1, Inl e2) \<Rightarrow> (None, [e1, e2])
      | (Inl e1, Inr _) \<Rightarrow> (None, [e1])
      | (Inr _, Inl e2) \<Rightarrow> (None, [e2])
      | (Inr ps, Inr ams) \<Rightarrow> if ps = [] \<and> ams = [] then (None, []) else (Some (ps, ams), []))"

definition alerts_limit :: nat where
  "alerts_limit = 1000"

definition gatherActiveAlerts :: "('d \<Rightarrow> 'a list result) \<Rightarrow> 'd result \<Rightarrow> 'a list option \<times> go_error list" where
  "gatherActiveAlerts unmarshal answer =
     (case answer of
        Inl err \<Rightarrow> (None, [err])
      | Inr alertsData \<Rightarrow>
          (case unmarshal alertsData of
             Inl err \<Rightarrow> (None, [err])
           | Inr alerts \<Rightarrow>
               (if alerts_limit < length alerts
                then (Some (take alerts_limit alerts),
                      [Errorf (''alert limit 1000 was exceeded! There were '' @ itoa (int (length alerts)) @ '' alerts'')])
                else (Some alerts, []))))"

definition gatherPodDisruptionBudgetLimit :: nat where
  "gatherPodDisruptionBudgetLimit = 100"

fun pdb_loop :: "(string \<times> json_map) list \<Rightarrow> unstructured list \<Rightarrow> (string \<times> json_map) list" where
  "pdb_loop records [] = records"
| "pdb_loop records (item # items) =
     (if prefix ''openshift-'' (un_Namespace item) then
        (let records = records @ [(scoped_name ''config/pdbs/'' item, un_Object item)]
         in if length records = gatherPodDisruptionBudgetLimit then records else pdb_loop records items)
      else pdb_loop records items)"

definition gatherPodDisruptionBudgets :: "unstructured list result \<Rightarrow> (string \<times> json_map) list \<times> go_error list" where
  "gatherPodDisruptionBudgets pdbs = (case pdbs of Inl err \<Rightarrow> ([], [err]) | Inr items \<Rightarrow> (pdb_loop [] items, []))"

section \<open>Node logs\<close>

definition logNodeMaxLines :: nat where
  "logNodeMaxLines = 50"

definition nodeLogsMessagesFilter :: "string list" where
  "nodeLogsMessagesFilter =
     [[CHR ''E'', CHR 0x5C, CHR ''d''] @ ''{4} [0-9]{1,2}:[0-9]{1,2}:[0-9]{1,2}'',
      ''connect: connection refused'',
      ''failed (failure): command timed out'',
      ''Failed to make webhook authenticator request: Post'',
      ''raise JSONDecodeError('' @ [CHR 0x22] @ ''Expecting value'' @ [CHR 0x22] @ '', s, err.value) from None'',
      ''ContainerStateWaiting{Reason:ContainerCreating'',
      ''ContainersNotReady Message:containers with unready status'',
      ''MountVolume.MountDevice failed for volume'',
      ''kubernetes.io/csi: attacher.MountDevice failed to create newCsiDriverClient'',
      ''Unable to attach or mount volumes: unmounted volumes'',
      ''timed out waiting for the condition'',
      ''CreateContainerError: context deadline exceeded'',
      ''rpc error: code = ResourceExhausted desc = grpc: received message larger than max'']"

definition last_lines :: "string list \<Rightarrow> string list" where
  "last_lines ls = (if logNodeMaxLines < length ls then drop (length ls - logNodeMaxLines) ls else ls)"

text \<open>The stream of a node is what its reader gives, decompressed when it is a gzip stream.\<close>

definition nodeLogString :: "compiler \<Rightarrow> log_stream result \<Rightarrow> string result option" where
  "nodeLogString compile req =
     (case req of
        Inl err \<Rightarrow> Some (Inl err)
      | Inr st \<Rightarrow> FilterLogFromScanner compile st nodeLogsMessagesFilter True (Some last_lines))"

fun nodeLogRecords :: "compiler \<Rightarrow> (string \<Rightarrow> log_stream result) \<Rightarrow> string list \<Rightarrow> ((string \<times> string) list \<times> go_error list) option" where
  "nodeLogRecords compile req [] = Some ([], [])"
| "nodeLogRecords compile req (name # names) =
     (case nodeLogString compile (req name) of
        None \<Rightarrow> None
      | Some r \<Rightarrow>
          (case nodeLogRecords compile req names of
             None \<Rightarrow> None
           | Some (records, errs) \<Rightarrow>
               Some ((''config/node/logs/'' @ name @ ''.log'', case r of Inl _ \<Rightarrow> [] | Inr logString \<Rightarrow> logString) # records,
                     (case r of Inl err \<Rightarrow> err # errs | Inr _ \<Rightarrow> errs))))"

definition gatherNodeLogs :: "compiler \<Rightarrow> string list result \<Rightarrow> (string \<Rightarrow> log_stream result) \<Rightarrow> ((string \<times> string) list \<times> go_error list) option" where
  "gatherNodeLogs compile nodes req =
     (case nodes of Inl err \<Rightarrow> Some ([], [err]) | Inr names \<Rightarrow> nodeLogRecords compile req names)"

section \<open>Metrics of the deployment validation operator\<close>

text \<open>An endpoint: the client or its error, the answers to the probes within the timeout, and the stream of metrics.\<close>

record dvo_endpoint =
  dvo_client :: "go_error option"
  dvo_heads :: "int option list"
  dvo_stream :: "(bytes \<times> go_error option) list result"

definition obfuscateDVOMetrics :: "ObfuscationValue list \<Rightarrow> bool" where
  "obfuscateDVOMetrics obf = list_ex (\<lambda>ov. ov = WorkloadNames) obf"

definition metricsServiceUp :: "int option list \<Rightarrow> go_error option" where
  "metricsServiceUp heads =
     (if list_ex (\<lambda>h. h = Some 200) heads then None
      else Some (Errorf ''DVO metrics service was not available within the 5s timeout''))"

definition dvo_pattern :: "string \<Rightarrow> string" where
  "dvo_pattern prop = ''(?m)(,?'' @ prop @ ''=[^'' @ [CHR 0x5C] @ '','' @ [CHR 0x5C] @ ''}]*'' @ [CHR 0x22] @ '')''"

text \<open>\<open>remove\<close> is the removal of every match of an expression.\<close>

definition gatherDVOMetricsFromEndpoint :: "(string \<Rightarrow> bytes \<Rightarrow> bytes) \<Rightarrow> dvo_endpoint \<Rightarrow> bool \<Rightarrow> bytes result" where
  "gatherDVOMetricsFromEndpoint remove ep useUIDs =
     (case dvo_client ep of
        Some err \<Rightarrow> Inl err
      | None \<Rightarrow>
          (case metricsServiceUp (dvo_heads ep) of
             Some err \<Rightarrow> Inl err
           | None \<Rightarrow>
               (case dvo_stream ep of
                  Inl err \<Rightarrow> Inl err
                | Inr reader \<Rightarrow>
                    (let f = (if useUIDs then remove (dvo_pattern ''namespace'') \<circ> remove (dvo_pattern ''name'') else id)
                     in case ReadAllLinesWithPrefix reader ''deployment_validation_operator_'' f of
                          (prefixedLines, err) \<Rightarrow>
                            if err \<noteq> Some EOF then (case err of Some e \<Rightarrow> Inl e | None \<Rightarrow> Inr prefixedLines) else Inr prefixedLines))))"

record dvo_service =
  dvs_Name :: string
  dvs_Namespace :: string
  dvs_Ports :: "int list"

definition dvo_url :: "dvo_service \<Rightarrow> int \<Rightarrow> string" where
  "dvo_url service port = ''http://'' @ dvs_Name service @ ''.'' @ dvs_Namespace service @ ''.svc:'' @ itoa port"

definition terminated :: "bytes \<Rightarrow> bytes" where
  "terminated ls = (if ls \<noteq> [] \<and> last ls \<noteq> newline then ls @ [newline] else ls)"

definition dvo_port_step ::
  "(string \<Rightarrow> bytes \<Rightarrow> bytes) \<Rightarrow> (string \<Rightarrow> dvo_endpoint) \<Rightarrow> dvo_service \<Rightarrow> bool \<Rightarrow> int \<Rightarrow> bytes \<times> go_error list \<Rightarrow> bytes \<times> go_error list" where
  "dvo_port_step remove ep service useUIDs port acc =
     (case gatherDVOMetricsFromEndpoint remove (ep (dvo_url service port)) useUIDs of
        Inl err \<Rightarrow> (fst acc, snd acc @ [err])
      | Inr prefixedLines \<Rightarrow> (fst acc @ ''# '' @ dvo_url service port @ [newline] @ terminated prefixedLines, snd acc))"

definition dvo_service_step ::
  "(string \<Rightarrow> bytes \<Rightarrow> bytes) \<Rightarrow> (string \<Rightarrow> dvo_endpoint) \<Rightarrow> ObfuscationValue list \<Rightarrow> dvo_service \<Rightarrow> bytes \<times> go_error list \<Rightarrow> bytes \<times> go_error list" where
  "dvo_service_step remove ep obf service acc =
     fold (dvo_port_step remove ep service
             (dvs_Namespace service = ''openshift-deployment-validation-operator'' \<or> obfuscateDVOMetrics obf))
       (dvs_Ports service) acc"

definition gatherDVOMetrics ::
  "(string \<Rightarrow> bytes \<Rightarrow> bytes) \<Rightarrow> (string \<Rightarrow> dvo_endpoint) \<Rightarrow> ObfuscationValue list \<Rightarrow> dvo_service list result \<Rightarrow> bytes option \<times> go_error list" where
  "gatherDVOMetrics remove ep obf services =
     (case services of
        Inl err \<Rightarrow> (None, [err])
      | Inr items \<Rightarrow>
          (if items = [] then (None, [WarningErr (Errorf ''no service found with label selector name=deployment-validation-operator'')])
           else (let (ls, errs) = fold (dvo_service_step remove ep obf) items ([], []) in (Some ls, errs))))"

section \<open>Correctness of the counts\<close>

lemma count_pages_all: "count_pages P (map Inr pages) n = (n + length (filter P (concat pages)), None)"
  by (induction pages arbitrary: n) simp_all

lemma count_pages_error: "Inl err \<in> set pages \<Longrightarrow> \<exists>e. count_pages P pages n = (0, Some e)"
  by (induction P pages n rule: count_pages.induct) auto

text \<open>A failed listing counts nothing; when both counts are zero the errors are dropped with the record.\<close>

lemma sdn_errors_lost:
  assumes "Inl e1 \<in> set pods" "Inl e2 \<in> set netNamespaces"
  shows "gatherNumberOfPodsAndNetnamespacesWithSDN pods netNamespaces = (None, [])"
proof -
  obtain a b where "getNumberOfPodsWithAnnotation ''pod.network.openshift.io/assign-macvlan'' pods = (0, Some a)"
    "getNumberOfNetnamespacesWithAnnotation ''netnamespace.network.openshift.io/multicast-enabled'' netNamespaces = (0, Some b)"
    using count_pages_error assms unfolding getNumberOfPodsWithAnnotation_def getNumberOfNetnamespacesWithAnnotation_def by metis
  then show ?thesis by (simp add: gatherNumberOfPodsAndNetnamespacesWithSDN_def)
qed

subsection \<open>The latest failure of every kind\<close>

definition last_seen :: "reasons \<Rightarrow> string \<Rightarrow> string \<Rightarrow> time option" where
  "last_seen reasons r m = (case map_get reasons r of None \<Rightarrow> None | Some messages \<Rightarrow> map_get messages m)"

definition later :: "time option \<Rightarrow> time \<Rightarrow> time option" where
  "later old t = (case old of None \<Rightarrow> Some t | Some u \<Rightarrow> Some (max u t))"

lemma reason_step_seen:
  "last_seen (reason_step e reasons) r m =
     (if r = le_Reason e \<and> m = le_Message e then later (last_seen reasons r m) (le_Start e) else last_seen reasons r m)"
  by (auto simp: last_seen_def reason_step_def later_def Let_def max_def split: option.splits)

lemma reasons_seen:
  "last_seen (fold reason_step es reasons) r m =
     foldl later (last_seen reasons r m) (map le_Start (filter (\<lambda>e. le_Reason e = r \<and> le_Message e = m) es))"
  by (induction es arbitrary: reasons) (auto simp: reason_step_seen)

lemma foldl_later: "foldl later (Some t) ts = Some (Max (insert t (set ts)))"
proof (induction ts arbitrary: t)
  case (Cons u ts)
  have "Max (insert (max t u) (set ts)) = Max (insert t (insert u (set ts)))"
  proof (cases "ts = []")
    case False
    then show ?thesis by (simp add: max.assoc)
  qed simp
  with Cons show ?case by (simp add: later_def)
qed simp

lemma foldl_later_None: "foldl later None ts = (if ts = [] then None else Some (Max (set ts)))"
  by (cases ts) (simp_all add: foldl_later later_def)

lemma unsuccessful_set:
  "e \<in> set (unsuccessful_entries now checks) \<longleftrightarrow>
     (\<exists>c \<in> set checks. e \<in> set (cc_Failures c) \<or> (\<exists>(a, b) \<in> set (cc_Outages c). e \<in> set a \<or> e \<in> set b)) \<and>
     \<not> le_Success e \<and> now - 24 * 3600 * 1000000000 \<le> le_Start e"
  by (fastforce simp: unsuccessful_entries_def getUnsuccessfulChecks_def)

text \<open>The failed checks of the last 24 hours with this reason and message.\<close>

definition recent_failures :: "time \<Rightarrow> connectivity_check list \<Rightarrow> string \<Rightarrow> string \<Rightarrow> LogEntry set" where
  "recent_failures now checks r m =
     {e. (\<exists>c \<in> set checks. e \<in> set (cc_Failures c) \<or> (\<exists>(a, b) \<in> set (cc_Outages c). e \<in> set a \<or> e \<in> set b)) \<and>
        \<not> le_Success e \<and> now - 24 * 3600 * 1000000000 \<le> le_Start e \<and> le_Reason e = r \<and> le_Message e = m}"

text \<open>For every reason and message the record holds the time of the latest failure of the last 24 hours, and nothing when there was none.\<close>

theorem latest_failures:
  assumes "gatherPNCC now (Inr checks) = Inr reasons"
  shows "last_seen reasons r m =
    (if recent_failures now checks r m = {} then None else Some (Max (le_Start ` recent_failures now checks r m)))"
proof -
  let ?es = "filter (\<lambda>e. le_Reason e = r \<and> le_Message e = m) (unsuccessful_entries now checks)"
  have set_es: "set ?es = recent_failures now checks r m"
    by (auto simp: recent_failures_def unsuccessful_set)
  have "reasons = fold reason_step (unsuccessful_entries now checks) []" using assms by (simp add: gatherPNCC_def)
  then have "last_seen reasons r m = foldl later (last_seen [] r m) (map le_Start ?es)" by (simp add: reasons_seen)
  then have "last_seen reasons r m = foldl later None (map le_Start ?es)" by (simp add: last_seen_def)
  then show ?thesis unfolding foldl_later_None set_map set_es[symmetric] by (simp only: set_empty map_is_Nil_conv)
qed

subsection \<open>Revisions\<close>

lemma base_name_of_revision:
  assumes "list_all is_digit ds" "ds \<noteq> []"
  shows "extractBaseName (base @ ''-'' @ ds) = base"
proof -
  have dash: "\<not> is_digit (CHR ''-'')" by code_simp
  have all: "\<forall>x \<in> set (rev ds). is_digit x" using assms(1) by (simp add: list_all_iff)
  have "takeWhile is_digit (rev (base @ ''-'' @ ds)) = rev ds" "dropWhile is_digit (rev (base @ ''-'' @ ds)) = CHR ''-'' # rev base"
    using takeWhile_append2[of "rev ds" is_digit "CHR ''-'' # rev base"] dropWhile_append2[of "rev ds" is_digit "CHR ''-'' # rev base"] all dash
    by simp_all
  then show ?thesis using assms(2) by (simp add: extractBaseName_def Let_def)
qed

definition revisions_of :: "string \<Rightarrow> (string \<times> string list) list \<Rightarrow> nat" where
  "revisions_of base objs = length (filter (\<lambda>(n, owners). hasRevisionStatusOwner owners \<and> extractBaseName n = base) objs)"

lemma count_revision_fold:
  "map_get (fold count_revision objs m) base =
     (if revisions_of base objs = 0 then map_get m base
      else Some ((case map_get m base of None \<Rightarrow> 0 | Some n \<Rightarrow> n) + revisions_of base objs))"
proof (induction objs arbitrary: m)
  case Nil
  then show ?case by (simp add: revisions_of_def)
next
  case (Cons obj objs)
  obtain n owners where obj: "obj = (n, owners)" by (cases obj)
  have rev: "revisions_of base (obj # objs) = (if hasRevisionStatusOwner owners \<and> extractBaseName n = base then 1 else 0) + revisions_of base objs"
    by (simp add: revisions_of_def obj)
  have get: "map_get (count_revision obj m) base =
      (if hasRevisionStatusOwner owners \<and> extractBaseName n = base then Some ((case map_get m base of None \<Rightarrow> 0 | Some k \<Rightarrow> k) + 1) else map_get m base)"
    by (simp add: count_revision_def obj)
  show ?case unfolding fold_Cons comp_apply Cons.IH get rev by simp
qed

text \<open>The count under a base name is the number of revisions with that base name.\<close>

theorem revisions_counted:
  "map_get (count_revisions (Inr objs)) base = (if revisions_of base objs = 0 then None else Some (revisions_of base objs))"
  by (simp add: count_revisions_def count_revision_fold)

subsection \<open>Limits\<close>

lemma add_accounts_prefix:
  "length accounts \<le> maxServiceAccountsLimit + 1 \<Longrightarrow> add_accounts accounts as = take (maxServiceAccountsLimit + 1) (accounts @ as)"
proof (induction accounts as rule: add_accounts.induct)
  case (2 accounts a as)
  then show ?case by (cases "maxServiceAccountsLimit < length accounts") (auto simp: take_Cons')
qed simp

definition listed :: "service_account list result \<Rightarrow> service_account list" where
  "listed r = (case r of Inl _ \<Rightarrow> [] | Inr items \<Rightarrow> items)"

lemma take_take_append: "take n (take n xs @ ys) = take n (xs @ ys)"
  by (simp add: min_def)

lemma account_steps:
  "length (fst acc) \<le> maxServiceAccountsLimit + 1 \<Longrightarrow>
   fold (\<lambda>ns. account_step (svca ns)) nss acc =
     (take (maxServiceAccountsLimit + 1) (fst acc @ concat (map (\<lambda>ns. listed (svca ns)) nss)),
      snd acc + length (concat (map (\<lambda>ns. listed (svca ns)) nss)))"
proof (induction nss arbitrary: acc)
  case Nil
  then show ?case by simp
next
  case (Cons ns nss)
  let ?acc = "account_step (svca ns) acc"
  have step: "?acc = (take (maxServiceAccountsLimit + 1) (fst acc @ listed (svca ns)), snd acc + length (listed (svca ns)))"
    using Cons.prems add_accounts_prefix[OF Cons.prems] by (cases acc) (auto simp: account_step_def listed_def split: sum.split)
  have "length (fst ?acc) \<le> maxServiceAccountsLimit + 1" unfolding step by simp
  note ih = Cons.IH[OF this]
  show ?case unfolding fold_Cons comp_apply ih unfolding step fst_conv snd_conv take_take_append by (simp only: list.map concat.simps append_assoc length_append add.assoc)
qed

text \<open>
  The recorded service accounts are the first 1001 of the default and platform namespaces that could be listed, one more than the limit; the total
  counts all of them.
\<close>

theorem service_accounts_limited:
  assumes "gatherServiceAccounts (Inr items) svca = (Some (accounts, total_count), errs)"
  defines "all_accounts \<equiv> concat (map (\<lambda>ns. listed (svca ns)) (defaultNamespaces @ filter (prefix ''openshift-'') items))"
  shows "accounts = take 1001 all_accounts \<and> total_count = length all_accounts \<and> errs = []"
  using assms(1) account_steps[of "([], 0)" svca "defaultNamespaces @ filter (prefix ''openshift-'') items"]
  unfolding all_accounts_def by (simp add: gatherServiceAccounts_def maxServiceAccountsLimit_def)

lemma accounts_marshalled:
  "map_get (fold add_account_info accounts m) ns =
     (let infos = map (\<lambda>a. (sa_Name a, sa_Secrets a)) (filter (\<lambda>a. sa_Namespace a = ns) accounts)
      in if infos = [] then map_get m ns else Some ((case map_get m ns of None \<Rightarrow> [] | Some l \<Rightarrow> l) @ infos))"
  by (induction accounts arbitrary: m) (auto simp: add_account_info_def Let_def split: option.splits)

lemma pdb_loop_limited:
  assumes "length records < gatherPodDisruptionBudgetLimit"
  shows "pdb_loop records items =
    take gatherPodDisruptionBudgetLimit (records @ map (\<lambda>u. (scoped_name ''config/pdbs/'' u, un_Object u)) (filter (\<lambda>u. prefix ''openshift-'' (un_Namespace u)) items))"
  using assms
proof (induction records items rule: pdb_loop.induct)
  case (2 records item items)
  have one: "take (gatherPodDisruptionBudgetLimit - length records) (x # xs) = [x]" if "Suc (length records) = gatherPodDisruptionBudgetLimit" for x :: "string \<times> json_map" and xs
    unfolding that[symmetric] by simp
  with 2 show ?case by (auto simp: Let_def one)
qed simp

lemma budgets_limited:
  "fst (gatherPodDisruptionBudgets (Inr items)) =
     take 100 (map (\<lambda>u. (scoped_name ''config/pdbs/'' u, un_Object u)) (filter (\<lambda>u. prefix ''openshift-'' (un_Namespace u)) items))"
  using pdb_loop_limited[of "[]" items] by (simp add: gatherPodDisruptionBudgets_def gatherPodDisruptionBudgetLimit_def)

lemma last_lines_suffix: "length (last_lines ls) \<le> 50 \<and> suffix (last_lines ls) ls"
  by (simp add: last_lines_def logNodeMaxLines_def suffix_drop)

subsection \<open>Failing pods of SAP installations\<close>

lemma not_successful:
  "successful_job job owners = Inr False \<Longrightarrow> (kind, n) \<in> set owners \<Longrightarrow> kind = ''Job'' \<Longrightarrow> \<exists>k \<le> 0. job n = Inr k"
  by (induction job owners rule: successful_job.induct) (auto split: if_splits sum.splits)

lemma sap_pods_failing:
  "sap_pods job ps = Inr rs \<Longrightarrow> (name, p) \<in> set rs \<Longrightarrow>
     p \<in> set ps \<and> name = ''config/pod/'' @ sap_Namespace p @ ''/'' @ sap_Name p \<and> sap_Phase p \<notin> {''Running'', ''Succeeded''} \<and>
     successful_job (job (sap_Namespace p)) (sap_Owners p) = Inr False"
proof (induction job ps arbitrary: rs rule: sap_pods.induct)
  case (2 job q ps)
  show ?case
  proof (cases "sap_Phase q = ''Running'' \<or> sap_Phase q = ''Succeeded''")
    case True
    with 2 show ?thesis by auto
  next
    case run: False
    show ?thesis
    proof (cases "successful_job (job (sap_Namespace q)) (sap_Owners q)")
      case (Inl e)
      with run 2(4) show ?thesis by simp
    next
      case (Inr b)
      show ?thesis
      proof (cases b)
        case True
        with run Inr 2 show ?thesis by auto
      next
        case False
        with run Inr 2(4) obtain rs' where rs': "sap_pods job ps = Inr rs'" "rs = (''config/pod/'' @ sap_Namespace q @ ''/'' @ sap_Name q, q) # rs'"
          by (cases "sap_pods job ps") auto
        then show ?thesis using 2(3)[OF run Inr _ rs'(1)] 2(5) run Inr False by auto
      qed
    qed
  qed
qed simp

lemma sap_namespaces_pods:
  "sap_namespaces pods job collected nss = Inr rs \<Longrightarrow> x \<in> set rs \<Longrightarrow> \<exists>ns ps rs'. ns \<in> set nss \<and> pods ns = Inr ps \<and> sap_pods job ps = Inr rs' \<and> x \<in> set rs'"
proof (induction pods job collected nss arbitrary: rs rule: sap_namespaces.induct)
  case (2 pods job collected ns nss)
  show ?case
  proof (cases "ns \<in> set collected")
    case True
    with 2 show ?thesis by auto
  next
    case new: False
    show ?thesis
    proof (cases "pods ns")
      case (Inl err)
      with new 2(4) have nf: "isNotFound err" "sap_namespaces pods job (ns # collected) nss = Inr rs" by (auto split: if_splits)
      from 2(2)[OF new Inl nf(1) nf(2) 2(5)] show ?thesis by auto
    next
      case (Inr ps)
      then obtain r1 r2 where r: "sap_pods job ps = Inr r1" "sap_namespaces pods job (ns # collected) nss = Inr r2" "rs = r1 @ r2"
        using new 2(4) by (cases "sap_pods job ps"; cases "sap_namespaces pods job (ns # collected) nss") auto
      show ?thesis
      proof (cases "x \<in> set r1")
        case True
        with Inr r show ?thesis by auto
      next
        case False
        with r(3) 2(5) have "x \<in> set r2" by simp
        from 2(3)[OF new Inr r(1) r(2) this] show ?thesis by auto
      qed
    qed
  qed
qed simp

text \<open>
  Only pods of the namespaces of SAP installations are recorded, that neither run nor have succeeded and have no owning job that succeeded.
\<close>

theorem sap_pods_recorded:
  assumes "gatherSAPPods pods job (Inr nss) = (records, errs)" "(name, p) \<in> set records"
  shows "(\<exists>ns ps. ns \<in> set nss \<and> pods ns = Inr ps \<and> p \<in> set ps) \<and> sap_Phase p \<notin> {''Running'', ''Succeeded''} \<and>
    ((''Job'', j) \<in> set (sap_Owners p) \<longrightarrow> (\<exists>k \<le> 0. job (sap_Namespace p) j = Inr k))"
proof -
  from assms obtain rs where rs: "sap_namespaces pods job [] nss = Inr rs" "(name, p) \<in> set rs"
    by (auto simp: gatherSAPPods_def split: sum.splits)
  from sap_namespaces_pods[OF rs] obtain ns ps rs' where "ns \<in> set nss" "pods ns = Inr ps" "sap_pods job ps = Inr rs'" "(name, p) \<in> set rs'" by blast
  with sap_pods_failing[of job ps rs' name p] not_successful[of "job (sap_Namespace p)" "sap_Owners p"] show ?thesis by blast
qed

subsection \<open>Metrics of the deployment validation operator\<close>

text \<open>
  The names are removed from complete lines only: a metric that the endpoint does not end with a line break is recorded with its names.
\<close>

lemma last_metric_in_clear:
  assumes "newline \<notin> set line" "prefix ''deployment_validation_operator_'' line"
    "dvo_client ep = None" "list_ex (\<lambda>h. h = Some 200) (dvo_heads ep)" "dvo_stream ep = Inr [(line, Some EOF)]"
  shows "gatherDVOMetricsFromEndpoint remove ep True = Inr line"
proof -
  have "line \<noteq> []" using assms(2) by auto
  then have nl: "\<not> has_nl_suffix line" using assms(1) unfolding has_nl_suffix_def by (metis last_in_set)
  with \<open>line \<noteq> []\<close> have "ReadAllLinesWithPrefix [(line, Some EOF)] ''deployment_validation_operator_'' f = (line, Some EOF)" for f
    using assms(1,2)
    by (simp add: ReadAllLinesWithPrefix_def split_after_no_nl appendBufferIfLinePrefixed_def process_lines_def nl Let_def)
  with assms(3-5) show ?thesis by (simp add: gatherDVOMetricsFromEndpoint_def metricsServiceUp_def Let_def)
qed

text \<open>Failed endpoints are reported and do not keep the others from being recorded.\<close>

lemma dvo_errors_keep_record:
  "items \<noteq> [] \<Longrightarrow> \<exists>ls. fst (gatherDVOMetrics remove ep obf (Inr items)) = Some ls"
  by (simp add: gatherDVOMetrics_def split: prod.split)

end
