(* ===== verification/ClusterAnonymize.thy ===== *)
theory ClusterAnonymize
  imports ClusterCounts
begin

text \<open>
  Gatherers of pkg/gatherers/clusterconfig that mask fields of typed resources: nodes, the image registry and its
  storage, the infrastructure, the proxy, the cluster version, the installation configuration, the support secret and the
  webhook configurations; and the features of nodes, of which only listed attributes are recorded.

  The records hold the fields the code looks at; every other field of a resource is recorded as it was read.
\<close>

section \<open>Nodes\<close>

record node =
  nd_Name :: string
  nd_Annotations :: "(string, string) gomap"
  nd_Labels :: "(string, string) gomap"
  nd_BootID :: string
  nd_SystemUUID :: string
  nd_MachineID :: string
  nd_Images :: "string list"

definition isProductNamespacedKey :: "string \<Rightarrow> bool" where
  "isProductNamespacedKey key \<longleftrightarrow> contains_str ''openshift.io/'' key \<or> contains_str ''k8s.io/'' key \<or> contains_str ''kubernetes.io/'' key"

definition isRegionLabel :: "string \<Rightarrow> bool" where
  "isRegionLabel key \<longleftrightarrow> key = ''failure-domain.beta.kubernetes.io/region'' \<or> key = ''topology.kubernetes.io/region''"

definition anonymizeNode :: "node \<Rightarrow> node" where
  "anonymizeNode n =
     n\<lparr>nd_Annotations := map (\<lambda>(k, v). (k, if isProductNamespacedKey k then v else [])) (nd_Annotations n),
       nd_Labels := map (\<lambda>(k, v). (k, if isProductNamespacedKey k \<and> \<not> isRegionLabel k then v else anonymize_String v)) (nd_Labels n),
       nd_BootID := anonymize_String (nd_BootID n),
       nd_SystemUUID := anonymize_String (nd_SystemUUID n),
       nd_MachineID := anonymize_String (nd_MachineID n),
       nd_Images := []\<rparr>"

definition gatherNodes :: "node list result \<Rightarrow> (string \<times> node) list \<times> go_error list" where
  "gatherNodes nodes =
     (case nodes of Inl err \<Rightarrow> ([], [err]) | Inr items \<Rightarrow> (map (\<lambda>n. (''config/node/'' @ nd_Name n, anonymizeNode n)) items, []))"

section \<open>Image registry\<close>

record s3_storage =
  s3_Bucket :: string
  s3_KeyID :: string
  s3_RegionEndpoint :: string
  s3_Region :: string

record gcs_storage =
  gcs_Bucket :: string
  gcs_KeyID :: string
  gcs_ProjectID :: string
  gcs_Region :: string

record azure_storage =
  az_AccountName :: string
  az_Container :: string
  az_CloudName :: string

record swift_storage =
  sw_AuthURL :: string
  sw_Container :: string
  sw_Domain :: string
  sw_DomainID :: string
  sw_Tenant :: string
  sw_TenantID :: string
  sw_RegionName :: string

record ibmcos_storage =
  ic_Bucket :: string
  ic_ResourceKeyCRN :: string
  ic_ServiceInstanceCRN :: string
  ic_ResourceGroupName :: string
  ic_Location :: string

record registry_storage =
  rs_S3 :: "s3_storage option"
  rs_GCS :: "gcs_storage option"
  rs_Azure :: "azure_storage option"
  rs_Swift :: "swift_storage option"
  rs_IBMCOS :: "ibmcos_storage option"
  rs_PVC :: "string option"

record registry_config =
  rg_Name :: string
  rg_Annotations :: "(string, string) gomap"
  rg_HTTPSecret :: string
  rg_SpecStorage :: registry_storage
  rg_StatusStorage :: registry_storage

definition anonymizeS3Storage :: "s3_storage \<Rightarrow> s3_storage" where
  "anonymizeS3Storage s =
     \<lparr>s3_Bucket = anonymize_String (s3_Bucket s), s3_KeyID = anonymize_String (s3_KeyID s),
      s3_RegionEndpoint = anonymize_String (s3_RegionEndpoint s), s3_Region = anonymize_String (s3_Region s)\<rparr>"

definition anonymizeGCSStorage :: "gcs_storage \<Rightarrow> gcs_storage" where
  "anonymizeGCSStorage s =
     \<lparr>gcs_Bucket = anonymize_String (gcs_Bucket s), gcs_KeyID = anonymize_String (gcs_KeyID s),
      gcs_ProjectID = anonymize_String (gcs_ProjectID s), gcs_Region = anonymize_String (gcs_Region s)\<rparr>"

definition anonymizeAzureStorage :: "azure_storage \<Rightarrow> azure_storage" where
  "anonymizeAzureStorage s =
     \<lparr>az_AccountName = anonymize_String (az_AccountName s), az_Container = anonymize_String (az_Container s),
      az_CloudName = anonymize_String (az_CloudName s)\<rparr>"

definition anonymizeSwiftStorage :: "swift_storage \<Rightarrow> swift_storage" where
  "anonymizeSwiftStorage s =
     \<lparr>sw_AuthURL = anonymize_String (sw_AuthURL s), sw_Container = anonymize_String (sw_Container s),
      sw_Domain = anonymize_String (sw_Domain s), sw_DomainID = anonymize_String (sw_DomainID s),
      sw_Tenant = anonymize_String (sw_Tenant s), sw_TenantID = anonymize_String (sw_TenantID s),
      sw_RegionName = anonymize_String (sw_RegionName s)\<rparr>"

definition anonymizeIBMCOSStorage :: "ibmcos_storage \<Rightarrow> ibmcos_storage" where
  "anonymizeIBMCOSStorage s =
     \<lparr>ic_Bucket = anonymize_String (ic_Bucket s), ic_ResourceKeyCRN = anonymize_String (ic_ResourceKeyCRN s),
      ic_ServiceInstanceCRN = anonymize_String (ic_ServiceInstanceCRN s), ic_ResourceGroupName = anonymize_String (ic_ResourceGroupName s),
      ic_Location = anonymize_String (ic_Location s)\<rparr>"

text \<open>The same five steps for the storage of the specification and of the status.\<close>

definition anonymize_storage :: "registry_storage \<Rightarrow> registry_storage" where
  "anonymize_storage st =
     st\<lparr>rs_S3 := map_option anonymizeS3Storage (rs_S3 st), rs_Azure := map_option anonymizeAzureStorage (rs_Azure st),
        rs_GCS := map_option anonymizeGCSStorage (rs_GCS st), rs_Swift := map_option anonymizeSwiftStorage (rs_Swift st),
        rs_IBMCOS := map_option anonymizeIBMCOSStorage (rs_IBMCOS st)\<rparr>"

definition lacAnnotation :: string where
  "lacAnnotation = ''kubectl.kubernetes.io/last-applied-configuration''"

definition anonymizeImageRegistry :: "registry_config \<Rightarrow> registry_config" where
  "anonymizeImageRegistry config =
     config\<lparr>rg_HTTPSecret := anonymize_String (rg_HTTPSecret config),
            rg_SpecStorage := anonymize_storage (rg_SpecStorage config),
            rg_StatusStorage := anonymize_storage (rg_StatusStorage config),
            rg_Annotations := (case map_get (rg_Annotations config) lacAnnotation of
                                 None \<Rightarrow> rg_Annotations config
                               | Some lac \<Rightarrow> map_put lacAnnotation (anonymize_String lac) (rg_Annotations config))\<rparr>"

text \<open>Claims are their name and volume.\<close>

definition findPVByPVCName :: "(string \<times> string) list result \<Rightarrow> (string \<Rightarrow> 'v result) \<Rightarrow> string \<Rightarrow> (string \<times> 'v) result" where
  "findPVByPVCName pvcs getPV name =
     (case pvcs of
        Inl err \<Rightarrow> Inl err
      | Inr items \<Rightarrow>
          (case find (\<lambda>(n, v). n = name) items of
             None \<Rightarrow> Inl (Errorf (''can't find any '' @ name @ '' persistentvolumeclaim''))
           | Some (n, pvName) \<Rightarrow>
               (if n = [] then Inl (Errorf (''can't find any '' @ name @ '' persistentvolumeclaim''))
                else map_sum id (\<lambda>pv. (pvName, pv)) (getPV pvName))))"

datatype 'v registry_item = VolumeItem 'v | RegistryItem registry_config

text \<open>\<open>kinds\<close> is the answer of the scheme: groups and kinds; an empty list is a panic (\<open>None\<close>).\<close>

definition gatherClusterImageRegistry ::
  "(string \<times> string) list result \<Rightarrow> (string \<times> string) list result \<Rightarrow> (string \<Rightarrow> 'v result) \<Rightarrow> registry_config result \<Rightarrow>
   ((string \<times> 'v registry_item) list \<times> go_error list) option" where
  "gatherClusterImageRegistry kinds pvcs getPV config =
     (case config of
        Inl err \<Rightarrow> Some ([], if isNotFound err then [] else [err])
      | Inr cfg \<Rightarrow>
          (let pv = (case rs_PVC (rg_SpecStorage cfg) of
                       None \<Rightarrow> []
                     | Some claim \<Rightarrow>
                         (case findPVByPVCName pvcs getPV claim of
                            Inl _ \<Rightarrow> [] | Inr (n, v) \<Rightarrow> [(''config/persistentvolumes/'' @ n, VolumeItem v)]))
           in case kinds of
                Inl err \<Rightarrow> Some ([], [err])
              | Inr [] \<Rightarrow> None
              | Inr ((grp, kind) # _) \<Rightarrow>
                  Some (pv @ [(''config/clusteroperator/'' @ grp @ ''/'' @ map to_lower kind @ ''/'' @ rg_Name cfg,
                               RegistryItem (anonymizeImageRegistry cfg))], [])))"

definition gatherClusterImagePruner ::
  "(string \<times> string) list result \<Rightarrow> (string \<times> 'p) result \<Rightarrow> ((string \<times> 'p) list \<times> go_error list) option" where
  "gatherClusterImagePruner kinds pruner =
     (case pruner of
        Inl err \<Rightarrow> Some ([], if isNotFound err then [] else [err])
      | Inr (name, p) \<Rightarrow>
          (case kinds of
             Inl err \<Rightarrow> Some ([], [err])
           | Inr [] \<Rightarrow> None
           | Inr ((grp, kind) # _) \<Rightarrow>
               Some ([(''config/clusteroperator/'' @ grp @ ''/'' @ map to_lower kind @ ''/'' @ name, p)], [])))"

section \<open>Configuration of the cluster\<close>

text \<open>A resource that is read by its name: a missing one is no error.\<close>

definition single_record :: "string \<Rightarrow> ('a \<Rightarrow> 'b) \<Rightarrow> 'a result \<Rightarrow> (string \<times> 'b) list \<times> go_error list" where
  "single_record name f config =
     (case config of
        Inl err \<Rightarrow> ([], if isNotFound err then [] else [err])
      | Inr cfg \<Rightarrow> ([(name, f cfg)], []))"

definition gatherClusterAuthentication :: "'a result \<Rightarrow> (string \<times> 'a) list \<times> go_error list" where
  "gatherClusterAuthentication config = single_record ''config/authentication'' id config"

definition gatherClusterFeatureGates :: "'a result \<Rightarrow> (string \<times> 'a) list \<times> go_error list" where
  "gatherClusterFeatureGates config = single_record ''config/featuregate'' id config"

definition gatherClusterImage :: "'a result \<Rightarrow> (string \<times> 'a) list \<times> go_error list" where
  "gatherClusterImage config = single_record ''config/image'' id config"

definition gatherClusterIngress :: "'a result \<Rightarrow> (string \<times> 'a) list \<times> go_error list" where
  "gatherClusterIngress config = single_record ''config/ingress'' id config"

definition gatherClusterNetwork :: "'a result \<Rightarrow> (string \<times> 'a) list \<times> go_error list" where
  "gatherClusterNetwork config = single_record ''config/network'' id config"

definition gatherClusterOAuth :: "'a result \<Rightarrow> (string \<times> 'a) list \<times> go_error list" where
  "gatherClusterOAuth config = single_record ''config/oauth'' id config"

definition gather_clusterAPIServer :: "'a result \<Rightarrow> (string \<times> 'a) list \<times> go_error list" where
  "gather_clusterAPIServer server = single_record ''config/apiserver'' id server"

record infrastructure =
  inf_InfrastructureName :: string
  inf_AWS_Region :: "string option"
  inf_Azure_CloudName :: "string option"
  inf_GCP :: "(string \<times> string) option"
  inf_IBMCloud_Location :: "string option"
  inf_OpenStack_CloudName :: "string option"

text \<open>
  The platforms are \<open>None\<close> when their pointer is nil; the status of the platform is a pointer too and is dereferenced, so
  the whole is \<open>None\<close>, a panic, without it.
\<close>

definition anonymizeInfrastructure :: "(infrastructure \<times> bool) \<Rightarrow> infrastructure option" where
  "anonymizeInfrastructure c =
     (case c of (config, platformStatus) \<Rightarrow>
        if \<not> platformStatus then None
        else Some (config\<lparr>inf_InfrastructureName := anonymize_URL (inf_InfrastructureName config),
                          inf_AWS_Region := map_option anonymize_String (inf_AWS_Region config),
                          inf_Azure_CloudName := map_option anonymize_String (inf_Azure_CloudName config),
                          inf_GCP := map_option (\<lambda>(region, projectID). (anonymize_String region, anonymize_String projectID)) (inf_GCP config),
                          inf_IBMCloud_Location := map_option anonymize_String (inf_IBMCloud_Location config),
                          inf_OpenStack_CloudName := map_option anonymize_String (inf_OpenStack_CloudName config)\<rparr>))"

definition gatherClusterInfrastructure :: "(infrastructure \<times> bool) result \<Rightarrow> ((string \<times> infrastructure) list \<times> go_error list) option" where
  "gatherClusterInfrastructure config =
     (case config of
        Inl err \<Rightarrow> Some ([], if isNotFound err then [] else [err])
      | Inr cfg \<Rightarrow> map_option (\<lambda>c. ([(''config/infrastructure'', c)], [])) (anonymizeInfrastructure cfg))"

record proxy_config =
  px_SpecHTTPProxy :: string
  px_SpecHTTPSProxy :: string
  px_SpecNoProxy :: string
  px_ReadinessEndpoints :: "string list"
  px_StatusHTTPProxy :: string
  px_StatusHTTPSProxy :: string
  px_StatusNoProxy :: string

definition anonymizeProxy :: "proxy_config \<Rightarrow> proxy_config" where
  "anonymizeProxy proxy =
     \<lparr>px_SpecHTTPProxy = anonymize_URLCSV (px_SpecHTTPProxy proxy), px_SpecHTTPSProxy = anonymize_URLCSV (px_SpecHTTPSProxy proxy),
      px_SpecNoProxy = anonymize_URLCSV (px_SpecNoProxy proxy), px_ReadinessEndpoints = anonymize_URLSlice (px_ReadinessEndpoints proxy),
      px_StatusHTTPProxy = anonymize_URLCSV (px_StatusHTTPProxy proxy), px_StatusHTTPSProxy = anonymize_URLCSV (px_StatusHTTPSProxy proxy),
      px_StatusNoProxy = anonymize_URLCSV (px_StatusNoProxy proxy)\<rparr>"

definition gatherClusterProxy :: "proxy_config result \<Rightarrow> (string \<times> proxy_config) list \<times> go_error list" where
  "gatherClusterProxy config = single_record ''config/proxy'' anonymizeProxy config"

definition secret_keys :: "string list" where
  "secret_keys = [''username'', ''password'', ''httpProxy'', ''httpsProxy'', ''noProxy'']"

definition anonymize_secret_key :: "string \<Rightarrow> (string, string) gomap \<Rightarrow> (string, string) gomap" where
  "anonymize_secret_key key data =
     (case map_get data key of None \<Rightarrow> data | Some v \<Rightarrow> map_put key (anonymize_String v) data)"

definition anonymizeSecretData :: "(string, string) gomap \<Rightarrow> (string, string) gomap" where
  "anonymizeSecretData data = fold anonymize_secret_key secret_keys data"

definition gatherSupportSecret :: "(string, string) gomap result \<Rightarrow> (string \<times> (string, string) gomap) list \<times> go_error list" where
  "gatherSupportSecret supportSecret =
     (case supportSecret of
        Inl err \<Rightarrow> ([], [err])
      | Inr data \<Rightarrow> ([(''config/secrets/openshift-config/support/data'', anonymizeSecretData data)], []))"

section \<open>The installation configuration\<close>

record fencing_credential =
  fc_HostName :: string
  fc_Username :: string
  fc_Password :: string
  fc_Address :: string

record gcp_platform =
  gp_Region :: string
  gp_ProjectID :: string
  gp_PrivateZoneProject :: "string option"

record install_config =
  in_SSHKey :: string
  in_PullSecret :: string
  in_BaseDomain :: string
  in_ControlPlane :: "fencing_credential option list option"
  in_Arbiter :: "fencing_credential option list option"
  in_Compute :: "fencing_credential option list option list"
  in_AWS_Region :: "string option"
  in_Azure_Region :: "string option"
  in_BareMetal :: "(string \<times> string \<times> string) list option"
  in_GCP :: "gcp_platform option"
  in_VSphere :: "(string list \<times> (string \<times> string) list) option"
  in_OpenStack_Cloud :: "string option"

text \<open>
  The credentials of a pool: \<open>None\<close> when the pool or its fencing is nil, and \<open>None\<close> for a nil credential.  The hosts of a bare metal
  platform are user, password and address; a vSphere platform is its datacenters and the users and passwords of its vCenters.
\<close>

definition anonymizeFencing :: "fencing_credential option list option \<Rightarrow> fencing_credential option list option" where
  "anonymizeFencing fencing =
     map_option (map (map_option (\<lambda>cred.
       \<lparr>fc_HostName = anonymize_String (fc_HostName cred), fc_Username = anonymize_String (fc_Username cred),
        fc_Password = anonymize_String (fc_Password cred), fc_Address = anonymize_String (fc_Address cred)\<rparr>))) fencing"

definition anonymizeVSphere :: "string list \<times> (string \<times> string) list \<Rightarrow> string list \<times> (string \<times> string) list" where
  "anonymizeVSphere p = (map anonymize_String (fst p), map (\<lambda>(user, password). (anonymize_String user, anonymize_String password)) (snd p))"

definition anonymizeGCPConfig :: "gcp_platform \<Rightarrow> gcp_platform" where
  "anonymizeGCPConfig p =
     \<lparr>gp_Region = anonymize_String (gp_Region p), gp_ProjectID = anonymize_String (gp_ProjectID p),
      gp_PrivateZoneProject = map_option anonymize_String (gp_PrivateZoneProject p)\<rparr>"

definition anonymizeInstallConfig :: "install_config \<Rightarrow> install_config" where
  "anonymizeInstallConfig c =
     \<lparr>in_SSHKey = anonymize_String (in_SSHKey c), in_PullSecret = anonymize_String (in_PullSecret c),
      in_BaseDomain = anonymize_String (in_BaseDomain c),
      in_ControlPlane = anonymizeFencing (in_ControlPlane c), in_Arbiter = anonymizeFencing (in_Arbiter c),
      in_Compute = map anonymizeFencing (in_Compute c),
      in_AWS_Region = map_option anonymize_String (in_AWS_Region c), in_Azure_Region = map_option anonymize_String (in_Azure_Region c),
      in_BareMetal = map_option (map (\<lambda>(user, password, address).
        (anonymize_String user, anonymize_String password, anonymize_String address))) (in_BareMetal c),
      in_GCP = map_option anonymizeGCPConfig (in_GCP c), in_VSphere = map_option anonymizeVSphere (in_VSphere c),
      in_OpenStack_Cloud = map_option anonymize_String (in_OpenStack_Cloud c)\<rparr>"

definition gatherClusterConfigV1 ::
  "(string \<Rightarrow> install_config result) \<Rightarrow> (install_config \<Rightarrow> string result) \<Rightarrow> (string \<times> string \<times> (string, string) gomap) result \<Rightarrow>
   (string \<times> string) list \<times> go_error list" where
  "gatherClusterConfigV1 unmarshal marshal configMap =
     (case configMap of
        Inl err \<Rightarrow> ([], [err])
      | Inr (ns, name, data) \<Rightarrow>
          (case (case map_get data ''install-config'' of
                   None \<Rightarrow> Inr []
                 | Some str \<Rightarrow> (case unmarshal str of Inl err \<Rightarrow> Inl err | Inr c \<Rightarrow> marshal (anonymizeInstallConfig c))) of
             Inl err \<Rightarrow> ([], [err])
           | Inr installConfigBytes \<Rightarrow> ([(''config/configmaps/'' @ ns @ ''/'' @ name @ ''/install-config'', installConfigBytes)], [])))"

section \<open>The cluster version\<close>

record cluster_version =
  cv_ClusterID :: string
  cv_Upstream :: string

definition anonymizeClusterVersion :: "cluster_version \<Rightarrow> cluster_version" where
  "anonymizeClusterVersion version = version\<lparr>cv_Upstream := anonymize_URL (cv_Upstream version)\<rparr>"

datatype version_item = VersionItem cluster_version | ClusterIDItem string | OpItem op_item

definition getClusterVersion ::
  "op_client \<Rightarrow> op_pod list result \<Rightarrow> duration \<Rightarrow> cluster_version result \<Rightarrow> (string \<times> version_item) list \<times> go_error list" where
  "getClusterVersion client pods interval config =
     (case config of
        Inl err \<Rightarrow> ([], if isNotFound err then [] else [err])
      | Inr version \<Rightarrow>
          (let records = [(''config/version'', VersionItem (anonymizeClusterVersion version))] @
                 (if cv_ClusterID version \<noteq> [] then [(''config/id'', ClusterIDItem (cv_ClusterID version))] else [])
           in case pods of
                Inl _ \<Rightarrow> (records, [])
              | Inr items \<Rightarrow>
                  (let records = records @
                         map (\<lambda>pod. (''config/pod/'' @ opp_Namespace pod @ ''/'' @ opp_Name pod, OpItem (PodItem (anonymize_pod pod)))) items;
                       unhealthyPods = filter (\<lambda>pod. \<not> IsHealthyPod (pod.truncate pod) (ocl_now client)) items
                   in if unhealthyPods = [] then (records, [])
                      else (case gatherNamespaceEvents client ''openshift-cluster-version'' interval of
                              Inl _ \<Rightarrow> (records, [])
                            | Inr namespaceRecords \<Rightarrow> (records @ map (\<lambda>(n, i). (n, OpItem i)) namespaceRecords, [])))))"

section \<open>Webhooks, node features and plain lists\<close>

record webhook_configuration =
  wh_Name :: string
  wh_CABundles :: "string list"

definition anonymizeValidatingWebhookConfiguration :: "webhook_configuration \<Rightarrow> webhook_configuration" where
  "anonymizeValidatingWebhookConfiguration c = c\<lparr>wh_CABundles := map anonymize_String (wh_CABundles c)\<rparr>"

definition anonymizeMutatingWebhookConfiguration :: "webhook_configuration \<Rightarrow> webhook_configuration" where
  "anonymizeMutatingWebhookConfiguration c = c\<lparr>wh_CABundles := map anonymize_String (wh_CABundles c)\<rparr>"

definition list_or_error :: "('a \<Rightarrow> string \<times> 'b) \<Rightarrow> 'a list result \<Rightarrow> (string \<times> 'b) list \<times> go_error list" where
  "list_or_error f listing = (case listing of Inl err \<Rightarrow> ([], [err]) | Inr items \<Rightarrow> (map f items, []))"

definition gatherValidatingWebhookConfigurations :: "webhook_configuration list result \<Rightarrow> (string \<times> webhook_configuration) list \<times> go_error list" where
  "gatherValidatingWebhookConfigurations listing =
     list_or_error (\<lambda>c. (''config/validatingwebhookconfigurations/'' @ wh_Name c, anonymizeValidatingWebhookConfiguration c)) listing"

definition gatherMutatingWebhookConfigurations :: "webhook_configuration list result \<Rightarrow> (string \<times> webhook_configuration) list \<times> go_error list" where
  "gatherMutatingWebhookConfigurations listing =
     list_or_error (\<lambda>c. (''config/mutatingwebhookconfigurations/'' @ wh_Name c, anonymizeMutatingWebhookConfiguration c)) listing"

text \<open>Objects are their names and contents.\<close>

definition gatherSchedulerInfo :: "(string \<times> 'a) list result \<Rightarrow> (string \<times> 'a) list \<times> go_error list" where
  "gatherSchedulerInfo listing = list_or_error (\<lambda>(n, obj). (''config/schedulers/'' @ n, obj)) listing"

definition listStorageClasses :: "(string \<times> 'a) list result \<Rightarrow> (string \<times> 'a) list result" where
  "listStorageClasses listing = (case listing of Inl err \<Rightarrow> Inl err | Inr items \<Rightarrow> Inr items)"

definition gatherStorageClasses :: "(string \<times> 'a) list result \<Rightarrow> (string \<times> 'a) list \<times> go_error list" where
  "gatherStorageClasses listing = list_or_error (\<lambda>(n, obj). (''config/storage/storageclasses/'' @ n, obj)) (listStorageClasses listing)"

text \<open>Answers of the monitoring services, recorded as they are.\<close>

definition raw_record :: "string \<Rightarrow> string result \<Rightarrow> (string \<times> string) list \<times> go_error list" where
  "raw_record name answer = (case answer of Inl err \<Rightarrow> ([], [err]) | Inr data \<Rightarrow> ([(name, data)], []))"

definition gatherSilencedAlerts :: "string result \<Rightarrow> (string \<times> string) list \<times> go_error list" where
  "gatherSilencedAlerts answer = raw_record ''config/silenced_alerts.json'' answer"

definition gatherPrometheusTSDBStatus :: "string result \<Rightarrow> (string \<times> string) list \<times> go_error list" where
  "gatherPrometheusTSDBStatus answer = raw_record ''config/tsdb.json'' answer"

definition gatherMostRecentMetrics :: "string result \<Rightarrow> (string \<times> string) list \<times> go_error list" where
  "gatherMostRecentMetrics answer = raw_record ''config/metrics'' answer"

definition allowedAttributesFields :: "string list" where
  "allowedAttributesFields = [''cpu.topology'', ''system.dmiid'']"

text \<open>The features are the attribute sets by name.\<close>

definition filterNodeFeatureSpec :: "(string, 'f) gomap \<Rightarrow> (string, 'f) gomap" where
  "filterNodeFeatureSpec attributes =
     fold (\<lambda>key m. case map_get attributes key of None \<Rightarrow> m | Some v \<Rightarrow> map_put key v m) allowedAttributesFields []"

text \<open>\<open>decode\<close> is the way of an object through JSON into its type: name and attributes, or an error that leaves the object out.\<close>

definition getNodeFeaturesData ::
  "('o \<Rightarrow> (string \<times> (string, 'f) gomap) result) \<Rightarrow> 'o list result \<Rightarrow> (string \<times> (string, 'f) gomap) list result" where
  "getNodeFeaturesData decode nodeFeaturesList =
     (case nodeFeaturesList of
        Inl err \<Rightarrow> if isNotFound err then Inr [] else Inl err
      | Inr items \<Rightarrow>
          Inr (concat (map (\<lambda>obj. case decode obj of
                              Inl _ \<Rightarrow> []
                            | Inr (name, attributes) \<Rightarrow> [(''namespaces/openshift-nfd/customresources/'' @ name, filterNodeFeatureSpec attributes)]) items)))"

definition gatherNodeFeatures ::
  "('o \<Rightarrow> (string \<times> (string, 'f) gomap) result) \<Rightarrow> 'o list result \<Rightarrow> (string \<times> (string, 'f) gomap) list \<times> go_error list" where
  "gatherNodeFeatures decode nodeFeaturesList =
     (case getNodeFeaturesData decode nodeFeaturesList of Inl err \<Rightarrow> ([], [err]) | Inr records \<Rightarrow> (records, []))"

section \<open>What is masked\<close>

text \<open>A text of which only the length is left.\<close>

definition hidden :: "string \<Rightarrow> bool" where
  "hidden s \<longleftrightarrow> set s \<subseteq> {CHR ''x''}"

lemma anonymize_hidden [simp]: "hidden (anonymize_String s)"
  by (auto simp: hidden_def anonymize_String_def)

text \<open>A recorded node shows no value of an annotation or label that is not of the product, nor of its region, and none of its identifiers.\<close>

theorem nodes_masked:
  assumes "(name, n) \<in> set (fst (gatherNodes (Inr items)))"
  shows "map_get (nd_Annotations n) k = Some v \<Longrightarrow> \<not> isProductNamespacedKey k \<Longrightarrow> v = []"
    and "map_get (nd_Labels n) k = Some v \<Longrightarrow> \<not> isProductNamespacedKey k \<or> isRegionLabel k \<Longrightarrow> hidden v"
    and "hidden (nd_BootID n) \<and> hidden (nd_SystemUUID n) \<and> hidden (nd_MachineID n) \<and> nd_Images n = []"
proof -
  from assms obtain i where n: "n = anonymizeNode i" by (auto simp: gatherNodes_def)
  show "map_get (nd_Annotations n) k = Some v \<Longrightarrow> \<not> isProductNamespacedKey k \<Longrightarrow> v = []"
    by (auto simp: n anonymizeNode_def map_of_map_values split: if_splits)
  show "map_get (nd_Labels n) k = Some v \<Longrightarrow> \<not> isProductNamespacedKey k \<or> isRegionLabel k \<Longrightarrow> hidden v"
    by (auto simp: n anonymizeNode_def map_of_map_values)
  show "hidden (nd_BootID n) \<and> hidden (nd_SystemUUID n) \<and> hidden (nd_MachineID n) \<and> nd_Images n = []"
    by (simp add: n anonymizeNode_def)
qed

text \<open>The product's keys are recognised anywhere in a key, so a foreign domain that ends like one of them is kept as well.\<close>

lemma foreign_domain_kept: "isProductNamespacedKey ''my-openshift.io/secret''"
  by code_simp

definition storage_hidden :: "registry_storage \<Rightarrow> bool" where
  "storage_hidden st \<longleftrightarrow>
     (case rs_S3 st of None \<Rightarrow> True | Some s \<Rightarrow> list_all hidden [s3_Bucket s, s3_KeyID s, s3_RegionEndpoint s, s3_Region s]) \<and>
     (case rs_GCS st of None \<Rightarrow> True | Some s \<Rightarrow> list_all hidden [gcs_Bucket s, gcs_KeyID s, gcs_ProjectID s, gcs_Region s]) \<and>
     (case rs_Azure st of None \<Rightarrow> True | Some s \<Rightarrow> list_all hidden [az_AccountName s, az_Container s, az_CloudName s]) \<and>
     (case rs_Swift st of None \<Rightarrow> True | Some s \<Rightarrow>
        list_all hidden [sw_AuthURL s, sw_Container s, sw_Domain s, sw_DomainID s, sw_Tenant s, sw_TenantID s, sw_RegionName s]) \<and>
     (case rs_IBMCOS st of None \<Rightarrow> True | Some s \<Rightarrow>
        list_all hidden [ic_Bucket s, ic_ResourceKeyCRN s, ic_ServiceInstanceCRN s, ic_ResourceGroupName s, ic_Location s])"

lemma storage_masked: "storage_hidden (anonymize_storage st)"
  by (simp add: storage_hidden_def anonymize_storage_def anonymizeS3Storage_def anonymizeGCSStorage_def anonymizeAzureStorage_def
      anonymizeSwiftStorage_def anonymizeIBMCOSStorage_def split: option.split)

text \<open>
  A recorded configuration of the image registry hides its secret, the storage of specification and status, and the last applied configuration.
\<close>

theorem registry_masked:
  assumes "gatherClusterImageRegistry kinds pvcs getPV config = Some (records, errs)" "(name, RegistryItem c) \<in> set records"
  shows "hidden (rg_HTTPSecret c) \<and> storage_hidden (rg_SpecStorage c) \<and> storage_hidden (rg_StatusStorage c) \<and>
    (\<forall>v. map_get (rg_Annotations c) lacAnnotation = Some v \<longrightarrow> hidden v)"
proof -
  from assms obtain cfg where c: "c = anonymizeImageRegistry cfg"
    by (auto simp: gatherClusterImageRegistry_def Let_def split: sum.splits list.splits option.splits prod.splits)
  show ?thesis by (auto simp: c anonymizeImageRegistry_def storage_masked split: option.splits)
qed

lemma secret_key_get:
  "map_get (anonymize_secret_key key data) k = (if k = key then map_option anonymize_String (map_get data k) else map_get data k)"
  by (auto simp: anonymize_secret_key_def split: option.split)

text \<open>Of the support secret the credentials and the proxies are masked, and nothing else.\<close>

theorem secret_masked:
  "map_get (anonymizeSecretData data) k = (if k \<in> set secret_keys then map_option anonymize_String (map_get data k) else map_get data k)"
proof -
  have "map_get (fold anonymize_secret_key ks data) k = (if k \<in> set ks then map_option anonymize_String (map_get data k) else map_get data k)"
    if "distinct ks" for ks
    using that by (induction ks arbitrary: data) (auto simp: secret_key_get)
  moreover have "distinct secret_keys" by (simp add: secret_keys_def)
  ultimately show ?thesis unfolding anonymizeSecretData_def by blast
qed

text \<open>Of the features of a node only the listed attributes are recorded, unchanged.\<close>

lemma features_filtered: "map_get (filterNodeFeatureSpec attributes) k = (if k \<in> set allowedAttributesFields then map_get attributes k else None)"
  by (simp add: filterNodeFeatureSpec_def allowedAttributesFields_def split: option.split)

text \<open>Without a platform status, which is a pointer, the infrastructure cannot be recorded.\<close>

lemma infrastructure_panics: "gatherClusterInfrastructure (Inr (config, False)) = None"
  by (simp add: gatherClusterInfrastructure_def anonymizeInfrastructure_def)

definition credentials_hidden :: "fencing_credential option list option \<Rightarrow> bool" where
  "credentials_hidden f =
     (case f of None \<Rightarrow> True | Some cs \<Rightarrow> list_all (\<lambda>c. case c of None \<Rightarrow> True
        | Some cr \<Rightarrow> list_all hidden [fc_HostName cr, fc_Username cr, fc_Password cr, fc_Address cr]) cs)"

lemma fencing_masked: "credentials_hidden (anonymizeFencing f)"
  by (auto simp: credentials_hidden_def anonymizeFencing_def list_all_iff split: option.splits)

text \<open>What is encoded of the installation configuration hides its secrets and all credentials.\<close>

theorem install_config_masked:
  fixes c :: install_config
  defines "m \<equiv> anonymizeInstallConfig c"
  shows "hidden (in_SSHKey m) \<and> hidden (in_PullSecret m) \<and> hidden (in_BaseDomain m) \<and>
    credentials_hidden (in_ControlPlane m) \<and> credentials_hidden (in_Arbiter m) \<and> list_all credentials_hidden (in_Compute m) \<and>
    (\<forall>hosts. in_BareMetal m = Some hosts \<longrightarrow> list_all (\<lambda>(u, p, a). hidden u \<and> hidden p \<and> hidden a) hosts) \<and>
    (\<forall>dcs vcs. in_VSphere m = Some (dcs, vcs) \<longrightarrow> list_all hidden dcs \<and> list_all (\<lambda>(u, p). hidden u \<and> hidden p) vcs)"
  unfolding m_def by (auto simp: anonymizeInstallConfig_def fencing_masked anonymizeVSphere_def list_all_iff)

section \<open>The gatherer\<close>

text \<open>The names of the gathering functions; \<open>run\<close> gives the function of a name, bound to the gatherer.\<close>

definition gatheringFunctions :: "string list" where
  "gatheringFunctions =
     [''active_alerts'', ''alertmanager_config'', ''aggregated_monitoring_cr_names'', ''authentication'',
      ''certificate_signing_requests'', ''ceph_cluster'', ''cluster_apiserver'', ''clusterroles'',
      ''config_maps'', ''container_images'', ''container_runtime_configs'', ''control_plane_machine_sets'',
      ''cost_management_metrics_configs'', ''crds'', ''dvo_metrics'', ''feature_gates'',
      ''image'', ''image_pruners'', ''image_registries'', ''infrastructures'',
      ''ingress'', ''ingress_certificates'', ''install_plans'', ''jaegers'',
      ''kubeletconfigs'', ''lokistack'', ''machine_autoscalers'', ''machine_config_pools'',
      ''machine_configs'', ''machine_healthchecks'', ''machine_sets'', ''machines'',
      ''metrics'', ''monitoring_persistent_volumes'', ''mutating_webhook_configurations'', ''networks'',
      ''node_logs'', ''node_features'', ''nodes'', ''nodenetworkconfigurationpolicies'',
      ''nodenetworkstates'', ''number_of_pods_and_netnamespaces_with_sdn_annotations'', ''oauths'', ''olm_operators'',
      ''openshift_logging'', ''openshift_machine_api_events'', ''openstack_controlplanes'', ''openstack_dataplanedeployments'',
      ''openstack_dataplanenodesets'', ''openstack_version'', ''opentelemetry_collectors'', ''operators'',
      ''operators_pods_and_events'', ''overlapping_namespace_uids'', ''pdbs'', ''pod_network_connectivity_checks'',
      ''proxies'', ''qemu_kubevirt_launcher_logs'', ''revisioned_objects'', ''sap_config'',
      ''sap_datahubs'', ''sap_pods'', ''schedulers'', ''service_accounts'',
      ''silenced_alerts'', ''storage_classes'', ''storage_cluster'', ''subscriptions'',
      ''support_secret'', ''tsdb_status'', ''validating_webhook_configurations'', ''version'']"

definition clusterconfig_GetGatheringFunctions :: "(string \<Rightarrow> 'f) \<Rightarrow> (string, 'f) gomap" where
  "clusterconfig_GetGatheringFunctions run = fold (\<lambda>name m. map_put name (run name) m) gatheringFunctions []"

lemma functions_distinct: "distinct gatheringFunctions"
  by (simp add: gatheringFunctions_def)

lemma functions_fold_get: "map_get (fold (\<lambda>n m. map_put n (f n) m) ns m) k = (if k \<in> set ns then Some (f k) else map_get m k)"
  by (induction ns arbitrary: m) auto

text \<open>Every name has its own function: no closure captures the function of another name.\<close>

lemma functions_bound: "map_get (clusterconfig_GetGatheringFunctions run) k = (if k \<in> set gatheringFunctions then Some (run k) else None)"
  by (simp add: clusterconfig_GetGatheringFunctions_def functions_fold_get del: fold.simps)

end
