(* ===== verification/ConfigMaps.thy ===== *)
theory ConfigMaps
  imports ClusterData ClusterAnonymize
begin

text \<open>
  The config maps of the archive as \<open>GatherConfigMaps\<close> composes them (pkg/gatherers/clusterconfig/gather_config_maps.go): the maps of
  openshift-config with their certificates removed and binary values encoded, single maps as JSON, the configuration of the operator
  itself with its proxies masked, and the installation configuration.  The standard base64 encoding is defined and proved to be reversible.
\<close>

section \<open>Standard base64\<close>

definition std_alphabet :: string where
  "std_alphabet = ''ABCDEFGHIJKLMNOPQRSTUVWXYZabcdefghijklmnopqrstuvwxyz0123456789+/''"

definition std_char :: "nat \<Rightarrow> char" where "std_char n = std_alphabet ! (n mod 64)"

fun std_encode :: "bytes \<Rightarrow> string" where
  "std_encode (a # b # c # rest) =
     (let n = of_char a * 65536 + of_char b * 256 + of_char c
      in std_char (n div 262144) # std_char (n div 4096) # std_char (n div 64) # std_char n # std_encode rest)"
| "std_encode [a, b] =
     (let n = of_char a * 65536 + of_char b * 256
      in [std_char (n div 262144), std_char (n div 4096), std_char (n div 64), CHR ''=''])"
| "std_encode [a] =
     (let n = of_char a * 65536 in [std_char (n div 262144), std_char (n div 4096), CHR ''='', CHR ''=''])"
| "std_encode [] = []"

text \<open>The decoding, for what the encoding keeps.\<close>

definition std_value :: "char \<Rightarrow> nat" where "std_value c = length (takeWhile (\<lambda>d. d \<noteq> c) std_alphabet)"

fun std_decode :: "string \<Rightarrow> bytes" where
  "std_decode (w # x # y # z # rest) =
     (let n = std_value w * 262144 + std_value x * 4096 + (if y = CHR ''='' then 0 else std_value y * 64) +
              (if z = CHR ''='' then 0 else std_value z)
      in take (if y = CHR ''='' then 1 else if z = CHR ''='' then 2 else 3)
           [char_of (n div 65536), char_of (n div 256 mod 256), char_of (n mod 256)] @ std_decode rest)"
| "std_decode _ = []"

lemma std_values: "\<forall>n < 64. std_value (std_alphabet ! n) = n \<and> std_alphabet ! n \<noteq> CHR ''=''"
  by code_simp

lemma std_value_char [simp]: "std_value (std_char n) = n mod 64" "std_char n \<noteq> CHR ''=''"
  using std_values by (simp_all add: std_char_def)

lemma sextets:
  fixes n :: nat
  assumes "n < 16777216"
  shows "n div 262144 * 262144 + n div 4096 mod 64 * 4096 + n div 64 mod 64 * 64 + n mod 64 = n" "n div 262144 mod 64 = n div 262144"
proof -
  have "n div 4096 = n div 64 div 64" "n div 262144 = n div 4096 div 64" by (simp_all flip: div_mult2_eq)
  then have "n div 64 = n div 4096 * 64 + n div 64 mod 64" "n div 4096 = n div 262144 * 64 + n div 4096 mod 64" by simp_all
  moreover have "n = n div 64 * 64 + n mod 64" by simp
  ultimately show "n div 262144 * 262144 + n div 4096 mod 64 * 4096 + n div 64 mod 64 * 64 + n mod 64 = n" by linarith
  show "n div 262144 mod 64 = n div 262144" using assms by simp
qed

lemma octets:
  fixes a b c :: nat
  assumes "a < 256" "b < 256" "c < 256"
  shows "(a * 65536 + b * 256 + c) div 65536 = a" "(a * 65536 + b * 256 + c) div 256 mod 256 = b" "(a * 65536 + b * 256 + c) mod 256 = c"
    "(a * 65536 + b * 256) div 65536 = a" "(a * 65536 + b * 256) div 256 mod 256 = b"
proof -
  have e: "a * 65536 + b * 256 + c = c + (b + a * 256) * 256" by simp
  have d: "(c + x * 256) div 256 = x" for x using assms by simp
  have m: "(y + x * 256) mod 256 = y mod 256" for x y :: nat by simp
  show "(a * 65536 + b * 256 + c) div 256 mod 256 = b" "(a * 65536 + b * 256 + c) mod 256 = c"
    unfolding e d m using m [of b a] assms by simp_all
qed (use assms in simp_all)

lemma of_char_bound: "(of_char c :: nat) < 256"
  by (metis nat_of_char_less_256)

lemma std_decode_encode: "std_decode (std_encode s) = s"
proof (induction s rule: std_encode.induct)
  case (1 a b c rest)
  define n :: nat where "n = of_char a * 65536 + of_char b * 256 + of_char c"
  have "n < 16777216" using of_char_bound [of a] of_char_bound [of b] of_char_bound [of c] unfolding n_def by linarith
  note s = sextets [OF this]
  have "n div 65536 = of_char a" "n div 256 mod 256 = of_char b" "n mod 256 = of_char c"
    unfolding n_def by (rule octets; rule of_char_bound)+
  then have "char_of (n div 65536) = a" "char_of (n div 256) = b" "char_of n = c"
    by (metis char_of_mod_256 char_of_char)+
  with 1 s show ?case by (simp add: Let_def flip: n_def)
next
  case (2 a b)
  define n :: nat where "n = of_char a * 65536 + of_char b * 256"
  have "n < 16777216" using of_char_bound [of a] of_char_bound [of b] unfolding n_def by linarith
  moreover have "n = (of_char a * 1024 + of_char b * 4) * 64" by (simp add: n_def)
  then have "n mod 64 = 0" by simp
  ultimately have s: "n div 262144 mod 64 = n div 262144" "n div 262144 * 262144 + n div 4096 mod 64 * 4096 + n div 64 mod 64 * 64 = n"
    using sextets [of n] by auto
  have "n div 65536 = of_char a" "n div 256 mod 256 = of_char b"
    unfolding n_def by (rule octets(4) [OF of_char_bound of_char_bound of_char_bound]) (rule octets(5) [OF of_char_bound of_char_bound of_char_bound])
  then have "char_of (n div 65536) = a" "char_of (n div 256) = b" by (metis char_of_mod_256 char_of_char)+
  with s show ?case by (simp add: Let_def flip: n_def)
next
  case (3 a)
  define n :: nat where "n = of_char a * 65536"
  have "n < 16777216" using of_char_bound [of a] unfolding n_def by linarith
  moreover have e: "n = (of_char a * 16) * 64 * 64" by (simp add: n_def)
  have "n mod 64 = 0" "n div 64 mod 64 = 0" by (simp_all only: e) simp_all
  ultimately have s: "n div 262144 mod 64 = n div 262144" "n div 262144 * 262144 + n div 4096 mod 64 * 4096 = n"
    using sextets [of n] by auto
  have "n div 65536 = of_char a" by (simp add: n_def)
  with s show ?case by (simp add: Let_def flip: n_def)
qed simp

section \<open>Gathering the config maps\<close>

text \<open>The anonymiser of a value; \<open>decode\<close> is \<open>pem.Decode\<close>.\<close>

definition ConfigMapAnonymizer_Marshal :: "(bytes \<Rightarrow> (bytes \<times> bytes) option) \<Rightarrow> bytes \<Rightarrow> bool \<Rightarrow> bytes option" where
  "ConfigMapAnonymizer_Marshal decode v encodeBase64 =
     (case anonymizeConfigMap decode v of None \<Rightarrow> None | Some c \<Rightarrow> Some (if encodeBase64 then std_encode c else c))"

definition anonymizeInsightsConfig :: "InsightsConfigurationSerialized \<Rightarrow> InsightsConfigurationSerialized" where
  "anonymizeInsightsConfig conf =
     conf\<lparr>ics_Proxy := \<lparr>px_HTTPProxy = anonymize_String (px_HTTPProxy (ics_Proxy conf)),
            px_HTTPSProxy = anonymize_String (px_HTTPSProxy (ics_Proxy conf)), px_NoProxy = anonymize_String (px_NoProxy (ics_Proxy conf))\<rparr>\<rparr>"

definition gatherInsightsConfigCM ::
  "(string \<Rightarrow> InsightsConfigurationSerialized result) \<Rightarrow> config_map result \<Rightarrow>
   (string \<times> InsightsConfigurationSerialized) list \<times> go_error list" where
  "gatherInsightsConfigCM unmarshal cm =
     (case cm of
        Inl err \<Rightarrow> ([], [err])
      | Inr cm \<Rightarrow>
          (case unmarshal (case map_get (cmp_Data cm) ''config.yaml'' of None \<Rightarrow> [] | Some cfg \<Rightarrow> cfg) of
             Inl err \<Rightarrow> ([], [err])
           | Inr insightsConfig \<Rightarrow>
               ([(''config/configmaps/'' @ cmp_Namespace cm @ ''/'' @ cmp_Name cm @ ''/config'', anonymizeInsightsConfig insightsConfig)], [])))"

datatype config_item = MapValue bytes bool | RawJSON bytes | InsightsItem InsightsConfigurationSerialized | InstallItem string

text \<open>The answers of the API server and the decoders.\<close>

record config_maps_env =
  cme_client :: "go_error option"
  cme_list :: "string \<Rightarrow> config_map list result"
  cme_get :: "string \<Rightarrow> string \<Rightarrow> config_map result"
  cme_to_json :: "string \<Rightarrow> bytes result"
  cme_insights :: "string \<Rightarrow> InsightsConfigurationSerialized result"
  cme_install :: "string \<Rightarrow> install_config result"
  cme_install_json :: "install_config \<Rightarrow> string result"

definition named_items :: "('a \<Rightarrow> config_item) \<Rightarrow> (string \<times> 'a) list \<times> go_error list \<Rightarrow> (string \<times> config_item) list \<times> go_error list" where
  "named_items f x = (map (\<lambda>(n, a). (n, f a)) (fst x), snd x)"

definition config_map_parts :: "config_maps_env \<Rightarrow> ((string \<times> config_item) list \<times> go_error list) list" where
  "config_map_parts env =
     [named_items (\<lambda>(v, b). MapValue v b) (gatherConfigMaps (cme_list env ''openshift-config'')),
      named_items RawJSON (gatherConfigMap (cme_to_json env) (cme_get env ''openshift-monitoring'' ''cluster-monitoring-config'')),
      named_items RawJSON (gatherConfigMap (cme_to_json env) (cme_get env ''openshift-network-operator'' ''gateway-mode-config'')),
      named_items InsightsItem (gatherInsightsConfigCM (cme_insights env) (cme_get env ''openshift-insights'' ''insights-config'')),
      named_items InstallItem (gatherClusterConfigV1 (cme_install env) (cme_install_json env)
        (map_sum id (\<lambda>cm. (cmp_Namespace cm, cmp_Name cm, cmp_Data cm)) (cme_get env ''kube-system'' ''cluster-config-v1'')))]"

definition GatherConfigMaps :: "config_maps_env \<Rightarrow> (string \<times> config_item) list \<times> go_error list" where
  "GatherConfigMaps env =
     (case cme_client env of
        Some err \<Rightarrow> ([], [err])
      | None \<Rightarrow> (concat (map fst (config_map_parts env)), concat (map snd (config_map_parts env))))"

section \<open>What is recorded\<close>

text \<open>Binary values can be read back from the archive, as they are or with their certificates removed.\<close>

lemma binary_value_recovered:
  assumes "\<And>r block r'. decode r = Some (block, r') \<Longrightarrow> length r' < length r"
  shows "\<exists>c. ConfigMapAnonymizer_Marshal decode v True = Some c \<and>
    (std_decode c = v \<or> (\<exists>k. std_decode c = concat (replicate (Suc k) anonymizedPemBlock)))"
proof -
  have "\<exists>s. anonymizeConfigMap decode v = Some s \<and> (s = v \<or> (\<exists>k. s = concat (replicate (Suc k) anonymizedPemBlock)))"
    by (rule config_map_anonymized) (rule assms)
  then obtain s where
    "anonymizeConfigMap decode v = Some s" "s = v \<or> (\<exists>k. s = concat (replicate (Suc k) anonymizedPemBlock))" by blast
  then show ?thesis by (auto simp: ConfigMapAnonymizer_Marshal_def std_decode_encode)
qed

lemma anonymizeInsightsConfig_masked:
  "masked (px_HTTPProxy (ics_Proxy (anonymizeInsightsConfig conf)))" "masked (px_HTTPSProxy (ics_Proxy (anonymizeInsightsConfig conf)))"
  "masked (px_NoProxy (ics_Proxy (anonymizeInsightsConfig conf)))" "ics_DataReporting (anonymizeInsightsConfig conf) = ics_DataReporting conf"
  by (simp_all add: anonymizeInsightsConfig_def)

lemma part_recorded: "cme_client env = None \<Longrightarrow> x \<in> set (config_map_parts env) \<Longrightarrow> set (fst x) \<subseteq> set (fst (GatherConfigMaps env))"
  by (auto simp: GatherConfigMaps_def)

text \<open>
  What is recorded of the operator's own configuration never shows its proxies, and an unreadable map hides no other one: every value of
  the maps of openshift-config is recorded whatever happens to the rest.
\<close>

theorem config_maps_recorded:
  assumes "cme_client env = None"
  shows "(n, InsightsItem conf) \<in> set (fst (GatherConfigMaps env)) \<Longrightarrow>
      masked (px_HTTPProxy (ics_Proxy conf)) \<and> masked (px_HTTPSProxy (ics_Proxy conf)) \<and> masked (px_NoProxy (ics_Proxy conf))"
    and "cme_list env ''openshift-config'' = Inr cms \<Longrightarrow> cm \<in> set cms \<Longrightarrow> (k, v) \<in> set (cmp_Data cm) \<Longrightarrow>
      (''config/configmaps/'' @ cmp_Namespace cm @ ''/'' @ cmp_Name cm @ ''/'' @ k, MapValue v False) \<in> set (fst (GatherConfigMaps env))"
proof -
  assume "(n, InsightsItem conf) \<in> set (fst (GatherConfigMaps env))"
  with assms have "(n, conf) \<in> set (fst (gatherInsightsConfigCM (cme_insights env) (cme_get env ''openshift-insights'' ''insights-config'')))"
    by (auto simp: GatherConfigMaps_def config_map_parts_def named_items_def)
  then obtain c where "conf = anonymizeInsightsConfig c" by (auto simp: gatherInsightsConfigCM_def split: sum.splits)
  then show "masked (px_HTTPProxy (ics_Proxy conf)) \<and> masked (px_HTTPSProxy (ics_Proxy conf)) \<and> masked (px_NoProxy (ics_Proxy conf))"
    by (simp add: anonymizeInsightsConfig_masked)
next
  assume l: "cme_list env ''openshift-config'' = Inr cms" and cm: "cm \<in> set cms" and kv: "(k, v) \<in> set (cmp_Data cm)"
  define part where "part = named_items (\<lambda>(v, b). MapValue v b) (gatherConfigMaps (cme_list env ''openshift-config''))"
  have "(''config/configmaps/'' @ cmp_Namespace cm @ ''/'' @ cmp_Name cm @ ''/'' @ k, v, False) \<in> set (fst (gatherConfigMaps (Inr cms)))"
    unfolding gatherConfigMaps_def using cm kv by (auto intro!: bexI [of _ cm] image_eqI [of _ _ "(k, v)"])
  with l have "(''config/configmaps/'' @ cmp_Namespace cm @ ''/'' @ cmp_Name cm @ ''/'' @ k, MapValue v False) \<in> set (fst part)"
    unfolding part_def named_items_def by (auto intro: rev_image_eqI)
  moreover have "part \<in> set (config_map_parts env)" by (simp add: part_def config_map_parts_def)
  ultimately show "(''config/configmaps/'' @ cmp_Namespace cm @ ''/'' @ cmp_Name cm @ ''/'' @ k, MapValue v False) \<in> set (fst (GatherConfigMaps env))"
    using part_recorded [OF assms, of part] by blast
qed

end
